(* ===== verification/GRT_Prelude.thy ===== *)
theory GRT_Prelude
  imports Main "HOL-Library.Word" "HOL-Library.AList" "HOL-Library.Sublist" "HOL-Library.Multiset"
begin

text \<open>
  Shared vocabulary of the development: JavaScript's number coercions on integers, number
  printing, the bounded list reads the components share, and the collections of rewrite rules the
  component theories fill.

  A JavaScript number that the code only ever uses as an integer is an \<open>int\<close>; \<open>x >>> 0\<close> is
  \<open>to_u32\<close> and \<open>x | 0\<close> is \<open>to_i32\<close>.  The bitwise operators of the source first reduce their
  operands modulo \<open>2 ^ 32\<close>; on the operand ranges of the modelled code the integer operators
  \<open>AND\<close>, \<open>OR\<close>, \<open>push_bit\<close> and \<open>drop_bit\<close> give the same bits, and the coercion is written out
  wherever the source writes it.  Registers and addresses of the executor are \<open>32 word\<close>.
\<close>

unbundle bit_operations_syntax

named_theorems m16_defs \<open>unfolding rules of the instruction decoder\<close>
named_theorems exec_defs \<open>unfolding rules of the executor\<close>
named_theorems probe_defs \<open>unfolding rules of the probe operations\<close>

type_synonym u32 = "32 word"

section \<open>Number coercions\<close>

definition to_u32 :: "int \<Rightarrow> int" where
  "to_u32 x = take_bit 32 x"

definition to_i32 :: "int \<Rightarrow> int" where
  "to_i32 x = signed_take_bit 31 x"

lemma to_u32_range [simp]: "0 \<le> to_u32 x" "to_u32 x < 4294967296"
  using take_bit_int_less_exp [of 32 x] by (simp_all add: to_u32_def)

lemma to_u32_id [simp]: "0 \<le> x \<Longrightarrow> x < 4294967296 \<Longrightarrow> to_u32 x = x"
  by (simp add: to_u32_def take_bit_int_eq_self)

lemma to_u32_idem [simp]: "to_u32 (to_u32 x) = to_u32 x"
  by simp

lemma to_u32_uint: "to_u32 x = uint (word_of_int x :: u32)"
  by (simp add: to_u32_def unsigned_of_int)

section \<open>Printing numbers\<close>

definition radix_digit :: "int \<Rightarrow> char" where
  "radix_digit d = (if d < 10 then char_of (48 + d) else char_of (87 + d))"

function radix_string :: "int \<Rightarrow> int \<Rightarrow> string" where
  "radix_string b n =
     (if b < 2 \<or> n < b then [radix_digit n]
      else radix_string b (n div b) @ [radix_digit (n mod b)])"
  by pat_completeness auto
termination
proof (relation "measure (\<lambda>(b, n). nat n)")
  fix b n :: int
  assume "\<not> (b < 2 \<or> n < b)"
  then have "n div b < n" and "0 \<le> n div b"
    using int_div_less_self [of n b] by (auto simp: pos_imp_zdiv_nonneg_iff)
  then show "((b, n div b), (b, n)) \<in> measure (\<lambda>(b, n). nat n)"
    by simp
qed simp

declare radix_string.simps [simp del]

definition hex_string :: "int \<Rightarrow> string" where
  "hex_string n = radix_string 16 n"

definition dec_string :: "int \<Rightarrow> string" where
  "dec_string n = radix_string 10 n"

definition pad_left :: "nat \<Rightarrow> char \<Rightarrow> string \<Rightarrow> string" where
  "pad_left w c s = replicate (w - length s) c @ s"

definition pad_right :: "nat \<Rightarrow> char \<Rightarrow> string \<Rightarrow> string" where
  "pad_right w c s = s @ replicate (w - length s) c"

definition js_upper :: "string \<Rightarrow> string" where
  "js_upper = map (\<lambda>c. let n = of_char c :: int in
                        if 97 \<le> n \<and> n \<le> 122 then char_of (n - 32) else c)"

definition js_lower :: "string \<Rightarrow> string" where
  "js_lower = map (\<lambda>c. let n = of_char c :: int in
                        if 65 \<le> n \<and> n \<le> 90 then char_of (n + 32) else c)"

fun join_with :: "string \<Rightarrow> string list \<Rightarrow> string" where
  "join_with sep [] = []"
| "join_with sep [s] = s"
| "join_with sep (s # t # ss) = s @ sep @ join_with sep (t # ss)"

lemma radix_string_nonempty [simp]: "radix_string b n \<noteq> []"
  by (subst radix_string.simps) simp

lemma length_pad_left [simp]: "length (pad_left w c s) = max w (length s)"
  by (simp add: pad_left_def)

lemma length_pad_right [simp]: "length (pad_right w c s) = max w (length s)"
  by (simp add: pad_right_def)

lemma radix_value:
  assumes "2 \<le> b" "b \<le> 10" "0 \<le> n"
  shows "foldl (\<lambda>a c. b * a + (of_char c - 48)) 0 (radix_string b n) = n
    \<and> list_all (\<lambda>c. 48 \<le> (of_char c :: int) \<and> (of_char c :: int) < 58) (radix_string b n)"
  using assms
proof (induction b n rule: radix_string.induct)
  case (1 b n)
  have dig: "of_char (radix_digit d) = 48 + d" if "0 \<le> d" "d < 10" for d
    using that by (simp add: radix_digit_def of_char_of take_bit_int_eq_self)
  have m: "0 \<le> n mod b" "n mod b < b" using 1(2) by simp_all
  show ?case
  proof (cases "n < b")
    case True
    with 1 show ?thesis by (subst (1 2) radix_string.simps) (simp add: dig)
  next
    case False
    with 1(2) have "\<not> (b < 2 \<or> n < b)" by simp
    with 1 m False have "foldl (\<lambda>a c. b * a + (of_char c - 48)) 0 (radix_string b (n div b)) = n div b
      \<and> list_all (\<lambda>c. 48 \<le> (of_char c :: int) \<and> (of_char c :: int) < 58) (radix_string b (n div b))"
      by (simp add: pos_imp_zdiv_nonneg_iff)
    moreover have "of_char (radix_digit (n mod b)) = 48 + n mod b" using dig [of "n mod b"] m 1(3) by linarith
    moreover have "n mod b < 10" using m 1(3) by linarith
    ultimately show ?thesis using False 1(2) m by (subst (1 2) radix_string.simps) simp
  qed
qed

lemma dec_string_value: "0 \<le> n \<Longrightarrow> foldl (\<lambda>a c. 10 * a + (of_char c - 48)) 0 (dec_string n) = n"
  using radix_value [of 10 n] by (simp add: dec_string_def)

lemma dec_string_inj: "0 \<le> m \<Longrightarrow> 0 \<le> n \<Longrightarrow> dec_string m = dec_string n \<Longrightarrow> m = n"
  by (metis dec_string_value)

lemma dec_string_digits:
  "0 \<le> n \<Longrightarrow> c \<in> set (dec_string n) \<Longrightarrow> 48 \<le> (of_char c :: int) \<and> (of_char c :: int) < 58"
  using radix_value [of 10 n] by (auto simp: dec_string_def list_all_iff)

section \<open>Bit fields\<close>

text \<open>A mask with \<open>k\<close> low bits bounds the result; the decoder's fields all have this shape.\<close>

lemma and_mask_range:
  fixes x :: int
  assumes "m = 2 ^ k - 1"
  shows "0 \<le> x AND m" "x AND m < 2 ^ k"
  using assms take_bit_int_less_exp [of k x]
  by (simp_all add: take_bit_eq_mask [symmetric] mask_eq_exp_minus_1 [symmetric])

lemma and_mask_mod:
  fixes x :: int
  assumes "m = 2 ^ k - 1"
  shows "x AND m = x mod 2 ^ k"
  using assms by (simp add: take_bit_eq_mask [symmetric] mask_eq_exp_minus_1 [symmetric] take_bit_eq_mod)

lemma and7_range: "0 \<le> (x :: int) AND 7" "(x :: int) AND 7 < 8"
  using and_mask_range [of 7 3 x] by simp_all

lemma and31_range: "0 \<le> (x :: int) AND 31" "(x :: int) AND 31 < 32"
  using and_mask_range [of 31 5 x] by simp_all

lemma nat_cases8:
  assumes "0 \<le> (f :: int)" "f < 8"
  shows "f = 0 \<or> f = 1 \<or> f = 2 \<or> f = 3 \<or> f = 4 \<or> f = 5 \<or> f = 6 \<or> f = 7"
  using assms by arith

lemma int_and_take:
  fixes x :: int
  shows "x AND 1 = take_bit 1 x" "x AND 3 = take_bit 2 x" "x AND 7 = take_bit 3 x"
    "x AND 15 = take_bit 4 x" "x AND 31 = take_bit 5 x" "x AND 63 = take_bit 6 x"
    "x AND 127 = take_bit 7 x" "x AND 255 = take_bit 8 x" "x AND 2047 = take_bit 11 x"
    "x AND 65535 = take_bit 16 x"
  by (simp_all add: take_bit_eq_mask mask_eq_exp_minus_1)

lemma nat_and31 [simp]: "nat (x AND 31) < 32"
  using and31_range [of x] by linarith

lemma and3_cases: "(x :: int) AND 3 \<in> {0, 1, 2, 3}"
proof -
  have "0 \<le> x AND 3" "x AND 3 < 4" using and_mask_range [of 3 2 x] by simp_all
  then have "x AND 3 = 0 \<or> x AND 3 = 1 \<or> x AND 3 = 2 \<or> x AND 3 = 3" by presburger
  then show ?thesis by auto
qed

section \<open>Byte arrays\<close>

text \<open>A \<open>Uint8Array\<close>, or an array the code fills with bytes, is a list of integers from 0 to 255.\<close>

definition byte_list :: "int list \<Rightarrow> bool" where
  "byte_list = list_all (\<lambda>b. 0 \<le> b \<and> b < 256)"

lemma byte_list_simps [simp]: "byte_list []" "byte_list (b # bs) \<longleftrightarrow> 0 \<le> b \<and> b < 256 \<and> byte_list bs"
  "byte_list (xs @ ys) \<longleftrightarrow> byte_list xs \<and> byte_list ys"
  by (simp_all add: byte_list_def conj_assoc)

lemma byte_list_replicate [simp]: "byte_list (replicate n b) \<longleftrightarrow> n = 0 \<or> 0 \<le> b \<and> b < 256"
  by (induction n) auto

lemma byte_list_take_drop: "byte_list bs \<Longrightarrow> byte_list (take n bs)" "byte_list bs \<Longrightarrow> byte_list (drop n bs)"
  by (auto simp: byte_list_def list_all_iff dest: in_set_takeD in_set_dropD)

lemma byte_list_nth: "byte_list bs \<Longrightarrow> i < length bs \<Longrightarrow> 0 \<le> bs ! i \<and> bs ! i < 256"
  by (simp add: byte_list_def list_all_length)

section \<open>Results\<close>

text \<open>A computation that may throw gives \<open>Inl\<close> the error or \<open>Inr\<close> the value; \<open>and_then\<close> goes on with the value.\<close>

fun and_then :: "'e + 'a \<Rightarrow> ('a \<Rightarrow> 'e + 'b) \<Rightarrow> 'e + 'b" where
  "and_then (Inl e) k = Inl e"
| "and_then (Inr a) k = k a"

fun collect :: "('a \<Rightarrow> 'e + 'b) \<Rightarrow> 'a list \<Rightarrow> 'e + 'b list" where
  "collect f [] = Inr []"
| "collect f (x # xs) = and_then (f x) (\<lambda>y. and_then (collect f xs) (\<lambda>ys. Inr (y # ys)))"

lemma and_then_Inr [simp]: "and_then x k = Inr b \<longleftrightarrow> (\<exists>a. x = Inr a \<and> k a = Inr b)"
  by (cases x) auto

lemma and_then_isl: "isl (and_then x k) \<longleftrightarrow> isl x \<or> (\<exists>a. x = Inr a \<and> isl (k a))"
  by (cases x) auto

lemma collect_fails: "isl (collect f xs) \<longleftrightarrow> (\<exists>x \<in> set xs. isl (f x))"
proof (induction xs)
  case (Cons x xs)
  then show ?case by (cases "f x"; cases "collect f xs") auto
qed simp

end
