(* ===== verification/M16_Base.thy ===== *)
theory M16_Base
  imports GRT_Prelude
begin

text \<open>
  The data of the MIPS16e decoder and executor of \<open>reference/mips16.js\<close>: register numbering, the
  number printers, the instruction record \<open>Insn\<close>, the execution payload \<open>x\<close>, the immediate
  assembly of EXTEND-prefixed instructions and the encoding tables.

  The decoder works on JavaScript numbers, here \<open>int\<close>; a value that may be \<open>null\<close> is an
  \<open>option\<close>.  An instruction's payload is the object literal \<open>{k: ..., d: ..., imm: ...}\<close> the
  decoder builds: a record whose fields are options, \<open>None\<close> where the literal has no such field.
\<close>

section \<open>Registers\<close>

definition XLAT :: "nat list" where
  "XLAT = [16, 17, 2, 3, 4, 5, 6, 7]"

definition REG_NAMES :: "string list" where
  "REG_NAMES = [
    ''zero'', ''at'', ''v0'', ''v1'', ''a0'', ''a1'', ''a2'', ''a3'',
    ''t0'', ''t1'', ''t2'', ''t3'', ''t4'', ''t5'', ''t6'', ''t7'',
    ''s0'', ''s1'', ''s2'', ''s3'', ''s4'', ''s5'', ''s6'', ''s7'',
    ''t8'', ''t9'', ''k0'', ''k1'', ''gp'', ''sp'', ''s8'', ''ra'']"

definition GPR_T :: nat where "GPR_T = 24"
definition GPR_SP :: nat where "GPR_SP = 29"
definition GPR_RA :: nat where "GPR_RA = 31"

definition xl :: "int \<Rightarrow> nat" where
  "xl f3 = XLAT ! nat (f3 AND 7)"

definition rn :: "int \<Rightarrow> string" where
  "rn f3 = REG_NAMES ! (XLAT ! nat (f3 AND 7))"

definition rn32 :: "int \<Rightarrow> string" where
  "rn32 n = REG_NAMES ! nat (n AND 31)"

section \<open>Small helpers\<close>

definition hexs :: "int \<Rightarrow> string" where
  "hexs n = (if n < 0 then ''-0x'' @ hex_string (- n) else ''0x'' @ hex_string n)"

definition uhex :: "int \<Rightarrow> string" where
  "uhex n = ''0x'' @ hex_string (to_u32 n)"

definition sx :: "int \<Rightarrow> nat \<Rightarrow> int" where
  "sx v bits =
     (let sign = push_bit (bits - 1) 1 in (v AND (sign - 1)) - (v AND sign))"

section \<open>Instructions and payloads\<close>

record payload =
  p_k :: string
  p_d :: "nat option"
  p_s :: "nat option"
  p_t :: "nat option"
  p_r :: "nat option"
  p_b :: "nat option"
  p_sh :: "nat option"
  p_imm :: "int option"
  p_off :: "int option"
  p_sa :: "int option"
  p_tgt :: "int option"
  p_name :: "string option"
  p_code :: "int option"
  p_framesize :: "int option"
  p_ra :: "int option"
  p_s0 :: "int option"
  p_s1 :: "int option"
  p_xsregs :: "int option"
  p_aregs :: "int option"
  p_val :: "int option"
  p_ea :: "int option"

definition pay :: "string \<Rightarrow> payload" where
  "pay k = \<lparr>p_k = k, p_d = None, p_s = None, p_t = None, p_r = None, p_b = None, p_sh = None,
     p_imm = None, p_off = None, p_sa = None, p_tgt = None, p_name = None, p_code = None,
     p_framesize = None, p_ra = None, p_s0 = None, p_s1 = None, p_xsregs = None, p_aregs = None,
     p_val = None, p_ea = None\<rparr>"

record insn =
  i_op :: string
  i_operands :: "string list"
  i_length :: int
  i_target :: "int option"
  i_targetIsa :: "int option"
  i_needsNext :: bool
  i_reason :: "string option"
  i_isa64 :: bool
  i_legacy :: bool
  i_notext :: bool
  i_x :: "payload option"

definition Insn :: "string \<Rightarrow> string list \<Rightarrow> int \<Rightarrow> insn" where
  "Insn op operands len = \<lparr>i_op = op, i_operands = operands, i_length = len, i_target = None,
     i_targetIsa = None, i_needsNext = False, i_reason = None, i_isa64 = False, i_legacy = False,
     i_notext = False, i_x = None\<rparr>"

definition insn_text :: "insn \<Rightarrow> string" where
  "insn_text ins =
     (if i_operands ins = [] then i_op ins
      else pad_right 9 CHR '' '' (i_op ins) @ '' '' @ join_with '','' (i_operands ins))"

definition unk :: "string \<Rightarrow> int \<Rightarrow> bool \<Rightarrow> insn" where
  "unk reason len notext =
     (Insn ''UNKNOWN'' [] len)\<lparr>i_reason := Some reason, i_notext := notext\<rparr>"

definition notextInsn :: "string \<Rightarrow> insn" where
  "notextInsn what = unk (what @ '' is not extensible; EXTEND prefix is illegal'') 4 True"

section \<open>Immediate assembly for EXTEND-prefixed instructions\<close>

definition extImm16 :: "int \<Rightarrow> int \<Rightarrow> int" where
  "extImm16 ext insn =
     push_bit 11 (ext AND 0x1F) OR push_bit 5 (drop_bit 5 ext AND 0x3F) OR (insn AND 0x1F)"

definition extImm15Rria :: "int \<Rightarrow> int \<Rightarrow> int" where
  "extImm15Rria ext insn =
     push_bit 11 (ext AND 0xF) OR push_bit 4 (drop_bit 4 ext AND 0x7F) OR (insn AND 0xF)"

section \<open>Encoding tables\<close>

text \<open>The RR function table: name, kind and the 64-bit-only flag; \<open>None\<close> is a reserved entry.\<close>

definition RR_FUNCT :: "(string option \<times> string option \<times> bool) list" where
  "RR_FUNCT = [
     (Some ''J(AL)R(C)'', Some ''d'', False), (Some ''sdbbp'', Some ''code'', False),
     (Some ''slt'', Some ''a2'', False), (Some ''sltu'', Some ''a2'', False),
     (Some ''sllv'', Some ''sv'', False), (Some ''break'', Some ''code'', False),
     (Some ''srlv'', Some ''sv'', False), (Some ''srav'', Some ''sv'', False),
     (Some ''dsrl'', Some ''sh64'', True), (None, None, False),
     (Some ''cmp'', Some ''a2'', False), (Some ''neg'', Some ''a2'', False),
     (Some ''and'', Some ''a2'', False), (Some ''or'', Some ''a2'', False),
     (Some ''xor'', Some ''a2'', False), (Some ''not'', Some ''a2'', False),
     (Some ''mfhi'', Some ''r1'', False), (Some ''CNVT'', Some ''d'', False),
     (Some ''mflo'', Some ''r1'', False), (Some ''dsra'', Some ''sh64'', True),
     (Some ''dsllv'', Some ''sv'', True), (None, None, False),
     (Some ''dsrlv'', Some ''sv'', True), (Some ''dsrav'', Some ''sv'', True),
     (Some ''mult'', Some ''a2'', False), (Some ''multu'', Some ''a2'', False),
     (Some ''div'', Some ''dv'', False), (Some ''divu'', Some ''dv'', False),
     (Some ''dmult'', Some ''a2'', True), (Some ''dmultu'', Some ''a2'', True),
     (Some ''ddiv'', Some ''dv'', True), (Some ''ddivu'', Some ''dv'', True)]"

definition JALRC :: "int \<Rightarrow> string option" where
  "JALRC ry = map_of [(0, ''JR_RX''), (1, ''JR_RA''), (2, ''JALR''), (4, ''JRC_RX''),
     (5, ''JRC_RA''), (6, ''JALRC'')] ry"

definition JALRC_NAME :: "string \<Rightarrow> string" where
  "JALRC_NAME sel = the (map_of [(''JR_RX'', ''jr''), (''JR_RA'', ''jr''), (''JALR'', ''jalr''),
     (''JRC_RX'', ''jrc''), (''JRC_RA'', ''jrc''), (''JALRC'', ''jalrc'')] sel)"

definition CNVT :: "int \<Rightarrow> (string \<times> bool) option" where
  "CNVT ry = map_of [(0, (''zeb'', False)), (1, (''zeh'', False)), (2, (''zew'', True)),
     (4, (''seb'', False)), (5, (''seh'', False)), (6, (''sew'', True))] ry"

definition I8 :: "int \<Rightarrow> string option" where
  "I8 f = map_of [(0, ''BTEQZ''), (1, ''BTNEZ''), (2, ''SWRASP''), (3, ''ADJSP''),
     (4, ''SVRS''), (5, ''MOV32R''), (7, ''MOVR32'')] f"

text \<open>
  The argument-register table of SAVE and RESTORE: how many argument registers are saved, and the
  static registers.  An entry the table does not have (\<open>0b1111\<close>) is \<open>undefined\<close> in the source.
\<close>

definition AREGS :: "int \<Rightarrow> (nat \<times> string list) option" where
  "AREGS a = map_of [
     (0x0, (0, [])), (0x1, (0, [''a3''])),
     (0x2, (0, [''a2'', ''a3''])), (0x3, (0, [''a1'', ''a2'', ''a3''])),
     (0x4, (1, [])), (0x5, (1, [''a3''])),
     (0x6, (1, [''a2'', ''a3''])), (0x7, (1, [''a1'', ''a2'', ''a3''])),
     (0x8, (2, [])), (0x9, (2, [''a3''])),
     (0xA, (2, [''a2'', ''a3''])), (0xB, (0, [''a0'', ''a1'', ''a2'', ''a3''])),
     (0xC, (3, [])), (0xD, (3, [''a3''])),
     (0xE, (4, []))] a"

definition XSREGS :: "string option list" where
  "XSREGS = [None, Some ''s2'', Some ''s3'', Some ''s4'', Some ''s5'', Some ''s6'', Some ''s7'',
     Some ''s8'']"

definition SREG_ORDER :: "string list" where
  "SREG_ORDER = [''s0'', ''s1'', ''s2'', ''s3'', ''s4'', ''s5'', ''s6'', ''s7'', ''s8'']"

definition MEM_OPS :: "int \<Rightarrow> (string \<times> nat \<times> bool) option" where
  "MEM_OPS op = map_of [
     (0x10, (''lb'', 0, False)), (0x11, (''lh'', 1, False)), (0x13, (''lw'', 2, False)),
     (0x14, (''lbu'', 0, False)), (0x15, (''lhu'', 1, False)), (0x17, (''lwu'', 2, True)),
     (0x18, (''sb'', 0, False)), (0x19, (''sh'', 1, False)), (0x1B, (''sw'', 2, False))] op"

definition SHIFT_NAMES :: "int \<Rightarrow> string" where
  "SHIFT_NAMES f = the (map_of [(0, ''sll''), (1, ''dsll''), (2, ''srl''), (3, ''sra'')] f)"

definition RRR_NAMES :: "int \<Rightarrow> string" where
  "RRR_NAMES f = the (map_of [(0, ''daddu''), (1, ''addu''), (2, ''dsubu''), (3, ''subu'')] f)"

end
