(* ===== verification/M16_Decode.thy ===== *)
theory M16_Decode
  imports M16_Base
begin

text \<open>
  The MIPS16e decoder: \<open>decode\<close> of \<open>reference/mips16.js\<close>, one definition per opcode group of the
  source, in the source's order, with \<open>decode_body\<close> as the chain of \<open>if (op === ...)\<close> blocks and
  \<open>decode\<close> around it with the argument checks that raise.
\<close>

section \<open>The decoder's local functions\<close>

definition ext_len :: "int option \<Rightarrow> int" where
  "ext_len ext = (if ext = None then 2 else 4)"

definition gate :: "int \<Rightarrow> insn \<Rightarrow> insn" where
  "gate isa ins =
     (if i_isa64 ins \<and> isa = 32
      then unk (i_op ins @ '' is a MIPS64-only (beta) encoding; Reserved on MIPS32'')
             (i_length ins) False
      else ins)"

definition zfield :: "int option \<Rightarrow> int \<Rightarrow> int \<Rightarrow> string \<Rightarrow> insn option" where
  "zfield ext insn msk what =
     (if ext \<noteq> None \<and> insn AND msk \<noteq> 0
      then Some (unk (''extended '' @ what @ '' with non-zero constant field ''
                   @ ''(MD00076 requires it zero; this is MIPS16e2 space)'') 4 True)
      else None)"

definition br :: "int option \<Rightarrow> int option \<Rightarrow> int \<Rightarrow> string \<times> int option" where
  "br addr ext off =
     (case addr of None \<Rightarrow> (hexs off, None)
      | Some a \<Rightarrow> (let t = to_u32 (a + ext_len ext + off) in (uhex (t OR 1), Some t)))"

definition imm_or :: "int option \<Rightarrow> int \<Rightarrow> int \<Rightarrow> int" where
  "imm_or ext insn short = (case ext of None \<Rightarrow> short | Some e \<Rightarrow> sx (extImm16 e insn) 16)"

definition bits5 :: "int \<Rightarrow> string" where
  "bits5 v = pad_left 5 CHR ''0'' (radix_string 2 (v AND 0x1F))"

section \<open>SAVE and RESTORE\<close>

definition svrs_rng :: "string list \<Rightarrow> string" where
  "svrs_rng regs = (if length regs = 1 then hd regs else hd regs @ ''-'' @ last regs)"

fun svrs_runs :: "string list \<Rightarrow> string list \<Rightarrow> string list \<Rightarrow> string list" where
  "svrs_runs saved cur [] = (if cur \<noteq> [] then [svrs_rng cur] else [])"
| "svrs_runs saved cur (r # order) =
     (if r \<in> set saved then svrs_runs saved (cur @ [r]) order
      else if cur \<noteq> [] then svrs_rng cur # svrs_runs saved [] order
      else svrs_runs saved [] order)"

definition svrs_saved :: "int \<Rightarrow> int \<Rightarrow> int \<Rightarrow> string list" where
  "svrs_saved s0 s1 xsregs =
     (if s0 \<noteq> 0 then [''s0''] else []) @ (if s1 \<noteq> 0 then [''s1''] else [])
     @ List.map_filter (\<lambda>i. XSREGS ! i) [1..<Suc (nat xsregs)]"

definition svrs_operands ::
  "nat \<times> string list \<Rightarrow> int \<Rightarrow> int \<Rightarrow> int \<Rightarrow> int \<Rightarrow> int \<Rightarrow> string list" where
  "svrs_operands got framesize ra s0 s1 xsregs =
     (let (args, statics) = got in
      (if args \<noteq> 0 then [svrs_rng (map (\<lambda>i. ''a'' @ dec_string (int i)) [0..<args])] else [])
      @ [dec_string framesize]
      @ (if ra \<noteq> 0 then [''ra''] else [])
      @ svrs_runs (svrs_saved s0 s1 xsregs) [] SREG_ORDER
      @ (if statics \<noteq> [] then [svrs_rng statics] else []))"

definition svrs :: "int option \<Rightarrow> int \<Rightarrow> insn" where
  "svrs ext insn =
     (let s = drop_bit 7 insn AND 1;
          ra = drop_bit 6 insn AND 1;
          s0 = drop_bit 5 insn AND 1;
          s1 = drop_bit 4 insn AND 1;
          fsLo = insn AND 0xF;
          name = (if s \<noteq> 0 then ''save'' else ''restore'');
          fields = (case ext of
              None \<Rightarrow> (if fsLo \<noteq> 0 then fsLo * 8 else 128, 0, 0)
            | Some e \<Rightarrow> ((push_bit 4 (drop_bit 4 e AND 0xF) OR fsLo) * 8,
                        drop_bit 8 e AND 7, e AND 0xF));
          framesize = fst fields; xsregs = fst (snd fields); aregs = snd (snd fields)
      in if ext \<noteq> None \<and> aregs = 0xF
         then unk ''SAVE/RESTORE aregs=0b1111 is Reserved'' 4 False
         else
           (Insn name (svrs_operands (the (AREGS aregs)) framesize ra s0 s1 xsregs) (ext_len ext))
             \<lparr>i_x := Some ((pay name)\<lparr>p_framesize := Some framesize, p_ra := Some ra,
                p_s0 := Some s0, p_s1 := Some s1, p_xsregs := Some xsregs,
                p_aregs := Some aregs\<rparr>)\<rparr>)"

section \<open>One definition per opcode group\<close>

definition dec_addiusp :: "int \<Rightarrow> int option \<Rightarrow> int \<Rightarrow> insn" where
  "dec_addiusp insn ext rx =
     (case zfield ext insn 0xE0 ''ADDIUSP'' of Some bad \<Rightarrow> bad | None \<Rightarrow>
      let imm = imm_or ext insn (push_bit 2 (insn AND 0xFF)) in
      (Insn ''addiu'' [rn rx, ''sp'', hexs imm] (ext_len ext))
        \<lparr>i_x := Some ((pay ''addiusp'')\<lparr>p_d := Some (xl rx), p_imm := Some imm\<rparr>)\<rparr>)"

definition dec_addiupc :: "int \<Rightarrow> int option \<Rightarrow> int \<Rightarrow> int option \<Rightarrow> insn" where
  "dec_addiupc insn ext rx pcb =
     (case zfield ext insn 0xE0 ''ADDIUPC'' of Some bad \<Rightarrow> bad | None \<Rightarrow>
      let imm = imm_or ext insn (push_bit 2 (insn AND 0xFF)) in
      case pcb of
        None \<Rightarrow> (Insn ''addiu'' [rn rx, ''pc'', hexs imm] (ext_len ext))
          \<lparr>i_x := Some ((pay ''addiupc'')\<lparr>p_d := Some (xl rx), p_imm := Some imm\<rparr>)\<rparr>
      | Some p \<Rightarrow>
          let t = to_u32 (to_u32 (p AND NOT 3) + imm) in
          (Insn ''la'' [rn rx, uhex t] (ext_len ext))
            \<lparr>i_target := Some t,
             i_x := Some ((pay ''addiupc'')\<lparr>p_d := Some (xl rx), p_imm := Some imm,
                          p_val := Some t\<rparr>)\<rparr>)"

definition dec_b :: "int \<Rightarrow> int option \<Rightarrow> int option \<Rightarrow> insn" where
  "dec_b insn ext addr =
     (case (if ext = None then None else zfield ext insn 0x7E0 ''B'') of Some bad \<Rightarrow> bad | None \<Rightarrow>
      let off = (case ext of None \<Rightarrow> push_bit 1 (sx (insn AND 0x7FF) 11)
                 | Some e \<Rightarrow> push_bit 1 (sx (extImm16 e insn) 16));
          txt = br addr ext off in
      (Insn ''b'' [fst txt] (ext_len ext))
        \<lparr>i_target := snd txt, i_targetIsa := Some 16,
         i_x := Some ((pay ''b'')\<lparr>p_off := Some off\<rparr>)\<rparr>)"

definition dec_jal :: "int \<Rightarrow> int option \<Rightarrow> int option \<Rightarrow> int option \<Rightarrow> insn" where
  "dec_jal insn ext nextHw addr =
     (if ext \<noteq> None then notextInsn ''JAL/JALX'' else
      let x = drop_bit 10 insn AND 1;
          name = (if x \<noteq> 0 then ''jalx'' else ''jal'') in
      case nextHw of
        None \<Rightarrow> (Insn name [''<second halfword required>''] 4)\<lparr>i_needsNext := True\<rparr>
      | Some nh \<Rightarrow>
          let idx = push_bit 21 (insn AND 0x1F) OR push_bit 16 (drop_bit 5 insn AND 0x1F)
                      OR (nh AND 0xFFFF) in
          (case addr of
             None \<Rightarrow> (Insn name [''0x'' @ pad_left 7 CHR ''0'' (hex_string idx)] 4)
                       \<lparr>i_targetIsa := Some (if x \<noteq> 0 then 32 else 16)\<rparr>
           | Some a \<Rightarrow>
               let t = to_u32 (((a + 4) AND 0xF0000000) OR push_bit 2 idx);
                   shown = (if x \<noteq> 0 then t else t OR 1) in
               (Insn name [uhex shown] 4)
                 \<lparr>i_target := Some t, i_targetIsa := Some (if x \<noteq> 0 then 32 else 16),
                  i_x := Some ((pay (if x \<noteq> 0 then ''jalx'' else ''jal''))\<lparr>p_tgt := Some t\<rparr>)\<rparr>))"

definition dec_beqz :: "int \<Rightarrow> int \<Rightarrow> int option \<Rightarrow> int \<Rightarrow> int option \<Rightarrow> insn" where
  "dec_beqz op insn ext rx addr =
     (let name = (if op = 0x04 then ''beqz'' else ''bnez'') in
      case (if ext = None then None else zfield ext insn 0xE0 (js_upper name)) of
        Some bad \<Rightarrow> bad
      | None \<Rightarrow>
          let off = (case ext of None \<Rightarrow> push_bit 1 (sx (insn AND 0xFF) 8)
                     | Some e \<Rightarrow> push_bit 1 (sx (extImm16 e insn) 16));
              txt = br addr ext off in
          (Insn name [rn rx, fst txt] (ext_len ext))
            \<lparr>i_target := snd txt, i_targetIsa := Some 16,
             i_x := Some ((pay name)\<lparr>p_s := Some (xl rx), p_off := Some off\<rparr>)\<rparr>)"

definition shift_fin :: "int \<Rightarrow> int \<Rightarrow> int \<Rightarrow> int option \<Rightarrow> int \<Rightarrow> int \<Rightarrow> insn" where
  "shift_fin isa f sa ext rx ry =
     (let name = SHIFT_NAMES f;
          ops = (if rx = ry then [rn rx, dec_string sa]
                 else [rn rx, rn ry, dec_string sa]) in
      gate isa ((Insn name ops (ext_len ext))
        \<lparr>i_isa64 := (f = 1),
         i_x := Some ((pay name)\<lparr>p_d := Some (xl rx), p_s := Some (xl ry), p_sa := Some sa\<rparr>)\<rparr>))"

definition dec_shift :: "int \<Rightarrow> int option \<Rightarrow> int \<Rightarrow> int \<Rightarrow> int \<Rightarrow> insn" where
  "dec_shift insn ext rx ry isa =
     (let f = insn AND 3 in
      case ext of
        None \<Rightarrow>
          let sa = drop_bit 2 insn AND 7 in
          shift_fin isa f (if sa = 0 then 8 else sa) ext rx ry
      | Some e \<Rightarrow>
          if drop_bit 2 insn AND 7 \<noteq> 0
          then unk ''extended SHIFT with non-zero sa field'' 4 False
          else if e AND 0x1F \<noteq> 0
          then unk ''extended SHIFT with non-zero bits 20..16'' 4 True
          else
            let sa = drop_bit 6 e AND 0x1F in
            if drop_bit 5 e AND 1 \<noteq> 0
            then if f \<noteq> 1 then unk ''extended SHIFT with s5 set on a 32-bit shift'' 4 False
                 else shift_fin isa f (sa + 32) ext rx ry
            else shift_fin isa f sa ext rx ry)"

definition dec_ld_sd :: "string \<Rightarrow> int \<Rightarrow> int option \<Rightarrow> int \<Rightarrow> int \<Rightarrow> int \<Rightarrow> insn" where
  "dec_ld_sd name insn ext rx ry isa =
     (let off = imm_or ext insn (push_bit 3 (insn AND 0x1F)) in
      gate isa ((Insn name [rn ry, hexs off @ ''('' @ rn rx @ '')''] (ext_len ext))
        \<lparr>i_isa64 := True\<rparr>))"

definition dec_rria :: "int \<Rightarrow> int option \<Rightarrow> int \<Rightarrow> int \<Rightarrow> int \<Rightarrow> insn" where
  "dec_rria insn ext rx ry isa =
     (let f = drop_bit 4 insn AND 1;
          name = (if f \<noteq> 0 then ''daddiu'' else ''addiu'');
          imm = (case ext of None \<Rightarrow> sx (insn AND 0xF) 4
                 | Some e \<Rightarrow> sx (extImm15Rria e insn) 15) in
      gate isa ((Insn name [rn ry, rn rx, hexs imm] (ext_len ext))
        \<lparr>i_isa64 := (f \<noteq> 0),
         i_x := Some ((pay ''addiu_rri'')\<lparr>p_d := Some (xl ry), p_s := Some (xl rx),
                      p_imm := Some imm\<rparr>)\<rparr>))"

definition dec_addiu8 :: "int \<Rightarrow> int option \<Rightarrow> int \<Rightarrow> insn" where
  "dec_addiu8 insn ext rx =
     (case zfield ext insn 0xE0 ''ADDIU8'' of Some bad \<Rightarrow> bad | None \<Rightarrow>
      let imm = imm_or ext insn (sx (insn AND 0xFF) 8) in
      (Insn ''addiu'' [rn rx, hexs imm] (ext_len ext))
        \<lparr>i_x := Some ((pay ''addiu8'')\<lparr>p_d := Some (xl rx), p_imm := Some imm\<rparr>)\<rparr>)"

definition dec_slti :: "int \<Rightarrow> int \<Rightarrow> int option \<Rightarrow> int \<Rightarrow> insn" where
  "dec_slti op insn ext rx =
     (let name = (if op = 0x0A then ''slti'' else ''sltiu'') in
      case zfield ext insn 0xE0 (js_upper name) of Some bad \<Rightarrow> bad | None \<Rightarrow>
      let imm = imm_or ext insn (insn AND 0xFF) in
      (Insn name [rn rx, hexs imm] (ext_len ext))
        \<lparr>i_x := Some ((pay name)\<lparr>p_s := Some (xl rx), p_imm := Some imm\<rparr>)\<rparr>)"

definition dec_i8_branch :: "string \<Rightarrow> int \<Rightarrow> int option \<Rightarrow> int option \<Rightarrow> insn" where
  "dec_i8_branch kind insn ext addr =
     (let name = js_lower kind in
      case (if ext = None then None else zfield ext insn 0xE0 kind) of Some bad \<Rightarrow> bad | None \<Rightarrow>
      let off = (case ext of None \<Rightarrow> push_bit 1 (sx (insn AND 0xFF) 8)
                 | Some e \<Rightarrow> push_bit 1 (sx (extImm16 e insn) 16));
          txt = br addr ext off in
      (Insn name [fst txt] (ext_len ext))
        \<lparr>i_target := snd txt, i_targetIsa := Some 16,
         i_x := Some ((pay name)\<lparr>p_off := Some off\<rparr>)\<rparr>)"

definition dec_swrasp :: "int \<Rightarrow> int option \<Rightarrow> insn" where
  "dec_swrasp insn ext =
     (case zfield ext insn 0xE0 ''SWRASP'' of Some bad \<Rightarrow> bad | None \<Rightarrow>
      let off = imm_or ext insn (push_bit 2 (insn AND 0xFF)) in
      (Insn ''sw'' [''ra'', hexs off @ ''(sp)''] (ext_len ext))
        \<lparr>i_x := Some ((pay ''swrasp'')\<lparr>p_off := Some off\<rparr>)\<rparr>)"

definition dec_adjsp :: "int \<Rightarrow> int option \<Rightarrow> insn" where
  "dec_adjsp insn ext =
     (case zfield ext insn 0xE0 ''ADJSP'' of Some bad \<Rightarrow> bad | None \<Rightarrow>
      let imm = imm_or ext insn (push_bit 3 (sx (insn AND 0xFF) 8)) in
      (Insn ''addiu'' [''sp'', hexs imm] (ext_len ext))
        \<lparr>i_x := Some ((pay ''adjsp'')\<lparr>p_imm := Some imm\<rparr>)\<rparr>)"

definition dec_mov32r :: "int \<Rightarrow> insn" where
  "dec_mov32r insn =
     (let fld = drop_bit 3 insn AND 0x1F;
          r32 = push_bit 3 (fld AND 3) OR (drop_bit 2 fld AND 7);
          rz = insn AND 7 in
      if r32 = 0 \<and> rz = 0
      then (Insn ''nop'' [] 2)\<lparr>i_x := Some ((pay ''move'')\<lparr>p_d := Some 0, p_s := Some 0\<rparr>)\<rparr>
      else (Insn ''move'' [rn32 r32, rn rz] 2)
             \<lparr>i_x := Some ((pay ''move'')\<lparr>p_d := Some (nat r32), p_s := Some (xl rz)\<rparr>)\<rparr>)"

definition dec_movr32 :: "int \<Rightarrow> int \<Rightarrow> insn" where
  "dec_movr32 insn ry =
     (Insn ''move'' [rn ry, rn32 (insn AND 0x1F)] 2)
       \<lparr>i_x := Some ((pay ''move'')\<lparr>p_d := Some (xl ry), p_s := Some (nat (insn AND 0x1F))\<rparr>)\<rparr>"

definition dec_i8 :: "int \<Rightarrow> int option \<Rightarrow> int \<Rightarrow> int option \<Rightarrow> insn" where
  "dec_i8 insn ext ry addr =
     (let funct = drop_bit 8 insn AND 7 in
      case I8 funct of
        None \<Rightarrow> unk (''I8 funct='' @ dec_string funct @ '' is Reserved'') (ext_len ext) False
      | Some kind \<Rightarrow>
          if kind = ''BTEQZ'' \<or> kind = ''BTNEZ'' then dec_i8_branch kind insn ext addr
          else if kind = ''SWRASP'' then dec_swrasp insn ext
          else if kind = ''ADJSP'' then dec_adjsp insn ext
          else if kind = ''SVRS'' then svrs ext insn
          else if ext \<noteq> None then notextInsn (''I8 '' @ kind)
          else if kind = ''MOV32R'' then dec_mov32r insn
          else dec_movr32 insn ry)"

definition dec_li :: "int \<Rightarrow> int option \<Rightarrow> int \<Rightarrow> insn" where
  "dec_li insn ext rx =
     (case zfield ext insn 0xE0 ''LI'' of Some bad \<Rightarrow> bad | None \<Rightarrow>
      let imm = (case ext of None \<Rightarrow> insn AND 0xFF | Some e \<Rightarrow> extImm16 e insn) in
      (Insn ''li'' [rn rx, hexs imm] (ext_len ext))
        \<lparr>i_x := Some ((pay ''li'')\<lparr>p_d := Some (xl rx), p_imm := Some imm\<rparr>)\<rparr>)"

definition dec_cmpi :: "int \<Rightarrow> int option \<Rightarrow> int \<Rightarrow> insn" where
  "dec_cmpi insn ext rx =
     (case zfield ext insn 0xE0 ''CMPI'' of Some bad \<Rightarrow> bad | None \<Rightarrow>
      let imm = (case ext of None \<Rightarrow> insn AND 0xFF | Some e \<Rightarrow> extImm16 e insn) in
      (Insn ''cmpi'' [rn rx, hexs imm] (ext_len ext))
        \<lparr>i_x := Some ((pay ''cmpi'')\<lparr>p_s := Some (xl rx), p_imm := Some imm\<rparr>)\<rparr>)"

definition dec_mem :: "string \<times> nat \<times> bool \<Rightarrow> int \<Rightarrow> int option \<Rightarrow> int \<Rightarrow> int \<Rightarrow> int \<Rightarrow> insn" where
  "dec_mem got insn ext rx ry isa =
     (let (name, shift, is64) = got;
          off = imm_or ext insn (push_bit shift (insn AND 0x1F)) in
      gate isa ((Insn name [rn ry, hexs off @ ''('' @ rn rx @ '')''] (ext_len ext))
        \<lparr>i_isa64 := is64,
         i_x := Some ((pay name)\<lparr>p_r := Some (xl ry), p_b := Some (xl rx), p_off := Some off\<rparr>)\<rparr>))"

definition dec_lwsp :: "int \<Rightarrow> int \<Rightarrow> int option \<Rightarrow> int \<Rightarrow> insn" where
  "dec_lwsp op insn ext rx =
     (let name = (if op = 0x12 then ''lw'' else ''sw'') in
      case zfield ext insn 0xE0 ''LWSP/SWSP'' of Some bad \<Rightarrow> bad | None \<Rightarrow>
      let off = imm_or ext insn (push_bit 2 (insn AND 0xFF)) in
      (Insn name [rn rx, hexs off @ ''(sp)''] (ext_len ext))
        \<lparr>i_x := Some ((pay (if op = 0x12 then ''lwsp'' else ''swsp''))
           \<lparr>p_r := Some (xl rx), p_off := Some off\<rparr>)\<rparr>)"

definition dec_lwpc :: "int \<Rightarrow> int option \<Rightarrow> int \<Rightarrow> int option \<Rightarrow> insn" where
  "dec_lwpc insn ext rx pcb =
     (case zfield ext insn 0xE0 ''LWPC'' of Some bad \<Rightarrow> bad | None \<Rightarrow>
      let off = imm_or ext insn (push_bit 2 (insn AND 0xFF)) in
      case pcb of
        None \<Rightarrow> (Insn ''lw'' [rn rx, hexs off @ ''(pc)''] (ext_len ext))
          \<lparr>i_x := Some ((pay ''lwpc'')\<lparr>p_d := Some (xl rx), p_off := Some off\<rparr>)\<rparr>
      | Some p \<Rightarrow>
          let t = to_u32 (to_u32 (p AND NOT 3) + off) in
          (Insn ''lw'' [rn rx, uhex t] (ext_len ext))
            \<lparr>i_target := Some t,
             i_x := Some ((pay ''lwpc'')\<lparr>p_d := Some (xl rx), p_off := Some off,
                          p_ea := Some t\<rparr>)\<rparr>)"

definition dec_extend :: "int \<Rightarrow> int option \<Rightarrow> insn" where
  "dec_extend insn ext =
     (if ext \<noteq> None then notextInsn ''EXTEND''
      else (Insn ''extend'' [uhex (insn AND 0x7FF)] 2)\<lparr>i_x := Some (pay ''extend'')\<rparr>)"

definition dec_i64 :: "int \<Rightarrow> int option \<Rightarrow> int \<Rightarrow> int option \<Rightarrow> int option \<Rightarrow> int \<Rightarrow> insn" where
  "dec_i64 insn ext ry addr pcb isa =
     (let funct = drop_bit 8 insn AND 7;
          imm5 = insn AND 0x1F;
          n = ext_len ext;
          fin = (\<lambda>name ops. gate isa ((Insn name ops n)\<lparr>i_isa64 := True\<rparr>)) in
      if funct = 0 then
        fin ''ld'' [rn ry, hexs (imm_or ext insn (push_bit 3 imm5)) @ ''(sp)'']
      else if funct = 1 then
        fin ''sd'' [rn ry, hexs (imm_or ext insn (push_bit 3 imm5)) @ ''(sp)'']
      else if funct = 2 then
        fin ''sd'' [''ra'', hexs (imm_or ext insn (push_bit 3 (insn AND 0xFF))) @ ''(sp)'']
      else if funct = 3 then
        fin ''daddiu'' [''sp'', hexs (imm_or ext insn (push_bit 3 (sx (insn AND 0xFF) 8)))]
      else if funct = 4 then
        (let off = imm_or ext insn (push_bit 3 imm5) in
         case addr of
           None \<Rightarrow> fin ''ld'' [rn ry, hexs off @ ''(pc)'']
         | Some a \<Rightarrow> fin ''ld'' [rn ry, uhex (to_u32 (to_u32 (a AND NOT 7) + off))])
      else if funct = 5 then
        fin ''daddiu'' [rn ry, hexs (imm_or ext insn (sx imm5 5))]
      else if funct = 6 then
        (let off = imm_or ext insn (push_bit 2 imm5) in
         case pcb of
           None \<Rightarrow> fin ''dla'' [rn ry, hexs off @ ''(pc)'']
         | Some p \<Rightarrow> fin ''dla'' [rn ry, uhex (to_u32 (to_u32 (p AND NOT 3) + off))])
      else
        fin ''daddiu'' [rn ry, ''sp'', hexs (imm_or ext insn (push_bit 2 imm5))])"

definition dec_rrr :: "int \<Rightarrow> int option \<Rightarrow> int \<Rightarrow> int \<Rightarrow> int \<Rightarrow> insn" where
  "dec_rrr insn ext rx ry isa =
     (let f = insn AND 3;
          name = RRR_NAMES f;
          is64 = (f = 0 \<or> f = 2) in
      if ext \<noteq> None then notextInsn ''RRR'' else
      let rz = drop_bit 2 insn AND 7;
          ops = (if rz = rx then [rn rz, rn ry] else [rn rz, rn rx, rn ry]) in
      gate isa ((Insn name ops 2)
        \<lparr>i_isa64 := is64,
         i_x := Some ((pay name)\<lparr>p_d := Some (xl rz), p_s := Some (xl rx), p_t := Some (xl ry)\<rparr>)\<rparr>))"

definition dec_jalrc :: "int \<Rightarrow> int \<Rightarrow> insn" where
  "dec_jalrc rx ry =
     (case JALRC ry of
        None \<Rightarrow> unk (''J(AL)R(C) ry='' @ dec_string ry @ '' is Reserved'') 2 False
      | Some sel \<Rightarrow>
          let usesRa = (sel = ''JR_RA'' \<or> sel = ''JRC_RA'') in
          if usesRa \<and> rx \<noteq> 0 then unk ''JR/JRC ra with non-zero rx field'' 2 False
          else (Insn (JALRC_NAME sel) [if usesRa then ''ra'' else rn rx] 2)
                 \<lparr>i_x := Some ((pay (JALRC_NAME sel))
                    \<lparr>p_s := Some (if usesRa then GPR_RA else xl rx)\<rparr>)\<rparr>)"

definition dec_cnvt :: "int \<Rightarrow> int \<Rightarrow> int \<Rightarrow> insn" where
  "dec_cnvt rx ry isa =
     (case CNVT ry of
        None \<Rightarrow> unk (''CNVT ry='' @ dec_string ry @ '' is Reserved'') 2 False
      | Some (nm, is64) \<Rightarrow>
          gate isa ((Insn nm [rn rx] 2)
            \<lparr>i_isa64 := is64, i_x := Some ((pay nm)\<lparr>p_d := Some (xl rx)\<rparr>)\<rparr>))"

text \<open>
  The arms of the RR group after the two sub-tables, in the source's order.  The last result stands
  for falling off the chain into the unknown-opcode exit, which no entry of the table reaches.
\<close>

definition dec_rr_kind ::
  "string \<Rightarrow> string \<Rightarrow> bool \<Rightarrow> int \<Rightarrow> int \<Rightarrow> int \<Rightarrow> int \<Rightarrow> insn option" where
  "dec_rr_kind kind name flag insn rx ry isa =
     (if kind = ''code'' then
        (let code = drop_bit 5 insn AND 0x3F in
         Some ((Insn name (if code \<noteq> 0 then [dec_string code] else []) 2)
           \<lparr>i_x := Some ((pay ''trap'')\<lparr>p_name := Some name, p_code := Some code\<rparr>)\<rparr>))
      else if kind = ''a2'' then
        Some (gate isa ((Insn name (if (name = ''neg'' \<or> name = ''not'') \<and> rx = ry then [rn rx]
                                    else [rn rx, rn ry]) 2)
          \<lparr>i_isa64 := flag,
           i_x := Some ((pay name)\<lparr>p_d := Some (xl rx), p_s := Some (xl ry)\<rparr>)\<rparr>))
      else if kind = ''sv'' then
        Some (gate isa ((Insn name [rn ry, rn rx] 2)
          \<lparr>i_isa64 := flag,
           i_x := Some ((pay name)\<lparr>p_d := Some (xl ry), p_sh := Some (xl rx)\<rparr>)\<rparr>))
      else if kind = ''dv'' then
        Some (gate isa ((Insn name [''zero'', rn rx, rn ry] 2)
          \<lparr>i_isa64 := flag,
           i_x := Some ((pay name)\<lparr>p_s := Some (xl rx), p_t := Some (xl ry)\<rparr>)\<rparr>))
      else if kind = ''r1'' then
        Some (if ry \<noteq> 0 then unk (name @ '' with non-zero ry field'') 2 False
              else gate isa ((Insn name [rn rx] 2)
                \<lparr>i_isa64 := flag, i_x := Some ((pay name)\<lparr>p_d := Some (xl rx)\<rparr>)\<rparr>))
      else if kind = ''sh64'' then
        (let sa = (if rx \<noteq> 0 then rx else 8) in
         Some (gate isa ((Insn name [rn ry, dec_string sa] 2)\<lparr>i_isa64 := True\<rparr>)))
      else None)"

definition two_hex :: "int \<Rightarrow> string" where
  "two_hex v = (if v < 16 then ''0'' else []) @ hex_string v"

definition unknown_opcode :: "int \<Rightarrow> int \<Rightarrow> insn" where
  "unknown_opcode op n =
     unk (''opcode 0x'' @ two_hex op @ '' (bits 15..11 = '' @ bits5 op
          @ '') is not a MIPS16e instruction'') n False"

definition dec_rr :: "int \<Rightarrow> int option \<Rightarrow> int \<Rightarrow> int \<Rightarrow> int \<Rightarrow> insn" where
  "dec_rr insn ext rx ry isa =
     (if ext \<noteq> None then notextInsn ''RR'' else
      let funct = insn AND 0x1F;
          got = RR_FUNCT ! nat funct;
          flag = snd (snd got) in
      case fst got of
        None \<Rightarrow> unk (''RR funct=0x'' @ two_hex funct @ '' is Reserved'') 2 False
      | Some name \<Rightarrow>
          let kind = the (fst (snd got)) in
          if kind = ''d'' \<and> name = ''J(AL)R(C)'' then dec_jalrc rx ry
          else if kind = ''d'' \<and> name = ''CNVT'' then dec_cnvt rx ry isa
          else case dec_rr_kind kind name flag insn rx ry isa of
                 Some ins \<Rightarrow> ins
               | None \<Rightarrow> unknown_opcode 0x1D 2)"

section \<open>The decoder\<close>

definition decode_body ::
  "int \<Rightarrow> int option \<Rightarrow> int option \<Rightarrow> int option \<Rightarrow> int option \<Rightarrow> int \<Rightarrow> insn" where
  "decode_body insn ext nextHw addr pcBase isa =
     (let op = drop_bit 11 insn AND 0x1F;
          rx = drop_bit 8 insn AND 7;
          ry = drop_bit 5 insn AND 7;
          n = ext_len ext;
          pcb = (case pcBase of None \<Rightarrow> addr | Some p \<Rightarrow> Some p) in
      if op = 0x00 then dec_addiusp insn ext rx
      else if op = 0x01 then dec_addiupc insn ext rx pcb
      else if op = 0x02 then dec_b insn ext addr
      else if op = 0x03 then dec_jal insn ext nextHw addr
      else if op = 0x04 \<or> op = 0x05 then dec_beqz op insn ext rx addr
      else if op = 0x06 then dec_shift insn ext rx ry isa
      else if op = 0x07 then dec_ld_sd ''ld'' insn ext rx ry isa
      else if op = 0x08 then dec_rria insn ext rx ry isa
      else if op = 0x09 then dec_addiu8 insn ext rx
      else if op = 0x0A \<or> op = 0x0B then dec_slti op insn ext rx
      else if op = 0x0C then dec_i8 insn ext ry addr
      else if op = 0x0D then dec_li insn ext rx
      else if op = 0x0E then dec_cmpi insn ext rx
      else if op = 0x0F then dec_ld_sd ''sd'' insn ext rx ry isa
      else case MEM_OPS op of
        Some got \<Rightarrow> dec_mem got insn ext rx ry isa
      | None \<Rightarrow>
      if op = 0x12 \<or> op = 0x1A then dec_lwsp op insn ext rx
      else if op = 0x16 then dec_lwpc insn ext rx pcb
      else if op = 0x1E then dec_extend insn ext
      else if op = 0x1F then dec_i64 insn ext ry addr pcb isa
      else if op = 0x1C then dec_rrr insn ext rx ry isa
      else if op = 0x1D then dec_rr insn ext rx ry isa
      else unknown_opcode op n)"

text \<open>\<open>Inl\<close> is the \<open>Error\<close> the decoder throws.\<close>

definition decode ::
  "int \<Rightarrow> int option \<Rightarrow> int option \<Rightarrow> int option \<Rightarrow> int option \<Rightarrow> int option \<Rightarrow> string + insn" where
  "decode hw ext0 nextHw addr pcBase isa0 =
     (let isa = (case isa0 of None \<Rightarrow> 32 | Some i \<Rightarrow> i);
          insn = hw AND 0xFFFF;
          ext16 = map_option (\<lambda>e. e AND 0xFFFF) ext0 in
      if (case ext16 of None \<Rightarrow> False | Some e \<Rightarrow> drop_bit 11 e \<noteq> 0x1E)
      then Inl (''extend=0x'' @ hex_string (the ext16) @ '' is not an EXTEND halfword'')
      else if isa \<noteq> 32 \<and> isa \<noteq> 64 then Inl ''isa must be 32 or 64''
      else Inr (decode_body insn (map_option (\<lambda>e. e AND 0x07FF) ext16) nextHw addr pcBase isa))"

definition decodeStrict ::
  "int \<Rightarrow> int option \<Rightarrow> int option \<Rightarrow> int option \<Rightarrow> int option \<Rightarrow> int option \<Rightarrow> string + insn" where
  "decodeStrict hw ext0 nextHw addr pcBase isa =
     (case decode hw ext0 nextHw addr pcBase isa of
        Inl e \<Rightarrow> Inl e
      | Inr r \<Rightarrow>
          if i_op r = ''UNKNOWN''
          then Inl (''0x'' @ pad_left 4 CHR ''0'' (hex_string (hw AND 0xFFFF))
                    @ '': '' @ the (i_reason r))
          else Inr r)"

end
