(* ===== verification/M16_Payload.thy ===== *)
theory M16_Payload
  imports M16_Decode
begin

text \<open>
  The integer opcode ids (\<open>KID\<close>) and the normalised payload (\<open>xnorm\<close>) that the executor runs from,
  with the facts that tie them to the decoder: which payloads the decoder builds, that each has an
  id, and that its register numbers are register numbers.
\<close>

section \<open>Ids and the one payload shape\<close>

definition KID :: "string \<Rightarrow> nat option" where
  "KID k = map_of [
     (''addiusp'', 1), (''addiupc'', 2), (''addiu_rri'', 3), (''addiu8'', 4), (''adjsp'', 5),
     (''li'', 6), (''move'', 7), (''addu'', 8), (''subu'', 9), (''and'', 10), (''or'', 11),
     (''xor'', 12), (''not'', 13), (''neg'', 14), (''cmp'', 15), (''cmpi'', 16), (''slt'', 17),
     (''sltu'', 18), (''slti'', 19), (''sltiu'', 20), (''sll'', 21), (''srl'', 22), (''sra'', 23),
     (''sllv'', 24), (''srlv'', 25), (''srav'', 26), (''mult'', 27), (''multu'', 28),
     (''div'', 29), (''divu'', 30), (''mfhi'', 31), (''mflo'', 32), (''zeb'', 33), (''zeh'', 34),
     (''seb'', 35), (''seh'', 36), (''lb'', 37), (''lbu'', 38), (''lh'', 39), (''lhu'', 40),
     (''lw'', 41), (''lwsp'', 42), (''lwpc'', 43), (''sb'', 44), (''sh'', 45), (''sw'', 46),
     (''swsp'', 47), (''swrasp'', 48), (''b'', 49), (''beqz'', 50), (''bnez'', 51),
     (''bteqz'', 52), (''btnez'', 53), (''jal'', 54), (''jalx'', 55), (''jr'', 56),
     (''jalr'', 57), (''jrc'', 58), (''jalrc'', 59), (''save'', 60), (''restore'', 61),
     (''trap'', 62), (''extend'', 63)] k"

record xpay =
  x_k :: string
  x_ki :: nat
  x_d :: nat
  x_s :: nat
  x_t :: nat
  x_r :: nat
  x_b :: nat
  x_sh :: nat
  x_imm :: int
  x_off :: int
  x_sa :: int
  x_tgt :: int
  x_name :: "string option"
  x_code :: int
  x_framesize :: int
  x_ra :: int
  x_s0 :: int
  x_s1 :: int
  x_xsregs :: int
  x_aregs :: int
  x_val :: "int option"
  x_ea :: "int option"

definition or0 :: "'a::zero option \<Rightarrow> 'a" where
  "or0 v = (case v of None \<Rightarrow> 0 | Some a \<Rightarrow> a)"

definition xnorm :: "payload \<Rightarrow> xpay" where
  "xnorm x = \<lparr>x_k = p_k x, x_ki = or0 (KID (p_k x)),
     x_d = or0 (p_d x), x_s = or0 (p_s x), x_t = or0 (p_t x), x_r = or0 (p_r x),
     x_b = or0 (p_b x), x_sh = or0 (p_sh x), x_imm = or0 (p_imm x), x_off = or0 (p_off x),
     x_sa = or0 (p_sa x), x_tgt = or0 (p_tgt x), x_name = p_name x, x_code = or0 (p_code x),
     x_framesize = or0 (p_framesize x), x_ra = or0 (p_ra x), x_s0 = or0 (p_s0 x),
     x_s1 = or0 (p_s1 x), x_xsregs = or0 (p_xsregs x), x_aregs = or0 (p_aregs x),
     x_val = p_val x, x_ea = p_ea x\<rparr>"

section \<open>Facts about the tables\<close>

lemma or0_simps [simp]: "or0 None = 0" "or0 (Some a) = a"
  by (simp_all add: or0_def)

lemma xl_less [simp]: "xl f < 32"
proof -
  have "f AND 7 \<in> {0, 1, 2, 3, 4, 5, 6, 7}"
    using nat_cases8 [OF and7_range] by simp
  then show ?thesis
    by (auto simp: xl_def XLAT_def)
qed

lemma GPR_simps [simp]: "GPR_T = 24" "GPR_SP = 29" "GPR_RA = 31"
  by (simp_all add: GPR_T_def GPR_SP_def GPR_RA_def)

text \<open>The range of a table lookup, for tables written as association lists.\<close>

lemma MEM_OPS_SomeD: "MEM_OPS op = Some got \<Longrightarrow>
   got \<in> {(''lb'', 0, False), (''lh'', 1, False), (''lw'', 2, False), (''lbu'', 0, False),
          (''lhu'', 1, False), (''lwu'', 2, True), (''sb'', 0, False), (''sh'', 1, False),
          (''sw'', 2, False)}"
  unfolding MEM_OPS_def by (drule map_of_SomeD) auto

lemma CNVT_SomeD: "CNVT ry = Some p \<Longrightarrow>
   p \<in> {(''zeb'', False), (''zeh'', False), (''zew'', True), (''seb'', False), (''seh'', False),
        (''sew'', True)}"
  unfolding CNVT_def by (drule map_of_SomeD) auto

lemma JALRC_SomeD: "JALRC ry = Some sel \<Longrightarrow>
   sel \<in> {''JR_RX'', ''JR_RA'', ''JALR'', ''JRC_RX'', ''JRC_RA'', ''JALRC''}"
  unfolding JALRC_def by (drule map_of_SomeD) auto

lemma I8_SomeD: "I8 f = Some k \<Longrightarrow>
   k \<in> {''BTEQZ'', ''BTNEZ'', ''SWRASP'', ''ADJSP'', ''SVRS'', ''MOV32R'', ''MOVR32''}"
  unfolding I8_def by (drule map_of_SomeD) auto

lemma RR_FUNCT_nth: "n < 32 \<Longrightarrow> RR_FUNCT ! n \<in> set RR_FUNCT"
  by (rule nth_mem) (simp add: RR_FUNCT_def)

lemma gate_length [simp]: "i_length (gate isa ins) = i_length ins"
  by (simp add: gate_def unk_def Insn_def)

lemma Insn_sel [simp]:
  "i_op (Insn p q l) = p" "i_operands (Insn p q l) = q" "i_length (Insn p q l) = l"
  "i_x (Insn p q l) = None" "i_notext (Insn p q l) = False" "i_isa64 (Insn p q l) = False"
  "i_reason (Insn p q l) = None" "i_needsNext (Insn p q l) = False"
  "i_target (Insn p q l) = None" "i_targetIsa (Insn p q l) = None"
  by (simp_all add: Insn_def)

lemma unk_sel [simp]:
  "i_op (unk r l b) = ''UNKNOWN''" "i_length (unk r l b) = l" "i_x (unk r l b) = None"
  "i_notext (unk r l b) = b" "i_reason (unk r l b) = Some r" "i_isa64 (unk r l b) = False"
  by (simp_all add: unk_def)

lemma notextInsn_sel [simp]:
  "i_op (notextInsn w) = ''UNKNOWN''" "i_length (notextInsn w) = 4" "i_x (notextInsn w) = None"
  "i_notext (notextInsn w) = True" "i_isa64 (notextInsn w) = False"
  by (simp_all add: notextInsn_def)

section \<open>The length of a decoded instruction\<close>

lemma zfield_SomeD: "zfield ext insn m w = Some bad \<Longrightarrow>
   ext \<noteq> None \<and> i_length bad = 4 \<and> i_op bad = ''UNKNOWN'' \<and> i_x bad = None \<and> i_notext bad
   \<and> \<not> i_isa64 bad"
  by (auto simp: zfield_def split: if_splits)

lemma zfield_length: "zfield ext insn m w = Some bad \<Longrightarrow> i_length bad = ext_len ext"
  using zfield_SomeD [of ext insn m w bad] by (simp add: ext_len_def)

lemma zfield_length': "(if ext = None then None else zfield ext insn m w) = Some bad \<Longrightarrow>
   i_length bad = ext_len ext"
  by (simp add: zfield_length split: if_splits)

lemma zfield_None [simp]: "zfield None insn m w = None"
  by (simp add: zfield_def)

text \<open>One fact per leaf: the length is four exactly for EXTENDed encodings and JAL/JALX.\<close>

lemma dec_addiusp_length [simp]: "i_length (dec_addiusp insn ext rx) = ext_len ext"
  by (simp add: dec_addiusp_def Let_def zfield_length zfield_length' split: option.split prod.split)

lemma dec_addiupc_length [simp]: "i_length (dec_addiupc insn ext rx pcb) = ext_len ext"
  by (simp add: dec_addiupc_def Let_def zfield_length zfield_length' split: option.split prod.split)

lemma dec_b_length [simp]: "i_length (dec_b insn ext addr) = ext_len ext"
  by (simp add: dec_b_def Let_def zfield_length zfield_length' split: option.split prod.split)

lemma dec_jal_length [simp]: "i_length (dec_jal insn ext nh addr) = 4"
  by (simp add: dec_jal_def Let_def zfield_length zfield_length' split: option.split prod.split)

lemma dec_beqz_length [simp]: "i_length (dec_beqz op insn ext rx addr) = ext_len ext"
  by (simp add: dec_beqz_def Let_def zfield_length zfield_length' split: option.split prod.split)

lemma dec_ld_sd_length [simp]: "i_length (dec_ld_sd nm insn ext rx ry isa) = ext_len ext"
  by (simp add: dec_ld_sd_def Let_def zfield_length zfield_length' split: option.split prod.split)

lemma dec_rria_length [simp]: "i_length (dec_rria insn ext rx ry isa) = ext_len ext"
  by (simp add: dec_rria_def Let_def zfield_length zfield_length' split: option.split prod.split)

lemma dec_addiu8_length [simp]: "i_length (dec_addiu8 insn ext rx) = ext_len ext"
  by (simp add: dec_addiu8_def Let_def zfield_length zfield_length' split: option.split prod.split)

lemma dec_slti_length [simp]: "i_length (dec_slti op insn ext rx) = ext_len ext"
  by (simp add: dec_slti_def Let_def zfield_length zfield_length' split: option.split prod.split)

lemma dec_li_length [simp]: "i_length (dec_li insn ext rx) = ext_len ext"
  by (simp add: dec_li_def Let_def zfield_length zfield_length' split: option.split prod.split)

lemma dec_cmpi_length [simp]: "i_length (dec_cmpi insn ext rx) = ext_len ext"
  by (simp add: dec_cmpi_def Let_def zfield_length zfield_length' split: option.split prod.split)

lemma dec_mem_length [simp]: "i_length (dec_mem got insn ext rx ry isa) = ext_len ext"
  by (simp add: dec_mem_def Let_def zfield_length zfield_length' split: option.split prod.split)

lemma dec_lwsp_length [simp]: "i_length (dec_lwsp op insn ext rx) = ext_len ext"
  by (simp add: dec_lwsp_def Let_def zfield_length zfield_length' split: option.split prod.split)

lemma dec_lwpc_length [simp]: "i_length (dec_lwpc insn ext rx pcb) = ext_len ext"
  by (simp add: dec_lwpc_def Let_def zfield_length zfield_length' split: option.split prod.split)

lemma dec_extend_length [simp]: "i_length (dec_extend insn ext) = ext_len ext"
  by (simp add: dec_extend_def Let_def ext_len_def zfield_length zfield_length' split: option.split prod.split)

lemma dec_i64_length [simp]: "i_length (dec_i64 insn ext ry addr pcb isa) = ext_len ext"
  by (simp add: dec_i64_def Let_def zfield_length zfield_length' split: option.split prod.split)

lemma dec_rrr_length [simp]: "i_length (dec_rrr insn ext rx ry isa) = ext_len ext"
  by (simp add: dec_rrr_def Let_def ext_len_def zfield_length zfield_length' split: option.split prod.split)

lemma dec_i8_branch_length [simp]: "i_length (dec_i8_branch kind insn ext addr) = ext_len ext"
  by (simp add: dec_i8_branch_def Let_def zfield_length zfield_length' split: option.split prod.split)

lemma dec_swrasp_length [simp]: "i_length (dec_swrasp insn ext) = ext_len ext"
  by (simp add: dec_swrasp_def Let_def zfield_length zfield_length' split: option.split prod.split)

lemma dec_adjsp_length [simp]: "i_length (dec_adjsp insn ext) = ext_len ext"
  by (simp add: dec_adjsp_def Let_def zfield_length zfield_length' split: option.split prod.split)

lemma svrs_length [simp]: "i_length (svrs ext insn) = ext_len ext"
  by (simp add: svrs_def Let_def ext_len_def zfield_length zfield_length' split: option.split prod.split)

lemma dec_mov32r_length [simp]: "i_length (dec_mov32r insn) = 2"
  by (simp add: dec_mov32r_def Let_def zfield_length zfield_length' split: option.split prod.split)

lemma dec_movr32_length [simp]: "i_length (dec_movr32 insn ry) = 2"
  by (simp add: dec_movr32_def Let_def zfield_length zfield_length' split: option.split prod.split)

lemma dec_jalrc_length [simp]: "i_length (dec_jalrc rx ry) = 2"
  by (simp add: dec_jalrc_def Let_def zfield_length zfield_length' split: option.split prod.split)

lemma dec_cnvt_length [simp]: "i_length (dec_cnvt rx ry isa) = 2"
  by (simp add: dec_cnvt_def Let_def zfield_length zfield_length' split: option.split prod.split)

lemma dec_shift_length [simp]: "i_length (dec_shift insn ext rx ry isa) = ext_len ext"
  by (simp add: dec_shift_def shift_fin_def Let_def ext_len_def split: option.splits)

lemma dec_i8_length [simp]: "i_length (dec_i8 insn ext ry addr) = ext_len ext"
  by (auto simp: dec_i8_def Let_def ext_len_def split: option.splits)

lemma dec_rr_kind_length: "dec_rr_kind kind nm flag insn rx ry isa = Some ins \<Longrightarrow> i_length ins = 2"
  by (auto simp: dec_rr_kind_def Let_def split: if_splits)

lemma dec_rr_length [simp]: "i_length (dec_rr insn ext rx ry isa) = ext_len ext"
  by (auto simp: dec_rr_def Let_def ext_len_def unknown_opcode_def
           dest: dec_rr_kind_length split: option.splits)

lemma unknown_opcode_length [simp]: "i_length (unknown_opcode op n) = n"
  by (simp add: unknown_opcode_def)

lemma decode_body_length:
  "i_length (decode_body insn ext nh addr pcb isa)
     = (if ext \<noteq> None \<or> drop_bit 11 insn AND 0x1F = 3 then 4 else 2)"
proof (cases "drop_bit 11 insn AND 0x1F = 3")
  case True
  then show ?thesis by (simp add: decode_body_def Let_def)
next
  case False
  then have "i_length (decode_body insn ext nh addr pcb isa) = ext_len ext"
    unfolding decode_body_def Let_def
    by (simp add: if_distrib [of i_length] option.case_eq_if if_distribR cong: if_cong)
  with False show ?thesis by (simp add: ext_len_def)
qed

section \<open>The decoder's vocabulary\<close>

text \<open>The id of each kind, so that no later proof looks into the table.\<close>

lemma KID_simps [simp]:
  "KID ''addiusp'' = Some 1"
  "KID ''addiupc'' = Some 2"
  "KID ''addiu_rri'' = Some 3"
  "KID ''addiu8'' = Some 4"
  "KID ''adjsp'' = Some 5"
  "KID ''li'' = Some 6"
  "KID ''move'' = Some 7"
  "KID ''addu'' = Some 8"
  "KID ''subu'' = Some 9"
  "KID ''and'' = Some 10"
  "KID ''or'' = Some 11"
  "KID ''xor'' = Some 12"
  "KID ''not'' = Some 13"
  "KID ''neg'' = Some 14"
  "KID ''cmp'' = Some 15"
  "KID ''cmpi'' = Some 16"
  "KID ''slt'' = Some 17"
  "KID ''sltu'' = Some 18"
  "KID ''slti'' = Some 19"
  "KID ''sltiu'' = Some 20"
  "KID ''sll'' = Some 21"
  "KID ''srl'' = Some 22"
  "KID ''sra'' = Some 23"
  "KID ''sllv'' = Some 24"
  "KID ''srlv'' = Some 25"
  "KID ''srav'' = Some 26"
  "KID ''mult'' = Some 27"
  "KID ''multu'' = Some 28"
  "KID ''div'' = Some 29"
  "KID ''divu'' = Some 30"
  "KID ''mfhi'' = Some 31"
  "KID ''mflo'' = Some 32"
  "KID ''zeb'' = Some 33"
  "KID ''zeh'' = Some 34"
  "KID ''seb'' = Some 35"
  "KID ''seh'' = Some 36"
  "KID ''lb'' = Some 37"
  "KID ''lbu'' = Some 38"
  "KID ''lh'' = Some 39"
  "KID ''lhu'' = Some 40"
  "KID ''lw'' = Some 41"
  "KID ''lwsp'' = Some 42"
  "KID ''lwpc'' = Some 43"
  "KID ''sb'' = Some 44"
  "KID ''sh'' = Some 45"
  "KID ''sw'' = Some 46"
  "KID ''swsp'' = Some 47"
  "KID ''swrasp'' = Some 48"
  "KID ''b'' = Some 49"
  "KID ''beqz'' = Some 50"
  "KID ''bnez'' = Some 51"
  "KID ''bteqz'' = Some 52"
  "KID ''btnez'' = Some 53"
  "KID ''jal'' = Some 54"
  "KID ''jalx'' = Some 55"
  "KID ''jr'' = Some 56"
  "KID ''jalr'' = Some 57"
  "KID ''jrc'' = Some 58"
  "KID ''jalrc'' = Some 59"
  "KID ''save'' = Some 60"
  "KID ''restore'' = Some 61"
  "KID ''trap'' = Some 62"
  "KID ''extend'' = Some 63"
  by (simp_all add: KID_def)

lemma KID_range: "KID k = Some n \<Longrightarrow> 1 \<le> n \<and> n \<le> 63"
  unfolding KID_def by (drule map_of_SomeD) auto

text \<open>
  What the executor relies on in a payload: an id, register numbers below 32, a frame description
  the SAVE/RESTORE table has, and even branch offsets and jump targets.
\<close>

definition wf_payload :: "payload \<Rightarrow> bool" where
  "wf_payload x \<longleftrightarrow> KID (p_k x) \<noteq> None
     \<and> or0 (p_d x) < 32 \<and> or0 (p_s x) < 32 \<and> or0 (p_t x) < 32
     \<and> or0 (p_r x) < 32 \<and> or0 (p_b x) < 32 \<and> or0 (p_sh x) < 32
     \<and> AREGS (or0 (p_aregs x)) \<noteq> None \<and> 0 \<le> or0 (p_xsregs x) \<and> or0 (p_xsregs x) \<le> 7
     \<and> (KID (p_k x) \<in> Some ` {49, 50, 51, 52, 53} \<longrightarrow> even (or0 (p_off x)))
     \<and> (KID (p_k x) \<in> Some ` {54, 55} \<longrightarrow> even (or0 (p_tgt x)))"

definition exec_ready :: "insn \<Rightarrow> bool" where
  "exec_ready ins \<longleftrightarrow>
     (if i_op ins = ''UNKNOWN'' then i_x ins = None
      else i_notext ins = False \<and> (\<exists>x. i_x ins = Some x \<and> wf_payload x))"

lemma AREGS_0 [simp]: "AREGS 0 = Some (0, [])"
  by (simp add: AREGS_def)

lemma AREGS_defined: "0 \<le> a \<Longrightarrow> a < 15 \<Longrightarrow> AREGS a \<noteq> None"
proof -
  assume "0 \<le> a" "a < 15"
  then have "a = 0 \<or> a = 1 \<or> a = 2 \<or> a = 3 \<or> a = 4 \<or> a = 5 \<or> a = 6 \<or> a = 7 \<or> a = 8
      \<or> a = 9 \<or> a = 10 \<or> a = 11 \<or> a = 12 \<or> a = 13 \<or> a = 14"
    by presburger
  then show ?thesis by (elim disjE) (simp_all add: AREGS_def)
qed

lemma wf_payload_pay [simp]: "KID k \<noteq> None \<Longrightarrow> wf_payload (pay k)"
  by (simp add: wf_payload_def pay_def)

lemma pay_sel [simp]:
  "p_k (pay k) = k" "p_d (pay k) = None" "p_s (pay k) = None" "p_t (pay k) = None"
  "p_r (pay k) = None" "p_b (pay k) = None" "p_sh (pay k) = None" "p_imm (pay k) = None"
  "p_off (pay k) = None" "p_sa (pay k) = None" "p_tgt (pay k) = None" "p_name (pay k) = None"
  "p_code (pay k) = None" "p_framesize (pay k) = None" "p_ra (pay k) = None"
  "p_s0 (pay k) = None" "p_s1 (pay k) = None" "p_xsregs (pay k) = None"
  "p_aregs (pay k) = None" "p_val (pay k) = None" "p_ea (pay k) = None"
  by (simp_all add: pay_def)

lemma exec_ready_unk [simp]: "exec_ready (unk r l b)"
  by (simp add: exec_ready_def)

lemma exec_ready_notext [simp]: "exec_ready (notextInsn w)"
  by (simp add: notextInsn_def)

lemma exec_ready_zfield [simp]: "zfield ext insn m w = Some bad \<Longrightarrow> exec_ready bad"
  by (auto simp: zfield_def split: if_splits)

lemma exec_ready_zfield' [simp]:
  "(if ext = None then None else zfield ext insn m w) = Some bad \<Longrightarrow> exec_ready bad"
  by (auto split: if_splits)

lemma exec_ready_gate:
  "(\<not> i_isa64 ins \<Longrightarrow> exec_ready ins) \<Longrightarrow> exec_ready (gate 32 ins)"
  by (simp add: gate_def)

text \<open>An instruction built with a payload is ready when the payload is well-formed.\<close>

lemma exec_readyI:
  "i_op ins \<noteq> ''UNKNOWN'' \<Longrightarrow> i_notext ins = False \<Longrightarrow> i_x ins = Some x \<Longrightarrow> wf_payload x
   \<Longrightarrow> exec_ready ins"
  by (simp add: exec_ready_def)

lemma dec_addiusp_ready [simp]: "exec_ready (dec_addiusp insn ext rx)"
  by (simp add: dec_addiusp_def Let_def exec_ready_def [of "_\<lparr>i_x := _\<rparr>"] wf_payload_def split: option.split)

lemma dec_addiupc_ready [simp]: "exec_ready (dec_addiupc insn ext rx pcb)"
  by (simp add: dec_addiupc_def Let_def exec_ready_def [of "_\<lparr>i_x := _\<rparr>"] wf_payload_def split: option.split)

lemma dec_b_ready [simp]: "exec_ready (dec_b insn ext addr)"
  by (simp add: dec_b_def Let_def exec_ready_def [of "_\<lparr>i_x := _\<rparr>"] wf_payload_def split: option.split)

lemma dec_beqz_ready [simp]: "exec_ready (dec_beqz op insn ext rx addr)"
  by (simp add: dec_beqz_def Let_def exec_ready_def [of "_\<lparr>i_x := _\<rparr>"] wf_payload_def split: option.split)

lemma dec_addiu8_ready [simp]: "exec_ready (dec_addiu8 insn ext rx)"
  by (simp add: dec_addiu8_def Let_def exec_ready_def [of "_\<lparr>i_x := _\<rparr>"] wf_payload_def split: option.split)

lemma dec_slti_ready [simp]: "exec_ready (dec_slti op insn ext rx)"
  by (simp add: dec_slti_def Let_def exec_ready_def [of "_\<lparr>i_x := _\<rparr>"] wf_payload_def split: option.split)

lemma dec_li_ready [simp]: "exec_ready (dec_li insn ext rx)"
  by (simp add: dec_li_def Let_def exec_ready_def [of "_\<lparr>i_x := _\<rparr>"] wf_payload_def split: option.split)

lemma dec_cmpi_ready [simp]: "exec_ready (dec_cmpi insn ext rx)"
  by (simp add: dec_cmpi_def Let_def exec_ready_def [of "_\<lparr>i_x := _\<rparr>"] wf_payload_def split: option.split)

lemma dec_lwsp_ready [simp]: "exec_ready (dec_lwsp op insn ext rx)"
  by (simp add: dec_lwsp_def Let_def exec_ready_def [of "_\<lparr>i_x := _\<rparr>"] wf_payload_def split: option.split)

lemma dec_lwpc_ready [simp]: "exec_ready (dec_lwpc insn ext rx pcb)"
  by (simp add: dec_lwpc_def Let_def exec_ready_def [of "_\<lparr>i_x := _\<rparr>"] wf_payload_def split: option.split)

lemma dec_extend_ready [simp]: "exec_ready (dec_extend insn ext)"
  by (simp add: dec_extend_def Let_def exec_ready_def [of "_\<lparr>i_x := _\<rparr>"] wf_payload_def split: option.split)

lemma dec_swrasp_ready [simp]: "exec_ready (dec_swrasp insn ext)"
  by (simp add: dec_swrasp_def Let_def exec_ready_def [of "_\<lparr>i_x := _\<rparr>"] wf_payload_def split: option.split)

lemma dec_adjsp_ready [simp]: "exec_ready (dec_adjsp insn ext)"
  by (simp add: dec_adjsp_def Let_def exec_ready_def [of "_\<lparr>i_x := _\<rparr>"] wf_payload_def split: option.split)

lemma js_lower_I8 [simp]: "js_lower ''BTEQZ'' = ''bteqz''" "js_lower ''BTNEZ'' = ''btnez''"
  by code_simp+

lemma dec_i8_branch_ready: "kind = ''BTEQZ'' \<or> kind = ''BTNEZ'' \<Longrightarrow> exec_ready (dec_i8_branch kind insn ext addr)"
  by (auto simp add: dec_i8_branch_def Let_def exec_ready_def [of "_\<lparr>i_x := _\<rparr>"] wf_payload_def
      split: option.split)

lemma field32_range:
  fixes a b :: int
  defines "r \<equiv> push_bit 3 (a AND 3) OR (b AND 7)"
  shows "0 \<le> r" "r < 32"
proof -
  have "r = take_bit 5 r"
    unfolding r_def int_and_take by (rule bit_eqI) (auto simp: bit_simps)
  moreover have "0 \<le> take_bit 5 r" "take_bit 5 r < 32"
    using take_bit_int_less_exp [of 5 r] by simp_all
  ultimately show "0 \<le> r" "r < 32" by linarith+
qed

lemma dec_mov32r_ready: "exec_ready (dec_mov32r insn)"
proof -
  let ?fld = "drop_bit 3 insn AND 0x1F"
  let ?r = "push_bit 3 (?fld AND 3) OR (drop_bit 2 ?fld AND 7)"
  have "nat ?r < 32"
    using field32_range [of ?fld "drop_bit 2 ?fld"] by linarith
  then show ?thesis
    unfolding dec_mov32r_def Let_def by (simp only: exec_ready_def) (simp add: wf_payload_def del: push_bit_and)
qed

lemma dec_movr32_ready: "exec_ready (dec_movr32 insn ry)"
  by (simp add: dec_movr32_def Let_def exec_ready_def wf_payload_def)

lemma even_to_u32 [simp]: "even (to_u32 x) = even x"
  by (simp add: to_u32_def even_take_bit_eq)

lemma dec_jal_ready:
  "exec_ready (dec_jal insn ext (Some nh) (Some addr))"
  by (simp add: dec_jal_def Let_def exec_ready_def [of "_\<lparr>i_x := _\<rparr>"] wf_payload_def even_or_iff even_and_iff)

lemma dec_ld_sd_ready: "exec_ready (dec_ld_sd nm insn ext rx ry 32)"
  by (simp add: dec_ld_sd_def Let_def gate_def)

lemma dec_i64_ready: "exec_ready (dec_i64 insn ext ry addr pcb 32)"
  by (simp add: dec_i64_def Let_def gate_def split: option.split)

lemma dec_rria_ready: "exec_ready (dec_rria insn ext rx ry 32)"
  unfolding dec_rria_def Let_def
  by (rule exec_ready_gate) (simp add: exec_ready_def wf_payload_def)

text \<open>The gate refuses \<open>dsll\<close>, the one name of the shift group without an id.\<close>

lemma shift_fin_ready: "f \<in> {0, 1, 2, 3} \<Longrightarrow> exec_ready (shift_fin 32 f sa ext rx ry)"
  unfolding shift_fin_def Let_def
  by (rule exec_ready_gate) (auto simp: exec_ready_def wf_payload_def SHIFT_NAMES_def)

lemma dec_shift_ready: "exec_ready (dec_shift insn ext rx ry 32)"
  by (simp add: dec_shift_def Let_def shift_fin_ready [OF and3_cases] shift_fin_ready [of 1] split: option.split)

lemma dec_mem_ready: "MEM_OPS op = Some got \<Longrightarrow> exec_ready (dec_mem got insn ext rx ry 32)"
  unfolding dec_mem_def Let_def
  by (drule MEM_OPS_SomeD, simp only: prod.case_eq_if, rule exec_ready_gate)
     (auto simp: exec_ready_def wf_payload_def)

lemma dec_rrr_ready: "exec_ready (dec_rrr insn ext rx ry 32)"
proof (cases ext)
  case None
  show ?thesis
    unfolding dec_rrr_def Let_def using None and3_cases [of insn]
    by simp (intro conjI impI; rule exec_ready_gate;
             auto simp: exec_ready_def wf_payload_def RRR_NAMES_def)
qed (simp add: dec_rrr_def)

lemma dec_cnvt_ready: "exec_ready (dec_cnvt rx ry 32)"
proof (cases "CNVT ry")
  case (Some p)
  then show ?thesis
    unfolding dec_cnvt_def
    by (simp add: prod.case_eq_if) (rule exec_ready_gate, drule CNVT_SomeD, auto simp: exec_ready_def wf_payload_def)
qed (simp add: dec_cnvt_def)

lemma JALRC_NAME_simps [simp]:
  "JALRC_NAME ''JR_RX'' = ''jr''" "JALRC_NAME ''JR_RA'' = ''jr''" "JALRC_NAME ''JALR'' = ''jalr''"
  "JALRC_NAME ''JRC_RX'' = ''jrc''" "JALRC_NAME ''JRC_RA'' = ''jrc''"
  "JALRC_NAME ''JALRC'' = ''jalrc''"
  by (simp_all add: JALRC_NAME_def)

lemma dec_jalrc_ready: "exec_ready (dec_jalrc rx ry)"
proof (cases "JALRC ry")
  case (Some sel)
  from JALRC_SomeD [OF Some] show ?thesis
    by (elim insertE emptyE)
       (simp_all add: dec_jalrc_def Some Let_def exec_ready_def wf_payload_def)
qed (simp add: dec_jalrc_def)

lemma svrs_ready: "exec_ready (svrs ext insn)"
proof (cases ext)
  case None
  then show ?thesis
    by (simp add: svrs_def Let_def exec_ready_def [of "_\<lparr>i_x := _\<rparr>"] wf_payload_def)
next
  case (Some e)
  have a: "0 \<le> e AND 0xF" "e AND 0xF < 16" using and_mask_range [of "0xF" 4 e] by simp_all
  have x: "0 \<le> drop_bit 8 e AND 7" "drop_bit 8 e AND 7 < 8" by (rule and7_range)+
  from a AREGS_defined [of "e AND 0xF"] have "e AND 0xF \<noteq> 0xF \<Longrightarrow> AREGS (e AND 0xF) \<noteq> None"
    by linarith
  with x show ?thesis
    unfolding svrs_def Let_def Some
    by (simp add: exec_ready_def [of "_\<lparr>i_x := _\<rparr>"] wf_payload_def)
qed

text \<open>What the executor relies on in the RR table, read off its 32 entries once.\<close>

definition alu_kind :: "string \<Rightarrow> bool" where
  "alu_kind k \<longleftrightarrow> k = ''a2'' \<or> k = ''sv'' \<or> k = ''dv'' \<or> k = ''r1''"

definition rr_entry_ok :: "string \<Rightarrow> string \<Rightarrow> bool \<Rightarrow> bool" where
  "rr_entry_ok name kind flag \<longleftrightarrow> name \<noteq> ''UNKNOWN'' \<and>
     (kind = ''d'' \<and> (name = ''J(AL)R(C)'' \<or> name = ''CNVT'')
      \<or> kind = ''code'' \<or> kind = ''sh64'' \<or> alu_kind kind \<and> (flag \<or> KID name \<noteq> None))"

lemma RR_FUNCT_ok:
  "list_all (\<lambda>(n, k, f). (n = None \<and> k = None) \<or> (n \<noteq> None \<and> k \<noteq> None \<and> rr_entry_ok (the n) (the k) f))
     RR_FUNCT"
  by (simp add: RR_FUNCT_def rr_entry_ok_def alu_kind_def)

lemma dec_rr_kind_ready_code:
  "name \<noteq> ''UNKNOWN'' \<Longrightarrow> kind = ''code'' \<or> kind = ''sh64'' \<Longrightarrow>
   exec_ready (the (dec_rr_kind kind name flag insn rx ry 32))
   \<and> dec_rr_kind kind name flag insn rx ry 32 \<noteq> None"
  by (elim disjE) (simp_all add: dec_rr_kind_def exec_ready_def wf_payload_def Let_def gate_def)

lemma dec_rr_kind_ready_alu:
  assumes "name \<noteq> ''UNKNOWN''" "alu_kind kind" "flag \<or> KID name \<noteq> None"
  shows "exec_ready (the (dec_rr_kind kind name flag insn rx ry 32))
    \<and> dec_rr_kind kind name flag insn rx ry 32 \<noteq> None"
proof (cases flag)
  case True
  with assms(2) show ?thesis
    unfolding alu_kind_def by (elim disjE) (simp_all add: dec_rr_kind_def gate_def)
next
  case False
  with assms(3) obtain n where "KID name = Some n" by auto
  with False assms(1,2) show ?thesis
    unfolding alu_kind_def
    by (elim disjE) (simp_all add: dec_rr_kind_def gate_def exec_ready_def wf_payload_def)
qed

lemma dec_rr_ready: "exec_ready (dec_rr insn ext rx ry 32)"
proof (cases ext)
  case None
  let ?got = "RR_FUNCT ! nat (insn AND 0x1F)"
  obtain n k flag where got: "?got = (n, k, flag)" by (cases ?got)
  have "(n, k, flag) \<in> set RR_FUNCT" using RR_FUNCT_nth [OF nat_and31, of insn] got by simp
  then have ok: "(n = None \<and> k = None) \<or> (n \<noteq> None \<and> k \<noteq> None \<and> rr_entry_ok (the n) (the k) flag)"
    using RR_FUNCT_ok unfolding list_all_iff by fast
  show ?thesis
  proof (cases n)
    case (Some name)
    with ok obtain kind where k: "k = Some kind" and e: "rr_entry_ok name kind flag" by auto
    have dec: "dec_rr insn ext rx ry 32 =
       (if kind = ''d'' \<and> name = ''J(AL)R(C)'' then dec_jalrc rx ry
        else if kind = ''d'' \<and> name = ''CNVT'' then dec_cnvt rx ry 32
        else case dec_rr_kind kind name flag insn rx ry 32 of Some ins \<Rightarrow> ins
             | None \<Rightarrow> unknown_opcode 0x1D 2)"
      by (simp add: dec_rr_def None got Some k)
    from e have nm: "name \<noteq> ''UNKNOWN''" unfolding rr_entry_ok_def by (rule conjunct1)
    from e have "kind = ''d'' \<and> (name = ''J(AL)R(C)'' \<or> name = ''CNVT'')
      \<or> (kind = ''code'' \<or> kind = ''sh64'') \<or> (alu_kind kind \<and> (flag \<or> KID name \<noteq> None))"
      unfolding rr_entry_ok_def disj_assoc by (rule conjunct2)
    then show ?thesis
    proof (elim disjE)
      assume "kind = ''d'' \<and> (name = ''J(AL)R(C)'' \<or> name = ''CNVT'')"
      then show ?thesis unfolding dec by (elim conjE disjE) (simp_all add: dec_jalrc_ready dec_cnvt_ready)
    qed (use nm dec_rr_kind_ready_code [of name kind flag insn rx ry]
           dec_rr_kind_ready_alu [of name kind flag insn rx ry]
         in \<open>auto simp: dec dec_jalrc_ready dec_cnvt_ready\<close>)
  qed (simp add: dec_rr_def None got)
qed (simp add: dec_rr_def)

lemma dec_i8_ready: "exec_ready (dec_i8 insn ext ry addr)"
proof (cases "I8 (drop_bit 8 insn AND 7)")
  case (Some kind)
  then show ?thesis
    by (auto simp: dec_i8_def dec_i8_branch_ready svrs_ready dec_mov32r_ready dec_movr32_ready)
qed (simp add: dec_i8_def)

lemma decode_body_ready:
  "exec_ready (decode_body insn ext (Some nh) (Some addr) pcBase 32)"
  unfolding decode_body_def Let_def
  by (simp add: if_distrib [of exec_ready] option.case_eq_if dec_jal_ready dec_ld_sd_ready
        dec_i64_ready dec_rria_ready dec_shift_ready dec_mem_ready dec_rrr_ready dec_rr_ready
        dec_i8_ready unknown_opcode_def cong: if_cong)

end
