(* ===== verification/M16_Exec.thy ===== *)
theory M16_Exec
  imports M16_Payload
begin

text \<open>
  The executor of \<open>reference/mips16.js\<close>: \<open>rd\<close>, \<open>wr\<close>, \<open>mul64\<close>, the switch of \<open>exec\<close> (one definition
  per group of cases), SAVE and RESTORE, and \<open>exec\<close> itself with the delay-slot bookkeeping.

  Registers, \<open>hi\<close>, \<open>lo\<close>, \<open>pc\<close> and addresses are \<open>32 word\<close>: every store of the source goes through
  \<open>| 0\<close> or \<open>>>> 0\<close>, so an int32 and a uint32 are two readings of the same 32 bits.  The caller's
  memory object is the record \<open>memops\<close> over a state \<open>'m\<close>; a read may change that state (the
  emulator's device registers do), so it returns it.  Decoded instructions reach the executor with
  their payload normalised, as the pair of the instruction and its \<open>xnorm\<close>.
\<close>

section \<open>State\<close>

type_synonym xinsn = "insn \<times> xpay"

record 'm memops =
  m_read8 :: "'m \<Rightarrow> u32 \<Rightarrow> u32 \<times> 'm"
  m_read16 :: "'m \<Rightarrow> u32 \<Rightarrow> u32 \<times> 'm"
  m_read32 :: "'m \<Rightarrow> u32 \<Rightarrow> u32 \<times> 'm"
  m_write8 :: "'m \<Rightarrow> u32 \<Rightarrow> u32 \<Rightarrow> 'm"
  m_write16 :: "'m \<Rightarrow> u32 \<Rightarrow> u32 \<Rightarrow> 'm"
  m_write32 :: "'m \<Rightarrow> u32 \<Rightarrow> u32 \<Rightarrow> 'm"

record delay =
  dl_target :: u32
  dl_isa :: int
  dl_from :: u32

text \<open>The address-keyed front cache; \<open>f_map\<close> is the identity of the Map it stands in front of.\<close>

record front =
  f_map :: nat
  f_live :: bool
  f_n :: nat
  f_g :: int
  f_gen :: "nat \<Rightarrow> int"
  f_tag :: "nat \<Rightarrow> u32"
  f_ins :: "nat \<Rightarrow> xinsn option"

record cpu =
  c_pc :: u32
  c_isa :: int
  c_reg :: "nat \<Rightarrow> u32"
  c_hi :: u32
  c_lo :: u32
  c_delayed :: "delay option"
  c_dcache :: "nat option"
  c_fc :: "front option"

definition newCpu :: cpu where
  "newCpu = \<lparr>c_pc = 0, c_isa = 16, c_reg = (\<lambda>_. 0), c_hi = 0, c_lo = 0, c_delayed = None,
     c_dcache = None, c_fc = None\<rparr>"

definition rd :: "cpu \<Rightarrow> nat \<Rightarrow> u32" where
  "rd cpu n = (if n = 0 then 0 else c_reg cpu n)"

definition wr :: "cpu \<Rightarrow> nat \<Rightarrow> u32 \<Rightarrow> cpu" where
  "wr cpu n v = (if n \<noteq> 0 then cpu\<lparr>c_reg := (c_reg cpu)(n := v)\<rparr> else cpu)"

section \<open>Arithmetic\<close>

text \<open>
  The limb multiplication of the source.  Its numbers are doubles; \<open>mul64_exact\<close> below shows that
  every intermediate value stays under \<open>2 ^ 53\<close>, so integers model it.
\<close>

definition mul64_neg :: "int \<Rightarrow> int \<Rightarrow> bool" where
  "mul64_neg ua ub = ((ua < 0) \<noteq> (ub < 0))"

definition mul64 :: "u32 \<Rightarrow> u32 \<Rightarrow> bool \<Rightarrow> u32 \<times> u32" where
  "mul64 a b sgnd =
     (let ua0 = (if sgnd then sint a else uint a);
          ub0 = (if sgnd then sint b else uint b);
          neg = (sgnd \<and> mul64_neg ua0 ub0);
          ua = to_u32 (if sgnd \<and> ua0 < 0 then - ua0 else ua0);
          ub = to_u32 (if sgnd \<and> ub0 < 0 then - ub0 else ub0);
          ah = ua div 65536; al = ua AND 0xFFFF;
          bh = ub div 65536; bl = ub AND 0xFFFF;
          mid = al * bh + ah * bl;
          sm = al * bl + (mid mod 65536) * 65536;
          lo0 = sm mod 4294967296;
          carry = sm div 4294967296;
          hi0 = (ah * bh + mid div 65536 + carry) mod 4294967296;
          (hi, lo) = (if neg
            then if lo0 = 0 then ((4294967296 - hi0) mod 4294967296, 0)
                 else (4294967295 - hi0, 4294967296 - lo0)
            else (hi0, lo0))
      in (word_of_int hi, word_of_int lo))"

text \<open>
  \<open>trunc(a / b)\<close> and \<open>a % b\<close> on int32 operands.  The quotient of two int32 values differs from an
  integer by at least \<open>1 / |b|\<close> unless it is one, far more than the rounding of the division, so
  truncating the double is truncating the exact quotient.
\<close>

definition trunc_div :: "int \<Rightarrow> int \<Rightarrow> int" where
  "trunc_div a b = sgn a * sgn b * (\<bar>a\<bar> div \<bar>b\<bar>)"

definition trunc_rem :: "int \<Rightarrow> int \<Rightarrow> int" where
  "trunc_rem a b = a - b * trunc_div a b"

section \<open>What one case of the switch does\<close>

record 'm eff =
  e_cpu :: cpu
  e_mem :: 'm
  e_branch :: "u32 option"
  e_jump :: "u32 option"
  e_jumpIsa :: int

text \<open>
  A case of the switch either runs on, returns \<open>{ok: false}\<close> with a reason, or raises.
\<close>

datatype 'm xeff = Run "'m eff" | Refuse string | Raise string

definition plain :: "cpu \<Rightarrow> 'm \<Rightarrow> 'm xeff" where
  "plain cpu m = Run \<lparr>e_cpu = cpu, e_mem = m, e_branch = None, e_jump = None, e_jumpIsa = 16\<rparr>"

definition branchTo :: "cpu \<Rightarrow> 'm \<Rightarrow> u32 \<Rightarrow> 'm xeff" where
  "branchTo cpu m t = Run \<lparr>e_cpu = cpu, e_mem = m, e_branch = Some t, e_jump = None, e_jumpIsa = 16\<rparr>"

definition jumpTo :: "cpu \<Rightarrow> 'm \<Rightarrow> u32 \<Rightarrow> int \<Rightarrow> 'm xeff" where
  "jumpTo cpu m t i = Run \<lparr>e_cpu = cpu, e_mem = m, e_branch = None, e_jump = Some t, e_jumpIsa = i\<rparr>"

abbreviation w32 :: "int \<Rightarrow> u32" where
  "w32 n \<equiv> word_of_int n"

definition exec_alu :: "nat \<Rightarrow> xpay \<Rightarrow> u32 \<Rightarrow> cpu \<Rightarrow> cpu" where
  "exec_alu ki x base cpu =
     (if ki = 1 then wr cpu (x_d x) (c_reg cpu GPR_SP + w32 (x_imm x))
      else if ki = 2 then wr cpu (x_d x) ((base AND NOT 3) + w32 (x_imm x))
      else if ki = 3 then wr cpu (x_d x) (rd cpu (x_s x) + w32 (x_imm x))
      else if ki = 4 then wr cpu (x_d x) (c_reg cpu (x_d x) + w32 (x_imm x))
      else if ki = 5 then cpu\<lparr>c_reg := (c_reg cpu)(GPR_SP := c_reg cpu GPR_SP + w32 (x_imm x))\<rparr>
      else if ki = 6 then wr cpu (x_d x) (w32 (x_imm x))
      else if ki = 7 then wr cpu (x_d x) (rd cpu (x_s x))
      else if ki = 8 then wr cpu (x_d x) (rd cpu (x_s x) + rd cpu (x_t x))
      else if ki = 9 then wr cpu (x_d x) (rd cpu (x_s x) - rd cpu (x_t x))
      else if ki = 10 then wr cpu (x_d x) (c_reg cpu (x_d x) AND rd cpu (x_s x))
      else if ki = 11 then wr cpu (x_d x) (c_reg cpu (x_d x) OR rd cpu (x_s x))
      else if ki = 12 then wr cpu (x_d x) (c_reg cpu (x_d x) XOR rd cpu (x_s x))
      else if ki = 13 then wr cpu (x_d x) (NOT (rd cpu (x_s x)))
      else wr cpu (x_d x) (0 - rd cpu (x_s x)))"

definition set_T :: "cpu \<Rightarrow> u32 \<Rightarrow> cpu" where
  "set_T cpu v = cpu\<lparr>c_reg := (c_reg cpu)(GPR_T := v)\<rparr>"

definition exec_cond :: "nat \<Rightarrow> xpay \<Rightarrow> cpu \<Rightarrow> cpu" where
  "exec_cond ki x cpu =
     (if ki = 15 then set_T cpu (rd cpu (x_d x) XOR rd cpu (x_s x))
      else if ki = 16 then set_T cpu (rd cpu (x_s x) XOR w32 (x_imm x))
      else if ki = 17 then set_T cpu (if rd cpu (x_d x) <s rd cpu (x_s x) then 1 else 0)
      else if ki = 18 then set_T cpu (if rd cpu (x_d x) < rd cpu (x_s x) then 1 else 0)
      else if ki = 19 then set_T cpu (if rd cpu (x_s x) <s w32 (x_imm x) then 1 else 0)
      else set_T cpu (if rd cpu (x_s x) < w32 (x_imm x) then 1 else 0))"

definition sh_count :: "u32 \<Rightarrow> nat" where
  "sh_count v = unat (v AND 31)"

definition exec_shift :: "nat \<Rightarrow> xpay \<Rightarrow> cpu \<Rightarrow> cpu" where
  "exec_shift ki x cpu =
     (if ki = 21 then wr cpu (x_d x) (push_bit (nat (x_sa x AND 31)) (rd cpu (x_s x)))
      else if ki = 22 then wr cpu (x_d x) (drop_bit (nat (x_sa x AND 31)) (rd cpu (x_s x)))
      else if ki = 23 then wr cpu (x_d x) (signed_drop_bit (nat (x_sa x AND 31)) (rd cpu (x_s x)))
      else if ki = 24 then wr cpu (x_d x) (push_bit (sh_count (rd cpu (x_sh x))) (c_reg cpu (x_d x)))
      else if ki = 25 then wr cpu (x_d x) (drop_bit (sh_count (rd cpu (x_sh x))) (c_reg cpu (x_d x)))
      else wr cpu (x_d x) (signed_drop_bit (sh_count (rd cpu (x_sh x))) (c_reg cpu (x_d x))))"

definition exec_hilo :: "nat \<Rightarrow> xpay \<Rightarrow> cpu \<Rightarrow> cpu" where
  "exec_hilo ki x cpu =
     (if ki = 27 then
        (let m = mul64 (rd cpu (x_d x)) (rd cpu (x_s x)) True in cpu\<lparr>c_hi := fst m, c_lo := snd m\<rparr>)
      else if ki = 28 then
        (let m = mul64 (rd cpu (x_d x)) (rd cpu (x_s x)) False in cpu\<lparr>c_hi := fst m, c_lo := snd m\<rparr>)
      else if ki = 29 then
        (let a = rd cpu (x_s x); b = rd cpu (x_t x) in
         if b = 0 then cpu\<lparr>c_lo := 0, c_hi := a\<rparr>
         else cpu\<lparr>c_lo := w32 (trunc_div (sint a) (sint b)), c_hi := w32 (trunc_rem (sint a) (sint b))\<rparr>)
      else if ki = 30 then
        (let a = rd cpu (x_s x); b = rd cpu (x_t x) in
         if b = 0 then cpu\<lparr>c_lo := 0, c_hi := a\<rparr>
         else cpu\<lparr>c_lo := w32 (uint a div uint b), c_hi := w32 (uint a mod uint b)\<rparr>)
      else if ki = 31 then wr cpu (x_d x) (c_hi cpu)
      else wr cpu (x_d x) (c_lo cpu))"

definition exec_cnvt :: "nat \<Rightarrow> xpay \<Rightarrow> cpu \<Rightarrow> cpu" where
  "exec_cnvt ki x cpu =
     (let v = c_reg cpu (x_d x) in
      if ki = 33 then wr cpu (x_d x) (v AND 0xFF)
      else if ki = 34 then wr cpu (x_d x) (v AND 0xFFFF)
      else if ki = 35 then wr cpu (x_d x) (signed_drop_bit 24 (push_bit 24 v))
      else wr cpu (x_d x) (signed_drop_bit 16 (push_bit 16 v)))"

text \<open>A load does its read only when its destination is not \<open>$zero\<close>.\<close>

definition load_reg ::
  "('m \<Rightarrow> u32 \<Rightarrow> u32 \<times> 'm) \<Rightarrow> (u32 \<Rightarrow> u32) \<Rightarrow> cpu \<Rightarrow> 'm \<Rightarrow> nat \<Rightarrow> u32 \<Rightarrow> cpu \<times> 'm" where
  "load_reg rdop conv cpu m d ea =
     (if d \<noteq> 0 then (let r = rdop m ea in (wr cpu d (conv (fst r)), snd r)) else (cpu, m))"

definition exec_load ::
  "'m memops \<Rightarrow> nat \<Rightarrow> xpay \<Rightarrow> u32 \<Rightarrow> cpu \<Rightarrow> 'm \<Rightarrow> cpu \<times> 'm" where
  "exec_load M ki x base cpu m =
     (let ea = rd cpu (x_b x) + w32 (x_off x) in
      if ki = 37 then load_reg (m_read8 M) (\<lambda>v. signed_drop_bit 24 (push_bit 24 v)) cpu m (x_r x) ea
      else if ki = 38 then load_reg (m_read8 M) (\<lambda>v. v AND 0xFF) cpu m (x_r x) ea
      else if ki = 39 then load_reg (m_read16 M) (\<lambda>v. signed_drop_bit 16 (push_bit 16 v)) cpu m (x_r x) ea
      else if ki = 40 then load_reg (m_read16 M) (\<lambda>v. v AND 0xFFFF) cpu m (x_r x) ea
      else if ki = 41 then load_reg (m_read32 M) (\<lambda>v. v) cpu m (x_r x) ea
      else if ki = 42 then
        load_reg (m_read32 M) (\<lambda>v. v) cpu m (x_r x) (c_reg cpu GPR_SP + w32 (x_off x))
      else load_reg (m_read32 M) (\<lambda>v. v) cpu m (x_d x) ((base AND NOT 3) + w32 (x_off x)))"

definition exec_store :: "'m memops \<Rightarrow> nat \<Rightarrow> xpay \<Rightarrow> cpu \<Rightarrow> 'm \<Rightarrow> 'm" where
  "exec_store M ki x cpu m =
     (let ea = rd cpu (x_b x) + w32 (x_off x) in
      if ki = 44 then m_write8 M m ea (rd cpu (x_r x) AND 0xFF)
      else if ki = 45 then m_write16 M m ea (rd cpu (x_r x) AND 0xFFFF)
      else if ki = 46 then m_write32 M m ea (rd cpu (x_r x))
      else if ki = 47 then m_write32 M m (c_reg cpu GPR_SP + w32 (x_off x)) (rd cpu (x_r x))
      else m_write32 M m (c_reg cpu GPR_SP + w32 (x_off x)) (c_reg cpu GPR_RA))"

section \<open>SAVE and RESTORE\<close>

text \<open>
  Both walk the same list of registers downwards from \<open>temp\<close>: \<open>ra\<close>, the \<open>xsregs\<close> set in the order
  30, 23 to 18, then 17, 16, then the static argument registers 7, 6, 5, 4.
\<close>

definition xs_order :: "nat list" where
  "xs_order = [30, 23, 22, 21, 20, 19, 18]"

definition st_order :: "nat list" where
  "st_order = [7, 6, 5, 4]"

definition frame_regs :: "xpay \<Rightarrow> nat \<Rightarrow> nat list" where
  "frame_regs x astatic =
     (if x_ra x \<noteq> 0 then [GPR_RA] else [])
     @ map (\<lambda>i. xs_order ! i) (filter (\<lambda>i. x_xsregs x > 6 - int i) [0..<7])
     @ (if x_s1 x \<noteq> 0 then [17] else [])
     @ (if x_s0 x \<noteq> 0 then [16] else [])
     @ map (\<lambda>i. st_order ! i) [0..<astatic]"

definition save_args :: "'m memops \<Rightarrow> cpu \<Rightarrow> nat \<Rightarrow> u32 \<Rightarrow> 'm \<Rightarrow> 'm" where
  "save_args M cpu args temp m0 =
     (let m1 = (if args > 0 then m_write32 M m0 temp (rd cpu 4) else m0);
          m2 = (if args > 1 then m_write32 M m1 (temp + 4) (rd cpu 5) else m1);
          m3 = (if args > 2 then m_write32 M m2 (temp + 8) (rd cpu 6) else m2)
      in if args > 3 then m_write32 M m3 (temp + 12) (rd cpu 7) else m3)"

fun push_regs :: "'m memops \<Rightarrow> cpu \<Rightarrow> nat list \<Rightarrow> u32 \<Rightarrow> 'm \<Rightarrow> 'm" where
  "push_regs M cpu [] temp m = m"
| "push_regs M cpu (r # rs) temp m =
     push_regs M cpu rs (temp - 4) (m_write32 M m (temp - 4) (rd cpu r))"

fun pop_regs :: "'m memops \<Rightarrow> nat list \<Rightarrow> u32 \<Rightarrow> cpu \<Rightarrow> 'm \<Rightarrow> cpu \<times> 'm" where
  "pop_regs M [] temp cpu m = (cpu, m)"
| "pop_regs M (r # rs) temp cpu m =
     (let v = m_read32 M m (temp - 4) in pop_regs M rs (temp - 4) (wr cpu r (fst v)) (snd v))"

text \<open>\<open>None\<close> is the TypeError of reading a field of \<open>AREGS\<close>'s missing entry.\<close>

definition execSave :: "'m memops \<Rightarrow> cpu \<Rightarrow> 'm \<Rightarrow> xpay \<Rightarrow> (cpu \<times> 'm) option" where
  "execSave M cpu m x =
     (let temp = rd cpu GPR_SP in
      case AREGS (x_aregs x) of
        None \<Rightarrow> None
      | Some (args, statics) \<Rightarrow>
          let m1 = save_args M cpu args temp m;
              m2 = push_regs M cpu (frame_regs x (length statics)) temp m1
          in Some (wr cpu GPR_SP (temp - w32 (x_framesize x)), m2))"

definition execRestore :: "'m memops \<Rightarrow> cpu \<Rightarrow> 'm \<Rightarrow> xpay \<Rightarrow> (cpu \<times> 'm) option" where
  "execRestore M cpu m x =
     (let temp = rd cpu GPR_SP + w32 (x_framesize x) in
      case AREGS (x_aregs x) of
        None \<Rightarrow> None
      | Some (args, statics) \<Rightarrow>
          let r = pop_regs M (frame_regs x (length statics)) temp cpu m
          in Some (wr (fst r) GPR_SP temp, snd r))"

section \<open>The switch\<close>

definition exec_branch :: "nat \<Rightarrow> xpay \<Rightarrow> u32 \<Rightarrow> cpu \<Rightarrow> 'm \<Rightarrow> 'm xeff" where
  "exec_branch ki x nextPc cpu m =
     (let t = nextPc + w32 (x_off x);
          take = (if ki = 49 then True
                  else if ki = 50 then rd cpu (x_s x) = 0
                  else if ki = 51 then rd cpu (x_s x) \<noteq> 0
                  else if ki = 52 then c_reg cpu GPR_T = 0
                  else c_reg cpu GPR_T \<noteq> 0)
      in if take then branchTo cpu m t else plain cpu m)"

definition set_RA :: "cpu \<Rightarrow> u32 \<Rightarrow> cpu" where
  "set_RA cpu v = cpu\<lparr>c_reg := (c_reg cpu)(GPR_RA := v)\<rparr>"

definition isa_of :: "u32 \<Rightarrow> int" where
  "isa_of v = (if v AND 1 \<noteq> 0 then 16 else 32)"

definition exec_jump :: "nat \<Rightarrow> xpay \<Rightarrow> u32 \<Rightarrow> cpu \<Rightarrow> 'm \<Rightarrow> 'm xeff" where
  "exec_jump ki x pc cpu m =
     (let v = rd cpu (x_s x) in
      if ki = 54 then jumpTo (set_RA cpu ((pc + 6) OR 1)) m (w32 (x_tgt x)) 16
      else if ki = 55 then jumpTo (set_RA cpu ((pc + 6) OR 1)) m (w32 (x_tgt x)) 32
      else if ki = 56 then jumpTo cpu m (v AND NOT 1) (isa_of v)
      else if ki = 57 then jumpTo (set_RA cpu ((pc + 4) OR 1)) m (v AND NOT 1) (isa_of v)
      else if ki = 58 then branchTo (cpu\<lparr>c_isa := isa_of v\<rparr>) m (v AND NOT 1)
      else branchTo ((set_RA cpu ((pc + 2) OR 1))\<lparr>c_isa := isa_of v\<rparr>) m (v AND NOT 1))"

definition exec_frame :: "'m memops \<Rightarrow> nat \<Rightarrow> xpay \<Rightarrow> cpu \<Rightarrow> 'm \<Rightarrow> 'm xeff" where
  "exec_frame M ki x cpu m =
     (case (if ki = 60 then execSave M cpu m x else execRestore M cpu m x) of
        None \<Rightarrow> Raise ''TypeError''
      | Some r \<Rightarrow> plain (fst r) (snd r))"

definition exec_switch ::
  "'m memops \<Rightarrow> xpay \<Rightarrow> int \<Rightarrow> u32 \<Rightarrow> u32 \<Rightarrow> cpu \<Rightarrow> 'm \<Rightarrow> 'm xeff" where
  "exec_switch M x len pc base cpu m =
     (let ki = x_ki x in
      if ki = 0 \<or> ki > 63 then Refuse (''unimplemented in step(): '' @ x_k x)
      else if ki \<le> 14 then plain (exec_alu ki x base cpu) m
      else if ki \<le> 20 then plain (exec_cond ki x cpu) m
      else if ki \<le> 26 then plain (exec_shift ki x cpu) m
      else if ki \<le> 32 then plain (exec_hilo ki x cpu) m
      else if ki \<le> 36 then plain (exec_cnvt ki x cpu) m
      else if ki \<le> 43 then (let r = exec_load M ki x base cpu m in plain (fst r) (snd r))
      else if ki \<le> 48 then plain cpu (exec_store M ki x cpu m)
      else if ki \<le> 53 then exec_branch ki x (pc + w32 len) cpu m
      else if ki \<le> 59 then exec_jump ki x pc cpu m
      else if ki \<le> 61 then exec_frame M ki x cpu m
      else if ki = 62 then
        Refuse ((case x_name x of None \<Rightarrow> ''null'' | Some nm \<Rightarrow> nm) @ '' (code '' @ dec_string (x_code x)
                @ '') -- exception, not simulated'')
      else Refuse ''bare EXTEND: not an instruction on its own'')"

section \<open>exec\<close>

text \<open>
  What \<open>step\<close> and \<open>exec\<close> return: \<open>{ok: true, ...}\<close>, \<open>{ok: false, reason}\<close>, or an exception
  leaving the call.
\<close>

record ok_result =
  r_length :: int
  r_pc :: u32
  r_op :: string
  r_operands :: "string list"
  r_wasDelaySlot :: bool
  r_unpredictable :: bool

datatype outcome = Ok ok_result | Fail string | Threw string

definition exec_base :: "cpu \<Rightarrow> u32 \<Rightarrow> u32" where
  "exec_base cpu pc = (case c_delayed cpu of None \<Rightarrow> pc | Some p \<Rightarrow> dl_from p)"

definition finish_pc :: "delay option \<Rightarrow> 'm eff \<Rightarrow> u32 \<Rightarrow> u32 \<Rightarrow> cpu" where
  "finish_pc pend e pc nextPc =
     (let cpu = e_cpu e in
      case pend of
        Some p \<Rightarrow> cpu\<lparr>c_pc := dl_target p, c_isa := dl_isa p, c_delayed := None\<rparr>
      | None \<Rightarrow>
          (case e_branch e of
             Some t \<Rightarrow> cpu\<lparr>c_pc := t\<rparr>
           | None \<Rightarrow>
               (case e_jump e of
                  Some t \<Rightarrow> cpu\<lparr>c_delayed := Some \<lparr>dl_target = t, dl_isa = e_jumpIsa e, dl_from = pc\<rparr>,
                                c_pc := nextPc\<rparr>
                | None \<Rightarrow> cpu\<lparr>c_pc := nextPc\<rparr>)))"

definition exec :: "'m memops \<Rightarrow> cpu \<Rightarrow> 'm \<Rightarrow> xinsn \<Rightarrow> u32 \<Rightarrow> outcome \<times> cpu \<times> 'm" where
  "exec M cpu m xi pc =
     (let ins = fst xi; x = snd xi;
          pend = c_delayed cpu;
          len = i_length ins;
          nextPc = pc + w32 len in
      case exec_switch M x len pc (exec_base cpu pc) cpu m of
        Raise e \<Rightarrow> (Threw e, cpu, m)
      | Refuse reason \<Rightarrow> (Fail reason, cpu, m)
      | Run e \<Rightarrow>
          (Ok \<lparr>r_length = len, r_pc = pc, r_op = i_op ins, r_operands = i_operands ins,
               r_wasDelaySlot = (pend \<noteq> None),
               r_unpredictable = (pend \<noteq> None \<and> (e_jump e \<noteq> None \<or> e_branch e \<noteq> None))\<rparr>,
           finish_pc pend e pc nextPc, e_mem e))"

end
