(* ===== verification/M16_ExecFacts.thy ===== *)
theory M16_ExecFacts
  imports M16_Exec
begin

text \<open>
  Facts about the executor: the limb multiplication is 64-bit multiplication, division satisfies
  the division identity, \<open>$zero\<close> is never written, a payload of the decoder never raises and is
  refused only when it is a trap or a bare EXTEND, and the switch leaves the pending jump alone.
\<close>

section \<open>The limb multiplication\<close>

lemma limb_product:
  fixes ua ub :: int
  assumes "0 \<le> ua" "ua < 2 ^ 32" "0 \<le> ub" "ub < 2 ^ 32"
  defines "ah \<equiv> ua div 65536" and "al \<equiv> ua AND 0xFFFF"
    and "bh \<equiv> ub div 65536" and "bl \<equiv> ub AND 0xFFFF"
  defines "mid \<equiv> al * bh + ah * bl"
  defines "sm \<equiv> al * bl + (mid mod 65536) * 65536"
  shows "sm mod 4294967296 = (ua * ub) mod 4294967296"
    and "(ah * bh + mid div 65536 + sm div 4294967296) mod 4294967296 = (ua * ub) div 4294967296"
proof -
  have al: "al = ua mod 65536" and bl: "bl = ub mod 65536"
    by (simp_all add: al_def bl_def int_and_take take_bit_eq_mod)
  have a: "ua = ah * 65536 + al" and b: "ub = bh * 65536 + bl"
    by (simp_all add: al bl ah_def bh_def)
  have p: "ua * ub = (ah * bh) * 4294967296 + mid * 65536 + al * bl"
    by (subst a, subst b) (simp add: mid_def algebra_simps)
  have m: "mid * 65536 = (mid div 65536) * 4294967296 + (mid mod 65536) * 65536"
    by presburger
  have split: "ua * ub = (ah * bh + mid div 65536) * 4294967296 + sm"
    unfolding p m sm_def by (simp only: distrib_right add.assoc add.commute add.left_commute)
  show "sm mod 4294967296 = (ua * ub) mod 4294967296"
    unfolding split by (simp only: mod_mult_self3)
  have q: "(ua * ub) div 4294967296 = ah * bh + mid div 65536 + sm div 4294967296"
    unfolding split by simp
  have "0 \<le> ua * ub" using assms by simp
  moreover have "ua * ub < 2 ^ 32 * 2 ^ 32"
    using assms by (intro mult_strict_mono') simp_all
  ultimately have "0 \<le> (ua * ub) div 4294967296" "(ua * ub) div 4294967296 < 4294967296"
    by simp_all
  then show "(ah * bh + mid div 65536 + sm div 4294967296) mod 4294967296 = (ua * ub) div 4294967296"
    using q by simp
qed

lemma neg_halves:
  fixes p :: int
  assumes "0 \<le> p" "p \<le> 2 ^ 63"
  defines "lo \<equiv> p mod 4294967296" and "hi \<equiv> p div 4294967296"
  shows "(if lo = 0 then (4294967296 - hi) mod 4294967296 else 4294967295 - hi) = ((- p) div 4294967296) mod 4294967296"
    and "(if lo = 0 then 0 else 4294967296 - lo) = (- p) mod 4294967296"
proof -
  have p: "p = hi * 4294967296 + lo" by (simp add: lo_def hi_def)
  have lo: "0 \<le> lo" "lo < 4294967296" by (simp_all add: lo_def)
  have hi: "0 \<le> hi" "hi < 4294967296" using assms(1,2) by (simp_all add: hi_def)
  show "(if lo = 0 then 0 else 4294967296 - lo) = (- p) mod 4294967296"
    unfolding zmod_zminus1_eq_if lo_def by simp
  have d: "(- p) div 4294967296 = (if lo = 0 then - hi else - hi - 1)"
    by (simp add: lo_def hi_def zdiv_zminus1_eq_if)
  have r: "(- hi - 1) mod 4294967296 = 4294967295 - hi"
  proof -
    have "(- hi - 1) mod 4294967296 = (4294967296 - (hi + 1)) mod 4294967296"
      by (simp only: minus_mod_self1) simp
    also have "\<dots> = 4294967295 - hi" using hi by (subst mod_pos_pos_trivial) simp_all
    finally show ?thesis .
  qed
  show "(if lo = 0 then (4294967296 - hi) mod 4294967296 else 4294967295 - hi)
      = ((- p) div 4294967296) mod 4294967296"
    by (simp only: d if_distrib [of "\<lambda>v. v mod 4294967296"] r minus_mod_self1)
qed

lemma sint_abs_bounds: "\<bar>sint (a :: u32)\<bar> \<le> 2147483648"
  using sint_ge [of a] sint_lt [of a] by (simp add: abs_le_iff)

lemma uint_bounds: "0 \<le> uint (a :: u32)" "uint (a :: u32) < 4294967296"
  using uint_lt2p [of a] by simp_all

text \<open>The operands the limbs are taken from: magnitudes, and the sign to put back.\<close>

lemma mul64_halves:
  defines "X a b sgnd \<equiv> (if sgnd then sint (a :: u32) * sint (b :: u32) else uint a * uint b)"
  shows "mul64 a b sgnd = (word_of_int (X a b sgnd div 4294967296 mod 4294967296),
                           word_of_int (X a b sgnd mod 4294967296))"
proof -
  define ua0 where "ua0 = (if sgnd then sint a else uint a)"
  define ub0 where "ub0 = (if sgnd then sint b else uint b)"
  define neg where "neg = (sgnd \<and> mul64_neg ua0 ub0)"
  define ua where "ua = to_u32 (if sgnd \<and> ua0 < 0 then - ua0 else ua0)"
  define ub where "ub = to_u32 (if sgnd \<and> ub0 < 0 then - ub0 else ub0)"
  have ua: "ua = \<bar>ua0\<bar>" and ub: "ub = \<bar>ub0\<bar>"
    using sint_abs_bounds [of a] sint_abs_bounds [of b] uint_bounds [of a] uint_bounds [of b]
    unfolding ua_def ub_def ua0_def ub0_def by (cases sgnd; simp)+
  have rng: "0 \<le> ua" "ua < 2 ^ 32" "0 \<le> ub" "ub < 2 ^ 32"
    by (simp_all add: ua_def ub_def)
  have X: "X a b sgnd = (if neg then - (ua * ub) else ua * ub)"
    unfolding X_def neg_def mul64_neg_def ua ub ua0_def ub0_def
    using uint_bounds [of a] uint_bounds [of b] by (cases sgnd) (auto simp: abs_if)
  have bound: "ua * ub \<le> 2 ^ 63" if neg
  proof -
    from that have "ua \<le> 2147483648" "ub \<le> 2147483648"
      using sint_abs_bounds [of a] sint_abs_bounds [of b] by (simp_all add: neg_def ua ub ua0_def ub0_def)
    then have "ua * ub \<le> 2147483648 * 2147483648" using rng by (intro mult_mono) simp_all
    then show ?thesis by simp
  qed
  let ?lo0 = "(ua * ub) mod 4294967296" and ?hi0 = "(ua * ub) div 4294967296"
  have lim: "?hi0 mod 4294967296 = ?hi0" if "\<not> neg"
    using limb_product(2) [OF rng] by (simp add: mod_mod_trivial flip: limb_product(2) [OF rng])
  have m: "mul64 a b sgnd = (let (hi, lo) = (if neg
      then if ?lo0 = 0 then ((4294967296 - ?hi0) mod 4294967296, 0)
           else (4294967295 - ?hi0, 4294967296 - ?lo0)
      else (?hi0, ?lo0)) in (word_of_int hi, word_of_int lo))"
    unfolding mul64_def Let_def ua0_def [symmetric] ub0_def [symmetric] neg_def [symmetric]
      ua_def [symmetric] ub_def [symmetric] limb_product [OF rng] ..
  have pos: "0 \<le> ua * ub" using rng by simp
  show ?thesis
  proof (cases neg)
    case True
    have h: "(if ?lo0 = 0 then (4294967296 - ?hi0) mod 4294967296 else 4294967295 - ?hi0)
          = X a b sgnd div 4294967296 mod 4294967296"
      and l: "(if ?lo0 = 0 then 0 else 4294967296 - ?lo0) = X a b sgnd mod 4294967296"
      using neg_halves [OF pos bound [OF True]] True X by simp_all
    show ?thesis
      unfolding m h [symmetric] l [symmetric] using True by simp
  next
    case False
    then show ?thesis using m lim X by simp
  qed
qed

lemma mul64_product:
  "uint (fst (mul64 a b sgnd)) * 2 ^ 32 + uint (snd (mul64 a b sgnd))
     = (if sgnd then sint a * sint b else uint a * uint b) mod 2 ^ 64"
proof -
  define X where "X = (if sgnd then sint a * sint b else uint a * uint b)"
  have "X mod (4294967296 * 4294967296) = 4294967296 * (X div 4294967296 mod 4294967296) + X mod 4294967296"
    by (rule zmod_zmult2_eq) simp
  then show ?thesis
    unfolding mul64_halves X_def [symmetric] by (simp add: unsigned_of_int take_bit_eq_mod)
qed

lemma mul64_exact:
  fixes ah al bh bl :: int
  assumes "0 \<le> ah" "ah < 65536" "0 \<le> al" "al < 65536" "0 \<le> bh" "bh < 65536" "0 \<le> bl" "bl < 65536"
  shows "al * bh + ah * bl < 2 ^ 33"
    and "al * bl + ((al * bh + ah * bl) mod 65536) * 65536 < 2 ^ 33"
    and "ah * bh + (al * bh + ah * bl) div 65536 + 2 < 2 ^ 33"
proof -
  have b: "x * y \<le> 65535 * 65535" if "0 \<le> x" "x < 65536" "0 \<le> y" "y < 65536" for x y :: int
    using that by (intro mult_mono) simp_all
  note bs = b [OF assms(3,4,5,6)] b [OF assms(1,2,7,8)] b [OF assms(3,4,7,8)] b [OF assms(1,2,5,6)]
  show "al * bh + ah * bl < 2 ^ 33" using bs by simp
  show "al * bl + ((al * bh + ah * bl) mod 65536) * 65536 < 2 ^ 33"
    using bs pos_mod_bound [of 65536 "al * bh + ah * bl"] by simp
  show "ah * bh + (al * bh + ah * bl) div 65536 + 2 < 2 ^ 33"
    using bs by simp
qed

section \<open>Division\<close>

lemma trunc_div_rem: "b \<noteq> 0 \<Longrightarrow> b * trunc_div a b + trunc_rem a b = a"
  by (simp add: trunc_rem_def)

lemma trunc_rem_alt: "trunc_rem a b = sgn a * (\<bar>a\<bar> mod \<bar>b\<bar>)"
proof -
  have "\<bar>b\<bar> * (\<bar>a\<bar> div \<bar>b\<bar>) = \<bar>a\<bar> - \<bar>a\<bar> mod \<bar>b\<bar>"
    by (simp add: minus_mod_eq_mult_div)
  moreover have "b * trunc_div a b = sgn a * (\<bar>b\<bar> * (\<bar>a\<bar> div \<bar>b\<bar>))"
    by (simp add: trunc_div_def abs_sgn [of b] mult.assoc mult.left_commute)
  ultimately show ?thesis
    by (simp add: trunc_rem_def right_diff_distrib sgn_mult_abs)
qed

lemma trunc_rem_bound: "b \<noteq> 0 \<Longrightarrow> \<bar>trunc_rem a b\<bar> < \<bar>b\<bar>"
  by (simp add: trunc_rem_alt abs_mult sgn_if)

section \<open>The register file\<close>

definition even_addr :: "u32 \<Rightarrow> bool" where
  "even_addr a \<longleftrightarrow> even (uint a)"

lemma rd_wr [simp]: "rd (wr c n v) k = (if k = n \<and> n \<noteq> 0 then v else rd c k)"
  by (simp add: rd_def wr_def)

lemma reg0_simps [simp]:
  "c_reg (wr c n v) 0 = c_reg c 0"
  "c_reg (set_T c v) 0 = c_reg c 0"
  "c_reg (set_RA c v) 0 = c_reg c 0"
  by (simp_all add: wr_def set_T_def set_RA_def)

lemma pop_regs_reg0 [simp]: "c_reg (fst (pop_regs M rs t c m)) 0 = c_reg c 0"
  by (induction rs arbitrary: t c m) (simp_all add: Let_def)

lemma plain_Run: "plain c m = Run e \<longleftrightarrow>
    e = \<lparr>e_cpu = c, e_mem = m, e_branch = None, e_jump = None, e_jumpIsa = 16\<rparr>"
  by (auto simp: plain_def)

lemma alu_reg0 [simp]: "c_reg (exec_alu ki x b c) 0 = c_reg c 0"
  by (simp add: exec_alu_def)

lemma cond_reg0 [simp]: "c_reg (exec_cond ki x c) 0 = c_reg c 0"
  by (simp add: exec_cond_def)

lemma shift_reg0 [simp]: "c_reg (exec_shift ki x c) 0 = c_reg c 0"
  by (simp add: exec_shift_def)

lemma hilo_reg0 [simp]: "c_reg (exec_hilo ki x c) 0 = c_reg c 0"
  by (simp add: exec_hilo_def Let_def)

lemma cnvt_reg0 [simp]: "c_reg (exec_cnvt ki x c) 0 = c_reg c 0"
  by (simp add: exec_cnvt_def Let_def)

lemma load_reg_reg0 [simp]: "c_reg (fst (load_reg f g c m d ea)) 0 = c_reg c 0"
  by (simp add: load_reg_def Let_def)

lemma load_reg0 [simp]: "c_reg (fst (exec_load M ki x b c m)) 0 = c_reg c 0"
  by (simp add: exec_load_def Let_def)

lemma save_reg0: "execSave M c m x = Some r \<Longrightarrow> c_reg (fst r) 0 = c_reg c 0"
  by (auto simp: execSave_def Let_def split: option.splits)

lemma restore_reg0: "execRestore M c m x = Some r \<Longrightarrow> c_reg (fst r) 0 = c_reg c 0"
  by (auto simp: execRestore_def Let_def split: option.splits)

text \<open>
  A predicate of the register file, the flags of the pending jump and the cache fields that every
  case of the switch keeps, one rule for all of them: it is enough to know it for each group.
\<close>

lemma exec_switch_cpu:
  assumes run: "exec_switch M x len pc b c m = Run e"
    and alu: "P (exec_alu (x_ki x) x b c)" and cnd: "P (exec_cond (x_ki x) x c)"
    and shf: "P (exec_shift (x_ki x) x c)" and hilo: "P (exec_hilo (x_ki x) x c)"
    and cnv: "P (exec_cnvt (x_ki x) x c)" and ld: "P (fst (exec_load M (x_ki x) x b c m))"
    and st: "P c"
    and jmp: "\<And>v. P (set_RA c v)" and jis: "\<And>v i. P (c\<lparr>c_isa := i\<rparr>) \<and> P ((set_RA c v)\<lparr>c_isa := i\<rparr>)"
    and sv: "\<And>r. execSave M c m x = Some r \<Longrightarrow> P (fst r)"
    and rs: "\<And>r. execRestore M c m x = Some r \<Longrightarrow> P (fst r)"
  shows "P (e_cpu e)"
proof -
  from run have "x_ki x \<noteq> 0" "x_ki x \<le> 63" by (auto simp: exec_switch_def Let_def split: if_splits)
  then consider "x_ki x \<le> 14" | "14 < x_ki x" "x_ki x \<le> 20" | "20 < x_ki x" "x_ki x \<le> 26"
    | "26 < x_ki x" "x_ki x \<le> 32" | "32 < x_ki x" "x_ki x \<le> 36" | "36 < x_ki x" "x_ki x \<le> 43"
    | "43 < x_ki x" "x_ki x \<le> 48" | "48 < x_ki x" "x_ki x \<le> 53" | "53 < x_ki x" "x_ki x \<le> 59"
    | "59 < x_ki x" "x_ki x \<le> 61" | "61 < x_ki x" "x_ki x \<le> 63" by linarith
  then show ?thesis
  proof cases
    case 8
    with run st show ?thesis
      by (auto simp: exec_switch_def exec_branch_def Let_def plain_def branchTo_def split: if_splits)
  next
    case 9
    with run st jmp jis show ?thesis
      by (auto simp: exec_switch_def exec_jump_def Let_def jumpTo_def branchTo_def split: if_splits)
  next
    case 10
    with run show ?thesis
      by (auto simp: exec_switch_def exec_frame_def Let_def plain_Run split: if_splits option.splits
               dest: sv rs)
  qed (use \<open>x_ki x \<noteq> 0\<close> run alu cnd shf hilo cnv ld st in
         \<open>auto simp: exec_switch_def Let_def plain_Run split: if_splits\<close>)
qed

lemma exec_switch_reg0:
  "exec_switch M x len pc b c m = Run e \<Longrightarrow> c_reg (e_cpu e) 0 = c_reg c 0"
  by (rule exec_switch_cpu [where P = "\<lambda>c'. c_reg c' 0 = c_reg c 0"])
     (auto dest: save_reg0 restore_reg0)

lemma finish_pc_reg [simp]: "c_reg (finish_pc p e pc n) = c_reg (e_cpu e)"
  by (simp add: finish_pc_def Let_def split: option.split)

lemma exec_reg0: "exec M c m xi pc = (r, c', m') \<Longrightarrow> c_reg c' 0 = c_reg c 0"
  by (auto simp: exec_def Let_def split: xeff.splits dest: exec_switch_reg0)

section \<open>No payload of the decoder raises, and only traps refuse\<close>

definition wf_xpay :: "xpay \<Rightarrow> bool" where
  "wf_xpay x \<longleftrightarrow> 1 \<le> x_ki x \<and> x_ki x \<le> 63 \<and> KID (x_k x) = Some (x_ki x)
     \<and> AREGS (x_aregs x) \<noteq> None \<and> 0 \<le> x_xsregs x \<and> x_xsregs x \<le> 7
     \<and> (x_ki x \<in> {49, 50, 51, 52, 53} \<longrightarrow> even (x_off x))
     \<and> (x_ki x \<in> {54, 55} \<longrightarrow> even (x_tgt x))"

lemma wf_xnorm: "wf_payload p \<Longrightarrow> wf_xpay (xnorm p)"
  using KID_range by (auto simp: wf_payload_def wf_xpay_def xnorm_def)

lemma exec_switch_total:
  assumes "wf_xpay x"
  shows "(\<exists>e. exec_switch M x len pc b c m = Run e)
       \<or> (x_ki x \<in> {62, 63} \<and> (\<exists>r. exec_switch M x len pc b c m = Refuse r))"
proof -
  from assms obtain as where "AREGS (x_aregs x) = Some as" by (auto simp: wf_xpay_def)
  with assms show ?thesis
    by (cases as)
       (auto simp: exec_switch_def wf_xpay_def Let_def plain_def branchTo_def jumpTo_def
          exec_branch_def exec_jump_def exec_frame_def execSave_def execRestore_def split: if_splits)
qed

section \<open>The pending jump\<close>

lemma exec_switch_delayed:
  "exec_switch M x len pc b c m = Run e \<Longrightarrow> c_delayed (e_cpu e) = c_delayed c"
proof (rule exec_switch_cpu [where P = "\<lambda>c'. c_delayed c' = c_delayed c"])
  have pop: "c_delayed (fst (pop_regs M rs t c m)) = c_delayed c" for M rs t c and m :: 'a
    by (induction rs arbitrary: t c m) (simp_all add: Let_def wr_def)
  show "c_delayed (fst r) = c_delayed c" if "execRestore M c m x = Some r" for r
    using that by (auto simp: execRestore_def Let_def pop wr_def split: option.splits)
  show "c_delayed (fst r) = c_delayed c" if "execSave M c m x = Some r" for r
    using that by (auto simp: execSave_def Let_def wr_def split: option.splits)
qed (simp_all add: exec_alu_def exec_cond_def exec_shift_def exec_hilo_def exec_cnvt_def
       exec_load_def load_reg_def Let_def wr_def set_T_def set_RA_def)

end
