(* ===== verification/M16_Step.thy ===== *)
theory M16_Step
  imports M16_ExecFacts
begin

text \<open>
  \<open>step\<close> of \<open>reference/mips16.js\<close>, with the decode cache Map the caller hands in as
  \<open>cpu.__dcache\<close> and the address-keyed front cache \<open>cpu.__fc\<close> in front of it.  The Map belongs to
  the caller, so it lives in the state \<open>'m\<close> and is reached through the record \<open>cacheops\<close>, whose
  first argument after the state is the identity of the Map (\<open>fc.map !== dcache\<close> compares it).
\<close>

section \<open>The front cache\<close>

definition FC_BITS :: nat where "FC_BITS = 14"
definition FC_SIZE :: nat where "FC_SIZE = 16384"
definition FC_MASK :: u32 where "FC_MASK = 16383"

record 'm cacheops =
  ca_sized :: "'m \<Rightarrow> nat \<Rightarrow> bool"
  ca_size :: "'m \<Rightarrow> nat \<Rightarrow> nat"
  ca_get :: "'m \<Rightarrow> nat \<Rightarrow> u32 \<Rightarrow> xinsn option"
  ca_set :: "'m \<Rightarrow> nat \<Rightarrow> u32 \<Rightarrow> xinsn \<Rightarrow> 'm"

text \<open>A fresh front cache: typed arrays start at 0, the array of instructions empty.\<close>

definition newFront :: "'m cacheops \<Rightarrow> 'm \<Rightarrow> nat \<Rightarrow> front" where
  "newFront C m mp = \<lparr>f_map = mp, f_live = ca_sized C m mp, f_n = ca_size C m mp, f_g = 1,
     f_gen = (\<lambda>_. 0), f_tag = (\<lambda>_. 0), f_ins = (\<lambda>_. None)\<rparr>"

text \<open>Taken when the Map's size is not the one \<open>step\<close> left: the caller has evicted something.\<close>

definition front_flush :: "front \<Rightarrow> nat \<Rightarrow> front" where
  "front_flush fc n =
     (let g = to_i32 (f_g fc + 1) in
      if g > 0x3FFFFFFF then fc\<lparr>f_gen := (\<lambda>_. 0), f_g := 1, f_n := n\<rparr>
      else fc\<lparr>f_g := g, f_n := n\<rparr>)"

definition front_sync :: "'m cacheops \<Rightarrow> 'm \<Rightarrow> nat \<Rightarrow> front option \<Rightarrow> front" where
  "front_sync C m mp fco =
     (case fco of
        None \<Rightarrow> newFront C m mp
      | Some fc \<Rightarrow>
          if f_map fc \<noteq> mp then newFront C m mp
          else if f_live fc \<and> f_n fc \<noteq> ca_size C m mp then front_flush fc (ca_size C m mp)
          else fc)"

definition front_slot :: "u32 \<Rightarrow> nat" where
  "front_slot pc = unat (drop_bit 1 pc AND FC_MASK)"

definition front_hit :: "front \<Rightarrow> u32 \<Rightarrow> bool" where
  "front_hit fc pc \<longleftrightarrow> f_live fc \<and> f_tag fc (front_slot pc) = pc \<and> f_gen fc (front_slot pc) = f_g fc"

definition front_fill :: "front \<Rightarrow> u32 \<Rightarrow> xinsn \<Rightarrow> front" where
  "front_fill fc pc xi =
     (if f_live fc
      then fc\<lparr>f_tag := (f_tag fc)(front_slot pc := pc), f_gen := (f_gen fc)(front_slot pc := f_g fc),
              f_ins := (f_ins fc)(front_slot pc := Some xi)\<rparr>
      else fc)"

section \<open>Fetch and decode\<close>

text \<open>
  The uncached path of \<open>step\<close>: read the halfword, and the next one or two, decode, refuse what the
  executor cannot run, and normalise the payload.  \<open>Inl\<close> is what \<open>step\<close> returns or raises at once.
\<close>

definition accept :: "insn \<Rightarrow> outcome + xinsn" where
  "accept ins =
     (if i_op ins = ''UNKNOWN'' then Inl (Fail (the (i_reason ins)))
      else case i_x ins of
        None \<Rightarrow> Inl (Fail (i_op ins @ '' decodes but is not implemented by step()''))
      | Some x \<Rightarrow> Inr (ins, xnorm x))"

definition rd16 :: "'m memops \<Rightarrow> 'm \<Rightarrow> u32 \<Rightarrow> int \<times> 'm" where
  "rd16 M m a = (let r = m_read16 M m a in (uint (fst r AND 0xFFFF), snd r))"

definition fetch ::
  "'m memops \<Rightarrow> 'm \<Rightarrow> u32 \<Rightarrow> u32 option \<Rightarrow> (outcome + xinsn) \<times> 'm" where
  "fetch M m pc pcBase =
     (let (hw, m1) = rd16 M m pc; pcb = map_option uint pcBase in
      if drop_bit 11 hw = 0x1E then
        (let (hw2, m2) = rd16 M m1 (pc + 2); (nxt, m3) = rd16 M m2 (pc + 4) in
         case decode hw2 (Some hw) (Some nxt) (Some (uint pc)) pcb (Some 32) of
           Inl e \<Rightarrow> (Inl (Threw e), m3)
         | Inr ins \<Rightarrow> (if i_notext ins then Inl (Fail (the (i_reason ins))) else accept ins, m3))
      else
        (let (nxt, m2) = rd16 M m1 (pc + 2) in
         case decode hw None (Some nxt) (Some (uint pc)) pcb (Some 32) of
           Inl e \<Rightarrow> (Inl (Threw e), m2)
         | Inr ins \<Rightarrow> (accept ins, m2)))"

section \<open>step\<close>

definition set_fc :: "cpu \<Rightarrow> front \<Rightarrow> cpu" where
  "set_fc cpu fc = cpu\<lparr>c_fc := Some fc\<rparr>"

definition step_cached ::
  "'m memops \<Rightarrow> 'm cacheops \<Rightarrow> nat \<Rightarrow> cpu \<Rightarrow> 'm \<Rightarrow> outcome \<times> cpu \<times> 'm" where
  "step_cached M C mp cpu m =
     (let pc = c_pc cpu; fc = front_sync C m mp (c_fc cpu) in
      if front_hit fc pc then exec M (set_fc cpu fc) m (the (f_ins fc (front_slot pc))) pc
      else case ca_get C m mp pc of
        Some hit \<Rightarrow> exec M (set_fc cpu (front_fill fc pc hit)) m hit pc
      | None \<Rightarrow>
          (case fetch M m pc None of
             (Inl r, m1) \<Rightarrow> (r, set_fc cpu fc, m1)
           | (Inr xi, m1) \<Rightarrow>
               let m2 = ca_set C m1 mp pc xi; fc2 = front_fill fc pc xi;
                   fc3 = (if f_live fc then fc2\<lparr>f_n := ca_size C m2 mp\<rparr> else fc2)
               in exec M (set_fc cpu fc3) m2 xi pc))"

definition step_uncached :: "'m memops \<Rightarrow> cpu \<Rightarrow> 'm \<Rightarrow> outcome \<times> cpu \<times> 'm" where
  "step_uncached M cpu m =
     (case fetch M m (c_pc cpu) (map_option dl_from (c_delayed cpu)) of
        (Inl r, m1) \<Rightarrow> (r, cpu, m1)
      | (Inr xi, m1) \<Rightarrow> exec M cpu m1 xi (c_pc cpu))"

definition step :: "'m memops \<Rightarrow> 'm cacheops \<Rightarrow> cpu \<Rightarrow> 'm \<Rightarrow> outcome \<times> cpu \<times> 'm" where
  "step M C cpu m =
     (if c_isa cpu \<noteq> 16
      then (Fail (''cpu.isa is '' @ dec_string (c_isa cpu) @ '', not 16; ''
                  @ ''this executor runs MIPS16 only''), cpu, m)
      else case (if c_delayed cpu = None then c_dcache cpu else None) of
        None \<Rightarrow> step_uncached M cpu m
      | Some mp \<Rightarrow> step_cached M C mp cpu m)"

end
