(* ===== verification/M16_Cache.thy ===== *)
theory M16_Cache
  imports M16_Step
begin

text \<open>
  Facts about \<open>step\<close> and its caches.  The executor does not touch the cache fields of the CPU
  (\<open>exec_fc\<close>), relations between memories that no access breaks are kept by a whole step
  (locale \<open>mem_rel\<close>), parts of the memory the executor does not see can be forgotten (locale
  \<open>mem_hom\<close>), and with a Map that only shrinks outside \<open>step\<close> the front cache never answers
  anything the Map would not (locale \<open>code_map\<close>).
\<close>

section \<open>The executor neither reads nor writes the front cache\<close>

definition with_fc :: "nat option \<times> front option \<Rightarrow> cpu \<Rightarrow> cpu" where
  "with_fc f c = c\<lparr>c_dcache := fst f, c_fc := snd f\<rparr>"

fun eff_fc :: "nat option \<times> front option \<Rightarrow> 'm xeff \<Rightarrow> 'm xeff" where
  "eff_fc f (Run e) = Run (e\<lparr>e_cpu := with_fc f (e_cpu e)\<rparr>)"
| "eff_fc f (Refuse s) = Refuse s"
| "eff_fc f (Raise s) = Raise s"

lemma with_fc_sel [simp]:
  "c_pc (with_fc f c) = c_pc c" "c_isa (with_fc f c) = c_isa c" "c_reg (with_fc f c) = c_reg c"
  "c_hi (with_fc f c) = c_hi c" "c_lo (with_fc f c) = c_lo c" "c_delayed (with_fc f c) = c_delayed c"
  "c_dcache (with_fc f c) = fst f" "c_fc (with_fc f c) = snd f" "rd (with_fc f c) = rd c"
  by (simp_all add: with_fc_def rd_def fun_eq_iff)

lemma with_fc_upd [simp]:
  "(with_fc f c)\<lparr>c_reg := r\<rparr> = with_fc f (c\<lparr>c_reg := r\<rparr>)"
  "(with_fc f c)\<lparr>c_hi := v\<rparr> = with_fc f (c\<lparr>c_hi := v\<rparr>)"
  "(with_fc f c)\<lparr>c_lo := v\<rparr> = with_fc f (c\<lparr>c_lo := v\<rparr>)"
  "(with_fc f c)\<lparr>c_pc := v\<rparr> = with_fc f (c\<lparr>c_pc := v\<rparr>)"
  "(with_fc f c)\<lparr>c_isa := i\<rparr> = with_fc f (c\<lparr>c_isa := i\<rparr>)"
  "(with_fc f c)\<lparr>c_delayed := d\<rparr> = with_fc f (c\<lparr>c_delayed := d\<rparr>)"
  "wr (with_fc f c) n v = with_fc f (wr c n v)"
  "set_T (with_fc f c) v = with_fc f (set_T c v)"
  "set_RA (with_fc f c) v = with_fc f (set_RA c v)"
  "with_fc g (with_fc f c) = with_fc g c"
  by (simp_all add: with_fc_def wr_def set_T_def set_RA_def)

lemma exec_groups_fc [simp]:
  "exec_alu ki x b (with_fc f c) = with_fc f (exec_alu ki x b c)"
  "exec_cond ki x (with_fc f c) = with_fc f (exec_cond ki x c)"
  "exec_shift ki x (with_fc f c) = with_fc f (exec_shift ki x c)"
  "exec_hilo ki x (with_fc f c) = with_fc f (exec_hilo ki x c)"
  "exec_cnvt ki x (with_fc f c) = with_fc f (exec_cnvt ki x c)"
  by (simp_all add: exec_alu_def exec_cond_def exec_shift_def exec_hilo_def exec_cnvt_def Let_def)

lemma load_reg_fc [simp]:
  "load_reg g h (with_fc f c) m d ea = apfst (with_fc f) (load_reg g h c m d ea)"
  by (simp add: load_reg_def Let_def)

lemma exec_load_fc [simp]:
  "exec_load M ki x b (with_fc f c) m = apfst (with_fc f) (exec_load M ki x b c m)"
  by (simp add: exec_load_def Let_def)

lemma exec_store_fc [simp]: "exec_store M ki x (with_fc f c) m = exec_store M ki x c m"
  by (simp add: exec_store_def Let_def)

lemma push_regs_fc [simp]: "push_regs M (with_fc f c) rs t m = push_regs M c rs t m"
  by (induction rs arbitrary: t m) simp_all

lemma pop_regs_fc [simp]: "pop_regs M rs t (with_fc f c) m = apfst (with_fc f) (pop_regs M rs t c m)"
  by (induction rs arbitrary: t c m) (simp_all add: Let_def)

lemma execSave_fc [simp]: "execSave M (with_fc f c) m x = map_option (apfst (with_fc f)) (execSave M c m x)"
  by (simp add: execSave_def Let_def save_args_def split: option.split)

lemma execRestore_fc [simp]:
  "execRestore M (with_fc f c) m x = map_option (apfst (with_fc f)) (execRestore M c m x)"
  by (simp add: execRestore_def Let_def split: option.split)

lemma effs_fc [simp]:
  "plain (with_fc f c) m = eff_fc f (plain c m)"
  "branchTo (with_fc f c) m t = eff_fc f (branchTo c m t)"
  "jumpTo (with_fc f c) m t i = eff_fc f (jumpTo c m t i)"
  by (simp_all add: plain_def branchTo_def jumpTo_def)

lemma exec_switch_fc:
  "exec_switch M x len pc b (with_fc f c) m = eff_fc f (exec_switch M x len pc b c m)"
  by (simp add: exec_switch_def exec_branch_def exec_jump_def exec_frame_def Let_def split: option.split)

lemma finish_pc_fc: "finish_pc p (e\<lparr>e_cpu := with_fc f (e_cpu e)\<rparr>) pc n = with_fc f (finish_pc p e pc n)"
  by (simp add: finish_pc_def Let_def split: option.split)

lemma exec_fc: "exec M (with_fc f c) m xi pc = apsnd (apfst (with_fc f)) (exec M c m xi pc)"
  by (simp add: exec_def Let_def exec_switch_fc exec_base_def finish_pc_fc split: xeff.split)

lemma with_fc_self: "with_fc (c_dcache c, c_fc c) c = c"
  by (simp add: with_fc_def)

lemma exec_c_fc: "exec M c m xi pc = (r, c', m') \<Longrightarrow> c_dcache c' = c_dcache c \<and> c_fc c' = c_fc c"
proof -
  assume e: "exec M c m xi pc = (r, c', m')"
  with exec_fc [of M "(c_dcache c, c_fc c)" c m xi pc] have "c' = with_fc (c_dcache c, c_fc c) c'"
    by (simp add: with_fc_self)
  then show ?thesis by (metis fst_conv snd_conv with_fc_sel(7,8))
qed

section \<open>What every memory operation keeps, the executor keeps\<close>

text \<open>
  A relation between memories that is reflexive and transitive and that no access breaks, as long as
  word stores go to addresses \<open>okw\<close>; \<open>store_ok\<close> asks that of the instruction about to run.
\<close>

definition store_ok :: "(u32 \<Rightarrow> bool) \<Rightarrow> cpu \<Rightarrow> xpay \<Rightarrow> bool" where
  "store_ok okw cpu x \<longleftrightarrow>
     (x_ki x = 46 \<longrightarrow> okw (rd cpu (x_b x) + w32 (x_off x)))
     \<and> (x_ki x \<in> {47, 48} \<longrightarrow> okw (c_reg cpu GPR_SP + w32 (x_off x)))
     \<and> (x_ki x = 60 \<longrightarrow> okw (rd cpu GPR_SP))"

lemma store_ok_True [simp]: "store_ok (\<lambda>_. True) cpu x"
  by (simp add: store_ok_def)

lemma store_ok_fc [simp]: "store_ok okw (with_fc f c) x = store_ok okw c x"
  by (simp add: store_ok_def)

locale mem_rel =
  fixes M :: "'m memops" and R :: "'m \<Rightarrow> 'm \<Rightarrow> bool" and okw :: "u32 \<Rightarrow> bool"
  assumes R_refl [simp]: "R m m"
    and R_trans: "R m1 m2 \<Longrightarrow> R m2 m3 \<Longrightarrow> R m1 m3"
    and R_read [simp]: "R m (snd (m_read8 M m a))" "R m (snd (m_read16 M m a))" "R m (snd (m_read32 M m a))"
    and R_write [simp]: "R m (m_write8 M m a v)" "R m (m_write16 M m a v)"
    and R_write32: "okw a \<Longrightarrow> R m (m_write32 M m a v)"
    and okw_step: "okw a \<Longrightarrow> okw (a + 4)" "okw a \<Longrightarrow> okw (a - 4)"
begin

lemma load_reg_R: "(\<And>m a. R m (snd (g m a))) \<Longrightarrow> R m (snd (load_reg g h c m d ea))"
  by (simp add: load_reg_def Let_def)

lemma exec_load_R: "R m (snd (exec_load M ki x b c m))"
  by (simp add: exec_load_def Let_def load_reg_R)

lemma exec_store_R:
  "store_ok okw c x \<Longrightarrow> 44 \<le> x_ki x \<Longrightarrow> x_ki x \<le> 48 \<Longrightarrow> R m (exec_store M (x_ki x) x c m)"
  by (auto simp: exec_store_def Let_def store_ok_def intro: R_write32)

lemma push_regs_R: "okw t \<Longrightarrow> R m (push_regs M c rs t m)"
  by (induction rs arbitrary: t m) (auto intro: R_trans [OF R_write32] okw_step)

lemma pop_regs_R: "R m (snd (pop_regs M rs t c m))"
  by (induction rs arbitrary: t c m) (auto simp: Let_def intro: R_trans [OF R_read(3)])

lemma save_args_R: "okw t \<Longrightarrow> R m (save_args M c k t m)"
proof -
  assume t: "okw t"
  have o: "okw (t + 4)" "okw (t + 8)" "okw (t + 12)"
    using t okw_step(1) [of t] okw_step(1) [of "t + 4"] okw_step(1) [of "t + 8"] by (simp_all add: add.assoc)
  have w: "okw a \<Longrightarrow> R m m' \<Longrightarrow> R m (if p then m_write32 M m' a v else m')" for m m' p a v
    using R_trans R_write32 by auto
  show ?thesis unfolding save_args_def Let_def by (intro w R_refl t o)
qed

lemma execSave_R: "execSave M c m x = Some (c', m') \<Longrightarrow> okw (rd c GPR_SP) \<Longrightarrow> R m m'"
  by (auto simp: execSave_def Let_def split: option.splits intro: R_trans [OF save_args_R push_regs_R])

lemma execRestore_R: "execRestore M c m x = Some (c', m') \<Longrightarrow> R m m'"
  using pop_regs_R by (fastforce simp: execRestore_def Let_def prod_eq_iff split: option.splits)

lemma exec_switch_R: "store_ok okw c x \<Longrightarrow> exec_switch M x len pc b c m = Run e \<Longrightarrow> R m (e_mem e)"
  by (auto simp: exec_switch_def exec_branch_def exec_jump_def exec_frame_def plain_def branchTo_def
       jumpTo_def Let_def exec_load_R exec_store_R store_ok_def [of okw c x]
       split: if_splits option.splits dest: execSave_R execRestore_R)

lemma exec_R: "store_ok okw c (snd xi) \<Longrightarrow> exec M c m xi pc = (r, c', m') \<Longrightarrow> R m m'"
  by (auto simp: exec_def Let_def exec_switch_R split: xeff.splits)

lemma read16_twice: "R m (snd (m_read16 M (snd (m_read16 M m a)) b))"
  by (rule R_trans [OF R_read(2) R_read(2)])

lemma fetch_R: "fetch M m pc b = (r, m') \<Longrightarrow> R m m'"
  by (auto simp: fetch_def rd16_def Let_def read16_twice R_trans [OF read16_twice R_read(2)]
       split: if_splits sum.splits)

end

section \<open>The front cache tells the truth about the Map\<close>

text \<open>
  A write only ever removes entries of the Map (the condition the source states), a read leaves it
  alone, and only \<open>step\<close> adds an entry.
\<close>

locale code_map =
  fixes M :: "'m memops" and C :: "'m cacheops" and mp :: nat
  assumes sized: "ca_sized C m mp"
    and map_finite: "finite (dom (ca_get C m mp))"
    and map_size: "ca_size C m mp = card (dom (ca_get C m mp))"
    and map_set: "ca_get C (ca_set C m mp a xi) mp = (ca_get C m mp)(a \<mapsto> xi)"
    and map_read: "ca_get C (snd (m_read8 M m a)) mp = ca_get C m mp"
      "ca_get C (snd (m_read16 M m a)) mp = ca_get C m mp"
      "ca_get C (snd (m_read32 M m a)) mp = ca_get C m mp"
    and map_write: "ca_get C (m_write8 M m a v) mp \<subseteq>\<^sub>m ca_get C m mp"
      "ca_get C (m_write16 M m a v) mp \<subseteq>\<^sub>m ca_get C m mp"
      "ca_get C (m_write32 M m a v) mp \<subseteq>\<^sub>m ca_get C m mp"

sublocale code_map \<subseteq> shrink: mem_rel M "\<lambda>m m'. ca_get C m' mp \<subseteq>\<^sub>m ca_get C m mp" "\<lambda>_. True"
  by unfold_locales (auto simp: map_read intro: map_le_trans map_write)

text \<open>
  \<open>D\<close> is the Map as \<open>step\<close> last left it: its size is the recorded one, the Map of now is part of it,
  and every live slot agrees with it.
\<close>

definition front_of :: "front \<Rightarrow> (u32 \<rightharpoonup> xinsn) \<Rightarrow> bool" where
  "front_of fc D \<longleftrightarrow> finite (dom D) \<and> card (dom D) = f_n fc \<and> 1 \<le> f_g fc \<and> f_g fc \<le> 0x3FFFFFFF
     \<and> (\<forall>s. 0 \<le> f_gen fc s \<and> f_gen fc s \<le> f_g fc)
     \<and> (\<forall>s. f_gen fc s = f_g fc \<longrightarrow> (\<exists>xi. f_ins fc s = Some xi \<and> D (f_tag fc s) = Some xi))"

definition front_inv :: "'m cacheops \<Rightarrow> nat \<Rightarrow> cpu \<Rightarrow> 'm \<Rightarrow> bool" where
  "front_inv C mp cpu m \<longleftrightarrow>
     (\<forall>fc. c_fc cpu = Some fc \<longrightarrow> f_map fc = mp
        \<longrightarrow> f_live fc \<and> (\<exists>D. front_of fc D \<and> ca_get C m mp \<subseteq>\<^sub>m D))"

lemma front_of_fill:
  assumes "front_of fc D" "D pc = Some xi"
  shows "front_of (front_fill fc pc xi) D"
  using assms by (auto simp: front_of_def front_fill_def)

lemma map_le_eq_card:
  assumes "finite (dom D)" "A \<subseteq>\<^sub>m D" "card (dom A) = card (dom D)"
  shows "A = D"
proof -
  have "dom A = dom D" using assms by (metis card_subset_eq map_le_implies_dom_le)
  with assms(2) show ?thesis by (metis map_le_antisym map_le_def)
qed

context code_map
begin

lemma new_front_of: "front_of (newFront C m mp) (ca_get C m mp)"
  using map_finite by (simp add: front_of_def newFront_def map_size)

lemma flush_front_of:
  assumes "front_of fc D"
  shows "front_of (front_flush fc (ca_size C m mp)) (ca_get C m mp)"
proof -
  from assms have "1 \<le> f_g fc" "f_g fc \<le> 0x3FFFFFFF" by (simp_all add: front_of_def)
  then have "to_i32 (f_g fc + 1) = f_g fc + 1"
    by (simp add: to_i32_def signed_take_bit_int_eq_self)
  with assms show ?thesis
    using map_finite by (auto simp: front_of_def front_flush_def map_size) (smt (verit))+
qed

lemma sync_front_of:
  assumes "front_inv C mp cpu m"
  defines "fc \<equiv> front_sync C m mp (c_fc cpu)"
  shows "front_of fc (ca_get C m mp)" "f_map fc = mp" "f_live fc"
proof -
  have "front_of fc (ca_get C m mp) \<and> f_map fc = mp \<and> f_live fc"
  proof (cases "\<exists>f. c_fc cpu = Some f \<and> f_map f = mp")
    case False
    then have "fc = newFront C m mp" unfolding fc_def by (auto simp: front_sync_def split: option.split)
    then show ?thesis using new_front_of [of m] sized by (simp add: newFront_def)
  next
    case True
    then obtain f where f: "c_fc cpu = Some f" "f_map f = mp" by blast
    with assms obtain D where D: "f_live f" "front_of f D" "ca_get C m mp \<subseteq>\<^sub>m D"
      by (auto simp: front_inv_def)
    show ?thesis
    proof (cases "f_n f = ca_size C m mp")
      case True
      with D have "ca_get C m mp = D"
        by (intro map_le_eq_card) (auto simp: front_of_def map_size)
      with True f D show ?thesis unfolding fc_def by (simp add: front_sync_def)
    next
      case False
      with f D show ?thesis
        unfolding fc_def using flush_front_of [OF D(2), of m] by (simp add: front_sync_def front_flush_def Let_def)
    qed
  qed
  then show "front_of fc (ca_get C m mp)" "f_map fc = mp" "f_live fc" by auto
qed

lemma hit_is_map:
  "front_of fc D \<Longrightarrow> front_hit fc pc \<Longrightarrow> \<exists>xi. f_ins fc (front_slot pc) = Some xi \<and> D pc = Some xi"
  by (auto simp: front_of_def front_hit_def)

end

section \<open>Stepping with the front cache is stepping with the Map\<close>

text \<open>The specification of the cached path: the Map alone, without the index in front of it.\<close>

definition step_map :: "'m memops \<Rightarrow> 'm cacheops \<Rightarrow> cpu \<Rightarrow> 'm \<Rightarrow> outcome \<times> cpu \<times> 'm" where
  "step_map M C cpu m =
     (if c_isa cpu \<noteq> 16 then step M C cpu m
      else case (if c_delayed cpu = None then c_dcache cpu else None) of
        None \<Rightarrow> step_uncached M cpu m
      | Some mp \<Rightarrow>
          (case ca_get C m mp (c_pc cpu) of
             Some hit \<Rightarrow> exec M cpu m hit (c_pc cpu)
           | None \<Rightarrow>
               (case fetch M m (c_pc cpu) None of
                  (Inl r, m1) \<Rightarrow> (r, cpu, m1)
                | (Inr xi, m1) \<Rightarrow> exec M cpu (ca_set C m1 mp (c_pc cpu) xi) xi (c_pc cpu))))"

lemma set_fc_with: "set_fc c fc = with_fc (c_dcache c, Some fc) c"
  by (simp add: set_fc_def with_fc_def)

lemma step_uncached_cache: "step_uncached M c m = (r, c', m') \<Longrightarrow> c_dcache c' = c_dcache c \<and> c_fc c' = c_fc c"
  by (auto simp: step_uncached_def dest: exec_c_fc split: prod.splits sum.splits)

context code_map
begin

lemma front_of_ge:
  assumes "front_of fc D" "f_map fc = mp" "f_live fc" "ca_get C m mp \<subseteq>\<^sub>m D" "c_fc c = Some fc"
  shows "front_inv C mp c m"
  using assms by (auto simp: front_inv_def)

lemma front_inv_mono:
  "front_inv C mp c m \<Longrightarrow> ca_get C m' mp \<subseteq>\<^sub>m ca_get C m mp \<Longrightarrow> c_fc c' = c_fc c \<Longrightarrow> front_inv C mp c' m'"
  unfolding front_inv_def by (metis map_le_trans)

lemma fill_sel [simp]: "f_map (front_fill fc pc xi) = f_map fc" "f_live (front_fill fc pc xi) = f_live fc"
  by (simp_all add: front_fill_def)

lemma fetch_map: "fetch M m pc b = (r, m') \<Longrightarrow> ca_get C m' mp = ca_get C m mp"
  by (auto simp: fetch_def rd16_def Let_def map_read split: if_splits sum.splits)

lemma set_front_of:
  assumes "front_of fc (ca_get C m mp)" "ca_get C m mp pc = None" "f_live fc"
  shows "front_of ((front_fill fc pc xi)\<lparr>f_n := ca_size C (ca_set C m mp pc xi) mp\<rparr>)
           (ca_get C (ca_set C m mp pc xi) mp)"
  using assms map_finite [of m] by (auto simp: front_of_def front_fill_def map_size map_set)

lemma exec_front_inv:
  assumes "exec M c m xi pc = (r, c', m')" "front_inv C mp c m"
  shows "front_inv C mp c' m'"
  using front_inv_mono [OF assms(2)] exec_c_fc [OF assms(1)] shrink.exec_R [OF _ assms(1)] by simp

lemma step_cached_map:
  assumes inv: "front_inv C mp cpu m" and c: "c_isa cpu = 16" "c_delayed cpu = None" "c_dcache cpu = Some mp"
    and st: "step_cached M C mp cpu m = (r, c', m')"
  shows "step_map M C cpu m = (r, with_fc (Some mp, c_fc cpu) c', m')"
    "front_inv C mp c' m'"
proof -
  define fc where "fc = front_sync C m mp (c_fc cpu)"
  note sy = sync_front_of [OF inv, folded fc_def]
  let ?pc = "c_pc cpu" and ?map = "ca_get C m mp"
  have sm: "step_map M C cpu m =
     (case ?map ?pc of
             Some hit \<Rightarrow> exec M cpu m hit ?pc
           | None \<Rightarrow>
               (case fetch M m ?pc None of
                  (Inl r, m1) \<Rightarrow> (r, cpu, m1)
                | (Inr xi, m1) \<Rightarrow> exec M cpu (ca_set C m1 mp ?pc xi) xi ?pc))"
    by (simp add: step_map_def c)
  have un: "with_fc (Some mp, c_fc cpu) cpu = cpu" using with_fc_self [of cpu] c by simp
  have un': "with_fc (Some mp, c_fc cpu) c0 = c0" if "exec M cpu m1 xi pc = (r0, c0, m0)" for m1 xi pc r0 c0 m0
    using exec_c_fc [OF that] with_fc_self [of c0] c by simp
  have go: "exec M cpu m1 xi ?pc = (r, with_fc (Some mp, c_fc cpu) c', m')"
    "front_inv C mp c' m'"
    if "exec M (set_fc cpu g) m1 xi ?pc = (r, c', m')" "front_of g (ca_get C m1 mp)" "f_map g = mp" "f_live g"
    for g xi m1
  proof -
    from that(1) show "exec M cpu m1 xi ?pc = (r, with_fc (Some mp, c_fc cpu) c', m')"
      by (cases "exec M cpu m1 xi ?pc") (auto simp: set_fc_with c exec_fc un' dest: exec_c_fc)
    show "front_inv C mp c' m'"
      by (rule exec_front_inv [OF that(1)]) (use that front_of_ge [of g _ m1 "set_fc cpu g"] in \<open>simp add: set_fc_with\<close>)
  qed
  have "(step_map M C cpu m = (r, with_fc (Some mp, c_fc cpu) c', m'))
     \<and> front_inv C mp c' m'"
  proof (cases "front_hit fc ?pc")
    case True
    with hit_is_map [OF sy(1)] obtain xi where xi: "f_ins fc (front_slot ?pc) = Some xi" "?map ?pc = Some xi"
      by blast
    from st True xi have "exec M (set_fc cpu fc) m xi ?pc = (r, c', m')"
      by (simp add: step_cached_def Let_def fc_def [symmetric])
    from go [OF this sy] show ?thesis by (simp add: sm xi)
  next
    case miss: False
    show ?thesis
    proof (cases "?map ?pc")
      case (Some hit)
      from st miss Some have "exec M (set_fc cpu (front_fill fc ?pc hit)) m hit ?pc = (r, c', m')"
        by (simp add: step_cached_def Let_def fc_def [symmetric])
      from go [OF this front_of_fill [OF sy(1) Some]] sy show ?thesis by (simp add: sm Some)
    next
      case None
      obtain ro m1 where f: "fetch M m ?pc None = (ro, m1)" by fastforce
      show ?thesis
      proof (cases ro)
        case (Inl x)
        with st miss None f have "r = x" "c' = set_fc cpu fc" "m' = m1"
          by (simp_all add: step_cached_def Let_def fc_def [symmetric])
        moreover have "front_inv C mp (set_fc cpu fc) m1"
          using front_of_ge [OF sy, of m1 "set_fc cpu fc"] fetch_map [OF f] by (simp add: set_fc_with)
        ultimately show ?thesis
          by (simp add: sm None f Inl set_fc_with un)
      next
        case (Inr xi)
        let ?m2 = "ca_set C m1 mp ?pc xi"
        let ?g = "(front_fill fc ?pc xi)\<lparr>f_n := ca_size C ?m2 mp\<rparr>"
        from st miss None f Inr sy(3) have ex: "exec M (set_fc cpu ?g) ?m2 xi ?pc = (r, c', m')"
          by (simp add: step_cached_def fc_def [symmetric] Let_def)
        have "front_of ?g (ca_get C ?m2 mp)"
          using sy None fetch_map [OF f] by (intro set_front_of) simp_all
        from go [OF ex this] sy show ?thesis by (simp add: sm None f Inr)
      qed
    qed
  qed
  then show "step_map M C cpu m = (r, with_fc (Some mp, c_fc cpu) c', m')"
    "front_inv C mp c' m'" by auto
qed

end

section \<open>Memories that differ only in what the executor does not see\<close>

text \<open>\<open>f\<close> forgets a part of the memory that no access depends on.\<close>

locale mem_hom =
  fixes M :: "'m memops" and f :: "'m \<Rightarrow> 'm"
  assumes f_read [simp]: "m_read8 M (f m) a = apsnd f (m_read8 M m a)"
      "m_read16 M (f m) a = apsnd f (m_read16 M m a)" "m_read32 M (f m) a = apsnd f (m_read32 M m a)"
    and f_write [simp]: "m_write8 M (f m) a v = f (m_write8 M m a v)"
      "m_write16 M (f m) a v = f (m_write16 M m a v)" "m_write32 M (f m) a v = f (m_write32 M m a v)"
begin

lemma load_reg_f: "(\<And>m a. g (f m) a = apsnd f (g m a))
  \<Longrightarrow> load_reg g h c (f m) d ea = apsnd f (load_reg g h c m d ea)"
  by (simp add: load_reg_def Let_def)

lemma exec_load_f: "exec_load M ki x b c (f m) = apsnd f (exec_load M ki x b c m)"
  by (simp add: exec_load_def Let_def load_reg_f)

lemma exec_store_f: "exec_store M ki x c (f m) = f (exec_store M ki x c m)"
  by (simp add: exec_store_def Let_def)

lemma push_regs_f: "push_regs M c rs t (f m) = f (push_regs M c rs t m)"
  by (induction rs arbitrary: t m) simp_all

lemma pop_regs_f: "pop_regs M rs t c (f m) = apsnd f (pop_regs M rs t c m)"
  by (induction rs arbitrary: t c m) (simp_all add: Let_def)

lemma save_args_f: "save_args M c k t (f m) = f (save_args M c k t m)"
  by (simp add: save_args_def Let_def)

lemma execSave_f: "execSave M c (f m) x = map_option (apsnd f) (execSave M c m x)"
  by (simp add: execSave_def Let_def save_args_f push_regs_f split: option.split)

lemma execRestore_f: "execRestore M c (f m) x = map_option (apsnd f) (execRestore M c m x)"
  by (simp add: execRestore_def Let_def pop_regs_f split: option.split)

definition eff_mem :: "'m xeff \<Rightarrow> 'm xeff" where
  "eff_mem r = (case r of Run e \<Rightarrow> Run (e\<lparr>e_mem := f (e_mem e)\<rparr>) | Refuse s \<Rightarrow> Refuse s | Raise s \<Rightarrow> Raise s)"

lemma eff_mem_simps [simp]: "eff_mem (Run e) = Run (e\<lparr>e_mem := f (e_mem e)\<rparr>)"
  "eff_mem (Refuse s) = Refuse s" "eff_mem (Raise s) = Raise s"
  by (simp_all add: eff_mem_def)

lemma effs_f [simp]: "plain c (f m) = eff_mem (plain c m)"
  "branchTo c (f m) t = eff_mem (branchTo c m t)" "jumpTo c (f m) t i = eff_mem (jumpTo c m t i)"
  by (simp_all add: plain_def branchTo_def jumpTo_def)

lemma exec_switch_f: "exec_switch M x len pc b c (f m) = eff_mem (exec_switch M x len pc b c m)"
  by (simp add: exec_switch_def exec_branch_def exec_jump_def exec_frame_def Let_def exec_load_f
      exec_store_f execSave_f execRestore_f split: option.split)

lemma finish_pc_f: "finish_pc p (e\<lparr>e_mem := m\<rparr>) pc n = finish_pc p e pc n"
  by (simp add: finish_pc_def Let_def split: option.split)

lemma exec_f: "exec M c (f m) xi pc = apsnd (apsnd f) (exec M c m xi pc)"
  by (simp add: exec_def Let_def exec_switch_f finish_pc_f split: xeff.split)

lemma rd16_f: "rd16 M (f m) a = apsnd f (rd16 M m a)"
  by (simp add: rd16_def Let_def)

lemma fetch_f: "fetch M (f m) pc b = apsnd f (fetch M m pc b)"
  by (simp add: fetch_def Let_def case_prod_beta rd16_f split: sum.split)

lemma step_uncached_f: "step_uncached M c (f m) = apsnd (apsnd f) (step_uncached M c m)"
  by (simp add: step_uncached_def fetch_f exec_f split: prod.split sum.split)

end



lemma step_uncached_fc:
  "step_uncached M (with_fc f c) m = apsnd (apfst (with_fc f)) (step_uncached M c m)"
  by (simp add: step_uncached_def exec_fc split: prod.split sum.split)

section \<open>What the decoder looks at\<close>

lemma decode_body_next:
  assumes "ext \<noteq> None \<or> drop_bit 11 insn AND 0x1F \<noteq> 3"
  shows "decode_body insn ext nh addr p isa = decode_body insn ext nh' addr p isa"
  using assms by (auto simp: decode_body_def dec_jal_def Let_def)

end
