(* ===== verification/Page_Memory.thy ===== *)
theory Page_Memory
  imports M16_Step
begin

text \<open>
  The memory the emulator page hands to the executor: the \<open>MEM\<close> adapter over \<open>load\<close> and \<open>store\<close> of
  \<open>reference/digibox-boot.html\<close>, for the DRAM both address aliases reach.  Everything outside DRAM
  (flash, peripheral registers) is the parameter \<open>devops\<close>; the page's watch lists, counters and
  paint bookkeeping are not modelled.  The page owns the decode cache Map, and its \<open>store\<close> evicts
  from it, so the Map is part of the state.
\<close>

definition RAM_K0 :: int where "RAM_K0 = 0x80000000"
definition RAM_K1 :: int where "RAM_K1 = 0xA0000000"
definition RAM_SIZE :: int where "RAM_SIZE = 32 * 1024 * 1024"

lemma RAM_simps [simp]: "RAM_K0 = 2147483648" "RAM_K1 = 2684354560" "RAM_SIZE = 33554432"
  by (simp_all add: RAM_K0_def RAM_K1_def RAM_SIZE_def)

type_synonym dcache = "(u32 \<times> xinsn) list"

record 'd page =
  pg_ram :: "int \<Rightarrow> 8 word"
  pg_dcache :: dcache
  pg_dev :: 'd

record 'd devops =
  d_read :: "'d \<Rightarrow> u32 \<Rightarrow> int \<Rightarrow> u32 \<times> 'd"
  d_write :: "'d \<Rightarrow> u32 \<Rightarrow> int \<Rightarrow> u32 \<Rightarrow> 'd"

definition ramPhys :: "u32 \<Rightarrow> int" where
  "ramPhys a =
     (if RAM_K0 \<le> uint a \<and> uint a < RAM_K0 + RAM_SIZE then uint a - RAM_K0
      else if RAM_K1 \<le> uint a \<and> uint a < RAM_K1 + RAM_SIZE then uint a - RAM_K1
      else -1)"

text \<open>
  The DRAM is a \<open>Uint8Array\<close>: a read past its end is \<open>undefined\<close>, which the shifts turn into 0, and
  a write past its end is ignored.
\<close>

definition ram_get :: "(int \<Rightarrow> 8 word) \<Rightarrow> int \<Rightarrow> u32" where
  "ram_get ram r = (if 0 \<le> r \<and> r < RAM_SIZE then ucast (ram r) else 0)"

definition ram_set :: "(int \<Rightarrow> 8 word) \<Rightarrow> int \<Rightarrow> u32 \<Rightarrow> (int \<Rightarrow> 8 word)" where
  "ram_set ram r v = (if 0 \<le> r \<and> r < RAM_SIZE then ram(r := ucast v) else ram)"

definition ram_load :: "(int \<Rightarrow> 8 word) \<Rightarrow> int \<Rightarrow> int \<Rightarrow> u32" where
  "ram_load ram r sz =
     (if sz = 4 then push_bit 24 (ram_get ram r) OR push_bit 16 (ram_get ram (r + 1))
                       OR push_bit 8 (ram_get ram (r + 2)) OR ram_get ram (r + 3)
      else if sz = 2 then push_bit 8 (ram_get ram r) OR ram_get ram (r + 1)
      else ram_get ram r)"

definition ram_store :: "(int \<Rightarrow> 8 word) \<Rightarrow> int \<Rightarrow> int \<Rightarrow> u32 \<Rightarrow> (int \<Rightarrow> 8 word)" where
  "ram_store ram r sz v =
     (if sz = 4 then ram_set (ram_set (ram_set (ram_set ram r (drop_bit 24 v))
                         (r + 1) (drop_bit 16 v AND 255)) (r + 2) (drop_bit 8 v AND 255))
                         (r + 3) (v AND 255)
      else if sz = 2 then ram_set (ram_set ram r (drop_bit 8 v AND 255)) (r + 1) (v AND 255)
      else ram_set ram r (v AND 255))"

text \<open>Code that is written to is evicted: the halfword written, the one before and the one after.\<close>

definition evict :: "dcache \<Rightarrow> int \<Rightarrow> dcache" where
  "evict dc r =
     (if dc \<noteq> [] then
        let va = word_of_int (RAM_K0 + r) AND NOT 1
        in AList.delete (va + 2) (AList.delete (va - 2) (AList.delete va dc))
      else dc)"

definition page_load :: "'d devops \<Rightarrow> 'd page \<Rightarrow> u32 \<Rightarrow> int \<Rightarrow> u32 \<times> 'd page" where
  "page_load D p a sz =
     (let r = ramPhys a in
      if r \<ge> 0 then (ram_load (pg_ram p) r sz, p)
      else (let x = d_read D (pg_dev p) a sz in (fst x, p\<lparr>pg_dev := snd x\<rparr>)))"

definition page_store :: "'d devops \<Rightarrow> 'd page \<Rightarrow> u32 \<Rightarrow> int \<Rightarrow> u32 \<Rightarrow> 'd page" where
  "page_store D p a sz val =
     (let r = ramPhys a in
      if r \<ge> 0 then p\<lparr>pg_ram := ram_store (pg_ram p) r sz val, pg_dcache := evict (pg_dcache p) r\<rparr>
      else p\<lparr>pg_dev := d_write D (pg_dev p) a sz val\<rparr>)"

definition MEM :: "'d devops \<Rightarrow> 'd page memops" where
  "MEM D = \<lparr>m_read8 = (\<lambda>p a. page_load D p a 1), m_read16 = (\<lambda>p a. page_load D p a 2),
     m_read32 = (\<lambda>p a. page_load D p a 4), m_write8 = (\<lambda>p a v. page_store D p a 1 v),
     m_write16 = (\<lambda>p a v. page_store D p a 2 v), m_write32 = (\<lambda>p a v. page_store D p a 4 v)\<rparr>"

text \<open>
  The Map itself.  The page owns exactly one, so the identity \<open>step\<close> compares does not select
  between several.  \<open>set\<close> on a present key keeps its place, and \<open>size\<close> counts the keys.
\<close>

definition CACHE :: "'d page cacheops" where
  "CACHE = \<lparr>ca_sized = (\<lambda>p mp. True),
     ca_size = (\<lambda>p mp. length (remdups (map fst (pg_dcache p)))),
     ca_get = (\<lambda>p mp a. map_of (pg_dcache p) a),
     ca_set = (\<lambda>p mp a xi. p\<lparr>pg_dcache := AList.update a xi (pg_dcache p)\<rparr>)\<rparr>"

section \<open>The word-memory contract\<close>

text \<open>
  What SAVE, RESTORE and the word loads rely on.  \<open>ok\<close> are the addresses at which the memory
  behaves as storage; two words are apart when neither overlaps the other, modulo the address space.
\<close>

definition apart :: "u32 \<Rightarrow> u32 \<Rightarrow> bool" where
  "apart a b \<longleftrightarrow> 4 \<le> uint (a - b) \<and> 4 \<le> uint (b - a)"

lemma apart_sym: "apart a b \<Longrightarrow> apart b a"
  by (simp add: apart_def)

locale word_memory =
  fixes M :: "'m memops" and ok :: "u32 \<Rightarrow> bool"
  assumes read_pure: "ok a \<Longrightarrow> snd (m_read32 M m a) = m"
    and read_own: "ok a \<Longrightarrow> fst (m_read32 M (m_write32 M m a v) a) = v"
    and read_other: "ok a \<Longrightarrow> ok b \<Longrightarrow> apart a b \<Longrightarrow>
      fst (m_read32 M (m_write32 M m a v) b) = fst (m_read32 M m b)"

text \<open>A board without devices, for the concrete runs.\<close>

definition no_dev :: "unit devops" where
  "no_dev = \<lparr>d_read = (\<lambda>d a sz. (0, d)), d_write = (\<lambda>d a sz v. d)\<rparr>"

end
