(* ===== verification/M16_Frames.thy ===== *)
theory M16_Frames
  imports Page_Memory
begin

text \<open>
  SAVE and RESTORE over a memory that keeps the word contract: the frame round trip.  The locale
  lemmas follow the two walks of the source (\<open>execSave\<close>, \<open>execRestore\<close>); DRAM, through the page's
  \<open>MEM\<close>, is the interpretation.
\<close>

section \<open>Frames over the word contract\<close>

text \<open>The \<open>k\<close>-th word below \<open>t\<close>, and the condition that the first \<open>n\<close> of them are storage.\<close>

definition slot :: "u32 \<Rightarrow> nat \<Rightarrow> u32" where
  "slot t k = t - word_of_nat (4 * k)"

fun slots_ok :: "(u32 \<Rightarrow> bool) \<Rightarrow> u32 \<Rightarrow> nat \<Rightarrow> bool" where
  "slots_ok ok t 0 = True"
| "slots_ok ok t (Suc n) = (ok (t - 4) \<and> slots_ok ok (t - 4) n)"

lemma slot_Suc: "slot t (Suc k) = slot (t - 4) k"
  by (simp add: slot_def algebra_simps)

lemma slot_0 [simp]: "slot t 0 = t" by (simp add: slot_def)

lemma slots_ok_slot: "slots_ok ok t n \<Longrightarrow> 1 \<le> k \<Longrightarrow> k \<le> n \<Longrightarrow> ok (slot t k)"
proof (induction n arbitrary: t k)
  case 0
  then show ?case by simp
next
  case (Suc n)
  then obtain j where k: "k = Suc j" by (cases k) auto
  show ?case
  proof (cases "j = 0")
    case True
    with k Suc.prems show ?thesis by (simp add: slot_Suc)
  next
    case False
    with k Suc.prems Suc.IH [of "t - 4" j] show ?thesis by (simp add: slot_Suc [of t j])
  qed
qed

lemma uint_small: "n < 4294967296 \<Longrightarrow> uint (word_of_nat n :: u32) = int n"
  by (simp add: unsigned_of_nat take_bit_nat_eq_self)

lemma slots_apart:
  assumes "i < j" "j \<le> 1000"
  shows "apart (slot t i) (slot t j)"
proof -
  obtain d where j: "j = i + d" and d: "0 < d" "d \<le> 1000"
    using assms by (metis add_diff_inverse_nat diff_le_self le_trans less_imp_le_nat not_less zero_less_diff)
  have 1: "slot t i - slot t j = word_of_nat (4 * d)"
    by (simp add: slot_def j algebra_simps)
  have 2: "slot t j - slot t i = - word_of_nat (4 * d)"
    by (simp add: slot_def j algebra_simps)
  have u: "uint (word_of_nat (4 * d) :: u32) = 4 * int d"
    using d uint_small [of "4 * d"] by simp
  have n: "uint (- word_of_nat (4 * d) :: u32) = 4294967296 - 4 * int d"
    unfolding uint_word_ariths u zmod_zminus1_eq_if using d by simp
  show ?thesis
    unfolding apart_def 1 2 u n using d by simp
qed

context word_memory
begin

lemma push_other:
  "ok b \<Longrightarrow> slots_ok (\<lambda>a. ok a \<and> apart a b) t (length rs)
   \<Longrightarrow> fst (m_read32 M (push_regs M c rs t m) b) = fst (m_read32 M m b)"
  by (induction rs arbitrary: t m) (simp_all add: read_other)

lemma slots_ok_apart:
  "slots_ok ok t n \<Longrightarrow> n \<le> 1000 \<Longrightarrow> slots_ok (\<lambda>a. ok a \<and> apart a b) t n"
  if "\<And>k. 1 \<le> k \<Longrightarrow> k \<le> n \<Longrightarrow> apart (slot t k) b"
  using that
proof (induction n arbitrary: t)
  case (Suc n)
  have "apart (slot (t - 4) k) b" if "1 \<le> k" "k \<le> n" for k
    using Suc.prems(3) [of "Suc k"] that by (simp add: slot_Suc)
  with Suc Suc.prems(3) [of 1] show ?case by (simp add: slot_Suc)
qed simp

lemma push_read:
  "slots_ok ok t (length rs) \<Longrightarrow> length rs \<le> 1000 \<Longrightarrow> i < length rs
   \<Longrightarrow> fst (m_read32 M (push_regs M c rs t m) (slot t (Suc i))) = rd c (rs ! i)"
proof (induction rs arbitrary: t m i)
  case (Cons r rs)
  show ?case
  proof (cases i)
    case 0
    have "apart (slot (t - 4) k) (t - 4)" if "1 \<le> k" "k \<le> length rs" for k
      using slots_apart [of 0 k "t - 4"] that Cons.prems(2) by (simp add: apart_sym)
    with Cons.prems have "slots_ok (\<lambda>a. ok a \<and> apart a (t - 4)) (t - 4) (length rs)"
      by (intro slots_ok_apart) auto
    with Cons.prems 0 show ?thesis by (simp add: slot_Suc push_other read_own)
  next
    case (Suc j)
    with Cons show ?thesis by (simp add: slot_Suc [of t "Suc j"])
  qed
qed simp

lemma pop_regs_mem: "slots_ok ok t (length rs) \<Longrightarrow> snd (pop_regs M rs t c m) = m"
  by (induction rs arbitrary: t c) (simp_all add: Let_def read_pure)

lemma pop_regs_other:
  "slots_ok ok t (length rs) \<Longrightarrow> q \<notin> set rs \<Longrightarrow> c_reg (fst (pop_regs M rs t c m)) q = c_reg c q"
  by (induction rs arbitrary: t c) (simp_all add: Let_def read_pure wr_def)

lemma pop_regs_read:
  "slots_ok ok t (length rs) \<Longrightarrow> distinct rs \<Longrightarrow> 0 \<notin> set rs \<Longrightarrow> i < length rs
   \<Longrightarrow> c_reg (fst (pop_regs M rs t c m)) (rs ! i) = fst (m_read32 M m (slot t (Suc i)))"
proof (induction rs arbitrary: t c i)
  case (Cons r rs)
  then show ?case
    by (cases i) (simp_all add: Let_def read_pure slot_Suc pop_regs_other wr_def)
qed simp

end

text \<open>The registers of a frame are distinct, and never \<open>$zero\<close> or the stack pointer.\<close>

lemma xs_filter:
  assumes "0 \<le> (k :: int)" "k \<le> 7"
  shows "filter (\<lambda>i. k > 6 - int i) [0..<7] = [7 - nat k..<7]"
proof -
  from assms have "k = 0 \<or> k = 1 \<or> k = 2 \<or> k = 3 \<or> k = 4 \<or> k = 5 \<or> k = 6 \<or> k = 7" by presburger
  then show ?thesis by (elim disjE) (simp_all add: upt_rec)
qed

lemma frame_regs_ok:
  assumes "0 \<le> x_xsregs x" "x_xsregs x \<le> 7" "n \<le> 4"
  shows "distinct (frame_regs x n)" "0 \<notin> set (frame_regs x n)" "29 \<notin> set (frame_regs x n)"
    "length (frame_regs x n) \<le> 14"
proof -
  let ?xs = "map ((!) xs_order) [7 - nat (x_xsregs x)..<7]" and ?st = "map ((!) st_order) [0..<n]"
  have xs: "?xs = drop (7 - nat (x_xsregs x)) xs_order"
    by (rule nth_equalityI) (simp_all add: xs_order_def)
  have st: "?st = take n st_order"
    using assms(3) by (intro nth_equalityI) (simp_all add: st_order_def)
  have f: "frame_regs x n = (if x_ra x \<noteq> 0 then [31] else []) @ drop (7 - nat (x_xsregs x)) xs_order
     @ (if x_s1 x \<noteq> 0 then [17] else []) @ (if x_s0 x \<noteq> 0 then [16] else []) @ take n st_order"
    unfolding frame_regs_def xs_filter [OF assms(1,2)] xs [symmetric] st [symmetric] by simp
  have sub: "set (drop k xs_order) \<subseteq> {30, 23, 22, 21, 20, 19, 18}" "set (take n st_order) \<subseteq> {7, 6, 5, 4}" for k
    using set_drop_subset [of k xs_order] set_take_subset [of n st_order]
    by (auto simp: xs_order_def st_order_def)
  have dist: "distinct (drop k xs_order)" "distinct (take n st_order)" for k
    by (rule distinct_drop distinct_take; simp add: xs_order_def st_order_def)+
  have disj: "set (drop k xs_order) \<inter> set (take n st_order) = {}" for k
    using sub(1) [of k] sub(2) by (rule_tac equals0I) (auto 0 3)
  show "distinct (frame_regs x n)"
    unfolding f using sub(1) [of "7 - nat (x_xsregs x)"] sub(2) dist disj by auto
  show "0 \<notin> set (frame_regs x n)" "29 \<notin> set (frame_regs x n)"
    unfolding f using sub(1) [of "7 - nat (x_xsregs x)"] sub(2) by auto
  have "nat (x_xsregs x) \<le> 7" using assms by simp
  then show "length (frame_regs x n) \<le> 14"
    unfolding f using assms(3) by (simp add: xs_order_def st_order_def)
qed

lemma AREGS_SomeD: "AREGS a = Some (args, statics) \<Longrightarrow> args \<le> 4 \<and> length statics \<le> 4 \<and> 0 \<le> a \<and> a < 15"
  unfolding AREGS_def by (drule map_of_SomeD) auto

context word_memory
begin

lemma save_restore:
  assumes ar: "AREGS (x_aregs x) = Some (args, statics)"
    and xs: "0 \<le> x_xsregs x" "x_xsregs x \<le> 7"
  defines "fs \<equiv> frame_regs x (length statics)"
  assumes ok: "slots_ok ok (c_reg c GPR_SP) (length fs)"
    and save: "execSave M c m x = Some (c1, m1)"
    and sp: "c_reg c2 GPR_SP = c_reg c1 GPR_SP"
    and kept: "\<And>k. 1 \<le> k \<Longrightarrow> k \<le> length fs \<Longrightarrow>
       fst (m_read32 M m2 (slot (c_reg c GPR_SP) k)) = fst (m_read32 M m1 (slot (c_reg c GPR_SP) k))"
    and rest: "execRestore M c2 m2 x = Some (c3, m3)"
  shows "r \<in> set fs \<Longrightarrow> c_reg c3 r = rd c r"
    and "c_reg c3 GPR_SP = c_reg c GPR_SP"
    and "r \<notin> set fs \<Longrightarrow> r \<noteq> GPR_SP \<Longrightarrow> c_reg c3 r = c_reg c2 r"
    and "m3 = m2"
proof -
  note fok = frame_regs_ok [OF xs, of "length statics", folded fs_def]
  from AREGS_SomeD [OF ar] have "length statics \<le> 4" by simp
  note fok = fok [OF this]
  let ?t = "c_reg c GPR_SP"
  have m1: "m1 = push_regs M c fs ?t (save_args M c args ?t m)"
    and c1: "c_reg c1 GPR_SP = ?t - w32 (x_framesize x)"
    using save ar by (auto simp: execSave_def rd_def fs_def wr_def Let_def)
  have t: "rd c2 GPR_SP + w32 (x_framesize x) = ?t"
    using sp c1 by (simp add: rd_def)
  have c3: "c3 = wr (fst (pop_regs M fs ?t c2 m2)) GPR_SP ?t" and m3: "m3 = snd (pop_regs M fs ?t c2 m2)"
    using rest ar unfolding execRestore_def t Let_def by (simp_all add: fs_def)
  show "m3 = m2" using m3 pop_regs_mem [OF ok] by simp
  show "c_reg c3 GPR_SP = c_reg c GPR_SP" by (simp add: c3 wr_def)
  show "c_reg c3 r = c_reg c2 r" if "r \<notin> set fs" "r \<noteq> GPR_SP"
    using that pop_regs_other [OF ok] by (simp add: c3 wr_def)
  show "c_reg c3 r = rd c r" if "r \<in> set fs"
  proof -
    from that obtain i where i: "i < length fs" "r = fs ! i" by (auto simp: in_set_conv_nth)
    from that fok have r: "r \<noteq> 29" by auto
    then have "c_reg c3 r = fst (m_read32 M m2 (slot ?t (Suc i)))"
      using pop_regs_read [OF ok fok(1,2) i(1)] i by (simp add: c3 wr_def)
    also have "\<dots> = fst (m_read32 M m1 (slot ?t (Suc i)))" using i by (intro kept) auto
    also have "\<dots> = rd c r" unfolding m1 using ok fok i by (simp add: push_read)
    finally show ?thesis .
  qed
qed

end

section \<open>DRAM keeps the contract\<close>

text \<open>The cached alias of DRAM, at addresses whose whole word lies inside it.\<close>

definition page_ok :: "u32 \<Rightarrow> bool" where
  "page_ok a \<longleftrightarrow> RAM_K0 \<le> uint a \<and> uint a + 3 < RAM_K0 + RAM_SIZE"

lemma page_ok_phys: "page_ok a \<Longrightarrow> ramPhys a = uint a - RAM_K0 \<and> 0 \<le> ramPhys a \<and> ramPhys a + 3 < RAM_SIZE"
  by (auto simp: page_ok_def ramPhys_def)

lemma and_255_32: "(v :: u32) AND 255 = take_bit 8 v"
  by (simp add: take_bit_eq_mask mask_eq_exp_minus_1)

lemma ucast_byte_and [simp]: "ucast (take_bit 8 (v :: u32)) = (ucast v :: 8 word)"
  by (rule bit_word_eqI) (simp add: bit_simps)

lemma ram_get_set:
  "ram_get (ram_set ram r v) q
     = (if q = r \<and> 0 \<le> r \<and> r < RAM_SIZE then ucast (ucast v :: 8 word) else ram_get ram q)"
  by (simp add: ram_get_def ram_set_def)

lemma byte_of: "ucast (ucast (v :: u32) :: 8 word) = (take_bit 8 v :: u32)"
  by (rule bit_word_eqI) (auto simp: bit_simps)

lemma bytes_of_word:
  "push_bit 24 (take_bit 8 (drop_bit 24 v)) OR push_bit 16 (take_bit 8 (drop_bit 16 v))
   OR push_bit 8 (take_bit 8 (drop_bit 8 v)) OR take_bit 8 v = (v :: u32)"
proof (rule bit_word_eqI)
  fix n
  assume n: "n < LENGTH(32)"
  consider "n < 8" | "8 \<le> n" "n < 16" | "16 \<le> n" "n < 24" | "24 \<le> n" by linarith
  then show "bit (push_bit 24 (take_bit 8 (drop_bit 24 v)) OR push_bit 16 (take_bit 8 (drop_bit 16 v))
      OR push_bit 8 (take_bit 8 (drop_bit 8 v)) OR take_bit 8 v) n = bit v n"
    using n by cases (simp_all add: bit_simps, (auto | linarith)+)
qed

lemma ram_load_store_same:
  assumes "0 \<le> r" "r + 3 < RAM_SIZE"
  shows "ram_load (ram_store ram r 4 v) r 4 = v"
proof -
  have "r < RAM_SIZE" "r + 1 < RAM_SIZE" "r + 2 < RAM_SIZE" using assms by simp_all
  then show ?thesis
    using assms by (simp add: ram_load_def ram_store_def ram_get_set and_255_32 byte_of bytes_of_word del: RAM_simps)
qed

lemma ram_store_out:
  "q < r \<or> r + 4 \<le> q \<Longrightarrow> ram_get (ram_store ram r 4 v) q = ram_get ram q"
proof -
  assume "q < r \<or> r + 4 \<le> q"
  then have "q \<noteq> r" "q \<noteq> r + 1" "q \<noteq> r + 2" "q \<noteq> r + 3" by linarith+
  then show ?thesis by (simp add: ram_store_def ram_get_set)
qed

lemma ram_load_store_other:
  "r + 4 \<le> q \<or> q + 4 \<le> r \<Longrightarrow> ram_load (ram_store ram r 4 v) q 4 = ram_load ram q 4"
proof -
  assume "r + 4 \<le> q \<or> q + 4 \<le> r"
  then have "q < r \<or> r + 4 \<le> q" "q + 1 < r \<or> r + 4 \<le> q + 1" "q + 2 < r \<or> r + 4 \<le> q + 2"
    "q + 3 < r \<or> r + 4 \<le> q + 3" by linarith+
  then show ?thesis by (simp add: ram_load_def ram_store_out)
qed

lemma apart_phys:
  assumes "page_ok a" "page_ok b" "apart a b"
  shows "ramPhys a + 4 \<le> ramPhys b \<or> ramPhys b + 4 \<le> ramPhys a"
proof -
  have "uint (a - b) = (if uint b \<le> uint a then uint a - uint b else uint a - uint b + 4294967296)"
    "uint (b - a) = (if uint a \<le> uint b then uint b - uint a else uint b - uint a + 4294967296)"
    by (simp_all add: uint_sub_if')
  then show ?thesis
    using assms(3) page_ok_phys [OF assms(1)] page_ok_phys [OF assms(2)]
    by (auto simp: apart_def split: if_splits)
qed

interpretation dram: word_memory "MEM D" page_ok for D :: "'d devops"
proof unfold_locales
  fix a b v and m :: "'d page"
  assume a: "page_ok a"
  note pa = page_ok_phys [OF a]
  then show "snd (m_read32 (MEM D) m a) = m"
    by (simp add: MEM_def page_load_def Let_def)
  from pa show "fst (m_read32 (MEM D) (m_write32 (MEM D) m a v) a) = v"
    by (simp add: MEM_def page_load_def Let_def page_store_def ram_load_store_same)
  assume b: "page_ok b" and ab: "apart a b"
  from page_ok_phys [OF b] pa apart_phys [OF a b ab]
  show "fst (m_read32 (MEM D) (m_write32 (MEM D) m a v) b) = fst (m_read32 (MEM D) m b)"
    by (simp add: MEM_def page_load_def Let_def page_store_def ram_load_store_other)
qed

section \<open>The frame round trip on the emulator's memory\<close>

lemma execSave_Some:
  "AREGS (x_aregs x) = Some (args, statics) \<Longrightarrow> \<exists>c1 m1. execSave M c m x = Some (c1, m1)"
  by (simp add: execSave_def Let_def)

lemma execRestore_Some:
  "AREGS (x_aregs x) = Some (args, statics) \<Longrightarrow> \<exists>c1 m1. execRestore M c m x = Some (c1, m1)"
  by (simp add: execRestore_def Let_def)

text \<open>
  C5.  RESTORE undoes SAVE.  Let a SAVE run with a frame whose slots lie in DRAM.  It completes, and
  whatever the callee then does, as long as it leaves the stack pointer and the saved slots alone, the
  RESTORE with the same operands completes too: it gives every saved register and the stack pointer
  the value they had before the SAVE, and changes no other register and no memory.
\<close>

theorem save_then_restore:
  assumes "AREGS (x_aregs x) = Some (args, statics)" "0 \<le> x_xsregs x" "x_xsregs x \<le> 7"
    and "slots_ok page_ok (c_reg c GPR_SP) (length (frame_regs x (length statics)))"
  shows "\<exists>c1 m1. execSave (MEM D) c m x = Some (c1, m1) \<and>
    (\<forall>c2 m2. c_reg c2 GPR_SP = c_reg c1 GPR_SP
        \<and> (\<forall>k \<in> {1..length (frame_regs x (length statics))}.
              fst (m_read32 (MEM D) m2 (slot (c_reg c GPR_SP) k))
                = fst (m_read32 (MEM D) m1 (slot (c_reg c GPR_SP) k)))
      \<longrightarrow> (\<exists>c3. execRestore (MEM D) c2 m2 x = Some (c3, m2)
            \<and> (\<forall>r. c_reg c3 r = (if r = GPR_SP then c_reg c GPR_SP
                  else if r \<in> set (frame_regs x (length statics)) then rd c r else c_reg c2 r))))"
proof -
  obtain c1 m1 where s: "execSave (MEM D) c m x = Some (c1, m1)"
    using execSave_Some [OF assms(1), of "MEM D" c m] by blast
  note rt = dram.save_restore [OF assms s]
  have "\<exists>c3. execRestore (MEM D) c2 m2 x = Some (c3, m2)
            \<and> (\<forall>r. c_reg c3 r = (if r = GPR_SP then c_reg c GPR_SP
                  else if r \<in> set (frame_regs x (length statics)) then rd c r else c_reg c2 r))"
    if sp: "c_reg c2 GPR_SP = c_reg c1 GPR_SP"
      and kept: "\<forall>k \<in> {1..length (frame_regs x (length statics))}.
              fst (m_read32 (MEM D) m2 (slot (c_reg c GPR_SP) k))
                = fst (m_read32 (MEM D) m1 (slot (c_reg c GPR_SP) k))" for c2 :: cpu and m2
  proof -
    obtain c3 m3 where r: "execRestore (MEM D) c2 m2 x = Some (c3, m3)"
      using execRestore_Some [OF assms(1), of "MEM D" c2 m2] by blast
    from rt [OF sp _ r] kept r
    show ?thesis by auto
  qed
  with s show ?thesis by blast
qed

definition frame_x :: xpay where
  "frame_x = (xnorm (pay ''save''))\<lparr>x_ra := 1, x_s0 := 1, x_framesize := 32\<rparr>"

definition frame_cpu :: cpu where
  "frame_cpu = newCpu\<lparr>c_reg := (\<lambda>_. 0)(29 := 0x80001000, 31 := 0x1234, 16 := 7)\<rparr>"

definition frame_page :: "unit page" where
  "frame_page = \<lparr>pg_ram = (\<lambda>_. 0), pg_dcache = [], pg_dev = ()\<rparr>"

theorem save_then_restore_witness:
  "\<exists>c1 m1. execSave (MEM no_dev) frame_cpu frame_page frame_x = Some (c1, m1)
     \<and> (\<exists>c3. execRestore (MEM no_dev) (c1\<lparr>c_reg := (c_reg c1)(31 := 0, 16 := 0)\<rparr>) m1 frame_x = Some (c3, m1)
          \<and> c_reg c3 31 = 0x1234 \<and> c_reg c3 16 = 7 \<and> c_reg c3 29 = 0x80001000)"
proof -
  have fr: "frame_regs frame_x 0 = [31, 16]" by code_simp
  have a: "AREGS (x_aregs frame_x) = Some (0, [])" by code_simp
  have r: "0 \<le> x_xsregs frame_x" "x_xsregs frame_x \<le> 7" by code_simp+
  have s: "slots_ok page_ok (c_reg frame_cpu GPR_SP) (length (frame_regs frame_x (length [])))" by code_simp
  have v: "c_reg frame_cpu GPR_SP = 0x80001000" "rd frame_cpu 31 = 0x1234" "rd frame_cpu 16 = 7" by code_simp+
  from save_then_restore [OF a r s, where D = no_dev and m = frame_page]
  obtain c1 m1 where save: "execSave (MEM no_dev) frame_cpu frame_page frame_x = Some (c1, m1)"
    and rst: "\<And>c2. c_reg c2 GPR_SP = c_reg c1 GPR_SP \<Longrightarrow>
      \<exists>c3. execRestore (MEM no_dev) c2 m1 frame_x = Some (c3, m1)
        \<and> (\<forall>r. c_reg c3 r = (if r = GPR_SP then 0x80001000
              else if r \<in> {31, 16} then rd frame_cpu r else c_reg c2 r))"
    unfolding list.size(3) fr v by fastforce
  let ?c2 = "c1\<lparr>c_reg := (c_reg c1)(31 := 0, 16 := 0)\<rparr>"
  have "c_reg ?c2 GPR_SP = c_reg c1 GPR_SP" by (simp add: GPR_SP_def)
  from rst [OF this] obtain c3 where "execRestore (MEM no_dev) ?c2 m1 frame_x = Some (c3, m1)"
    and "\<forall>r. c_reg c3 r = (if r = GPR_SP then 0x80001000
              else if r \<in> {31, 16} then rd frame_cpu r else c_reg ?c2 r)" by blast
  then have "execRestore (MEM no_dev) ?c2 m1 frame_x = Some (c3, m1)
      \<and> c_reg c3 31 = 0x1234 \<and> c_reg c3 16 = 7 \<and> c_reg c3 29 = 0x80001000"
    by (simp add: GPR_SP_def v)
  with save show ?thesis by blast
qed

end
