(* ===== verification/Page_Cache.thy ===== *)
theory Page_Cache
  imports M16_Cache M16_Frames
begin

text \<open>
  The decode cache on the emulator's page: the Map of \<open>reference/digibox-boot.html\<close>, the eviction
  its \<open>store\<close> does, and the two caches of \<open>step\<close> (\<open>reference/mips16.js\<close>) in front of it.  The locales
  of \<open>M16_Cache\<close> are interpreted on \<open>MEM\<close> and \<open>CACHE\<close> here.  The main result is that a cached run
  is an uncached one; its exception, code run from the uncached DRAM alias, is stated too.
\<close>

section \<open>The page's Map keeps the cache contract\<close>

lemma map_of_evict:
  "map_of (evict dc r) a =
     (let va = word_of_int (RAM_K0 + r) AND NOT 1
      in if a = va \<or> a = va - 2 \<or> a = va + 2 then None else map_of dc a)"
  by (auto simp: evict_def Let_def delete_conv')

lemma evict_le: "map_of (evict dc r) \<subseteq>\<^sub>m map_of dc"
  by (auto simp: map_le_def map_of_evict Let_def dom_def)

lemma page_store_map_le: "map_of (pg_dcache (page_store D p a sz v)) \<subseteq>\<^sub>m map_of (pg_dcache p)"
  by (simp add: page_store_def Let_def evict_le)

lemma page_load_dcache [simp]: "pg_dcache (snd (page_load D p a sz)) = pg_dcache p"
  by (simp add: page_load_def Let_def)

interpretation pg: code_map "MEM D" CACHE mp for D :: "'d devops" and mp
proof unfold_locales
  show "ca_size CACHE m mp = card (dom (ca_get CACHE m mp))" for m :: "'d page"
    by (simp add: CACHE_def dom_map_of_conv_image_fst length_remdups_card_conv)
  show "finite (dom (ca_get CACHE m mp))" for m :: "'d page"
    by (simp add: CACHE_def finite_dom_map_of)
qed (simp_all add: CACHE_def MEM_def page_store_map_le update_conv')

section \<open>The cached decodes and the bytes they came from\<close>

text \<open>Code addresses: even, in the cached alias of DRAM, with the lookahead of \<open>fetch\<close> inside it.\<close>

definition code_ok :: "u32 \<Rightarrow> bool" where
  "code_ok pc \<longleftrightarrow> RAM_K0 \<le> uint pc \<and> uint pc + 6 \<le> RAM_K0 + RAM_SIZE \<and> even (uint pc)"

text \<open>Every entry of the Map is what \<open>step\<close> would decode now from the bytes in memory.\<close>

definition coherent :: "'d devops \<Rightarrow> 'd page \<Rightarrow> bool" where
  "coherent D p \<longleftrightarrow>
     (\<forall>pc xi. map_of (pg_dcache p) pc = Some xi \<longrightarrow>
        code_ok pc \<and> fst (fetch (MEM D) p pc None) = Inr xi)"

lemma uint_plus_small:
  assumes "uint (a :: u32) + n < 4294967296" "0 \<le> n"
  shows "uint (a + word_of_int n) = uint a + n"
proof -
  have "0 \<le> uint a" by simp
  with assms have "n < 4294967296" by linarith
  with assms show ?thesis by (simp add: uint_word_ariths uint_word_of_int)
qed

lemma code_ok_phys:
  assumes "code_ok pc"
  shows "ramPhys pc = uint pc - RAM_K0" "ramPhys (pc + 2) = ramPhys pc + 2" "ramPhys (pc + 4) = ramPhys pc + 4"
    "0 \<le> ramPhys pc" "ramPhys pc + 6 \<le> RAM_SIZE"
  using assms uint_plus_small [of pc 2] uint_plus_small [of pc 4] by (auto simp: code_ok_def ramPhys_def)

lemma rd16_code:
  "0 \<le> ramPhys a \<Longrightarrow> rd16 (MEM D) p a = (uint (ram_load (pg_ram p) (ramPhys a) 2 AND 0xFFFF), p)"
  by (simp add: rd16_def MEM_def page_load_def Let_def)

lemma decode_next: "decode hw (Some e) nh addr p isa = decode hw (Some e) nh' addr p isa"
  by (auto simp: decode_def Let_def decode_body_next [of "Some _" _ nh _ _ _ nh'])

lemma fetch_code:
  assumes "code_ok pc"
  shows "snd (fetch (MEM D) p pc b) = p"
  using code_ok_phys [OF assms] by (simp add: fetch_def Let_def case_prod_beta rd16_code split: sum.split)

definition half_at :: "'d page \<Rightarrow> int \<Rightarrow> int" where
  "half_at p r = uint (ram_load (pg_ram p) r 2 AND 0xFFFF)"

lemma fetch_code_fst:
  assumes "code_ok pc"
  shows "fst (fetch (MEM D) p pc b) =
     (let hw = half_at p (ramPhys pc); nx = half_at p (ramPhys pc + 2); pcb = map_option uint b in
      if drop_bit 11 hw = 0x1E
      then (case decode nx (Some hw) (Some 0) (Some (uint pc)) pcb (Some 32) of
              Inl e \<Rightarrow> Inl (Threw e)
            | Inr ins \<Rightarrow> if i_notext ins then Inl (Fail (the (i_reason ins))) else accept ins)
      else (case decode hw None (Some nx) (Some (uint pc)) pcb (Some 32) of
              Inl e \<Rightarrow> Inl (Threw e) | Inr ins \<Rightarrow> accept ins))"
  using code_ok_phys(2-4) [OF assms]
  by (simp add: fetch_def Let_def case_prod_beta rd16_code half_at_def
      decode_next [of _ _ "Some (uint (ram_load (pg_ram p) (ramPhys pc + 4) 2 AND 65535))" _ _ _ "Some 0"]
      sum.case_distrib [of fst] if_distrib [of fst] cong: if_cong sum.case_cong)

lemma fetch_same_bytes:
  assumes "code_ok pc" "\<And>i. i \<in> {0, 1, 2, 3} \<Longrightarrow>
     ram_get (pg_ram p') (ramPhys pc + i) = ram_get (pg_ram p) (ramPhys pc + i)"
  shows "fst (fetch (MEM D) p' pc b) = fst (fetch (MEM D) p pc b)"
proof -
  have "half_at p' (ramPhys pc) = half_at p (ramPhys pc)"
    "half_at p' (ramPhys pc + 2) = half_at p (ramPhys pc + 2)"
    using assms(2) [of 0] assms(2) [of 1] assms(2) [of 2] assms(2) [of 3]
    by (simp_all add: half_at_def ram_load_def add.commute add.left_commute)
  then show ?thesis by (simp only: fetch_code_fst [OF assms(1)])
qed

section \<open>A store evicts every decode it may have changed\<close>

lemma and_not_mask: "w AND NOT (mask n) = push_bit n (drop_bit n (w :: u32))"
  by (rule bit_word_eqI) (auto simp: bit_simps)

lemma uint_and_not_1: "uint ((w :: u32) AND NOT 1) = 2 * (uint w div 2)"
proof -
  have "uint w < 4294967296" using uint_lt2p [of w] by simp
  then have lt: "2 * (uint w div 2) < 4294967296" by linarith
  have t: "take_bit 32 (uint w) = uint w" using \<open>uint w < 4294967296\<close> by (simp add: take_bit_int_eq_self)
  have "w AND NOT 1 = push_bit 1 (drop_bit 1 w)"
    using and_not_mask [of w 1] by simp
  then have "uint (w AND NOT 1) = take_bit 32 (push_bit 1 (drop_bit 1 (uint w)))"
    by (simp only: unsigned_push_bit_eq unsigned_drop_bit_eq) (simp add: t)
  also have "\<dots> = 2 * (uint w div 2)"
    using lt by (simp add: push_bit_eq_mult drop_bit_eq_div take_bit_int_eq_self mult.commute)
  finally show ?thesis .
qed

lemma uint_minus_small:
  assumes "n \<le> uint (a :: u32)" "0 \<le> n"
  shows "uint (a - word_of_int n) = uint a - n"
proof -
  have "uint a < 4294967296" using uint_lt2p [of a] by simp
  with assms show ?thesis by (simp add: uint_word_ariths uint_word_of_int)
qed

text \<open>An entry that survives the eviction lies clear of the bytes written.\<close>

lemma evict_clear:
  assumes dc: "map_of (evict dc r) pc = Some xi" and pc: "code_ok pc"
    and r: "0 \<le> r" "r < RAM_SIZE" and sz: "sz = 1 \<or> sz = 2 \<or> (sz = 4 \<and> even r)"
  shows "map_of dc pc = Some xi" "ramPhys pc + 4 \<le> r \<or> r + sz \<le> ramPhys pc"
proof -
  define va :: u32 where "va = word_of_int (RAM_K0 + r) AND NOT 1"
  have uva: "uint va = RAM_K0 + 2 * (r div 2)"
  proof -
    have "uint (word_of_int (RAM_K0 + r) :: u32) = RAM_K0 + r"
      unfolding uint_word_of_int using r by simp
    moreover have "2 * ((RAM_K0 + r) div 2) = RAM_K0 + 2 * (r div 2)" unfolding RAM_simps by presburger
    ultimately show ?thesis by (simp only: va_def uint_and_not_1)
  qed
  have n: "pc \<noteq> va" "pc \<noteq> va - 2" "pc \<noteq> va + 2" and dc0: "map_of dc pc = Some xi"
    using dc by (auto simp: map_of_evict Let_def va_def split: if_splits)
  have "uint va + 2 < 4294967296" using r by (simp add: uva)
  then have u: "uint (va - 2) = uint va - 2" "uint (va + 2) = uint va + 2"
    using uint_minus_small [of 2 va] uint_plus_small [of va 2] r by (simp_all add: uva)
  have "uint pc \<noteq> uint va" "uint pc \<noteq> uint va - 2" "uint pc \<noteq> uint va + 2"
    using n unfolding word_uint_eq_iff u by simp_all
  moreover obtain j where j: "uint pc = RAM_K0 + 2 * j"
  proof -
    from pc obtain k where "uint pc = 2 * k" by (auto simp: code_ok_def elim: evenE)
    then have "uint pc = RAM_K0 + 2 * (k - 1073741824)" by simp
    then show ?thesis by (rule that)
  qed
  ultimately have "j \<noteq> r div 2" "j \<noteq> r div 2 - 1" "j \<noteq> r div 2 + 1"
    by (auto simp: uva)
  then have "j + 2 \<le> r div 2 \<or> r div 2 + 2 \<le> j" by linarith
  moreover have "ramPhys pc = 2 * j" using j code_ok_phys(1) [OF pc] by simp
  ultimately show "map_of dc pc = Some xi" "ramPhys pc + 4 \<le> r \<or> r + sz \<le> ramPhys pc"
    using dc0 sz r by (auto elim!: evenE)
qed

lemma ram_store_clear:
  assumes "q < r \<or> r + sz \<le> q" "sz = 1 \<or> sz = 2 \<or> sz = 4"
  shows "ram_get (ram_store ram r sz v) q = ram_get ram q"
proof -
  have "ram_get (ram_set ram' i v') q = ram_get ram' q" if "q \<noteq> i" for ram' i v'
    using that by (simp add: ram_get_def ram_set_def)
  then show ?thesis using assms by (auto simp: ram_store_def)
qed

lemma ramPhys_range: "0 \<le> ramPhys a \<Longrightarrow> ramPhys a < RAM_SIZE \<and> even (ramPhys a) = even_addr a"
  by (auto simp: ramPhys_def even_addr_def split: if_splits)

lemma store_coherent:
  assumes "coherent D p" "sz = 1 \<or> sz = 2 \<or> (sz = 4 \<and> even_addr a)"
  shows "coherent D (page_store D p a sz v)"
  unfolding coherent_def
proof (intro allI impI)
  fix pc xi
  assume e: "map_of (pg_dcache (page_store D p a sz v)) pc = Some xi"
  then have m: "map_of (pg_dcache p) pc = Some xi"
    using page_store_map_le [of D p a sz v] by (metis domI map_le_def)
  with assms(1) have c: "code_ok pc" and f: "fst (fetch (MEM D) p pc None) = Inr xi"
    unfolding coherent_def by blast+
  have "ram_get (pg_ram (page_store D p a sz v)) (ramPhys pc + i) = ram_get (pg_ram p) (ramPhys pc + i)"
    if "i \<in> {0, 1, 2, 3}" for i
  proof (cases "0 \<le> ramPhys a")
    case True
    with e have "map_of (evict (pg_dcache p) (ramPhys a)) pc = Some xi" by (simp add: page_store_def Let_def)
    from evict_clear(2) [OF this c True, of sz] ramPhys_range [OF True] assms(2)
    have "ramPhys pc + 4 \<le> ramPhys a \<or> ramPhys a + sz \<le> ramPhys pc" by auto
    then have "ramPhys pc + i < ramPhys a \<or> ramPhys a + sz \<le> ramPhys pc + i" using that by auto
    with True assms(2) show ?thesis by (auto simp: page_store_def Let_def intro: ram_store_clear)
  next
    case False
    then show ?thesis by (simp add: page_store_def)
  qed
  from fetch_same_bytes [OF c this] f c
  show "code_ok pc \<and> fst (fetch (MEM D) (page_store D p a sz v) pc None) = Inr xi" by simp
qed

lemma load_coherent: "coherent D p \<Longrightarrow> coherent D (snd (page_load D p a sz))"
proof -
  assume c: "coherent D p"
  have "fst (fetch (MEM D) (snd (page_load D p a sz)) pc None) = fst (fetch (MEM D) p pc None)"
    if "code_ok pc" for pc
    by (rule fetch_same_bytes [OF that]) (simp add: page_load_def Let_def)
  with c show ?thesis by (simp add: coherent_def)
qed

lemma even_addr_step: "even_addr a \<Longrightarrow> even_addr (a + 4)" "even_addr a \<Longrightarrow> even_addr (a - 4)"
  by (simp_all add: even_addr_def uint_word_ariths dvd_mod_iff)

interpretation coh: mem_rel "MEM D" "\<lambda>p p'. coherent D p \<longrightarrow> coherent D p'" even_addr for D :: "'d devops"
  by unfold_locales (simp_all add: MEM_def load_coherent store_coherent even_addr_step)

text \<open>The Map can be forgotten: no access reads it.\<close>

definition no_dcache :: "'d page \<Rightarrow> 'd page" where
  "no_dcache p = p\<lparr>pg_dcache := []\<rparr>"

interpretation nod: mem_hom "MEM D" no_dcache for D :: "'d devops"
  by unfold_locales (simp_all add: MEM_def no_dcache_def page_load_def page_store_def evict_def Let_def)

section \<open>A cached run is an uncached run\<close>

text \<open>
  The loop of the emulator's \<open>burst\<close> over \<open>step\<close>: run on while the step answers \<open>ok\<close>, at most
  \<open>n\<close> instructions, and keep what each step answered.
\<close>

fun run_steps ::
  "(cpu \<Rightarrow> 'm \<Rightarrow> outcome \<times> cpu \<times> 'm) \<Rightarrow> nat \<Rightarrow> cpu \<Rightarrow> 'm \<Rightarrow> outcome list \<times> cpu \<times> 'm" where
  "run_steps st 0 cpu m = ([], cpu, m)"
| "run_steps st (Suc n) cpu m =
     (case st cpu m of
        (Ok r, c', m') \<Rightarrow> apfst (Cons (Ok r)) (run_steps st n c' m')
      | (Fail s, c', m') \<Rightarrow> ([Fail s], c', m')
      | (Threw s, c', m') \<Rightarrow> ([Threw s], c', m'))"

text \<open>The run stays on code addresses and its word stores are halfword-aligned.\<close>

fun disciplined :: "'d devops \<Rightarrow> nat \<Rightarrow> cpu \<Rightarrow> 'd page \<Rightarrow> bool" where
  "disciplined D 0 cpu p = True"
| "disciplined D (Suc n) cpu p \<longleftrightarrow>
     code_ok (c_pc cpu)
     \<and> (case fst (fetch (MEM D) p (c_pc cpu) (map_option dl_from (c_delayed cpu))) of
          Inr xi \<Rightarrow> store_ok even_addr cpu (snd xi) | Inl r \<Rightarrow> True)
     \<and> (case step (MEM D) CACHE cpu p of (Ok r, c', p') \<Rightarrow> disciplined D n c' p' | _ \<Rightarrow> True)"

abbreviation no_cache :: "cpu \<Rightarrow> cpu" where
  "no_cache \<equiv> with_fc (None, None)"

lemma no_dcache_set [simp]: "no_dcache (ca_set CACHE p mp a xi) = no_dcache p"
  by (simp add: no_dcache_def CACHE_def)

lemma ram_set_cache [simp]: "pg_ram (ca_set CACHE p mp a xi) = pg_ram p"
  by (simp add: CACHE_def)

lemma coherentD:
  "coherent D p \<Longrightarrow> ca_get CACHE p mp pc = Some xi \<Longrightarrow> code_ok pc \<and> fst (fetch (MEM D) p pc None) = Inr xi"
  by (cases xi) (simp add: coherent_def CACHE_def)

lemma coherent_set:
  assumes "coherent D p" "code_ok pc" "fst (fetch (MEM D) p pc None) = Inr xi"
  shows "coherent D (ca_set CACHE p mp pc xi)"
proof -
  have "fst (fetch (MEM D) (ca_set CACHE p mp pc xi) q None) = fst (fetch (MEM D) p q None)"
    if "code_ok q" for q
    by (rule fetch_same_bytes [OF that]) simp
  then show ?thesis using assms unfolding coherent_def
    by (simp add: CACHE_def update_conv' del: split_paired_All)
qed

lemma step_cached_dcache: "step_cached M C mp c m = (r, c', m') \<Longrightarrow> c_dcache c' = c_dcache c"
  by (auto simp: step_cached_def Let_def set_fc_def dest!: exec_c_fc
      split: if_splits option.splits prod.splits sum.splits)

lemma uncached_nod:
  "step_uncached (MEM D) (no_cache c) (no_dcache p)
     = (let (r, c', p') = step_uncached (MEM D) c p in (r, no_cache c', no_dcache p'))"
  by (simp add: step_uncached_fc nod.step_uncached_f case_prod_beta prod_eq_iff)

lemma uncached_coherent:
  assumes st: "step_uncached (MEM D) c p = (r, c', p')" and co: "coherent D p" and pc: "code_ok (c_pc c)"
    and ok: "\<And>xi. fst (fetch (MEM D) p (c_pc c) (map_option dl_from (c_delayed c))) = Inr xi \<Longrightarrow> store_ok even_addr c (snd xi)"
  shows "coherent D p'"
proof (cases "fst (fetch (MEM D) p (c_pc c) (map_option dl_from (c_delayed c)))")
  case (Inl x)
  with st fetch_code [OF pc, of D p] co show ?thesis
    by (auto simp: step_uncached_def case_prod_beta)
next
  case (Inr xi)
  with st fetch_code [OF pc, of D p] have "exec (MEM D) c p xi (c_pc c) = (r, c', p')"
    by (simp add: step_uncached_def case_prod_beta)
  from coh.exec_R [OF ok [OF Inr] this] co show ?thesis by simp
qed

lemma step_map_uncached:
  assumes co: "coherent D p" and pc: "code_ok (c_pc c)" and isa: "c_isa c = 16"
    and dl: "c_delayed c = None" and dc: "c_dcache c = Some mp"
    and ok: "\<And>xi. fst (fetch (MEM D) p (c_pc c) None) = Inr xi \<Longrightarrow> store_ok even_addr c (snd xi)"
    and st: "step_map (MEM D) CACHE c p = (r, c', p')"
  shows "step_uncached (MEM D) (no_cache c) (no_dcache p) = (r, no_cache c', no_dcache p') \<and> coherent D p'"
proof -
  obtain ro where fe: "fetch (MEM D) p (c_pc c) None = (ro, p)"
    using fetch_code [OF pc, of D p None] by (metis prod.collapse)
  have ex: "step_uncached (MEM D) (no_cache c) (no_dcache p) = (r, no_cache c', no_dcache p') \<and> coherent D p'"
    if "ro = Inr xi" "exec (MEM D) c q xi (c_pc c) = (r, c', p')" "no_dcache q = no_dcache p" "coherent D q" for xi q
  proof -
    have "exec (MEM D) (no_cache c) (no_dcache p) xi (c_pc c) = (r, no_cache c', no_dcache p')"
      using that(2) unfolding that(3) [symmetric] by (simp add: exec_fc nod.exec_f)
    moreover have "fetch (MEM D) (no_dcache p) (c_pc c) None = (Inr xi, no_dcache p)"
      unfolding nod.fetch_f fe that(1) by simp
    ultimately have "step_uncached (MEM D) (no_cache c) (no_dcache p) = (r, no_cache c', no_dcache p')"
      by (simp add: step_uncached_def dl)
    moreover have "coherent D p'" using coh.exec_R [OF ok that(2)] fe that(1,4) by simp
    ultimately show ?thesis ..
  qed
  show ?thesis
  proof (cases "ca_get CACHE p mp (c_pc c)")
    case (Some hit)
    then have "ro = Inr hit" using coherentD [OF co, of mp] fe by fastforce
    from ex [OF this _ refl co] st Some show ?thesis by (simp add: step_map_def isa dl dc)
  next
    case None
    show ?thesis
    proof (cases ro)
      case (Inl x)
      with st None have "r = x" "c' = c" "p' = p"
        by (simp_all add: step_map_def isa dl dc fe [unfolded Inl])
      moreover have "fetch (MEM D) (no_dcache p) (c_pc c) None = (Inl x, no_dcache p)"
        unfolding nod.fetch_f fe Inl by simp
      ultimately show ?thesis using co by (simp add: step_uncached_def dl)
    next
      case (Inr xi)
      with st None have "exec (MEM D) c (ca_set CACHE p mp (c_pc c) xi) xi (c_pc c) = (r, c', p')"
        by (simp add: step_map_def isa dl dc fe [unfolded Inr])
      from ex [OF Inr this _ coherent_set [OF co pc]] fe Inr show ?thesis by simp
    qed
  qed
qed

lemma exec_no_cache_eq: "no_cache (with_fc f c) = no_cache c" by simp

lemma cached_step:
  assumes co: "coherent D p" and inv: "front_inv CACHE mp c p" and dc: "c_dcache c = Some mp"
    and pc: "code_ok (c_pc c)"
    and ok: "\<And>xi. fst (fetch (MEM D) p (c_pc c) (map_option dl_from (c_delayed c))) = Inr xi
       \<Longrightarrow> store_ok even_addr c (snd xi)"
    and st: "step (MEM D) CACHE c p = (r, c', p')"
  shows "step (MEM D) CACHE (no_cache c) (no_dcache p) = (r, no_cache c', no_dcache p')
     \<and> coherent D p' \<and> front_inv CACHE mp c' p' \<and> c_dcache c' = Some mp"
proof (cases "c_isa c = 16")
  case False
  with assms show ?thesis by (auto simp: step_def)
next
  case isa: True
  have un: "step (MEM D) CACHE (no_cache c) (no_dcache p) = step_uncached (MEM D) (no_cache c) (no_dcache p)"
    by (simp add: step_def isa)
  show ?thesis
  proof (cases "c_delayed c")
    case None
    with st isa dc have sc: "step_cached (MEM D) CACHE mp c p = (r, c', p')" by (simp add: step_def)
    note sm = pg.step_cached_map [OF inv isa None dc sc]
    have "step_uncached (MEM D) (no_cache c) (no_dcache p) = (r, no_cache (with_fc (Some mp, c_fc c) c'), no_dcache p')
       \<and> coherent D p'"
      by (rule step_map_uncached [OF co pc isa None dc _ sm(1)]) (use ok None in simp)
    then show ?thesis using sm(2) step_cached_dcache [OF sc] dc un by simp
  next
    case (Some d)
    with st isa have su: "step_uncached (MEM D) c p = (r, c', p')" by (simp add: step_def)
    have "front_inv CACHE mp c' p'"
    proof -
      obtain ro p1 where f: "fetch (MEM D) p (c_pc c) (map_option dl_from (c_delayed c)) = (ro, p1)" by fastforce
      with fetch_code [OF pc, of D p] have p1: "p1 = p" by (metis snd_conv)
      with su f inv show ?thesis
        by (cases ro) (auto simp: step_uncached_def dest: pg.exec_front_inv)
    qed
    with su un uncached_nod [of D c p] uncached_coherent [OF su co pc ok] step_uncached_cache [OF su] dc
    show ?thesis by simp
  qed
qed

lemma front_inv_start: "c_fc c = None \<Longrightarrow> front_inv C mp c m"
  by (simp add: front_inv_def)

text \<open>
  C1.  Running with the decode cache is running without it.  From any state whose cached decodes are
  those of the bytes in memory and whose front cache is in step with the Map, a run of \<open>n\<close> steps
  with the Map and the front cache answers, step by step, what the same run answers when every
  instruction is fetched and decoded anew: the same results, the same CPU apart from the cache
  fields, the same memory apart from the Map.  The run may write over its own code; it has to stay
  on even addresses of the cached DRAM alias and to store words at even addresses.
\<close>

theorem cached_run_is_uncached:
  assumes "coherent D p" "front_inv CACHE mp c p" "c_dcache c = Some mp"
    and "disciplined D n (no_cache c) (no_dcache p)"
  shows "run_steps (step (MEM D) CACHE) n (no_cache c) (no_dcache p)
    = (let (os, c', p') = run_steps (step (MEM D) CACHE) n c p in (os, no_cache c', no_dcache p'))"
  using assms
proof (induction n arbitrary: c p)
  case (Suc n)
  obtain r c' p' where st: "step (MEM D) CACHE c p = (r, c', p')" by (metis prod_cases3)
  from Suc.prems(4) have pc: "code_ok (c_pc c)" by simp
  have ok: "store_ok even_addr c (snd xi)"
    if "fst (fetch (MEM D) p (c_pc c) (map_option dl_from (c_delayed c))) = Inr xi" for xi
    using Suc.prems(4) that by (simp add: nod.fetch_f)
  note one = cached_step [OF Suc.prems(1-3) pc ok st]
  show ?case
  proof (cases r)
    case (Ok res)
    with Suc.prems(4) one have "disciplined D n (no_cache c') (no_dcache p')" by simp
    with Suc.IH [of p' c'] one Ok st show ?thesis by (simp add: case_prod_beta Let_def)
  qed (use one st in simp_all)
qed simp

section \<open>Any interleaving of steps and evictions\<close>

text \<open>
  What can happen to the pair of caches: a step, or the host changing CPU and memory between steps,
  removing entries of the Map or switching the cache off and on, but never adding one.
\<close>

inductive cache_reach :: "'d devops \<Rightarrow> cpu \<Rightarrow> 'd page \<Rightarrow> bool" for D where
  start: "c_fc c = None \<Longrightarrow> cache_reach D c p"
| stepped: "cache_reach D c p \<Longrightarrow> c_dcache c \<in> {None, Some 0} \<Longrightarrow> step (MEM D) CACHE c p = (r, c', p')
    \<Longrightarrow> cache_reach D c' p'"
| host: "cache_reach D c p \<Longrightarrow> c_fc c' = c_fc c \<Longrightarrow> map_of (pg_dcache p') \<subseteq>\<^sub>m map_of (pg_dcache p)
    \<Longrightarrow> cache_reach D c' p'"

lemma step_no_map:
  assumes "c_dcache c = None \<or> c_isa c \<noteq> 16 \<or> c_delayed c \<noteq> None"
  shows "step M C c m = step_map M C c m"
  using assms by (auto simp: step_def step_map_def)

lemma step_uncached_front_inv:
  assumes "step_uncached (MEM D) c p = (r, c', p')" "front_inv CACHE mp c p"
  shows "front_inv CACHE mp c' p'"
proof -
  obtain ro p1 where f: "fetch (MEM D) p (c_pc c) (map_option dl_from (c_delayed c)) = (ro, p1)" by fastforce
  have "front_inv CACHE mp c p1"
    by (rule pg.front_inv_mono [OF assms(2)]) (use pg.fetch_map [OF f, of mp] in simp_all)
  with assms(1) f show ?thesis
    by (cases ro) (auto simp: step_uncached_def dest: pg.exec_front_inv)
qed

lemma step_front_inv:
  assumes inv: "front_inv CACHE 0 c p" and dc: "c_dcache c \<in> {None, Some 0}"
    and st: "step (MEM D) CACHE c p = (r, c', p')"
  shows "front_inv CACHE 0 c' p' \<and> step_map (MEM D) CACHE c p = (r, with_fc (c_dcache c, c_fc c) c', p')"
proof -
  consider (no) "c_isa c \<noteq> 16" | (un) "c_isa c = 16" "c_delayed c \<noteq> None \<or> c_dcache c = None"
    | (ca) "c_isa c = 16" "c_delayed c = None" "c_dcache c = Some 0"
    using dc by (cases "c_isa c = 16"; cases "c_delayed c"; cases "c_dcache c") auto
  then show ?thesis
  proof cases
    case no
    with st inv show ?thesis by (auto simp: step_def step_map_def with_fc_self)
  next
    case un
    then have "step (MEM D) CACHE c p = step_uncached (MEM D) c p" by (auto simp: step_def)
    with st have su: "step_uncached (MEM D) c p = (r, c', p')" by simp
    have "step_map (MEM D) CACHE c p = (r, c', p')"
      using step_no_map [of c "MEM D" CACHE p] un st by auto
    with step_uncached_front_inv [OF su inv] step_uncached_cache [OF su] show ?thesis
      using with_fc_self [of c'] by simp
  next
    case ca
    with st have "step_cached (MEM D) CACHE 0 c p = (r, c', p')" by (simp add: step_def)
    from pg.step_cached_map [OF inv ca this] ca show ?thesis by simp
  qed
qed

lemma cache_reach_inv: "cache_reach D c p \<Longrightarrow> front_inv CACHE 0 c p"
proof (induction rule: cache_reach.induct)
  case (start c p)
  then show ?case by (rule front_inv_start)
next
  case (stepped c p r c' p')
  from step_front_inv [OF stepped.IH stepped.hyps(2,3)] show ?case by simp
next
  case (host c p c' p')
  then show ?case by (intro pg.front_inv_mono [OF host.IH]) (simp_all add: CACHE_def)
qed

text \<open>
  C2.  The front cache never answers what the Map would not.  In every state that steps and host
  actions can reach, however they interleave, a step through the front cache gives the result, the
  CPU and the memory of a step that asks the Map alone; the generation counter, its wrap-around and
  the slot conflicts never show.
\<close>

theorem front_cache_transparent:
  assumes "cache_reach D c p" "c_dcache c \<in> {None, Some 0}" "step (MEM D) CACHE c p = (r, c', p')"
  shows "step_map (MEM D) CACHE c p = (r, with_fc (c_dcache c, c_fc c) c', p')"
  using step_front_inv [OF cache_reach_inv [OF assms(1)] assms(2,3)] by simp

section \<open>The uncached alias is not evicted\<close>

lemma K1_not_va:
  assumes "RAM_K1 \<le> uint (pc :: u32)" "0 \<le> r" "r < RAM_SIZE"
  defines "va \<equiv> (word_of_int (RAM_K0 + r) :: u32) AND NOT 1"
  shows "pc \<noteq> va" "pc \<noteq> va - 2" "pc \<noteq> va + 2"
proof -
  have w: "uint (word_of_int (RAM_K0 + r) :: u32) = RAM_K0 + r"
    unfolding uint_word_of_int using assms by simp
  have u: "uint va = 2 * ((RAM_K0 + r) div 2)" by (simp only: va_def uint_and_not_1 w)
  have b: "RAM_K0 \<le> uint va" "uint va < RAM_K0 + RAM_SIZE"
    unfolding u RAM_simps using assms(2,3) by simp_all
  then have "uint (va - 2) = uint va - 2" "uint (va + 2) = uint va + 2"
    using uint_minus_small [of 2 va] uint_plus_small [of va 2] by simp_all
  with b assms(1) show "pc \<noteq> va" "pc \<noteq> va - 2" "pc \<noteq> va + 2" by auto
qed


text \<open>A two-instruction loop at the start of DRAM: \<open>li v0,5\<close> and a branch back to it.\<close>

definition loop_page :: "unit page" where
  "loop_page = \<lparr>pg_ram = (\<lambda>a. if a = 0 then 0x6A else if a = 1 then 0x05 else if a = 2 then 0x17
     else if a = 3 then 0xFE else 0), pg_dcache = [], pg_dev = ()\<rparr>"

definition loop_cpu :: cpu where
  "loop_cpu = newCpu\<lparr>c_pc := 0x80000000, c_dcache := Some 0\<rparr>"

lemma loop_coherent: "coherent D loop_page"
  by (simp add: coherent_def loop_page_def)

lemma loop_disciplined: "disciplined no_dev 3 (no_cache loop_cpu) (no_dcache loop_page)"
  by code_simp

theorem cached_run_is_uncached_witness:
  "run_steps (step (MEM no_dev) CACHE) 3 (no_cache loop_cpu) (no_dcache loop_page)
    = (let (os, c', p') = run_steps (step (MEM no_dev) CACHE) 3 loop_cpu loop_page
       in (os, no_cache c', no_dcache p'))"
  by (rule cached_run_is_uncached [OF loop_coherent front_inv_start _ loop_disciplined, of 0])
     (simp_all add: loop_cpu_def newCpu_def)

lemma loop_reach: "cache_reach no_dev loop_cpu loop_page"
  by (rule cache_reach.start) (simp add: loop_cpu_def newCpu_def)

theorem front_cache_transparent_witness:
  "step_map (MEM no_dev) CACHE loop_cpu loop_page
     = (let (r, c', p') = step (MEM no_dev) CACHE loop_cpu loop_page
        in (r, with_fc (c_dcache loop_cpu, c_fc loop_cpu) c', p'))"
proof -
  have dc: "c_dcache loop_cpu \<in> {None, Some 0}" by (simp add: loop_cpu_def)
  show ?thesis
    using front_cache_transparent [OF loop_reach dc] by (metis (no_types, lifting) case_prod_conv prod_cases3)
qed


text \<open>
  Run from the uncached alias, the loop executes code that is no longer there: after a store over
  its first instruction the cached step still loads 5, the uncached one the 7 now in memory.
\<close>

theorem stale_decode_runs:
  "(let (os, c, p) = run_steps (step (MEM no_dev) CACHE) 2 (loop_cpu\<lparr>c_pc := 0xA0000000\<rparr>) loop_page;
        p' = page_store no_dev p 0xA0000000 2 0x6A07
    in c_reg (fst (snd (step (MEM no_dev) CACHE c p'))) 2 = 5
       \<and> c_reg (fst (snd (step (MEM no_dev) CACHE (no_cache c) p'))) 2 = 7)"
  by code_simp

end
