(* ===== verification/M16_Run.thy ===== *)
theory M16_Run
  imports Page_Cache
begin

text \<open>
  What a step of the MIPS16 executor does to the CPU, whatever the memory: it is total, its failures
  change nothing, the CPU invariant is kept, jumps wait for their delay slot, and \<open>hi\<close> and \<open>lo\<close> hold
  the products and quotients they should.
\<close>

section \<open>Where a step may go\<close>

lemma even_addr_add:
  "even_addr a \<Longrightarrow> even n \<Longrightarrow> even_addr (a + w32 n)"
  by (simp add: even_addr_def uint_word_ariths uint_word_of_int dvd_mod_iff)

lemma even_addr_w32: "even n \<Longrightarrow> even_addr (w32 n)"
  by (simp add: even_addr_def uint_word_of_int dvd_mod_iff)

lemma even_addr_clear [simp]: "even_addr (v AND - 2)" "even_addr (v AND NOT 1)"
  using uint_and_not_1 [of v] by (simp_all add: even_addr_def)

lemma isa_of_cases: "isa_of v \<noteq> 32 \<longleftrightarrow> isa_of v = 16"
  by (simp add: isa_of_def)

lemma exec_groups_isa [simp]:
  "c_isa (exec_alu ki x b c) = c_isa c" "c_isa (exec_cond ki x c) = c_isa c"
  "c_isa (exec_shift ki x c) = c_isa c" "c_isa (exec_hilo ki x c) = c_isa c"
  "c_isa (exec_cnvt ki x c) = c_isa c" "c_isa (fst (exec_load M ki x b c m)) = c_isa c"
  "c_isa (set_RA c v) = c_isa c"
  by (simp_all add: exec_alu_def exec_cond_def exec_shift_def exec_hilo_def exec_cnvt_def
      exec_load_def load_reg_def Let_def wr_def set_T_def set_RA_def)

lemma pop_regs_isa [simp]: "c_isa (fst (pop_regs M rs t c m)) = c_isa c"
  by (induction rs arbitrary: t c m) (simp_all add: Let_def wr_def)

lemma save_isa: "execSave M c m x = Some r \<Longrightarrow> c_isa (fst r) = c_isa c"
  by (auto simp: execSave_def Let_def wr_def split: option.splits)

lemma restore_isa: "execRestore M c m x = Some r \<Longrightarrow> c_isa (fst r) = c_isa c"
  by (auto simp: execRestore_def Let_def wr_def split: option.splits)

lemma exec_switch_isa:
  assumes "exec_switch M x len pc b c m = Run e" "c_isa c \<in> {16, 32}"
  shows "c_isa (e_cpu e) \<in> {16, 32}" "x_ki x \<notin> {58, 59} \<Longrightarrow> c_isa (e_cpu e) = c_isa c"
  using assms
  by (auto simp: isa_of_cases exec_switch_def exec_branch_def exec_jump_def exec_frame_def plain_def branchTo_def
       jumpTo_def Let_def dest: save_isa restore_isa split: if_splits option.splits)

lemma exec_switch_targets:
  assumes "exec_switch M x len pc b c m = Run e" "wf_xpay x" "even_addr pc" "even len"
  shows "\<And>t. e_branch e = Some t \<Longrightarrow> even_addr t" "\<And>t. e_jump e = Some t \<Longrightarrow> even_addr t"
    "e_jumpIsa e \<in> {16, 32}" "e_jump e \<noteq> None \<longleftrightarrow> x_ki x \<in> {54, 55, 56, 57}"
proof -
  have br: "even_addr (pc + w32 len + w32 (x_off x))" if "x_ki x \<in> {49, 50, 51, 52, 53}"
    using assms that by (intro even_addr_add) (auto simp: wf_xpay_def)
  have jl: "even_addr (w32 (x_tgt x))" if "x_ki x \<in> {54, 55}"
    using assms(2) that by (intro even_addr_w32) (auto simp: wf_xpay_def)
  have ki: "x_ki x = 49 \<or> x_ki x = 50 \<or> x_ki x = 51 \<or> x_ki x = 52 \<or> x_ki x = 53" if "x_ki x \<le> 53" "\<not> x_ki x \<le> 48"
    using that by linarith
  show "even_addr t" if "e_branch e = Some t" for t
    using assms(1) that br ki
    by (auto simp: exec_switch_def exec_branch_def exec_jump_def exec_frame_def plain_def branchTo_def
       jumpTo_def Let_def split: if_splits option.splits)
  show "even_addr t" if "e_jump e = Some t" for t
    using assms(1) that jl
    by (auto simp: exec_switch_def exec_branch_def exec_jump_def exec_frame_def plain_def branchTo_def
       jumpTo_def Let_def split: if_splits option.splits)
  show "e_jumpIsa e \<in> {16, 32}"
    using assms(1)
    by (auto simp: isa_of_cases exec_switch_def exec_branch_def exec_jump_def exec_frame_def plain_def branchTo_def
       jumpTo_def Let_def split: if_splits option.splits)
  show "e_jump e \<noteq> None \<longleftrightarrow> x_ki x \<in> {54, 55, 56, 57}"
    using assms(1)
    by (auto simp: exec_switch_def exec_branch_def exec_jump_def exec_frame_def plain_def branchTo_def
       jumpTo_def Let_def split: if_splits option.splits)
qed

section \<open>The CPU between two steps\<close>

text \<open>
  \<open>$zero\<close> holds 0, the ISA mode is a mode, the program counter is even, and a jump is pending only
  in MIPS16 mode, towards an even address.
\<close>

definition cpu_ok :: "cpu \<Rightarrow> bool" where
  "cpu_ok c \<longleftrightarrow> c_reg c 0 = 0 \<and> c_isa c \<in> {16, 32} \<and> even_addr (c_pc c)
     \<and> (\<forall>d. c_delayed c = Some d \<longrightarrow> c_isa c = 16 \<and> even_addr (dl_target d) \<and> dl_isa d \<in> {16, 32})"

lemma exec_cpu_ok:
  assumes "exec M c m xi (c_pc c) = (r, c', m')" "cpu_ok c" "c_isa c = 16" "wf_xpay (snd xi)"
    "even (i_length (fst xi))"
  shows "cpu_ok c'"
proof (cases "exec_switch M (snd xi) (i_length (fst xi)) (c_pc c) (exec_base c (c_pc c)) c m")
  case (Run e)
  have pc: "even_addr (c_pc c)" using assms(2) by (simp add: cpu_ok_def)
  have c': "c' = finish_pc (c_delayed c) e (c_pc c) (c_pc c + w32 (i_length (fst xi)))"
    using assms(1) Run by (simp add: exec_def Let_def)
  note t = exec_switch_targets [OF Run assms(4) pc assms(5)]
  have isa: "c_isa (e_cpu e) \<in> {16, 32}" and isa': "e_jump e \<noteq> None \<Longrightarrow> c_isa (e_cpu e) = 16"
    using exec_switch_isa [OF Run] t(4) assms(3) by auto
  have r0: "c_reg (e_cpu e) 0 = 0" using exec_switch_reg0 [OF Run] assms(2) by (simp add: cpu_ok_def)
  have dl: "c_delayed (e_cpu e) = c_delayed c" by (rule exec_switch_delayed [OF Run])
  have nx: "even_addr (c_pc c + w32 (i_length (fst xi)))" using pc assms(5) by (rule even_addr_add)
  show ?thesis
  proof (cases "c_delayed c")
    case (Some d)
    with r0 assms(2) show ?thesis unfolding c' by (simp add: finish_pc_def cpu_ok_def)
  next
    case None
    show ?thesis
    proof (cases "e_branch e")
      case (Some t1)
      with None t r0 isa dl show ?thesis unfolding c' by (simp add: finish_pc_def cpu_ok_def)
    next
      case br: None
      show ?thesis
      proof (cases "e_jump e")
        case (Some t1)
        with None br t r0 isa' nx show ?thesis unfolding c' by (simp add: finish_pc_def cpu_ok_def)
      next
        case j: None
        with None br r0 isa dl nx show ?thesis unfolding c' by (simp add: finish_pc_def cpu_ok_def)
      qed
    qed
  qed
qed (use assms(1,2) in \<open>simp_all add: exec_def Let_def\<close>)

section \<open>What fetch hands to the executor\<close>

lemma decode_ready:
  assumes "decode hw ext (Some nh) (Some addr) pcb (Some 32) = Inr ins"
  shows "exec_ready ins" "i_length ins \<in> {2, 4}"
  using assms decode_body_ready decode_body_length
  by (auto simp: decode_def Let_def split: if_splits)

lemma decode_total: "ext = None \<or> (\<exists>e. ext = Some e \<and> drop_bit 11 (e AND 0xFFFF) = 0x1E)
   \<Longrightarrow> \<exists>ins. decode hw ext nh addr pcb (Some 32) = Inr ins"
  by (auto simp: decode_def Let_def)

lemma accept_ready:
  assumes "exec_ready ins" "accept ins = Inr xi"
  shows "wf_xpay (snd xi)" "fst xi = ins"
  using assms by (auto simp: accept_def exec_ready_def wf_xnorm split: if_splits option.splits)

lemma accept_refuses:
  assumes "exec_ready ins" "accept ins = Inl r"
  shows "i_op ins = ''UNKNOWN'' \<and> r = Fail (the (i_reason ins))"
  using assms by (auto simp: accept_def exec_ready_def split: if_splits option.splits)

lemma decode_accepts:
  assumes "decode hw ext (Some nh) (Some addr) pcb (Some 32) = Inr ins" "accept ins = Inr xi"
  shows "wf_xpay (snd xi) \<and> i_length (fst xi) \<in> {2, 4}"
  using decode_ready [OF assms(1)] accept_ready [OF _ assms(2)] by simp

lemma decode_refuses:
  assumes "decode hw ext (Some nh) (Some addr) pcb (Some 32) = Inr ins" "accept ins = Inl r"
  shows "\<exists>s. r = Fail s"
  using decode_ready [OF assms(1)] accept_refuses [OF _ assms(2)] by blast

lemma rd16_u16: "fst (rd16 M m a) AND 0xFFFF = fst (rd16 M m a)"
proof -
  have "fst (rd16 M m a) = uint (fst (m_read16 M m a)) AND 0xFFFF"
    by (simp add: rd16_def Let_def unsigned_and_eq)
  then show ?thesis by (simp add: and.assoc)
qed

lemma decode_no_raise:
  "drop_bit 11 (hw AND 0xFFFF) = 0x1E \<Longrightarrow> decode hw2 (Some hw) nh addr pcb (Some 32) \<noteq> Inl e"
  "decode hw2 None nh addr pcb (Some 32) \<noteq> Inl e"
  by (simp_all add: decode_def Let_def)

lemma fetch_ready:
  assumes "fetch M m pc b = (Inr xi, m')"
  shows "wf_xpay (snd xi) \<and> i_length (fst xi) \<in> {2, 4}"
  using assms
  by (auto simp: fetch_def Let_def case_prod_beta split: if_splits sum.splits) (blast dest: decode_accepts)+

lemma fetch_refuses:
  assumes "fetch M m pc b = (Inl r, m')"
  shows "\<exists>s. r = Fail s"
  using assms decode_no_raise(1) [of "fst (rd16 M m pc)"] decode_no_raise(2)
  by (auto simp: fetch_def Let_def case_prod_beta rd16_u16 split: if_splits sum.splits)
     (blast dest: decode_refuses)+

section \<open>What a step keeps\<close>

lemma exec_Fail:
  assumes "exec M c m xi pc = (r, c', m')" "wf_xpay (snd xi)"
  shows "(\<exists>ok. r = Ok ok) \<or> (\<exists>s. r = Fail s) \<and> c' = c \<and> m' = m \<and> x_ki (snd xi) \<in> {62, 63}"
  using assms exec_switch_total [OF assms(2), of M "i_length (fst xi)" pc "exec_base c pc" c m]
  by (auto simp: exec_def Let_def)



text \<open>A \<open>jal 0x80000040\<close> at the start of DRAM, with a NOP (\<open>move zero,s0\<close>) in its slot.\<close>

definition jal_page :: "unit page" where
  "jal_page = \<lparr>pg_ram = (\<lambda>a. if a = 0 then 0x18 else if a = 3 then 0x10 else if a = 4 then 0x65 else 0),
     pg_dcache = [], pg_dev = ()\<rparr>"

definition jal_cpu :: cpu where
  "jal_cpu = newCpu\<lparr>c_pc := 0x80000000\<rparr>"


lemma jal_fetch:
  "case fst (fetch (MEM no_dev) jal_page 0x80000000 None) of
     Inr (ins, x) \<Rightarrow> x_ki x = 54 \<and> w32 (x_tgt x) = 0x80000040 | Inl r \<Rightarrow> False"
  by code_simp


section \<open>Multiplication and division\<close>

text \<open>
  C35.  MULT and MULTU put the exact 64-bit product in \<open>hi:lo\<close>: read as one 64-bit number, the two
  halves are the signed (MULT) or unsigned (MULTU) product of the operand registers modulo
  \<open>2 ^ 64\<close>, although the source multiplies 16-bit limbs in doubles.
\<close>

theorem mult_hi_lo:
  "uint (c_hi (exec_hilo 27 x c)) * 2 ^ 32 + uint (c_lo (exec_hilo 27 x c))
     = (sint (rd c (x_d x)) * sint (rd c (x_s x))) mod 2 ^ 64
   \<and> uint (c_hi (exec_hilo 28 x c)) * 2 ^ 32 + uint (c_lo (exec_hilo 28 x c))
     = (uint (rd c (x_d x)) * uint (rd c (x_s x))) mod 2 ^ 64"
  using mul64_product [of "rd c (x_d x)" "rd c (x_s x)" True]
    mul64_product [of "rd c (x_d x)" "rd c (x_s x)" False]
  by (simp add: exec_hilo_def Let_def del: power_numeral)

lemma trunc_div_bound:
  assumes a: "- 2147483648 \<le> a" "a < 2147483648" and b: "b \<noteq> 0" and ov: "\<not> (a = - 2147483648 \<and> b = - 1)"
  shows "- 2147483648 \<le> trunc_div a b" "trunc_div a b < 2147483648"
proof -
  let ?q = "\<bar>a\<bar> div \<bar>b\<bar>"
  have q0: "0 \<le> ?q" by (simp add: pos_imp_zdiv_nonneg_iff b)
  have qb: "?q * \<bar>b\<bar> \<le> \<bar>a\<bar>" by (metis minus_mod_eq_div_mult abs_ge_zero b diff_le_eq le_add_same_cancel1 pos_mod_sign zero_less_abs_iff)
  have qa: "?q \<le> \<bar>a\<bar>" and b2: "1 < \<bar>b\<bar> \<Longrightarrow> ?q * 2 \<le> \<bar>a\<bar>"
    using qb q0 b mult_left_mono [of 1 "\<bar>b\<bar>" ?q] mult_left_mono [of 2 "\<bar>b\<bar>" ?q] by linarith+
  have s: "trunc_div a b = ?q \<or> trunc_div a b = - ?q \<or> trunc_div a b = 0"
    by (simp add: trunc_div_def sgn_if)
  have "- 2147483648 \<le> trunc_div a b \<and> trunc_div a b < 2147483648"
  proof (cases "?q = 2147483648")
    case False
    with s qa a q0 show ?thesis by linarith
  next
    case True
    with qa a have a': "a = - 2147483648" by linarith
    with True b2 have "\<not> 1 < \<bar>b\<bar>" by auto
    with b ov a' have "b = 1" by linarith
    with a' show ?thesis by (simp add: trunc_div_def)
  qed
  then show "- 2147483648 \<le> trunc_div a b" "trunc_div a b < 2147483648" by auto
qed

lemma sint_w32: "- 2147483648 \<le> n \<Longrightarrow> n < 2147483648 \<Longrightarrow> sint (w32 n) = n"
  by (simp add: signed_of_int signed_take_bit_int_eq_self)

text \<open>
  DIV divides towards zero.  With a non-zero divisor, and unless the quotient is \<open>2 ^ 31\<close> (the one
  overflow), quotient times divisor plus remainder is the dividend, the remainder is smaller than the
  divisor and has the dividend's sign.  In the overflow case the quotient wraps to the dividend and
  the remainder is 0; a zero divisor leaves 0 in \<open>lo\<close> and the dividend in \<open>hi\<close>.
\<close>

theorem div_hi_lo:
  fixes c x
  defines "a \<equiv> sint (rd c (x_s x))" and "b \<equiv> sint (rd c (x_t x))"
  defines "q \<equiv> sint (c_lo (exec_hilo 29 x c))" and "r \<equiv> sint (c_hi (exec_hilo 29 x c))"
  shows "if b = 0 then q = 0 \<and> r = a
    else if a = - (2 ^ 31) \<and> b = - 1 then q = a \<and> r = 0
    else q * b + r = a \<and> \<bar>r\<bar> < \<bar>b\<bar> \<and> (r = 0 \<or> sgn r = sgn a)"
proof -
  have ab: "- 2147483648 \<le> a" "a < 2147483648" "- 2147483648 \<le> b" "b < 2147483648"
    using sint_ge [of "rd c (x_s x)"] sint_lt [of "rd c (x_s x)"] sint_ge [of "rd c (x_t x)"] sint_lt [of "rd c (x_t x)"]
    by (simp_all add: a_def b_def)
  have z: "rd c (x_t x) = 0 \<longleftrightarrow> b = 0" by (simp add: b_def signed_eq_0_iff)
  have "q = (if b = 0 then 0 else sint (w32 (trunc_div a b)))" "r = (if b = 0 then a else sint (w32 (trunc_rem a b)))"
    by (simp_all add: q_def r_def exec_hilo_def Let_def z a_def [symmetric] b_def [symmetric])
  moreover have "sint (w32 (trunc_rem a b)) = trunc_rem a b" if "b \<noteq> 0"
    using trunc_rem_bound [OF that, of a] ab by (intro sint_w32) linarith+
  moreover have "sint (w32 (trunc_div a b)) = trunc_div a b" if "b \<noteq> 0" "\<not> (a = - 2147483648 \<and> b = - 1)"
    using trunc_div_bound [OF ab(1,2) that] by (intro sint_w32)
  moreover have "sgn (trunc_rem a b) = sgn a" if "trunc_rem a b \<noteq> 0" "b \<noteq> 0"
  proof -
    have "0 \<le> \<bar>a\<bar> mod \<bar>b\<bar>" using that by simp
    with that(1) have "0 < \<bar>a\<bar> mod \<bar>b\<bar>" by (auto simp: trunc_rem_alt order_less_le)
    then show ?thesis unfolding trunc_rem_alt sgn_mult by simp
  qed
  moreover have "trunc_div (- 2147483648) (- 1) = 2147483648" "trunc_rem (- 2147483648) (- 1) = 0"
    by (simp_all add: trunc_div_def trunc_rem_def)
  moreover have "sint (w32 2147483648) = - 2147483648" by code_simp
  ultimately show ?thesis
    using trunc_div_rem [of b a] trunc_rem_bound [of b a] by (auto simp: mult.commute)
qed

end
