(* ===== verification/M16_Disasm.thy ===== *)
theory M16_Disasm
  imports M16_Payload
begin

text \<open>
  The linear sweep of \<open>reference/mips16.js\<close>: \<open>HAS_DELAY_SLOT\<close>, \<open>slice\<close> and \<open>disassemble\<close>.  The loop
  counter only grows, so the loop is a recursive function on it; bytes are integers from 0 to 255.
\<close>

definition HAS_DELAY_SLOT :: "string set" where
  "HAS_DELAY_SLOT = {''jal'', ''jalx'', ''jr'', ''jalr''}"

record line =
  ln_addr :: int
  ln_bytes :: "int list"
  ln_ins :: insn

text \<open>Both indices are inside the array wherever the sweep slices it.\<close>

definition slice :: "int list \<Rightarrow> nat \<Rightarrow> nat \<Rightarrow> int list" where
  "slice data a b = map ((!) data) [a..<b]"

definition half :: "int list \<Rightarrow> nat \<Rightarrow> int" where
  "half data i = push_bit 8 (data ! i) OR data ! (i + 1)"

text \<open>
  One turn of the loop: the line it pushes, the address it leaves in \<open>delayFrom\<close> and how far it
  advances.  An exception of \<open>decode\<close> leaves the sweep.
\<close>

definition sweep_one ::
  "int list \<Rightarrow> int \<Rightarrow> nat \<Rightarrow> int \<Rightarrow> nat \<Rightarrow> int option \<Rightarrow> string + (line \<times> int option \<times> nat)" where
  "sweep_one data addr stop isa i delayFrom =
     (let hw = half data i;
          nxt = (if i + 4 \<le> stop then Some (half data (i + 2)) else None);
          a = addr + int i in
      if drop_bit 11 hw = 0x1E \<and> nxt \<noteq> None then
        (case decode (the nxt) (Some hw) None (Some a) delayFrom (Some isa) of
           Inl e \<Rightarrow> Inl e
         | Inr ins \<Rightarrow>
             if \<not> i_notext ins
             then Inr (\<lparr>ln_addr = a, ln_bytes = slice data i (i + 4), ln_ins = ins\<rparr>, None, 4)
             else (case decode hw None None (Some a) None (Some isa) of
                     Inl e \<Rightarrow> Inl e
                   | Inr bare \<Rightarrow>
                       Inr (\<lparr>ln_addr = a, ln_bytes = slice data i (i + 2), ln_ins = bare\<rparr>, None, 2)))
      else
        (case decode hw None nxt (Some a) delayFrom (Some isa) of
           Inl e \<Rightarrow> Inl e
         | Inr ins \<Rightarrow>
             let ln = (if i_length ins = 4 \<and> nxt = None then 2 else nat (i_length ins))
             in Inr (\<lparr>ln_addr = a, ln_bytes = slice data i (i + ln), ln_ins = ins\<rparr>,
                     if i_op ins \<in> HAS_DELAY_SLOT then Some a else None, ln)))"

lemma sweep_one_advances:
  assumes "sweep_one data addr stop isa i d = Inr (l, d', k)"
  shows "k = 2 \<or> k = 4 \<and> i + 4 \<le> stop"
    "ln_addr l = addr + int i" "ln_bytes l = slice data i (i + k)"
  using assms decode_body_length
  by (auto simp: sweep_one_def decode_def Let_def split: if_splits sum.splits)

function sweep ::
  "int list \<Rightarrow> int \<Rightarrow> nat \<Rightarrow> int \<Rightarrow> nat \<Rightarrow> int option \<Rightarrow> string + line list" where
  "sweep data addr stop isa i delayFrom =
     (if i + 2 \<le> stop then
        (case sweep_one data addr stop isa i delayFrom of
           Inl e \<Rightarrow> Inl e
         | Inr (l, d, k) \<Rightarrow>
             (case sweep data addr stop isa (i + k) d of
                Inl e \<Rightarrow> Inl e | Inr ls \<Rightarrow> Inr (l # ls)))
      else Inr [])"
  by pat_completeness auto
termination
  by (relation "measure (\<lambda>(data, addr, stop, isa, i, d). stop - i)")
     (auto dest!: sweep_one_advances(1))

declare sweep.simps [simp del]

definition sweep_stop :: "int list \<Rightarrow> int option \<Rightarrow> nat" where
  "sweep_stop data len =
     (case len of None \<Rightarrow> length data | Some n \<Rightarrow> nat (min (int (length data)) n))"

definition disassemble ::
  "int list \<Rightarrow> int option \<Rightarrow> int option \<Rightarrow> int option \<Rightarrow> string + line list" where
  "disassemble data addr len isa =
     sweep data (case addr of None \<Rightarrow> 0 | Some a \<Rightarrow> a) (sweep_stop data len)
       (case isa of None \<Rightarrow> 32 | Some i \<Rightarrow> i) 0 None"

section \<open>The sweep tiles the bytes\<close>

lemma slice_length [simp]: "length (slice data a b) = b - a"
  by (simp add: slice_def)

lemma slice_append: "a \<le> b \<Longrightarrow> b \<le> c \<Longrightarrow> slice data a b @ slice data b c = slice data a c"
  unfolding slice_def map_append [symmetric] by (metis le_Suc_ex upt_add_eq_append)

lemma slice_take: "n \<le> length data \<Longrightarrow> slice data 0 n = take n data"
  unfolding slice_def by (intro nth_equalityI) simp_all

text \<open>Every line starts where the one before it ends.\<close>

fun laid_out :: "int \<Rightarrow> line list \<Rightarrow> bool" where
  "laid_out a [] = True"
| "laid_out a (l # ls) = (ln_addr l = a \<and> laid_out (a + int (length (ln_bytes l))) ls)"

lemma sweep_one_total:
  "isa = 32 \<or> isa = 64 \<Longrightarrow> (\<And>j. j < length data \<Longrightarrow> 0 \<le> data ! j \<and> data ! j < 256) \<Longrightarrow>
   stop \<le> length data \<Longrightarrow> i + 2 \<le> stop \<Longrightarrow> \<exists>r. sweep_one data addr stop isa i d = Inr r"
proof -
  assume isa: "isa = 32 \<or> isa = 64" and b: "\<And>j. j < length data \<Longrightarrow> 0 \<le> data ! j \<and> data ! j < 256"
    and i: "stop \<le> length data" "i + 2 \<le> stop"
  have by8: "take_bit 8 (data ! i) = data ! i" "take_bit 8 (data ! (i + 1)) = data ! (i + 1)"
    using b [of i] b [of "i + 1"] i by (simp_all add: take_bit_int_eq_self)
  have "half data i = push_bit 8 (take_bit 8 (data ! i)) OR take_bit 8 (data ! (i + 1))"
    using by8 by (simp only: half_def)
  then have "take_bit 16 (half data i) = half data i"
    by (simp only:) (rule bit_eqI, auto simp: bit_simps)
  then have h: "half data i AND 0xFFFF = half data i" by (simp add: int_and_take)
  have dn: "\<exists>ins. decode hw None nh a pcb (Some isa) = Inr ins" for hw nh a pcb
    using isa by (auto simp: decode_def Let_def)
  have de: "\<exists>ins. decode hw (Some (half data i)) nh a pcb (Some isa) = Inr ins"
    if "drop_bit 11 (half data i) = 0x1E" for hw nh a pcb
    using isa that by (auto simp: decode_def Let_def h)
  let ?nxt = "if i + 4 \<le> stop then Some (half data (i + 2)) else None"
  obtain bare where bare: "decode (half data i) None None (Some (addr + int i)) None (Some isa) = Inr bare"
    using dn by blast
  obtain plain where plain: "decode (half data i) None ?nxt (Some (addr + int i)) d (Some isa) = Inr plain"
    using dn by blast
  show ?thesis
  proof (cases "drop_bit 11 (half data i) = 0x1E \<and> ?nxt \<noteq> None")
    case True
    then obtain ins where "decode (half data (i + 2)) (Some (half data i)) None (Some (addr + int i)) d (Some isa) = Inr ins"
      using de by blast
    with True bare show ?thesis unfolding sweep_one_def Let_def by (simp split: if_splits)
  next
    case False
    with plain show ?thesis unfolding sweep_one_def Let_def by auto
  qed
qed

lemma sweep_tiles:
  assumes "isa = 32 \<or> isa = 64" "\<And>j. j < length data \<Longrightarrow> 0 \<le> data ! j \<and> data ! j < 256"
    "stop \<le> length data" "even i" "i \<le> stop"
  shows "\<exists>ls. sweep data addr stop isa i d = Inr ls
     \<and> concat (map ln_bytes ls) = slice data i (stop - stop mod 2) \<and> laid_out (addr + int i) ls
     \<and> list_all (\<lambda>l. length (ln_bytes l) \<in> {2, 4}) ls"
  using assms
proof (induction data addr stop isa i d rule: sweep.induct)
  case (1 data addr stop isa i d)
  show ?case
  proof (cases "i + 2 \<le> stop")
    case False
    with 1(5,6) have "stop - stop mod 2 \<le> i" by presburger
    with False show ?thesis by (simp add: sweep.simps slice_def)
  next
    case True
    obtain l d' k where one: "sweep_one data addr stop isa i d = Inr (l, d', k)"
      using sweep_one_total [OF 1(2) 1(3) 1(4) True, of addr d] by auto
    note adv = sweep_one_advances [OF one]
    have k: "k = 2 \<or> k = 4" "i + k \<le> stop" "even (i + k)" using adv(1) True 1(5) by auto
    obtain ls where ls: "sweep data addr stop isa (i + k) d' = Inr ls"
      "concat (map ln_bytes ls) = slice data (i + k) (stop - stop mod 2)"
      "laid_out (addr + int (i + k)) ls" "list_all (\<lambda>l. length (ln_bytes l) \<in> {2, 4}) ls"
      using 1(1) [OF True one refl refl 1(2) 1(3) 1(4) k(3,2)] by auto
    have "i + k \<le> stop - stop mod 2" using k(2,3) by presburger
    then have "slice data i (i + k) @ slice data (i + k) (stop - stop mod 2) = slice data i (stop - stop mod 2)"
      by (intro slice_append) auto
    with ls adv k(1) True one show ?thesis
      by (subst sweep.simps) (auto simp: algebra_simps)
  qed
qed

text \<open>
  C37.  The disassembly tiles its input.  On any array of bytes, \<open>disassemble\<close> ends without an
  exception; its lines are 2 or 4 bytes long, each starts where the one before it ends, from the base
  address on, and put together they are the bytes asked for, but for an odd last one.
\<close>

theorem disassemble_tiles:
  assumes "list_all (\<lambda>b. 0 \<le> b \<and> b < 256) data" "isa \<in> {None, Some 32, Some 64}"
  shows "\<exists>ls. disassemble data (Some addr) len isa = Inr ls
     \<and> concat (map ln_bytes ls) = take (sweep_stop data len - sweep_stop data len mod 2) data \<and> laid_out addr ls
     \<and> list_all (\<lambda>l. length (ln_bytes l) \<in> {2, 4}) ls"
proof -
  have bytes: "\<And>j. j < length data \<Longrightarrow> 0 \<le> data ! j \<and> data ! j < 256"
    using assms(1) by (simp add: list_all_length)
  have stop: "sweep_stop data len \<le> length data" by (auto simp: sweep_stop_def split: option.split)
  have isa: "(case isa of None \<Rightarrow> 32 | Some i \<Rightarrow> i) = 32 \<or> (case isa of None \<Rightarrow> 32 | Some i \<Rightarrow> i) = 64"
    using assms(2) by auto
  obtain ls where ls: "sweep data addr (sweep_stop data len) (case isa of None \<Rightarrow> 32 | Some i \<Rightarrow> i) 0 None = Inr ls"
    "concat (map ln_bytes ls) = slice data 0 (sweep_stop data len - sweep_stop data len mod 2)"
    "laid_out addr ls" "list_all (\<lambda>l. length (ln_bytes l) \<in> {2, 4}) ls"
    using sweep_tiles [OF isa bytes stop, of 0 addr None] by auto
  have "slice data 0 (sweep_stop data len - sweep_stop data len mod 2)
      = take (sweep_stop data len - sweep_stop data len mod 2) data"
    using stop by (intro slice_take) simp
  with ls show ?thesis unfolding disassemble_def option.case by (intro exI [of _ ls] conjI) simp_all
qed

theorem disassemble_tiles_witness:
  "\<exists>ls. disassemble [0x18, 0, 0, 0x10, 0xF0, 1, 0x6A, 5, 7] (Some 0x80000000) None None = Inr ls
     \<and> concat (map ln_bytes ls) = [0x18, 0, 0, 0x10, 0xF0, 1, 0x6A, 5] \<and> laid_out 0x80000000 ls
     \<and> list_all (\<lambda>l. length (ln_bytes l) \<in> {2, 4}) ls"
proof -
  have "list_all (\<lambda>b. 0 \<le> b \<and> b < 256) [0x18, 0, 0, 0x10, 0xF0, 1, 0x6A, 5, 7 :: int]" by simp
  from disassemble_tiles [OF this, of None "0x80000000" None] show ?thesis by (simp add: sweep_stop_def)
qed

end
