(* ===== verification/SkyHuffman.thy ===== *)
theory SkyHuffman
  imports GRT_Prelude
begin

text \<open>
  The EPG title encoder of \<open>web/data/sky-huffman.js\<close> and the decoder it is checked against,
  \<open>tools/skyepg/huffman.py\<close>.  Titles and the dictionary text are Latin-1, so a JS string is a list of
  characters.  The dictionary object has no prototype, so its table is a map from phrases to codes,
  kept as an association list.
\<close>

section \<open>Reading the dictionary\<close>

record dictionary =
  dc_table :: "(string \<times> string) list"
  dc_terminator :: string

text \<open>\<open>split(/\r?\n/)\<close>: a newline ends a line and takes a carriage return before it along.\<close>

fun split_lines :: "string \<Rightarrow> string \<Rightarrow> string list" where
  "split_lines cur [] = [cur]"
| "split_lines cur (c # cs) =
     (if c = CHR 0x0A then cur # split_lines [] cs
      else if c = CHR 0x0D then
        (case cs of
           d # ds \<Rightarrow> if d = CHR 0x0A then cur # split_lines [] ds else split_lines (cur @ [c]) cs
         | [] \<Rightarrow> split_lines (cur @ [c]) cs)
      else split_lines (cur @ [c]) cs)"

definition is_code :: "string \<Rightarrow> bool" where
  "is_code code \<longleftrightarrow> code \<noteq> [] \<and> list_all (\<lambda>c. c = CHR ''0'' \<or> c = CHR ''1'') code"

text \<open>One line of the dictionary, over the table and the terminator read so far.\<close>

definition read_line ::
  "string \<Rightarrow> (string \<times> string) list \<times> string option \<Rightarrow> (string \<times> string) list \<times> string option" where
  "read_line raw st =
     (if CHR ''='' \<notin> set raw then st
      else let value = takeWhile (\<lambda>c. c \<noteq> CHR ''='') raw;
               code = drop (length value + 1) raw
           in if \<not> is_code code then st
              else if value = [] then (fst st, Some code)
              else (AList.update value code (fst st), snd st))"

definition readDictionary :: "string \<Rightarrow> string + dictionary" where
  "readDictionary text =
     (let st = fold read_line (split_lines [] text) ([], None) in
      case snd st of
        None \<Rightarrow> Inl ''the dictionary has no terminator entry''
      | Some t \<Rightarrow> Inr \<lparr>dc_table = fst st, dc_terminator = t\<rparr>)"

section \<open>Encoding\<close>

text \<open>The key lengths, longest first.\<close>

definition byLen :: "(string \<times> string) list \<Rightarrow> nat list" where
  "byLen tab = rev (sort (remdups (map (length \<circ> fst) tab)))"

text \<open>The first length whose chunk at \<open>i\<close> is a key.\<close>

definition match_at :: "(string \<times> string) list \<Rightarrow> string \<Rightarrow> nat \<Rightarrow> nat option" where
  "match_at tab text i =
     List.find (\<lambda>n. length (take n (drop i text)) = n \<and> map_of tab (take n (drop i text)) \<noteq> None)
       (byLen tab)"

datatype encode_error = NoCode char nat string

text \<open>
  The \<open>while\<close> loop.  An empty key would match without advancing, so the loop may run forever:
  \<open>None\<close> is not returning.
\<close>

partial_function (option) encode_from ::
  "(string \<times> string) list \<Rightarrow> string \<Rightarrow> nat \<Rightarrow> (encode_error + string) option" where
  "encode_from tab text i =
     (if i < length text then
        (case match_at tab text i of
           None \<Rightarrow> Some (Inl (NoCode (text ! i) i text))
         | Some n \<Rightarrow>
             Option.bind (encode_from tab text (i + n))
               (\<lambda>r. Some (case r of Inl e \<Rightarrow> Inl e
                          | Inr bits \<Rightarrow> Inr (the (map_of tab (take n (drop i text))) @ bits))))
      else Some (Inr []))"

declare encode_from.simps [code]

definition encodeBits :: "string \<Rightarrow> dictionary \<Rightarrow> (encode_error + string) option" where
  "encodeBits text dict =
     map_option (map_sum id (\<lambda>bits. bits @ dc_terminator dict)) (encode_from (dc_table dict) text 0)"

text \<open>\<open>parseInt(s, 2)\<close> on a string of binary digits.\<close>

definition parse2 :: "string \<Rightarrow> int" where
  "parse2 s = foldl (\<lambda>a c. 2 * a + (if c = CHR ''1'' then 1 else 0)) 0 s"

definition pad :: "string \<Rightarrow> nat \<Rightarrow> string" where
  "pad s n = pad_right n CHR ''0'' s"

fun pack_rest :: "string \<Rightarrow> nat \<Rightarrow> int list" where
  "pack_rest bits 0 = []"
| "pack_rest bits (Suc k) = parse2 (pad (take 8 bits) 8) # pack_rest (drop 8 bits) k"

text \<open>Byte 0 carries six bits, every later byte eight; \<open>(n + 1) div 8\<close> bytes follow the first.\<close>

definition pack :: "string \<Rightarrow> int list" where
  "pack bits = (parse2 (pad (take 6 bits) 6) AND 0x3F)
     # pack_rest (drop 6 bits) ((length bits + 1) div 8)"

definition encodeTitle :: "string \<Rightarrow> dictionary \<Rightarrow> (encode_error + int list) option" where
  "encodeTitle text dict = map_option (map_sum id pack) (encodeBits text dict)"

section \<open>The reference decoder\<close>

text \<open>The nested dictionaries of \<open>build_tree\<close>: a value, and the nodes behind 0 and 1.\<close>

datatype htree = HNode "string option" "htree option" "htree option"

definition leaf :: htree where "leaf = HNode None None None"

fun insert_code :: "string \<Rightarrow> string \<Rightarrow> htree \<Rightarrow> htree option" where
  "insert_code [] v (HNode w l r) =
     (if w \<noteq> None \<and> w \<noteq> Some v then None else Some (HNode (Some v) l r))"
| "insert_code (b # bs) v (HNode w l r) =
     (if b = CHR ''0''
      then map_option (\<lambda>t. HNode w (Some t) r) (insert_code bs v (case l of None \<Rightarrow> leaf | Some t \<Rightarrow> t))
      else map_option (\<lambda>t. HNode w l (Some t)) (insert_code bs v (case r of None \<Rightarrow> leaf | Some t \<Rightarrow> t)))"

fun insert_all :: "(string \<times> string) list \<Rightarrow> htree \<Rightarrow> htree option" where
  "insert_all [] t = Some t"
| "insert_all ((v, code) # es) t = Option.bind (insert_code code v t) (insert_all es)"

text \<open>\<open>None\<close> is the exit on an ambiguous dictionary.\<close>

definition build_tree :: "dictionary \<Rightarrow> htree option" where
  "build_tree dict = insert_all (dc_table dict @ [([], dc_terminator dict)]) leaf"

definition byte_bits :: "nat \<Rightarrow> int \<Rightarrow> string" where
  "byte_bits n b = map (\<lambda>i. if b AND (2 ^ i) \<noteq> 0 then CHR ''1'' else CHR ''0'') (rev [0..<n])"

definition unpack :: "int list \<Rightarrow> string" where
  "unpack bytes =
     (case bytes of [] \<Rightarrow> [] | b # bs \<Rightarrow> byte_bits 6 b @ concat (map (byte_bits 8) bs))"

fun child :: "htree \<Rightarrow> char \<Rightarrow> htree option" where
  "child (HNode w l r) b = (if b = CHR ''0'' then l else r)"

fun node_value :: "htree \<Rightarrow> string option" where
  "node_value (HNode w l r) = w"

fun decode_bits :: "htree \<Rightarrow> htree \<Rightarrow> string \<Rightarrow> string \<Rightarrow> string \<times> bool" where
  "decode_bits root node out [] = (out, False)"
| "decode_bits root node out (b # bs) =
     (case child node b of
        None \<Rightarrow> (out, False)
      | Some n \<Rightarrow>
          (case node_value n of
             None \<Rightarrow> decode_bits root n out bs
           | Some v \<Rightarrow> if v = [] then (out, True) else decode_bits root root (out @ v) bs))"

definition decode_title :: "int list \<Rightarrow> htree \<Rightarrow> string \<times> bool" where
  "decode_title bytes tree = decode_bits tree tree [] (unpack bytes)"

section \<open>Packing\<close>

abbreviation binary :: "string \<Rightarrow> bool" where
  "binary s \<equiv> list_all (\<lambda>c. c = CHR ''0'' \<or> c = CHR ''1'') s"

lemma parse2_snoc: "parse2 (s @ [c]) = 2 * parse2 s + (if c = CHR ''1'' then 1 else 0)"
  by (simp add: parse2_def)

lemma byte_bits_Suc:
  "byte_bits (Suc n) b = byte_bits n (b div 2) @ [if odd b then CHR ''1'' else CHR ''0'']"
proof -
  have "rev [0..<Suc n] = map Suc (rev [0..<n]) @ [0]"
    by (simp only: upt_conv_Cons zero_less_Suc rev.simps rev_map [symmetric] map_Suc_upt)
  moreover have "(b AND 2 ^ Suc i \<noteq> 0) = (b div 2 AND 2 ^ i \<noteq> 0)" for i
    by (simp only: and_exp_eq_0_iff_not_bit bit_Suc not_not)
  moreover have "(b AND 2 ^ 0 \<noteq> 0) = odd b"
    by (simp only: and_exp_eq_0_iff_not_bit bit_0 not_not)
  ultimately show ?thesis by (simp add: byte_bits_def)
qed

lemma byte_bits_parse2: "binary s \<Longrightarrow> byte_bits (length s) (parse2 s) = s"
proof (induction s rule: rev_induct)
  case (snoc c s)
  then show ?case by (auto simp: byte_bits_Suc parse2_snoc)
qed (simp add: byte_bits_def)

lemma parse2_range: "0 \<le> parse2 s \<and> parse2 s < 2 ^ length s"
  by (induction s rule: rev_induct) (auto simp: parse2_def)

lemma pad_append: "pad s n = s @ replicate (n - length s) CHR ''0''"
  by (simp add: pad_def pad_right_def)

lemma binary_pad: "binary s \<Longrightarrow> binary (pad s n)"
  by (simp add: pad_append) (simp add: list_all_iff)

lemma pad_bits: "binary s \<Longrightarrow> length s \<le> n \<Longrightarrow> byte_bits n (parse2 (pad s n)) = pad s n"
  using byte_bits_parse2 [OF binary_pad, of s n] by (simp add: pad_append)

lemma binary_take: "binary s \<Longrightarrow> binary (take n s) \<and> binary (drop n s)"
  by (metis append_take_drop_id list_all_append)

lemma pack_rest_bits:
  "binary s \<Longrightarrow> length s \<le> 8 * k \<Longrightarrow>
   concat (map (byte_bits 8) (pack_rest s k)) = s @ replicate (8 * k - length s) CHR ''0''"
proof (induction k arbitrary: s)
  case (Suc k)
  have b: "binary (take 8 s)" "binary (drop 8 s)" using binary_take Suc.prems(1) by auto
  have "concat (map (byte_bits 8) (pack_rest s (Suc k))) = pad (take 8 s) 8 @ drop 8 s @ replicate (8 * k - (length s - 8)) CHR ''0''"
    using pad_bits [OF b(1), of 8] Suc.IH [OF b(2)] Suc.prems(2) by simp
  also have "\<dots> = s @ replicate (8 * Suc k - length s) CHR ''0''"
  proof (cases "8 \<le> length s")
    case True
    then have "8 * k - (length s - 8) = 8 * Suc k - length s" by simp
    with True show ?thesis unfolding pad_append
      by (simp add: append_assoc [symmetric] del: append_assoc)
  next
    case False
    then have "8 - length s + 8 * k = 8 * Suc k - length s" by simp
    with False show ?thesis unfolding pad_append
      by (simp add: replicate_add [symmetric] del: replicate_add)
  qed
  finally show ?case .
qed simp

lemma unpack_pack_bits:
  assumes "binary bits"
  shows "\<exists>k<8. unpack (pack bits) = bits @ replicate k CHR ''0''"
proof -
  have b: "binary (take 6 bits)" "binary (drop 6 bits)" using binary_take assms by auto
  have "parse2 (pad (take 6 bits) 6) AND 63 = parse2 (pad (take 6 bits) 6)"
    using parse2_range [of "pad (take 6 bits) 6"]
    by (simp add: int_and_take take_bit_int_eq_self pad_append)
  moreover have "length (drop 6 bits) \<le> 8 * ((length bits + 1) div 8)"
    by simp
  ultimately have u: "unpack (pack bits) = pad (take 6 bits) 6 @ drop 6 bits
      @ replicate (8 * ((length bits + 1) div 8) - (length bits - 6)) CHR ''0''"
    using pad_bits [OF b(1), of 6] pack_rest_bits [OF b(2)] by (simp add: unpack_def pack_def)
  show ?thesis
  proof (cases "6 \<le> length bits")
    case True
    let ?k = "8 * ((length bits + 1) div 8) - (length bits - 6)"
    have "?k < 8" using True by presburger
    moreover from True have "unpack (pack bits) = bits @ replicate ?k CHR ''0''"
      unfolding u pad_append by (simp add: append_assoc [symmetric] del: append_assoc)
    ultimately show ?thesis by blast
  next
    case False
    then have "(length bits + 1) div 8 = 0" by simp
    with False have "unpack (pack bits) = bits @ replicate (6 - length bits) CHR ''0''"
      unfolding u pad_append by simp
    moreover have "6 - length bits < 8" by simp
    ultimately show ?thesis by blast
  qed
qed

lemma pack_rest_bytes: "list_all (\<lambda>b. 0 \<le> b \<and> b < 256) (pack_rest bits k)"
proof (induction k arbitrary: bits)
  case (Suc k)
  have "length (pad (take 8 bits) 8) = 8" by (simp add: pad_append)
  with Suc parse2_range [of "pad (take 8 bits) 8"] show ?case by simp
qed simp

lemma pack_bytes: "list_all (\<lambda>b. 0 \<le> b \<and> b < 256) (pack bits)"
  using and_mask_range [of 63 6 "parse2 (pad (take 6 bits) 6)"] pack_rest_bytes
  by (simp add: pack_def)

section \<open>Greedy matching\<close>

lemma find_greatest:
  assumes "List.find P xs = Some n" "sorted (rev xs)" "m \<in> set xs" "P m"
  shows "m \<le> n"
proof -
  from assms(1) obtain i where i: "i < length xs" "n = xs ! i" "\<And>j. j < i \<Longrightarrow> \<not> P (xs ! j)"
    by (auto simp: find_Some_iff)
  from assms(3) obtain j where j: "j < length xs" "m = xs ! j" by (auto simp: in_set_conv_nth)
  with i(3) assms(4) have "i \<le> j" by (metis not_le)
  with assms(2) i(1,2) j show ?thesis by (simp add: sorted_rev_nth_mono)
qed

definition keys_ok :: "(string \<times> string) list \<Rightarrow> bool" where
  "keys_ok tab \<longleftrightarrow> map_of tab [] = None"

lemma match_at_Some:
  assumes "match_at tab text i = Some n"
  shows "n \<le> length (drop i text)" "map_of tab (take n (drop i text)) \<noteq> None"
    "keys_ok tab \<Longrightarrow> 0 < n"
    "map_of tab q \<noteq> None \<Longrightarrow> prefix q (drop i text) \<Longrightarrow> length q \<le> n"
proof -
  from assms have P: "length (take n (drop i text)) = n" "map_of tab (take n (drop i text)) \<noteq> None"
    by (auto simp: match_at_def find_Some_iff)
  then show "n \<le> length (drop i text)" "map_of tab (take n (drop i text)) \<noteq> None" by auto
  show "0 < n" if "keys_ok tab" using P(2) that by (cases n) (auto simp: keys_ok_def)
  show "length q \<le> n" if "map_of tab q \<noteq> None" "prefix q (drop i text)"
  proof (rule find_greatest [OF assms [unfolded match_at_def]])
    show "sorted (rev (byLen tab))" by (simp add: byLen_def)
    from that(1) have "q \<in> fst ` set tab" by (metis map_of_eq_None_iff)
    then show "length q \<in> set (byLen tab)" by (force simp: byLen_def)
    have "take (length q) (drop i text) = q" using that(2) by (auto simp: prefix_def)
    with that(1) show "length (take (length q) (drop i text)) = length q
        \<and> map_of tab (take (length q) (drop i text)) \<noteq> None" by simp
  qed
qed

text \<open>The pieces the encoder cuts: each a key, and the longest key at its place.\<close>

fun greedy :: "(string \<times> string) list \<Rightarrow> string list \<Rightarrow> bool" where
  "greedy tab [] = True"
| "greedy tab (p # ps) \<longleftrightarrow> map_of tab p \<noteq> None
     \<and> (\<forall>q. map_of tab q \<noteq> None \<longrightarrow> prefix q (p @ concat ps) \<longrightarrow> length q \<le> length p)
     \<and> greedy tab ps"

definition codes :: "(string \<times> string) list \<Rightarrow> string list \<Rightarrow> string" where
  "codes tab ps = concat (map (\<lambda>p. the (map_of tab p)) ps)"

lemma encode_from_total:
  assumes "keys_ok tab"
  shows "(\<exists>ps. encode_from tab text i = Some (Inr (codes tab ps)) \<and> concat ps = drop i text \<and> greedy tab ps)
     \<or> (\<exists>j. encode_from tab text i = Some (Inl (NoCode (text ! j) j text)) \<and> i \<le> j \<and> j < length text
          \<and> (\<forall>q. map_of tab q \<noteq> None \<longrightarrow> \<not> prefix q (drop j text)))"
proof (induction "length text - i" arbitrary: i rule: less_induct)
  case less
  show ?case
  proof (cases "i < length text")
    case False
    then show ?thesis by (intro disjI1 exI [of _ "[]"]) (simp add: codes_def encode_from.simps)
  next
    case True
    show ?thesis
    proof (cases "match_at tab text i")
      case None
      have "\<not> prefix q (drop i text)" if "map_of tab q \<noteq> None" for q
      proof
        assume "prefix q (drop i text)"
        then have t: "take (length q) (drop i text) = q" by (auto simp: prefix_def)
        from that have "q \<in> fst ` set tab" by (metis map_of_eq_None_iff)
        then have "length q \<in> set (byLen tab)" by (force simp: byLen_def)
        with None t that show False unfolding match_at_def find_None_iff by (metis (no_types, lifting))
      qed
      with True None show ?thesis by (intro disjI2 exI [of _ i]) (simp add: encode_from.simps)
    next
      case (Some n)
      note m = match_at_Some [OF Some]
      let ?p = "take n (drop i text)"
      have n: "0 < n" using m(3) assms by simp
      have rest: "?p @ drop (i + n) text = drop i text" by (metis add.commute append_take_drop_id drop_drop)
      have step: "encode_from tab text i = Option.bind (encode_from tab text (i + n))
          (\<lambda>r. Some (case r of Inl e \<Rightarrow> Inl e | Inr bits \<Rightarrow> Inr (the (map_of tab ?p) @ bits)))"
        using True Some by (subst encode_from.simps) simp
      from less [of "i + n"] n True consider
          (ok) ps where "encode_from tab text (i + n) = Some (Inr (codes tab ps))"
            "concat ps = drop (i + n) text" "greedy tab ps"
        | (no) j where "encode_from tab text (i + n) = Some (Inl (NoCode (text ! j) j text))" "i + n \<le> j"
            "j < length text" "\<forall>q. map_of tab q \<noteq> None \<longrightarrow> \<not> prefix q (drop j text)"
        by fastforce
      then show ?thesis
      proof cases
        case ok
        have "greedy tab (?p # ps)"
          using ok(3) m(1,2,4) by (simp add: ok(2) rest)
        with ok rest step show ?thesis
          by (intro disjI1 exI [of _ "?p # ps"]) (simp add: codes_def)
      next
        case no
        with step show ?thesis by (intro disjI2 exI [of _ j]) simp
      qed
    qed
  qed
qed

section \<open>The decoder's tree\<close>

fun value_at :: "htree \<Rightarrow> string \<Rightarrow> string option" where
  "value_at t [] = node_value t"
| "value_at t (b # bs) = (case child t b of None \<Rightarrow> None | Some n \<Rightarrow> value_at n bs)"

lemma value_at_leaf [simp]: "value_at leaf code = None"
  by (cases code) (simp_all add: leaf_def)

lemma insert_code_value:
  "insert_code code v t = Some t' \<Longrightarrow> binary code \<Longrightarrow> binary c \<Longrightarrow>
   value_at t' c = (if c = code then Some v else value_at t c)"
proof (induction code v t arbitrary: t' c rule: insert_code.induct)
  case (1 v w l r)
  then show ?case by (cases c) (auto split: if_splits)
next
  case (2 b bs v w l r)
  show ?case
  proof (cases c)
    case Nil
    with 2(3) show ?thesis by (auto split: if_splits)
  next
    case (Cons d ds)
    with 2 show ?thesis
      by (auto split: if_splits option.splits)
  qed
qed

lemma insert_code_ok:
  "value_at t code = None \<or> value_at t code = Some v \<Longrightarrow> \<exists>t'. insert_code code v t = Some t'"
proof (induction code v t rule: insert_code.induct)
  case (2 b bs v w l r)
  then show ?case by (cases "b = CHR ''0''") (auto split: option.splits)
qed auto

text \<open>No code is a prefix of another.\<close>

definition prefix_free :: "(string \<times> string) list \<Rightarrow> bool" where
  "prefix_free es \<longleftrightarrow>
     list_all (\<lambda>e. is_code (snd e) \<and> list_all (\<lambda>f. prefix (snd e) (snd f) \<longrightarrow> e = f) es) es"

lemma prefix_freeD:
  "prefix_free es \<Longrightarrow> (v, c) \<in> set es \<Longrightarrow> (w, d) \<in> set es \<Longrightarrow> prefix c d \<Longrightarrow> v = w \<and> c = d"
  by (fastforce simp: prefix_free_def list_all_iff)

lemma prefix_free_code: "prefix_free es \<Longrightarrow> (v, c) \<in> set es \<Longrightarrow> is_code c \<and> binary c \<and> c \<noteq> []"
  by (force simp: prefix_free_def list_all_iff is_code_def)

lemma insert_all_value:
  assumes "prefix_free (ds @ es)" "\<And>c v. binary c \<Longrightarrow> value_at t c = Some v \<longleftrightarrow> (v, c) \<in> set ds"
  shows "\<exists>t'. insert_all es t = Some t' \<and> (\<forall>c v. binary c \<longrightarrow> (value_at t' c = Some v \<longleftrightarrow> (v, c) \<in> set (ds @ es)))"
  using assms
proof (induction es arbitrary: ds t)
  case Nil
  then show ?case by simp
next
  case (Cons e es)
  obtain v c where e: "e = (v, c)" by (cases e)
  have bc: "binary c" using prefix_free_code [OF Cons.prems(1), of v c] e by simp
  have uniq: "w = v" if "(w, c) \<in> set ds" for w
    using prefix_freeD [OF Cons.prems(1), of w c v c] that e by simp
  have "value_at t c = None \<or> value_at t c = Some v"
    using Cons.prems(2) [OF bc] uniq by (cases "value_at t c") auto
  from insert_code_ok [OF this] obtain t1 where t1: "insert_code c v t = Some t1" by blast
  have val: "value_at t1 d = Some w \<longleftrightarrow> (w, d) \<in> set (ds @ [e])" if "binary d" for d w
    using insert_code_value [OF t1 bc that] Cons.prems(2) [OF that] uniq e by auto
  from Cons.IH [OF _ val] Cons.prems(1)
  obtain t' where "insert_all es t1 = Some t'"
    "\<forall>c v. binary c \<longrightarrow> (value_at t' c = Some v \<longleftrightarrow> (v, c) \<in> set ((ds @ [e]) @ es))" by auto
  with t1 e show ?case by auto
qed

section \<open>Decoding a code\<close>

lemma decode_code:
  "value_at node code = Some v \<Longrightarrow> code \<noteq> []
   \<Longrightarrow> (\<And>p. strict_prefix p code \<Longrightarrow> p \<noteq> [] \<Longrightarrow> value_at node p = None)
   \<Longrightarrow> decode_bits root node out (code @ rest)
        = (if v = [] then (out, True) else decode_bits root root (out @ v) rest)"
proof (induction code arbitrary: node)
  case (Cons b bs)
  from Cons.prems(1) obtain n where n: "child node b = Some n" "value_at n bs = Some v"
    by (auto split: option.splits)
  show ?case
  proof (cases "bs = []")
    case True
    with n show ?thesis by simp
  next
    case False
    then have "value_at node [b] = None"
      using Cons.prems(3) [of "[b]"] by (simp add: strict_prefix_def)
    with n(1) have nv: "node_value n = None" by simp
    have "value_at n p = None" if "strict_prefix p bs" "p \<noteq> []" for p
      using Cons.prems(3) [of "b # p"] that n(1) by (simp add: strict_prefix_def)
    from Cons.IH [OF n(2) False this] n(1) nv show ?thesis by simp
  qed
qed simp

definition entries :: "dictionary \<Rightarrow> (string \<times> string) list" where
  "entries dict = dc_table dict @ [([], dc_terminator dict)]"

lemma code_path:
  assumes pf: "prefix_free es" and val: "\<forall>c v. binary c \<longrightarrow> (value_at tree c = Some v \<longleftrightarrow> (v, c) \<in> set es)"
    and e: "(v, c) \<in> set es"
  shows "value_at tree c = Some v" "c \<noteq> []" "strict_prefix p c \<Longrightarrow> value_at tree p = None"
proof -
  note c = prefix_free_code [OF pf e]
  show "value_at tree c = Some v" "c \<noteq> []" using c val e by simp_all
  show "value_at tree p = None" if p: "strict_prefix p c"
  proof (rule ccontr)
    assume "value_at tree p \<noteq> None"
    then obtain w where w: "value_at tree p = Some w" by blast
    have "binary p" using p c by (auto simp: strict_prefix_def prefix_def list_all_append)
    with w val have "(w, p) \<in> set es" by simp
    from prefix_freeD [OF pf this e] p show False by (simp add: strict_prefix_def)
  qed
qed

lemma decode_pieces:
  assumes pf: "prefix_free es" and val: "\<forall>c v. binary c \<longrightarrow> (value_at tree c = Some v \<longleftrightarrow> (v, c) \<in> set es)"
    and tab: "set tab \<subseteq> set es" "keys_ok tab" and fin: "([], t) \<in> set es"
  shows "greedy tab ps \<Longrightarrow> decode_bits tree tree out (codes tab ps @ t @ rest) = (out @ concat ps, True)"
proof (induction ps arbitrary: out)
  case Nil
  show ?case
    using decode_code [OF code_path(1,2) [OF pf val fin] code_path(3) [OF pf val fin], of tree out rest]
    by (simp add: codes_def)
next
  case (Cons p ps)
  then obtain c where c: "map_of tab p = Some c" "greedy tab ps" by auto
  then have e: "(p, c) \<in> set es" using tab(1) by (auto dest: map_of_SomeD)
  moreover have "p \<noteq> []" using c(1) tab(2) by (auto simp: keys_ok_def)
  ultimately show ?case
    using decode_code [OF code_path(1,2) [OF pf val e] code_path(3) [OF pf val e],
        of tree out "codes tab ps @ t @ rest"] Cons.IH [OF c(2), of "out @ p"] c(1)
    by (simp add: codes_def)
qed

section \<open>The dictionary that was read\<close>

lemma read_line_keys:
  "keys_ok (fst st) \<and> list_all (\<lambda>e. is_code (snd e)) (fst st) \<and> (\<forall>t. snd st = Some t \<longrightarrow> is_code t)
     \<and> distinct (map fst (fst st))
   \<Longrightarrow> keys_ok (fst (read_line raw st)) \<and> list_all (\<lambda>e. is_code (snd e)) (fst (read_line raw st))
     \<and> (\<forall>t. snd (read_line raw st) = Some t \<longrightarrow> is_code t) \<and> distinct (map fst (fst (read_line raw st)))"
proof -
  have upd: "list_all (\<lambda>e. is_code (snd e)) (AList.update k c al)" if "list_all (\<lambda>e. is_code (snd e)) al" "is_code c" for k c al
    using that by (induction al) (auto split: prod.splits)
  assume "keys_ok (fst st) \<and> list_all (\<lambda>e. is_code (snd e)) (fst st) \<and> (\<forall>t. snd st = Some t \<longrightarrow> is_code t)
     \<and> distinct (map fst (fst st))"
  then show ?thesis
    by (auto simp: read_line_def Let_def keys_ok_def update_conv' upd distinct_update)
qed

lemma readDictionary_ok:
  assumes "readDictionary text = Inr dict"
  shows "keys_ok (dc_table dict) \<and> list_all (\<lambda>e. is_code (snd e)) (dc_table dict)
     \<and> is_code (dc_terminator dict) \<and> distinct (map fst (dc_table dict))"
proof -
  have fold: "keys_ok (fst (fold read_line ls st)) \<and> list_all (\<lambda>e. is_code (snd e)) (fst (fold read_line ls st))
      \<and> (\<forall>t. snd (fold read_line ls st) = Some t \<longrightarrow> is_code t) \<and> distinct (map fst (fst (fold read_line ls st)))"
    if "keys_ok (fst st) \<and> list_all (\<lambda>e. is_code (snd e)) (fst st) \<and> (\<forall>t. snd st = Some t \<longrightarrow> is_code t)
     \<and> distinct (map fst (fst st))" for ls st
    using that
  proof (induction ls arbitrary: st)
    case (Cons l ls)
    from Cons.IH [OF read_line_keys [OF Cons.prems]] show ?case by simp
  qed simp
  show ?thesis
    using assms fold [of "([], None)" "split_lines [] text"]
    by (auto simp: readDictionary_def Let_def keys_ok_def split: option.splits)
qed

section \<open>The encoder's properties\<close>


text \<open>A small dictionary in the file's format, with a line for the space and one for the terminator.\<close>

definition demo_text :: string where
  "demo_text = ''A=00'' @ [CHR 0x0A] @ '' =010'' @ [CHR 0x0D, CHR 0x0A] @ ''=011'' @ [CHR 0x0A] @ ''News=1''"

definition demo_dict :: dictionary where
  "demo_dict = \<lparr>dc_table = [(''A'', ''00''), ('' '', ''010''), (''News'', ''1'')], dc_terminator = ''011''\<rparr>"

lemma demo_read: "readDictionary demo_text = Inr demo_dict"
  by code_simp


lemma map_sum_InrE: "map_sum f g r = Inr y \<Longrightarrow> (\<And>x. r = Inr x \<Longrightarrow> y = g x \<Longrightarrow> thesis) \<Longrightarrow> thesis"
  by (cases r) auto

lemma codes_binary:
  "list_all (\<lambda>e. is_code (snd e)) tab \<Longrightarrow> greedy tab ps \<Longrightarrow> binary (codes tab ps)"
proof (induction ps)
  case (Cons p ps)
  then obtain c where c: "map_of tab p = Some c" by auto
  then have "is_code c" using Cons.prems(1) by (auto simp: list_all_iff dest!: map_of_SomeD)
  with Cons c show ?case by (simp add: codes_def is_code_def)
qed (simp add: codes_def)

text \<open>
  C38.  What is encoded decodes.  When no code of a dictionary is a prefix of another, the reference
  decoder's tree can be built, and it reads every title the encoder packs back, up to the terminator,
  whatever padding the last byte carries.
\<close>

theorem encode_decode_title:
  assumes "readDictionary txt = Inr dict" "prefix_free (entries dict)"
  shows "\<exists>tree. build_tree dict = Some tree
     \<and> (\<forall>title bytes. encodeTitle title dict = Some (Inr bytes) \<longrightarrow> decode_title bytes tree = (title, True))"
proof -
  note ok = readDictionary_ok [OF assms(1)]
  obtain tree where tree: "insert_all (entries dict) leaf = Some tree"
    and val: "\<forall>c v. binary c \<longrightarrow> (value_at tree c = Some v \<longleftrightarrow> (v, c) \<in> set (entries dict))"
    using insert_all_value [of "[]" "entries dict" leaf] assms(2) by auto
  have "decode_title bytes tree = (title, True)" if enc: "encodeTitle title dict = Some (Inr bytes)" for title bytes
  proof -
    from enc obtain bits where bits: "encode_from (dc_table dict) title 0 = Some (Inr bits)"
      "bytes = pack (bits @ dc_terminator dict)"
      by (auto simp: encodeTitle_def encodeBits_def elim!: map_sum_InrE)
    then obtain ps where ps: "bits = codes (dc_table dict) ps" "concat ps = title" "greedy (dc_table dict) ps"
      using encode_from_total [of "dc_table dict" title 0] ok by auto
    have "binary bits"
      unfolding ps(1) using codes_binary [OF _ ps(3)] ok by simp
    then have "binary (bits @ dc_terminator dict)" using ok by (simp add: is_code_def)
    from unpack_pack_bits [OF this] obtain k where
      u: "unpack bytes = bits @ dc_terminator dict @ replicate k CHR ''0''" by (auto simp: bits(2))
    have sub: "set (dc_table dict) \<subseteq> set (entries dict)" "([], dc_terminator dict) \<in> set (entries dict)"
      by (auto simp: entries_def)
    show ?thesis
      using decode_pieces [OF assms(2) val sub(1) _ sub(2) ps(3), of "[]"] ok
      by (simp add: decode_title_def u ps)
  qed
  then show ?thesis using tree by (auto simp: build_tree_def entries_def)
qed

theorem encode_decode_title_witness:
  "\<exists>tree. build_tree demo_dict = Some tree \<and> decode_title [0x05, 0x60] tree = (''A News'', True)"
proof -
  have "prefix_free (entries demo_dict)" "encodeTitle ''A News'' demo_dict = Some (Inr [0x05, 0x60])"
    by code_simp+
  with encode_decode_title [OF demo_read] show ?thesis by blast
qed

text \<open>
  The bytes carry the bits.  Six bits in the first byte and eight in each other one: unpacking
  what was packed gives the bits back, followed by padding zeros only.
\<close>

theorem unpack_pack:
  assumes "list_all (\<lambda>c. c = CHR ''0'' \<or> c = CHR ''1'') bits"
  shows "\<exists>k < 8. unpack (pack bits) = bits @ replicate k CHR ''0'' \<and> list_all (\<lambda>b. 0 \<le> b \<and> b < 256) (pack bits)"
  using unpack_pack_bits [OF assms] pack_bytes by auto

theorem unpack_pack_witness:
  "\<exists>k < 8. unpack (pack ''1011001'') = ''1011001'' @ replicate k CHR ''0''"
  using unpack_pack [of "''1011001''"] by (auto simp: list_all_iff)

text \<open>
  The greedy cut can fail on a title the dictionary could express: with keys A, AB and BC, the title
  ABC is A followed by BC, and the encoder stops at the C.
\<close>

theorem greedy_misses_expressible:
  "encodeBits ''ABC'' \<lparr>dc_table = [(''A'', ''00''), (''AB'', ''01''), (''BC'', ''10'')], dc_terminator = ''11''\<rparr>
     = Some (Inl (NoCode (CHR ''C'') 2 ''ABC''))"
  by code_simp

end
