(* ===== verification/Probe_Base.thy ===== *)
theory Probe_Base
  imports GRT_Prelude
begin

text \<open>
  What the probes of \<open>tools/probes\<close> share.  A probe is a script the harness runs inside the emulator
  page; it talks to the page through the \<open>window.__\<close> hooks and either returns a report or throws.  The
  state of the page is a parameter \<open>'w\<close> and the hooks the record \<open>page_api\<close>; a probe is an action that
  takes the state and gives the error thrown or the result, with the state it leaves.  Reading memory
  with \<open>__peek\<close> is taken to leave the page alone, which holds for the RAM the probes read.
\<close>

section \<open>Actions\<close>

type_synonym ('w, 'a) act = "'w \<Rightarrow> (string + 'a) \<times> 'w"

definition give :: "'a \<Rightarrow> ('w, 'a) act" where
  "give a = (\<lambda>w. (Inr a, w))"

definition throw :: "string \<Rightarrow> ('w, 'a) act" where
  "throw e = (\<lambda>w. (Inl e, w))"

definition seq :: "('w, 'a) act \<Rightarrow> ('a \<Rightarrow> ('w, 'b) act) \<Rightarrow> ('w, 'b) act" where
  "seq m k = (\<lambda>w. case m w of (Inl e, w') \<Rightarrow> (Inl e, w') | (Inr a, w') \<Rightarrow> k a w')"

definition doing :: "('w \<Rightarrow> 'w) \<Rightarrow> ('w, unit) act" where
  "doing f = (\<lambda>w. (Inr (), f w))"

definition reading :: "('w \<Rightarrow> 'a) \<Rightarrow> ('w, 'a) act" where
  "reading f = (\<lambda>w. (Inr (f w), w))"

definition require :: "bool \<Rightarrow> string \<Rightarrow> ('w, unit) act" where
  "require b e = (if b then give () else throw e)"

text \<open>A loop that collects what its body gives.\<close>

fun each :: "('x \<Rightarrow> ('w, 'a) act) \<Rightarrow> 'x list \<Rightarrow> ('w, 'a list) act" where
  "each f [] = give []"
| "each f (x # xs) = seq (f x) (\<lambda>a. seq (each f xs) (\<lambda>as. give (a # as)))"

lemmas act_defs = give_def throw_def seq_def doing_def reading_def require_def

lemma seq_Inr: "seq m k w = (Inr b, w') \<longleftrightarrow> (\<exists>a w1. m w = (Inr a, w1) \<and> k a w1 = (Inr b, w'))"
  by (auto simp: seq_def split: prod.split sum.split)

lemma seq_simps [simp]:
  "seq (give a) k = k a" "seq (throw e) k = throw e" "seq (reading f) k w = k (f w) w" "seq (doing g) k' w = k' () (g w)"
  "seq (require b e) k' = (if b then k' () else throw e)"
  by (simp_all add: act_defs)

lemma act_simps [simp]:
  "give a w = (Inr a, w)" "throw e w = (Inl e, w)" "reading f w = (Inr (f w), w)" "doing g w = (Inr (), g w)"
  by (simp_all add: act_defs)

section \<open>The hooks\<close>

text \<open>An entry of the blit log: its JSON text and its \<open>note\<close>, if it has one.\<close>

record blit =
  bl_json :: string
  bl_note :: "string option"

record 'w page_api =
  g_hist :: "'w \<Rightarrow> int \<Rightarrow> int"
  g_profile :: "'w \<Rightarrow> 'w"
  g_wait :: "int \<Rightarrow> 'w \<Rightarrow> 'w"
  g_peek :: "'w \<Rightarrow> int \<Rightarrow> nat \<Rightarrow> int list"
  g_poke :: "int \<Rightarrow> int list \<Rightarrow> 'w \<Rightarrow> 'w"
  g_key :: "int \<Rightarrow> int \<Rightarrow> 'w \<Rightarrow> string \<times> 'w"
  g_blitLog :: "'w \<Rightarrow> blit list"
  g_tasks :: "'w \<Rightarrow> int"
  g_shot :: "string \<Rightarrow> 'w \<Rightarrow> 'w"
  g_icount :: "'w \<Rightarrow> string"

definition sleep :: "('w, 'z) page_api_scheme \<Rightarrow> int \<Rightarrow> ('w, unit) act" where
  "sleep G ms = doing (g_wait G ms)"

definition press_key :: "('w, 'z) page_api_scheme \<Rightarrow> int \<Rightarrow> int \<Rightarrow> ('w, string) act" where
  "press_key G raw src = (\<lambda>w. let (r, w') = g_key G raw src w in (Inr r, w'))"

section \<open>Printing addresses\<close>

definition h8 :: "int \<Rightarrow> string" where
  "h8 v = ''0x'' @ pad_left 8 CHR ''0'' (js_upper (hex_string (to_u32 v)))"

definition hx :: "int \<Rightarrow> string" where
  "hx v = ''0x'' @ hex_string (to_u32 v)"

text \<open>
  The page's \<open>__pcHits\<close>: for each address the hits of the address and of its odd twin, under the
  address printed as the page prints it.  \<open>g_hist\<close> is the profiler's histogram, 0 where it has no entry.
\<close>

definition pcHits :: "('w, 'z) page_api_scheme \<Rightarrow> 'w \<Rightarrow> int list \<Rightarrow> (string \<times> int) list" where
  "pcHits G w addrs = map (\<lambda>a. (h8 a, g_hist G w (to_u32 a) + g_hist G w (to_u32 (a OR 1)))) addrs"

definition hitOf :: "(string \<times> int) list \<Rightarrow> int \<Rightarrow> ('w, int) act" where
  "hitOf hits addr =
     (case map_of hits (h8 addr) of
        Some n \<Rightarrow> give n
      | None \<Rightarrow> throw (''pcHits has no key '' @ h8 addr @ '' -- the lookup is not matching''))"

text \<open>
  The counts of a table of addresses, under the table's own keys: \<open>look\<close> fetches one row, and the object
  built is a map.  A row that cannot be looked up throws.
\<close>

fun tally :: "('k \<times> int \<Rightarrow> ('w, int) act) \<Rightarrow> ('k \<times> int) list \<Rightarrow> ('k \<rightharpoonup> int) \<Rightarrow> ('w, 'k \<rightharpoonup> int) act" where
  "tally look [] ob = give ob"
| "tally look (r # rs) ob = seq (look r) (\<lambda>n. tally look rs (ob(fst r \<mapsto> n)))"

definition read_counts ::
  "((string \<times> int) list \<Rightarrow> 'k \<times> int \<Rightarrow> ('w, int) act) \<Rightarrow> ('w, 'z) page_api_scheme
    \<Rightarrow> ('k \<times> int) list \<Rightarrow> ('w, 'k \<rightharpoonup> int) act" where
  "read_counts look G rows = (\<lambda>w. tally (look (pcHits G w (map snd rows))) rows Map.empty w)"

text \<open>\<open>b[k] - a[k]\<close>; a missing property would make it \<open>NaN\<close>, which no comparison accepts.\<close>

definition rise :: "('k \<rightharpoonup> int) \<Rightarrow> ('k \<rightharpoonup> int) \<Rightarrow> 'k \<Rightarrow> int" where
  "rise a b k = (case (b k, a k) of (Some y, Some x) \<Rightarrow> y - x | _ \<Rightarrow> 0)"

section \<open>Reading numbers\<close>

definition is_space :: "char \<Rightarrow> bool" where
  "is_space c \<longleftrightarrow> (let n = of_char c :: int in 9 \<le> n \<and> n \<le> 13 \<or> n = 32 \<or> n = 160)"

definition digit_of :: "char \<Rightarrow> int" where
  "digit_of c = (let n = of_char c :: int in
     if 48 \<le> n \<and> n \<le> 57 then n - 48 else if 97 \<le> n \<and> n \<le> 122 then n - 87
     else if 65 \<le> n \<and> n \<le> 90 then n - 55 else 99)"

text \<open>\<open>parseInt\<close> with a radix; \<open>NaN\<close> is \<open>None\<close>, and radix 16 admits the prefix \<open>0x\<close>.\<close>

definition parse_int :: "int \<Rightarrow> string \<Rightarrow> int option" where
  "parse_int radix s =
     (let s1 = dropWhile is_space s;
          neg = prefix ''-'' s1;
          s2 = (if prefix ''-'' s1 \<or> prefix ''+'' s1 then tl s1 else s1);
          s3 = (if radix = 16 \<and> (prefix ''0x'' s2 \<or> prefix ''0X'' s2) then drop 2 s2 else s2);
          ds = takeWhile (\<lambda>c. digit_of c < radix) s3;
          n = foldl (\<lambda>a c. radix * a + digit_of c) 0 ds
      in if ds = [] then None else Some (if neg then - n else n))"

section \<open>The visible plane\<close>

text \<open>\<open>Math.imul(s ^ b, 16777619) >>> 0\<close>.\<close>

definition surface_step :: "u32 \<Rightarrow> int \<Rightarrow> u32" where
  "surface_step s b = (s XOR word_of_int b) * 16777619"

definition surface_hash :: "int list \<Rightarrow> u32" where
  "surface_hash bs = foldl surface_step 2166136261 bs"

text \<open>The bytes that occur, in the order in which an object lists its integer keys.\<close>

definition colour_keys :: "int list \<Rightarrow> int list" where
  "colour_keys bs = filter (\<lambda>k. k \<in> set bs) [0..255]"

definition colour_count :: "int list \<Rightarrow> int \<Rightarrow> int" where
  "colour_count bs k = int (length (filter (\<lambda>b. b = k) bs))"

section \<open>Facts about the keys\<close>

lemma upper_digit: "0 \<le> d \<Longrightarrow> d < 16 \<Longrightarrow> js_upper [radix_digit d] =
    [if d < 10 then char_of (48 + d) else char_of (55 + d)]"
proof -
  assume "0 \<le> d" "d < 16"
  then have "d = 0 \<or> d = 1 \<or> d = 2 \<or> d = 3 \<or> d = 4 \<or> d = 5 \<or> d = 6 \<or> d = 7 \<or> d = 8
      \<or> d = 9 \<or> d = 10 \<or> d = 11 \<or> d = 12 \<or> d = 13 \<or> d = 14 \<or> d = 15" by presburger
  then show ?thesis
    by (elim disjE) (simp_all add: js_upper_def radix_digit_def Let_def of_char_of take_bit_int_eq_self)
qed

text \<open>The value of an upper-case hexadecimal text; leading zeros do not change it.\<close>

definition hex_value :: "string \<Rightarrow> int" where
  "hex_value s = foldl (\<lambda>a c. 16 * a + (let n = of_char c :: int in if n < 58 then n - 48 else n - 55)) 0 s"

lemma hex_value_snoc: "hex_value (s @ [c]) = 16 * hex_value s + (let n = of_char c :: int in if n < 58 then n - 48 else n - 55)"
  by (simp add: hex_value_def)

lemma hex_digit_value:
  assumes "0 \<le> d" "d < 16"
  shows "(let n = of_char (hd (js_upper [radix_digit d])) :: int in if n < 58 then n - 48 else n - 55) = d"
  unfolding upper_digit [OF assms] using assms by (simp add: Let_def of_char_of take_bit_int_eq_self)

lemma js_upper_append: "js_upper (s @ t) = js_upper s @ js_upper t"
  by (simp add: js_upper_def)

lemma js_upper_one: "\<exists>c'. js_upper [c] = [c']"
  by (simp add: js_upper_def)

lemma hex_value_upper: "0 \<le> n \<Longrightarrow> hex_value (js_upper (hex_string n)) = n"
  unfolding hex_string_def
proof (induction "16 :: int" n rule: radix_string.induct)
  case (1 n)
  show ?case
  proof (cases "n < 16")
    case True
    then have r: "radix_string 16 n = [radix_digit n]" by (subst radix_string.simps) simp
    obtain c where c: "js_upper [radix_digit n] = [c]" using js_upper_one by blast
    show ?thesis
      using hex_value_snoc [of "[]" c] hex_digit_value [of n] 1 True unfolding r c by (simp add: hex_value_def)
  next
    case False
    have d: "0 \<le> n mod 16" "n mod 16 < 16" by simp_all
    obtain c where c: "js_upper [radix_digit (n mod 16)] = [c]" using js_upper_one by blast
    from False have r: "radix_string 16 n = radix_string 16 (n div 16) @ [radix_digit (n mod 16)]"
      by (subst radix_string.simps) simp
    have "hex_value (js_upper (radix_string 16 (n div 16))) = n div 16"
      using 1 False by simp
    with hex_digit_value [OF d] show ?thesis
      unfolding r js_upper_append c hex_value_snoc by simp
  qed
qed

lemma hex_value_pad: "hex_value (pad_left w CHR ''0'' s) = hex_value s"
proof -
  have "hex_value (replicate k CHR ''0'' @ s) = hex_value s" for k
    by (induction k) (simp_all add: hex_value_def)
  then show ?thesis by (simp add: pad_left_def)
qed

lemma h8_inj: "h8 a = h8 b \<longleftrightarrow> to_u32 a = to_u32 b"
proof
  assume "h8 a = h8 b"
  then have "hex_value (pad_left 8 CHR ''0'' (js_upper (hex_string (to_u32 a))))
      = hex_value (pad_left 8 CHR ''0'' (js_upper (hex_string (to_u32 b))))" by (simp add: h8_def)
  then show "to_u32 a = to_u32 b" by (simp add: hex_value_pad hex_value_upper)
qed (simp add: h8_def)

text \<open>The profiler's count for an address, as the page reports it.\<close>

definition hits_at :: "('w, 'z) page_api_scheme \<Rightarrow> 'w \<Rightarrow> int \<Rightarrow> int" where
  "hits_at G w a = g_hist G w (to_u32 a) + g_hist G w (to_u32 (a OR 1))"

lemma pcHits_lookup:
  assumes "a \<in> set addrs" "\<forall>b \<in> set addrs. 0 \<le> b \<and> b < 4294967296"
  shows "map_of (pcHits G w addrs) (h8 a) = Some (hits_at G w a)"
  using assms by (induction addrs) (auto simp: pcHits_def hits_at_def h8_inj)

lemma hitOf_exact:
  assumes "a \<in> set addrs" "\<forall>b \<in> set addrs. 0 \<le> b \<and> b < 4294967296"
  shows "hitOf (pcHits G w addrs) a = give (hits_at G w a)"
  by (simp add: hitOf_def pcHits_lookup [OF assms])

lemma tally_exact:
  assumes "\<And>r. r \<in> set rows \<Longrightarrow> look r = give (f (snd r))"
  shows "tally look rows ob = give (foldl (\<lambda>m r. m(fst r \<mapsto> f (snd r))) ob rows)"
  using assms
proof (induction rows arbitrary: ob)
  case (Cons r rs)
  have 1: "look r = give (f (snd r))" by (rule Cons.prems) simp
  have 2: "tally look rs ob' = give (foldl (\<lambda>m r. m(fst r \<mapsto> f (snd r))) ob' rs)" for ob'
    by (rule Cons.IH, rule Cons.prems) simp
  show ?case by (simp only: tally.simps seq_simps 1 2 foldl.simps)
qed simp

lemma fold_updates:
  assumes "distinct (map fst rows)"
  shows "foldl (\<lambda>m r. m(fst r \<mapsto> f (snd r))) ob rows = ob ++ map_of (map (\<lambda>r. (fst r, f (snd r))) rows)"
  using assms
proof (induction rows arbitrary: ob)
  case (Cons r rs)
  let ?m = "map_of (map (\<lambda>r. (fst r, f (snd r))) rs)"
  have "fst r \<notin> dom ?m" using Cons.prems by (simp add: dom_map_of_conv_image_fst image_image)
  then have "ob(fst r \<mapsto> f (snd r)) ++ ?m = ob ++ ?m(fst r \<mapsto> f (snd r))"
    by (simp only: map_add_upd) (rule map_add_upd_left)
  moreover have "distinct (map fst rs)" using Cons.prems by simp
  ultimately show ?case
    by (simp only: foldl.simps Cons.IH list.map map_of.simps fst_conv snd_conv)
qed simp

text \<open>What a census reads: for each key the profiler's count of its address.\<close>

definition counts_of :: "('w, 'z) page_api_scheme \<Rightarrow> ('k \<times> int) list \<Rightarrow> 'w \<Rightarrow> 'k \<rightharpoonup> int" where
  "counts_of G rows w = map_of (map (\<lambda>r. (fst r, hits_at G w (snd r))) rows)"

definition countable_rows :: "('k \<times> int) list \<Rightarrow> bool" where
  "countable_rows rows \<longleftrightarrow> distinct (map fst rows) \<and> (\<forall>a \<in> snd ` set rows. 0 \<le> a \<and> a < 4294967296)"

lemma read_counts_exact:
  assumes "countable_rows rows"
    and look: "\<And>hits r n. map_of hits (h8 (snd r)) = Some n \<Longrightarrow> look hits r = give n"
  shows "read_counts look G rows w = (Inr (counts_of G rows w), w)"
proof -
  have "look (pcHits G w (map snd rows)) r = give (hits_at G w (snd r))" if "r \<in> set rows" for r
    using assms(1) that by (intro look pcHits_lookup) (auto simp: countable_rows_def)
  then show ?thesis
    using assms(1) by (simp add: read_counts_def tally_exact fold_updates counts_of_def countable_rows_def)
qed

section \<open>The surface hash\<close>

lemma fnv_prime_inverse: "x * 16777619 * 899433627 = (x :: u32)"
proof -
  have "16777619 * 899433627 = (1 :: u32)" by (rule word_uint_eqI) simp
  then show ?thesis by (simp only: mult.assoc mult_1_right)
qed

lemma surface_step_inj: "surface_step s b = surface_step t b \<longleftrightarrow> s = t"
proof
  assume "surface_step s b = surface_step t b"
  then have "(s XOR word_of_int b) * 16777619 * 899433627 = (t XOR word_of_int b) * 16777619 * 899433627"
    by (simp only: surface_step_def)
  then have "s XOR word_of_int b = t XOR word_of_int b" by (simp only: fnv_prime_inverse)
  then have "(s XOR word_of_int b) XOR word_of_int b = (t XOR word_of_int b) XOR word_of_int b" by simp
  then show "s = t" by (simp only: xor.assoc xor_self_eq xor.right_neutral)
qed simp

lemma surface_fold_inj: "foldl surface_step s bs = foldl surface_step t bs \<longleftrightarrow> s = t"
  by (induction bs arbitrary: s t) (simp_all add: surface_step_inj)

lemma surface_byte_inj:
  assumes "0 \<le> b" "b < 256" "0 \<le> c" "c < 256" "surface_step s b = surface_step s c"
  shows "b = c"
proof -
  have "(s XOR word_of_int b) * 16777619 * 899433627 = (s XOR word_of_int c) * 16777619 * 899433627"
    using assms(5) by (simp only: surface_step_def)
  then have "s XOR word_of_int b = s XOR word_of_int c" by (simp only: fnv_prime_inverse)
  then have "s XOR (s XOR word_of_int b) = s XOR (s XOR word_of_int c)" by simp
  then have "(word_of_int b :: u32) = word_of_int c" by (simp flip: xor.assoc)
  then have "uint (word_of_int b :: u32) = uint (word_of_int c :: u32)" by simp
  with assms show ?thesis by (simp add: unsigned_of_int take_bit_int_eq_self)
qed

text \<open>
  The surface hash sees every byte.  Two planes that differ in exactly one byte never have the same
  hash, wherever the byte is and whatever follows it.
\<close>

theorem surface_hash_one_byte:
  assumes "0 \<le> b" "b < 256" "0 \<le> c" "c < 256" "b \<noteq> c"
  shows "surface_hash (pre @ [b] @ post) \<noteq> surface_hash (pre @ [c] @ post)"
  using surface_byte_inj [OF assms(1-4)] assms(5) by (auto simp: surface_hash_def surface_fold_inj)

theorem surface_hash_one_byte_witness:
  "surface_hash ([1, 2] @ [7] @ [3]) \<noteq> surface_hash ([1, 2] @ [8] @ [3])"
  by (rule surface_hash_one_byte) simp_all

end
