(* ===== verification/Probe_Natives.thy ===== *)
theory Probe_Natives
  imports GRT_Prelude "HOL-Library.Multiset"
begin

text \<open>
  The table of module 1's natives as the three census probes carry it: index, address of the shim, and
  address of the implementation the shim jumps to (0 where it was not resolved).  Sources:
  \<open>tools/probes/module1-census.js\<close>, \<open>census-with-gates-open.js\<close> and, without the third column,
  \<open>module1-timeline.js\<close>.
\<close>

definition CENSUS_NAT_low :: "(int \<times> int \<times> int) list" where
  "CENSUS_NAT_low = [
    (0, 0x80081B00, 0x80098F24), (1, 0x80081B10, 0x80098F58), (2, 0x80081B20, 0x800990CC),
    (3, 0x80081B30, 0x80099104), (4, 0x800711EC, 0x00000000), (5, 0x80071214, 0x00000000),
    (6, 0x8007123C, 0x00000000), (7, 0x80071274, 0x00000000), (8, 0x800712BC, 0x80071164),
    (9, 0x800712CC, 0x00000000), (10, 0x800712FC, 0x00000000), (11, 0x8007132C, 0x00000000),
    (12, 0x80071360, 0x00000000), (13, 0x80071460, 0x00000000), (14, 0x80071420, 0x80073428),
    (15, 0x80071440, 0x800735C0), (16, 0x800714B0, 0x800716F0), (17, 0x800714C0, 0x80071730),
    (18, 0x80071520, 0x80071770), (19, 0x800714D0, 0x8007193C), (20, 0x800714E4, 0x80071848),
    (21, 0x800713C0, 0x00000000), (22, 0x80071530, 0x00000000), (23, 0x80071488, 0x00000000),
    (24, 0x800820E0, 0x80082ECC), (25, 0x800820C0, 0x80082F44), (26, 0x800820D0, 0x80082F20),
    (27, 0x800820F0, 0x80082E54), (28, 0x80082100, 0x80082F64), (29, 0x80082110, 0x80085004),
    (30, 0x80081C28, 0x80083DC8), (31, 0x80081C38, 0x80083DEC), (32, 0x80081C48, 0x80083810),
    (33, 0x80081C68, 0x80083780), (34, 0x80081CA8, 0x80084008), (35, 0x80081CB8, 0x80084028),
    (36, 0x80081CC8, 0x80083F9C), (37, 0x80081CD8, 0x80083FD0), (38, 0x80081CE8, 0x80084050),
    (39, 0x80081D10, 0x8008409C), (40, 0x80081D20, 0x80085104), (41, 0x80081D40, 0x8008521C),
    (42, 0x80081C88, 0x80083B68), (43, 0x80050F40, 0x800513BC), (44, 0x80050F50, 0x8001E504),
    (45, 0x80082040, 0x800855AC), (46, 0x80082050, 0x80085668), (47, 0x80081DD0, 0x80085768),
    (48, 0x80081DE0, 0x800856E0), (49, 0x80081DF0, 0x800857DC), (50, 0x80081DB0, 0x80085530),
    (51, 0x80081DC0, 0x80085500), (52, 0x80081D80, 0x80085564), (53, 0x80081D60, 0x8008508C),
    (54, 0x80081D70, 0x800850B8), (55, 0x80081F10, 0x8008546C), (56, 0x80081F20, 0x80085004),
    (57, 0x80081F44, 0x800852A4), (58, 0x80081F34, 0x800852A4), (59, 0x80082020, 0x800852A4),
    (60, 0x80081D90, 0x80085578), (61, 0x80081DA0, 0x80085598), (62, 0x80082124, 0x80085004),
    (63, 0x8008213C, 0x80085004), (64, 0x80082150, 0x80084FE4), (65, 0x80082160, 0x80084FEC),
    (66, 0x80082170, 0x80084F84), (67, 0x80081E00, 0x8008589C), (68, 0x80081E20, 0x80085938),
    (69, 0x80081E30, 0x8008594C), (70, 0x80081E40, 0x80085964), (71, 0x80081E50, 0x80085A80),
    (72, 0x80081E60, 0x80085AD4), (73, 0x80081E70, 0x80085B0C), (74, 0x80081E80, 0x80085AE8),
    (75, 0x80081E90, 0x80085B2C), (76, 0x80081EA0, 0x80085B4C), (77, 0x80081EB0, 0x80085BDC),
    (78, 0x80081ED0, 0x80085CC8), (79, 0x80081EE0, 0x80085D10), (80, 0x80081F00, 0x80085D84),
    (81, 0x80081EF0, 0x80085DF4), (82, 0x80082190, 0x800859E0), (83, 0x800821A0, 0x80085A0C),
    (84, 0x800821B0, 0x80085A4C), (85, 0x80081E10, 0x8008506C), (86, 0x800821C0, 0x80085040),
    (87, 0x80081570, 0x80082A6C), (88, 0x80081590, 0x80082AFC), (89, 0x80081580, 0x80082AD8),
    (90, 0x80081540, 0x80082668), (91, 0x80081550, 0x80082690), (92, 0x8008153C, 0x80082668),
    (93, 0x800816E4, 0x800826B8), (94, 0x80081714, 0x800826E8), (95, 0x80081560, 0x80082790),
    (96, 0x800816F4, 0x800826E0), (97, 0x80081704, 0x800826E4), (98, 0x80081640, 0x80082738),
    (99, 0x80081650, 0x80082A2C), (100, 0x800815B0, 0x800829A4), (101, 0x800815C0, 0x80082D1C),
    (102, 0x80081610, 0x80082964), (103, 0x80081620, 0x80082D1C), (104, 0x80081684, 0x80082898),
    (105, 0x80081694, 0x80082D1C), (106, 0x800816B4, 0x800828DC), (107, 0x800816C4, 0x80082D1C),
    (108, 0x800815E0, 0x800829E8), (109, 0x800815F0, 0x80082D1C), (110, 0x80081654, 0x80082A2C),
    (111, 0x80081664, 0x80082D1C), (112, 0x80081724, 0x800827D0), (113, 0x80081734, 0x800827B0),
    (114, 0x80081744, 0x80082814), (115, 0x80081754, 0x80082834), (116, 0x80081764, 0x80082878),
    (117, 0x800815A0, 0x80080C54)]"

definition CENSUS_NAT_high :: "(int \<times> int \<times> int) list" where
  "CENSUS_NAT_high = [
    (118, 0x80081794, 0x80080FD0), (119, 0x800817A4, 0x80080F28), (120, 0x800817C4, 0x80080F98),
    (121, 0x80081774, 0x8008101C), (122, 0x800817B4, 0x80080F60), (123, 0x800817D4, 0x80080F7C),
    (124, 0x80081784, 0x80081154), (125, 0x800817E4, 0x80083230), (126, 0x80081804, 0x800832F0),
    (127, 0x800817F4, 0x800832BC), (128, 0x80081814, 0x8008327C), (129, 0x80081824, 0x8008319C),
    (130, 0x80081844, 0x80082D1C), (131, 0x80081834, 0x800831F0), (132, 0x80081864, 0x8008335C),
    (133, 0x80081874, 0x80082D1C), (134, 0x80081950, 0x800833EC), (135, 0x80081960, 0x80082D1C),
    (136, 0x80081980, 0x80083444), (137, 0x80081990, 0x80082D1C), (138, 0x800819B0, 0x80083490),
    (139, 0x800819C0, 0x80082D1C), (140, 0x80081930, 0x800833B4), (141, 0x80081940, 0x8008329C),
    (142, 0x80081A10, 0x8008229C), (143, 0x80081A30, 0x80082298), (144, 0x80081A40, 0x800822E8),
    (145, 0x80081A50, 0x80082D1C), (146, 0x80081A20, 0x800822C8), (147, 0x80081A70, 0x80082468),
    (148, 0x80081A90, 0x80082394), (149, 0x80081AB0, 0x800823E0), (150, 0x80081A80, 0x8008242C),
    (151, 0x80081AA0, 0x800823C0), (152, 0x80081AC0, 0x8008240C), (153, 0x80081AD0, 0x80082530),
    (154, 0x80081AE0, 0x80082578), (155, 0x80081AF0, 0x80082558), (156, 0x80082060, 0x80084530),
    (157, 0x80082080, 0x800845E4), (158, 0x80082070, 0x800846E4), (159, 0x800865FC, 0x80086CAC),
    (160, 0x800865EC, 0x80086C60), (161, 0x8008660C, 0x80086CF8), (162, 0x8008663C, 0x80086F48),
    (163, 0x8008661C, 0x80086E2C), (164, 0x8008662C, 0x80086EE8), (165, 0x8008664C, 0x80087064),
    (166, 0x8009CDC4, 0x8009CE00), (167, 0x8009CDD4, 0x8009CE2C), (168, 0x8009CDE4, 0x8009CE54),
    (169, 0x80085F04, 0x800861C4), (170, 0x80085F14, 0x8008621C), (171, 0x80081244, 0x80081200),
    (172, 0x8008125C, 0x80081200), (173, 0x80081274, 0x00000000), (174, 0x80081218, 0x00000000),
    (175, 0x80081298, 0x00000000), (176, 0x800812BC, 0x00000000), (177, 0x800812E0, 0x80081200),
    (178, 0x80081350, 0x80081200), (179, 0x80081450, 0x80081200), (180, 0x80081438, 0x80081200),
    (181, 0x800812F8, 0x00000000), (182, 0x80081388, 0x00000000), (183, 0x800813E0, 0x00000000),
    (184, 0x80081488, 0x80081200), (185, 0x800814C8, 0x80081200), (186, 0x80082180, 0x80084080),
    (187, 0x8009CCB4, 0x80080668), (188, 0x8009CCCC, 0x00000000), (189, 0x8009CD00, 0x8006734C),
    (190, 0x8009CD2C, 0x80067454), (191, 0x8009CD40, 0x800672F4), (192, 0x80086414, 0x80086480),
    (193, 0x80086424, 0x80086490), (194, 0x80086434, 0x800864E4), (195, 0x80071500, 0x800717AC),
    (196, 0x80071510, 0x80071778), (197, 0x800819E0, 0x80082D1C), (198, 0x80081A00, 0x800834DC),
    (199, 0x80081B40, 0x80099244), (200, 0x80081B50, 0x80099288), (201, 0x80081B60, 0x80099468),
    (202, 0x80081B70, 0x800994AC), (203, 0x80081B80, 0x80083528), (204, 0x80081B90, 0x80082D1C),
    (205, 0x80071630, 0x80073BD4), (206, 0x80071650, 0x80074064), (207, 0x80071558, 0x00000000),
    (208, 0x80071590, 0x8007228C), (209, 0x80071610, 0x80072DF4), (210, 0x80082090, 0x80084388),
    (211, 0x800820B0, 0x80084554), (212, 0x800820A0, 0x80084604), (213, 0x8007138C, 0x00000000),
    (214, 0x800713EC, 0x00000000), (215, 0x80071430, 0x8007350C), (216, 0x80071450, 0x800735EC),
    (217, 0x80071578, 0x00000000), (218, 0x800715E0, 0x80072C90), (219, 0x80071534, 0x00000000),
    (220, 0x80071548, 0x80072BF0), (221, 0x800715C0, 0x80072700), (222, 0x80081D50, 0x80085248),
    (223, 0x800715A0, 0x800724C0), (224, 0x80081C78, 0x80083644), (225, 0x800715D0, 0x80072C2C),
    (226, 0x800715B0, 0x800725D8), (227, 0x80081D30, 0x80085128), (228, 0x80081C58, 0x800837A0),
    (229, 0x80081C98, 0x80083C44), (230, 0x800715F0, 0x80072CEC), (231, 0x80071600, 0x80072DA0),
    (232, 0x80081EC0, 0x80085CEC), (233, 0x80071620, 0x800738D8), (234, 0x80071640, 0x80073C0C),
    (235, 0x80081CF8, 0x00000000)]"

definition CENSUS_NAT :: "(int \<times> int \<times> int) list" where
  "CENSUS_NAT = CENSUS_NAT_low @ CENSUS_NAT_high"

definition TIMELINE_NAT_low :: "(int \<times> int) list" where
  "TIMELINE_NAT_low = [
    (0, 0x80081B00), (1, 0x80081B10), (2, 0x80081B20), (3, 0x80081B30),
    (4, 0x800711EC), (5, 0x80071214), (6, 0x8007123C), (7, 0x80071274),
    (8, 0x800712BC), (9, 0x800712CC), (10, 0x800712FC), (11, 0x8007132C),
    (12, 0x80071360), (13, 0x80071460), (14, 0x80071420), (15, 0x80071440),
    (16, 0x800714B0), (17, 0x800714C0), (18, 0x80071520), (19, 0x800714D0),
    (20, 0x800714E4), (21, 0x800713C0), (22, 0x80071530), (23, 0x80071488),
    (24, 0x800820E0), (25, 0x800820C0), (26, 0x800820D0), (27, 0x800820F0),
    (28, 0x80082100), (29, 0x80082110), (30, 0x80081C28), (31, 0x80081C38),
    (32, 0x80081C48), (33, 0x80081C68), (34, 0x80081CA8), (35, 0x80081CB8),
    (36, 0x80081CC8), (37, 0x80081CD8), (38, 0x80081CE8), (39, 0x80081D10),
    (40, 0x80081D20), (41, 0x80081D40), (42, 0x80081C88), (43, 0x80050F40),
    (44, 0x80050F50), (45, 0x80082040), (46, 0x80082050), (47, 0x80081DD0),
    (48, 0x80081DE0), (49, 0x80081DF0), (50, 0x80081DB0), (51, 0x80081DC0),
    (52, 0x80081D80), (53, 0x80081D60), (54, 0x80081D70), (55, 0x80081F10),
    (56, 0x80081F20), (57, 0x80081F44), (58, 0x80081F34), (59, 0x80082020),
    (60, 0x80081D90), (61, 0x80081DA0), (62, 0x80082124), (63, 0x8008213C),
    (64, 0x80082150), (65, 0x80082160), (66, 0x80082170), (67, 0x80081E00),
    (68, 0x80081E20), (69, 0x80081E30), (70, 0x80081E40), (71, 0x80081E50),
    (72, 0x80081E60), (73, 0x80081E70), (74, 0x80081E80), (75, 0x80081E90),
    (76, 0x80081EA0), (77, 0x80081EB0), (78, 0x80081ED0), (79, 0x80081EE0),
    (80, 0x80081F00), (81, 0x80081EF0), (82, 0x80082190), (83, 0x800821A0),
    (84, 0x800821B0), (85, 0x80081E10), (86, 0x800821C0), (87, 0x80081570),
    (88, 0x80081590), (89, 0x80081580), (90, 0x80081540), (91, 0x80081550),
    (92, 0x8008153C), (93, 0x800816E4), (94, 0x80081714), (95, 0x80081560),
    (96, 0x800816F4), (97, 0x80081704), (98, 0x80081640), (99, 0x80081650),
    (100, 0x800815B0), (101, 0x800815C0), (102, 0x80081610), (103, 0x80081620),
    (104, 0x80081684), (105, 0x80081694), (106, 0x800816B4), (107, 0x800816C4),
    (108, 0x800815E0), (109, 0x800815F0), (110, 0x80081654), (111, 0x80081664),
    (112, 0x80081724), (113, 0x80081734), (114, 0x80081744), (115, 0x80081754),
    (116, 0x80081764), (117, 0x800815A0)]"

definition TIMELINE_NAT_high :: "(int \<times> int) list" where
  "TIMELINE_NAT_high = [
    (118, 0x80081794), (119, 0x800817A4), (120, 0x800817C4), (121, 0x80081774),
    (122, 0x800817B4), (123, 0x800817D4), (124, 0x80081784), (125, 0x800817E4),
    (126, 0x80081804), (127, 0x800817F4), (128, 0x80081814), (129, 0x80081824),
    (130, 0x80081844), (131, 0x80081834), (132, 0x80081864), (133, 0x80081874),
    (134, 0x80081950), (135, 0x80081960), (136, 0x80081980), (137, 0x80081990),
    (138, 0x800819B0), (139, 0x800819C0), (140, 0x80081930), (141, 0x80081940),
    (142, 0x80081A10), (143, 0x80081A30), (144, 0x80081A40), (145, 0x80081A50),
    (146, 0x80081A20), (147, 0x80081A70), (148, 0x80081A90), (149, 0x80081AB0),
    (150, 0x80081A80), (151, 0x80081AA0), (152, 0x80081AC0), (153, 0x80081AD0),
    (154, 0x80081AE0), (155, 0x80081AF0), (156, 0x80082060), (157, 0x80082080),
    (158, 0x80082070), (159, 0x800865FC), (160, 0x800865EC), (161, 0x8008660C),
    (162, 0x8008663C), (163, 0x8008661C), (164, 0x8008662C), (165, 0x8008664C),
    (166, 0x8009CDC4), (167, 0x8009CDD4), (168, 0x8009CDE4), (169, 0x80085F04),
    (170, 0x80085F14), (171, 0x80081244), (172, 0x8008125C), (173, 0x80081274),
    (174, 0x80081218), (175, 0x80081298), (176, 0x800812BC), (177, 0x800812E0),
    (178, 0x80081350), (179, 0x80081450), (180, 0x80081438), (181, 0x800812F8),
    (182, 0x80081388), (183, 0x800813E0), (184, 0x80081488), (185, 0x800814C8),
    (186, 0x80082180), (187, 0x8009CCB4), (188, 0x8009CCCC), (189, 0x8009CD00),
    (190, 0x8009CD2C), (191, 0x8009CD40), (192, 0x80086414), (193, 0x80086424),
    (194, 0x80086434), (195, 0x80071500), (196, 0x80071510), (197, 0x800819E0),
    (198, 0x80081A00), (199, 0x80081B40), (200, 0x80081B50), (201, 0x80081B60),
    (202, 0x80081B70), (203, 0x80081B80), (204, 0x80081B90), (205, 0x80071630),
    (206, 0x80071650), (207, 0x80071558), (208, 0x80071590), (209, 0x80071610),
    (210, 0x80082090), (211, 0x800820B0), (212, 0x800820A0), (213, 0x8007138C),
    (214, 0x800713EC), (215, 0x80071430), (216, 0x80071450), (217, 0x80071578),
    (218, 0x800715E0), (219, 0x80071534), (220, 0x80071548), (221, 0x800715C0),
    (222, 0x80081D50), (223, 0x800715A0), (224, 0x80081C78), (225, 0x800715D0),
    (226, 0x800715B0), (227, 0x80081D30), (228, 0x80081C58), (229, 0x80081C98),
    (230, 0x800715F0), (231, 0x80071600), (232, 0x80081EC0), (233, 0x80071620),
    (234, 0x80071640), (235, 0x80081CF8)]"

definition TIMELINE_NAT :: "(int \<times> int) list" where
  "TIMELINE_NAT = TIMELINE_NAT_low @ TIMELINE_NAT_high"

definition GATES_NAT_low :: "(int \<times> int \<times> int) list" where
  "GATES_NAT_low = [
    (0, 0x80081B00, 0x80098F24), (1, 0x80081B10, 0x80098F58), (2, 0x80081B20, 0x800990CC),
    (3, 0x80081B30, 0x80099104), (4, 0x800711EC, 0x00000000), (5, 0x80071214, 0x00000000),
    (6, 0x8007123C, 0x00000000), (7, 0x80071274, 0x00000000), (8, 0x800712BC, 0x80071164),
    (9, 0x800712CC, 0x00000000), (10, 0x800712FC, 0x00000000), (11, 0x8007132C, 0x00000000),
    (12, 0x80071360, 0x00000000), (13, 0x80071460, 0x00000000), (14, 0x80071420, 0x80073428),
    (15, 0x80071440, 0x800735C0), (16, 0x800714B0, 0x800716F0), (17, 0x800714C0, 0x80071730),
    (18, 0x80071520, 0x80071770), (19, 0x800714D0, 0x8007193C), (20, 0x800714E4, 0x80071848),
    (21, 0x800713C0, 0x00000000), (22, 0x80071530, 0x00000000), (23, 0x80071488, 0x00000000),
    (24, 0x800820E0, 0x80082ECC), (25, 0x800820C0, 0x80082F44), (26, 0x800820D0, 0x80082F20),
    (27, 0x800820F0, 0x80082E54), (28, 0x80082100, 0x80082F64), (29, 0x80082110, 0x80085004),
    (30, 0x80081C28, 0x80083DC8), (31, 0x80081C38, 0x80083DEC), (32, 0x80081C48, 0x80083810),
    (33, 0x80081C68, 0x80083780), (34, 0x80081CA8, 0x80084008), (35, 0x80081CB8, 0x80084028),
    (36, 0x80081CC8, 0x80083F9C), (37, 0x80081CD8, 0x80083FD0), (38, 0x80081CE8, 0x80084050),
    (39, 0x80081D10, 0x8008409C), (40, 0x80081D20, 0x80085104), (41, 0x80081D40, 0x8008521C),
    (42, 0x80081C88, 0x80083B68), (43, 0x80050F40, 0x800513BC), (44, 0x80050F50, 0x8001E504),
    (45, 0x80082040, 0x800855AC), (46, 0x80082050, 0x80085668), (47, 0x80081DD0, 0x80085768),
    (48, 0x80081DE0, 0x800856E0), (49, 0x80081DF0, 0x800857DC), (50, 0x80081DB0, 0x80085530),
    (51, 0x80081DC0, 0x80085500), (52, 0x80081D80, 0x80085564), (53, 0x80081D60, 0x8008508C),
    (54, 0x80081D70, 0x800850B8), (55, 0x80081F10, 0x8008546C), (56, 0x80081F20, 0x80085004),
    (57, 0x80081F44, 0x800852A4), (58, 0x80081F34, 0x800852A4), (59, 0x80082020, 0x800852A4),
    (60, 0x80081D90, 0x80085578), (61, 0x80081DA0, 0x80085598), (62, 0x80082124, 0x80085004),
    (63, 0x8008213C, 0x80085004), (64, 0x80082150, 0x80084FE4), (65, 0x80082160, 0x80084FEC),
    (66, 0x80082170, 0x80084F84), (67, 0x80081E00, 0x8008589C), (68, 0x80081E20, 0x80085938),
    (69, 0x80081E30, 0x8008594C), (70, 0x80081E40, 0x80085964), (71, 0x80081E50, 0x80085A80),
    (72, 0x80081E60, 0x80085AD4), (73, 0x80081E70, 0x80085B0C), (74, 0x80081E80, 0x80085AE8),
    (75, 0x80081E90, 0x80085B2C), (76, 0x80081EA0, 0x80085B4C), (77, 0x80081EB0, 0x80085BDC),
    (78, 0x80081ED0, 0x80085CC8), (79, 0x80081EE0, 0x80085D10), (80, 0x80081F00, 0x80085D84),
    (81, 0x80081EF0, 0x80085DF4), (82, 0x80082190, 0x800859E0), (83, 0x800821A0, 0x80085A0C),
    (84, 0x800821B0, 0x80085A4C), (85, 0x80081E10, 0x8008506C), (86, 0x800821C0, 0x80085040),
    (87, 0x80081570, 0x80082A6C), (88, 0x80081590, 0x80082AFC), (89, 0x80081580, 0x80082AD8),
    (90, 0x80081540, 0x80082668), (91, 0x80081550, 0x80082690), (92, 0x8008153C, 0x80082668),
    (93, 0x800816E4, 0x800826B8), (94, 0x80081714, 0x800826E8), (95, 0x80081560, 0x80082790),
    (96, 0x800816F4, 0x800826E0), (97, 0x80081704, 0x800826E4), (98, 0x80081640, 0x80082738),
    (99, 0x80081650, 0x80082A2C), (100, 0x800815B0, 0x800829A4), (101, 0x800815C0, 0x80082D1C),
    (102, 0x80081610, 0x80082964), (103, 0x80081620, 0x80082D1C), (104, 0x80081684, 0x80082898),
    (105, 0x80081694, 0x80082D1C), (106, 0x800816B4, 0x800828DC), (107, 0x800816C4, 0x80082D1C),
    (108, 0x800815E0, 0x800829E8), (109, 0x800815F0, 0x80082D1C), (110, 0x80081654, 0x80082A2C),
    (111, 0x80081664, 0x80082D1C), (112, 0x80081724, 0x800827D0), (113, 0x80081734, 0x800827B0),
    (114, 0x80081744, 0x80082814), (115, 0x80081754, 0x80082834), (116, 0x80081764, 0x80082878),
    (117, 0x800815A0, 0x80080C54)]"

definition GATES_NAT_high :: "(int \<times> int \<times> int) list" where
  "GATES_NAT_high = [
    (118, 0x80081794, 0x80080FD0), (119, 0x800817A4, 0x80080F28), (120, 0x800817C4, 0x80080F98),
    (121, 0x80081774, 0x8008101C), (122, 0x800817B4, 0x80080F60), (123, 0x800817D4, 0x80080F7C),
    (124, 0x80081784, 0x80081154), (125, 0x800817E4, 0x80083230), (126, 0x80081804, 0x800832F0),
    (127, 0x800817F4, 0x800832BC), (128, 0x80081814, 0x8008327C), (129, 0x80081824, 0x8008319C),
    (130, 0x80081844, 0x80082D1C), (131, 0x80081834, 0x800831F0), (132, 0x80081864, 0x8008335C),
    (133, 0x80081874, 0x80082D1C), (134, 0x80081950, 0x800833EC), (135, 0x80081960, 0x80082D1C),
    (136, 0x80081980, 0x80083444), (137, 0x80081990, 0x80082D1C), (138, 0x800819B0, 0x80083490),
    (139, 0x800819C0, 0x80082D1C), (140, 0x80081930, 0x800833B4), (141, 0x80081940, 0x8008329C),
    (142, 0x80081A10, 0x8008229C), (143, 0x80081A30, 0x80082298), (144, 0x80081A40, 0x800822E8),
    (145, 0x80081A50, 0x80082D1C), (146, 0x80081A20, 0x800822C8), (147, 0x80081A70, 0x80082468),
    (148, 0x80081A90, 0x80082394), (149, 0x80081AB0, 0x800823E0), (150, 0x80081A80, 0x8008242C),
    (151, 0x80081AA0, 0x800823C0), (152, 0x80081AC0, 0x8008240C), (153, 0x80081AD0, 0x80082530),
    (154, 0x80081AE0, 0x80082578), (155, 0x80081AF0, 0x80082558), (156, 0x80082060, 0x80084530),
    (157, 0x80082080, 0x800845E4), (158, 0x80082070, 0x800846E4), (159, 0x800865FC, 0x80086CAC),
    (160, 0x800865EC, 0x80086C60), (161, 0x8008660C, 0x80086CF8), (162, 0x8008663C, 0x80086F48),
    (163, 0x8008661C, 0x80086E2C), (164, 0x8008662C, 0x80086EE8), (165, 0x8008664C, 0x80087064),
    (166, 0x8009CDC4, 0x8009CE00), (167, 0x8009CDD4, 0x8009CE2C), (168, 0x8009CDE4, 0x8009CE54),
    (169, 0x80085F04, 0x800861C4), (170, 0x80085F14, 0x8008621C), (171, 0x80081244, 0x80081200),
    (172, 0x8008125C, 0x80081200), (173, 0x80081274, 0x00000000), (174, 0x80081218, 0x00000000),
    (175, 0x80081298, 0x00000000), (176, 0x800812BC, 0x00000000), (177, 0x800812E0, 0x80081200),
    (178, 0x80081350, 0x80081200), (179, 0x80081450, 0x80081200), (180, 0x80081438, 0x80081200),
    (181, 0x800812F8, 0x00000000), (182, 0x80081388, 0x00000000), (183, 0x800813E0, 0x00000000),
    (184, 0x80081488, 0x80081200), (185, 0x800814C8, 0x80081200), (186, 0x80082180, 0x80084080),
    (187, 0x8009CCB4, 0x80080668), (188, 0x8009CCCC, 0x00000000), (189, 0x8009CD00, 0x8006734C),
    (190, 0x8009CD2C, 0x80067454), (191, 0x8009CD40, 0x800672F4), (192, 0x80086414, 0x80086480),
    (193, 0x80086424, 0x80086490), (194, 0x80086434, 0x800864E4), (195, 0x80071500, 0x800717AC),
    (196, 0x80071510, 0x80071778), (197, 0x800819E0, 0x80082D1C), (198, 0x80081A00, 0x800834DC),
    (199, 0x80081B40, 0x80099244), (200, 0x80081B50, 0x80099288), (201, 0x80081B60, 0x80099468),
    (202, 0x80081B70, 0x800994AC), (203, 0x80081B80, 0x80083528), (204, 0x80081B90, 0x80082D1C),
    (205, 0x80071630, 0x80073BD4), (206, 0x80071650, 0x80074064), (207, 0x80071558, 0x00000000),
    (208, 0x80071590, 0x8007228C), (209, 0x80071610, 0x80072DF4), (210, 0x80082090, 0x80084388),
    (211, 0x800820B0, 0x80084554), (212, 0x800820A0, 0x80084604), (213, 0x8007138C, 0x00000000),
    (214, 0x800713EC, 0x00000000), (215, 0x80071430, 0x8007350C), (216, 0x80071450, 0x800735EC),
    (217, 0x80071578, 0x00000000), (218, 0x800715E0, 0x80072C90), (219, 0x80071534, 0x00000000),
    (220, 0x80071548, 0x80072BF0), (221, 0x800715C0, 0x80072700), (222, 0x80081D50, 0x80085248),
    (223, 0x800715A0, 0x800724C0), (224, 0x80081C78, 0x80083644), (225, 0x800715D0, 0x80072C2C),
    (226, 0x800715B0, 0x800725D8), (227, 0x80081D30, 0x80085128), (228, 0x80081C58, 0x800837A0),
    (229, 0x80081C98, 0x80083C44), (230, 0x800715F0, 0x80072CEC), (231, 0x80071600, 0x80072DA0),
    (232, 0x80081EC0, 0x80085CEC), (233, 0x80071620, 0x800738D8), (234, 0x80071640, 0x80073C0C),
    (235, 0x80081CF8, 0x00000000)]"

definition GATES_NAT :: "(int \<times> int \<times> int) list" where
  "GATES_NAT = GATES_NAT_low @ GATES_NAT_high"

section \<open>The thunks are distinct\<close>

text \<open>
  Distinctness of a long list by sorting: a bottom-up merge sort, which the simplifier evaluates in
  \<open>n * log n\<close> comparisons.
\<close>

fun merge :: "int list \<Rightarrow> int list \<Rightarrow> int list" where
  "merge [] ys = ys"
| "merge xs [] = xs"
| "merge (x # xs) (y # ys) = (if x \<le> y then x # merge xs (y # ys) else y # merge (x # xs) ys)"

fun merge_pairs :: "int list list \<Rightarrow> int list list" where
  "merge_pairs (a # b # r) = merge a b # merge_pairs r"
| "merge_pairs r = r"

fun rounds :: "nat \<Rightarrow> int list list \<Rightarrow> int list list" where
  "rounds 0 r = r"
| "rounds (Suc n) r = rounds n (merge_pairs r)"

lemma mset_merge: "mset (merge xs ys) = mset xs + mset ys"
  by (induction xs ys rule: merge.induct) simp_all

lemma mset_merge_pairs: "mset (concat (merge_pairs r)) = mset (concat r)"
  by (induction r rule: merge_pairs.induct) (simp_all add: mset_merge)

lemma mset_rounds: "mset (concat (rounds n r)) = mset (concat r)"
  by (induction n arbitrary: r) (simp_all add: mset_merge_pairs)

lemma increasing_distinct: "successively (<) (xs :: int list) \<Longrightarrow> distinct xs"
  using successively_conv_sorted_wrt [of "(<) :: int \<Rightarrow> int \<Rightarrow> bool" xs] strict_sorted_iff [of xs] by (simp add: transp_on_def)

lemma distinct_by_rounds:
  assumes "successively (<) (concat (rounds n (map (\<lambda>x. [x]) xs)))"
  shows "distinct xs"
proof -
  have "mset (concat (rounds n (map (\<lambda>x. [x]) xs))) = mset xs"
    by (simp add: mset_rounds concat_map_singleton)
  with increasing_distinct [OF assms] show ?thesis by (metis mset_eq_imp_distinct_iff)
qed

definition shim :: "int \<times> int \<times> int \<Rightarrow> int" where
  "shim r = fst (snd r)"

text \<open>An address the page's profiler counts exactly: even, and an unsigned 32-bit number.\<close>

definition countable_address :: "int \<Rightarrow> bool" where
  "countable_address a \<longleftrightarrow> a mod 2 = 0 \<and> 0 \<le> a \<and> a < 4294967296"

lemma CENSUS_indices: "map fst CENSUS_NAT = [0..235]"
  by code_simp

lemma CENSUS_shims_distinct: "distinct (map shim CENSUS_NAT)"
  by (rule distinct_by_rounds [of 8]) code_simp

lemma CENSUS_shims_countable: "list_all (\<lambda>r. countable_address (shim r)) CENSUS_NAT"
  by code_simp

lemma GATES_is_CENSUS: "GATES_NAT = CENSUS_NAT"
  by code_simp

lemma TIMELINE_is_CENSUS: "TIMELINE_NAT = map (\<lambda>r. (fst r, shim r)) CENSUS_NAT"
  by code_simp

end
