(* ===== verification/Probe_Census.thy ===== *)
theory Probe_Census
  imports Probe_Base Probe_Natives
begin

text \<open>
  The census of module 1's natives over key presses (\<open>tools/probes/module1-census.js\<close>) and its timeline
  (\<open>module1-timeline.js\<close>): each takes snapshots of the profiler's counts at the thunks and reports the
  differences.  A JavaScript object indexed by native is a map, a report is a record.
\<close>

section \<open>Snapshots and differences\<close>

definition native_rows :: "(int \<times> int \<times> int) list \<Rightarrow> (int \<times> int) list" where
  "native_rows T = map (\<lambda>r. (fst r, shim r)) T"

definition snap :: "(int \<times> int) list \<Rightarrow> ('w, 'z) page_api_scheme \<Rightarrow> ('w, int \<rightharpoonup> int) act" where
  "snap rows G = read_counts (\<lambda>hits r. hitOf hits (snd r)) G rows"

definition census_snap :: "('w, 'z) page_api_scheme \<Rightarrow> ('w, int \<rightharpoonup> int) act" where
  "census_snap = snap (native_rows CENSUS_NAT)"

definition native_hex :: "int \<Rightarrow> string" where
  "native_hex i = ''0x'' @ pad_left 2 CHR ''0'' (js_upper (hex_string i))"

record census_call =
  cc_f :: string
  cc_n :: int
  cc_fn :: string

record census_diff =
  cd_total :: int
  cd_distinct :: int
  cd_calls :: "census_call list"

definition native_call :: "(int \<rightharpoonup> int) \<Rightarrow> (int \<rightharpoonup> int) \<Rightarrow> int \<times> int \<times> int \<Rightarrow> census_call" where
  "native_call a b r =
     \<lparr>cc_f = ''(1,'' @ native_hex (fst r) @ '')'', cc_n = rise a b (fst r), cc_fn = h8 (snd (snd r))\<rparr>"

text \<open>\<open>Array.prototype.sort\<close> is stable.\<close>

definition diff_counts :: "(int \<rightharpoonup> int) \<Rightarrow> (int \<rightharpoonup> int) \<Rightarrow> census_diff" where
  "diff_counts a b =
     (let calls = map (native_call a b) (filter (\<lambda>r. rise a b (fst r) > 0) CENSUS_NAT)
      in \<lparr>cd_total = sum_list (map cc_n calls), cd_distinct = int (length calls),
          cd_calls = sort_key (\<lambda>c. - cc_n c) calls\<rparr>)"

section \<open>The census\<close>

definition CENSUS_KEYS :: "(int \<times> string) list" where
  "CENSUS_KEYS = [(0x7D, ''guide''), (0x0C, ''backup''), (0x83, ''services''), (0x5C, ''select''), (0x3C, ''up'')]"

record census_key =
  ck_name :: string
  ck_diff :: census_diff
  ck_blits :: int

record census_report =
  cr_idle5s :: census_diff
  cr_keys :: "census_key list"
  cr_blitsAtStart :: int
  cr_tasks :: int

definition blits_logged :: "('w, 'z) page_api_scheme \<Rightarrow> ('w, int) act" where
  "blits_logged G = reading (\<lambda>w. int (length (g_blitLog G w)))"

definition press_window :: "('w, 'z) page_api_scheme \<Rightarrow> int \<times> string \<Rightarrow> ('w, census_key) act" where
  "press_window G k =
     seq (census_snap G) (\<lambda>a.
     seq (press_key G (fst k) 0) (\<lambda>_.
     seq (sleep G 6000) (\<lambda>_.
     seq (census_snap G) (\<lambda>b.
     seq (blits_logged G) (\<lambda>n.
     give \<lparr>ck_name = snd k, ck_diff = diff_counts a b, ck_blits = n\<rparr>)))))"

definition module1_census :: "('w, 'z) page_api_scheme \<Rightarrow> ('w, census_report) act" where
  "module1_census G =
     seq (doing (g_profile G)) (\<lambda>_.
     seq (census_snap G) (\<lambda>s0.
     seq (sleep G 5000) (\<lambda>_.
     seq (census_snap G) (\<lambda>s1.
     seq (blits_logged G) (\<lambda>n.
     seq (each (press_window G) CENSUS_KEYS) (\<lambda>ks.
     seq (reading (g_tasks G)) (\<lambda>t.
     give \<lparr>cr_idle5s = diff_counts s0 s1, cr_keys = ks, cr_blitsAtStart = n, cr_tasks = t\<rparr>)))))))"

section \<open>The timeline\<close>

definition timeline_snap :: "('w, 'z) page_api_scheme \<Rightarrow> ('w, int \<rightharpoonup> int) act" where
  "timeline_snap = snap TIMELINE_NAT"

definition delta :: "(int \<rightharpoonup> int) \<Rightarrow> (int \<rightharpoonup> int) \<Rightarrow> string list" where
  "delta a b =
     map (\<lambda>r. native_hex (fst r) @ ''x'' @ dec_string (rise a b (fst r)))
       (filter (\<lambda>r. rise a b (fst r) > 0) TIMELINE_NAT)"

definition ic :: "('w, 'z) page_api_scheme \<Rightarrow> 'w \<Rightarrow> int option" where
  "ic G w = parse_int 10 (filter (\<lambda>c. c \<noteq> CHR '','') (g_icount G w))"

text \<open>\<open>Math.round(d / 1e6)\<close>, which rounds halves up.\<close>

definition round_Mi :: "int \<Rightarrow> int" where
  "round_Mi d = (2 * d + 1000000) div 2000000"

definition Mi_since :: "int option \<Rightarrow> int option \<Rightarrow> int option" where
  "Mi_since now t0 = (case (now, t0) of (Some n, Some m) \<Rightarrow> Some (round_Mi (n - m)) | _ \<Rightarrow> None)"

record surface_view =
  sv_hash :: string
  sv_top :: "string list"

definition visible_plane :: "('w, 'z) page_api_scheme \<Rightarrow> 'w \<Rightarrow> int list" where
  "visible_plane G w = g_peek G w 0x80584048 (720 * 576)"

definition surface_top4 :: "int list \<Rightarrow> string list" where
  "surface_top4 bs =
     map (\<lambda>k. ''0x'' @ hex_string k @ '':'' @ dec_string (colour_count bs k))
       (take 4 (sort_key (\<lambda>k. - colour_count bs k) (colour_keys bs)))"

definition timeline_surface :: "('w, 'z) page_api_scheme \<Rightarrow> ('w, surface_view) act" where
  "timeline_surface G = reading (\<lambda>w. let bs = visible_plane G w in
     \<lparr>sv_hash = h8 (uint (surface_hash bs)), sv_top = surface_top4 bs\<rparr>)"

record bucket =
  bk_t :: int
  bk_Mi :: "int option"
  bk_nat :: "string list"
  bk_blits :: int
  bk_KEY :: "string option"
  bk_newBlits :: "string list option"

text \<open>The variables \<open>prev\<close> and \<open>nb\<close> of the probe.\<close>

record ticker =
  tk_prev :: "int \<rightharpoonup> int"
  tk_nb :: nat

definition tick :: "('w, 'z) page_api_scheme \<Rightarrow> int option \<Rightarrow> int \<times> string option \<Rightarrow> ticker
    \<Rightarrow> ('w, ticker \<times> bucket) act" where
  "tick G t0 tt k =
     seq (sleep G 2000) (\<lambda>_.
     seq (timeline_snap G) (\<lambda>s.
     seq (reading (g_blitLog G)) (\<lambda>bl.
     seq (reading (ic G)) (\<lambda>now.
     give (\<lparr>tk_prev = s, tk_nb = length bl\<rparr>,
       \<lparr>bk_t = fst tt, bk_Mi = Mi_since now t0, bk_nat = delta (tk_prev k) s, bk_blits = int (length bl),
        bk_KEY = snd tt,
        bk_newBlits = (if length bl \<noteq> tk_nb k then Some (map bl_json (drop (tk_nb k) bl)) else None)\<rparr>)))))"

fun ticks :: "('w, 'z) page_api_scheme \<Rightarrow> int option \<Rightarrow> (int \<times> string option) list \<Rightarrow> ticker
    \<Rightarrow> ('w, ticker \<times> bucket list) act" where
  "ticks G t0 [] k = give (k, [])"
| "ticks G t0 (tt # r) k =
     seq (tick G t0 tt k) (\<lambda>(k1, b). seq (ticks G t0 r k1) (\<lambda>(k2, bs). give (k2, b # bs)))"

definition before_ticks :: "(int \<times> string option) list" where
  "before_ticks = map (\<lambda>i. (i * 2, None)) [0..29]"

definition after_ticks :: "(int \<times> string option) list" where
  "after_ticks = map (\<lambda>j. (60 + j * 2, if j = 0 then Some ''guide 0x7D pressed'' else None)) [0..9]"

definition reported :: "bucket \<Rightarrow> bool" where
  "reported b \<longleftrightarrow> bk_nat b \<noteq> [] \<or> bk_newBlits b \<noteq> None \<or> bk_KEY b \<noteq> None"

record timeline_report =
  tl_pressed :: string
  tl_surfaceAtStart :: surface_view
  tl_surfaceAt60s :: surface_view
  tl_surfaceAtEnd :: surface_view
  tl_buckets :: "bucket list"
  tl_quietBuckets :: int
  tl_tasks :: int

definition module1_timeline :: "('w, 'z) page_api_scheme \<Rightarrow> ('w, timeline_report) act" where
  "module1_timeline G =
     seq (doing (g_profile G)) (\<lambda>_.
     seq (timeline_snap G) (\<lambda>prev.
     seq (reading (ic G)) (\<lambda>t0.
     seq (reading (\<lambda>w. length (g_blitLog G w))) (\<lambda>nb.
     seq (timeline_surface G) (\<lambda>surf0.
     seq (doing (g_shot G ''t0-before'')) (\<lambda>_.
     seq (ticks G t0 before_ticks \<lparr>tk_prev = prev, tk_nb = nb\<rparr>) (\<lambda>(k1, bs1).
     seq (timeline_surface G) (\<lambda>surfMid.
     seq (doing (g_shot G ''t60-no-key'')) (\<lambda>_.
     seq (press_key G 0x7D 0) (\<lambda>pressed.
     seq (ticks G t0 after_ticks k1) (\<lambda>(k2, bs2).
     seq (doing (g_shot G ''t80-after-key'')) (\<lambda>_.
     seq (timeline_surface G) (\<lambda>surfEnd.
     seq (reading (g_tasks G)) (\<lambda>t.
     give \<lparr>tl_pressed = pressed, tl_surfaceAtStart = surf0, tl_surfaceAt60s = surfMid,
       tl_surfaceAtEnd = surfEnd, tl_buckets = filter reported (bs1 @ bs2),
       tl_quietBuckets = int (length (filter (\<lambda>b. \<not> reported b) (bs1 @ bs2))),
       tl_tasks = t\<rparr>))))))))))))))"

section \<open>Facts about the snapshots\<close>

lemma CENSUS_countable: "r \<in> set CENSUS_NAT \<Longrightarrow> countable_address (shim r)"
  using CENSUS_shims_countable by (simp add: list_all_iff)

lemma CENSUS_fst_distinct: "distinct (map fst CENSUS_NAT)"
  by (simp only: CENSUS_indices distinct_upto)

lemma CENSUS_rows_countable: "countable_rows (native_rows CENSUS_NAT)"
  using CENSUS_fst_distinct CENSUS_countable
  by (auto simp: countable_rows_def native_rows_def comp_def countable_address_def)

lemma TIMELINE_rows: "TIMELINE_NAT = native_rows CENSUS_NAT"
  by (simp only: TIMELINE_is_CENSUS native_rows_def)

lemma snap_exact: "countable_rows rows \<Longrightarrow> snap rows G w = (Inr (counts_of G rows w), w)"
  unfolding snap_def by (rule read_counts_exact) (simp_all add: hitOf_def)

abbreviation native_counts :: "('w, 'z) page_api_scheme \<Rightarrow> 'w \<Rightarrow> int \<rightharpoonup> int" where
  "native_counts G w \<equiv> counts_of G (native_rows CENSUS_NAT) w"

lemma census_snap_exact [simp]: "census_snap G w = (Inr (native_counts G w), w)"
  unfolding census_snap_def by (rule snap_exact [OF CENSUS_rows_countable])

lemma timeline_snap_exact [simp]: "timeline_snap G w = (Inr (native_counts G w), w)"
  unfolding timeline_snap_def TIMELINE_rows by (rule snap_exact [OF CENSUS_rows_countable])

lemma native_counts_at:
  assumes "r \<in> set CENSUS_NAT"
  shows "native_counts G w (fst r) = Some (hits_at G w (shim r))"
proof -
  have "(fst r, hits_at G w (shim r)) \<in> set (map (\<lambda>r. (fst r, hits_at G w (snd r))) (native_rows CENSUS_NAT))"
    using assms by (force simp: native_rows_def)
  then show ?thesis
    using CENSUS_fst_distinct by (simp add: counts_of_def native_rows_def comp_def)
qed

lemma rise_counts:
  "r \<in> set CENSUS_NAT \<Longrightarrow>
    rise (native_counts G w) (native_counts G w') (fst r) = hits_at G w' (shim r) - hits_at G w (shim r)"
  by (simp add: rise_def native_counts_at)

section \<open>The thunks are counted apart\<close>

definition cells_of :: "int \<Rightarrow> int set" where
  "cells_of a = {to_u32 a, to_u32 (a OR 1)}"

lemma even_or_one: "a mod 2 = 0 \<Longrightarrow> a OR 1 = (a :: int) + 1"
  by (simp add: or_one_eq even_iff_mod_2_eq_zero)

lemma cells_even: "countable_address a \<Longrightarrow> cells_of a = {a, a + 1}"
  by (auto simp: cells_of_def countable_address_def even_or_one to_u32_def take_bit_int_eq_self)

text \<open>
  The census is exact.  The 236 thunks are at distinct even addresses, so that no cell of the
  profiler's histogram is counted under two natives; the three probes carry the same table, and the
  natives are numbered from 0 to 235.
\<close>

theorem thunks_counted_apart:
  "map fst CENSUS_NAT = [0..235] \<and> GATES_NAT = CENSUS_NAT \<and> TIMELINE_NAT = native_rows CENSUS_NAT \<and>
   pairwise (\<lambda>a b. disjnt (cells_of a) (cells_of b)) (set (map shim CENSUS_NAT)) \<and>
   distinct (map shim CENSUS_NAT)"
proof -
  have "disjnt (cells_of (shim r)) (cells_of (shim q))"
    if "r \<in> set CENSUS_NAT" "q \<in> set CENSUS_NAT" "shim r \<noteq> shim q" for r q
  proof -
    have "shim r mod 2 = 0" "shim q mod 2 = 0"
      using that CENSUS_countable by (auto simp: countable_address_def)
    with that(3) have "shim r + 1 \<noteq> shim q" "shim q + 1 \<noteq> shim r" by presburger+
    with that show ?thesis by (simp add: cells_even CENSUS_countable disjnt_def)
  qed
  then show ?thesis
    by (auto simp: pairwise_def CENSUS_indices GATES_is_CENSUS TIMELINE_rows CENSUS_shims_distinct)
qed

section \<open>The differences\<close>

text \<open>
  The report of a window.  It names exactly the natives whose count rose, from the most called
  down, and its totals are those of its lines.
\<close>

theorem diff_counts_ranked:
  "sorted (map (\<lambda>c. - cc_n c) (cd_calls (diff_counts a b))) \<and>
   cd_distinct (diff_counts a b) = int (length (cd_calls (diff_counts a b))) \<and>
   cd_total (diff_counts a b) = sum_list (map cc_n (cd_calls (diff_counts a b))) \<and>
   mset (cd_calls (diff_counts a b)) =
     image_mset (native_call a b) (filter_mset (\<lambda>r. rise a b (fst r) > 0) (mset CENSUS_NAT))"
proof -
  have s: "sum_list (map cc_n (sort_key (\<lambda>c. - cc_n c) xs)) = sum_list (map cc_n xs)" for xs
    by (simp flip: sum_mset_sum_list)
  show ?thesis
    unfolding diff_counts_def Let_def census_diff.simps s by (simp only: sorted_sort_key length_sort mset_sort mset_map mset_filter simp_thms)
qed

lemma sum_positive_part:
  "(\<And>x. x \<in> set xs \<Longrightarrow> (0 :: int) \<le> f x) \<Longrightarrow> sum_list (map f (filter (\<lambda>x. f x > 0) xs)) = sum_list (map f xs)"
proof (induction xs)
  case (Cons x xs)
  have "0 \<le> f x" "sum_list (map f (filter (\<lambda>x. f x > 0) xs)) = sum_list (map f xs)"
    using Cons by simp_all
  then show ?case by simp
qed simp

definition calls_seen :: "('w, 'z) page_api_scheme \<Rightarrow> 'w \<Rightarrow> int" where
  "calls_seen G w = sum_list (map (\<lambda>r. hits_at G w (shim r)) CENSUS_NAT)"

lemma diff_total:
  assumes "\<And>a. g_hist G w a \<le> g_hist G w' a"
  shows "cd_total (diff_counts (native_counts G w) (native_counts G w')) = calls_seen G w' - calls_seen G w"
proof -
  let ?f = "\<lambda>r. rise (native_counts G w) (native_counts G w') (fst r)"
  have f: "?f r = hits_at G w' (shim r) - hits_at G w (shim r)" if "r \<in> set CENSUS_NAT" for r
    using that by (rule rise_counts)
  have "cd_total (diff_counts (native_counts G w) (native_counts G w'))
      = sum_list (map ?f (filter (\<lambda>r. ?f r > 0) CENSUS_NAT))"
    by (simp add: diff_counts_def native_call_def comp_def)
  also have "\<dots> = sum_list (map ?f CENSUS_NAT)"
    by (rule sum_positive_part) (auto simp: f hits_at_def intro: add_mono assms)
  also have "\<dots> = sum_list (map (\<lambda>r. hits_at G w' (shim r) - hits_at G w (shim r)) CENSUS_NAT)"
    by (rule arg_cong [where f = sum_list], rule map_cong [OF refl f])
  also have "\<dots> = calls_seen G w' - calls_seen G w"
    by (simp add: calls_seen_def sum_list_subtractf)
  finally show ?thesis .
qed

text \<open>The profiler's counts never fall while the probe waits or presses a key.\<close>

definition counts_up :: "('w, 'z) page_api_scheme \<Rightarrow> bool" where
  "counts_up G \<longleftrightarrow> (\<forall>w a ms. g_hist G w a \<le> g_hist G (g_wait G ms w) a) \<and>
     (\<forall>w a raw src. g_hist G w a \<le> g_hist G (snd (g_key G raw src w)) a)"

lemma counts_up_wait: "counts_up G \<Longrightarrow> g_hist G w a \<le> g_hist G (g_wait G ms w) a"
  by (simp add: counts_up_def)

lemma counts_up_press:
  "counts_up G \<Longrightarrow> g_hist G w a \<le> g_hist G (g_wait G ms (snd (g_key G raw src w))) a"
  unfolding counts_up_def by (meson order_trans)

lemma press_window_accounts:
  assumes "counts_up G"
  shows "\<exists>R w'. press_window G k w = (Inr R, w') \<and> cd_total (ck_diff R) = calls_seen G w' - calls_seen G w"
proof -
  let ?w = "g_wait G 6000 (snd (g_key G (fst k) 0 w))"
  have "press_window G k w = (Inr \<lparr>ck_name = snd k, ck_diff = diff_counts (native_counts G w) (native_counts G ?w),
      ck_blits = int (length (g_blitLog G ?w))\<rparr>, ?w)"
    by (simp add: press_window_def seq_def press_key_def sleep_def blits_logged_def Let_def split_beta)
  then show ?thesis using diff_total [OF counts_up_press [OF assms]] by auto
qed

lemma press_windows_account:
  assumes "counts_up G"
  shows "\<exists>Rs w'. each (press_window G) ks w = (Inr Rs, w') \<and>
    sum_list (map (\<lambda>R. cd_total (ck_diff R)) Rs) = calls_seen G w' - calls_seen G w"
proof (induction ks arbitrary: w)
  case (Cons k ks)
  obtain R w1 where 1: "press_window G k w = (Inr R, w1)" "cd_total (ck_diff R) = calls_seen G w1 - calls_seen G w"
    using press_window_accounts [OF assms] by blast
  obtain Rs w2 where 2: "each (press_window G) ks w1 = (Inr Rs, w2)"
      "sum_list (map (\<lambda>R. cd_total (ck_diff R)) Rs) = calls_seen G w2 - calls_seen G w1"
    using Cons.IH by blast
  from 1 2 show ?case by (simp add: seq_def)
qed simp

text \<open>
  C16.  The census accounts for every call.  Where the profiler's counts never fall, the probe never
  raises, and the totals of its idle window and of its key windows add up to the calls made from its
  first snapshot to its end: no call falls between two windows and none is counted twice.
\<close>

theorem census_accounts:
  assumes "counts_up G"
  shows "\<exists>R w'. module1_census G w = (Inr R, w') \<and>
    cd_total (cr_idle5s R) + sum_list (map (\<lambda>k. cd_total (ck_diff k)) (cr_keys R))
      = calls_seen G w' - calls_seen G (g_profile G w)"
proof -
  let ?w0 = "g_profile G w" and ?w1 = "g_wait G 5000 (g_profile G w)"
  obtain Rs w' where 1: "each (press_window G) CENSUS_KEYS ?w1 = (Inr Rs, w')"
      "sum_list (map (\<lambda>R. cd_total (ck_diff R)) Rs) = calls_seen G w' - calls_seen G ?w1"
    using press_windows_account [OF assms] by blast
  have "module1_census G w = (Inr \<lparr>cr_idle5s = diff_counts (native_counts G ?w0) (native_counts G ?w1),
      cr_keys = Rs, cr_blitsAtStart = int (length (g_blitLog G ?w1)), cr_tasks = g_tasks G w'\<rparr>, w')"
    by (simp add: module1_census_def seq_def sleep_def blits_logged_def 1(1))
  then show ?thesis using 1(2) diff_total [OF counts_up_wait [OF assms]] by auto
qed

text \<open>A page whose one profiled thunk runs once a second, and which logs a blit on every key.\<close>

definition ticking_page :: "(int \<times> blit list) page_api" where
  "ticking_page = \<lparr>g_hist = (\<lambda>w a. if a = 0x80081B00 then fst w else 0), g_profile = (\<lambda>w. w),
     g_wait = (\<lambda>ms w. (fst w + max 0 (ms div 1000), snd w)), g_peek = (\<lambda>w a n. replicate n 0),
     g_poke = (\<lambda>a bs w. w),
     g_key = (\<lambda>raw src w. (''sent'', (fst w, snd w @ [\<lparr>bl_json = ''{}'', bl_note = None\<rparr>]))),
     g_blitLog = snd, g_tasks = (\<lambda>w. 42), g_shot = (\<lambda>n w. w), g_icount = (\<lambda>w. ''1,000'')\<rparr>"

theorem census_accounts_witness:
  "\<exists>R w'. module1_census ticking_page (0, []) = (Inr R, w') \<and>
    cd_total (cr_idle5s R) + sum_list (map (\<lambda>k. cd_total (ck_diff k)) (cr_keys R))
      = calls_seen ticking_page w' - calls_seen ticking_page (g_profile ticking_page (0, []))"
  by (rule census_accounts) (simp add: counts_up_def ticking_page_def)

section \<open>The timeline reports every blit\<close>

text \<open>The page's blit log is append-only.\<close>

definition log_appends :: "('w, 'z) page_api_scheme \<Rightarrow> bool" where
  "log_appends G \<longleftrightarrow> (\<forall>ms w. prefix (g_blitLog G w) (g_blitLog G (g_wait G ms w))) \<and>
     (\<forall>raw src w. prefix (g_blitLog G w) (g_blitLog G (snd (g_key G raw src w)))) \<and>
     (\<forall>n w. prefix (g_blitLog G w) (g_blitLog G (g_shot G n w))) \<and>
     (\<forall>w. prefix (g_blitLog G w) (g_blitLog G (g_profile G w)))"

definition news :: "bucket \<Rightarrow> string list" where
  "news b = (case bk_newBlits b of None \<Rightarrow> [] | Some xs \<Rightarrow> xs)"

text \<open>What the buckets have reported when the counter stands at \<open>nb\<close>.\<close>

definition logged :: "('w, 'z) page_api_scheme \<Rightarrow> 'w \<Rightarrow> nat \<Rightarrow> string list" where
  "logged G w nb = map bl_json (take nb (g_blitLog G w))"

lemma logged_stable: "prefix (g_blitLog G w) (g_blitLog G w') \<Longrightarrow> nb \<le> length (g_blitLog G w) \<Longrightarrow> logged G w' nb = logged G w nb"
  by (auto simp: logged_def prefix_def)

lemma tick_reports:
  assumes "log_appends G" "tk_nb k \<le> length (g_blitLog G w)"
  shows "\<exists>k' b. tick G t0 tt k w = (Inr (k', b), g_wait G 2000 w) \<and>
    tk_nb k' = length (g_blitLog G (g_wait G 2000 w)) \<and>
    logged G w (tk_nb k) @ news b = logged G (g_wait G 2000 w) (tk_nb k')"
proof -
  let ?l = "g_blitLog G (g_wait G 2000 w)"
  have "prefix (g_blitLog G w) ?l" using assms(1) by (simp add: log_appends_def)
  then have t: "take (tk_nb k) (g_blitLog G w) = take (tk_nb k) ?l"
    using assms(2) by (auto simp: prefix_def)
  have "map bl_json (take (tk_nb k) ?l) @ map bl_json (drop (tk_nb k) ?l) = map bl_json ?l"
    by (simp only: flip: map_append) simp
  then show ?thesis
    by (auto simp: tick_def sleep_def seq_def news_def logged_def t)
qed

lemma ticks_report:
  assumes "log_appends G" "tk_nb k \<le> length (g_blitLog G w)"
  shows "\<exists>k' bs w'. ticks G t0 tts k w = (Inr (k', bs), w') \<and> length bs = length tts \<and>
    tk_nb k' \<le> length (g_blitLog G w') \<and> (tts \<noteq> [] \<longrightarrow> tk_nb k' = length (g_blitLog G w')) \<and>
    logged G w (tk_nb k) @ concat (map news bs) = logged G w' (tk_nb k')"
  using assms(2)
proof (induction tts arbitrary: k w)
  case (Cons tt tts)
  obtain k1 b where 1: "tick G t0 tt k w = (Inr (k1, b), g_wait G 2000 w)"
      "tk_nb k1 = length (g_blitLog G (g_wait G 2000 w))"
      "logged G w (tk_nb k) @ news b = logged G (g_wait G 2000 w) (tk_nb k1)"
    using tick_reports [OF assms(1) Cons.prems] by blast
  obtain k2 bs w2 where 2: "ticks G t0 tts k1 (g_wait G 2000 w) = (Inr (k2, bs), w2)" "length bs = length tts"
      "tk_nb k2 \<le> length (g_blitLog G w2)" "tts \<noteq> [] \<longrightarrow> tk_nb k2 = length (g_blitLog G w2)"
      "logged G (g_wait G 2000 w) (tk_nb k1) @ concat (map news bs) = logged G w2 (tk_nb k2)"
    using Cons.IH [of k1 "g_wait G 2000 w"] 1(2) by auto
  have "tk_nb k2 = length (g_blitLog G w2)"
    using 2 1(2) by (cases tts) auto
  with 1 2 show ?case by (simp add: seq_def flip: append_assoc)
qed simp

lemma quiet_has_no_news: "\<not> reported b \<Longrightarrow> news b = []"
  by (simp add: reported_def news_def)

lemma news_of_reported: "concat (map news (filter reported bs)) = concat (map news bs)"
  by (induction bs) (simp_all add: quiet_has_no_news)

text \<open>
  The timeline loses nothing.  Where the page's log is append-only the probe never raises, every one
  of its forty buckets is either reported or counted as quiet, and the blits of the reported buckets,
  read in order, are exactly the entries logged between its start and its last sample.
\<close>

theorem timeline_reports_every_blit:
  assumes "log_appends G"
  shows "\<exists>R w'. module1_timeline G w = (Inr R, g_shot G ''t80-after-key'' w') \<and>
    int (length (tl_buckets R)) + tl_quietBuckets R = 40 \<and>
    map bl_json (g_blitLog G (g_profile G w)) @ concat (map news (tl_buckets R)) = map bl_json (g_blitLog G w')"
proof -
  let ?w0 = "g_profile G w"
  let ?n = "length (g_blitLog G ?w0)"
  let ?w1 = "g_shot G ''t0-before'' ?w0"
  have p1: "prefix (g_blitLog G ?w0) (g_blitLog G ?w1)" using assms by (simp add: log_appends_def)
  then have n1: "?n \<le> length (g_blitLog G ?w1)" by (rule prefix_length_le)
  define k0 where "k0 = \<lparr>tk_prev = native_counts G ?w0, tk_nb = ?n\<rparr>"
  have nb0: "tk_nb k0 = ?n" by (simp add: k0_def)
  obtain k1 bs1 w2 where 1: "ticks G (ic G ?w0) before_ticks k0 ?w1 = (Inr (k1, bs1), w2)"
      "length bs1 = length before_ticks" "tk_nb k1 \<le> length (g_blitLog G w2)"
      "logged G ?w1 ?n @ concat (map news bs1) = logged G w2 (tk_nb k1)"
    using ticks_report [OF assms, of k0 ?w1] n1 unfolding nb0 by blast
  let ?w3 = "snd (g_key G 0x7D 0 (g_shot G ''t60-no-key'' w2))"
  have p3: "prefix (g_blitLog G w2) (g_blitLog G ?w3)"
    using assms unfolding log_appends_def by (meson prefix_order.trans)
  then have n3: "tk_nb k1 \<le> length (g_blitLog G ?w3)" using 1(3) prefix_length_le by fastforce
  obtain k2 bs2 w4 where 2: "ticks G (ic G ?w0) after_ticks k1 ?w3 = (Inr (k2, bs2), w4)"
      "length bs2 = length after_ticks" "tk_nb k2 = length (g_blitLog G w4)"
      "logged G ?w3 (tk_nb k1) @ concat (map news bs2) = logged G w4 (tk_nb k2)"
    using ticks_report [OF assms n3, of "ic G ?w0" after_ticks] by (force simp: after_ticks_def)
  have len: "length bs1 = 30" "length bs2 = 10"
    using 1(2) 2(2) by (simp_all add: before_ticks_def after_ticks_def)
  have all: "map bl_json (g_blitLog G ?w0) @ concat (map news (bs1 @ bs2)) = map bl_json (g_blitLog G w4)"
    using 1(4) 2(3,4) logged_stable [OF p1] logged_stable [OF p3 1(3)]
    by (simp add: logged_def flip: append_assoc)
  have "\<exists>R. module1_timeline G w = (Inr R, g_shot G ''t80-after-key'' w4) \<and>
      tl_buckets R = filter reported (bs1 @ bs2) \<and>
      tl_quietBuckets R = int (length (filter (\<lambda>b. \<not> reported b) (bs1 @ bs2)))"
    by (simp add: module1_timeline_def seq_def press_key_def timeline_surface_def Let_def split_beta
        1(1) [unfolded k0_def] 2(1))
  moreover have "length (filter reported (bs1 @ bs2)) + length (filter (\<lambda>b. \<not> reported b) (bs1 @ bs2)) = 40"
    using sum_length_filter_compl [of reported "bs1 @ bs2"] len by simp
  ultimately show ?thesis using all by (auto simp: news_of_reported simp del: filter_append map_append)
qed

theorem timeline_reports_every_blit_witness:
  "\<exists>R w'. module1_timeline ticking_page (0, []) = (Inr R, g_shot ticking_page ''t80-after-key'' w') \<and>
    int (length (tl_buckets R)) + tl_quietBuckets R = 40 \<and>
    map bl_json (g_blitLog ticking_page (g_profile ticking_page (0, []))) @ concat (map news (tl_buckets R))
      = map bl_json (g_blitLog ticking_page w')"
  by (rule timeline_reports_every_blit) (simp add: log_appends_def ticking_page_def)

end
