(* ===== verification/Probe_Memory.thy ===== *)
theory Probe_Memory
  imports Probe_Base Page_Memory
begin

text \<open>
  How the probes read and write the box's memory through \<open>__peek\<close> and \<open>__poke\<close>.  The locale states what
  they rely on; it is interpreted on the page's own \<open>load\<close> and \<open>store\<close> (\<open>reference/digibox-boot.html\<close>),
  for ranges of the DRAM's cached alias.
\<close>

section \<open>Big-endian words\<close>

text \<open>An element past the end of an array is \<open>undefined\<close>, which the shifts turn into 0.\<close>

definition at0 :: "int list \<Rightarrow> nat \<Rightarrow> int" where
  "at0 bs i = (if i < length bs then bs ! i else 0)"

definition be32 :: "int list \<Rightarrow> int" where
  "be32 b = to_u32 (push_bit 24 (at0 b 0) OR push_bit 16 (at0 b 1) OR push_bit 8 (at0 b 2) OR at0 b 3)"

definition b32 :: "('w, 'z) page_api_scheme \<Rightarrow> 'w \<Rightarrow> int \<Rightarrow> int" where
  "b32 G w a = be32 (g_peek G w a 4)"

definition word_bytes :: "int \<Rightarrow> int list" where
  "word_bytes v = [drop_bit 24 (to_u32 v) AND 255, drop_bit 16 (to_u32 v) AND 255,
                   drop_bit 8 (to_u32 v) AND 255, v AND 255]"

definition poke32 :: "('w, 'z) page_api_scheme \<Rightarrow> int \<Rightarrow> int \<Rightarrow> ('w, unit) act" where
  "poke32 G a v = doing (g_poke G a (word_bytes v))"

lemma length_word_bytes [simp]: "length (word_bytes v) = 4"
  by (simp add: word_bytes_def)

lemma byte_list_word_bytes [simp]: "byte_list (word_bytes v)"
  using and_mask_range [of 255 8] by (simp add: word_bytes_def)

lemma be32_word_bytes: "be32 (word_bytes v) = to_u32 v"
  by (rule bit_eqI) (auto simp: be32_def word_bytes_def at0_def to_u32_def int_and_take bit_simps)

section \<open>The contract\<close>

text \<open>\<open>store_range a n\<close>: the \<open>n\<close> bytes from \<open>a\<close> are storage.\<close>

locale ram_hooks =
  fixes peek :: "'w \<Rightarrow> int \<Rightarrow> nat \<Rightarrow> int list"
    and poke :: "int \<Rightarrow> int list \<Rightarrow> 'w \<Rightarrow> 'w"
    and store_range :: "int \<Rightarrow> nat \<Rightarrow> bool"
  assumes peek_bytes: "store_range a n \<Longrightarrow> length (peek w a n) = n \<and> byte_list (peek w a n)"
    and peek_own: "store_range a (length bs) \<Longrightarrow> byte_list bs \<Longrightarrow> peek (poke a bs w) a (length bs) = bs"
    and peek_apart: "store_range a (length bs) \<Longrightarrow> byte_list bs \<Longrightarrow> store_range b n \<Longrightarrow>
      a + int (length bs) \<le> b \<or> b + int n \<le> a \<Longrightarrow> peek (poke a bs w) b n = peek w b n"
begin

lemma word_back: "store_range a 4 \<Longrightarrow> be32 (peek (poke a (word_bytes v) w) a 4) = to_u32 v"
  using peek_own [of a "word_bytes v" w] by (simp add: be32_word_bytes)

lemma word_apart:
  assumes "store_range a 4" "store_range b 4" "a + 4 \<le> b \<or> b + 4 \<le> a"
  shows "be32 (peek (poke a (word_bytes v) w) b 4) = be32 (peek w b 4)"
  using peek_apart [of a "word_bytes v" b 4 w] assms by simp

text \<open>Writing back what was read restores the range, whatever happened in between.\<close>

lemma restore: "store_range a n \<Longrightarrow> peek (poke a (peek w a n) w') a n = peek w a n"
  using peek_own [of a "peek w a n" w'] peek_bytes [of a n w] by simp

end

section \<open>The page's hooks\<close>

definition page_peek :: "'d devops \<Rightarrow> 'd page \<Rightarrow> int \<Rightarrow> nat \<Rightarrow> int list" where
  "page_peek D p a n = map (\<lambda>i. uint (fst (page_load D p (word_of_int (a + int i)) 1))) [0..<n]"

fun page_poke :: "'d devops \<Rightarrow> int \<Rightarrow> int list \<Rightarrow> 'd page \<Rightarrow> 'd page" where
  "page_poke D a [] p = p"
| "page_poke D a (b # bs) p = page_poke D (a + 1) bs (page_store D p (word_of_int a) 1 (word_of_int (b AND 255)))"

definition dram_range :: "int \<Rightarrow> nat \<Rightarrow> bool" where
  "dram_range a n \<longleftrightarrow> RAM_K0 \<le> a \<and> a + int n \<le> RAM_K0 + RAM_SIZE"

definition ram_byte :: "'d page \<Rightarrow> int \<Rightarrow> int" where
  "ram_byte p a = uint (pg_ram p (a - RAM_K0))"

lemma byte_store_load:
  fixes v :: "8 word"
  shows "uint (ucast v :: u32) = uint v"
  by (simp add: unsigned_ucast_eq take_bit_int_eq_self order.strict_trans2 [OF uint_lt2p])

lemma ram_byte_list: "byte_list (map (\<lambda>i. ram_byte p (f i)) is)"
proof -
  have "uint (v :: 8 word) < 256" for v using uint_lt2p [of v] by simp
  then show ?thesis by (simp add: byte_list_def ram_byte_def list_all_iff)
qed

lemma dram_phys: "RAM_K0 \<le> a \<Longrightarrow> a < RAM_K0 + RAM_SIZE \<Longrightarrow> ramPhys (word_of_int a) = a - RAM_K0"
  by (simp add: ramPhys_def unsigned_of_int take_bit_int_eq_self)

lemma page_peek_ram:
  assumes "dram_range a n"
  shows "page_peek D p a n = map (\<lambda>i. ram_byte p (a + int i)) [0..<n]"
  unfolding page_peek_def
proof (intro map_cong refl)
  fix i
  assume "i \<in> set [0..<n]"
  then have i: "RAM_K0 \<le> a + int i" "a + int i < RAM_K0 + RAM_SIZE" using assms by (auto simp: dram_range_def)
  show "uint (fst (page_load D p (word_of_int (a + int i)) 1)) = ram_byte p (a + int i)"
    using i unfolding page_load_def dram_phys [OF i]
    by (simp add: Let_def ram_load_def ram_get_def ram_byte_def byte_store_load)
qed

lemma poke_one:
  assumes "RAM_K0 \<le> a" "a < RAM_K0 + RAM_SIZE" "0 \<le> b" "b < 256"
  shows "ram_byte (page_store D p (word_of_int a) 1 (word_of_int (b AND 255))) x = (if x = a then b else ram_byte p x)"
proof -
  have "uint (ucast (word_of_int (b AND 255) AND 255 :: u32) :: 8 word) = b"
    using assms by (simp add: unsigned_ucast_eq int_and_take uint_and unsigned_of_int take_bit_int_eq_self)
  then show ?thesis
    using assms by (auto simp: page_store_def dram_phys ram_store_def ram_set_def ram_byte_def Let_def)
qed

lemma page_poke_ram:
  assumes "dram_range a (length bs)" "byte_list bs"
  shows "ram_byte (page_poke D a bs p) x =
    (if a \<le> x \<and> x < a + int (length bs) then bs ! nat (x - a) else ram_byte p x)"
  using assms
proof (induction bs arbitrary: a p)
  case (Cons b bs)
  let ?p = "page_store D p (word_of_int a) 1 (word_of_int (b AND 255))"
  have "dram_range (a + 1) (length bs)" using Cons.prems by (simp add: dram_range_def)
  then have 1: "ram_byte (page_poke D (a + 1) bs ?p) x =
      (if a + 1 \<le> x \<and> x < a + 1 + int (length bs) then bs ! nat (x - (a + 1)) else ram_byte ?p x)"
    using Cons by simp
  have 2: "ram_byte ?p x = (if x = a then b else ram_byte p x)"
    using Cons.prems by (intro poke_one) (simp_all add: dram_range_def)
  have "nat (x - a) = Suc (nat (x - (a + 1)))" if "a + 1 \<le> x" using that by linarith
  then show ?case unfolding page_poke.simps 1 2 by auto
qed simp

interpretation dram_bytes: ram_hooks "page_peek D" "page_poke D" dram_range for D :: "'d devops"
proof unfold_locales
  fix w :: "'d page" and a n
  assume "dram_range a n"
  then show "length (page_peek D w a n) = n \<and> byte_list (page_peek D w a n)"
    by (simp add: page_peek_ram ram_byte_list)
next
  fix w :: "'d page" and a bs
  assume "dram_range a (length bs)" "byte_list bs"
  then show "page_peek D (page_poke D a bs w) a (length bs) = bs"
    by (intro nth_equalityI) (simp_all add: page_peek_ram page_poke_ram)
next
  fix w :: "'d page" and a b n and bs :: "int list"
  assume r: "dram_range a (length bs)" "byte_list bs" "dram_range b n" "a + int (length bs) \<le> b \<or> b + int n \<le> a"
  show "page_peek D (page_poke D a bs w) b n = page_peek D w b n"
    using r by (auto simp: page_peek_ram page_poke_ram)
qed

text \<open>A page seen through its hooks: its memory is the DRAM, everything else is arbitrary.\<close>

definition page_hooks :: "'d devops \<Rightarrow> ('d page, 'z) page_api_scheme \<Rightarrow> ('d page, 'z) page_api_scheme" where
  "page_hooks D G = G\<lparr>g_peek := page_peek D, g_poke := page_poke D\<rparr>"

text \<open>
  A word the probes poke is the word they read.  Through the page's own \<open>load\<close> and \<open>store\<close>, a word
  written to the DRAM reads back modulo \<open>2 ^ 32\<close>, and every word that does not overlap it reads as
  before.
\<close>

theorem poked_word_reads_back:
  assumes "dram_range a 4" "dram_range b 4" "b = a \<or> a + 4 \<le> b \<or> b + 4 \<le> a"
  shows "b32 (page_hooks D G) (snd (poke32 (page_hooks D G) a v p)) b =
    (if b = a then to_u32 v else b32 (page_hooks D G) p b)"
  using assms dram_bytes.word_back [of a D v p] dram_bytes.word_apart [of a b D v p]
  by (auto simp: b32_def poke32_def page_hooks_def)

theorem poked_word_reads_back_witness:
  "\<forall>(G :: unit page page_api) p. b32 (page_hooks no_dev G) (snd (poke32 (page_hooks no_dev G) 0x80054F84 0 p)) 0x80054F84 =
    (if (0x80054F84 :: int) = 0x80054F84 then to_u32 0 else b32 (page_hooks no_dev G) p 0x80054F84)"
  by (intro allI poked_word_reads_back) (simp_all add: dram_range_def)

end
