(* ===== verification/Probe_Gates.thy ===== *)
theory Probe_Gates
  imports Probe_Census Probe_Memory
begin

text \<open>
  The census of a key press with both gates of the firmware opened by hand
  (\<open>tools/probes/census-with-gates-open.js\<close>).  It is the only census that writes to the box, so what it
  checks before each write is the point.
\<close>

section \<open>The probe\<close>

definition gates_snap :: "('w, 'z) page_api_scheme \<Rightarrow> ('w, int \<rightharpoonup> int) act" where
  "gates_snap = snap (native_rows GATES_NAT)"

record gate_call =
  gc_n :: string
  gc_calls :: int
  gc_fn :: string

definition gates_diff :: "(int \<rightharpoonup> int) \<Rightarrow> (int \<rightharpoonup> int) \<Rightarrow> gate_call list" where
  "gates_diff a b =
     sort_key (\<lambda>c. - gc_calls c)
       (map (\<lambda>r. \<lparr>gc_n = ''(1,'' @ native_hex (fst r) @ '')'', gc_calls = rise a b (fst r), gc_fn = h8 (snd (snd r))\<rparr>)
         (filter (\<lambda>r. rise a b (fst r) > 0) GATES_NAT))"

definition POOL :: int where "POOL = 0x80054F84"
definition DS :: int where "DS = 0x8045CB64"
definition OBJ_G :: int where "OBJ_G = DS + 0x2E114"

text \<open>The first word of a blit's note; an entry without a note is counted under \<open>?\<close>.\<close>

definition note_of :: "blit \<Rightarrow> string" where
  "note_of e = (case bl_note e of None \<Rightarrow> [] | Some s \<Rightarrow> s)"

definition kind_of :: "blit \<Rightarrow> string" where
  "kind_of e = (let k = takeWhile (\<lambda>c. c \<noteq> CHR '' '') (note_of e) in if k = [] then ''?'' else k)"

fun kinds_of :: "blit list \<Rightarrow> (string \<rightharpoonup> int) \<Rightarrow> string \<rightharpoonup> int" where
  "kinds_of [] ob = ob"
| "kinds_of (e # es) ob =
     kinds_of es (ob(kind_of e \<mapsto> (case ob (kind_of e) of None \<Rightarrow> 0 | Some n \<Rightarrow> n) + 1))"

record gates_report =
  gr_idle20s :: "gate_call list"
  gr_press :: "gate_call list"
  gr_n :: int
  gr_kinds :: "string \<rightharpoonup> int"
  gr_anyCopy :: bool
  gr_tasks :: int

definition open_gates :: "('w, 'z) page_api_scheme \<Rightarrow> ('w, unit) act" where
  "open_gates G =
     seq (reading (\<lambda>w. b32 G w POOL)) (\<lambda>pool.
     seq (require (pool = 0xFFFFFFFF) ''pool constant is not 0xFFFFFFFF'') (\<lambda>_.
     seq (poke32 G POOL 0) (\<lambda>_.
     seq (sleep G 80000) (\<lambda>_.
     seq (reading (\<lambda>w. b32 G w (DS + 0x1ACB0))) (\<lambda>base.
     seq (require (base = 1) ''DS base check failed'') (\<lambda>_.
     seq (reading (\<lambda>w. b32 G w OBJ_G)) (\<lambda>ob.
     seq (require (ob \<noteq> 0) ''DS[0x2E114] is 0 after the settle'') (\<lambda>_.
     poke32 G (to_u32 (ob + 0x14)) 1))))))))"

definition gates_probe :: "('w, 'z) page_api_scheme \<Rightarrow> ('w, gates_report) act" where
  "gates_probe G =
     seq (doing (g_profile G)) (\<lambda>_.
     seq (open_gates G) (\<lambda>_.
     seq (gates_snap G) (\<lambda>q0.
     seq (sleep G 20000) (\<lambda>_.
     seq (gates_snap G) (\<lambda>q1.
     seq (reading (\<lambda>w. length (g_blitLog G w))) (\<lambda>blitsBefore.
     seq (press_key G 0x7D 0) (\<lambda>_.
     seq (sleep G 20000) (\<lambda>_.
     seq (gates_snap G) (\<lambda>q2.
     seq (reading (\<lambda>w. drop blitsBefore (g_blitLog G w))) (\<lambda>newBlits.
     seq (reading (g_tasks G)) (\<lambda>t.
     give \<lparr>gr_idle20s = gates_diff q0 q1, gr_press = gates_diff q1 q2, gr_n = int (length newBlits),
       gr_kinds = kinds_of newBlits Map.empty, gr_anyCopy = list_ex (\<lambda>e. prefix ''copy'' (note_of e)) newBlits,
       gr_tasks = t\<rparr>)))))))))))"

section \<open>What it checks and counts\<close>

lemma gates_snap_exact [simp]: "gates_snap G w = (Inr (native_counts G w), w)"
  unfolding gates_snap_def GATES_is_CENSUS by (rule snap_exact [OF CENSUS_rows_countable])

lemma gates_probe_runs: "gates_probe G w =
   (case open_gates G (g_profile G w) of
      (Inl e, w') \<Rightarrow> (Inl e, w')
    | (Inr _, w0) \<Rightarrow>
        (let w1 = g_wait G 20000 w0; w2 = g_wait G 20000 (snd (g_key G 0x7D 0 w1));
             newBlits = drop (length (g_blitLog G w1)) (g_blitLog G w2)
         in (Inr \<lparr>gr_idle20s = gates_diff (native_counts G w0) (native_counts G w1),
              gr_press = gates_diff (native_counts G w1) (native_counts G w2), gr_n = int (length newBlits),
              gr_kinds = kinds_of newBlits Map.empty,
              gr_anyCopy = list_ex (\<lambda>e. prefix ''copy'' (note_of e)) newBlits, gr_tasks = g_tasks G w2\<rparr>, w2)))"
  by (simp add: gates_probe_def seq_def sleep_def press_key_def Let_def split_beta split: prod.split sum.split)

lemma kinds_add: "(case kinds_of es ob k of None \<Rightarrow> 0 | Some n \<Rightarrow> n)
    = (case ob k of None \<Rightarrow> 0 | Some n \<Rightarrow> n) + int (length (filter (\<lambda>e. kind_of e = k) es))"
  by (induction es arbitrary: ob) simp_all

lemma kinds_dom: "dom (kinds_of es ob) = dom ob \<union> kind_of ` set es"
  by (induction es arbitrary: ob) auto

text \<open>
  The kinds of a window.  The tally has an entry for exactly the kinds that were logged, and each
  entry is the number of blits of its kind.
\<close>

theorem kinds_tally_exact:
  "kinds_of es Map.empty k =
    (if k \<in> kind_of ` set es then Some (int (length (filter (\<lambda>e. kind_of e = k) es))) else None)"
proof (cases "k \<in> kind_of ` set es")
  case True
  then obtain n where "kinds_of es Map.empty k = Some n" using kinds_dom [of es Map.empty] by auto
  with True kinds_add [of es Map.empty k] show ?thesis by simp
next
  case False
  then show ?thesis using kinds_dom [of es Map.empty] by (auto simp: domIff)
qed

text \<open>
  No gate is opened blind.  If the probe raises at its first check it has written nothing; whenever
  it returns a report, the pool constant was all ones when it was overwritten, the base check held and the
  object pointer was set after the settling wait, and the report counts from the state the two writes
  left.
\<close>

theorem gates_opened_after_checks:
  "(b32 G (g_profile G w) POOL \<noteq> 0xFFFFFFFF \<longrightarrow>
      gates_probe G w = (Inl ''pool constant is not 0xFFFFFFFF'', g_profile G w)) \<and>
   (let s = g_wait G 80000 (g_poke G POOL (word_bytes 0) (g_profile G w)) in
     (\<exists>R w'. gates_probe G w = (Inr R, w')) \<longleftrightarrow>
       b32 G (g_profile G w) POOL = 0xFFFFFFFF \<and> b32 G s (DS + 0x1ACB0) = 1 \<and> b32 G s OBJ_G \<noteq> 0)"
  by (simp add: gates_probe_runs open_gates_def poke32_def sleep_def require_def Let_def split: prod.split sum.split)

theorem gates_opened_after_checks_witness:
  "gates_probe ticking_page (0, []) = (Inl ''pool constant is not 0xFFFFFFFF'', (0, []))"
proof -
  have "b32 ticking_page (0, []) POOL = 0" "g_profile ticking_page (0, []) = (0, [])"
    by (simp_all add: ticking_page_def b32_def be32_def at0_def to_u32_def)
  then show ?thesis using gates_opened_after_checks [of ticking_page "(0, [])"] by simp
qed

end
