(* ===== verification/Probe_Sections.thy ===== *)
theory Probe_Sections
  imports GRT_Prelude
begin

text \<open>
  The MPEG sections the probes build and push into the box: the table-driven CRC, the field encoders,
  the BAT with its line-up and linkage descriptor, and the title section.  Bytes are integers from 0
  to 255; the CRC register is a \<open>32 word\<close>.  Source: \<open>tools/probes/send-the-day-the-guide-wants.js\<close>.
\<close>

section \<open>The CRC\<close>

definition crc_bit :: "u32 \<Rightarrow> u32" where
  "crc_bit c = (if c AND 0x80000000 \<noteq> 0 then push_bit 1 c XOR 0x04C11DB7 else push_bit 1 c)"

definition crc_tab_entry :: "nat \<Rightarrow> u32" where
  "crc_tab_entry i = (crc_bit ^^ 8) (push_bit 24 (word_of_nat i))"

definition CRC_TAB :: "u32 list" where
  "CRC_TAB = map crc_tab_entry [0..<256]"

definition crc_step :: "u32 \<Rightarrow> int \<Rightarrow> u32" where
  "crc_step c b = push_bit 8 c XOR CRC_TAB ! unat ((drop_bit 24 c XOR word_of_int b) AND 0xFF)"

definition crc32 :: "int list \<Rightarrow> u32" where
  "crc32 b = foldl crc_step (-1) b"

section \<open>Field encoders\<close>

definition u16 :: "int \<Rightarrow> int list" where
  "u16 v = [drop_bit 8 v AND 0xFF, v AND 0xFF]"

definition u32b :: "int \<Rightarrow> int list" where
  "u32b v = [drop_bit 24 v AND 0xFF, drop_bit 16 v AND 0xFF, drop_bit 8 v AND 0xFF, v AND 0xFF]"

text \<open>\<open>parseInt(pair, 16)\<close> on two decimal digits.\<close>

definition hex_pair :: "string \<Rightarrow> int" where
  "hex_pair s = foldl (\<lambda>a c. 16 * a + (of_char c - 48)) 0 s"

definition bcd8 :: "int \<Rightarrow> nat \<Rightarrow> int list" where
  "bcd8 v d =
     (let s = pad_left d CHR ''0'' (dec_string v)
      in map (\<lambda>i. hex_pair (take 2 (drop (2 * i) s)) AND 0xFF) [0..<(d + 1) div 2])"

definition satellite :: "int list" where
  "satellite = [0x43, 11] @ bcd8 1177800 8 @ bcd8 282 4 @ [0x81] @ take 4 (bcd8 275000 8)"

definition serviceListDesc :: "int list \<Rightarrow> int list" where
  "serviceListDesc ids =
     (let b = concat (map (\<lambda>s. u16 s @ [0x01]) ids) in [0x41, int (length b)] @ b)"

definition SERVICES :: "int list" where
  "SERVICES = [0x0064, 0x0065, 0x0066, 0x0067]"

record lineup_entry =
  le_sid :: int
  le_f2 :: int
  le_f34 :: int
  le_f56 :: int
  le_ch :: int
  le_flags :: int

definition LINEUP :: "lineup_entry list" where
  "LINEUP = map (\<lambda>(i, sid). \<lparr>le_sid = sid, le_f2 = 0x01, le_f34 = 0x0BB8 + i, le_f56 = 0x1770 + i,
     le_ch = 0x0ABC + i, le_flags = 0x5\<rparr>) (zip [0..3] SERVICES)"

section \<open>The BAT\<close>

text \<open>The ids the box has been programmed with, as the page reports them.\<close>

record si_ids =
  id_bouquetId :: "int option"
  id_bouquetIdMask :: "int option"
  id_tsid :: int
  id_networkId :: int

text \<open>
  The bouquet id to send: 0x1001 where the filter's mask admits it, the id demanded otherwise.
  \<open>null\<close> in a shift is 0.
\<close>

definition bouquet :: "si_ids \<Rightarrow> int" where
  "bouquet ids =
     (case (id_bouquetIdMask ids, id_bouquetId ids) of
        (Some msk, Some bid) \<Rightarrow> if 0x1001 AND msk = bid AND msk then 0x1001 else bid
      | (_, Some bid) \<Rightarrow> bid
      | (_, None) \<Rightarrow> 0)"

definition len_field :: "int \<Rightarrow> int list" where
  "len_field n = [0xF0 OR (drop_bit 8 n AND 0x0F), n AND 0xFF]"

definition bat_body :: "int list" where
  "bat_body = u16 0xFFFF @ concat (map (\<lambda>e. u16 (le_sid e) @ [le_f2 e] @ u16 (le_f34 e) @ u16 (le_f56 e)
     @ u16 ((push_bit 4 (le_ch e) OR le_flags e) AND 0xFFFF)) LINEUP)"

definition linkage :: "si_ids \<Rightarrow> int list" where
  "linkage ids = [0x4A, 7] @ u16 (id_tsid ids) @ u16 (id_networkId ids) @ u16 (SERVICES ! 0) @ [0x91]"

definition bat_descs :: "si_ids \<Rightarrow> int list" where
  "bat_descs ids = [0x5F, 4] @ u32b 2 @ [0xB1, int (length bat_body)] @ bat_body
     @ serviceListDesc SERVICES @ satellite @ linkage ids"

definition with_crc :: "int list \<Rightarrow> int list" where
  "with_crc s = s @ u32b (uint (crc32 s))"

text \<open>The section header: table id, the length of what follows, extension, version, numbers.\<close>

definition long_header :: "int \<Rightarrow> int \<Rightarrow> int \<Rightarrow> int \<Rightarrow> int list" where
  "long_header tid len ext version =
     [tid, 0xB0 OR (drop_bit 8 len AND 0x0F), len AND 0xFF] @ u16 ext
     @ [0xC1 OR push_bit 1 (version AND 0x1F), 0x00, 0x00]"

definition bat_section :: "si_ids \<Rightarrow> int \<Rightarrow> int list" where
  "bat_section ids version =
     (let descs = bat_descs ids;
          ts = u16 (id_tsid ids) @ u16 (id_networkId ids) @ len_field (int (length descs)) @ descs;
          name = [0x47, 3, 0x53, 0x6B, 0x79] @ linkage ids;
          len = 5 + 2 + int (length name) + 2 + int (length ts) + 4
      in with_crc (long_header 0x4A len (bouquet ids) version
           @ len_field (int (length name)) @ name @ len_field (int (length ts)) @ ts))"

section \<open>The title section\<close>

definition RECORDS :: "int list" where
  "RECORDS = [2,1,240,20,181,18,0,0,14,16,0,0,0,58,235,29,218,174,48,202,244,74,
     2,0,2,2,240,19,181,17,14,16,14,16,0,0,0,58,9,42,35,87,24,101,69,24,64,
     2,3,240,19,181,17,28,32,14,16,0,0,0,5,26,174,48,202,213,198,31,192,16,
     2,4,240,25,181,23,42,48,14,16,0,0,0,42,227,15,197,92,97,149,137,152,230,204,171,140,20,188,64,
     2,5,240,20,181,18,56,64,14,16,0,0,0,56,242,139,45,127,87,24,101,80,206,32,
     2,6,240,22,181,20,70,80,14,16,0,0,0,56,219,50,215,245,113,134,86,174,48,254,0,128,
     2,7,240,24,181,22,84,96,14,16,0,0,0,56,161,111,39,58,184,193,166,174,48,202,213,22,149,136,
     2,8,240,21,181,19,98,112,14,16,0,0,0,58,167,171,140,50,161,87,24,101,122,37,16,
     2,9,240,32,181,30,112,128,14,16,0,0,0,58,9,42,35,87,24,101,122,10,158,245,113,130,148,117,113,134,86,174,48,254,0,128,
     2,10,240,27,181,25,126,144,14,16,0,0,0,42,227,1,90,184,195,43,87,24,2,85,198,25,90,184,192,52,64,
     2,11,240,21,181,19,140,160,14,16,0,0,0,42,159,45,105,125,92,97,149,170,45,43,16,
     2,12,240,20,181,18,154,176,14,16,0,0,0,32,230,171,140,50,181,113,135,240,4,0]"

text \<open>\<open>TABLE_ID\<close>, \<open>FILTER_BYTES\<close> and the version counter are the probe's variables.\<close>

definition buildA1 :: "int \<Rightarrow> int \<times> int \<Rightarrow> int \<Rightarrow> int \<Rightarrow> int list" where
  "buildA1 table_id filter_bytes version ext =
     (let p = [fst filter_bytes, snd filter_bytes] @ RECORDS;
          len = 5 + int (length p) + 4
      in with_crc (long_header table_id len ext version @ p))"

definition next_version :: "int \<Rightarrow> int" where
  "next_version v = (v + 1) AND 0x1F"


section \<open>The table is the polynomial\<close>

text \<open>The CRC one bit at a time, as the standard defines it.\<close>

definition crc_byte :: "u32 \<Rightarrow> int \<Rightarrow> u32" where
  "crc_byte c b = (crc_bit ^^ 8) (c XOR push_bit 24 (word_of_int b))"

lemma top_bit: "(c :: u32) AND 0x80000000 \<noteq> 0 \<longleftrightarrow> bit c 31"
  using and_exp_eq_0_iff_not_bit [of c 31] by simp

lemma crc_bit_xor: "crc_bit (a XOR b) = crc_bit a XOR crc_bit b"
  unfolding crc_bit_def top_bit
  by (auto simp: bit_xor_iff push_bit_xor ac_simps)

lemma crc_bits_xor: "(crc_bit ^^ n) (a XOR b) = (crc_bit ^^ n) a XOR (crc_bit ^^ n) b"
  by (induction n) (simp_all add: crc_bit_xor)

lemma crc_bits_low:
  "drop_bit (32 - n) c = 0 \<Longrightarrow> n \<le> 32 \<Longrightarrow> (crc_bit ^^ n) (c :: u32) = push_bit n c"
proof (induction n arbitrary: c)
  case (Suc n)
  have z: "\<not> bit c k" if "32 - Suc n \<le> k" for k
  proof
    assume "bit c k"
    then have "bit (drop_bit (32 - Suc n) c) (k - (32 - Suc n))" using that by (simp add: bit_drop_bit_eq)
    then show False using Suc.prems(1) by simp
  qed
  have "\<not> bit c 31" using z [of 31] by simp
  then have one: "crc_bit c = push_bit 1 c" by (simp add: crc_bit_def top_bit)
  have "drop_bit (32 - n) (push_bit 1 c) = 0"
  proof (rule bit_word_eqI)
    fix k
    have "\<not> bit c (32 - n + k - 1)" using Suc.prems(2) by (intro z) linarith
    then show "bit (drop_bit (32 - n) (push_bit 1 c)) k = bit 0 k"
      by (simp only: bit_drop_bit_eq comp_def bit_push_bit_iff) simp
  qed
  from Suc.IH [OF this] Suc.prems(2) have "(crc_bit ^^ n) (push_bit 1 c) = push_bit n (push_bit 1 c)" by simp
  then show ?case by (simp add: funpow_swap1 one push_bit_push_bit)
qed simp

lemma split_top: "(c :: u32) = push_bit 24 (drop_bit 24 c) XOR take_bit 24 c"
  by (rule bit_word_eqI) (auto simp: bit_simps)

lemma crc_step_byte:
  assumes "0 \<le> b" "b < 256"
  shows "crc_step c b = crc_byte c b"
proof -
  let ?i = "(drop_bit 24 c XOR word_of_int b) AND 0xFF"
  have b8: "word_of_int b AND (0xFF :: u32) = word_of_int b"
  proof -
    have "take_bit 8 (word_of_int b :: u32) = word_of_int (take_bit 8 b)"
      by (simp add: take_bit_of_int)
    also have "take_bit 8 b = b" using assms by (simp add: take_bit_int_eq_self)
    finally show ?thesis by (simp add: take_bit_eq_mask mask_eq_exp_minus_1)
  qed
  have t8: "drop_bit 24 c AND 0xFF = drop_bit 24 c"
  proof -
    have "take_bit 8 (drop_bit 24 c) = drop_bit 24 c"
      by (rule bit_word_eqI) (auto simp: bit_simps dest: bit_imp_le_length)
    then show ?thesis by (simp add: take_bit_eq_mask mask_eq_exp_minus_1)
  qed
  have i: "?i = drop_bit 24 c XOR word_of_int b"
    by (simp add: bit.conj_xor_distrib2 b8 t8)
  have lt: "unat ?i < 256"
    using word_and_le1 [of "drop_bit 24 c XOR word_of_int b" "0xFF"] by (simp add: word_le_nat_alt)
  then have tab: "CRC_TAB ! unat ?i = (crc_bit ^^ 8) (push_bit 24 (drop_bit 24 c XOR word_of_int b))"
    unfolding i using lt [unfolded i] by (simp add: CRC_TAB_def crc_tab_entry_def)
  have "c XOR push_bit 24 (word_of_int b) = take_bit 24 c XOR push_bit 24 (drop_bit 24 c XOR word_of_int b)"
    by (subst (1) split_top [of c]) (simp add: push_bit_xor ac_simps)
  then have "crc_byte c b = (crc_bit ^^ 8) (take_bit 24 c) XOR CRC_TAB ! unat ?i"
    unfolding crc_byte_def tab by (simp only: crc_bits_xor)
  also have "(crc_bit ^^ 8) (take_bit 24 c) = push_bit 8 (take_bit 24 c)"
    by (rule crc_bits_low) (simp_all add: drop_bit_take_bit)
  also have "push_bit 8 (take_bit 24 c) = push_bit 8 c"
    by (rule bit_word_eqI) (auto simp: bit_simps)
  finally show ?thesis by (simp add: crc_step_def)
qed

lemma crc32_bits: "byte_list bs \<Longrightarrow> foldl crc_step c bs = foldl crc_byte c bs"
  by (induction bs arbitrary: c) (simp_all add: crc_step_byte)

text \<open>
  C40.  The table-driven CRC is the polynomial CRC.  On bytes, the probes' \<open>crc32\<close> is the CRC
  computed one bit at a time with the polynomial \<open>0x04C11DB7\<close>, most significant bit first, from all
  ones.
\<close>

theorem crc32_is_polynomial:
  assumes "byte_list bs"
  shows "crc32 bs = foldl crc_byte (-1) bs"
  using crc32_bits [OF assms] by (simp add: crc32_def)

theorem crc32_is_polynomial_witness:
  "crc32 [0x70, 0x70, 0x05, 0xFF] = foldl crc_byte (-1) [0x70, 0x70, 0x05, 0xFF]"
  by (rule crc32_is_polynomial) simp

section \<open>A section with its CRC checks to zero\<close>

lemma crc_byte_top:
  assumes "word_of_int b = drop_bit 24 (c :: u32)"
  shows "crc_byte c b = push_bit 8 c"
proof -
  have "c XOR push_bit 24 (word_of_int b) = take_bit 24 c"
    unfolding assms by (rule bit_word_eqI) (auto simp: bit_simps)
  then have "crc_byte c b = (crc_bit ^^ 8) (take_bit 24 c)" by (simp add: crc_byte_def)
  also have "\<dots> = push_bit 8 (take_bit 24 c)"
    by (rule crc_bits_low) (simp_all add: drop_bit_take_bit)
  also have "\<dots> = push_bit 8 c" by (rule bit_word_eqI) (auto simp: bit_simps)
  finally show ?thesis .
qed

lemma u32b_bytes [simp]: "byte_list (u32b v)"
  using and_mask_range [of 255 8] by (simp add: u32b_def)

lemma u16_bytes [simp]: "byte_list (u16 v)"
  using and_mask_range [of 255 8] by (simp add: u16_def)

lemma byte_of_uint:
  "word_of_int (drop_bit n (uint (c :: u32)) AND 0xFF) = (take_bit 8 (drop_bit n c) :: u32)"
  by (rule bit_word_eqI) (auto simp: int_and_take bit_simps bit_uint_iff dest: bit_imp_le_length)

lemma crc_residue: "foldl crc_byte c (u32b (uint c)) = 0"
proof -
  have t: "take_bit 8 (drop_bit 24 c) = drop_bit 24 c"
    by (rule bit_word_eqI) (auto simp: bit_simps dest: bit_imp_le_length)
  have 1: "crc_byte c (drop_bit 24 (uint c) AND 0xFF) = push_bit 8 c"
    by (rule crc_byte_top) (simp only: byte_of_uint t)
  have 2: "crc_byte (push_bit 8 c) (drop_bit 16 (uint c) AND 0xFF) = push_bit 16 c"
  proof -
    have "take_bit 8 (drop_bit 16 c) = drop_bit 24 (push_bit 8 c)"
      by (rule bit_word_eqI) (auto simp: bit_simps)
    then show ?thesis by (subst crc_byte_top) (simp_all only: byte_of_uint push_bit_push_bit, simp)
  qed
  have 3: "crc_byte (push_bit 16 c) (drop_bit 8 (uint c) AND 0xFF) = push_bit 24 c"
  proof -
    have "take_bit 8 (drop_bit 8 c) = drop_bit 24 (push_bit 16 c)"
      by (rule bit_word_eqI) (auto simp: bit_simps)
    then show ?thesis by (subst crc_byte_top) (simp_all only: byte_of_uint push_bit_push_bit, simp)
  qed
  have 4: "crc_byte (push_bit 24 c) (uint c AND 0xFF) = 0"
  proof -
    have "take_bit 8 c = drop_bit 24 (push_bit 24 c)"
      by (rule bit_word_eqI) (auto simp: bit_simps)
    then have "crc_byte (push_bit 24 c) (uint c AND 0xFF) = push_bit 8 (push_bit 24 c)"
      using byte_of_uint [of 0 c] by (intro crc_byte_top) simp
    also have "\<dots> = 0" by (rule bit_word_eqI) (auto simp: bit_simps)
    finally show ?thesis .
  qed
  show ?thesis by (simp add: u32b_def 1 2 3 4)
qed

lemma with_crc_zero: "byte_list s \<Longrightarrow> crc32 (with_crc s) = 0"
  using crc32_bits [of "s @ u32b (uint (crc32 s))" "-1"] crc32_bits [of s "-1"] crc_residue [of "crc32 s"]
  by (simp add: crc32_def with_crc_def)

section \<open>Reading a section back\<close>

text \<open>
  What a receiver of a long section does: check the length and the CRC, and split the header from
  the payload.
\<close>

definition parse_section :: "int list \<Rightarrow> (int \<times> int \<times> int \<times> int list) option" where
  "parse_section s =
     (case s of
        t # l1 # l2 # e1 # e2 # v # n # last_n # rest \<Rightarrow>
          let len = (l1 AND 0x0F) * 256 + l2 in
          if int (length s) = 3 + len \<and> 9 \<le> len \<and> crc32 s = 0
          then Some (t, e1 * 256 + e2, drop_bit 1 v AND 0x1F, take (nat (len - 9)) rest)
          else None
      | _ \<Rightarrow> None)"

lemma u16_back: "0 \<le> v \<Longrightarrow> v < 65536 \<Longrightarrow> u16 v = [v div 256, v mod 256]"
proof -
  assume v: "0 \<le> v" "v < 65536"
  then have "0 \<le> v div 256" "v div 256 < 256" by auto
  then show ?thesis
    using v by (simp add: u16_def int_and_take drop_bit_eq_div take_bit_eq_mod)
qed

lemma b0_nibble:
  assumes "0 \<le> (h :: int)" "h < 16"
  shows "0xB0 OR h = 176 + h" "(176 + h) AND 0x0F = h"
proof -
  from assms have "h = 0 \<or> h = 1 \<or> h = 2 \<or> h = 3 \<or> h = 4 \<or> h = 5 \<or> h = 6 \<or> h = 7 \<or> h = 8
      \<or> h = 9 \<or> h = 10 \<or> h = 11 \<or> h = 12 \<or> h = 13 \<or> h = 14 \<or> h = 15" by presburger
  then show "0xB0 OR h = 176 + h" "(176 + h) AND 0x0F = h" by (elim disjE; simp)+
qed

lemma len_hi:
  assumes "0 \<le> (n :: int)" "n < 4096"
  shows "0xB0 OR (drop_bit 8 n AND 0x0F) = 176 + n div 256" "(176 + n div 256) AND 0x0F = n div 256"
proof -
  have h: "0 \<le> n div 256" "n div 256 < 16" using assms by auto
  then have "drop_bit 8 n AND 0x0F = n div 256"
    by (simp add: int_and_take drop_bit_eq_div take_bit_int_eq_self)
  with b0_nibble [OF h] show "0xB0 OR (drop_bit 8 n AND 0x0F) = 176 + n div 256"
    "(176 + n div 256) AND 0x0F = n div 256" by simp_all
qed

lemma version_back:
  assumes "0 \<le> (v :: int)" "v < 32"
  shows "0xC1 OR push_bit 1 (v AND 0x1F) = 193 + 2 * v" "drop_bit 1 (193 + 2 * v) AND 0x1F = v"
proof -
  from assms have "v = 0 \<or> v = 1 \<or> v = 2 \<or> v = 3 \<or> v = 4 \<or> v = 5 \<or> v = 6 \<or> v = 7 \<or> v = 8
      \<or> v = 9 \<or> v = 10 \<or> v = 11 \<or> v = 12 \<or> v = 13 \<or> v = 14 \<or> v = 15 \<or> v = 16 \<or> v = 17 \<or> v = 18
      \<or> v = 19 \<or> v = 20 \<or> v = 21 \<or> v = 22 \<or> v = 23 \<or> v = 24 \<or> v = 25 \<or> v = 26 \<or> v = 27 \<or> v = 28
      \<or> v = 29 \<or> v = 30 \<or> v = 31" by presburger
  then show "0xC1 OR push_bit 1 (v AND 0x1F) = 193 + 2 * v" "drop_bit 1 (193 + 2 * v) AND 0x1F = v"
    by (elim disjE; simp)+
qed

lemma parse_with_crc:
  assumes "0 \<le> t" "t < 256" "0 \<le> ext" "ext < 65536" "0 \<le> v" "v < 32" "byte_list p" "length p \<le> 4000"
  shows "parse_section (with_crc (long_header t (5 + int (length p) + 4) ext v @ p)) = Some (t, ext, v, p)"
proof -
  let ?len = "5 + int (length p) + 4"
  let ?s = "long_header t ?len ext v @ p"
  have len: "0 \<le> ?len" "?len < 4096" using assms by auto
  have hd: "long_header t ?len ext v = [t, 176 + ?len div 256, ?len mod 256, ext div 256, ext mod 256, 193 + 2 * v, 0, 0]"
    unfolding long_header_def len_hi(1) [OF len] u16_back [OF assms(3,4)] version_back(1) [OF assms(5,6)]
    using len by (simp add: int_and_take take_bit_eq_mod)
  have "byte_list ?s"
    unfolding hd using assms len by auto
  then have crc: "crc32 (with_crc ?s) = 0" by (rule with_crc_zero)
  note l1 = len_hi(2) [OF len]
  have tot: "(?len div 256) * 256 + ?len mod 256 = ?len" by simp
  show ?thesis
    using crc unfolding with_crc_def hd
    by (simp only: append_Cons append_Nil parse_section_def list.case Let_def l1 tot)
       (simp add: u32b_def version_back(2) [OF assms(5,6), unfolded One_nat_def])
qed


section \<open>The sections the probes build\<close>

lemma RECORDS_bytes [simp]: "byte_list RECORDS" "length RECORDS = 318"
  by (simp_all add: RECORDS_def)

lemma title_section_valid:
  assumes "0 \<le> table_id" "table_id < 256" "0 \<le> f0" "f0 < 256" "0 \<le> f1" "f1 < 256"
    "0 \<le> version" "version < 32" "0 \<le> ext" "ext < 65536"
  shows "parse_section (buildA1 table_id (f0, f1) version ext)
    = Some (table_id, ext, version, f0 # f1 # RECORDS)"
  using parse_with_crc [OF assms(1,2,9,10,7,8), of "f0 # f1 # RECORDS"] assms
  by (simp add: buildA1_def Let_def)

text \<open>
  The title section is a valid section.  Whatever table id, filter bytes, version and extension
  it is built for, a receiver that checks the length and the CRC accepts it and reads back the table
  id, the extension, the version, and the two filter bytes followed by the records.
\<close>

theorem buildA1_parses:
  assumes "0 \<le> table_id" "table_id < 256" "0 \<le> f0" "f0 < 256" "0 \<le> f1" "f1 < 256"
    "0 \<le> version" "version < 32" "0 \<le> ext" "ext < 65536"
  shows "parse_section (buildA1 table_id (f0, f1) version ext)
    = Some (table_id, ext, version, f0 # f1 # RECORDS)"
  by (rule title_section_valid) (rule assms)+

theorem buildA1_parses_witness:
  "parse_section (buildA1 0xA3 (0xC6, 0x7E) 7 0x0BB8) = Some (0xA3, 0x0BB8, 7, 0xC6 # 0x7E # RECORDS)"
  by (rule buildA1_parses) simp_all

lemma bat_body_val: "bat_body = [255, 255, 0, 100, 1, 11, 184, 23, 112, 171, 197, 0, 101, 1, 11, 185, 23, 113,
    171, 213, 0, 102, 1, 11, 186, 23, 114, 171, 229, 0, 103, 1, 11, 187, 23, 115, 171, 245]"
  by code_simp

lemma satellite_val: "satellite = [67, 11, 1, 23, 120, 0, 2, 130, 129, 0, 39, 80, 0]"
  by code_simp

lemma services_val: "serviceListDesc SERVICES = [65, 12, 0, 100, 1, 0, 101, 1, 0, 102, 1, 0, 103, 1]"
  by code_simp

lemma u16_length [simp]: "length (u16 v) = 2" by (simp add: u16_def)
lemma u32b_length [simp]: "length (u32b v) = 4" by (simp add: u32b_def)

lemma linkage_ok [simp]: "length (linkage ids) = 9" "byte_list (linkage ids)"
  by (simp_all add: linkage_def)

lemma f0_nibble:
  assumes "0 \<le> (h :: int)" "h < 16"
  shows "0xF0 OR h = 240 + h"
proof -
  from assms have "h = 0 \<or> h = 1 \<or> h = 2 \<or> h = 3 \<or> h = 4 \<or> h = 5 \<or> h = 6 \<or> h = 7 \<or> h = 8
      \<or> h = 9 \<or> h = 10 \<or> h = 11 \<or> h = 12 \<or> h = 13 \<or> h = 14 \<or> h = 15" by presburger
  then show ?thesis by (elim disjE; simp)
qed

lemma len_field_bytes: "byte_list (len_field n)"
proof -
  have h: "0 \<le> drop_bit 8 n AND 15" "drop_bit 8 n AND 15 < 16"
    using and_mask_range [of 15 4 "drop_bit 8 n"] by simp_all
  show ?thesis
    using h f0_nibble [OF h] and_mask_range [of 255 8 n] by (simp add: len_field_def)
qed

definition bat_payload :: "si_ids \<Rightarrow> int list" where
  "bat_payload ids =
     len_field 14 @ [0x47, 3, 0x53, 0x6B, 0x79] @ linkage ids
     @ len_field (int (6 + length (bat_descs ids))) @ u16 (id_tsid ids) @ u16 (id_networkId ids)
     @ len_field (int (length (bat_descs ids))) @ bat_descs ids"

lemma bat_descs_ok: "length (bat_descs ids) = 82" "byte_list (bat_descs ids)"
  by (simp_all add: bat_descs_def bat_body_val satellite_val services_val)

text \<open>
  The BAT is a valid section and declares what it should.  Whatever ids the box reports, the
  receiver accepts the section and reads back table id 0x4A, the bouquet id, the version, and a
  payload in which the declared lengths of the name, of the transport stream loop and of its
  descriptors are the lengths they have.
\<close>

theorem bat_section_parses:
  assumes "0 \<le> bouquet ids" "bouquet ids < 65536" "0 \<le> version" "version < 32"
  shows "parse_section (bat_section ids version) = Some (0x4A, bouquet ids, version, bat_payload ids)"
proof -
  have b: "byte_list (bat_payload ids)"
    by (simp add: bat_payload_def len_field_bytes bat_descs_ok)
  have l: "length (bat_payload ids) = 106"
    by (simp add: bat_payload_def len_field_def bat_descs_ok)
  have "bat_section ids version
      = with_crc (long_header 0x4A (5 + int (length (bat_payload ids)) + 4) (bouquet ids) version @ bat_payload ids)"
    unfolding l by (simp add: bat_section_def bat_payload_def Let_def bat_descs_ok len_field_def)
  then show ?thesis using parse_with_crc [OF _ _ assms b] l by simp
qed

theorem bat_section_parses_witness:
  "parse_section (bat_section \<lparr>id_bouquetId = Some 0x1000, id_bouquetIdMask = Some 0xFFF0, id_tsid = 2, id_networkId = 2\<rparr> 1)
     = Some (0x4A, 0x1001, 1, bat_payload \<lparr>id_bouquetId = Some 0x1000, id_bouquetIdMask = Some 0xFFF0, id_tsid = 2, id_networkId = 2\<rparr>)"
proof -
  let ?ids = "\<lparr>id_bouquetId = Some 0x1000, id_bouquetIdMask = Some 0xFFF0, id_tsid = 2, id_networkId = 2\<rparr>"
  have b: "bouquet ?ids = 0x1001" by code_simp
  show ?thesis using bat_section_parses [of ?ids 1] unfolding b by simp
qed

section \<open>Walking the records\<close>

text \<open>
  A receiver's walk over title records: a two-byte event id, a twelve-bit length, that many bytes.
  \<open>None\<close> where a record runs past the end.
\<close>

fun walk_records :: "int list \<Rightarrow> (int \<times> int list) list option" where
  "walk_records [] = Some []"
| "walk_records (a # b # h # l # rest) =
     (let n = nat ((h AND 0x0F) * 256 + l) in
      if n \<le> length rest
      then map_option (Cons (a * 256 + b, take n rest)) (walk_records (drop n rest))
      else None)"
| "walk_records _ = None"

text \<open>
  The records of the probe walk to the end: twelve of them, with event ids 0x201 to 0x20C, each
  one title descriptor (tag 0xB5) that fills it.
\<close>

theorem RECORDS_walk:
  "\<exists>rs. walk_records RECORDS = Some rs \<and> map fst rs = [0x201..0x20C]
     \<and> list_all (\<lambda>(i, d). d ! 0 = 0xB5 \<and> d ! 1 = int (length d) - 2) rs"
proof -
  have "case walk_records RECORDS of None \<Rightarrow> False
    | Some rs \<Rightarrow> map fst rs = [0x201..0x20C] \<and> list_all (\<lambda>(i, d). d ! 0 = 0xB5 \<and> d ! 1 = int (length d) - 2) rs"
    by code_simp
  then show ?thesis by (auto split: option.splits)
qed

text \<open>
  The records of \<open>tools/probes/what-the-guide-reads.js\<close>: the same titles under record lengths four
  too large.
\<close>

definition RECORDS_LONG :: "int list" where
  "RECORDS_LONG = [2,1,240,24,181,18,0,0,14,16,0,0,0,58,235,29,218,174,48,202,244,74,2,0,
     2,2,240,23,181,17,14,16,14,16,0,0,0,58,9,42,35,87,24,101,69,24,64,
     2,3,240,23,181,17,28,32,14,16,0,0,0,5,26,174,48,202,213,198,31,192,16,
     2,4,240,29,181,23,42,48,14,16,0,0,0,42,227,15,197,92,97,149,137,152,230,204,171,140,20,188,64,
     2,5,240,24,181,18,56,64,14,16,0,0,0,56,242,139,45,127,87,24,101,80,206,32,
     2,6,240,26,181,20,70,80,14,16,0,0,0,56,219,50,215,245,113,134,86,174,48,254,0,128,
     2,7,240,28,181,22,84,96,14,16,0,0,0,56,161,111,39,58,184,193,166,174,48,202,213,22,149,136,
     2,8,240,25,181,19,98,112,14,16,0,0,0,58,167,171,140,50,161,87,24,101,122,37,16,
     2,9,240,36,181,30,112,128,14,16,0,0,0,58,9,42,35,87,24,101,122,10,158,245,113,130,148,117,113,134,86,174,48,254,0,128,
     2,10,240,31,181,25,126,144,14,16,0,0,0,42,227,1,90,184,195,43,87,24,2,85,198,25,90,184,192,52,64,
     2,11,240,25,181,19,140,160,14,16,0,0,0,42,159,45,105,125,92,97,149,170,45,43,16,
     2,12,240,24,181,18,154,176,14,16,0,0,0,32,230,171,140,50,181,113,135,240,4,0]"

text \<open>
  The records of the older probe do not walk: their length fields are four too large, so the
  walk leaves the record grid after two of the twelve.
\<close>

theorem RECORDS_LONG_desynchronise:
  "walk_records RECORDS_LONG = None
   \<and> list_all2 (\<lambda>l r. l = r \<or> l = r + 4) RECORDS_LONG RECORDS
   \<and> length (filter id (map2 (\<noteq>) RECORDS_LONG RECORDS)) = 12"
proof (intro conjI)
  show "walk_records RECORDS_LONG = None" by code_simp
  show "list_all2 (\<lambda>l r. l = r \<or> l = r + 4) RECORDS_LONG RECORDS" by code_simp
  show "length (filter id (map2 (\<noteq>) RECORDS_LONG RECORDS)) = 12" by code_simp
qed

end
