(* ===== verification/Probe_Day.thy ===== *)
theory Probe_Day
  imports Probe_Memory Probe_Sections "HOL-Library.Char_ord" "HOL-Library.List_Lexorder"
begin

text \<open>
  The instruments of \<open>tools/probes/send-the-day-the-guide-wants.js\<close>: the hit ladder and its differences,
  the o-code trace cut into events, the calendar, the screen, the arms of the guide's question and the
  subscription slots.  What the probe does with them is in \<open>Probe_Day_Feed\<close> and \<open>Probe_Day_Run\<close>.
\<close>

section \<open>The hooks of the listings probes\<close>

record si_match =
  mt_tableId :: "int option"
  mt_extension :: "int option"
  mt_extensionMask :: "int option"
  mt_tableIdMask :: int
  mt_bytes :: "string list option"

record si_filter =
  sf_pid :: string
  sf_armed :: bool

record push_result =
  pr_ok :: bool
  pr_why :: string

record watch_log =
  wl_byPc :: "string list option"
  wl_all :: "string list"
  wl_capped :: bool

record trace_point =
  tp_pc :: int
  tp_name :: string
  tp_args :: int

record 'w day_api = "'w page_api" +
  d_boxstate :: "'w \<Rightarrow> string"
  d_filters :: "'w \<Rightarrow> si_filter list"
  d_matches :: "'w \<Rightarrow> si_match list"
  d_ids :: "'w \<Rightarrow> si_ids"
  d_push :: "int \<Rightarrow> int list \<Rightarrow> 'w \<Rightarrow> push_result \<times> 'w"
  d_NIT :: "int option \<Rightarrow> 'w \<Rightarrow> push_result \<times> 'w"
  d_SDT :: "int option \<Rightarrow> 'w \<Rightarrow> push_result \<times> 'w"
  d_TDT :: "int \<Rightarrow> int \<Rightarrow> int \<Rightarrow> int \<Rightarrow> 'w \<Rightarrow> string \<times> 'w"
  d_TOT :: "int \<Rightarrow> int \<Rightarrow> int \<Rightarrow> int \<Rightarrow> 'w \<Rightarrow> 'w"
  d_carouselRunning :: "'w \<Rightarrow> bool"
  d_eepromWrites :: "'w \<Rightarrow> int"
  d_traceCalls :: "trace_point list \<Rightarrow> 'w \<Rightarrow> 'w"
  d_traceClear :: "'w \<Rightarrow> 'w"
  d_traceLog :: "'w \<Rightarrow> string list"
  d_readWatch :: "int \<Rightarrow> int \<Rightarrow> int \<times> int \<Rightarrow> int \<Rightarrow> 'w \<Rightarrow> int \<times> 'w"
  d_readWatchLog :: "'w \<Rightarrow> watch_log"
  d_readUnwatch :: "'w \<Rightarrow> 'w"
  d_call :: "int \<Rightarrow> bool \<Rightarrow> int \<times> int \<times> int \<times> int \<Rightarrow> 'w \<Rightarrow> string \<times> 'w"

section \<open>The ladder\<close>

definition LADDER :: "(string \<times> int) list" where
  "LADDER = [
    (''01 sectionParser FUN_800c95d0'', 0x800C95D0),
    (''02 extensionLookup'', 0x800A3F7C),
    (''03 dayKeyToSlot(0x9E8B)'', 0x800C70E0),
    (''04 alloc'', 0x800CCECC),
    (''05 findBlock A'', 0x800C92A4),
    (''05 findBlock B'', 0x800C91F8),
    (''06 memcpy (shared -- context only)'', 0x8001DB18),
    (''07 registerBlock'', 0x800C1540),
    (''08 dayKeyToDate'', 0x800C1A00),
    (''09 dateToBaseTime'', 0x80074758),
    (''10 walkDescriptors(0xB5)'', 0x800C64CC),
    (''11 the 0xB5 callback'', 0x800C6B38),
    (''12 PER-EVENT REGISTER'', 0x800C587C),
    (''13 notify(0x3EC / 0x3EA)'', 0x800C579C),
    (''14 final notify'', 0x800C5710),
    (''-- head fn (param_1 & 2 path)'', 0x800C8DF8),
    (''-- fn(svc,key,tidLow)'', 0x800C590C),
    (''-- fn(svc) on completion'', 0x800C59D0),
    (''-- fn(&head,svc,key,tidLow)'', 0x800C9324),
    (''-- huffman'', 0x800BECF0)]"

definition ladder_check :: "('w, unit list) act" where
  "ladder_check = each (\<lambda>x. require (snd x AND 1 = 0)
     (''ladder entry '' @ fst x @ '' is the ODD address '' @ h8 (snd x) @ ''. Pool words carry the ''
      @ ''MIPS16 ISA bit and __pcHits only normalises upward, so this would count zero on ''
      @ ''a function that ran. Mask the bit where the address is written down.'')) LADDER"

definition ladder_row :: "(string \<times> int) list \<Rightarrow> string \<times> int \<Rightarrow> ('w, int) act" where
  "ladder_row hits x =
     (case map_of hits (h8 (snd x)) of
        Some n \<Rightarrow> give n
      | None \<Rightarrow> throw (''__pcHits could not find the key for '' @ fst x @ '' -- a census that cannot find ''
                  @ ''its own subject is a harness failure, never a count of zero''))"

definition census :: "('w, 'z) page_api_scheme \<Rightarrow> ('w, string \<rightharpoonup> int) act" where
  "census G = read_counts ladder_row G LADDER"

text \<open>\<open>diff\<close> and \<open>armsDiff\<close>: the keys of \<open>b\<close> whose value differs.\<close>

definition changes :: "('k \<rightharpoonup> int) \<Rightarrow> ('k \<rightharpoonup> int) \<Rightarrow> 'k \<rightharpoonup> int" where
  "changes a b = (\<lambda>k. if b k \<noteq> None \<and> b k \<noteq> a k then Some (rise a b k) else None)"

text \<open>\<open>d[k] || 0\<close>.\<close>

definition or0 :: "int option \<Rightarrow> int" where
  "or0 v = (case v of None \<Rightarrow> 0 | Some n \<Rightarrow> n)"

section \<open>The o-code trace\<close>

definition OCODE_LO :: int where "OCODE_LO = 0x9FC4A400"
definition OCODE_LEN :: int where "OCODE_LEN = 353188"
definition MAIN_FETCH :: int where "MAIN_FETCH = 0x80069298"
definition MAIN_FETCH_S :: string where "MAIN_FETCH_S = ''0x80069298''"
definition HEAD :: string where "HEAD = ''0x9FC4A538''"
definition TRACE_MAX :: int where "TRACE_MAX = 250000"

definition armOcode :: "('w, 'z) day_api_scheme \<Rightarrow> ('w, unit) act" where
  "armOcode G =
     seq (\<lambda>w. let (mx, w') = d_readWatch G OCODE_LO (OCODE_LO + OCODE_LEN) (MAIN_FETCH, MAIN_FETCH + 2) TRACE_MAX w
              in (Inr mx, w')) (\<lambda>mx.
     require (mx = TRACE_MAX) ''__readWatch does not take {max} on this page'')"

text \<open>\<open>split(' x')\<close> up to the first separator, and what follows it.\<close>

fun cut_x :: "string \<Rightarrow> string \<times> string option" where
  "cut_x [] = ([], None)"
| "cut_x (c # r) =
     (if c = CHR '' '' \<and> prefix ''x'' r then ([], Some (tl r)) else let (p, q) = cut_x r in (c # p, q))"

text \<open>\<open>total\<close>: \<open>None\<close> is \<open>null\<close>, \<open>Some None\<close> is \<open>NaN\<close>.\<close>

definition fetch_total :: "string list \<Rightarrow> int option option" where
  "fetch_total byPc =
     foldl (\<lambda>t s. let (p, q) = cut_x s in
       if p = MAIN_FETCH_S then Some (case q of None \<Rightarrow> None | Some r \<Rightarrow> parse_int 10 (fst (cut_x r))) else t) None byPc"

definition seg_step :: "string list list \<times> string list \<Rightarrow> string \<Rightarrow> string list list \<times> string list" where
  "seg_step sc a = (let (segs, cur) = sc in
     if a = HEAD \<and> cur \<noteq> [] then (segs @ [cur], [a]) else (segs, cur @ [a]))"

definition segments :: "string list \<Rightarrow> string list list" where
  "segments st = (let (segs, cur) = foldl seg_step ([], []) st in if cur \<noteq> [] then segs @ [cur] else segs)"

record ocode =
  oc_instructions :: "int option option"
  oc_logged :: int
  oc_capped :: bool
  oc_events :: int
  oc_sizes :: "int list"
  oc_segments :: "string list"

definition readOcode :: "('w, 'z) day_api_scheme \<Rightarrow> ('w, ocode) act" where
  "readOcode G =
     seq (reading (d_readWatchLog G)) (\<lambda>lg.
     seq (doing (d_readUnwatch G)) (\<lambda>_.
     let segs = segments (wl_all lg)
     in give \<lparr>oc_instructions = fetch_total (case wl_byPc lg of None \<Rightarrow> [] | Some l \<Rightarrow> l),
              oc_logged = int (length (wl_all lg)), oc_capped = wl_capped lg, oc_events = int (length segs),
              oc_sizes = map (\<lambda>s. int (length s)) segs, oc_segments = map (join_with '' '') segs\<rparr>))"

section \<open>The calendar\<close>

record date =
  da_d :: int
  da_m :: int
  da_y :: int

definition fromMjd :: "int \<Rightarrow> date" where
  "fromMjd m =
     (let jd = m + 2400001; a = jd + 32044; b = (4 * a + 3) div 146097;
          c = a - 146097 * b div 4; d = (4 * c + 3) div 1461;
          e = c - 1461 * d div 4; f = (5 * e + 2) div 153
      in \<lparr>da_d = e - (153 * f + 2) div 5 + 1,
          da_m = f + 3 - 12 * (f div 10),
          da_y = 100 * b + d - 4800 + f div 10\<rparr>)"

definition setClock :: "('w, 'z) day_api_scheme \<Rightarrow> int \<Rightarrow> int \<Rightarrow> int \<Rightarrow> int \<Rightarrow> ('w, string) act" where
  "setClock G y mo d hh =
     seq (\<lambda>w. let (utc, w') = d_TDT G y mo d hh w in (Inr utc, w')) (\<lambda>utc.
     seq (doing (d_TOT G y mo d hh)) (\<lambda>_. give utc))"

text \<open>
  The page's own conversion and the text it reports, \<open>mjd\<close> and \<open>__siTDT\<close> of \<open>reference/digibox-boot.html\<close>
  with minutes and seconds 0.  The floating-point products are exact quotients of integers.
\<close>

definition mjd :: "int \<Rightarrow> int \<Rightarrow> int \<Rightarrow> int" where
  "mjd y m d = (let L = (if m \<le> 2 then 1 else 0) in
     36525 * (y - 1900 - L) div 100 + 306001 * (m + 1 + 12 * L) div 10000 + d + 14956)"

definition tdt_utc :: "int \<Rightarrow> int \<Rightarrow> int \<Rightarrow> int \<Rightarrow> string" where
  "tdt_utc y mo d hh = dec_string y @ ''-'' @ dec_string mo @ ''-'' @ dec_string d @ '' '' @ dec_string hh
     @ '':0:0  MJD '' @ dec_string (mjd y mo d)"

text \<open>\<open>indexOf(p) >= 0\<close>.\<close>

definition occurs :: "string \<Rightarrow> string \<Rightarrow> bool" where
  "occurs p t \<longleftrightarrow> list_ex (prefix p) (suffixes t)"

section \<open>The screen and the arms\<close>

record surf =
  su_hash :: string
  su_colours :: int

definition surface_of :: "int list \<Rightarrow> surf" where
  "surface_of bs = \<lparr>su_hash = h8 (uint (surface_hash bs)), su_colours = int (length (colour_keys bs))\<rparr>"

definition surface :: "('w, 'z) page_api_scheme \<Rightarrow> ('w, surf) act" where
  "surface G = reading (\<lambda>w. surface_of (g_peek G w 0x80584048 (720 * 576)))"

definition WIDGET_TRACE :: "trace_point list" where
  "WIDGET_TRACE = [
    \<lparr>tp_pc = 0x80082A6C, tp_name = ''newWidget'', tp_args = 1\<rparr>,
    \<lparr>tp_pc = 0x80082604, tp_name = ''apply'', tp_args = 1\<rparr>,
    \<lparr>tp_pc = 0x80083830, tp_name = ''DAMAGE'', tp_args = 2\<rparr>]"

definition ARMS :: "(string \<times> int) list" where
  "ARMS = [
    (''ask (12,0x23)'', 0x800CB770),
    (''ask body'', 0x800CB69C),
    (''linkage search'', 0x800AD608),
    (''ARM: ANSWERED'', 0x800A4040),
    (''ARM: not answered'', 0x800AC774)]"

definition arms_check :: "('w, unit list) act" where
  "arms_check = each (\<lambda>x. require (snd x AND 1 = 0)
     (fst x @ '' is the odd address '' @ h8 (snd x) @ ''; __pcHits normalises upward only'')) ARMS"

definition arms_row :: "(string \<times> int) list \<Rightarrow> string \<times> int \<Rightarrow> ('w, int) act" where
  "arms_row hits x =
     (case map_of hits (h8 (snd x)) of
        Some n \<Rightarrow> give n
      | None \<Rightarrow> throw (''__pcHits could not find '' @ fst x @ '' -- harness failure''))"

definition arms :: "('w, 'z) page_api_scheme \<Rightarrow> ('w, string \<rightharpoonup> int) act" where
  "arms G = read_counts arms_row G ARMS"

section \<open>The subscription slots\<close>

definition SLOTS_BASE :: int where "SLOTS_BASE = 0x80165048"
definition SLOT_SIZE :: int where "SLOT_SIZE = 0x2C"

definition u16at :: "('w, 'z) page_api_scheme \<Rightarrow> 'w \<Rightarrow> int \<Rightarrow> int" where
  "u16at G w a = (let b = g_peek G w a 2 in (push_bit 8 (at0 b 0) OR at0 b 1) AND 0xFFFF)"

definition u8at :: "('w, 'z) page_api_scheme \<Rightarrow> 'w \<Rightarrow> int \<Rightarrow> int" where
  "u8at G w a = at0 (g_peek G w a 1) 0"

record slot =
  sl_i :: int
  sl_at :: string
  sl_active :: int
  sl_waitingFor :: string
  sl_serviceA :: string
  sl_serviceB :: string
  sl_dayKey :: string
  sl_tableIdLow :: int
  sl_kind :: int
  sl_wildcard :: int

definition slot_at :: "('w, 'z) page_api_scheme \<Rightarrow> 'w \<Rightarrow> int \<Rightarrow> int \<Rightarrow> slot" where
  "slot_at G w arr i =
     (let s = arr + i * SLOT_SIZE
      in \<lparr>sl_i = i, sl_at = h8 s, sl_active = u8at G w s, sl_waitingFor = h8 (b32 G w (s + 4)),
          sl_serviceA = hx (u16at G w (s + 0x10)), sl_serviceB = hx (u16at G w (s + 0x12)),
          sl_dayKey = hx (u16at G w (s + 0x18)), sl_tableIdLow = u8at G w (s + 0x1A),
          sl_kind = u8at G w (s + 0x1D), sl_wildcard = u8at G w (s + 0x28)\<rparr>)"

record slot_table =
  st_table :: int
  st_header :: string
  st_count :: int
  st_array :: string
  st_slots :: "slot list"

definition slot_table :: "('w, 'z) page_api_scheme \<Rightarrow> int \<Rightarrow> ('w, slot_table) act" where
  "slot_table G t =
     (let hdr = SLOTS_BASE + t * 0x10 in
      seq (reading (\<lambda>w. u16at G w hdr)) (\<lambda>count.
      seq (reading (\<lambda>w. b32 G w (hdr + 8))) (\<lambda>arr.
      seq (require (0x80000000 \<le> arr \<and> arr < 0x82000000)
        (''slot table '' @ dec_string t @ '' points at '' @ h8 arr @ '', which is not DRAM -- the layout ''
         @ ''read off 0x800C579C does not hold on this box and an empty dump would be a ''
         @ ''harness failure rather than an empty table'')) (\<lambda>_.
      seq (require (count \<le> 4096)
        (''slot table '' @ dec_string t @ '' declares '' @ dec_string count @ '' slots, which is not a usable count'')) (\<lambda>_.
      reading (\<lambda>w. \<lparr>st_table = t, st_header = h8 hdr, st_count = count, st_array = h8 arr,
        st_slots = map (slot_at G w arr) (filter (\<lambda>i. u8at G w (arr + i * SLOT_SIZE) \<noteq> 0) [1..count - 1])\<rparr>))))))"

record slot_dump =
  sd_at :: string
  sd_tables :: "slot_table list"
  sd_activeSlots :: int

definition slotDump :: "('w, 'z) page_api_scheme \<Rightarrow> string \<Rightarrow> ('w, slot_dump) act" where
  "slotDump G tag =
     seq (each (slot_table G) [1, 2]) (\<lambda>ts.
     give \<lparr>sd_at = tag, sd_tables = ts, sd_activeSlots = sum_list (map (\<lambda>t. int (length (st_slots t))) ts)\<rparr>)"

section \<open>The census of the ladder\<close>

lemma LADDER_countable: "countable_rows LADDER"
  by (simp add: countable_rows_def LADDER_def)

lemma ARMS_countable: "countable_rows ARMS"
  by (simp add: countable_rows_def ARMS_def)

lemma census_exact [simp]: "census G w = (Inr (counts_of G LADDER w), w)"
  unfolding census_def by (rule read_counts_exact [OF LADDER_countable]) (simp add: ladder_row_def)

lemma arms_exact [simp]: "arms G w = (Inr (counts_of G ARMS w), w)"
  unfolding arms_def by (rule read_counts_exact [OF ARMS_countable]) (simp add: arms_row_def)

lemma each_require:
  "list_all p xs \<Longrightarrow> each (\<lambda>x. require (p x) (e x)) xs = give (replicate (length xs) ())"
proof (induction xs)
  case (Cons x xs)
  have p: "p x" and ps: "list_all p xs" using Cons.prems by simp_all
  note ih = Cons.IH [OF ps]
  show ?case by (simp only: each.simps seq_simps p if_True ih list.size add_0_right plus_1_eq_Suc add_Suc_right replicate_Suc)
qed simp

lemma ladder_check_passes: "ladder_check = give (replicate (length LADDER) ())"
  unfolding ladder_check_def by (rule each_require) (simp add: LADDER_def)

lemma arms_check_passes: "arms_check = give (replicate (length ARMS) ())"
  unfolding arms_check_def by (rule each_require) (simp add: ARMS_def)

section \<open>The events of a trace\<close>

definition seg_ok :: "string list list \<times> string list \<Rightarrow> bool" where
  "seg_ok sc \<longleftrightarrow> [] \<notin> set (fst sc) \<and> (\<forall>s \<in> set (fst sc). HEAD \<notin> set (tl s)) \<and>
     (\<forall>s \<in> set (tl (fst sc @ [snd sc])). s \<noteq> [] \<and> hd s = HEAD) \<and> HEAD \<notin> set (tl (snd sc))"

lemma seg_step_ok: "seg_ok sc \<Longrightarrow> seg_ok (seg_step sc a)"
proof (cases sc)
  case (Pair segs cur)
  assume ok: "seg_ok sc"
  show ?thesis
  proof (cases "a = HEAD \<and> cur \<noteq> []")
    case True
    then show ?thesis using ok Pair by (cases segs) (auto simp: seg_ok_def seg_step_def)
  next
    case False
    then show ?thesis using ok Pair by (cases segs; cases cur) (auto simp: seg_ok_def seg_step_def)
  qed
qed

lemma seg_fold_ok: "seg_ok sc \<Longrightarrow> seg_ok (foldl seg_step sc st)"
  by (induction st arbitrary: sc) (simp_all add: seg_step_ok)

lemma seg_step_concat: "concat (fst (seg_step sc a)) @ snd (seg_step sc a) = (concat (fst sc) @ snd sc) @ [a]"
  by (simp add: seg_step_def split_beta Let_def)

lemma seg_fold_concat:
  "concat (fst (foldl seg_step sc st)) @ snd (foldl seg_step sc st) = concat (fst sc) @ snd sc @ st"
proof (induction st arbitrary: sc)
  case (Cons a st)
  show ?case using Cons [of "seg_step sc a"] seg_step_concat [of sc a] by (simp flip: append_assoc)
qed simp

text \<open>
  The trace is cut into whole events.  The events are non-empty, put together they are the trace,
  the head address stands only at the front of an event, and every event after the first starts with it.
\<close>

theorem segments_are_events:
  "concat (segments st) = st \<and> [] \<notin> set (segments st) \<and> list_all (\<lambda>s. HEAD \<notin> set (tl s)) (segments st) \<and>
   list_all (\<lambda>s. hd s = HEAD) (tl (segments st))"
proof -
  obtain segs cur where f: "foldl seg_step ([], []) st = (segs, cur)" by force
  have "seg_ok (segs, cur)" unfolding f [symmetric] by (rule seg_fold_ok) (simp add: seg_ok_def)
  moreover have "concat segs @ cur = st" using seg_fold_concat [of "([], [])" st] by (simp add: f)
  ultimately show ?thesis
    by (cases segs) (auto simp: segments_def f seg_ok_def list_all_iff)
qed

section \<open>The date of a day\<close>

lemma quarter_days: "36525 * x div 100 = 1461 * x div (4 :: int)"
  using div_mult_mult1 [of 25 "1461 * x" 4] by simp

lemma calendar_month:
  assumes "0 \<le> e" "e \<le> (365 :: int)" "f = (5 * e + 2) div 153"
  shows "0 \<le> f \<and> f \<le> 11" "306001 * (f + 4) div 10000 = (153 * f + 2) div 5 + 122"
    "0 \<le> e - (153 * f + 2) div 5" "e - (153 * f + 2) div 5 \<le> 30" "f div 10 = (if f \<ge> 10 then 1 else 0)"
proof -
  show f: "0 \<le> f \<and> f \<le> 11" using assms by auto
  then have c: "f = 0 \<or> f = 1 \<or> f = 2 \<or> f = 3 \<or> f = 4 \<or> f = 5 \<or> f = 6 \<or> f = 7 \<or> f = 8 \<or> f = 9 \<or> f = 10 \<or> f = 11"
    by presburger
  then show "306001 * (f + 4) div 10000 = (153 * f + 2) div 5 + 122" "f div 10 = (if f \<ge> 10 then 1 else 0)"
    by (elim disjE; simp)+
  have l: "153 * f \<le> 5 * e + 2" "5 * e + 2 < 153 * f + 153" using assms(3) by linarith+
  show "0 \<le> e - (153 * f + 2) div 5" "e - (153 * f + 2) div 5 \<le> 30" using c l by (elim disjE; simp)+
qed

lemma mjd_of_parts:
  assumes "0 \<le> e" "e \<le> 365" "f = (5 * e + 2) div 153"
  shows "mjd (Y + f div 10) (f + 3 - 12 * (f div 10)) (e - (153 * f + 2) div 5 + 1)
    = 1461 * (Y - 1900) div 4 + e + 15079"
proof -
  note k = calendar_month [OF assms]
  have L: "(if f + 3 - 12 * (f div 10) \<le> 2 then 1 else 0) = f div 10" using k(1,5) by simp
  have y: "Y + f div 10 - 1900 - f div 10 = Y - 1900" and
    m: "f + 3 - 12 * (f div 10) + 1 + 12 * (f div 10) = f + 4" by simp_all
  show ?thesis unfolding mjd_def Let_def L y m quarter_days k(2) by linarith
qed

lemma day_in_century:
  assumes "0 \<le> c" "c \<le> (36524 :: int)" "d = (4 * c + 3) div 1461"
  shows "0 \<le> c - 1461 * d div 4" "c - 1461 * d div 4 \<le> 365" "0 \<le> d" "d \<le> 99"
proof -
  have l: "1461 * d \<le> 4 * c + 3" "4 * c + 3 < 1461 * d + 1461" using assms(3) by linarith+
  have q: "4 * (1461 * d div 4) \<le> 1461 * d" "1461 * d < 4 * (1461 * d div 4) + 4" by linarith+
  show "0 \<le> c - 1461 * d div 4" "c - 1461 * d div 4 \<le> 365" using l q by linarith+
  show "0 \<le> d" "d \<le> 99" using l assms by linarith+
qed

lemma next_century: "1461 * (100 + d) div 4 = 36525 + 1461 * d div (4 :: int)"
proof -
  have "1461 * (100 + d) = 1461 * d + 36525 * 4" by (simp add: algebra_simps)
  then show ?thesis using div_mult_self1 [of 4 "1461 * d" 36525] by simp
qed

lemma century:
  assumes "15079 \<le> m" "m \<le> 88127" "a = m + 2400001 + 32044" "b = (4 * a + 3) div 146097" "c = a - 146097 * b div (4 :: int)"
  shows "0 \<le> c \<and> c \<le> 36524 \<and> 1461 * (100 * b + d - 4800 - 1900) div 4 + (c - 1461 * d div 4) + 15079 = m"
proof -
  define q where "q = 1461 * d div 4"
  have l: "146097 * b \<le> 4 * a + 3" "4 * a + 3 < 146097 * b + 146097" using assms(4) by linarith+
  have "66 < b" "b < 69" using l assms(1-3) by linarith+
  then consider "b = 67" | "b = 68" by linarith
  then show ?thesis
  proof cases
    case 1
    have c: "c = m - 15079" using assms(3,5) by (simp add: 1)
    have "100 * b + d - 4800 - 1900 = d" by (simp add: 1)
    then have q': "1461 * (100 * b + d - 4800 - 1900) div 4 = q" by (simp only: q_def)
    show ?thesis unfolding q' q_def [symmetric] using l c assms(1-3) 1 by linarith
  next
    case 2
    have c: "c = m - 51604" using assms(3,5) by (simp add: 2)
    have "100 * b + d - 4800 - 1900 = 100 + d" by (simp add: 2)
    then have q': "1461 * (100 * b + d - 4800 - 1900) div 4 = 36525 + q" by (simp only: q_def next_century)
    show ?thesis unfolding q' q_def [symmetric] using l c assms(1-3) 2 by linarith
  qed
qed

lemma occurs_suffix: "occurs p (t @ p)"
  unfolding occurs_def list_ex_iff by (intro bexI [where x = p]) (simp_all add: suffixI)

text \<open>
  C27.  The calendar inverts the page's.  From 1 March 1900 to 28 February 2100 the date \<open>fromMjd\<close> gives
  is a month and a day of the calendar whose day number, as the page computes it, is the one asked for,
  and the check of the report the page prints passes.
\<close>

theorem fromMjd_inverts_mjd:
  assumes "15079 \<le> m" "m \<le> 88127"
  shows "mjd (da_y (fromMjd m)) (da_m (fromMjd m)) (da_d (fromMjd m)) = m \<and>
    1 \<le> da_m (fromMjd m) \<and> da_m (fromMjd m) \<le> 12 \<and> 1 \<le> da_d (fromMjd m) \<and> da_d (fromMjd m) \<le> 31 \<and>
    occurs (''MJD '' @ dec_string m) (tdt_utc (da_y (fromMjd m)) (da_m (fromMjd m)) (da_d (fromMjd m)) hh)"
proof -
  define a where "a = m + 2400001 + 32044"
  define b where "b = (4 * a + 3) div 146097"
  define c where "c = a - 146097 * b div 4"
  define d where "d = (4 * c + 3) div 1461"
  define e where "e = c - 1461 * d div 4"
  define f where "f = (5 * e + 2) div 153"
  have r: "fromMjd m = \<lparr>da_d = e - (153 * f + 2) div 5 + 1, da_m = f + 3 - 12 * (f div 10), da_y = 100 * b + d - 4800 + f div 10\<rparr>"
    unfolding fromMjd_def Let_def a_def [symmetric] b_def [symmetric] c_def [symmetric] d_def [symmetric]
      e_def [symmetric] f_def [symmetric] by (rule refl)
  have c: "0 \<le> c" "c \<le> 36524" "1461 * (100 * b + d - 4800 - 1900) div 4 + e + 15079 = m"
    using century [OF assms a_def b_def c_def, of d] unfolding e_def by blast+
  note e = day_in_century [OF c(1,2) d_def, folded e_def]
  note k = calendar_month [OF e(1,2) f_def]
  have inv: "mjd (da_y (fromMjd m)) (da_m (fromMjd m)) (da_d (fromMjd m)) = m"
    unfolding r date.simps mjd_of_parts [OF e(1,2) f_def] by (rule c(3))
  moreover have "1 \<le> da_m (fromMjd m)" "da_m (fromMjd m) \<le> 12" "1 \<le> da_d (fromMjd m)" "da_d (fromMjd m) \<le> 31"
    unfolding r date.simps k(5) using k(1,3,4) by (simp_all split: if_splits)
  moreover have "occurs (''MJD '' @ dec_string m) (t @ '':0:0  MJD '' @ dec_string m)" for t
    using occurs_suffix [of "''MJD '' @ dec_string m" "t @ '':0:0  ''"] by simp
  from this [of "dec_string (da_y (fromMjd m)) @ ''-'' @ dec_string (da_m (fromMjd m)) @ ''-''
      @ dec_string (da_d (fromMjd m)) @ '' '' @ dec_string hh"]
  have "occurs (''MJD '' @ dec_string m) (tdt_utc (da_y (fromMjd m)) (da_m (fromMjd m)) (da_d (fromMjd m)) hh)"
    by (simp only: tdt_utc_def inv append_assoc)
  ultimately show ?thesis using inv by (intro conjI)
qed

theorem fromMjd_inverts_mjd_witness:
  "mjd (da_y (fromMjd 50814)) (da_m (fromMjd 50814)) (da_d (fromMjd 50814)) = 50814"
  using fromMjd_inverts_mjd [of 50814] by simp

end
