(* ===== verification/Probe_Day_Feed.thy ===== *)
theory Probe_Day_Feed
  imports Complex_Main Probe_Day
begin

text \<open>
  The operations of \<open>tools/probes/send-the-day-the-guide-wants.js\<close>: the guarded key press, the subscriptions
  and what they demand, the BAT, the two waits, the feed, the comparison of two traces and the verdicts.
  The probe's own variables are the record \<open>day\<close> around the page's state.
\<close>

section \<open>The probe's variables\<close>

record 'w day =
  dy_page :: 'w
  dy_bat :: int
  dy_a1 :: int
  dy_last :: "int option"
  dy_table :: int
  dy_filter :: "int \<times> int"
  dy_pushed :: int
  dy_refused :: int

definition on_page :: "('w, 'a) act \<Rightarrow> (('w, 'y) day_scheme, 'a) act" where
  "on_page m = (\<lambda>s. let (r, w') = m (dy_page s) in (r, s\<lparr>dy_page := w'\<rparr>))"

definition pausing :: "('w, 'z) page_api_scheme \<Rightarrow> int \<Rightarrow> (('w, 'y) day_scheme, unit) act" where
  "pausing G ms = on_page (sleep G ms)"

section \<open>A key press\<close>

record press_report =
  pp_tag :: string
  pp_key :: string
  pp_pressedFrom :: string
  pp_widgets :: int
  pp_applies :: int
  pp_damage :: int
  pp_moved :: bool
  pp_surface :: surf
  pp_drew :: bool
  pp_arms :: "string \<rightharpoonup> int"

definition times_of :: "string \<Rightarrow> string list \<Rightarrow> int" where
  "times_of n lg = int (length (filter (\<lambda>x. x = n) lg))"

definition press_page :: "('w, 'z) day_api_scheme \<Rightarrow> int \<Rightarrow> string \<Rightarrow> string \<Rightarrow> string \<Rightarrow> ('w, press_report) act" where
  "press_page G raw label tag src =
     seq (doing (d_traceCalls G WIDGET_TRACE)) (\<lambda>_.
     seq (doing (d_traceClear G)) (\<lambda>_.
     seq (surface G) (\<lambda>s0.
     seq (arms G) (\<lambda>a0.
     seq (press_key G raw 0) (\<lambda>_.
     seq (sleep G 11000) (\<lambda>_.
     seq (reading (d_traceLog G)) (\<lambda>lg.
     seq (doing (d_traceCalls G [])) (\<lambda>_.
     seq (surface G) (\<lambda>s1.
     seq (arms G) (\<lambda>a1.
     give \<lparr>pp_tag = tag, pp_key = label, pp_pressedFrom = src, pp_widgets = times_of ''newWidget'' lg,
       pp_applies = times_of ''apply'' lg, pp_damage = times_of ''DAMAGE'' lg,
       pp_moved = (su_hash s1 \<noteq> su_hash s0), pp_surface = s1, pp_drew = (times_of ''newWidget'' lg > 0),
       pp_arms = changes a0 a1\<rparr>))))))))))"

definition press :: "('w, 'z) day_api_scheme \<Rightarrow> int \<Rightarrow> string \<Rightarrow> string \<Rightarrow> string \<Rightarrow> ('w day, press_report) act" where
  "press G raw label tag src =
     seq (reading dy_last) (\<lambda>was.
     seq (require (was \<noteq> Some raw)
       (''HARNESS: '' @ tag @ '' presses '' @ hx raw @ '' twice running; a box already on ''
        @ ''that screen rebuilds nothing and the zero would read as the fault'')) (\<lambda>_.
     seq (doing (\<lambda>s. s\<lparr>dy_last := Some raw\<rparr>)) (\<lambda>_.
     on_page (press_page G raw label tag src))))"

section \<open>What the box is asking for\<close>

definition armed :: "('w, 'z) day_api_scheme \<Rightarrow> 'w \<Rightarrow> si_filter list" where
  "armed G w = filter sf_armed (d_filters G w)"

definition wants :: "('w, 'z) day_api_scheme \<Rightarrow> int \<Rightarrow> 'w \<Rightarrow> bool" where
  "wants G tid w = list_ex (\<lambda>x. mt_tableId x = Some tid) (d_matches G w)"

definition match_text :: "si_match \<Rightarrow> string" where
  "match_text x =
     ''0x'' @ (case mt_tableId x of None \<Rightarrow> ''??'' | Some t \<Rightarrow> hex_string t)
     @ (case mt_extension x of None \<Rightarrow> [] | Some e \<Rightarrow> ''/ext=0x'' @ hex_string e)"

definition tablesWanted :: "('w, 'z) day_api_scheme \<Rightarrow> 'w \<Rightarrow> string" where
  "tablesWanted G w = join_with '' '' (sort (map match_text (d_matches G w)))"

record subscriptions =
  sb_tables :: string
  sb_filters :: "string list"

definition subscribed :: "('w, 'z) day_api_scheme \<Rightarrow> (('w, 'y) day_scheme, subscriptions) act" where
  "subscribed G = on_page (reading (\<lambda>w. \<lparr>sb_tables = tablesWanted G w, sb_filters = map sf_pid (armed G w)\<rparr>))"

definition pushBat :: "('w, 'z) day_api_scheme \<Rightarrow> ('w day, push_result) act" where
  "pushBat G =
     seq (doing (\<lambda>s. s\<lparr>dy_bat := next_version (dy_bat s)\<rparr>)) (\<lambda>_.
     seq (reading (\<lambda>s. bat_section (d_ids G (dy_page s)) (dy_bat s))) (\<lambda>sec.
     on_page (\<lambda>w. let (r, w') = d_push G 0x0011 sec w in (Inr r, w'))))"

text \<open>\<open>/^([0-9a-f]+)\/([0-9a-f]+)$/\<close>: the value and the mask.\<close>

definition hex_run :: "string \<Rightarrow> bool" where
  "hex_run s \<longleftrightarrow> s \<noteq> [] \<and>
     list_all (\<lambda>c. let n = of_char c :: int in 48 \<le> n \<and> n \<le> 57 \<or> 97 \<le> n \<and> n \<le> 102) s"

definition value_mask :: "string \<Rightarrow> (int \<times> int) option" where
  "value_mask x =
     (let v = takeWhile (\<lambda>c. c \<noteq> CHR ''/'') x; k = drop (length v + 1) x
      in if hex_run v \<and> hex_run k \<and> length v < length x
         then (case (parse_int 16 v, parse_int 16 k) of (Some a, Some b) \<Rightarrow> Some (a, b) | _ \<Rightarrow> None) else None)"

definition exact_pair :: "string list option \<Rightarrow> (int \<times> int) option" where
  "exact_pair bs =
     (case map value_mask (take 2 (drop 6 (case bs of None \<Rightarrow> [] | Some l \<Rightarrow> l))) of
        [Some (v0, k0), Some (v1, k1)] \<Rightarrow> if k0 = 0xFF \<and> k1 = 0xFF then Some (v0, v1) else None
      | _ \<Rightarrow> None)"

definition titles_match :: "si_match \<Rightarrow> bool" where
  "titles_match x = (case mt_tableId x of None \<Rightarrow> False | Some t \<Rightarrow> t AND 0xFE = 0xA0)"

text \<open>The PIDs opened since \<open>before\<close>, but for 0x52; \<open>NaN\<close> is \<open>None\<close>.\<close>

definition opened_pids :: "string list \<Rightarrow> string list \<Rightarrow> int option list" where
  "opened_pids before after =
     filter (\<lambda>p. p \<noteq> Some 0x52) (map (parse_int 16) (filter (\<lambda>p. p \<notin> set before) after))"

section \<open>The waits\<close>

definition settled :: "('w, 'z) day_api_scheme \<Rightarrow> 'w \<Rightarrow> bool" where
  "settled G w = prefix ''Ready'' (d_boxstate G w)"

text \<open>\<open>n\<close> is the number of seconds still allowed.\<close>

fun await_ready :: "('w, 'z) day_api_scheme \<Rightarrow> nat \<Rightarrow> int \<Rightarrow> (('w, 'y) day_scheme, int) act" where
  "await_ready G 0 waited = give waited"
| "await_ready G (Suc n) waited =
     seq (reading (\<lambda>s. settled G (dy_page s))) (\<lambda>ok.
     if ok then give waited else seq (pausing G 1000) (\<lambda>_. await_ready G n (waited + 1)))"

fun await_wants :: "('w, 'z) day_api_scheme \<Rightarrow> nat \<Rightarrow> int \<Rightarrow> (('w, 'y) day_scheme, unit) act" where
  "await_wants G 0 tid = give ()"
| "await_wants G (Suc n) tid =
     seq (reading (\<lambda>s. wants G tid (dy_page s))) (\<lambda>ok.
     if ok then give () else seq (pausing G 3000) (\<lambda>_. await_wants G n tid))"

text \<open>
  The channel-list rebuild writes the EEPROM; the wait ends when three readings in a row find no write,
  or after \<open>n\<close> readings.
\<close>

fun eeprom_quiet :: "('w, 'z) day_api_scheme \<Rightarrow> nat \<Rightarrow> int \<Rightarrow> int \<Rightarrow> int \<Rightarrow> (('w, 'y) day_scheme, int) act" where
  "eeprom_quiet G 0 lastW still secs = give secs"
| "eeprom_quiet G (Suc n) lastW still secs =
     (if still \<ge> 3 then give secs
      else seq (pausing G 3000) (\<lambda>_.
           seq (reading (\<lambda>s. d_eepromWrites G (dy_page s))) (\<lambda>nowW.
           eeprom_quiet G n nowW (if nowW = lastW then still + 1 else 0) (secs + 3))))"

definition await_quiet :: "('w, 'z) day_api_scheme \<Rightarrow> nat \<Rightarrow> (('w, 'y) day_scheme, int) act" where
  "await_quiet G n =
     seq (reading (\<lambda>s. d_eepromWrites G (dy_page s))) (\<lambda>w0. eeprom_quiet G n w0 0 0)"

section \<open>The feed\<close>

record guide_slot =
  gs_at :: string
  gs_waitingFor :: string
  gs_serviceA :: string
  gs_dayKey :: string
  gs_tableIdLow :: int

definition guideSlot :: "('w, 'z) page_api_scheme \<Rightarrow> 'w \<Rightarrow> guide_slot option" where
  "guideSlot G w =
     (let hdr = SLOTS_BASE + 1 * 0x10; arr = b32 G w (hdr + 8); count = u16at G w hdr
      in case filter (\<lambda>i. u8at G w (arr + i * SLOT_SIZE) \<noteq> 0) [1..count - 1] of
           [] \<Rightarrow> None
         | i # _ \<Rightarrow>
             (let s = arr + i * SLOT_SIZE
              in Some \<lparr>gs_at = h8 s, gs_waitingFor = h8 (b32 G w (s + 4)), gs_serviceA = hx (u16at G w (s + 0x10)),
                       gs_dayKey = hx (u16at G w (s + 0x18)), gs_tableIdLow = u8at G w (s + 0x1A)\<rparr>))"

text \<open>One section to one PID, counted as taken or refused.\<close>

definition push_one :: "('w, 'z) day_api_scheme \<Rightarrow> int list \<Rightarrow> int \<Rightarrow> ('w day, bool) act" where
  "push_one G sec pid = on_page (\<lambda>w. let (r, w') = d_push G pid sec w in (Inr (pr_ok r), w'))"

definition feed_extension :: "('w, 'z) day_api_scheme \<Rightarrow> int list \<Rightarrow> int \<Rightarrow> ('w day, bool list) act" where
  "feed_extension G pids ex =
     seq (doing (\<lambda>s. s\<lparr>dy_a1 := next_version (dy_a1 s)\<rparr>)) (\<lambda>_.
     seq (reading (\<lambda>s. buildA1 (dy_table s) (dy_filter s) (dy_a1 s) ex)) (\<lambda>sec.
     each (push_one G sec) pids))"

definition feed_round :: "('w, 'z) day_api_scheme \<Rightarrow> int list \<Rightarrow> nat \<Rightarrow> ('w day, bool list) act" where
  "feed_round G pids k =
     seq (each (feed_extension G pids) [0x0BB8..0x0BBB]) (\<lambda>rs.
     seq (pausing G 1500) (\<lambda>_. give (concat rs)))"

record feed_report =
  fr_feed :: string
  fr_tableId :: string
  fr_dayKey :: string
  fr_pushed :: int
  fr_refusedByPush :: int
  fr_sectionsParsed :: int
  fr_recordsRegistered :: int
  fr_notifies :: int
  fr_slotBefore :: "guide_slot option"
  fr_slotAfter :: "guide_slot option"
  fr_slotFired :: bool
  fr_census :: "string \<rightharpoonup> int"

definition slot_fired :: "guide_slot option \<Rightarrow> guide_slot option \<Rightarrow> bool" where
  "slot_fired s0 s1 =
     (case (s0, s1) of (Some a, Some b) \<Rightarrow> gs_waitingFor a \<noteq> gs_waitingFor b | _ \<Rightarrow> False)"

definition feed :: "('w, 'z) day_api_scheme \<Rightarrow> int list \<Rightarrow> string \<Rightarrow> int \<Rightarrow> int \<Rightarrow> nat \<Rightarrow> ('w day, feed_report) act" where
  "feed G pids label tableId dayKey rounds =
     seq (on_page (census G)) (\<lambda>c0.
     seq (reading (\<lambda>s. guideSlot G (dy_page s))) (\<lambda>s0.
     seq (doing (\<lambda>s. s\<lparr>dy_table := tableId, dy_filter := (drop_bit 8 dayKey AND 0xFF, dayKey AND 0xFF)\<rparr>)) (\<lambda>_.
     seq (each (feed_round G pids) [0..<rounds]) (\<lambda>rs.
     seq (pausing G 8000) (\<lambda>_.
     let n = int (length (filter (\<lambda>b. b) (concat rs))); r = int (length (filter Not (concat rs))) in
     seq (doing (\<lambda>s. s\<lparr>dy_pushed := dy_pushed s + n, dy_refused := dy_refused s + r\<rparr>)) (\<lambda>_.
     seq (on_page (census G)) (\<lambda>c1.
     seq (reading (\<lambda>s. guideSlot G (dy_page s))) (\<lambda>s1.
     let d = changes c0 c1 in
     give \<lparr>fr_feed = label, fr_tableId = hx tableId, fr_dayKey = hx dayKey, fr_pushed = n, fr_refusedByPush = r,
       fr_sectionsParsed = or0 (d ''01 sectionParser FUN_800c95d0''),
       fr_recordsRegistered = or0 (d ''12 PER-EVENT REGISTER''),
       fr_notifies = or0 (d ''13 notify(0x3EC / 0x3EA)''),
       fr_slotBefore = s0, fr_slotAfter = s1, fr_slotFired = slot_fired s0 s1, fr_census = d\<rparr>))))))))"

section \<open>The comparison of two windows\<close>

fun split_sp :: "string \<Rightarrow> string list" where
  "split_sp [] = [[]]"
| "split_sp (c # r) =
     (if c = CHR '' '' then [] # split_sp r
      else (case split_sp r of w # ws \<Rightarrow> (c # w) # ws | [] \<Rightarrow> [[c]]))"

text \<open>
  \<open>seen\<close> counts the events of the idle window; an event of the feed window that is still counted there
  is a repetition and uses one of them up, any other is novel.
\<close>

fun compare_windows :: "(string \<Rightarrow> nat) \<Rightarrow> (int \<times> string) list \<Rightarrow> (int \<times> string) list \<times> (int \<times> string) list" where
  "compare_windows seen [] = ([], [])"
| "compare_windows seen (e # es) =
     (if seen (snd e) \<noteq> 0
      then let (nov, rep) = compare_windows (seen(snd e := seen (snd e) - 1)) es in (nov, e # rep)
      else let (nov, rep) = compare_windows seen es in (e # nov, rep))"

record novel_event =
  ne_i :: int
  ne_length :: int
  ne_opens :: string

record repeated_event =
  re_i :: int
  re_length :: int

definition novel_of :: "int \<times> string \<Rightarrow> novel_event" where
  "novel_of e = \<lparr>ne_i = fst e, ne_length = int (length (split_sp (snd e))),
     ne_opens = join_with '' '' (take 10 (split_sp (snd e)))\<rparr>"

definition repeated_of :: "int \<times> string \<Rightarrow> repeated_event" where
  "repeated_of e = \<lparr>re_i = fst e, re_length = int (length (split_sp (snd e)))\<rparr>"

definition windows :: "string list \<Rightarrow> string list \<Rightarrow> (int \<times> string) list \<times> (int \<times> string) list" where
  "windows idle fed =
     compare_windows (\<lambda>s. length (filter (\<lambda>t. t = s) idle)) (zip (map int [0..<length fed]) fed)"

section \<open>The verdicts\<close>

definition TWELVE :: string where
  "TWELVE = ''EXACTLY TWELVE PER SECTION -- the length fix took''"

definition records_verdict :: "int \<Rightarrow> int \<Rightarrow> int \<Rightarrow> string" where
  "records_verdict perEvent pushed npids =
     (if of_int perEvent = of_int pushed / (of_int (if npids = 0 then 1 else npids) :: rat) * 12 * of_int npids
         \<or> perEvent mod 12 = 0 \<and> perEvent > 0
      then TWELVE
      else ''NOT twelve per section ('' @ dec_string perEvent @ '' registers over '' @ dec_string pushed
         @ '' sections) -- the walk ''
         @ ''still desynchronises, and the next thing to check is the record header rather than the guide'')"

definition rungs :: "string list" where
  "rungs = filter (\<lambda>n. n \<noteq> [] \<and> digit_of (hd n) < 10) (map fst LADDER)"

definition stopped :: "(string \<rightharpoonup> int) \<Rightarrow> string option" where
  "stopped d = find (\<lambda>n. or0 (d n) = 0) rungs"

definition armOf :: "press_report \<Rightarrow> string" where
  "armOf p =
     (if or0 (pp_arms p ''ARM: ANSWERED'') \<noteq> 0 then ''ANSWERED x'' @ dec_string (or0 (pp_arms p ''ARM: ANSWERED''))
      else if or0 (pp_arms p ''ARM: not answered'') \<noteq> 0
        then ''not-answered x'' @ dec_string (or0 (pp_arms p ''ARM: not answered''))
      else ''the guide did not ask at all'')"

definition slots_matching :: "string \<Rightarrow> int \<Rightarrow> (string \<times> slot_dump) list \<Rightarrow> (string \<times> int \<times> slot) list" where
  "slots_matching dayKey low dumps =
     concat (map (\<lambda>(k, sd). concat (map (\<lambda>t. map (\<lambda>s. (k, st_table t, s))
       (filter (\<lambda>s. sl_dayKey s = dayKey \<and> sl_tableIdLow s = low) (st_slots t))) (sd_tables sd))) dumps)"

definition feed_verdict :: "feed_report \<Rightarrow> feed_report \<Rightarrow> string" where
  "feed_verdict ctl tst =
     (if fr_sectionsParsed tst \<noteq> 0
      then ''THE GUIDE'' @ [CHR 0x27] @ ''S OWN TABLE AND DAY ARE DELIVERABLE -- table 0xA3 / day 0xC67E parsed ''
         @ dec_string (fr_sectionsParsed tst) @ '' section(s) and registered ''
         @ dec_string (fr_recordsRegistered tst) @ '' record(s)''
         @ (case (fr_slotFired tst, fr_slotBefore tst, fr_slotAfter tst) of
              (True, Some a, Some b) \<Rightarrow> '' AND THE SLOT FIRED ('' @ gs_waitingFor a @ '' -> '' @ gs_waitingFor b @ '')''
            | _ \<Rightarrow> '', but the slot did not move'')
      else ''table 0xA3 / day 0xC67E was DELIVERED AND PARSED BY NOBODY while the control parsed ''
         @ dec_string (fr_sectionsParsed ctl) @ '' -- so something downstream of the ring does enforce the match unit, ''
         @ ''and the box has to be made to SUBSCRIBE to the guide'' @ [CHR 0x27] @ ''s day rather than simply sent it'')"

end
