(* ===== verification/Probe_Day_Run.thy ===== *)
theory Probe_Day_Run
  imports Probe_Day_Feed
begin

text \<open>
  The run of \<open>tools/probes/send-the-day-the-guide-wants.js\<close>, stage by stage: the state it insists on, the
  clock, the line-up, the addressing it reads off the box, the baseline presses, the idle and the feed
  window, the presses after the feed and the move of the clock into the day that was fed.  A throw names
  its reason; where the probe appends a JSON dump of an object to the text, the dump is left out.
\<close>

section \<open>The stages\<close>

text \<open>Settled, booted, and nobody else is broadcasting.\<close>

definition day_settle :: "('w, 'z) day_api_scheme \<Rightarrow> ('w day, int) act" where
  "day_settle G =
     seq (await_ready G 300 0) (\<lambda>waited.
     seq (reading (\<lambda>s. settled G (dy_page s))) (\<lambda>ok.
     seq (require ok (''never settled in '' @ dec_string waited @ ''s'')) (\<lambda>_.
     seq (reading (\<lambda>s. g_tasks G (dy_page s))) (\<lambda>n.
     seq (require (n \<ge> 42) (''not booted: '' @ dec_string n @ '' tasks'')) (\<lambda>_.
     seq (reading (\<lambda>s. d_carouselRunning G (dy_page s))) (\<lambda>running.
     seq (require (\<not> running) ''the carousel is RUNNING'') (\<lambda>_.
     seq (on_page (doing (g_profile G))) (\<lambda>_.
     give waited))))))))"

definition push_clock :: "('w, 'z) day_api_scheme \<Rightarrow> int \<Rightarrow> int \<Rightarrow> int \<Rightarrow> int \<Rightarrow> nat \<Rightarrow> ('w day, string) act" where
  "push_clock G y mo d hh k =
     seq (on_page (setClock G y mo d hh)) (\<lambda>utc.
     seq (pausing G 2500) (\<lambda>_. give utc))"

definition open_lineup :: "('w, 'z) day_api_scheme \<Rightarrow> ('w day, unit) act" where
  "open_lineup G =
     seq (reading (\<lambda>s. wants G 0x4A (dy_page s))) (\<lambda>ok.
     seq (if ok then give ()
          else seq (on_page (\<lambda>w. let (r, w') = d_NIT G None w in (Inr r, w'))) (\<lambda>n0.
               seq (require (pr_ok n0) (''the ladder-opening NIT was refused: '' @ pr_why n0)) (\<lambda>_.
               await_wants G 10 0x4A))) (\<lambda>_.
     seq (reading (\<lambda>s. (wants G 0x4A (dy_page s), tablesWanted G (dy_page s)))) (\<lambda>(ok, ts).
     require ok (''no 0x4A subscription after the NIT: '' @ ts))))"

definition lineup_round :: "('w, 'z) day_api_scheme \<Rightarrow> nat \<Rightarrow> ('w day, unit) act" where
  "lineup_round G k =
     seq (on_page (doing (\<lambda>w. snd (d_NIT G (Some (int k + 1)) w)))) (\<lambda>_.
     seq (on_page (doing (\<lambda>w. snd (d_SDT G (Some (int k + 1)) w)))) (\<lambda>_.
     seq (pushBat G) (\<lambda>br.
     seq (require (pr_ok br) (''the BAT was refused: '' @ pr_why br)) (\<lambda>_.
     pausing G 7000))))"

record addressing =
  ad_match :: si_match
  ad_tableIdDemanded :: string
  ad_tableIdMoved :: bool
  ad_filterBytesDemanded :: string
  ad_filterBytesMoved :: bool
  ad_newPids :: "int option list"
  ad_pidsMoved :: bool

text \<open>
  The table id, the two payload bytes and the PIDs are the box's to choose: they are read off the match
  unit and the filters, and the probe stops when any of them is missing.
\<close>

definition read_addressing :: "('w, 'z) day_api_scheme \<Rightarrow> subscriptions \<Rightarrow> subscriptions \<Rightarrow> ('w day, addressing) act" where
  "read_addressing G before after =
     seq (reading (\<lambda>s. (filter titles_match (d_matches G (dy_page s)), tablesWanted G (dy_page s)))) (\<lambda>(a1s, ts).
     case a1s of [] \<Rightarrow> throw (''no 0xA0/0xA1 subscription after the line-up: '' @ ts)
     | a1 # _ \<Rightarrow>
       let tid = (case mt_tableId a1 of None \<Rightarrow> 0 | Some t \<Rightarrow> t) in
       seq (doing (\<lambda>s. s\<lparr>dy_table := tid\<rparr>)) (\<lambda>_.
       case exact_pair (mt_bytes a1) of
         None \<Rightarrow> throw (''the 0xA1 unit does not constrain payload[0..1] to exact values on this run, ''
                   @ ''so there is nothing to stamp and a guessed pair would be refused in silence'')
       | Some (v0, v1) \<Rightarrow>
         seq (doing (\<lambda>s. s\<lparr>dy_filter := (v0, v1)\<rparr>)) (\<lambda>_.
         let pids = opened_pids (sb_filters before) (sb_filters after) in
         seq (require (pids \<noteq> [])
           (''the line-up opened no PID that could carry listings ('' @ join_with '' '' (sb_filters after)
            @ ''), so there is nowhere attributable to push and every later zero would be about that'')) (\<lambda>_.
         give \<lparr>ad_match = a1, ad_tableIdDemanded = hx tid, ad_tableIdMoved = (tid \<noteq> 0xA1),
           ad_filterBytesDemanded = ''0x'' @ hex_string v0 @ '' 0x'' @ hex_string v1,
           ad_filterBytesMoved = (\<not> (v0 = 0x9E \<and> v1 = 0x8B)), ad_newPids = pids,
           ad_pidsMoved = (pids \<noteq> [Some 0x33])\<rparr>))))"

text \<open>The extensions the unit admits, as the report lists them; \<open>null\<close> counts as 0.\<close>

definition extensions_of :: "si_match \<Rightarrow> int list" where
  "extensions_of a1 = [to_u32 (or0 (mt_extension a1) AND or0 (mt_extensionMask a1)) .. or0 (mt_extension a1)]"

definition listings_pids :: "('w, 'z) day_api_scheme \<Rightarrow> 'w \<Rightarrow> int list" where
  "listings_pids G w =
     filter (\<lambda>p. 0x30 \<le> p \<and> p \<le> 0x37) (concat (map (\<lambda>f. case parse_int 16 (sf_pid f) of None \<Rightarrow> [] | Some p \<Rightarrow> [p]) (armed G w)))"

definition shoot :: "('w, 'z) day_api_scheme \<Rightarrow> string \<Rightarrow> ('w day, unit) act" where
  "shoot G name = on_page (doing (g_shot G name))"

record baseline =
  ba_beforeAnyGuide :: slot_dump
  ba_afterGuidePress :: slot_dump
  ba_presses :: "press_report list"

definition day_baseline :: "('w, 'z) day_api_scheme \<Rightarrow> ('w day, baseline) act" where
  "day_baseline G =
     seq (on_page (slotDump G ''after the line-up, before the guide has ever been opened'')) (\<lambda>d0.
     seq (press G 0x7D ''sky'' ''baseline-sky'' ''the boot screen'') (\<lambda>p0.
     seq (require (pp_drew p0)
       (''the settling sky press built no widgets, so the box is not drawing at all and ''
        @ ''every later reading would be about that rather than about the listings'')) (\<lambda>_.
     seq (press G 0x80 ''tv guide'' ''baseline-guide'' ''the menu'') (\<lambda>p1.
     seq (shoot G ''guide-before-12-records'') (\<lambda>_.
     seq (require (pp_drew p1)
       (''the BASELINE guide press built no widgets -- the box was not drawing before the ''
        @ ''listings were fed, so any later change would be it recovering rather than the ''
        @ ''listings arriving'')) (\<lambda>_.
     seq (on_page (slotDump G ''immediately after the first guide press'')) (\<lambda>d1.
     seq (press G 0x7D ''sky'' ''between-sky'' ''the guide'') (\<lambda>p2.
     give \<lparr>ba_beforeAnyGuide = d0, ba_afterGuidePress = d1, ba_presses = [p0, p1, p2]\<rparr>))))))))"

definition idle_window :: "('w, 'z) day_api_scheme \<Rightarrow> ('w day, ocode \<times> (string \<rightharpoonup> int)) act" where
  "idle_window G =
     seq (on_page (census G)) (\<lambda>c0.
     seq (on_page (armOcode G)) (\<lambda>_.
     seq (pausing G 30000) (\<lambda>_.
     seq (on_page (readOcode G)) (\<lambda>oc.
     seq (on_page (census G)) (\<lambda>c1. give (oc, changes c0 c1))))))"

record feeding =
  fe_pids :: "int list"
  fe_control :: feed_report
  fe_test :: feed_report
  fe_window :: ocode
  fe_census :: "string \<rightharpoonup> int"

definition feed_window :: "('w, 'z) day_api_scheme \<Rightarrow> ('w day, feeding) act" where
  "feed_window G =
     seq (on_page (census G)) (\<lambda>c0.
     seq (on_page (armOcode G)) (\<lambda>_.
     seq (reading (\<lambda>s. guideSlot G (dy_page s))) (\<lambda>s0.
     seq (require (s0 \<noteq> None)
       (''no active notification slot after the guide press, so there is nothing for a ''
        @ ''notification to land in and every later zero would be about that'')) (\<lambda>_.
     seq (reading (\<lambda>s. listings_pids G (dy_page s))) (\<lambda>pids.
     seq (require (pids \<noteq> []) ''no listings PID is open, so there is nowhere attributable to push'') (\<lambda>_.
     seq (feed G pids (''CONTROL: the unit'' @ [CHR 0x27] @ ''s own table and day'') 0xA0 0xC67F 3) (\<lambda>ctl.
     seq (require (fr_sectionsParsed ctl \<noteq> 0)
       (''the CONTROL feed parsed nothing, so this run is about the harness and the test ''
        @ ''below would be meaningless. '')) (\<lambda>_.
     seq (feed G pids ''TEST: the table and day the guide subscribed for'' 0xA3 0xC67E 3) (\<lambda>tst.
     seq (on_page (readOcode G)) (\<lambda>oc.
     seq (on_page (census G)) (\<lambda>c1.
     give \<lparr>fe_pids = pids, fe_control = ctl, fe_test = tst, fe_window = oc, fe_census = changes c0 c1\<rparr>)))))))))))"

record clock_move =
  cm_mjd :: int
  cm_date :: date
  cm_reported :: string
  cm_quietAfterSeconds :: int

text \<open>The check that the page's day number is the one asked for comes before anything is concluded.\<close>

definition move_clock :: "('w, 'z) day_api_scheme \<Rightarrow> ('w day, clock_move) act" where
  "move_clock G =
     seq (reading (\<lambda>s. push_bit 8 (fst (dy_filter s)) OR snd (dy_filter s))) (\<lambda>fedMjd.
     let cal = fromMjd fedMjd in
     seq (on_page (setClock G (da_y cal) (da_m cal) (da_d cal) 19)) (\<lambda>utc.
     seq (require (occurs (''MJD '' @ dec_string fedMjd) utc)
       (''the MJD inverse disagrees with the page'' @ [CHR 0x27] @ ''s own mjd(): asked for MJD '' @ dec_string fedMjd
        @ '' and the TDT reports '' @ [CHR 0x22] @ utc @ [CHR 0x22] @ ''. Every programme below would be on the ''
        @ ''wrong day and the guide press would prove nothing.'')) (\<lambda>_.
     seq (each (push_clock G (da_y cal) (da_m cal) (da_d cal) 19) [0, 1, 2]) (\<lambda>_.
     seq (await_quiet G 60) (\<lambda>secs.
     give \<lparr>cm_mjd = fedMjd, cm_date = cal, cm_reported = utc, cm_quietAfterSeconds = secs\<rparr>)))))"

record read_back =
  rb_scratchWasClear :: bool
  rb_call :: string
  rb_buffer :: string

definition SCRATCH :: int where "SCRATCH = 0x81F00000"

text \<open>The scratch buffer is used only when it is clear, and what was read is written back.\<close>

definition date_read_back :: "('w, 'z) day_api_scheme \<Rightarrow> ('w day, read_back option) act" where
  "date_read_back G =
     seq (reading (\<lambda>s. g_peek G (dy_page s) SCRATCH 32)) (\<lambda>pre.
     if list_all (\<lambda>b. b = 0) pre
     then seq (reading (\<lambda>s. push_bit 8 (fst (dy_filter s)) OR snd (dy_filter s))) (\<lambda>key.
          seq (on_page (\<lambda>w. let (r, w') = d_call G 0x800C1A00 True (key, SCRATCH, 0, 0) w in (Inr r, w'))) (\<lambda>c.
          seq (reading (\<lambda>s. g_peek G (dy_page s) SCRATCH 32)) (\<lambda>buf.
          seq (on_page (doing (g_poke G SCRATCH pre))) (\<lambda>_.
          give (Some \<lparr>rb_scratchWasClear = True, rb_call = c,
            rb_buffer = join_with '' '' (map (\<lambda>b. pad_left 2 CHR ''0'' (hex_string b)) buf)\<rparr>)))))
     else give None)"

section \<open>The run\<close>

record day_report =
  dr_settledAfterSeconds :: int
  dr_before :: subscriptions
  dr_clockPushes :: "string list"
  dr_afterLineup :: subscriptions
  dr_addressing :: addressing
  dr_rebuildQuietAfterSeconds :: int
  dr_baseline :: baseline
  dr_idleWindow :: ocode
  dr_censusIdle :: "string \<rightharpoonup> int"
  dr_extensionsFed :: "string list"
  dr_listingsPids :: "string list"
  dr_feeds :: "feed_report list"
  dr_feedWindow :: ocode
  dr_censusFeed :: "string \<rightharpoonup> int"
  dr_novel :: "novel_event list"
  dr_repeated :: "repeated_event list"
  dr_fedGuide :: press_report
  dr_afterListings :: slot_dump
  dr_clockMove :: clock_move
  dr_guideAfterClockMove :: press_report
  dr_changedFromBaseline :: bool
  dr_changedFromFed :: bool
  dr_baselineMatchesPreviousRun :: bool
  dr_sectionsPushed :: int
  dr_sectionsRefused :: int
  dr_recordsVerdict :: string
  dr_stopped :: "string option"
  dr_theAsk :: "string list"
  dr_slotsMatchingOurFeed :: "(string \<times> int \<times> slot) list"
  dr_verdict :: string
  dr_tables :: string
  dr_tasks :: int
  dr_dateReadBack :: "read_back option"

definition day_setup :: "('w, 'z) day_api_scheme \<Rightarrow> ('w day, string list) act" where
  "day_setup G =
     seq (each (push_clock G 1998 1 1 19) [0, 1, 2]) (\<lambda>pushes.
     seq (open_lineup G) (\<lambda>_.
     seq (each (lineup_round G) [0, 1, 2]) (\<lambda>_.
     give pushes)))"

definition day_after :: "('w, 'z) day_api_scheme \<Rightarrow> ('w day, press_report \<times> slot_dump \<times> clock_move \<times> press_report) act" where
  "day_after G =
     seq (press G 0x80 ''tv guide'' ''fed-guide'' ''the menu'') (\<lambda>fedG.
     seq (shoot G ''guide-after-12-records'') (\<lambda>_.
     seq (on_page (slotDump G ''after the listings were fed'')) (\<lambda>d2.
     seq (press G 0x7D ''sky'' ''after-sky'' ''the guide'') (\<lambda>_.
     seq (move_clock G) (\<lambda>cm.
     seq (press G 0x80 ''tv guide'' ''guide-with-now-inside-the-fed-day'' ''the menu'') (\<lambda>nowG.
     seq (shoot G ''guide-with-now-inside-the-fed-day'') (\<lambda>_.
     give (fedG, d2, cm, nowG))))))))"

definition matches_previous_run :: "press_report \<Rightarrow> bool" where
  "matches_previous_run p \<longleftrightarrow> su_hash (pp_surface p) = ''0xB4E3CAD8'' \<and> su_colours (pp_surface p) = 26"

definition fed_key :: "'w day \<Rightarrow> int" where
  "fed_key s = push_bit 8 (fst (dy_filter s)) OR snd (dy_filter s)"

text \<open>
  \<open>measuredPerSection\<close>, a quotient printed with two decimals, and the headline, which only joins the
  fields into prose, are left out of the report.
\<close>

definition day_run :: "('w, 'z) day_api_scheme \<Rightarrow> ('w day, day_report) act" where
  "day_run G =
     seq ladder_check (\<lambda>_.
     seq arms_check (\<lambda>_.
     seq (day_settle G) (\<lambda>waited.
     seq (subscribed G) (\<lambda>before.
     seq (on_page (census G)) (\<lambda>_.
     seq (day_setup G) (\<lambda>pushes.
     seq (subscribed G) (\<lambda>after.
     seq (read_addressing G before after) (\<lambda>ad.
     seq (await_quiet G 90) (\<lambda>quiet.
     seq (on_page (census G)) (\<lambda>_.
     seq (day_baseline G) (\<lambda>ba.
     seq (idle_window G) (\<lambda>(idle, cIdle).
     seq (feed_window G) (\<lambda>fe.
     seq (day_after G) (\<lambda>(fedG, d2, cm, nowG).
     seq (reading (\<lambda>s. (s, tablesWanted G (dy_page s), g_tasks G (dy_page s)))) (\<lambda>(s, ts, tasks).
     seq (date_read_back G) (\<lambda>rb.
     let (nov, rep) = windows (oc_segments idle) (oc_segments (fe_window fe));
         baseG = ba_presses ba ! 1;
         perEvent = or0 (fe_census fe ''12 PER-EVENT REGISTER'')
     in give \<lparr>dr_settledAfterSeconds = waited, dr_before = before, dr_clockPushes = pushes,
       dr_afterLineup = after, dr_addressing = ad, dr_rebuildQuietAfterSeconds = quiet, dr_baseline = ba,
       dr_idleWindow = idle, dr_censusIdle = cIdle, dr_extensionsFed = map hx (extensions_of (ad_match ad)),
       dr_listingsPids = map hx (fe_pids fe), dr_feeds = [fe_control fe, fe_test fe],
       dr_feedWindow = fe_window fe, dr_censusFeed = fe_census fe, dr_novel = map novel_of nov,
       dr_repeated = map repeated_of rep, dr_fedGuide = fedG, dr_afterListings = d2, dr_clockMove = cm,
       dr_guideAfterClockMove = nowG,
       dr_changedFromBaseline = (su_hash (pp_surface nowG) \<noteq> su_hash (pp_surface baseG)),
       dr_changedFromFed = (su_hash (pp_surface nowG) \<noteq> su_hash (pp_surface fedG)),
       dr_baselineMatchesPreviousRun = matches_previous_run baseG,
       dr_sectionsPushed = dy_pushed s, dr_sectionsRefused = dy_refused s,
       dr_recordsVerdict = records_verdict perEvent (dy_pushed s) (int (length (ad_newPids ad))),
       dr_stopped = stopped (fe_census fe), dr_theAsk = map armOf [baseG, fedG, nowG],
       dr_slotsMatchingOurFeed = slots_matching (hx (fed_key s)) (dy_table s AND 3)
         [(''beforeAnyGuide'', ba_beforeAnyGuide ba), (''afterGuidePress'', ba_afterGuidePress ba), (''afterListings'', d2)],
       dr_verdict = feed_verdict (fe_control fe) (fe_test fe), dr_tables = ts, dr_tasks = tasks,
       dr_dateReadBack = rb\<rparr>))))))))))))))))"

end
