(* ===== verification/Probe_Day_Facts.thy ===== *)
theory Probe_Day_Facts
  imports Probe_Day_Run
begin

text \<open>
  What the stages of the listings probe guarantee: the guarded presses, the waits, what a feed sends and
  how it is counted, the comparison of the two windows, and what its verdicts do and do not show.
\<close>

section \<open>Actions that give and keep\<close>

text \<open>From states with \<open>J\<close> the action does not throw, gives a result with \<open>P\<close> and ends in a state with \<open>J\<close>.\<close>

definition yields :: "('s \<Rightarrow> bool) \<Rightarrow> ('s, 'a) act \<Rightarrow> ('a \<Rightarrow> bool) \<Rightarrow> bool" where
  "yields J m P \<longleftrightarrow> (\<forall>s. J s \<longrightarrow> (\<exists>a s'. m s = (Inr a, s') \<and> P a \<and> J s'))"

lemma yields_at: "yields J m P \<Longrightarrow> J s \<Longrightarrow> \<exists>a s'. m s = (Inr a, s') \<and> P a \<and> J s'"
  by (simp add: yields_def)

lemma yieldsI: "(\<And>s. J s \<Longrightarrow> \<exists>a s'. m s = (Inr a, s') \<and> P a \<and> J s') \<Longrightarrow> yields J m P"
  by (simp add: yields_def)

lemma yields_give: "P a \<Longrightarrow> yields J (give a) P"
  by (simp add: yields_def)

lemma yields_seq:
  assumes "yields J m P" "\<And>a. P a \<Longrightarrow> yields J (k a) Q"
  shows "yields J (seq m k) Q"
proof (rule yieldsI)
  fix s
  assume "J s"
  then obtain a s' where 1: "m s = (Inr a, s')" "P a" "J s'" using yields_at [OF assms(1)] by blast
  then obtain b s'' where "k a s' = (Inr b, s'')" "Q b" "J s''" using yields_at [OF assms(2)] by blast
  with 1 show "\<exists>a s'. seq m k s = (Inr a, s') \<and> Q a \<and> J s'" by (simp add: seq_def)
qed

lemma yields_each:
  assumes "\<And>x. x \<in> set xs \<Longrightarrow> yields J (f x) P"
  shows "yields J (each f xs) (\<lambda>as. length as = length xs \<and> (\<forall>a \<in> set as. P a))"
  using assms
proof (induction xs)
  case Nil
  show ?case unfolding each.simps by (rule yields_give) simp
next
  case (Cons x xs)
  have x: "yields J (f x) P" by (rule Cons.prems) simp
  have xs: "yields J (each f xs) (\<lambda>as. length as = length xs \<and> (\<forall>a \<in> set as. P a))"
    by (rule Cons.IH, rule Cons.prems) simp
  show ?case unfolding each.simps by (rule yields_seq [OF x], rule yields_seq [OF xs], rule yields_give) simp
qed

lemma yields_doing: "(\<And>s. J s \<Longrightarrow> J (f s)) \<Longrightarrow> yields J (doing f) (\<lambda>_. True)"
  by (simp add: yields_def)

section \<open>A feed\<close>

text \<open>What holds while a feed of the table and day runs: the box has only seen waits and titles.\<close>

definition feeding_state :: "('w \<Rightarrow> bool) \<Rightarrow> int \<Rightarrow> int \<times> int \<Rightarrow> int \<Rightarrow> int \<Rightarrow> 'w day \<Rightarrow> bool" where
  "feeding_state I tid fb p r s \<longleftrightarrow> I (dy_page s) \<and> dy_table s = tid \<and> dy_filter s = fb \<and> dy_pushed s = p \<and> dy_refused s = r"

definition kept_by_waits :: "('w, 'z) page_api_scheme \<Rightarrow> ('w \<Rightarrow> bool) \<Rightarrow> bool" where
  "kept_by_waits G I \<longleftrightarrow> (\<forall>w ms. I w \<longrightarrow> I (g_wait G ms w))"

text \<open>
  \<open>I\<close> is kept by every push, to one of the PIDs, of a section a receiver accepts as titles of the table,
  for one of the four channels, stamped with the two bytes.
\<close>

definition kept_by_titles :: "('w, 'z) day_api_scheme \<Rightarrow> ('w \<Rightarrow> bool) \<Rightarrow> int list \<Rightarrow> int \<Rightarrow> int \<times> int \<Rightarrow> bool" where
  "kept_by_titles G I pids tid fb \<longleftrightarrow>
     (\<forall>w pid sec ext v. I w \<longrightarrow> pid \<in> set pids \<longrightarrow> 0x0BB8 \<le> ext \<longrightarrow> ext \<le> 0x0BBB \<longrightarrow>
        parse_section sec = Some (tid, ext, v, fst fb # snd fb # RECORDS) \<longrightarrow> I (snd (d_push G pid sec w)))"

lemma yields_pausing:
  "kept_by_waits G I \<Longrightarrow> yields (feeding_state I tid fb p r) (pausing G ms) (\<lambda>_. True)"
  by (auto simp: yields_def pausing_def on_page_def sleep_def kept_by_waits_def feeding_state_def)

lemma yields_push_one:
  assumes "kept_by_titles G I pids tid fb" "pid \<in> set pids" "0x0BB8 \<le> ext" "ext \<le> 0x0BBB"
    "parse_section sec = Some (tid, ext, v, fst fb # snd fb # RECORDS)"
  shows "yields (feeding_state I tid fb p r) (push_one G sec pid) (\<lambda>_. True)"
proof -
  have "I w \<Longrightarrow> I (snd (d_push G pid sec w))" for w
    using assms unfolding kept_by_titles_def by blast
  then show ?thesis
    by (auto simp: yields_def push_one_def on_page_def feeding_state_def Let_def split_beta)
qed

lemma yields_feed_extension:
  assumes t: "kept_by_titles G I pids tid fb" and e: "0x0BB8 \<le> ext" "ext \<le> 0x0BBB"
    and b: "0 \<le> tid" "tid < 256" "0 \<le> fst fb" "fst fb < 256" "0 \<le> snd fb" "snd fb < 256"
  shows "yields (feeding_state I tid fb p r) (feed_extension G pids ext) (\<lambda>bs. length bs = length pids)"
proof (rule yieldsI)
  fix s :: "'a day"
  assume J: "feeding_state I tid fb p r s"
  let ?s = "s\<lparr>dy_a1 := next_version (dy_a1 s)\<rparr>"
  let ?sec = "buildA1 tid fb (next_version (dy_a1 s)) ext"
  have v: "0 \<le> next_version (dy_a1 s)" "next_version (dy_a1 s) < 32"
    using and31_range [of "dy_a1 s + 1"] by (simp_all add: next_version_def)
  have sec: "parse_section ?sec = Some (tid, ext, next_version (dy_a1 s), fst fb # snd fb # RECORDS)"
    using title_section_valid [OF b v, of ext] e by simp
  have J': "feeding_state I tid fb p r ?s" using J by (simp add: feeding_state_def)
  have "yields (feeding_state I tid fb p r) (each (push_one G ?sec) pids)
      (\<lambda>as. length as = length pids \<and> (\<forall>a \<in> set as. True))"
    by (rule yields_each, rule yields_push_one [OF t _ e sec])
  from yields_at [OF this J'] obtain bs s' where
    "each (push_one G ?sec) pids ?s = (Inr bs, s')" "length bs = length pids" "feeding_state I tid fb p r s'" by blast
  moreover have "feed_extension G pids ext s = each (push_one G ?sec) pids ?s"
    using J by (simp add: feed_extension_def seq_def feeding_state_def)
  ultimately show "\<exists>a s'. feed_extension G pids ext s = (Inr a, s') \<and> length a = length pids \<and> feeding_state I tid fb p r s'"
    by simp
qed

lemma concat_length: "\<forall>a \<in> set as. length a = n \<Longrightarrow> length (concat as) = length as * n"
  by (induction as) simp_all

lemma yields_feed_round:
  assumes "kept_by_waits G I" "kept_by_titles G I pids tid fb"
    "0 \<le> tid" "tid < 256" "0 \<le> fst fb" "fst fb < 256" "0 \<le> snd fb" "snd fb < 256"
  shows "yields (feeding_state I tid fb p r) (feed_round G pids k) (\<lambda>bs. length bs = 4 * length pids)"
proof -
  have "yields (feeding_state I tid fb p r) (each (feed_extension G pids) [0x0BB8..0x0BBB])
      (\<lambda>as. length as = length [0x0BB8..0x0BBB :: int] \<and> (\<forall>a \<in> set as. length a = length pids))"
    by (rule yields_each, rule yields_feed_extension) (use assms in auto)
  then show ?thesis unfolding feed_round_def
    by (rule yields_seq) (rule yields_seq [OF yields_pausing [OF assms(1)]], rule yields_give, auto dest: concat_length)
qed

lemma count_both: "length (filter (\<lambda>b. b) bs) + length (filter Not bs) = length bs"
  by (induction bs) simp_all

lemma feed_runs:
  assumes "kept_by_waits G I" "kept_by_titles G I pids tid (drop_bit 8 dayKey AND 0xFF, dayKey AND 0xFF)"
    "0 \<le> tid" "tid < 256" "I (dy_page s)"
  shows "\<exists>R s'. feed G pids label tid dayKey rounds s = (Inr R, s') \<and> I (dy_page s') \<and>
    fr_pushed R + fr_refusedByPush R = int (4 * rounds * length pids) \<and>
    dy_pushed s' = dy_pushed s + fr_pushed R \<and> dy_refused s' = dy_refused s + fr_refusedByPush R \<and>
    dy_table s' = tid \<and> dy_filter s' = (drop_bit 8 dayKey AND 0xFF, dayKey AND 0xFF)"
proof -
  let ?fb = "(drop_bit 8 dayKey AND 0xFF, dayKey AND 0xFF)"
  let ?s = "s\<lparr>dy_table := tid, dy_filter := ?fb\<rparr>"
  let ?J = "feeding_state I tid ?fb (dy_pushed s) (dy_refused s)"
  have fb: "0 \<le> fst ?fb" "fst ?fb < 256" "0 \<le> snd ?fb" "snd ?fb < 256"
    using and_mask_range [of 255 8] by simp_all
  have "yields ?J (each (feed_round G pids) [0..<rounds])
      (\<lambda>as. length as = length [0..<rounds] \<and> (\<forall>a \<in> set as. length a = 4 * length pids))"
    by (rule yields_each, rule yields_feed_round [OF assms(1,2,3,4) fb])
  moreover have "?J ?s" using assms(5) by (simp add: feeding_state_def)
  ultimately obtain rs s1 where 1: "each (feed_round G pids) [0..<rounds] ?s = (Inr rs, s1)" "length rs = rounds"
      "\<forall>a \<in> set rs. length a = 4 * length pids" "?J s1"
    using yields_at by fastforce
  obtain s2 where 2: "pausing G 8000 s1 = (Inr (), s2)" "?J s2"
    using yields_at [OF yields_pausing [OF assms(1)] 1(4), of 8000] by auto
  let ?n = "int (length (filter (\<lambda>b. b) (concat rs)))" and ?r = "int (length (filter Not (concat rs)))"
  have "?n + ?r = int (length (concat rs))" using count_both [of "concat rs"] by linarith
  also have "\<dots> = int (4 * rounds * length pids)"
    using concat_length [OF 1(3)] 1(2) by (simp add: mult.commute)
  finally have nr: "?n + ?r = int (4 * rounds * length pids)" .
  have "\<exists>R. feed G pids label tid dayKey rounds s = (Inr R, s2\<lparr>dy_pushed := dy_pushed s2 + ?n, dy_refused := dy_refused s2 + ?r\<rparr>) \<and>
      fr_pushed R = ?n \<and> fr_refusedByPush R = ?r"
    by (simp add: feed_def seq_def on_page_def Let_def 1(1) 2(1))
  then show ?thesis using nr 2(2) by (force simp: feeding_state_def)
qed


text \<open>A page that takes every section and remembers it; nothing on it ever runs.\<close>

definition quiet_page :: "(int \<times> int list) list day_api" where
  "quiet_page = \<lparr>g_hist = (\<lambda>w a. 0), g_profile = (\<lambda>w. w), g_wait = (\<lambda>ms w. w), g_peek = (\<lambda>w a n. replicate n 0),
     g_poke = (\<lambda>a bs w. w), g_key = (\<lambda>raw src w. (''sent'', w)), g_blitLog = (\<lambda>w. []), g_tasks = (\<lambda>w. 42),
     g_shot = (\<lambda>n w. w), g_icount = (\<lambda>w. ''0''), d_boxstate = (\<lambda>w. ''Booting''), d_filters = (\<lambda>w. []),
     d_matches = (\<lambda>w. []), d_ids = (\<lambda>w. \<lparr>id_bouquetId = None, id_bouquetIdMask = None, id_tsid = 0, id_networkId = 0\<rparr>),
     d_push = (\<lambda>pid sec w. (\<lparr>pr_ok = True, pr_why = []\<rparr>, (pid, sec) # w)),
     d_NIT = (\<lambda>v w. (\<lparr>pr_ok = True, pr_why = []\<rparr>, w)), d_SDT = (\<lambda>v w. (\<lparr>pr_ok = True, pr_why = []\<rparr>, w)),
     d_TDT = (\<lambda>y mo d hh w. (tdt_utc y mo d hh, w)), d_TOT = (\<lambda>y mo d hh w. w), d_carouselRunning = (\<lambda>w. False),
     d_eepromWrites = (\<lambda>w. 0), d_traceCalls = (\<lambda>ts w. w), d_traceClear = (\<lambda>w. w), d_traceLog = (\<lambda>w. []),
     d_readWatch = (\<lambda>lo hi pcs mx w. (mx, w)), d_readWatchLog = (\<lambda>w. \<lparr>wl_byPc = None, wl_all = [], wl_capped = False\<rparr>),
     d_readUnwatch = (\<lambda>w. w), d_call = (\<lambda>a i args w. (''{}'', w))\<rparr>"

definition fresh_day :: "'w \<Rightarrow> 'w day" where
  "fresh_day w = \<lparr>dy_page = w, dy_bat = 0, dy_a1 = 0, dy_last = None, dy_table = 0xA1, dy_filter = (0x9E, 0x8B),
     dy_pushed = 0, dy_refused = 0\<rparr>"


section \<open>The clock is not moved\<close>

text \<open>
  After the TEST feed the clock is not moved.  The day the probe then moves \<open>now\<close> into is the day it
  has just fed, 1 January 1998: the date it set before it asked for anything, at the same hour.
\<close>

theorem clock_already_there:
  "\<exists>R s'. feed G pids label 0xA3 0xC67E rounds s = (Inr R, s') \<and> fed_key s' = 50814 \<and>
    fromMjd (fed_key s') = \<lparr>da_d = 1, da_m = 1, da_y = 1998\<rparr>"
proof -
  have h: "kept_by_waits G (\<lambda>_. True)"
      "kept_by_titles G (\<lambda>_. True) pids 0xA3 (drop_bit 8 0xC67E AND 0xFF, 0xC67E AND 0xFF)"
      "(0 :: int) \<le> 0xA3" "(0xA3 :: int) < 256"
    by (simp_all add: kept_by_waits_def kept_by_titles_def)
  from feed_runs [OF h TrueI, where s = s and label = label and rounds = rounds] obtain R s' where
    f: "feed G pids label 0xA3 0xC67E rounds s = (Inr R, s')" "dy_filter s' = (drop_bit 8 0xC67E AND 0xFF, 0xC67E AND 0xFF)"
    by blast
  have "fed_key s' = 50814" by (simp add: fed_key_def f(2))
  moreover have "fromMjd 50814 = \<lparr>da_d = 1, da_m = 1, da_y = 1998\<rparr>" by code_simp
  ultimately show ?thesis using f(1) by auto
qed

section \<open>A press\<close>

lemma press_page_runs: "\<exists>R w'. press_page G raw label tag src w = (Inr R, w') \<and> pp_drew R = (pp_widgets R > 0)"
  by (simp add: press_page_def seq_def surface_def press_key_def sleep_def Let_def split_beta)

text \<open>
  A key is never pressed twice running.  The press of the key pressed last raises before the page is
  touched; any other press returns its report, remembers the key and leaves the probe's other variables
  as they were.
\<close>

theorem press_guarded:
  "if dy_last s = Some raw
   then \<exists>e. press G raw label tag src s = (Inl e, s)
   else \<exists>R w'. press G raw label tag src s = (Inr R, s\<lparr>dy_last := Some raw, dy_page := w'\<rparr>) \<and>
          pp_drew R = (pp_widgets R > 0)"
proof (cases "dy_last s = Some raw")
  case True
  then show ?thesis by (simp add: press_def seq_def require_def)
next
  case False
  obtain R w' where "press_page G raw label tag src (dy_page s) = (Inr R, w')" "pp_drew R = (pp_widgets R > 0)"
    using press_page_runs [of G raw label tag src "dy_page s"] by blast
  with False show ?thesis by (auto simp: press_def seq_def require_def on_page_def)
qed

section \<open>The comparison of the windows\<close>

lemma compare_windows_mset:
  assumes "\<And>s. count S s = seen s"
  shows "mset (map snd (fst (compare_windows seen es))) = mset (map snd es) - S \<and>
    mset (map snd (snd (compare_windows seen es))) = mset (map snd es) \<inter># S \<and>
    mset (fst (compare_windows seen es) @ snd (compare_windows seen es)) = mset es"
  using assms
proof (induction es arbitrary: seen S)
  case (Cons e es)
  show ?case
  proof (cases "seen (snd e) = 0")
    case True
    then have "snd e \<notin># S" by (simp add: Cons.prems not_in_iff)
    then show ?thesis using True Cons.IH [OF Cons.prems] by (simp add: split_beta Let_def inter_add_left1)
  next
    case False
    then have "snd e \<in># S" by (simp add: Cons.prems flip: count_greater_zero_iff)
    then obtain S' where S: "S = add_mset (snd e) S'" by (rule mset_add)
    let ?seen = "seen(snd e := seen (snd e) - 1)"
    have "count S' s = ?seen s" for s using Cons.prems [of s] by (auto simp: S)
    from Cons.IH [OF this] False show ?thesis by (simp add: S split_beta Let_def del: fun_upd_apply)
  qed
qed simp

lemma indexed_fed: "map snd (zip (map int [0..<length fed]) fed) = fed"
  by simp

text \<open>
  C21.  The windows are compared as multisets.  The novel events are the feed window's less the idle
  window's, the repeated ones are those the two have in common, each as often, and every event of the feed
  window is listed once, with its place.
\<close>

theorem windows_compared:
  "mset (map snd (fst (windows idle fed))) = mset fed - mset idle \<and>
   mset (map snd (snd (windows idle fed))) = mset fed \<inter># mset idle \<and>
   mset (fst (windows idle fed) @ snd (windows idle fed)) = mset (zip (map int [0..<length fed]) fed)"
proof -
  have "count (mset idle) s = length (filter (\<lambda>t. t = s) idle)" for s
    by (induction idle) auto
  from compare_windows_mset [OF this, of "zip (map int [0..<length fed]) fed"] show ?thesis
    by (simp only: windows_def indexed_fed)
qed

section \<open>The verdict on the records\<close>

lemma per_section_equation:
  assumes "n > 0"
  shows "of_int e = of_int p / (of_int (if n = 0 then 1 else n) :: rat) * 12 * of_int n \<longleftrightarrow> e = p * 12"
proof -
  have "of_int p / (of_int (if n = 0 then 1 else n) :: rat) * 12 * of_int n = of_int (p * 12)"
    using assms by simp
  then show ?thesis by (simp only: of_int_eq_iff)
qed

text \<open>
  The verdict does not see the sections.  For any number of PIDs the text \<open>EXACTLY TWELVE PER
  SECTION\<close> is given to every positive multiple of twelve records, however many sections were pushed, and
  to nothing else but an empty run.
\<close>

theorem records_verdict_blind:
  assumes "npids > 0" "perEvent \<ge> 0"
  shows "records_verdict perEvent pushed npids = TWELVE \<longleftrightarrow>
    perEvent mod 12 = 0 \<and> (perEvent > 0 \<or> pushed = 0)"
  using assms unfolding records_verdict_def per_section_equation [OF assms(1)]
  by (auto simp: TWELVE_def)

theorem records_verdict_blind_witness:
  "records_verdict 12 24 1 = TWELVE \<longleftrightarrow> (12 :: int) mod 12 = 0 \<and> ((12 :: int) > 0 \<or> (24 :: int) = 0)"
  by (rule records_verdict_blind) simp_all

section \<open>The guide's slot\<close>

text \<open>
  The slot the feed watches is the dump's first.  Where the first slot table can be dumped,
  \<open>guideSlot\<close> is the first active slot the dump lists, with the same fields, and there is none exactly
  when the dump lists none.
\<close>

theorem guideSlot_is_first_dumped:
  assumes "slot_table G 1 w = (Inr T, w)"
  shows "guideSlot G w = (case st_slots T of [] \<Rightarrow> None
    | s # _ \<Rightarrow> Some \<lparr>gs_at = sl_at s, gs_waitingFor = sl_waitingFor s, gs_serviceA = sl_serviceA s,
                   gs_dayKey = sl_dayKey s, gs_tableIdLow = sl_tableIdLow s\<rparr>)"
proof -
  let ?arr = "b32 G w (SLOTS_BASE + 1 * 0x10 + 8)" and ?n = "u16at G w (SLOTS_BASE + 1 * 0x10)"
  have "st_slots T = map (slot_at G w ?arr) (filter (\<lambda>i. u8at G w (?arr + i * SLOT_SIZE) \<noteq> 0) [1..?n - 1])"
    using assms by (auto simp: slot_table_def Let_def require_def split: if_splits)
  then show ?thesis
    by (simp add: guideSlot_def Let_def slot_at_def split: list.split)
qed

text \<open>A page whose first slot table has one slot, and every other byte is 1.\<close>

definition slot_page :: "(int \<times> int list) list day_api" where
  "slot_page = quiet_page\<lparr>g_peek := (\<lambda>w a n. if a = SLOTS_BASE + 0x10 then [0, 2]
     else if a = SLOTS_BASE + 0x18 then [0x80, 0x20, 0, 0] else replicate n 1)\<rparr>"

theorem guideSlot_is_first_dumped_witness:
  "\<exists>T. slot_table slot_page 1 [] = (Inr T, []) \<and> guideSlot slot_page [] = (case st_slots T of [] \<Rightarrow> None
    | s # _ \<Rightarrow> Some \<lparr>gs_at = sl_at s, gs_waitingFor = sl_waitingFor s, gs_serviceA = sl_serviceA s,
                   gs_dayKey = sl_dayKey s, gs_tableIdLow = sl_tableIdLow s\<rparr>)"
proof -
  have "u16at slot_page [] (SLOTS_BASE + 0x10) = 2" "b32 slot_page [] (SLOTS_BASE + 0x18) = 0x80200000"
    by (simp_all add: u16at_def b32_def be32_def slot_page_def SLOTS_BASE_def at0_def Let_def to_u32_def)
  then have "\<exists>T. slot_table slot_page 1 [] = (Inr T, [])"
    by (simp add: slot_table_def Let_def require_def SLOTS_BASE_def)
  then obtain T where T: "slot_table slot_page 1 [] = (Inr T, [])" by blast
  with guideSlot_is_first_dumped [OF T] show ?thesis by blast
qed

section \<open>The waits\<close>

definition after_readings :: "('w, 'z) page_api_scheme \<Rightarrow> nat \<Rightarrow> 'w \<Rightarrow> 'w" where
  "after_readings G j w = (g_wait G 3000 ^^ j) w"

lemma after_readings_Suc: "after_readings G (Suc j) w = g_wait G 3000 (after_readings G j w)"
  by (simp add: after_readings_def)

lemma pausing_runs: "pausing G ms s = (Inr (), s\<lparr>dy_page := g_wait G ms (dy_page s)\<rparr>)"
  by (simp add: pausing_def on_page_def sleep_def)

text \<open>The last \<open>m\<close> readings before the \<open>j\<close>-th found no write.\<close>

definition quiet_for :: "('w, 'z) day_api_scheme \<Rightarrow> 'w \<Rightarrow> nat \<Rightarrow> nat \<Rightarrow> bool" where
  "quiet_for G w j m \<longleftrightarrow> m \<le> j \<and>
     (\<forall>i < m. d_eepromWrites G (after_readings G (j - i) w) = d_eepromWrites G (after_readings G (j - Suc i) w))"

lemma quiet_for_Suc:
  assumes "quiet_for G w j m"
    "d_eepromWrites G (after_readings G (Suc j) w) = d_eepromWrites G (after_readings G j w)"
  shows "quiet_for G w (Suc j) (Suc m)"
  using assms by (auto simp: quiet_for_def less_Suc_eq_0_disj)

lemma eeprom_quiet_runs:
  assumes "dy_page s = after_readings G j w" "lastW = d_eepromWrites G (after_readings G j w)"
    "still = int m" "quiet_for G w j m" "secs = 3 * int j"
  shows "\<exists>k \<le> n. \<exists>s'. eeprom_quiet G n lastW still secs s = (Inr (3 * int (j + k)), s') \<and>
    dy_page s' = after_readings G (j + k) w \<and> (k < n \<longrightarrow> quiet_for G w (j + k) 3)"
  using assms
proof (induction n arbitrary: s j lastW still secs m)
  case (Suc n)
  show ?case
  proof (cases "still \<ge> 3")
    case True
    then have "quiet_for G w j 3" using Suc.prems(3,4) by (auto simp: quiet_for_def)
    with True Suc.prems show ?thesis by (intro exI [of _ 0]) simp
  next
    case False
    let ?s = "s\<lparr>dy_page := after_readings G (Suc j) w\<rparr>"
    let ?W = "d_eepromWrites G (after_readings G (Suc j) w)"
    let ?m = "if ?W = lastW then Suc m else 0"
    have q: "quiet_for G w (Suc j) ?m"
      using quiet_for_Suc [OF Suc.prems(4)] Suc.prems(2) by (simp add: quiet_for_def)
    have still: "(if ?W = lastW then still + 1 else 0) = int ?m" and secs: "secs + 3 = 3 * int (Suc j)"
      using Suc.prems(3,5) by auto
    obtain k s' where k: "k \<le> n"
      "eeprom_quiet G n ?W (if ?W = lastW then still + 1 else 0) (secs + 3) ?s = (Inr (3 * int (Suc j + k)), s')"
      "dy_page s' = after_readings G (Suc j + k) w" "k < n \<longrightarrow> quiet_for G w (Suc j + k) 3"
      using Suc.IH [OF _ refl still q secs, of ?s] by auto
    have "eeprom_quiet G (Suc n) lastW still secs s
        = eeprom_quiet G n ?W (if ?W = lastW then still + 1 else 0) (secs + 3) ?s"
      using False by (simp add: seq_def pausing_runs Suc.prems(1) after_readings_Suc)
    with k show ?thesis by (intro exI [of _ "Suc k"]) simp
  qed
qed auto

text \<open>
  C34.  The wait for a quiet EEPROM ends.  It never raises, takes at most \<open>n\<close> readings three seconds apart
  and does nothing but wait; it gives back the seconds it waited, and when it gives up none of its
  readings, the last three of them found no write.
\<close>

theorem quiet_wait_ends:
  "\<exists>k s'. k \<le> n \<and> await_quiet G n s = (Inr (3 * int k), s') \<and> dy_page s' = after_readings G k (dy_page s) \<and>
    (k = n \<or> quiet_for G (dy_page s) k 3)"
proof -
  have "quiet_for G (dy_page s) 0 0" by (simp add: quiet_for_def)
  from eeprom_quiet_runs [OF _ refl _ this, of s 0 0 n] show ?thesis
    by (force simp: await_quiet_def after_readings_def seq_def)
qed

section \<open>A box that does not settle\<close>

lemma never_ready:
  assumes "\<And>j. j < n \<Longrightarrow> \<not> settled G ((g_wait G 1000 ^^ j) (dy_page s))"
  shows "await_ready G n waited s = (Inr (waited + int n), s\<lparr>dy_page := (g_wait G 1000 ^^ n) (dy_page s)\<rparr>)"
  using assms
proof (induction n arbitrary: s waited)
  case (Suc n)
  let ?s = "s\<lparr>dy_page := g_wait G 1000 (dy_page s)\<rparr>"
  have "\<not> settled G (dy_page s)" using Suc.prems [of 0] by simp
  moreover have "await_ready G n (waited + 1) ?s = (Inr (waited + 1 + int n), ?s\<lparr>dy_page := (g_wait G 1000 ^^ n) (dy_page ?s)\<rparr>)"
    by (rule Suc.IH) (use Suc.prems [of "Suc _"] in \<open>simp add: funpow_swap1\<close>)
  ultimately show ?case by (simp add: seq_def pausing_runs funpow_swap1)
qed simp

text \<open>
  A box that does not settle is left alone.  When the box is not ready at any of the 301 looks, the
  run ends with the error that says so, and all that has happened to the page is three hundred waits of
  one second: nothing was pressed, pushed or profiled.
\<close>

theorem unsettled_box_untouched:
  assumes "\<And>j. j \<le> 300 \<Longrightarrow> \<not> settled G ((g_wait G 1000 ^^ j) (dy_page s))"
  shows "day_run G s = (Inl ''never settled in 300s'', s\<lparr>dy_page := (g_wait G 1000 ^^ 300) (dy_page s)\<rparr>)"
proof -
  have "await_ready G 300 0 s = (Inr (0 + int 300), s\<lparr>dy_page := (g_wait G 1000 ^^ 300) (dy_page s)\<rparr>)"
    by (rule never_ready) (use assms in simp)
  moreover have "dec_string 300 = ''300''" by code_simp
  moreover have "\<not> settled G ((g_wait G 1000 ^^ 300) (dy_page s))" using assms [of 300] by simp
  ultimately have "day_settle G s = (Inl ''never settled in 300s'', s\<lparr>dy_page := (g_wait G 1000 ^^ 300) (dy_page s)\<rparr>)"
    by (simp add: day_settle_def seq_def require_def del: funpow.simps await_ready.simps)
  then show ?thesis
    unfolding day_run_def ladder_check_passes arms_check_passes seq_simps by (simp add: seq_def)
qed

lemma wait_nothing: "((\<lambda>w. w) ^^ n) w = w"
  by (induction n) simp_all

theorem unsettled_box_untouched_witness:
  "day_run quiet_page (fresh_day []) = (Inl ''never settled in 300s'', fresh_day [])"
proof -
  have "\<not> settled quiet_page w" "g_wait quiet_page 1000 = (\<lambda>w. w)" for w
    by (simp_all add: settled_def quiet_page_def)
  then show ?thesis
    using unsettled_box_untouched [of quiet_page "fresh_day []"] by (simp add: wait_nothing del: funpow.simps)
qed

section \<open>The scratch buffer\<close>

text \<open>
  The scratch buffer is left as it was found.  Through the page's own \<open>load\<close> and \<open>store\<close>, and
  whatever the called routine does to memory, the thirty-two bytes at the scratch address read the same
  after the date has been read back as before.
\<close>

theorem scratch_restored:
  "page_peek D (dy_page (snd (date_read_back (page_hooks D G) s))) SCRATCH 32 = page_peek D (dy_page s) SCRATCH 32"
proof -
  have "dram_range SCRATCH 32" by (simp add: dram_range_def SCRATCH_def)
  note r = dram_bytes.restore [OF this, of D "dy_page s"]
  show ?thesis
    by (simp add: date_read_back_def seq_def on_page_def page_hooks_def Let_def split_beta r)
qed

end
