(* ===== verification/Probe_Asks.thy ===== *)
theory Probe_Asks
  imports Probe_Day_Facts
begin

text \<open>
  \<open>tools/probes/feed-it-what-it-asks-for.js\<close>: the listings probe that re-reads what the box asks for in every
  round.  Its instruments, its line-up and its presses are those of \<open>Probe_Day\<close> to \<open>Probe_Day_Run\<close>; what is
  new is the feed, ten rounds over the live match units and the open PIDs, and the run around it.
\<close>

section \<open>What a unit demands\<close>

definition live_units :: "('w, 'z) day_api_scheme \<Rightarrow> 'w \<Rightarrow> si_match list" where
  "live_units G w = filter (\<lambda>x. case mt_tableId x of None \<Rightarrow> False | Some t \<Rightarrow> t AND 0xFC = 0xA0) (d_matches G w)"

text \<open>
  The values of the two payload bytes.  A byte whose text does not match is \<open>null\<close> and skips the unit; one
  that is not there at all is \<open>undefined\<close>, which passes the test and counts as 0 wherever it is used.
\<close>

definition demanded_byte :: "int option list \<Rightarrow> nat \<Rightarrow> int option" where
  "demanded_byte lb i = (if i < length lb then lb ! i else Some 0)"

definition demanded :: "si_match \<Rightarrow> (int \<times> int) option" where
  "demanded u =
     (let lb = map (\<lambda>x. map_option fst (value_mask x)) (take 2 (drop 6 (case mt_bytes u of None \<Rightarrow> [] | Some l \<Rightarrow> l)))
      in case (demanded_byte lb 0, demanded_byte lb 1) of (Some v0, Some v1) \<Rightarrow> Some (v0, v1) | _ \<Rightarrow> None)"

definition unit_table :: "si_match \<Rightarrow> int" where
  "unit_table u = (case mt_tableId u of None \<Rightarrow> 0 | Some t \<Rightarrow> t)"

definition key_text :: "int \<Rightarrow> int \<times> int \<Rightarrow> string" where
  "key_text t fb = hx t @ ''/mjd='' @ dec_string (push_bit 8 (fst fb) OR snd fb)"

section \<open>A round\<close>

text \<open>The keys fed and, for every push, whether it was taken.\<close>

definition ask_unit :: "('w, 'z) day_api_scheme \<Rightarrow> int list \<Rightarrow> si_match \<Rightarrow> ('w day, string list \<times> bool list) act" where
  "ask_unit G pids u =
     (case demanded u of
        None \<Rightarrow> give ([], [])
      | Some fb \<Rightarrow>
          seq (doing (\<lambda>s. s\<lparr>dy_table := unit_table u, dy_filter := fb\<rparr>)) (\<lambda>_.
          seq (each (feed_extension G pids) (extensions_of u)) (\<lambda>rs.
          give ([key_text (unit_table u) fb], concat rs))))"

record asked =
  as_keys :: "string list"
  as_pids :: "int list"
  as_pushes :: "bool list"

definition ask_round :: "('w, 'z) day_api_scheme \<Rightarrow> nat \<Rightarrow> ('w day, asked) act" where
  "ask_round G k =
     seq (reading (\<lambda>s. (live_units G (dy_page s), listings_pids G (dy_page s)))) (\<lambda>(live, pids).
     if live = [] \<or> pids = []
     then seq (pausing G 2000) (\<lambda>_. give \<lparr>as_keys = [], as_pids = pids, as_pushes = []\<rparr>)
     else seq (each (ask_unit G pids) live) (\<lambda>rs.
          seq (pausing G 4000) (\<lambda>_.
          give \<lparr>as_keys = concat (map fst rs), as_pids = pids, as_pushes = concat (map snd rs)\<rparr>)))"

definition ask_rounds :: "('w, 'z) day_api_scheme \<Rightarrow> ('w day, asked list) act" where
  "ask_rounds G = each (ask_round G) [0..<10]"

text \<open>\<open>indexOf(x) < 0 && push(x)\<close>: each once, in the order of its first appearance.\<close>

definition first_seen :: "'a list \<Rightarrow> 'a list" where
  "first_seen xs = foldl (\<lambda>ys x. if x \<in> set ys then ys else ys @ [x]) [] xs"

record ask_report =
  ar_keysFed :: "string list"
  ar_pidsSeen :: "string list"
  ar_pushed :: int
  ar_refused :: int
  ar_window :: ocode
  ar_census :: "string \<rightharpoonup> int"

definition ask_feed :: "('w, 'z) day_api_scheme \<Rightarrow> ('w day, ask_report) act" where
  "ask_feed G =
     seq (on_page (census G)) (\<lambda>c0.
     seq (on_page (armOcode G)) (\<lambda>_.
     seq (ask_rounds G) (\<lambda>rs.
     seq (pausing G 10000) (\<lambda>_.
     seq (on_page (readOcode G)) (\<lambda>oc.
     seq (on_page (census G)) (\<lambda>c1.
     let bs = concat (map as_pushes rs) in
     give \<lparr>ar_keysFed = first_seen (concat (map as_keys rs)), ar_pidsSeen = first_seen (map hx (concat (map as_pids rs))),
       ar_pushed = int (length (filter (\<lambda>b. b) bs)), ar_refused = int (length (filter Not bs)), ar_window = oc,
       ar_census = changes c0 c1\<rparr>))))))"

section \<open>The run\<close>

definition ask_baseline :: "('w, 'z) day_api_scheme \<Rightarrow> ('w day, press_report list) act" where
  "ask_baseline G =
     seq (press G 0x7D ''sky'' ''baseline-sky'' ''the boot screen'') (\<lambda>p0.
     seq (require (pp_drew p0)
       (''the settling sky press built no widgets, so the box is not drawing at all and ''
        @ ''every later reading would be about that rather than about the listings'')) (\<lambda>_.
     seq (press G 0x80 ''tv guide'' ''baseline-guide'' ''the menu'') (\<lambda>p1.
     seq (shoot G ''guide-before-12-records'') (\<lambda>_.
     seq (require (pp_drew p1)
       (''the BASELINE guide press built no widgets -- the box was not drawing before the ''
        @ ''listings were fed, so any later change would be it recovering rather than the ''
        @ ''listings arriving'')) (\<lambda>_.
     seq (press G 0x7D ''sky'' ''between-sky'' ''the guide'') (\<lambda>p2.
     give [p0, p1, p2]))))))"

definition ask_after :: "('w, 'z) day_api_scheme \<Rightarrow> ('w day, press_report \<times> clock_move \<times> press_report) act" where
  "ask_after G =
     seq (press G 0x80 ''tv guide'' ''fed-guide'' ''the menu'') (\<lambda>fedG.
     seq (shoot G ''guide-after-12-records'') (\<lambda>_.
     seq (press G 0x7D ''sky'' ''after-sky'' ''the guide'') (\<lambda>_.
     seq (move_clock G) (\<lambda>cm.
     seq (press G 0x80 ''tv guide'' ''guide-with-now-inside-the-fed-day'' ''the menu'') (\<lambda>nowG.
     seq (shoot G ''guide-with-now-inside-the-fed-day'') (\<lambda>_.
     give (fedG, cm, nowG)))))))"

record asks_report =
  qr_settledAfterSeconds :: int
  qr_before :: subscriptions
  qr_clockPushes :: "string list"
  qr_afterLineup :: subscriptions
  qr_addressing :: addressing
  qr_rebuildQuietAfterSeconds :: int
  qr_presses :: "press_report list"
  qr_idleWindow :: ocode
  qr_censusIdle :: "string \<rightharpoonup> int"
  qr_extensionsFed :: "string list"
  qr_feed :: ask_report
  qr_novel :: "novel_event list"
  qr_repeated :: "repeated_event list"
  qr_clockMove :: clock_move
  qr_changedFromBaseline :: bool
  qr_changedFromFed :: bool
  qr_guideChanged :: bool
  qr_baselineMatchesPreviousRun :: bool
  qr_recordsVerdict :: string
  qr_stopped :: "string option"
  qr_theAsk :: "string list"
  qr_tables :: string
  qr_tasks :: int
  qr_dateReadBack :: "read_back option"

definition asks_run :: "('w, 'z) day_api_scheme \<Rightarrow> ('w day, asks_report) act" where
  "asks_run G =
     seq ladder_check (\<lambda>_.
     seq arms_check (\<lambda>_.
     seq (day_settle G) (\<lambda>waited.
     seq (subscribed G) (\<lambda>before.
     seq (on_page (census G)) (\<lambda>_.
     seq (day_setup G) (\<lambda>pushes.
     seq (subscribed G) (\<lambda>after.
     seq (read_addressing G before after) (\<lambda>ad.
     seq (await_quiet G 90) (\<lambda>quiet.
     seq (on_page (census G)) (\<lambda>_.
     seq (ask_baseline G) (\<lambda>ba.
     seq (idle_window G) (\<lambda>(idle, cIdle).
     seq (ask_feed G) (\<lambda>fe.
     seq (ask_after G) (\<lambda>(fedG, cm, nowG).
     seq (reading (\<lambda>s. (tablesWanted G (dy_page s), g_tasks G (dy_page s)))) (\<lambda>(ts, tasks).
     seq (date_read_back G) (\<lambda>rb.
     let (nov, rep) = windows (oc_segments idle) (oc_segments (ar_window fe));
         baseG = ba ! 1; hash = (\<lambda>p. su_hash (pp_surface p));
         perEvent = or0 (ar_census fe ''12 PER-EVENT REGISTER'')
     in give \<lparr>qr_settledAfterSeconds = waited, qr_before = before, qr_clockPushes = pushes, qr_afterLineup = after,
       qr_addressing = ad, qr_rebuildQuietAfterSeconds = quiet, qr_presses = ba @ [fedG, nowG],
       qr_idleWindow = idle, qr_censusIdle = cIdle, qr_extensionsFed = map hx (extensions_of (ad_match ad)),
       qr_feed = fe, qr_novel = map novel_of nov, qr_repeated = map repeated_of rep, qr_clockMove = cm,
       qr_changedFromBaseline = (hash nowG \<noteq> hash baseG), qr_changedFromFed = (hash nowG \<noteq> hash fedG),
       qr_guideChanged = (hash baseG \<noteq> hash fedG), qr_baselineMatchesPreviousRun = matches_previous_run baseG,
       qr_recordsVerdict = records_verdict perEvent (ar_pushed fe) (int (length (ad_newPids ad))),
       qr_stopped = stopped (ar_census fe), qr_theAsk = map armOf [baseG, fedG, nowG], qr_tables = ts,
       qr_tasks = tasks, qr_dateReadBack = rb\<rparr>))))))))))))))))"

section \<open>The feed sends what is asked for\<close>

text \<open>
  A title section the box asks for on a page with \<open>I\<close>: its table, channel and two bytes are those a live
  unit demands, and it goes to an open listings PID.
\<close>

definition asked_for :: "('w, 'z) day_api_scheme \<Rightarrow> ('w \<Rightarrow> bool) \<Rightarrow> int \<Rightarrow> int list \<Rightarrow> bool" where
  "asked_for G I pid sec \<longleftrightarrow> (\<exists>w u fb ext v. I w \<and> u \<in> set (live_units G w) \<and> pid \<in> set (listings_pids G w) \<and>
     demanded u = Some fb \<and> ext \<in> set (extensions_of u) \<and>
     parse_section sec = Some (unit_table u, ext, v, fst fb # snd fb # RECORDS))"

definition kept_by_asked :: "('w, 'z) day_api_scheme \<Rightarrow> ('w \<Rightarrow> bool) \<Rightarrow> bool" where
  "kept_by_asked G I \<longleftrightarrow> (\<forall>w pid sec. I w \<longrightarrow> asked_for G I pid sec \<longrightarrow> I (snd (d_push G pid sec w)))"

text \<open>What the page lists as a unit: bytes, and an extension of 16 bits.\<close>

definition unit_fits :: "si_match \<Rightarrow> bool" where
  "unit_fits u \<longleftrightarrow> 0 \<le> unit_table u \<and> unit_table u < 256 \<and> or0 (mt_extension u) < 65536 \<and>
     (case demanded u of None \<Rightarrow> True | Some fb \<Rightarrow> 0 \<le> fst fb \<and> fst fb < 256 \<and> 0 \<le> snd fb \<and> snd fb < 256)"

definition units_fit :: "('w, 'z) day_api_scheme \<Rightarrow> ('w \<Rightarrow> bool) \<Rightarrow> bool" where
  "units_fit G I \<longleftrightarrow> (\<forall>w. I w \<longrightarrow> list_all unit_fits (d_matches G w))"

definition page_keeps :: "('w \<Rightarrow> bool) \<Rightarrow> 'w day \<Rightarrow> bool" where
  "page_keeps I s \<longleftrightarrow> I (dy_page s)"

definition stamped :: "('w \<Rightarrow> bool) \<Rightarrow> int \<Rightarrow> int \<times> int \<Rightarrow> 'w day \<Rightarrow> bool" where
  "stamped I t fb s \<longleftrightarrow> I (dy_page s) \<and> dy_table s = t \<and> dy_filter s = fb"

lemma extension_range: "ext \<in> set (extensions_of u) \<Longrightarrow> 0 \<le> ext \<and> ext \<le> or0 (mt_extension u)"
  using to_u32_range(1) [of "or0 (mt_extension u) AND or0 (mt_extensionMask u)"]
  by (auto simp only: extensions_of_def set_upto atLeastAtMost_iff)

lemma ask_extension_keeps:
  assumes k: "kept_by_asked G I" and u: "I w0" "u \<in> set (live_units G w0)" "unit_fits u" "demanded u = Some fb"
    and ps: "set pids \<subseteq> set (listings_pids G w0)" and e: "ext \<in> set (extensions_of u)"
  shows "yields (stamped I (unit_table u) fb) (feed_extension G pids ext) (\<lambda>bs. length bs = length pids)"
proof (rule yieldsI)
  fix s :: "'a day"
  assume J: "stamped I (unit_table u) fb s"
  let ?s = "s\<lparr>dy_a1 := next_version (dy_a1 s)\<rparr>" and ?t = "unit_table u"
  let ?sec = "buildA1 ?t fb (next_version (dy_a1 s)) ext"
  have v: "0 \<le> next_version (dy_a1 s)" "next_version (dy_a1 s) < 32"
    using and31_range [of "dy_a1 s + 1"] by (simp_all add: next_version_def)
  have b: "0 \<le> ?t" "?t < 256" "0 \<le> fst fb" "fst fb < 256" "0 \<le> snd fb" "snd fb < 256" "0 \<le> ext" "ext < 65536"
    using u(3,4) extension_range [OF e] by (simp_all add: unit_fits_def)
  have sec: "parse_section ?sec = Some (?t, ext, next_version (dy_a1 s), fst fb # snd fb # RECORDS)"
    using title_section_valid [OF b(1-6) v b(7,8)] by simp
  have "yields (stamped I ?t fb) (push_one G ?sec pid) (\<lambda>_. True)" if "pid \<in> set pids" for pid
  proof -
    have "asked_for G I pid ?sec" unfolding asked_for_def using u ps e sec that by blast
    then have "I w \<Longrightarrow> I (snd (d_push G pid ?sec w))" for w using k by (simp add: kept_by_asked_def)
    then show ?thesis by (auto simp: yields_def push_one_def on_page_def stamped_def Let_def split_beta)
  qed
  then have "yields (stamped I ?t fb) (each (push_one G ?sec) pids) (\<lambda>as. length as = length pids \<and> (\<forall>a \<in> set as. True))"
    by (rule yields_each)
  moreover have "stamped I ?t fb ?s" using J by (simp add: stamped_def)
  ultimately obtain bs s' where
    "each (push_one G ?sec) pids ?s = (Inr bs, s')" "length bs = length pids" "stamped I ?t fb s'"
    using yields_at by fastforce
  moreover have "feed_extension G pids ext s = each (push_one G ?sec) pids ?s"
    using J by (simp add: feed_extension_def seq_def stamped_def)
  ultimately show "\<exists>a s'. feed_extension G pids ext s = (Inr a, s') \<and> length a = length pids \<and> stamped I ?t fb s'"
    by simp
qed

text \<open>The keys a unit gives are its own, and each of its extensions is pushed to each PID once.\<close>

definition unit_result :: "si_match \<Rightarrow> nat \<Rightarrow> string list \<times> bool list \<Rightarrow> bool" where
  "unit_result u n r \<longleftrightarrow>
     (case demanded u of None \<Rightarrow> r = ([], [])
      | Some fb \<Rightarrow> fst r = [key_text (unit_table u) fb] \<and> length (snd r) = length (extensions_of u) * n)"

lemma ask_unit_keeps:
  assumes k: "kept_by_asked G I" and u: "I w0" "u \<in> set (live_units G w0)" "unit_fits u"
    and ps: "set pids \<subseteq> set (listings_pids G w0)"
  shows "yields (page_keeps I) (ask_unit G pids u) (unit_result u (length pids))"
proof (cases "demanded u")
  case None
  then show ?thesis by (simp add: ask_unit_def yields_def unit_result_def)
next
  case (Some fb)
  have e: "yields (stamped I (unit_table u) fb) (each (feed_extension G pids) (extensions_of u))
      (\<lambda>as. length as = length (extensions_of u) \<and> (\<forall>a \<in> set as. length a = length pids))"
    by (rule yields_each, rule ask_extension_keeps [OF k u Some ps])
  show ?thesis
  proof (rule yieldsI)
    fix s :: "'a day"
    assume "page_keeps I s"
    then have "stamped I (unit_table u) fb (s\<lparr>dy_table := unit_table u, dy_filter := fb\<rparr>)"
      by (simp add: page_keeps_def stamped_def)
    from yields_at [OF e this] obtain rs s' where
      r: "each (feed_extension G pids) (extensions_of u) (s\<lparr>dy_table := unit_table u, dy_filter := fb\<rparr>) = (Inr rs, s')"
        "length rs = length (extensions_of u)" "\<forall>a \<in> set rs. length a = length pids" "stamped I (unit_table u) fb s'"
      by blast
    have "ask_unit G pids u s = (Inr ([key_text (unit_table u) fb], concat rs), s')"
      using Some r(1) by (simp add: ask_unit_def seq_def)
    moreover have "unit_result u (length pids) ([key_text (unit_table u) fb], concat rs)"
      using Some concat_length [OF r(3)] r(2) by (simp add: unit_result_def)
    moreover have "page_keeps I s'" using r(4) by (simp add: page_keeps_def stamped_def)
    ultimately show "\<exists>a s'. ask_unit G pids u s = (Inr a, s') \<and> unit_result u (length pids) a \<and> page_keeps I s'" by blast
  qed
qed

definition asked_key :: "('w, 'z) day_api_scheme \<Rightarrow> ('w \<Rightarrow> bool) \<Rightarrow> string \<Rightarrow> bool" where
  "asked_key G I x \<longleftrightarrow> (\<exists>w u fb. I w \<and> u \<in> set (live_units G w) \<and> demanded u = Some fb \<and> x = key_text (unit_table u) fb)"

lemma yields_all:
  assumes "\<And>x. x \<in> set xs \<Longrightarrow> yields J (f x) (P x)"
  shows "yields J (each f xs) (\<lambda>as. list_all2 P xs as)"
  using assms
proof (induction xs)
  case Nil
  show ?case unfolding each.simps by (rule yields_give) simp
next
  case (Cons x xs)
  have x: "yields J (f x) (P x)" by (rule Cons.prems) simp
  have xs: "yields J (each f xs) (\<lambda>as. list_all2 P xs as)" by (rule Cons.IH, rule Cons.prems) simp
  show ?case unfolding each.simps by (rule yields_seq [OF x], rule yields_seq [OF xs], rule yields_give) simp
qed

lemma pausing_keeps: "kept_by_waits G I \<Longrightarrow> yields (page_keeps I) (pausing G ms) (\<lambda>_. True)"
  by (auto simp: yields_def pausing_def on_page_def sleep_def kept_by_waits_def page_keeps_def)

lemma round_keys:
  assumes "list_all2 (\<lambda>u. unit_result u n) us rs" "\<And>u fb. u \<in> set us \<Longrightarrow> demanded u = Some fb \<Longrightarrow> P (key_text (unit_table u) fb)"
  shows "\<forall>x \<in> set (concat (map fst rs)). P x"
  using assms
proof (induction us rs rule: list_all2_induct)
  case (Cons u us r rs)
  have "\<forall>x \<in> set (fst r). P x"
    using Cons.hyps(1) Cons.prems [of u] by (cases "demanded u") (auto simp: unit_result_def)
  moreover have "\<forall>x \<in> set (concat (map fst rs)). P x" by (rule Cons.IH) (use Cons.prems in auto)
  ultimately show ?case by auto
qed simp

lemma ask_round_keeps:
  assumes "kept_by_waits G I" "kept_by_asked G I" "units_fit G I"
  shows "yields (page_keeps I) (ask_round G k) (\<lambda>r. \<forall>x \<in> set (as_keys r). asked_key G I x)"
proof (rule yieldsI)
  fix s :: "'a day"
  assume J: "page_keeps I s"
  let ?us = "live_units G (dy_page s)" and ?ps = "listings_pids G (dy_page s)"
  let ?Q = "\<lambda>r. \<forall>x \<in> set (as_keys r). asked_key G I x"
  let ?m = "if ?us = [] \<or> ?ps = []
     then seq (pausing G 2000) (\<lambda>_. give \<lparr>as_keys = [], as_pids = ?ps, as_pushes = []\<rparr>)
     else seq (each (ask_unit G ?ps) ?us) (\<lambda>rs.
          seq (pausing G 4000) (\<lambda>_.
          give \<lparr>as_keys = concat (map fst rs), as_pids = ?ps, as_pushes = concat (map snd rs)\<rparr>))"
  have I: "I (dy_page s)" using J by (simp add: page_keeps_def)
  have fits: "unit_fits u" if "u \<in> set ?us" for u
    using assms(3) I that by (auto simp: units_fit_def live_units_def list_all_iff)
  have us: "yields (page_keeps I) (each (ask_unit G ?ps) ?us) (\<lambda>rs. list_all2 (\<lambda>u. unit_result u (length ?ps)) ?us rs)"
    by (rule yields_all, rule ask_unit_keeps [OF assms(2) I _ fits subset_refl])
  have keys: "\<forall>x \<in> set (concat (map fst rs)). asked_key G I x" if "list_all2 (\<lambda>u. unit_result u (length ?ps)) ?us rs" for rs
    using that by (rule round_keys) (use I in \<open>auto simp: asked_key_def\<close>)
  have "yields (page_keeps I) ?m ?Q"
  proof (cases "?us = [] \<or> ?ps = []")
    case True
    have "yields (page_keeps I) (seq (pausing G 2000) (\<lambda>_. give \<lparr>as_keys = [], as_pids = ?ps, as_pushes = []\<rparr>)) ?Q"
      by (rule yields_seq [OF pausing_keeps [OF assms(1)]], rule yields_give) simp
    with True show ?thesis by simp
  next
    case False
    have "yields (page_keeps I) (seq (each (ask_unit G ?ps) ?us) (\<lambda>rs. seq (pausing G 4000) (\<lambda>_.
          give \<lparr>as_keys = concat (map fst rs), as_pids = ?ps, as_pushes = concat (map snd rs)\<rparr>))) ?Q"
      by (rule yields_seq [OF us], rule yields_seq [OF pausing_keeps [OF assms(1)]], rule yields_give) (use keys in simp)
    with False show ?thesis by (simp only: if_False)
  qed
  from yields_at [OF this J] obtain r s' where "?m s = (Inr r, s')" "?Q r" "page_keeps I s'" by blast
  moreover have "ask_round G k s = ?m s" by (simp only: ask_round_def seq_simps prod.case)
  ultimately show "\<exists>a s'. ask_round G k s = (Inr a, s') \<and> ?Q a \<and> page_keeps I s'" by (intro exI conjI) simp_all
qed


text \<open>A box that keeps what is pushed to it and asks for one day on one PID.\<close>

definition ASKING :: si_match where
  "ASKING = \<lparr>mt_tableId = Some 0xA1, mt_extension = Some 0x0BBB, mt_extensionMask = Some 0xFFFC, mt_tableIdMask = 0xFE,
     mt_bytes = Some [''a1/fe'', ''0b/ff'', ''b8/fc'', ''00/00'', ''00/00'', ''00/00'', ''c6/ff'', ''7e/ff'']\<rparr>"

definition asking_page :: "(int \<times> int list) list day_api" where
  "asking_page = quiet_page\<lparr>d_matches := (\<lambda>w. [ASKING]), d_filters := (\<lambda>w. [\<lparr>sf_pid = ''0x33'', sf_armed = True\<rparr>])\<rparr>"

lemma ASKING_values: "demanded ASKING = Some (0xC6, 0x7E)" "unit_table ASKING = 0xA1" "extensions_of ASKING = [0x0BB8..0x0BBB]"
  by (code_simp, code_simp, simp add: extensions_of_def ASKING_def or0_def)


text \<open>A unit that lists no bytes passes the test for \<open>null\<close> and is fed two zero bytes.\<close>

lemma undemanding_unit_is_fed: "mt_bytes u = None \<Longrightarrow> demanded u = Some (0, 0)"
  by (simp add: demanded_def demanded_byte_def)

end
