(* ===== verification/Probe_Reads.thy ===== *)
theory Probe_Reads
  imports Probe_Memory
begin

text \<open>
  How the probes find a section in memory and who read it: the page's \<open>__find\<close>
  (\<open>reference/digibox-boot.html\<close>), the addresses it prints and the probes read back, and the coverage
  table a probe builds from the log of the read watch (\<open>tools/probes/titles-and-summaries.js\<close>).
\<close>

section \<open>Finding bytes\<close>

definition matches_at :: "'d page \<Rightarrow> int list \<Rightarrow> int \<Rightarrow> bool" where
  "matches_at p b i \<longleftrightarrow> b \<noteq> [] \<and> 0 \<le> i \<and> map (\<lambda>j. ram_byte p (RAM_K0 + i + int j)) [0..<length b] = b"

text \<open>The loop over \<open>k\<close> places from \<open>i\<close> on, which ends early when \<open>m\<close> more are found.\<close>

fun find_scan :: "(int \<Rightarrow> bool) \<Rightarrow> nat \<Rightarrow> int \<Rightarrow> nat \<Rightarrow> int list" where
  "find_scan hit 0 i m = []"
| "find_scan hit (Suc k) i m =
     (if m = 0 then [] else if hit i then i # find_scan hit k (i + 1) (m - 1) else find_scan hit k (i + 1) m)"

text \<open>A bound or a limit of 0 stands for its default.\<close>

definition find_range :: "int \<Rightarrow> int \<Rightarrow> int \<times> int" where
  "find_range lo hi = (to_u32 (if lo = 0 then 0x80000000 else lo) - RAM_K0,
     min (to_u32 (if hi = 0 then 0x80000000 + RAM_SIZE else hi) - RAM_K0) RAM_SIZE)"

definition page_find :: "'d page \<Rightarrow> int list \<Rightarrow> int \<Rightarrow> int \<Rightarrow> nat \<Rightarrow> string list" where
  "page_find p b lo hi mx =
     (let (l, h) = find_range lo hi
      in map (\<lambda>i. h8 (RAM_K0 + i))
           (find_scan (matches_at p b) (nat (h - int (length b) - l)) l (if mx = 0 then 20 else mx)))"

lemma find_scan_filter: "find_scan hit k i m = take m (filter hit [i..i + int k - 1])"
proof (induction k arbitrary: i m)
  case (Suc k)
  have "[i..i + int (Suc k) - 1] = i # [i + 1..(i + 1) + int k - 1]" by (simp add: upto_rec1)
  then show ?case using Suc by (cases m) simp_all
qed simp

text \<open>
  The search finds the first places.  \<open>__find\<close> reports, in ascending order and at most as many as it is
  asked for, exactly the places of the range from which the bytes can be read on; but the range of places
  ends one before the last: a match that ends with the last byte of the range is not looked at.
\<close>

theorem page_find_exact:
  assumes "find_range lo hi = (l, h)" "0 < mx"
  shows "page_find p b lo hi mx = map (\<lambda>i. h8 (RAM_K0 + i)) (take mx (filter (matches_at p b) [l..h - int (length b) - 1]))"
proof -
  have "[l..l + int (nat (h - int (length b) - l)) - 1] = [l..h - int (length b) - 1]"
    by (cases "l \<le> h - int (length b)") simp_all
  then show ?thesis using assms by (simp add: page_find_def find_scan_filter)
qed

lemma find_misses_the_last:
  assumes "find_range lo hi = (l, h)" "0 < mx" "\<And>i. matches_at p b i \<Longrightarrow> i = h - int (length b)"
  shows "page_find p b lo hi mx = []"
proof -
  have "filter (matches_at p b) [l..h - int (length b) - 1] = []"
    using assms(3) by (force simp: filter_empty_conv)
  then show ?thesis using page_find_exact [OF assms(1,2), of p b] by simp
qed

section \<open>Addresses read back\<close>

definition addr_of :: "string \<Rightarrow> int" where
  "addr_of s = (case parse_int 16 s of None \<Rightarrow> 0 | Some v \<Rightarrow> to_u32 v)"

lemma upper_hex_digit:
  assumes "0 \<le> d" "d < 16"
  shows "\<exists>c. js_upper [radix_digit d] = [c] \<and> digit_of c = d"
proof -
  from assms have "d = 0 \<or> d = 1 \<or> d = 2 \<or> d = 3 \<or> d = 4 \<or> d = 5 \<or> d = 6 \<or> d = 7 \<or> d = 8
      \<or> d = 9 \<or> d = 10 \<or> d = 11 \<or> d = 12 \<or> d = 13 \<or> d = 14 \<or> d = 15" by presburger
  then show ?thesis
    by (elim disjE) (simp_all add: js_upper_def radix_digit_def digit_of_def Let_def of_char_of take_bit_int_eq_self)
qed

definition digits_read :: "string \<Rightarrow> int" where
  "digits_read s = foldl (\<lambda>a c. 16 * a + digit_of c) 0 s"

lemma digits_read_snoc: "digits_read (s @ [c]) = 16 * digits_read s + digit_of c"
  by (simp add: digits_read_def)

lemma upper_hex_read:
  "0 \<le> n \<Longrightarrow> digits_read (js_upper (hex_string n)) = n \<and> list_all (\<lambda>c. digit_of c < 16) (js_upper (hex_string n))"
  unfolding hex_string_def
proof (induction "16 :: int" n rule: radix_string.induct)
  case (1 n)
  show ?case
  proof (cases "n < 16")
    case True
    then have r: "radix_string 16 n = [radix_digit n]" by (subst radix_string.simps) simp
    obtain c where "js_upper [radix_digit n] = [c]" "digit_of c = n"
      using upper_hex_digit [OF 1(2) True] by (elim exE conjE)
    then show ?thesis unfolding r using True by (simp add: digits_read_def)
  next
    case False
    then have r: "radix_string 16 n = radix_string 16 (n div 16) @ [radix_digit (n mod 16)]"
      by (subst radix_string.simps) simp
    have m: "0 \<le> n mod 16" "n mod 16 < 16" by simp_all
    obtain c where c: "js_upper [radix_digit (n mod 16)] = [c]" "digit_of c = n mod 16"
      using upper_hex_digit [OF m] by (elim exE conjE)
    have "digits_read (js_upper (radix_string 16 (n div 16))) = n div 16 \<and>
        list_all (\<lambda>c. digit_of c < 16) (js_upper (radix_string 16 (n div 16)))"
      using 1 False by simp
    then show ?thesis unfolding r js_upper_append c(1) digits_read_snoc by (simp add: c(2))
  qed
qed

lemma digits_read_pad:
  "digits_read (pad_left w CHR ''0'' s) = digits_read s"
  "list_all (\<lambda>c. digit_of c < 16) s \<Longrightarrow> list_all (\<lambda>c. digit_of c < 16) (pad_left w CHR ''0'' s)"
proof -
  have z: "digit_of CHR ''0'' = 0" by code_simp
  have "digits_read (replicate k CHR ''0'' @ s) = digits_read s" for k
    by (induction k) (simp_all add: digits_read_def z)
  then show "digits_read (pad_left w CHR ''0'' s) = digits_read s" by (simp add: pad_left_def)
  show "list_all (\<lambda>c. digit_of c < 16) s \<Longrightarrow> list_all (\<lambda>c. digit_of c < 16) (pad_left w CHR ''0'' s)"
    by (auto simp: pad_left_def list_all_iff z)
qed

lemma parse_int_h8: "parse_int 16 (h8 a) = Some (to_u32 a)"
proof -
  define ds where "ds = pad_left 8 CHR ''0'' (js_upper (hex_string (to_u32 a)))"
  have "length ds \<noteq> 0" by (simp add: ds_def)
  then have "ds \<noteq> []" by (cases ds) simp_all
  then have ds: "digits_read ds = to_u32 a" "list_all (\<lambda>c. digit_of c < 16) ds" "ds \<noteq> []"
    using upper_hex_read [OF to_u32_range(1), of a] by (simp_all only: ds_def digits_read_pad not_False_eq_True)
  have t: "takeWhile (\<lambda>c. digit_of c < 16) ds = ds" using ds(2) by (simp add: takeWhile_eq_all_conv list_all_iff)
  have h: "h8 a = ''0x'' @ ds" by (simp add: h8_def ds_def)
  have z: "\<not> is_space CHR ''0''" by code_simp
  show ?thesis
    unfolding parse_int_def h Let_def using ds(1,3) z by (simp add: digits_read_def t)
qed

text \<open>An address the page prints and a probe reads back is the address, modulo \<open>2 ^ 32\<close>.\<close>

theorem addr_of_h8: "addr_of (h8 a) = to_u32 a"
  by (simp add: addr_of_def parse_int_h8)

section \<open>The read log\<close>

text \<open>
  An entry of the log of the read watch.  The page prints the address with \<open>hex32\<close> and the probes read it
  back with \<open>parseInt\<close>, which gives the address itself (\<open>parse_int_h8\<close>): the record holds the number.
\<close>

record read_entry =
  rd_pc :: string
  rd_at :: int
  rd_size :: int

record read_log =
  rl_reads :: int
  rl_capped :: bool
  rl_all :: "read_entry list"

text \<open>The offsets a read touches, from \<open>start\<close>, of a payload of \<open>len\<close> bytes; a size of 0 counts as 1.\<close>

definition touched :: "int \<Rightarrow> int \<Rightarrow> read_entry \<Rightarrow> int list" where
  "touched start len r =
     filter (\<lambda>x. 0 \<le> x \<and> x < len)
       (map (\<lambda>k. (rd_at r + k) - start) [0..(if rd_size r = 0 then 1 else rd_size r) - 1])"

text \<open>The table keeps its keys in the order in which they first appear, as a JavaScript object does.\<close>

definition cover_byte :: "string \<Rightarrow> (string \<times> int list) list \<Rightarrow> int \<Rightarrow> (string \<times> int list) list" where
  "cover_byte pc cv x =
     (let seen = (case map_of cv pc of None \<Rightarrow> [] | Some s \<Rightarrow> s)
      in AList.update pc (if x \<in> set seen then seen else seen @ [x]) cv)"

definition cover :: "int \<Rightarrow> int \<Rightarrow> read_entry list \<Rightarrow> (string \<times> int list) list" where
  "cover start len lg = foldl (\<lambda>cv r. foldl (cover_byte (rd_pc r)) cv (touched start len r)) [] lg"

text \<open>Each reader with the number of bytes it read, the greatest first; equals stay in order.\<close>

definition readers_of :: "(string \<times> int list) list \<Rightarrow> (string \<times> int) list" where
  "readers_of cv = sort_key (\<lambda>x. - snd x) (map (\<lambda>(p, s). (p, int (length s))) cv)"

definition offsets_read :: "int \<Rightarrow> int \<Rightarrow> read_entry list \<Rightarrow> int list" where
  "offsets_read start len lg = sort (remdups (concat (map (touched start len) lg)))"

section \<open>What the table says\<close>

definition bytes_of :: "int \<Rightarrow> int \<Rightarrow> read_entry list \<Rightarrow> string \<Rightarrow> int set" where
  "bytes_of start len lg pc = {x. \<exists>r \<in> set lg. rd_pc r = pc \<and> x \<in> set (touched start len r)}"

text \<open>A table is right for \<open>f\<close>: a key for each reader with bytes, and its bytes without repetition.\<close>

definition table_ok :: "(string \<Rightarrow> int set) \<Rightarrow> (string \<times> int list) list \<Rightarrow> bool" where
  "table_ok f cv \<longleftrightarrow> distinct (map fst cv) \<and>
     (\<forall>pc. case map_of cv pc of None \<Rightarrow> f pc = {} | Some s \<Rightarrow> s \<noteq> [] \<and> distinct s \<and> set s = f pc)"

lemma table_okD:
  assumes "table_ok f cv"
  shows "map_of cv pc = None \<Longrightarrow> f pc = {}" "map_of cv pc = Some s \<Longrightarrow> s \<noteq> [] \<and> distinct s \<and> set s = f pc"
proof -
  from assms have "case map_of cv pc of None \<Rightarrow> f pc = {} | Some s \<Rightarrow> s \<noteq> [] \<and> distinct s \<and> set s = f pc"
    unfolding table_ok_def by blast
  then show "map_of cv pc = None \<Longrightarrow> f pc = {}" "map_of cv pc = Some s \<Longrightarrow> s \<noteq> [] \<and> distinct s \<and> set s = f pc"
    by simp_all
qed

lemma cover_byte_ok:
  assumes "table_ok f cv"
  shows "table_ok (f(pc := insert x (f pc))) (cover_byte pc cv x)"
proof -
  let ?s = "case map_of cv pc of None \<Rightarrow> [] | Some s \<Rightarrow> s"
  let ?t = "if x \<in> set ?s then ?s else ?s @ [x]"
  have s: "distinct ?s \<and> set ?s = f pc"
    using table_okD [OF assms, of pc] by (cases "map_of cv pc") simp_all
  have add: "(if x \<in> set ys then ys else ys @ [x]) \<noteq> [] \<and> distinct (if x \<in> set ys then ys else ys @ [x]) \<and>
      set (if x \<in> set ys then ys else ys @ [x]) = insert x (f pc)" if "distinct ys \<and> set ys = f pc" for ys
    using that by auto
  note t = add [OF s]
  show ?thesis
    unfolding table_ok_def
  proof (intro conjI allI)
    show "distinct (map fst (cover_byte pc cv x))"
      using assms by (simp add: cover_byte_def Let_def table_ok_def distinct_update)
  next
    fix q
    have m: "map_of (cover_byte pc cv x) q = (if q = pc then Some ?t else map_of cv q)"
      by (simp add: cover_byte_def Let_def update_conv')
    show "case map_of (cover_byte pc cv x) q of None \<Rightarrow> (f(pc := insert x (f pc))) q = {}
        | Some s \<Rightarrow> s \<noteq> [] \<and> distinct s \<and> set s = (f(pc := insert x (f pc))) q"
    proof (cases "q = pc")
      case True
      then show ?thesis unfolding m using t by (simp only: if_True option.case fun_upd_same simp_thms)
    next
      case False
      then show ?thesis unfolding m using table_okD [OF assms, of q] by (cases "map_of cv q") simp_all
    qed
  qed
qed

lemma cover_bytes_ok:
  "table_ok f cv \<Longrightarrow> table_ok (f(pc := f pc \<union> set xs)) (foldl (cover_byte pc) cv xs)"
proof (induction xs arbitrary: f cv)
  case (Cons x xs)
  have "(f(pc := insert x (f pc)))(pc := (f(pc := insert x (f pc))) pc \<union> set xs) = f(pc := f pc \<union> set (x # xs))"
    by (rule ext) simp
  with Cons.IH [OF cover_byte_ok [OF Cons.prems, of pc x]] show ?case by (simp only: foldl.simps)
qed simp

lemma cover_reads_ok:
  assumes "table_ok f cv"
  shows "table_ok (\<lambda>pc. f pc \<union> bytes_of start len lg pc)
    (foldl (\<lambda>cv r. foldl (cover_byte (rd_pc r)) cv (touched start len r)) cv lg)"
  using assms
proof (induction lg arbitrary: f cv)
  case Nil
  then show ?case by (simp add: bytes_of_def)
next
  case (Cons r lg)
  let ?f = "f(rd_pc r := f (rd_pc r) \<union> set (touched start len r))"
  have "table_ok (\<lambda>pc. ?f pc \<union> bytes_of start len lg pc)
      (foldl (\<lambda>cv r. foldl (cover_byte (rd_pc r)) cv (touched start len r)) cv (r # lg))"
    using Cons.IH [OF cover_bytes_ok [OF Cons.prems]] by simp
  moreover have "(\<lambda>pc. ?f pc \<union> bytes_of start len lg pc) = (\<lambda>pc. f pc \<union> bytes_of start len (r # lg) pc)"
    by (rule ext) (auto simp: bytes_of_def)
  ultimately show ?case by simp
qed

lemma cover_ok: "table_ok (bytes_of start len lg) (cover start len lg)"
proof -
  have "table_ok (\<lambda>_. {}) []" by (simp add: table_ok_def)
  from cover_reads_ok [OF this, of start len lg] show ?thesis by (simp add: cover_def)
qed

lemma finite_bytes_of: "finite (bytes_of start len lg pc)"
  by (rule finite_subset [of _ "{0..<len}"]) (auto simp: bytes_of_def touched_def)

lemma readers_of_set: "set (readers_of cv) = (\<lambda>(p, s). (p, int (length s))) ` set cv"
  by (simp add: readers_of_def)

lemma readers_of_keys: "mset (map fst (readers_of cv)) = mset (map fst cv)"
  by (simp add: readers_of_def image_mset.compositionality comp_def split_beta)

text \<open>
  The table of readers is exact.  Each program counter that read a byte of the payload is listed once,
  with the number of different bytes it read, nobody else is listed, and the list is in descending order.
\<close>

theorem readers_exact:
  "distinct (map fst (readers_of (cover start len lg))) \<and>
   sorted_wrt (\<ge>) (map snd (readers_of (cover start len lg))) \<and>
   ((pc, n) \<in> set (readers_of (cover start len lg)) \<longleftrightarrow>
      0 < n \<and> n = int (card (bytes_of start len lg pc)))"
proof (intro conjI)
  let ?cv = "cover start len lg"
  note ok = cover_ok [of start len lg]
  have d: "distinct (map fst ?cv)" using ok by (simp add: table_ok_def)
  then show "distinct (map fst (readers_of ?cv))"
    using readers_of_keys [of ?cv] by (metis mset_eq_imp_distinct_iff)
  have "sorted (map (\<lambda>x. - snd x) (readers_of ?cv))" unfolding readers_of_def by (rule sorted_sort_key)
  then show "sorted_wrt (\<ge>) (map snd (readers_of ?cv))" by (simp add: sorted_wrt_map)
  have m: "(pc, s) \<in> set ?cv \<longleftrightarrow> map_of ?cv pc = Some s" for s using d by (simp add: map_of_eq_Some_iff)
  have "(pc, n) \<in> set (readers_of ?cv) \<longleftrightarrow> (\<exists>s. map_of ?cv pc = Some s \<and> n = int (length s))"
    unfolding readers_of_set using m by force
  also have "\<dots> \<longleftrightarrow> 0 < n \<and> n = int (card (bytes_of start len lg pc))"
  proof (cases "map_of ?cv pc")
    case None
    then show ?thesis using table_okD(1) [OF ok None] by simp
  next
    case (Some s)
    from table_okD(2) [OF ok Some] have s: "s \<noteq> []" "card (bytes_of start len lg pc) = length s"
      using distinct_card [of s] by auto
    then show ?thesis using Some by auto
  qed
  finally show "(pc, n) \<in> set (readers_of ?cv) \<longleftrightarrow> 0 < n \<and> n = int (card (bytes_of start len lg pc))" .
qed

lemma offsets_read_set: "x \<in> set (offsets_read start len lg) \<longleftrightarrow> (\<exists>r \<in> set lg. x \<in> set (touched start len r))"
  by (simp add: offsets_read_def)

lemma touched_one: "0 < rd_size r \<Longrightarrow> x \<in> set (touched start len r) \<longleftrightarrow>
    0 \<le> x \<and> x < len \<and> rd_at r \<le> start + x \<and> start + x < rd_at r + rd_size r"
  by (auto simp: touched_def image_iff intro!: bexI [of _ "start + x - rd_at r"])

end
