(* ===== verification/Probe_Titles.thy ===== *)
theory Probe_Titles
  imports Probe_Day_Run Probe_Reads
begin

text \<open>
  \<open>tools/probes/titles-and-summaries.js\<close>: a title section and a summary section are pushed while the read
  watch looks on, and the log of the watch tells who read which bytes.  The probe's variables are those of
  \<open>day\<close>, with the version counter of the summaries.  A throw names its reason; prose that only labels the
  report is left out of it.
\<close>

section \<open>The hooks and the variables\<close>

record pushed_at = push_result +
  pu_at :: string

record 'w titles_api = "'w day_api" +
  t_push :: "int \<Rightarrow> int list \<Rightarrow> 'w \<Rightarrow> pushed_at \<times> 'w"
  t_find :: "'w \<Rightarrow> int list \<Rightarrow> int \<Rightarrow> int \<Rightarrow> nat \<Rightarrow> string list"
  t_watch :: "int \<Rightarrow> int \<Rightarrow> 'w \<Rightarrow> 'w"
  t_log :: "'w \<Rightarrow> read_log"

record 'w titles = "'w day" +
  ti_sum :: int

definition push_section :: "('w, 'z) titles_api_scheme \<Rightarrow> int \<Rightarrow> int list \<Rightarrow> (('w, 'y) day_scheme, pushed_at) act" where
  "push_section G pid sec = on_page (\<lambda>w. let (r, w') = t_push G pid sec w in (Inr r, w'))"

section \<open>The sections\<close>

definition SIGNATURE :: "int list" where
  "SIGNATURE = [0x9E, 0x8B]"

definition SUMMARIES :: "int list" where
  "SUMMARIES = [2,1,240,32,185,30,56,170,227,12,173,92,96,235,245,113,134,86,174,48,30,171,140,50,189,117,142,237,87,24,101,122,37,14,194,0,
     2,2,240,31,185,29,56,170,227,12,173,92,96,235,245,113,134,86,174,48,30,171,140,50,189,4,149,17,171,140,50,162,141,216,64,
     2,3,240,31,185,29,56,170,227,12,173,92,96,235,245,113,134,86,174,48,30,171,140,50,162,141,87,24,101,106,227,15,224,118,16,
     2,4,240,37,185,35,56,170,227,12,173,92,96,235,245,113,134,86,174,48,30,171,140,50,181,113,135,226,174,48,202,196,204,115,102,85,198,10,95,216,64,
     2,5,240,32,185,30,56,170,227,12,173,92,96,235,245,113,134,86,174,48,30,171,140,50,188,121,69,150,191,171,140,50,168,103,236,32,
     2,6,240,34,185,32,56,170,227,12,173,92,96,235,245,113,134,86,174,48,30,171,140,50,188,109,153,107,250,184,195,43,87,24,127,3,176,128,
     2,7,240,36,185,34,56,170,227,12,173,92,96,235,245,113,134,86,174,48,30,171,140,50,188,80,183,147,157,92,96,211,87,24,101,106,139,74,251,8,
     2,8,240,33,185,31,56,170,227,12,173,92,96,235,245,113,134,86,174,48,30,171,140,50,189,83,213,198,25,80,171,140,50,189,18,246,16,
     2,9,240,44,185,42,56,170,227,12,173,92,96,235,245,113,134,86,174,48,30,171,140,50,189,4,149,17,171,140,50,189,5,79,122,184,193,74,58,184,195,43,87,24,127,3,176,128,
     2,10,240,39,185,37,56,170,227,12,173,92,96,235,245,113,134,86,174,48,30,171,140,50,181,113,128,173,92,97,149,171,140,1,42,227,12,173,92,96,27,216,64,
     2,11,240,33,185,31,56,170,227,12,173,92,96,235,245,113,134,86,174,48,30,171,140,50,181,79,150,180,190,174,48,202,213,22,149,246,16,
     2,12,240,32,185,30,56,170,227,12,173,92,96,235,245,113,134,86,174,48,30,171,140,50,176,115,85,198,25,90,184,195,248,29,132,0]"

definition titles_payload :: "bool \<Rightarrow> int list" where
  "titles_payload sig = (if sig then SIGNATURE else [0x40, 0x41]) @ RECORDS_LONG"

definition PAYLOAD_LEN :: int where
  "PAYLOAD_LEN = int (length (titles_payload True))"

text \<open>The eight bytes by which a copy is found: \<open>MARK\<close> from offset 8 of the payload, \<open>SMARK\<close> from offset 6 of the summaries.\<close>

definition MARK :: "int list" where
  "MARK = take 8 (drop 8 (titles_payload False))"

definition SMARK :: "int list" where
  "SMARK = take 8 (drop 6 SUMMARIES)"

definition titles_section :: "bool \<Rightarrow> int \<Rightarrow> int \<Rightarrow> int list" where
  "titles_section sig version ext =
     (let p = titles_payload sig; len = 5 + int (length p) + 4
      in with_crc (long_header 0xA1 len ext version @ p))"

definition buildSummary :: "int \<Rightarrow> int \<Rightarrow> int \<Rightarrow> int list" where
  "buildSummary table_id version ext =
     (let p = SIGNATURE @ SUMMARIES; len = 5 + int (length p) + 4
      in with_crc (long_header table_id len ext version @ p))"

text \<open>The BAT of this probe carries no linkage descriptor.\<close>

definition titles_descs :: "int list" where
  "titles_descs = [0x5F, 4] @ u32b 2 @ [0xB1, int (length bat_body)] @ bat_body @ serviceListDesc SERVICES @ satellite"

definition titles_bat :: "si_ids \<Rightarrow> int \<Rightarrow> int list" where
  "titles_bat ids version =
     (let ts = u16 (id_tsid ids) @ u16 (id_networkId ids) @ len_field (int (length titles_descs)) @ titles_descs;
          name = [0x47, 3, 0x53, 0x6B, 0x79];
          len = 5 + 2 + int (length name) + 2 + int (length ts) + 4
      in with_crc (long_header 0x4A len (bouquet ids) version
           @ len_field (int (length name)) @ name @ len_field (int (length ts)) @ ts))"

definition push_bat :: "('w, 'z) titles_api_scheme \<Rightarrow> (('w, 'y) day_scheme, pushed_at) act" where
  "push_bat G =
     seq (doing (\<lambda>s. s\<lparr>dy_bat := next_version (dy_bat s)\<rparr>)) (\<lambda>_.
     seq (reading (\<lambda>s. titles_bat (d_ids G (dy_page s)) (dy_bat s))) (\<lambda>sec.
     push_section G 0x0011 sec))"

definition push_titles :: "('w, 'z) titles_api_scheme \<Rightarrow> int \<Rightarrow> int \<Rightarrow> bool \<Rightarrow> (('w, 'y) day_scheme, pushed_at) act" where
  "push_titles G pid ext sig =
     seq (doing (\<lambda>s. s\<lparr>dy_a1 := next_version (dy_a1 s)\<rparr>)) (\<lambda>_.
     seq (reading (\<lambda>s. titles_section sig (dy_a1 s) ext)) (\<lambda>sec.
     push_section G pid sec))"

definition push_summary :: "('w, 'z) titles_api_scheme \<Rightarrow> int \<Rightarrow> int \<Rightarrow> int \<Rightarrow> ('w titles, pushed_at) act" where
  "push_summary G pid tableId ext =
     seq (doing (\<lambda>s. s\<lparr>ti_sum := next_version (ti_sum s)\<rparr>)) (\<lambda>_.
     seq (reading (\<lambda>s. buildSummary tableId (ti_sum s) ext)) (\<lambda>sec.
     push_section G pid sec))"

section \<open>Who reads the section\<close>

definition LISR :: int where "LISR = 0x800041B4"
definition SECTASK :: int where "SECTASK = 0x80004520"

definition section_hits :: "('w, 'z) page_api_scheme \<Rightarrow> ('w, int \<times> int) act" where
  "section_hits G = (\<lambda>w.
     let r = pcHits G w [LISR, SECTASK] in
     case (map_of r (h8 LISR), map_of r (h8 SECTASK)) of
       (Some a, Some b) \<Rightarrow> give (a, b) w
     | _ \<Rightarrow> throw (''__pcHits did not return the keys it was asked for -- a harness failure, not a zero'') w)"

definition WALKER :: "string list" where
  "WALKER = [''0x800AD5B4'', ''0x800AD5B6'', ''0x800AD5F2'', ''0x800AD5F4'']"

text \<open>The copies outside the \<open>ringlen\<close> bytes of the ring from where the section was put.\<close>

definition outside_ring :: "int \<Rightarrow> string \<Rightarrow> string list \<Rightarrow> string list" where
  "outside_ring ringlen put found =
     (let ring = addr_of put AND 0x1FFFFFF
      in filter (\<lambda>a. let q = addr_of a AND 0x1FFFFFF in \<not> (q \<ge> ring \<and> q < ring + ringlen)) found)"

definition choose_copy :: "string list \<Rightarrow> string" where
  "choose_copy found = (case filter (\<lambda>a. addr_of a \<ge> 0x80200000) found of a # _ \<Rightarrow> a | [] \<Rightarrow> hd found)"

text \<open>
  A reader with the share of the payload it read, in tenths of a percent: \<open>+(100 * n / PAYLOAD_LEN).toFixed(1)\<close>
  of an exact quotient, rounded up from the half.
\<close>

record coverage =
  cg_pc :: string
  cg_bytes :: int
  cg_tenths :: int

definition coverage_of :: "string \<times> int \<Rightarrow> coverage" where
  "coverage_of x = \<lparr>cg_pc = fst x, cg_bytes = snd x, cg_tenths = (2000 * snd x + PAYLOAD_LEN) div (2 * PAYLOAD_LEN)\<rparr>"

record analysis =
  an_payloadAt :: string
  an_readers :: "coverage list"
  an_bulkCopiers :: "coverage list"
  an_parserCandidates :: "coverage list"
  an_offsetsRead :: "int list"
  an_readOrder :: "string list"
  an_answer :: string

definition analyse :: "int \<Rightarrow> read_entry list \<Rightarrow> analysis" where
  "analyse payloadAt lg =
     (let pcs = map coverage_of (readers_of (cover payloadAt PAYLOAD_LEN lg));
          bulk = filter (\<lambda>c. cg_tenths c \<ge> 800) pcs;
          parsers = filter (\<lambda>c. cg_tenths c < 800 \<and> cg_pc c \<notin> set WALKER) pcs
      in \<lparr>an_payloadAt = h8 payloadAt, an_readers = take 14 pcs, an_bulkCopiers = bulk, an_parserCandidates = parsers,
          an_offsetsRead = offsets_read payloadAt PAYLOAD_LEN lg,
          an_readOrder = map (\<lambda>r. rd_pc r @ '' -> +'' @ dec_string (rd_at r - payloadAt))
            (take 60 (filter (\<lambda>r. 0 \<le> rd_at r - payloadAt \<and> rd_at r - payloadAt < PAYLOAD_LEN \<and> rd_pc r \<notin> set WALKER) lg)),
          an_answer =
            (if parsers \<noteq> [] then ''A PARSER READ THE PAYLOAD -- '' @ join_with '', '' (map cg_pc parsers)
             else if bulk \<noteq> [] then ''only bulk copiers touched it -- the parse is further on''
             else ''nothing read the payload'')\<rparr>)"

record title_pass =
  pa_pass :: string
  pa_pid :: string
  pa_extension :: string
  pa_signature :: bool
  pa_error :: "string option"
  pa_copiesFound :: "string list option"
  pa_watching :: "string option"
  pa_version :: "int option"
  pa_delivery :: "(int \<times> int) option"
  pa_watch :: "(int \<times> bool) option"
  pa_answer :: "string option"
  pa_analysis :: "analysis option"

definition start_pass :: "string \<Rightarrow> int \<Rightarrow> int \<Rightarrow> bool \<Rightarrow> title_pass" where
  "start_pass name pid ext sig = \<lparr>pa_pass = name, pa_pid = hx pid, pa_extension = hx ext, pa_signature = sig,
     pa_error = None, pa_copiesFound = None, pa_watching = None, pa_version = None, pa_delivery = None,
     pa_watch = None, pa_answer = None, pa_analysis = None\<rparr>"

text \<open>A push under the watch around \<open>mid\<close>; the watch is taken off on either way out.\<close>

definition under_watch ::
  "('w, 'z) titles_api_scheme \<Rightarrow> int \<Rightarrow> (('w, 'y) day_scheme, pushed_at) act \<Rightarrow> (('w, 'y) day_scheme, pushed_at \<times> read_log option) act" where
  "under_watch G mid push =
     seq (on_page (doing (t_watch G (to_u32 (mid - 0x2000)) (to_u32 (mid + 0x2000))))) (\<lambda>_.
     seq push (\<lambda>p1.
     if \<not> pr_ok p1
     then seq (on_page (doing (d_readUnwatch G))) (\<lambda>_. give (p1, None))
     else seq (pausing G 8000) (\<lambda>_.
          seq (reading (\<lambda>s. t_log G (dy_page s))) (\<lambda>lg.
          seq (on_page (doing (d_readUnwatch G))) (\<lambda>_.
          give (p1, Some lg))))))"

definition pass_watched :: "('w, 'z) titles_api_scheme \<Rightarrow> int \<Rightarrow> int \<Rightarrow> bool \<Rightarrow> title_pass \<Rightarrow> int \<Rightarrow> ('w titles, title_pass) act" where
  "pass_watched G pid ext sig r mid =
     seq (on_page (section_hits G)) (\<lambda>before.
     seq (under_watch G mid (push_titles G pid ext sig)) (\<lambda>(p1, got).
     case got of
       None \<Rightarrow> give (r\<lparr>pa_error := Some (''second push refused: '' @ pr_why p1)\<rparr>)
     | Some lg \<Rightarrow>
         seq (reading dy_a1) (\<lambda>v.
         seq (on_page (section_hits G)) (\<lambda>after.
         let r' = r\<lparr>pa_version := Some v, pa_delivery := Some (fst after - fst before, snd after - snd before),
                    pa_watch := Some (rl_reads lg, rl_capped lg)\<rparr> in
         seq (reading (\<lambda>s. t_find G (dy_page s) MARK (to_u32 (mid - 0x2000)) (to_u32 (mid + 0x2000)) 8)) (\<lambda>again.
         give (case again of
             [] \<Rightarrow> r'\<lparr>pa_error := Some ''the marker is not in the watched region afterwards -- unmappable, not zero''\<rparr>
           | a # _ \<Rightarrow> let an = analyse (addr_of a - 8) (rl_all lg)
                      in r'\<lparr>pa_answer := Some (an_answer an), pa_analysis := Some an\<rparr>))))))"

definition pass :: "('w, 'z) titles_api_scheme \<Rightarrow> string \<Rightarrow> int \<Rightarrow> int \<Rightarrow> bool \<Rightarrow> ('w titles, title_pass) act" where
  "pass G name pid ext sig =
     (let r = start_pass name pid ext sig in
      seq (reading (\<lambda>s. wants G 0xA1 (dy_page s))) (\<lambda>ok.
      if \<not> ok
      then give (r\<lparr>pa_error := Some ''the 0xA1 subscription has lapsed -- a zero here would be about timing''\<rparr>)
      else seq (push_titles G pid ext sig) (\<lambda>p0.
      if \<not> pr_ok p0 then give (r\<lparr>pa_error := Some (''push refused: '' @ pr_why p0)\<rparr>)
      else seq (pausing G 8000) (\<lambda>_.
      seq (reading (\<lambda>s. outside_ring 2048 (pu_at p0) (t_find G (dy_page s) MARK 0x80000000 0x82000000 24))) (\<lambda>found.
      if found = []
      then give (r\<lparr>pa_copiesFound := Some found,
             pa_answer := Some (''the section was delivered and NEVER COPIED OUT OF THE RING -- nothing took it, ''
                            @ ''which for 0xA1 is itself the finding'')\<rparr>)
      else pass_watched G pid ext sig
             (r\<lparr>pa_copiesFound := Some found, pa_watching := Some (choose_copy found)\<rparr>)
             (addr_of (choose_copy found)))))))"

section \<open>The summaries\<close>

record summary_pass =
  sm_pass :: string
  sm_pid :: string
  sm_tableId :: string
  sm_extension :: string
  sm_error :: "string option"
  sm_copiesFound :: "string list option"
  sm_watching :: "string option"
  sm_reads :: "int option"
  sm_answer :: "string option"
  sm_readers :: "(string \<times> int) list"
  sm_offsetsRead :: "int list"
  sm_reachedTheText :: bool
  sm_parsed :: bool

definition start_summary :: "string \<Rightarrow> int \<Rightarrow> int \<Rightarrow> int \<Rightarrow> summary_pass" where
  "start_summary name pid tableId ext = \<lparr>sm_pass = name, sm_pid = hx pid, sm_tableId = hx tableId, sm_extension = hx ext,
     sm_error = None, sm_copiesFound = None, sm_watching = None, sm_reads = None, sm_answer = None, sm_readers = [],
     sm_offsetsRead = [], sm_reachedTheText = False, sm_parsed = False\<rparr>"

definition summary_read :: "summary_pass \<Rightarrow> int \<Rightarrow> read_entry list \<Rightarrow> summary_pass" where
  "summary_read r start lg =
     (let len = int (length SUMMARIES);
          readers = take 10 (readers_of (cover start len lg));
          offs = offsets_read start len lg
      in r\<lparr>sm_readers := readers, sm_offsetsRead := offs,
           sm_reachedTheText := list_ex (\<lambda>x. x \<ge> 6 \<and> x < 40) offs, sm_parsed := (readers \<noteq> []),
           sm_answer := Some (if readers \<noteq> [] then ''READ BY '' @ join_with '', '' (map fst readers) else ''nothing read it'')\<rparr>)"

definition summary_watched :: "('w, 'z) titles_api_scheme \<Rightarrow> int \<Rightarrow> int \<Rightarrow> int \<Rightarrow> summary_pass \<Rightarrow> int \<Rightarrow> ('w titles, summary_pass) act" where
  "summary_watched G pid tableId ext r mid =
     seq (under_watch G mid (push_summary G pid tableId ext)) (\<lambda>(p1, got).
     case got of
       None \<Rightarrow> give (r\<lparr>sm_error := Some ''second push refused''\<rparr>)
     | Some lg \<Rightarrow>
         seq (reading (\<lambda>s. t_find G (dy_page s) SMARK (to_u32 (mid - 0x2000)) (to_u32 (mid + 0x2000)) 8)) (\<lambda>again.
         give (case again of
             [] \<Rightarrow> r\<lparr>sm_reads := Some (rl_reads lg), sm_error := Some ''the marker is not in the watched region afterwards''\<rparr>
           | a # _ \<Rightarrow> summary_read (r\<lparr>sm_reads := Some (rl_reads lg)\<rparr>) (addr_of a - 6) (rl_all lg))))"

definition summaryPass :: "('w, 'z) titles_api_scheme \<Rightarrow> string \<Rightarrow> int \<Rightarrow> int \<Rightarrow> int \<Rightarrow> ('w titles, summary_pass) act" where
  "summaryPass G name pid tableId ext =
     (let r = start_summary name pid tableId ext in
      seq (push_summary G pid tableId ext) (\<lambda>p0.
      if \<not> pr_ok p0 then give (r\<lparr>sm_error := Some (''push refused: '' @ pr_why p0)\<rparr>)
      else seq (pausing G 8000) (\<lambda>_.
      seq (reading (\<lambda>s. outside_ring 2048 (pu_at p0) (t_find G (dy_page s) SMARK 0x80000000 0x82000000 24))) (\<lambda>found.
      if found = []
      then give (r\<lparr>sm_copiesFound := Some found, sm_answer := Some ''delivered and never copied out of the ring''\<rparr>)
      else summary_watched G pid tableId ext
             (r\<lparr>sm_copiesFound := Some found, sm_watching := Some (choose_copy found)\<rparr>)
             (addr_of (choose_copy found))))))"

text \<open>For each extension both PIDs are tried; the loop ends as soon as a pass was read.\<close>

fun summary_loop :: "('w, 'z) titles_api_scheme \<Rightarrow> int list \<Rightarrow> summary_pass list \<Rightarrow> ('w titles, summary_pass list) act" where
  "summary_loop G [] sofar = give sofar"
| "summary_loop G (e # es) sofar =
     seq (summaryPass G (''0xA8 on PID 0x33, ext '' @ hx e) 0x33 0xA8 e) (\<lambda>a.
     seq (summaryPass G (''0xA8 on PID 0x52, ext '' @ hx e) 0x52 0xA8 e) (\<lambda>b.
     let ps = sofar @ [a, b] in
     if list_ex sm_parsed ps then give ps else summary_loop G es ps))"

section \<open>The run\<close>

definition TITLES_TRACE :: "trace_point list" where
  "TITLES_TRACE = [
    \<lparr>tp_pc = 0x80082A6C, tp_name = ''newWidget'', tp_args = 1\<rparr>,
    \<lparr>tp_pc = 0x80082604, tp_name = ''apply'', tp_args = 1\<rparr>]"

record title_press =
  tk_key :: string
  tk_widgets :: int
  tk_applies :: int
  tk_moved :: bool
  tk_surface :: surf

definition titles_press_page :: "('w, 'z) titles_api_scheme \<Rightarrow> int \<Rightarrow> string \<Rightarrow> ('w, title_press) act" where
  "titles_press_page G raw label =
     seq (doing (d_traceCalls G TITLES_TRACE)) (\<lambda>_.
     seq (doing (d_traceClear G)) (\<lambda>_.
     seq (surface G) (\<lambda>s0.
     seq (press_key G raw 0) (\<lambda>_.
     seq (sleep G 11000) (\<lambda>_.
     seq (reading (d_traceLog G)) (\<lambda>lg.
     seq (doing (d_traceCalls G [])) (\<lambda>_.
     seq (surface G) (\<lambda>s1.
     give \<lparr>tk_key = label, tk_widgets = times_of ''newWidget'' lg, tk_applies = times_of ''apply'' lg,
       tk_moved = (su_hash s1 \<noteq> su_hash s0), tk_surface = s1\<rparr>))))))))"

definition titles_press :: "('w, 'z) titles_api_scheme \<Rightarrow> int \<Rightarrow> string \<Rightarrow> ('w titles, title_press) act" where
  "titles_press G raw label =
     seq (reading dy_last) (\<lambda>was.
     seq (require (was \<noteq> Some raw) (''HARNESS: '' @ label @ '' repeats a key; a box already on that screen rebuilds nothing'')) (\<lambda>_.
     seq (doing (\<lambda>s. s\<lparr>dy_last := Some raw\<rparr>)) (\<lambda>_.
     on_page (titles_press_page G raw label))))"

definition titles_settle :: "('w, 'z) titles_api_scheme \<Rightarrow> ('w titles, int) act" where
  "titles_settle G =
     seq (await_ready G 180 0) (\<lambda>waited.
     seq (reading (\<lambda>s. settled G (dy_page s))) (\<lambda>ok.
     seq (require ok (''the box never settled in '' @ dec_string waited @ ''s'')) (\<lambda>_.
     seq (reading (\<lambda>s. g_tasks G (dy_page s))) (\<lambda>n.
     seq (require (n \<ge> 42) (''not booted: '' @ dec_string n @ '' tasks'')) (\<lambda>_.
     seq (on_page (doing (g_profile G))) (\<lambda>_.
     give waited))))))"

definition titles_ladder :: "('w, 'z) titles_api_scheme \<Rightarrow> (('w, 'y) day_scheme, unit) act" where
  "titles_ladder G =
     seq (reading (\<lambda>s. wants G 0x4A (dy_page s))) (\<lambda>ok.
     if ok then give ()
     else seq (on_page (\<lambda>w. let (r, w') = d_NIT G None w in (Inr r, w'))) (\<lambda>n0.
          seq (require (pr_ok n0) (''the ladder-opening NIT was refused: '' @ pr_why n0)) (\<lambda>_.
          await_wants G 10 0x4A)))"

definition titles_round :: "('w, 'z) titles_api_scheme \<Rightarrow> nat \<Rightarrow> (('w, 'y) day_scheme, unit) act" where
  "titles_round G k =
     seq (on_page (doing (\<lambda>w. snd (d_NIT G (Some (int k + 1)) w)))) (\<lambda>_.
     seq (on_page (doing (\<lambda>w. snd (d_SDT G (Some (int k + 1)) w)))) (\<lambda>_.
     seq (push_bat G) (\<lambda>br.
     seq (require (pr_ok br) (''the BAT was refused: '' @ pr_why br)) (\<lambda>_.
     pausing G 7000))))"

record titles_lineup =
  tl_settledAfterSeconds :: int
  tl_before :: subscriptions
  tl_afterLineup :: subscriptions
  tl_a1Match :: "si_match list"
  tl_newFilters :: "string list"

definition titles_setup :: "('w, 'z) titles_api_scheme \<Rightarrow> ('w titles, titles_lineup) act" where
  "titles_setup G =
     seq (titles_settle G) (\<lambda>waited.
     seq (subscribed G) (\<lambda>before.
     seq (titles_ladder G) (\<lambda>_.
     seq (each (titles_round G) [0, 1, 2]) (\<lambda>_.
     seq (subscribed G) (\<lambda>after.
     seq (reading (\<lambda>s. (wants G 0xA1 (dy_page s), tablesWanted G (dy_page s)))) (\<lambda>(ok, ts).
     seq (require ok
       (''the box did not subscribe to table 0xA1 after the line-up -- feed-a-lineup.js ''
        @ ''measured that it does, so this run is of a different state and nothing below ''
        @ ''would be attributable. Tables: '' @ ts)) (\<lambda>_.
     seq (reading (\<lambda>s. filter (\<lambda>x. mt_tableId x = Some 0xA1) (d_matches G (dy_page s)))) (\<lambda>a1.
     let pids = filter (\<lambda>p. p \<notin> set (sb_filters before)) (sb_filters after) in
     seq (require (pids \<noteq> [])
       (''no new armed filter appeared for 0xA1 -- there is nowhere attributable to push, ''
        @ ''and pushing to an old filter would be a reading about that filter'')) (\<lambda>_.
     seq (require (titles_payload True ! 3 AND 0x70 = 0)
       (''payload[3] & 0x70 is not zero, so the match unit will refuse every section and ''
        @ ''every silence below would be about the filter rather than the format'')) (\<lambda>_.
     give \<lparr>tl_settledAfterSeconds = waited, tl_before = before, tl_afterLineup = after, tl_a1Match = a1,
            tl_newFilters = pids\<rparr>))))))))))"

definition pid_of :: "string \<Rightarrow> int" where
  "pid_of s = (case parse_int 16 s of None \<Rightarrow> 0 | Some v \<Rightarrow> v)"

definition parsed_payload :: "title_pass \<Rightarrow> bool" where
  "parsed_payload r = (case pa_analysis r of None \<Rightarrow> False | Some an \<Rightarrow> an_parserCandidates an \<noteq> [])"

record titles_passes =
  tq_byPid :: "title_pass list"
  tq_responder :: "title_pass option"
  tq_controlSignature :: "title_pass option"
  tq_controlExtension :: "title_pass option"
  tq_tables :: string

definition titles_passes :: "('w, 'z) titles_api_scheme \<Rightarrow> string list \<Rightarrow> ('w titles, titles_passes) act" where
  "titles_passes G pids =
     seq (each (\<lambda>p. pass G (''PID '' @ p @ '', ext 0xBBB, payload signed 9E 8B'') (pid_of p) 0x0BBB True) pids) (\<lambda>rs.
     let responder = find parsed_payload rs in
     seq (case responder of
            None \<Rightarrow> give (None, None)
          | Some r \<Rightarrow>
              let rp = pid_of (pa_pid r) in
              seq (pass G ''control: same PID and extension, payload NOT signed'' rp 0x0BBB False) (\<lambda>c1.
              seq (pass G ''control: same PID, signed, extension 0xBAD outside the mask'' rp 0x0BAD True) (\<lambda>c2.
              give (Some c1, Some c2)))) (\<lambda>(c1, c2).
     seq (reading (\<lambda>s. tablesWanted G (dy_page s))) (\<lambda>ts.
     give \<lparr>tq_byPid = rs, tq_responder = responder, tq_controlSignature = c1, tq_controlExtension = c2, tq_tables = ts\<rparr>)))"

definition feed_titles :: "('w, 'z) titles_api_scheme \<Rightarrow> int list \<Rightarrow> ('w titles, bool list) act" where
  "feed_titles G exts =
     seq (each (\<lambda>_. each (\<lambda>e. seq (push_titles G 0x33 e True) (\<lambda>p.
            seq (pausing G 1200) (\<lambda>_. give (pr_ok p)))) exts) [0 ..< 5 :: nat]) (\<lambda>rs.
     give (concat rs))"

record titles_report =
  tr_lineup :: titles_lineup
  tr_passes :: titles_passes
  tr_rebuildSeconds :: int
  tr_beforeSky :: title_press
  tr_beforeGuide :: title_press
  tr_extensionsFed :: "string list"
  tr_sectionsPushed :: int
  tr_sectionsRefused :: int
  tr_summaries :: "summary_pass list"
  tr_summaryParsed :: bool
  tr_afterSky :: title_press
  tr_afterGuide :: title_press
  tr_guideChanged :: bool

definition titles_run :: "('w, 'z) titles_api_scheme \<Rightarrow> ('w titles, titles_report) act" where
  "titles_run G =
     seq (titles_setup G) (\<lambda>li.
     seq (titles_passes G (tl_newFilters li)) (\<lambda>ps.
     seq (await_quiet G 90) (\<lambda>secs.
     seq (titles_press G 0x7D ''sky, before the listings'') (\<lambda>k0.
     seq (titles_press G 0x80 ''tv guide, before the listings'') (\<lambda>k1.
     seq (on_page (doing (g_shot G ''guide-before-listings''))) (\<lambda>_.
     seq (require (tk_widgets k1 \<noteq> 0)
       (''the BASELINE guide press built no widgets, so the box was not drawing before the ''
        @ ''listings were fed and any later change would be the box recovering rather than ''
        @ ''the listings arriving -- which is exactly what the previous run measured'')) (\<lambda>_.
     let exts = extensions_of (hd (tl_a1Match li)) in
     seq (feed_titles G exts) (\<lambda>bs.
     seq (pausing G 12000) (\<lambda>_.
     seq (summary_loop G exts []) (\<lambda>smps.
     seq (pausing G 10000) (\<lambda>_.
     seq (titles_press G 0x7D ''sky, after the listings'') (\<lambda>k2.
     seq (titles_press G 0x80 ''tv guide, after the listings'') (\<lambda>k3.
     seq (on_page (doing (g_shot G ''guide-after-listings''))) (\<lambda>_.
     give \<lparr>tr_lineup = li, tr_passes = ps, tr_rebuildSeconds = secs, tr_beforeSky = k0, tr_beforeGuide = k1,
       tr_extensionsFed = map hx exts, tr_sectionsPushed = int (length (filter (\<lambda>b. b) bs)),
       tr_sectionsRefused = int (length (filter Not bs)), tr_summaries = smps,
       tr_summaryParsed = list_ex sm_parsed smps, tr_afterSky = k2, tr_afterGuide = k3,
       tr_guideChanged = (su_hash (tk_surface k3) \<noteq> su_hash (tk_surface k1))\<rparr>))))))))))))))"

end
