(* ===== verification/Probe_Loop.thy ===== *)
theory Probe_Loop
  imports Probe_Titles
begin

text \<open>
  The probes that put a loop of descriptors into a title section and watch who reads which of them:
  \<open>tools/probes/which-tag-the-listings-loop-wants.js\<close>, the sweep over all tags, and
  \<open>tools/probes/does-0xbc-carry-the-programmes.js\<close>.  The percentages of the readers, which decide nothing,
  and prose that only labels the report are left out.
\<close>

section \<open>The loop\<close>

record descriptor =
  de_off :: int
  de_len :: int
  de_tag :: int

definition BODY_LEN :: int where "BODY_LEN = 4"

definition LOOP_HEAD :: "int list" where
  "LOOP_HEAD = [0x9E, 0x8B, 0x42, 0x0B, 0x44, 0x45]"

definition loop_descriptor :: "int \<Rightarrow> int list" where
  "loop_descriptor t = [t, BODY_LEN, t, 0xA5, t, 0x5A]"

definition buildLoop :: "int list \<Rightarrow> int list \<times> descriptor list" where
  "buildLoop tags = foldl (\<lambda>(descs, layout) t.
     (descs @ loop_descriptor t, layout @ [\<lparr>de_off = int (length descs), de_len = BODY_LEN + 2, de_tag = t\<rparr>])) ([], []) tags"

definition loop_payload :: "bool \<Rightarrow> int list \<Rightarrow> int list" where
  "loop_payload sig descs = (if sig then LOOP_HEAD else LOOP_HEAD[0 := 0x40, 1 := 0x41]) @ descs"

definition loop_section :: "bool \<Rightarrow> int \<Rightarrow> int \<Rightarrow> int list \<Rightarrow> int list" where
  "loop_section sig version ext descs =
     (let p = loop_payload sig descs; len = 5 + int (length p) + 4
      in with_crc (long_header 0xA1 len ext version @ p))"

definition push_loop ::
  "('w, 'z) titles_api_scheme \<Rightarrow> int list \<Rightarrow> int \<Rightarrow> bool \<Rightarrow> (('w, 'y) day_scheme, pushed_at) act" where
  "push_loop G descs ext sig =
     (let len = 5 + int (length (loop_payload sig descs)) + 4 in
      seq (doing (\<lambda>s. s\<lparr>dy_a1 := next_version (dy_a1 s)\<rparr>)) (\<lambda>_.
      seq (require (len \<le> 4093) (''section too long ('' @ dec_string len @ '') -- split the pass'')) (\<lambda>_.
      seq (reading (\<lambda>s. loop_section sig (dy_a1 s) ext descs)) (\<lambda>sec.
      push_section G 0x33 sec))))"

section \<open>Who read which descriptor\<close>

text \<open>The reads of a descriptor's tag, length and body bytes.\<close>

record touches =
  tc_tag :: int
  tc_len :: int
  tc_body :: int

definition LOOP_WALKER :: "string list" where
  "LOOP_WALKER = [''0x800C64F2'', ''0x800C64FA'', ''0x800C651E'',
     ''0x800C64F0'', ''0x800C64F4'', ''0x800C64FC'', ''0x800C651C'', ''0x800C6520'']"

definition touch :: "descriptor \<Rightarrow> int \<Rightarrow> touches \<Rightarrow> touches" where
  "touch d x c =
     (if x = de_off d then c\<lparr>tc_tag := tc_tag c + 1\<rparr>
      else if x = de_off d + 1 then c\<lparr>tc_len := tc_len c + 1\<rparr> else c\<lparr>tc_body := tc_body c + 1\<rparr>)"

definition no_touch :: touches where
  "no_touch = \<lparr>tc_tag = 0, tc_len = 0, tc_body = 0\<rparr>"

text \<open>The table starts with an entry for every tag of the layout; \<open>place\<close> finds the descriptor of an offset.\<close>

definition touch_table :: "descriptor list \<Rightarrow> (int \<times> touches) list" where
  "touch_table layout = foldl (\<lambda>tb d. AList.update (de_tag d) no_touch tb) [] layout"

definition attribute :: "(int \<Rightarrow> descriptor option) \<Rightarrow> (int \<times> touches) list \<Rightarrow> int \<Rightarrow> (int \<times> touches) list" where
  "attribute place tb x =
     (case place x of None \<Rightarrow> tb
      | Some d \<Rightarrow> AList.map_entry (de_tag d) (touch d x) tb)"

definition attribute_reads ::
  "(int \<Rightarrow> descriptor option) \<Rightarrow> int \<Rightarrow> int \<Rightarrow> read_entry list \<Rightarrow> (int \<times> touches) list \<Rightarrow> (int \<times> touches) list" where
  "attribute_reads place start len lg tb = foldl (\<lambda>tb r. foldl (attribute place) tb (touched start len r)) tb lg"

text \<open>All descriptors of the sweep have six bytes, so the place is a division.\<close>

definition sixth :: "descriptor list \<Rightarrow> int \<Rightarrow> descriptor option" where
  "sixth layout x = (let i = x div (BODY_LEN + 2) in if 0 \<le> i \<and> i < int (length layout) then Some (layout ! nat i) else None)"

definition inside_of :: "descriptor list \<Rightarrow> int \<Rightarrow> descriptor option" where
  "inside_of layout x = find (\<lambda>d. \<not> (x < de_off d \<or> x \<ge> de_off d + de_len d)) layout"

text \<open>The tags with a count, in the order in which an object lists them: ascending for \<open>pass\<close>, whose keys are numbers.\<close>

definition counted_tags :: "(touches \<Rightarrow> int) \<Rightarrow> (int \<times> touches) list \<Rightarrow> int list" where
  "counted_tags f tb = map fst (filter (\<lambda>e. f (snd e) > 0) tb)"

record loop_walk =
  lw_descriptorLoopAt :: string
  lw_readers :: "(string \<times> int) list"
  lw_nonWalkerReaders :: "(string \<times> int) list"
  lw_tagsWalked :: "string list"
  lw_tagsWithBodyRead :: "string list"
  lw_lastDescriptorWalked :: bool
  lw_bcBodyOffsetsRead :: "int list option"

text \<open>\<open>byTag[mark.tag].tag > 0\<close>.\<close>

definition tag_walked :: "(int \<times> touches) list \<Rightarrow> int \<Rightarrow> bool" where
  "tag_walked tb t = (case map_of tb t of None \<Rightarrow> False | Some c \<Rightarrow> tc_tag c > 0)"

definition loop_readers :: "int \<Rightarrow> int \<Rightarrow> read_entry list \<Rightarrow> (string \<times> int) list" where
  "loop_readers start len lg = take 14 (readers_of (cover start len lg))"

definition sweep_walk :: "int list \<Rightarrow> int \<Rightarrow> read_entry list \<Rightarrow> loop_walk" where
  "sweep_walk tags start lg =
     (let (descs, layout) = buildLoop tags; len = int (length descs);
          tb = sort_key fst (attribute_reads (sixth layout) start len lg (touch_table layout));
          readers = loop_readers start len lg
      in \<lparr>lw_descriptorLoopAt = h8 start, lw_readers = readers,
          lw_nonWalkerReaders = filter (\<lambda>x. fst x \<notin> set LOOP_WALKER) readers,
          lw_tagsWalked = map hx (counted_tags tc_tag tb), lw_tagsWithBodyRead = map hx (counted_tags tc_body tb),
          lw_lastDescriptorWalked = tag_walked tb (last tags), lw_bcBodyOffsetsRead = None\<rparr>)"

text \<open>The body bytes of the descriptor 0xBC that were read by anybody but the walker.\<close>

definition bc_offsets :: "descriptor list \<Rightarrow> int \<Rightarrow> int \<Rightarrow> read_entry list \<Rightarrow> int list option" where
  "bc_offsets layout start len lg =
     (if list_ex (\<lambda>d. de_tag d = 0xBC) layout
      then Some (sort (remdups (concat (map (\<lambda>r.
        if rd_pc r \<in> set LOOP_WALKER then []
        else concat (map (\<lambda>x. case inside_of layout x of None \<Rightarrow> []
               | Some d \<Rightarrow> if de_tag d = 0xBC \<and> x \<ge> de_off d + 2 then [x - de_off d - 2] else []) (touched start len r))) lg))))
      else None)"

definition bc_walk :: "int list \<Rightarrow> descriptor list \<Rightarrow> int \<Rightarrow> read_entry list \<Rightarrow> loop_walk" where
  "bc_walk descs layout start lg =
     (let len = int (length descs);
          tb = attribute_reads (inside_of layout) start len lg (touch_table layout);
          readers = loop_readers start len lg
      in \<lparr>lw_descriptorLoopAt = h8 start, lw_readers = readers,
          lw_nonWalkerReaders = filter (\<lambda>x. fst x \<notin> set LOOP_WALKER) readers,
          lw_tagsWalked = map hx (counted_tags tc_tag tb), lw_tagsWithBodyRead = map hx (counted_tags tc_body tb),
          lw_lastDescriptorWalked = tag_walked tb (de_tag (last layout)),
          lw_bcBodyOffsetsRead = bc_offsets layout start len lg\<rparr>)"

section \<open>A pass\<close>

record loop_pass =
  lo_pass :: string
  lo_extension :: string
  lo_signed :: bool
  lo_loopBytes :: int
  lo_error :: "string option"
  lo_copiesFound :: "string list option"
  lo_watching :: "string option"
  lo_version :: "int option"
  lo_delivery :: "(int \<times> int) option"
  lo_watch :: "(int \<times> bool) option"
  lo_coverage :: "string option"
  lo_answer :: "string option"
  lo_walk :: "loop_walk option"

definition start_loop :: "string \<Rightarrow> int list \<Rightarrow> int \<Rightarrow> bool \<Rightarrow> loop_pass" where
  "start_loop name descs ext sig = \<lparr>lo_pass = name, lo_extension = hx ext, lo_signed = sig, lo_loopBytes = int (length descs),
     lo_error = None, lo_copiesFound = None, lo_watching = None, lo_version = None, lo_delivery = None, lo_watch = None,
     lo_coverage = None, lo_answer = None, lo_walk = None\<rparr>"

text \<open>
  What both probes do with a loop: push it, find a copy outside the ring, push it again under the watch, and
  find the copy again.  \<open>lost\<close> and \<open>kept\<close> complete the report when there is no copy and when there is a log.
\<close>

definition find_copy ::
  "('w, 'z) titles_api_scheme \<Rightarrow> int list \<Rightarrow> int \<Rightarrow> bool \<Rightarrow> int list \<Rightarrow> loop_pass
    \<Rightarrow> (('w, 'y) day_scheme, loop_pass \<times> int option) act" where
  "find_copy G descs ext sig pattern r =
     seq (reading (\<lambda>s. wants G 0xA1 (dy_page s))) (\<lambda>ok.
     if \<not> ok then give (r\<lparr>lo_error := Some ''the 0xA1 subscription lapsed -- a zero here would be about timing''\<rparr>, None)
     else seq (push_loop G descs ext sig) (\<lambda>p0.
     if \<not> pr_ok p0 then give (r\<lparr>lo_error := Some (''push refused: '' @ pr_why p0)\<rparr>, None)
     else seq (pausing G 8000) (\<lambda>_.
     seq (reading (\<lambda>s. outside_ring 4096 (pu_at p0) (t_find G (dy_page s) pattern 0x80000000 0x82000000 24))) (\<lambda>found.
     if found = [] then give (r\<lparr>lo_copiesFound := Some found\<rparr>, None)
     else give (r\<lparr>lo_copiesFound := Some found, lo_watching := Some (choose_copy found)\<rparr>, Some (addr_of (choose_copy found)))))))"

definition mark_again :: "('w, 'z) titles_api_scheme \<Rightarrow> int list \<Rightarrow> int \<Rightarrow> 'w \<Rightarrow> string list" where
  "mark_again G pattern mid w = t_find G w pattern (to_u32 (mid - 0x2000)) (to_u32 (mid + 0x2000)) 8"

definition sweep_coverage :: "int list \<Rightarrow> int \<Rightarrow> bool \<Rightarrow> loop_walk \<Rightarrow> string" where
  "sweep_coverage tags ext sig wk =
     (if \<not> lw_lastDescriptorWalked wk \<and> sig \<and> ext = 0x0BBB
      then ''HARNESS FAILURE: the walk never reached the LAST descriptor of this pass (''
        @ hx (last tags) @ ''), so a negative here is '' @ [CHR 0x22] @ ''I could not check'' @ [CHR 0x22]
        @ '', not '' @ [CHR 0x22] @ ''nothing is consumed'' @ [CHR 0x22] @ ''. Walked ''
        @ dec_string (int (length (lw_tagsWalked wk))) @ ''/'' @ dec_string (int (length tags))
        @ ''. Split the pass or shorten the loop.''
      else if sig \<and> ext = 0x0BBB then ''ok: the walk reached the last descriptor'' else ''n/a (negative control)'')"

definition sweep_answer :: "loop_walk \<Rightarrow> string" where
  "sweep_answer wk =
     (if lw_nonWalkerReaders wk \<noteq> []
      then ''A CALLBACK FIRED -- '' @ join_with '', '' (map fst (lw_nonWalkerReaders wk))
        @ '' read inside the loop without being the iterator''
      else ''only the iterator touched the loop'')"

definition sweep_watched ::
  "('w, 'z) titles_api_scheme \<Rightarrow> int list \<Rightarrow> int \<Rightarrow> bool \<Rightarrow> loop_pass \<Rightarrow> int \<Rightarrow> (('w, 'y) day_scheme, loop_pass) act" where
  "sweep_watched G tags ext sig r mid =
     (let (descs, layout) = buildLoop tags; pattern = loop_descriptor (last tags) in
      seq (on_page (section_hits G)) (\<lambda>before.
      seq (under_watch G mid (push_loop G descs ext sig)) (\<lambda>(p1, got).
      case got of
        None \<Rightarrow> give (r\<lparr>lo_error := Some (''second push refused: '' @ pr_why p1)\<rparr>)
      | Some lg \<Rightarrow>
          seq (reading dy_a1) (\<lambda>v.
          seq (on_page (section_hits G)) (\<lambda>after.
          let r' = r\<lparr>lo_version := Some v, lo_delivery := Some (fst after - fst before, snd after - snd before),
                     lo_watch := Some (rl_reads lg, rl_capped lg)\<rparr> in
          seq (reading (\<lambda>s. mark_again G pattern mid (dy_page s))) (\<lambda>again.
          give (case again of
              [] \<Rightarrow> r'\<lparr>lo_error := Some ''the marker is not in the watched region afterwards -- unmappable, not zero''\<rparr>
            | a # _ \<Rightarrow> let wk = sweep_walk tags (addr_of a - de_off (last layout)) (rl_all lg)
                       in r'\<lparr>lo_walk := Some wk, lo_coverage := Some (sweep_coverage tags ext sig wk),
                             lo_answer := Some (sweep_answer wk)\<rparr>)))))))"

definition sweep_pass ::
  "('w, 'z) titles_api_scheme \<Rightarrow> string \<Rightarrow> int list \<Rightarrow> int \<Rightarrow> bool \<Rightarrow> (('w, 'y) day_scheme, loop_pass) act" where
  "sweep_pass G name tags ext sig =
     (let descs = fst (buildLoop tags) in
      seq (find_copy G descs ext sig (loop_descriptor (last tags)) (start_loop name descs ext sig)) (\<lambda>(r, chosen).
      case chosen of
        None \<Rightarrow> give (if lo_error r = None
          then r\<lparr>lo_answer := Some ''DELIVERED AND NEVER COPIED OUT OF THE RING -- nothing took it'',
                 lo_coverage := Some ''unknown: there was no copy to watch''\<rparr> else r)
      | Some mid \<Rightarrow> sweep_watched G tags ext sig r mid))"

section \<open>Getting the box to ask\<close>

record loop_lineup =
  ll_settledAfterSeconds :: int
  ll_before :: subscriptions
  ll_afterLineup :: subscriptions
  ll_a1Match :: "si_match list"

definition loop_settle :: "('w, 'z) titles_api_scheme \<Rightarrow> (('w, 'y) day_scheme, int) act" where
  "loop_settle G =
     seq (await_ready G 300 0) (\<lambda>waited.
     seq (reading (\<lambda>s. settled G (dy_page s))) (\<lambda>ok.
     seq (require ok (''the box never settled in '' @ dec_string waited @ ''s'')) (\<lambda>_.
     seq (reading (\<lambda>s. g_tasks G (dy_page s))) (\<lambda>n.
     seq (require (n \<ge> 42) (''not booted: '' @ dec_string n @ '' tasks'')) (\<lambda>_.
     seq (on_page (doing (g_profile G))) (\<lambda>_.
     give waited))))))"

definition loop_setup :: "('w, 'z) titles_api_scheme \<Rightarrow> (('w, 'y) day_scheme, loop_lineup) act" where
  "loop_setup G =
     seq (loop_settle G) (\<lambda>waited.
     seq (subscribed G) (\<lambda>before.
     seq (titles_ladder G) (\<lambda>_.
     seq (each (titles_round G) [0, 1, 2]) (\<lambda>_.
     seq (subscribed G) (\<lambda>after.
     seq (reading (\<lambda>s. (wants G 0xA1 (dy_page s), tablesWanted G (dy_page s)))) (\<lambda>(ok, ts).
     seq (require ok
       (''the box did not subscribe to 0xA1 after the line-up -- this run is of a ''
        @ ''different state and nothing below would be attributable. Tables: '' @ ts)) (\<lambda>_.
     seq (reading (\<lambda>s. filter (\<lambda>x. mt_tableId x = Some 0xA1) (d_matches G (dy_page s)))) (\<lambda>a1.
     seq (reading (\<lambda>s. list_ex (\<lambda>f. parse_int 16 (sf_pid f) = Some 0x33) (armed G (dy_page s)))) (\<lambda>open33.
     seq (require open33 ''no armed filter on PID 0x33 -- pushing there would be a reading about nothing'') (\<lambda>_.
     give \<lparr>ll_settledAfterSeconds = waited, ll_before = before, ll_afterLineup = after, ll_a1Match = a1\<rparr>))))))))))"

section \<open>The sweep over all tags\<close>

definition consumed :: "loop_pass \<Rightarrow> bool" where
  "consumed p = (case lo_walk p of None \<Rightarrow> False | Some w \<Rightarrow> lw_nonWalkerReaders w \<noteq> [])"

definition reached_last :: "loop_pass \<Rightarrow> bool" where
  "reached_last p = (case lo_walk p of None \<Rightarrow> False | Some w \<Rightarrow> lw_lastDescriptorWalked w)"

definition walked_some :: "loop_pass \<Rightarrow> bool" where
  "walked_some p = (case lo_walk p of None \<Rightarrow> False | Some w \<Rightarrow> lw_tagsWalked w \<noteq> [])"

definition coverage_failed :: "loop_pass \<Rightarrow> bool" where
  "coverage_failed p = (case lo_coverage p of None \<Rightarrow> False | Some c \<Rightarrow> occurs ''HARNESS FAILURE'' c)"

text \<open>The fifth pass, \<open>out.passes[4]\<close>; there is none in the run that closes the sweep.\<close>

definition tag_zero :: "loop_pass list \<Rightarrow> string" where
  "tag_zero ps =
     (case (if 4 < length ps then lo_walk (ps ! 4) else None) of
        None \<Rightarrow> ''unknown -- pass E did not produce a walk''
      | Some w \<Rightarrow> if ''0x11'' \<notin> set (lw_tagsWalked w) then ''YES -- 0x11 behind it was never walked''
                  else ''no -- 0x11 and beyond were walked'')"

definition SWEEP_CLEAN :: string where
  "SWEEP_CLEAN = ''no tag in 0x00..0xFF made a non-iterator PC read a descriptor body, and every pass reached ''
     @ ''its last descriptor -- so the listings are NOT selected by tag in this loop, and the next ''
     @ ''subject is what else FUN_800c64cc is called with''"

definition sweep_headline :: "loop_pass list \<Rightarrow> string" where
  "sweep_headline ps =
     (let consumers = filter consumed ps; failures = filter coverage_failed ps
      in if consumers \<noteq> []
         then ''a callback fired in: '' @ join_with '', '' (map lo_pass consumers) @ '' -- narrow within those passes next''
         else if failures \<noteq> []
         then ''NO CALLBACK, BUT '' @ dec_string (int (length failures)) @ '' pass(es) did not reach their last ''
           @ ''descriptor, so this is not a clean negative''
         else SWEEP_CLEAN)"

record sweep_report =
  sw_passes :: "loop_pass list"
  sw_consumedIn :: "string list"
  sw_coverageFailures :: "string list"
  sw_controlUnsigned :: "loop_pass option"
  sw_controlExtension :: "loop_pass option"
  sw_controlsHeld :: bool
  sw_tagZeroIsATerminator :: string
  sw_tablesAtEnd :: string
  sw_tasksAtEnd :: int
  sw_headline :: string

definition SWEEP :: "(string \<times> int list) list" where
  "SWEEP = [(''A: 0x01..0x40'', [0x01..0x40]), (''B: 0x41..0x80'', [0x41..0x80]), (''C: 0x81..0xC0'', [0x81..0xC0]),
     (''D: 0xC1..0xFF'', [0xC1..0xFF]),
     (''E: tag 0x00, with 0x11 and 0x22 behind it to prove it is not a terminator'', [0x00, 0x11, 0x22])]"

definition sweep_controls ::
  "('w, 'z) titles_api_scheme \<Rightarrow> loop_pass list \<Rightarrow> (('w, 'y) day_scheme, (loop_pass \<times> loop_pass) option) act" where
  "sweep_controls G ps =
     (if list_ex reached_last ps
      then seq (sweep_pass G ''control: the same loop, payload NOT signed (must go silent)'' [0x41..0x80] 0x0BBB False) (\<lambda>c1.
           seq (sweep_pass G ''control: signed, extension 0xBAD outside the unit mask (must go silent)'' [0x41..0x80] 0x0BAD True) (\<lambda>c2.
           give (Some (c1, c2))))
      else give None)"

definition sweep_over ::
  "('w, 'z) titles_api_scheme \<Rightarrow> (string \<times> int list) list \<Rightarrow> (('w, 'y) day_scheme, sweep_report) act" where
  "sweep_over G SW =
     seq (each (\<lambda>(name, tags). sweep_pass G name tags 0x0BBB True) SW) (\<lambda>ps.
     seq (sweep_controls G ps) (\<lambda>cs.
     seq (reading (\<lambda>s. (tablesWanted G (dy_page s), g_tasks G (dy_page s)))) (\<lambda>(ts, n).
     give \<lparr>sw_passes = ps, sw_consumedIn = map lo_pass (filter consumed ps),
       sw_coverageFailures = map lo_pass (filter coverage_failed ps),
       sw_controlUnsigned = map_option fst cs, sw_controlExtension = map_option snd cs,
       sw_controlsHeld = (case cs of None \<Rightarrow> False | Some (c1, c2) \<Rightarrow> \<not> walked_some c1 \<and> \<not> walked_some c2),
       sw_tagZeroIsATerminator = tag_zero ps, sw_tablesAtEnd = ts, sw_tasksAtEnd = n,
       sw_headline = sweep_headline ps\<rparr>)))"

definition sweep_loops :: "('w, 'z) titles_api_scheme \<Rightarrow> (('w, 'y) day_scheme, sweep_report) act" where
  "sweep_loops G = sweep_over G SWEEP"

definition sweep_run :: "('w, 'z) titles_api_scheme \<Rightarrow> (('w, 'y) day_scheme, loop_lineup \<times> sweep_report) act" where
  "sweep_run G =
     seq (loop_setup G) (\<lambda>li.
     seq (sweep_loops G) (\<lambda>r. give (li, r)))"

section \<open>The descriptor 0xBC\<close>

definition bcDescriptor :: "int list" where
  "bcDescriptor = (let body = map (\<lambda>k. (0x30 + int k) AND 0xFF) [0 ..< 4 * 9] in [0xBC, int (length body)] @ body)"

definition TAIL :: "int list" where
  "TAIL = [0x3C, BODY_LEN, 0x3C, 0xA5, 0x3C, 0x5A]"

definition bc_coverage :: "descriptor list \<Rightarrow> int \<Rightarrow> bool \<Rightarrow> loop_walk \<Rightarrow> string" where
  "bc_coverage layout ext sig wk =
     (if sig \<and> ext = 0x0BBB \<and> \<not> lw_lastDescriptorWalked wk
      then ''HARNESS/EXPECTED: the walk did not reach the last descriptor ('' @ hx (de_tag (last layout)) @ ''). If a ''
        @ ''consumer fired this is the walk being STOPPED by it; if none did, this pass checked nothing.''
      else ''ok: the walk reached the last descriptor'')"

definition bcPass ::
  "('w, 'z) titles_api_scheme \<Rightarrow> string \<Rightarrow> int list \<Rightarrow> descriptor list \<Rightarrow> int \<Rightarrow> bool \<Rightarrow> (('w, 'y) day_scheme, loop_pass) act" where
  "bcPass G name descs layout ext sig =
     (let pattern = take 6 (drop (nat (de_off (last layout))) descs) in
      seq (find_copy G descs ext sig pattern (start_loop name descs ext sig)) (\<lambda>(r, chosen).
      case chosen of
        None \<Rightarrow> give (if lo_error r = None
          then r\<lparr>lo_answer := Some ''DELIVERED AND NEVER COPIED OUT OF THE RING'', lo_coverage := Some ''unknown''\<rparr> else r)
      | Some mid \<Rightarrow>
        seq (under_watch G mid (push_loop G descs ext sig)) (\<lambda>(p1, got).
        case got of
          None \<Rightarrow> give (r\<lparr>lo_error := Some (''second push refused: '' @ pr_why p1)\<rparr>)
        | Some lg \<Rightarrow>
          let r' = r\<lparr>lo_watch := Some (rl_reads lg, rl_capped lg)\<rparr> in
          seq (reading (\<lambda>s. mark_again G pattern mid (dy_page s))) (\<lambda>again.
          give (case again of
              [] \<Rightarrow> r'\<lparr>lo_error := Some ''the marker is not in the watched region afterwards''\<rparr>
            | a # _ \<Rightarrow> let wk = bc_walk descs layout (addr_of a - de_off (last layout)) (rl_all lg)
                       in r'\<lparr>lo_walk := Some wk, lo_coverage := Some (bc_coverage layout ext sig wk),
                             lo_answer := Some (if lw_nonWalkerReaders wk \<noteq> []
                               then ''A CONSUMER FIRED -- '' @ join_with '', '' (map fst (lw_nonWalkerReaders wk))
                               else ''only the iterator touched the loop'')\<rparr>)))))"

definition BC_LOOP :: "int list \<times> descriptor list" where
  "BC_LOOP = (bcDescriptor @ TAIL,
     [\<lparr>de_off = 0, de_len = int (length bcDescriptor), de_tag = 0xBC\<rparr>,
      \<lparr>de_off = int (length bcDescriptor), de_len = 6, de_tag = 0x3C\<rparr>])"

definition BC_PASSES :: "(string \<times> int list \<times> descriptor list) list" where
  "BC_PASSES = [
     (''A: 0xBC first, 4 nine-byte entries, silent marker behind it'', BC_LOOP),
     (''B: the marker alone -- this run'' @ [CHR 0x27] @ ''s negative'', TAIL, [\<lparr>de_off = 0, de_len = 6, de_tag = 0x3C\<rparr>]),
     (''C: 0xB5 in FRONT of 0xBC -- 0xB5 should stop the walk before 0xBC'',
       [0xB5, 4, 0x11, 0x22, 0x33, 0x44] @ bcDescriptor @ TAIL,
       [\<lparr>de_off = 0, de_len = 6, de_tag = 0xB5\<rparr>,
        \<lparr>de_off = 6, de_len = int (length bcDescriptor), de_tag = 0xBC\<rparr>,
        \<lparr>de_off = 6 + int (length bcDescriptor), de_len = 6, de_tag = 0x3C\<rparr>])]"

definition silent :: "loop_pass \<Rightarrow> bool" where
  "silent c \<longleftrightarrow> \<not> walked_some c \<and> \<not> consumed c"

text \<open>\<open>marker reached\<close> is \<open>undefined\<close> where pass A has no walk.\<close>

definition bc_headline :: "loop_pass \<Rightarrow> string" where
  "bc_headline a =
     (case (consumed a, lo_walk a) of
        (True, Some w) \<Rightarrow> ''0xBC IS CONSUMED by '' @ join_with '', '' (map fst (lw_nonWalkerReaders w))
          @ ''; entry-body offsets read: '' @ (case lw_bcBodyOffsetsRead w of None \<Rightarrow> ''undefined''
               | Some xs \<Rightarrow> ''['' @ join_with '','' (map dec_string xs) @ '']'')
      | (_, wk) \<Rightarrow> ''0xBC was walked and NOT consumed on this path (marker reached: ''
          @ (case wk of None \<Rightarrow> ''undefined'' | Some w \<Rightarrow> if lw_lastDescriptorWalked w then ''true'' else ''false'')
          @ ''). The handler at 0x800C6C66 exists but is not the callback armed here -- the open half of ''
          @ ''sky-02me.20 is which caller arms the dispatcher at 0x800C6930.'')"

record bc_report =
  bc_passes :: "loop_pass list"
  bc_controlUnsigned :: loop_pass
  bc_controlExtension :: loop_pass
  bc_controlsHeld :: bool
  bc_bcIsConsumed :: bool
  bc_negativeHeld :: bool
  bc_b5TruncatesTheWalk :: bool
  bc_tablesAtEnd :: string
  bc_tasksAtEnd :: int
  bc_headlineText :: string

definition bc_loops :: "('w, 'z) titles_api_scheme \<Rightarrow> (('w, 'y) day_scheme, bc_report) act" where
  "bc_loops G =
     seq (each (\<lambda>(name, descs, layout). bcPass G name descs layout 0x0BBB True) BC_PASSES) (\<lambda>ps.
     seq (bcPass G ''control: NOT signed (must go silent)'' (fst BC_LOOP) (snd BC_LOOP) 0x0BBB False) (\<lambda>c1.
     seq (bcPass G ''control: extension 0xBAD outside the mask (must go silent)'' (fst BC_LOOP) (snd BC_LOOP) 0x0BAD True) (\<lambda>c2.
     seq (reading (\<lambda>s. (tablesWanted G (dy_page s), g_tasks G (dy_page s)))) (\<lambda>(ts, n).
     give \<lparr>bc_passes = ps, bc_controlUnsigned = c1, bc_controlExtension = c2, bc_controlsHeld = (silent c1 \<and> silent c2),
       bc_bcIsConsumed = consumed (ps ! 0),
       bc_negativeHeld = (lo_walk (ps ! 1) \<noteq> None \<and> \<not> consumed (ps ! 1)),
       bc_b5TruncatesTheWalk = (case lo_walk (ps ! 2) of None \<Rightarrow> False | Some w \<Rightarrow> ''0xbc'' \<notin> set (lw_tagsWalked w)),
       bc_tablesAtEnd = ts, bc_tasksAtEnd = n, bc_headlineText = bc_headline (ps ! 0)\<rparr>))))"

definition bc_run :: "('w, 'z) titles_api_scheme \<Rightarrow> (('w, 'y) day_scheme, loop_lineup \<times> bc_report) act" where
  "bc_run G =
     seq (loop_setup G) (\<lambda>li.
     seq (bc_loops G) (\<lambda>r. give (li, r)))"

end
