(* ===== verification/Probe_Tables.thy ===== *)
theory Probe_Tables
  imports Probe_Loop
begin

text \<open>
  Three probes that reach the state of the sweep of \<open>Probe_Loop\<close> and then ask one question more:
  \<open>tools/probes/which-tag-the-listings-loop-closes-the-sweep.js\<close>, the tags the sweep left open;
  \<open>tools/probes/does-0xb5-open-the-next-rung.js\<close>, what a descriptor 0xB5 does to the subscriptions; and
  \<open>tools/probes/what-is-table-0xa0.js\<close>, who reads the other table of the pair.  The fourth of the family is in
  \<open>Probe_Date\<close>.
  Their instruments and their line-up are those of the sweep.
\<close>

section \<open>Closing the sweep\<close>

definition CLOSING :: "(string \<times> int list) list" where
  "CLOSING = [(''A: 0xB5 alone -- the candidate'', [0xB5]),
     (''B: 0xB6..0xC0 -- the eleven tags the first sweep never reached'', [0xB6..0xC0]),
     (''C: 0x81..0xB4 -- the known negative, as this run'' @ [CHR 0x27] @ ''s control'', [0x81..0xB4])]"

definition closing_loops :: "('w, 'z) titles_api_scheme \<Rightarrow> (('w, 'y) day_scheme, sweep_report) act" where
  "closing_loops G = sweep_over G CLOSING"

definition closing_run :: "('w, 'z) titles_api_scheme \<Rightarrow> (('w, 'y) day_scheme, loop_lineup \<times> sweep_report) act" where
  "closing_run G =
     seq (loop_setup G) (\<lambda>li.
     seq (closing_loops G) (\<lambda>r. give (li, r)))"

section \<open>What 0xB5 does to the subscriptions\<close>

record subs =
  su_tables :: "string list"
  su_pids :: "string list"

definition subs_of :: "('w, 'z) day_api_scheme \<Rightarrow> 'w \<Rightarrow> subs" where
  "subs_of G w = \<lparr>su_tables = sort (map match_text (d_matches G w)), su_pids = sort (map sf_pid (armed G w))\<rparr>"

record subs_change =
  sc_newTables :: "string list"
  sc_goneTables :: "string list"
  sc_newPids :: "string list"

definition subs_diff :: "subs \<Rightarrow> subs \<Rightarrow> subs_change" where
  "subs_diff a b =
     \<lparr>sc_newTables = filter (\<lambda>t. t \<notin> set (su_tables a)) (su_tables b),
      sc_goneTables = filter (\<lambda>t. t \<notin> set (su_tables b)) (su_tables a),
      sc_newPids = filter (\<lambda>p. p \<notin> set (su_pids a)) (su_pids b)\<rparr>"

text \<open>The section of a loop with the one descriptor 0xB5.\<close>

definition b5_descriptor :: "int \<Rightarrow> int \<Rightarrow> int list" where
  "b5_descriptor f1 f2 = [0xB5, 4] @ u16 f1 @ u16 f2"

definition push_b5 ::
  "('w, 'z) titles_api_scheme \<Rightarrow> int \<Rightarrow> int \<Rightarrow> (('w, 'y) day_scheme, pushed_at) act" where
  "push_b5 G f1 f2 =
     seq (doing (\<lambda>s. s\<lparr>dy_a1 := next_version (dy_a1 s)\<rparr>)) (\<lambda>_.
     seq (reading (\<lambda>s. loop_section True (dy_a1 s) 0x0BBB (b5_descriptor f1 f2))) (\<lambda>sec.
     push_section G 0x33 sec))"

record b5_trial =
  bt_f1 :: int
  bt_f2 :: int
  bt_why :: string

definition B5_TRIALS :: "b5_trial list" where
  "B5_TRIALS = [
    \<lparr>bt_f1 = 0x2345, bt_f2 = 0x6789, bt_why = ''both fields distinctive, different decades''\<rparr>,
    \<lparr>bt_f1 = 0x3456, bt_f2 = 0x789A, bt_why = ''again, to tell a real mapping from a coincidence''\<rparr>,
    \<lparr>bt_f1 = 0x0BB8, bt_f2 = 0x4567, bt_why = ''f1 = a listings id the box already holds''\<rparr>,
    \<lparr>bt_f1 = 0x4567, bt_f2 = 0x0BB8, bt_why = ''the same value in the OTHER field, to say which one is read''\<rparr>]"

record b5_pass =
  bp_trial :: string
  bp_why :: string
  bp_before :: subs
  bp_error :: "string option"
  bp_after :: "subs option"
  bp_diff :: "subs_change option"
  bp_changed :: bool
  bp_namesAField :: bool

text \<open>Up to three copies; the first that is refused ends them and gives its reason.\<close>

fun push_copies ::
  "('w, 'z) titles_api_scheme \<Rightarrow> b5_trial \<Rightarrow> nat \<Rightarrow> (('w, 'y) day_scheme, string option) act" where
  "push_copies G t 0 = give None"
| "push_copies G t (Suc n) =
     seq (push_b5 G (bt_f1 t) (bt_f2 t)) (\<lambda>res.
     if \<not> pr_ok res then give (Some (pr_why res))
     else seq (pausing G 4000) (\<lambda>_. push_copies G t n))"

definition names_field :: "b5_trial \<Rightarrow> string list \<Rightarrow> bool" where
  "names_field t ts = list_ex (\<lambda>x. occurs (hex_string (bt_f1 t)) x \<or> occurs (hex_string (bt_f2 t)) x) ts"

definition b5_pass_of :: "('w, 'z) titles_api_scheme \<Rightarrow> b5_trial \<Rightarrow> (('w, 'y) day_scheme, b5_pass) act" where
  "b5_pass_of G t =
     seq (reading (\<lambda>s. (subs_of G (dy_page s), wants G 0xA1 (dy_page s)))) (\<lambda>(before, ok).
     let r = \<lparr>bp_trial = hx (bt_f1 t) @ '' / '' @ hx (bt_f2 t), bp_why = bt_why t, bp_before = before, bp_error = None,
              bp_after = None, bp_diff = None, bp_changed = False, bp_namesAField = False\<rparr> in
     if \<not> ok then give (r\<lparr>bp_error := Some ''the 0xA1 subscription lapsed -- a null result would be about timing''\<rparr>)
     else seq (push_copies G t 3) (\<lambda>refused.
     case refused of
       Some why \<Rightarrow> give (r\<lparr>bp_error := Some (''push refused: '' @ why)\<rparr>)
     | None \<Rightarrow>
         seq (pausing G 8000) (\<lambda>_.
         seq (reading (\<lambda>s. subs_of G (dy_page s))) (\<lambda>after.
         let d = subs_diff before after in
         give (r\<lparr>bp_after := Some after, bp_diff := Some d, bp_changed := (sc_newTables d \<noteq> [] \<or> sc_newPids d \<noteq> []),
                 bp_namesAField := names_field t (sc_newTables d)\<rparr>)))))"

record b5_report =
  br_passes :: "b5_pass list"
  br_anyChange :: bool
  br_namedAField :: bool
  br_tablesAtEnd :: string
  br_tasksAtEnd :: int
  br_headline :: string

definition B5_NOTHING :: string where
  "B5_NOTHING = ''A WELL-FORMED 0xB5 CHANGES NO SUBSCRIPTION. The reference is resolved internally, against the ''
     @ ''carousel the box already believes it has -- so the next subject is the carousel transport ''
     @ ''itself (modules, Huffman at 0x800BECF0, parsers near 0x800C95D0/0x800C9CA0) and NOT another ''
     @ ''SI table. Recorded as a negative rather than retried.''"

definition b5_headline :: "b5_pass list \<Rightarrow> string" where
  "b5_headline ps =
     (if list_ex bp_changed ps
      then ''A WELL-FORMED 0xB5 MOVES THE SUBSCRIPTIONS''
        @ (if list_ex bp_namesAField ps
           then '' AND ONE OF ITS FIELDS NAMES THE NEW EXTENSION -- that is the next rung.''
           else '' but neither field appears in the new subscription; read the diff.'')
      else B5_NOTHING)"

definition b5_trials :: "('w, 'z) titles_api_scheme \<Rightarrow> (('w, 'y) day_scheme, b5_report) act" where
  "b5_trials G =
     seq (each (b5_pass_of G) B5_TRIALS) (\<lambda>ps.
     seq (reading (\<lambda>s. (tablesWanted G (dy_page s), g_tasks G (dy_page s)))) (\<lambda>(ts, n).
     give \<lparr>br_passes = ps, br_anyChange = list_ex bp_changed ps, br_namedAField = list_ex bp_namesAField ps,
       br_tablesAtEnd = ts, br_tasksAtEnd = n, br_headline = b5_headline ps\<rparr>))"

definition b5_run :: "('w, 'z) titles_api_scheme \<Rightarrow> (('w, 'y) day_scheme, loop_lineup \<times> b5_report) act" where
  "b5_run G =
     seq (loop_setup G) (\<lambda>li.
     seq (b5_trials G) (\<lambda>r. give (li, r)))"

section \<open>Who reads table 0xA0\<close>

definition PLEN :: int where "PLEN = 96"

definition selfNaming :: "bool \<Rightarrow> int list" where
  "selfNaming sig =
     (let b = map (\<lambda>k. (0x40 + int k) AND 0xFF) [0..<nat PLEN]; c = b[3 := 0x0B]
      in if sig then c[0 := 0x9E, 1 := 0x8B] else c)"

definition table_section :: "int \<Rightarrow> int \<Rightarrow> int \<Rightarrow> bool \<Rightarrow> int list" where
  "table_section tableId version ext sig =
     (let p = selfNaming sig; len = 5 + int (length p) + 4 in with_crc (long_header tableId len ext version @ p))"

definition push_table ::
  "('w, 'z) titles_api_scheme \<Rightarrow> int \<Rightarrow> int \<Rightarrow> bool \<Rightarrow> (('w, 'y) day_scheme, pushed_at) act" where
  "push_table G tableId ext sig =
     seq (doing (\<lambda>s. s\<lparr>dy_a1 := next_version (dy_a1 s)\<rparr>)) (\<lambda>_.
     seq (reading (\<lambda>s. table_section tableId (dy_a1 s) ext sig)) (\<lambda>sec.
     push_section G 0x33 sec))"

definition TABLE_MARK :: "int list" where
  "TABLE_MARK = take 8 (drop 8 (selfNaming False))"

definition table_coverage :: "string \<times> int \<Rightarrow> coverage" where
  "table_coverage x = \<lparr>cg_pc = fst x, cg_bytes = snd x, cg_tenths = (2000 * snd x + PLEN) div (2 * PLEN)\<rparr>"

record table_read =
  tr_payloadAt :: string
  tr_readers :: "coverage list"
  tr_bulkCopiers :: "coverage list"
  tr_parsers :: "coverage list"
  tr_offsetsRead :: "int list"
  tr_knownWalker :: "string list"
  tr_somethingElse :: "coverage list"
  tr_answer :: string

definition table_read_of :: "int \<Rightarrow> read_entry list \<Rightarrow> table_read" where
  "table_read_of start lg =
     (let readers = take 14 (map table_coverage (readers_of (cover start PLEN lg)));
          bulk = filter (\<lambda>c. cg_tenths c \<ge> 800) readers;
          parsers = filter (\<lambda>c. cg_tenths c < 800) readers;
          other = filter (\<lambda>c. cg_pc c \<notin> set LOOP_WALKER) parsers
      in \<lparr>tr_payloadAt = h8 start, tr_readers = readers, tr_bulkCopiers = bulk, tr_parsers = parsers,
          tr_offsetsRead = offsets_read start PLEN lg,
          tr_knownWalker = map cg_pc (filter (\<lambda>c. cg_pc c \<in> set LOOP_WALKER) readers), tr_somethingElse = other,
          tr_answer =
            (if parsers \<noteq> []
             then ''READ BY '' @ join_with '', '' (map cg_pc parsers)
               @ (if other \<noteq> [] then '' -- INCLUDING PCs THAT ARE NOT THE 0xA1 WALKER'' else '' -- the 0xA1 walker only'')
             else if bulk \<noteq> [] then ''only bulk copiers touched it'' else ''nothing read the payload'')\<rparr>)"

record table_pass =
  tb_pass :: string
  tb_tableId :: string
  tb_extension :: string
  tb_signed :: bool
  tb_error :: "string option"
  tb_copiesFound :: "string list option"
  tb_watching :: "string option"
  tb_watch :: "(int \<times> bool) option"
  tb_read :: "table_read option"
  tb_answer :: "string option"

definition start_table :: "string \<Rightarrow> int \<Rightarrow> int \<Rightarrow> bool \<Rightarrow> table_pass" where
  "start_table name tableId ext sig = \<lparr>tb_pass = name, tb_tableId = hx tableId, tb_extension = hx ext, tb_signed = sig,
     tb_error = None, tb_copiesFound = None, tb_watching = None, tb_watch = None, tb_read = None, tb_answer = None\<rparr>"

definition table_watched ::
  "('w, 'z) titles_api_scheme \<Rightarrow> int \<Rightarrow> int \<Rightarrow> bool \<Rightarrow> table_pass \<Rightarrow> int \<Rightarrow> (('w, 'y) day_scheme, table_pass) act" where
  "table_watched G tableId ext sig r mid =
     seq (under_watch G mid (push_table G tableId ext sig)) (\<lambda>(p1, got).
     case got of
       None \<Rightarrow> give (r\<lparr>tb_error := Some ''second push refused''\<rparr>)
     | Some lg \<Rightarrow>
         let r' = r\<lparr>tb_watch := Some (rl_reads lg, rl_capped lg)\<rparr> in
         seq (reading (\<lambda>s. mark_again G TABLE_MARK mid (dy_page s))) (\<lambda>again.
         give (case again of
             [] \<Rightarrow> r'\<lparr>tb_error := Some ''the marker is not in the watched region afterwards''\<rparr>
           | a # _ \<Rightarrow> let tr = table_read_of (addr_of a - 8) (rl_all lg)
                      in r'\<lparr>tb_read := Some tr, tb_answer := Some (tr_answer tr)\<rparr>)))"

definition tablePass ::
  "('w, 'z) titles_api_scheme \<Rightarrow> string \<Rightarrow> int \<Rightarrow> int \<Rightarrow> bool \<Rightarrow> (('w, 'y) day_scheme, table_pass) act" where
  "tablePass G name tableId ext sig =
     (let r = start_table name tableId ext sig in
      seq (reading (\<lambda>s. wants G 0xA1 (dy_page s))) (\<lambda>ok.
      if \<not> ok then give (r\<lparr>tb_error := Some ''the 0xA1 subscription lapsed''\<rparr>)
      else seq (push_table G tableId ext sig) (\<lambda>p0.
      if \<not> pr_ok p0 then give (r\<lparr>tb_error := Some (''push refused: '' @ pr_why p0)\<rparr>)
      else seq (pausing G 8000) (\<lambda>_.
      seq (reading (\<lambda>s. outside_ring 4096 (pu_at p0) (t_find G (dy_page s) TABLE_MARK 0x80000000 0x82000000 24))) (\<lambda>found.
      if found = []
      then give (r\<lparr>tb_copiesFound := Some found,
                   tb_answer := Some ''DELIVERED AND NEVER COPIED OUT OF THE RING -- nothing took it''\<rparr>)
      else table_watched G tableId ext sig
             (r\<lparr>tb_copiesFound := Some found, tb_watching := Some (choose_copy found)\<rparr>) (addr_of (choose_copy found)))))))"

definition table_silent :: "table_pass \<Rightarrow> bool" where
  "table_silent c = (case tb_read c of None \<Rightarrow> True | Some tr \<Rightarrow> tr_parsers tr = [])"

definition a0_headline :: "table_pass \<Rightarrow> string" where
  "a0_headline a =
     (case tb_read a of
        Some tr \<Rightarrow>
          (if tr_parsers tr = [] then ''0xA0 is delivered and nothing parses it -- the mask accepts it but this box does not use it''
           else if tr_somethingElse tr \<noteq> []
           then ''0xA0 IS READ BY SOMETHING OTHER THAN THE 0xA1 WALKER: ''
             @ join_with '', '' (map cg_pc (tr_somethingElse tr)) @ '' -- a different table, and that is the lead''
           else ''0xA0 is read by the SAME walker as 0xA1 -- the mask is width, not a second table'')
      | None \<Rightarrow> ''0xA0 is delivered and nothing parses it -- the mask accepts it but this box does not use it'')"

record a0_report =
  a0_passes :: "table_pass list"
  a0_controlUnsigned :: table_pass
  a0_controlExtension :: table_pass
  a0_controlsHeld :: bool
  a0_isRead :: bool
  a0_differs :: bool
  a0_tablesAtEnd :: string
  a0_tasksAtEnd :: int
  a0_headlineText :: string

definition a0_passes_run :: "('w, 'z) titles_api_scheme \<Rightarrow> (('w, 'y) day_scheme, a0_report) act" where
  "a0_passes_run G =
     seq (tablePass G ''A: table 0xA0, signed, ext 0xBBB -- never fed before'' 0xA0 0x0BBB True) (\<lambda>a.
     seq (tablePass G ''B: table 0xA1, signed, ext 0xBBB -- the known-parsed control'' 0xA1 0x0BBB True) (\<lambda>b.
     seq (tablePass G ''control: 0xA0 NOT signed (must go silent)'' 0xA0 0x0BBB False) (\<lambda>c1.
     seq (tablePass G ''control: 0xA0 signed, ext 0xBAD outside the mask (must go silent)'' 0xA0 0x0BAD True) (\<lambda>c2.
     seq (reading (\<lambda>s. (tablesWanted G (dy_page s), g_tasks G (dy_page s)))) (\<lambda>(ts, n).
     give \<lparr>a0_passes = [a, b], a0_controlUnsigned = c1, a0_controlExtension = c2,
       a0_controlsHeld = (table_silent c1 \<and> table_silent c2), a0_isRead = (\<not> table_silent a),
       a0_differs = (case tb_read a of None \<Rightarrow> False | Some tr \<Rightarrow> tr_somethingElse tr \<noteq> []),
       a0_tablesAtEnd = ts, a0_tasksAtEnd = n, a0_headlineText = a0_headline a\<rparr>)))))"

definition a0_run :: "('w, 'z) titles_api_scheme \<Rightarrow> (('w, 'y) day_scheme, loop_lineup \<times> a0_report) act" where
  "a0_run G =
     seq (loop_setup G) (\<lambda>li.
     seq (a0_passes_run G) (\<lambda>r. give (li, r)))"

end
