(* ===== verification/Probe_Titles_Facts.thy ===== *)
theory Probe_Titles_Facts
  imports Probe_Titles Probe_Day_Facts
begin

text \<open>
  What the listings probe of \<open>Probe_Titles\<close> guarantees: the sections a receiver accepts, the markers, who
  is named a parser, that no pass leaves the read watch on, and that the loop over the summaries ends.
\<close>

section \<open>The sections\<close>

lemma RECORDS_LONG_bytes: "byte_list RECORDS_LONG" "length RECORDS_LONG = 318"
  by (simp_all add: RECORDS_LONG_def)

lemma SUMMARIES_bytes: "byte_list SUMMARIES" "length SUMMARIES = 462"
  by (simp_all add: SUMMARIES_def)

lemma titles_payload_bytes: "byte_list (titles_payload sig)" "length (titles_payload sig) = 320"
  by (simp_all add: titles_payload_def SIGNATURE_def RECORDS_LONG_bytes)

lemma PAYLOAD_LEN_val [simp]: "PAYLOAD_LEN = 320"
  by (simp add: PAYLOAD_LEN_def titles_payload_bytes)

text \<open>Both kinds of section are ones a receiver accepts; the summaries walk to the end.\<close>

theorem titles_section_parses:
  assumes "0 \<le> version" "version < 32" "0 \<le> ext" "ext < 65536"
  shows "parse_section (titles_section sig version ext) = Some (0xA1, ext, version, titles_payload sig)"
  using parse_with_crc [of "0xA1" ext version "titles_payload sig"] assms titles_payload_bytes [of sig]
  by (simp add: titles_section_def Let_def)

theorem summary_section_parses:
  assumes "0 \<le> tableId" "tableId < 256" "0 \<le> version" "version < 32" "0 \<le> ext" "ext < 65536"
  shows "parse_section (buildSummary tableId version ext) = Some (tableId, ext, version, SIGNATURE @ SUMMARIES)"
  using parse_with_crc [OF assms(1,2,5,6,3,4), of "SIGNATURE @ SUMMARIES"]
  by (simp add: buildSummary_def Let_def SUMMARIES_bytes SIGNATURE_def)

lemma SUMMARIES_walk:
  "case walk_records SUMMARIES of None \<Rightarrow> False
    | Some rs \<Rightarrow> map fst rs = [0x201..0x20C] \<and> list_all (\<lambda>(i, d). d ! 0 = 0xB9 \<and> d ! 1 = int (length d) - 2) rs"
  by code_simp

section \<open>The markers\<close>

fun places :: "int list \<Rightarrow> int \<Rightarrow> int list \<Rightarrow> int list" where
  "places b i [] = []"
| "places b i (x # xs) = (if prefix b (x # xs) then i # places b (i + 1) xs else places b (i + 1) xs)"

text \<open>
  The marker of the titles stands at one place of the payload, the one the analysis takes it to be at.  The
  marker of the summaries stands at the front of every text: twelve times in one copy, so the limit of 24
  finds is used up by two copies.
\<close>

theorem title_marker_once: "places MARK 0 (titles_payload sig) = [8]"
proof -
  have "places MARK 0 (titles_payload True) = [8]" "places MARK 0 (titles_payload False) = [8]" by code_simp+
  then show ?thesis by (cases sig) simp_all
qed

theorem summary_marker_in_every_record:
  "places SMARK 0 SUMMARIES = [6, 42, 77, 112, 153, 189, 227, 267, 304, 352, 395, 432]"
  by code_simp

section \<open>Who is named a parser\<close>

lemma coverage_bulk: "800 \<le> cg_tenths (coverage_of x) \<longleftrightarrow> 256 \<le> snd x"
proof -
  have "800 \<le> m div 640 \<longleftrightarrow> 512000 \<le> m" for m :: int by linarith
  then show ?thesis by (simp add: coverage_of_def) linarith
qed

lemma coverage_filter:
  assumes "\<And>pc n. (pc, n) \<in> set rs \<longleftrightarrow> 0 < n \<and> n = int (card (B pc))"
  shows "pc \<in> cg_pc ` set (filter (\<lambda>c. P (cg_pc c) (800 \<le> cg_tenths c)) (map coverage_of rs)) \<longleftrightarrow>
    0 < card (B pc) \<and> P pc (256 \<le> card (B pc))"
proof -
  have c: "cg_pc (coverage_of x) = fst x" for x by (simp add: coverage_of_def)
  have i: "pc \<in> fst ` {x \<in> set rs. Q x} \<longleftrightarrow> (\<exists>n. (pc, n) \<in> set rs \<and> Q (pc, n))" for Q
    by (simp add: image_iff Bex_def)
  have "pc \<in> cg_pc ` set (filter (\<lambda>c. P (cg_pc c) (800 \<le> cg_tenths c)) (map coverage_of rs)) \<longleftrightarrow>
      (\<exists>n. (pc, n) \<in> set rs \<and> P pc (256 \<le> n))"
    by (simp only: filter_map comp_def set_map set_filter image_image c coverage_bulk i fst_conv snd_conv)
  also have "\<dots> \<longleftrightarrow> 0 < card (B pc) \<and> P pc (256 \<le> card (B pc))" unfolding assms by auto
  finally show ?thesis .
qed

lemma readers_members:
  "(pc, n) \<in> set (readers_of (cover start 320 lg)) \<longleftrightarrow> 0 < n \<and> n = int (card (bytes_of start 320 lg pc))"
  using readers_exact by blast

lemma some_bytes: "0 < card (bytes_of start len lg pc) \<longleftrightarrow> bytes_of start len lg pc \<noteq> {}"
  by (simp add: card_gt_0_iff finite_bytes_of)

text \<open>
  C28.  The analysis names the parsers exactly.  A program counter is a parser candidate if and only if it read
  between 1 and 255 different bytes of the payload and is not the walker; it is a bulk copier if and only if
  it read 256 or more of the 320; and the offsets listed are, in order and without repetition, those
  anybody read.
\<close>

theorem parser_candidates_exact:
  "(pc \<in> cg_pc ` set (an_parserCandidates (analyse start lg)) \<longleftrightarrow>
      pc \<notin> set WALKER \<and> bytes_of start 320 lg pc \<noteq> {} \<and> card (bytes_of start 320 lg pc) < 256) \<and>
   (pc \<in> cg_pc ` set (an_bulkCopiers (analyse start lg)) \<longleftrightarrow> 256 \<le> card (bytes_of start 320 lg pc)) \<and>
   (x \<in> set (an_offsetsRead (analyse start lg)) \<longleftrightarrow> (\<exists>q. x \<in> bytes_of start 320 lg q)) \<and>
   sorted (an_offsetsRead (analyse start lg)) \<and> distinct (an_offsetsRead (analyse start lg))"
proof (intro conjI)
  let ?rs = "readers_of (cover start 320 lg)" and ?B = "bytes_of start 320 lg"
  have p: "an_parserCandidates (analyse start lg)
      = filter (\<lambda>c. \<not> 800 \<le> cg_tenths c \<and> cg_pc c \<notin> set WALKER) (map coverage_of ?rs)"
    by (simp add: analyse_def Let_def not_le)
  show "pc \<in> cg_pc ` set (an_parserCandidates (analyse start lg)) \<longleftrightarrow> pc \<notin> set WALKER \<and> ?B pc \<noteq> {} \<and> card (?B pc) < 256"
    unfolding p coverage_filter [OF readers_members, where pc = pc and P = "\<lambda>p b. \<not> b \<and> p \<notin> set WALKER"] some_bytes
    by auto
  have c: "an_bulkCopiers (analyse start lg) = filter (\<lambda>c. 800 \<le> cg_tenths c) (map coverage_of ?rs)"
    by (simp add: analyse_def Let_def)
  show "pc \<in> cg_pc ` set (an_bulkCopiers (analyse start lg)) \<longleftrightarrow> 256 \<le> card (?B pc)"
    unfolding c coverage_filter [OF readers_members, where pc = pc and P = "\<lambda>p b. b"] by auto
  show "x \<in> set (an_offsetsRead (analyse start lg)) \<longleftrightarrow> (\<exists>q. x \<in> bytes_of start 320 lg q)"
    by (auto simp: analyse_def Let_def offsets_read_set bytes_of_def)
  show "sorted (an_offsetsRead (analyse start lg))" "distinct (an_offsetsRead (analyse start lg))"
    by (simp_all add: analyse_def Let_def offsets_read_def)
qed

section \<open>The watch is taken off\<close>

text \<open>\<open>off\<close> holds once the watch is taken off, and pushing and waiting leave it off.\<close>

definition unwatched_by :: "('w, 'z) titles_api_scheme \<Rightarrow> ('w \<Rightarrow> bool) \<Rightarrow> bool" where
  "unwatched_by G off \<longleftrightarrow> (\<forall>w. off (d_readUnwatch G w)) \<and> (\<forall>w ms. off w \<longrightarrow> off (g_wait G ms w)) \<and>
     (\<forall>w pid sec. off w \<longrightarrow> off (snd (t_push G pid sec w)))"

definition off_page :: "('w \<Rightarrow> bool) \<Rightarrow> ('w, 'y) day_scheme \<Rightarrow> bool" where
  "off_page off s \<longleftrightarrow> off (dy_page s)"

lemma unwatched_byD:
  assumes "unwatched_by G off"
  shows "off (d_readUnwatch G w)" "off w \<Longrightarrow> off (g_wait G ms w)" "off w \<Longrightarrow> off (snd (t_push G pid sec w))"
  using assms by (simp_all add: unwatched_by_def)

lemma section_hits_runs: "section_hits G w = (Inr (hits_at G w LISR, hits_at G w SECTASK), w)"
proof -
  have r: "\<forall>b \<in> set [LISR, SECTASK]. 0 \<le> b \<and> b < 4294967296" by (simp add: LISR_def SECTASK_def)
  have "map_of (pcHits G w [LISR, SECTASK]) (h8 LISR) = Some (hits_at G w LISR)"
      "map_of (pcHits G w [LISR, SECTASK]) (h8 SECTASK) = Some (hits_at G w SECTASK)"
    by (rule pcHits_lookup [OF _ r], simp)+
  then show ?thesis by (simp add: section_hits_def Let_def)
qed

lemma hits_keep: "yields J (on_page (section_hits G)) (\<lambda>_. True)"
  by (simp add: yields_def on_page_def section_hits_runs)

lemma push_section_runs:
  "push_section G pid sec s = (Inr (fst (t_push G pid sec (dy_page s))), s\<lparr>dy_page := snd (t_push G pid sec (dy_page s))\<rparr>)"
  by (simp add: push_section_def on_page_def split_beta)

lemma push_titles_keep: "unwatched_by G off \<Longrightarrow> yields (off_page off) (push_titles G pid ext sig) (\<lambda>_. True)"
  by (simp add: yields_def push_titles_def push_section_runs off_page_def unwatched_byD)

lemma push_summary_keep: "unwatched_by G off \<Longrightarrow> yields (off_page off) (push_summary G pid tableId ext) (\<lambda>_. True)"
  by (simp add: yields_def push_summary_def push_section_runs off_page_def unwatched_byD)

lemma wait_keep: "unwatched_by G off \<Longrightarrow> yields (off_page off) (pausing G ms) (\<lambda>_. True)"
  by (simp add: yields_def pausing_runs off_page_def unwatched_byD)

lemma reading_keep: "yields J (reading f) (\<lambda>_. True)"
  by (simp add: yields_def)

text \<open>From states with \<open>J\<close> the action gives a result with \<open>P\<close> and ends in a state with \<open>K\<close>.\<close>

definition takes :: "('s \<Rightarrow> bool) \<Rightarrow> ('s, 'a) act \<Rightarrow> ('a \<Rightarrow> bool) \<Rightarrow> ('s \<Rightarrow> bool) \<Rightarrow> bool" where
  "takes J m P K \<longleftrightarrow> (\<forall>s. J s \<longrightarrow> (\<exists>a s'. m s = (Inr a, s') \<and> P a \<and> K s'))"

lemma takes_seq:
  assumes "takes J m P K" "\<And>a. P a \<Longrightarrow> takes K (k a) Q L"
  shows "takes J (seq m k) Q L"
  unfolding takes_def
proof (intro allI impI)
  fix s
  assume "J s"
  then obtain a s' where 1: "m s = (Inr a, s')" "P a" "K s'" using assms(1) unfolding takes_def by blast
  then obtain b s'' where "k a s' = (Inr b, s'')" "Q b" "L s''" using assms(2) unfolding takes_def by blast
  with 1 show "\<exists>a s'. seq m k s = (Inr a, s') \<and> Q a \<and> L s'" by (simp add: seq_def)
qed

lemma yields_takes: "yields J m P \<longleftrightarrow> takes J m P J"
  by (simp add: yields_def takes_def)

lemma takes_anyway:
  assumes "\<And>s. \<exists>a s'. m s = (Inr a, s')" "\<And>a. takes (\<lambda>_. True) (k a) Q L"
  shows "takes J (seq m k) Q L"
  by (rule takes_seq [of _ _ "\<lambda>_. True" "\<lambda>_. True"]) (use assms in \<open>auto simp: takes_def\<close>)

lemma takes_unwatch: "unwatched_by G off \<Longrightarrow> takes J (on_page (doing (d_readUnwatch G))) (\<lambda>_. True) (off_page off)"
  by (simp add: takes_def on_page_def off_page_def unwatched_byD)

lemma takes_give: "(\<And>s. J s \<Longrightarrow> K s) \<Longrightarrow> P a \<Longrightarrow> takes J (give a) P K"
  by (simp add: takes_def)

lemma takes_if: "(b \<Longrightarrow> takes J m P K) \<Longrightarrow> (\<not> b \<Longrightarrow> takes J m' P K) \<Longrightarrow> takes J (if b then m else m') P K"
  by simp

text \<open>Whether the push is taken or not, the watch comes off.\<close>

lemma under_watch_off:
  assumes "unwatched_by G off" "\<And>s. \<exists>a s'. push s = (Inr a, s')"
  shows "takes J (under_watch G mid push) (\<lambda>_. True) (off_page off)"
  unfolding under_watch_def
proof (rule takes_anyway, simp add: on_page_def, rule takes_anyway [OF assms(2)], rule takes_if)
  note off = takes_seq [OF takes_unwatch [OF assms(1)] takes_give]
  fix p1
  show "takes (\<lambda>_. True) (seq (on_page (doing (d_readUnwatch G))) (\<lambda>_. give (p1, None))) (\<lambda>_. True) (off_page off)"
    by (rule off) simp_all
  show "takes (\<lambda>_. True) (seq (pausing G 8000) (\<lambda>_. seq (reading (\<lambda>s. t_log G (dy_page s))) (\<lambda>lg.
      seq (on_page (doing (d_readUnwatch G))) (\<lambda>_. give (p1, Some lg))))) (\<lambda>_. True) (off_page off)"
    by (rule takes_anyway, simp add: pausing_runs, rule takes_anyway, simp, rule off) simp_all
qed

lemma push_titles_runs: "\<exists>a s'. push_titles G pid ext sig s = (Inr a, s')"
  by (simp add: push_titles_def push_section_runs)

lemma push_summary_runs: "\<exists>a s'. push_summary G pid tableId ext s = (Inr a, s')"
  by (simp add: push_summary_def push_section_runs)

text \<open>A pass says either why it stopped or what it found.\<close>

definition says_one :: "title_pass \<Rightarrow> bool" where
  "says_one r \<longleftrightarrow> (pa_error r = None \<longleftrightarrow> pa_answer r \<noteq> None)"

definition nothing_said :: "title_pass \<Rightarrow> bool" where
  "nothing_said r \<longleftrightarrow> pa_error r = None \<and> pa_answer r = None"

lemma pass_watched_off:
  assumes "unwatched_by G off" "nothing_said r"
  shows "takes J (pass_watched G pid ext sig r mid) says_one (off_page off)"
proof -
  let ?rest = "\<lambda>before got. case got of
       (p1, None) \<Rightarrow> give (r\<lparr>pa_error := Some (''second push refused: '' @ pr_why p1)\<rparr>)
     | (p1, Some lg) \<Rightarrow>
         seq (reading dy_a1) (\<lambda>v.
         seq (on_page (section_hits G)) (\<lambda>after.
         let r' = r\<lparr>pa_version := Some v, pa_delivery := Some (fst after - fst before, snd after - snd before),
                    pa_watch := Some (rl_reads lg, rl_capped lg)\<rparr> in
         seq (reading (\<lambda>s. t_find G (dy_page s) MARK (to_u32 (mid - 0x2000)) (to_u32 (mid + 0x2000)) 8)) (\<lambda>again.
         give (case again of
             [] \<Rightarrow> r'\<lparr>pa_error := Some ''the marker is not in the watched region afterwards -- unmappable, not zero''\<rparr>
           | a # _ \<Rightarrow> let an = analyse (addr_of a - 8) (rl_all lg)
                      in r'\<lparr>pa_answer := Some (an_answer an), pa_analysis := Some an\<rparr>))))"
  have r: "pa_error r = None" "pa_answer r = None" using assms(2) by (simp_all add: nothing_said_def)
  have rest: "takes (off_page off) (?rest before got) says_one (off_page off)" for before :: "int \<times> int" and got
    by (cases got; cases "snd got")
       (simp_all add: takes_def seq_def on_page_def section_hits_runs off_page_def says_one_def r Let_def split: list.split)
  have h: "takes J (on_page (section_hits G)) (\<lambda>_. True) (\<lambda>_. True)"
    by (simp add: takes_def on_page_def section_hits_runs)
  show ?thesis
    unfolding pass_watched_def
    by (rule takes_seq [OF h], rule takes_seq [OF under_watch_off [OF assms(1) push_titles_runs]])
       (use rest in \<open>simp add: split_beta\<close>)
qed

lemma keeps: "yields J m P \<Longrightarrow> takes J m P J"
  by (simp add: yields_takes)

lemma pass_off:
  assumes "unwatched_by G off"
  shows "takes (off_page off) (pass G name pid ext sig) says_one (off_page off)"
  unfolding pass_def Let_def
proof (rule takes_seq [OF keeps [OF reading_keep]], rule takes_if, rule takes_give, assumption)
  fix ok :: bool
  let ?r = "start_pass name pid ext sig"
  have n: "nothing_said (?r\<lparr>pa_copiesFound := c, pa_watching := w\<rparr>)" "pa_error ?r = None" "pa_answer ?r = None" for c w
    by (simp_all add: nothing_said_def start_pass_def)
  show "says_one (?r\<lparr>pa_error := Some ''the 0xA1 subscription has lapsed -- a zero here would be about timing''\<rparr>)"
    by (simp add: says_one_def n)
  show "takes (off_page off) (seq (push_titles G pid ext sig) (\<lambda>p0.
      if \<not> pr_ok p0 then give (?r\<lparr>pa_error := Some (''push refused: '' @ pr_why p0)\<rparr>)
      else seq (pausing G 8000) (\<lambda>_.
      seq (reading (\<lambda>s. outside_ring 2048 (pu_at p0) (t_find G (dy_page s) MARK 0x80000000 0x82000000 24))) (\<lambda>found.
      if found = []
      then give (?r\<lparr>pa_copiesFound := Some found,
             pa_answer := Some (''the section was delivered and NEVER COPIED OUT OF THE RING -- nothing took it, ''
                            @ ''which for 0xA1 is itself the finding'')\<rparr>)
      else pass_watched G pid ext sig
             (?r\<lparr>pa_copiesFound := Some found, pa_watching := Some (choose_copy found)\<rparr>)
             (addr_of (choose_copy found)))))) says_one (off_page off)"
    by (rule takes_seq [OF keeps [OF push_titles_keep [OF assms]]], rule takes_if, rule takes_give, assumption,
        simp add: says_one_def n, rule takes_seq [OF keeps [OF wait_keep [OF assms]]],
        rule takes_seq [OF keeps [OF reading_keep]], rule takes_if, rule takes_give, assumption,
        simp add: says_one_def n, rule pass_watched_off [OF assms n(1)])
qed

text \<open>What the passes over the new PIDs report.\<close>

definition passes_ok :: "string list \<Rightarrow> titles_passes \<Rightarrow> bool" where
  "passes_ok pids q \<longleftrightarrow> length (tq_byPid q) = length pids \<and> list_all says_one (tq_byPid q) \<and>
     tq_responder q = find parsed_payload (tq_byPid q) \<and>
     (tq_controlSignature q = None \<longleftrightarrow> list_ex parsed_payload (tq_byPid q) = False) \<and>
     (tq_controlExtension q = None \<longleftrightarrow> tq_controlSignature q = None) \<and>
     (case tq_controlSignature q of None \<Rightarrow> True | Some c \<Rightarrow> says_one c) \<and>
     (case tq_controlExtension q of None \<Rightarrow> True | Some c \<Rightarrow> says_one c)"

lemma find_None_ex: "find p xs = None \<longleftrightarrow> list_ex p xs = False"
  by (induction xs) simp_all

text \<open>
  C29.  No pass leaves the watch on.  Whatever the box does, the passes and their controls do not raise, and when
  they are through the read watch is off; each pass says either why it stopped or what it found, and the
  controls are made if and only if some pass found a parser.
\<close>

theorem passes_end_unwatched:
  assumes "unwatched_by G off" "off (dy_page s)"
  shows "\<exists>q s'. titles_passes G pids s = (Inr q, s') \<and> off (dy_page s') \<and> passes_ok pids q"
proof -
  let ?name = "\<lambda>p. ''PID '' @ p @ '', ext 0xBBB, payload signed 9E 8B''"
  have y: "yields (off_page off) (each (\<lambda>p. pass G (?name p) (pid_of p) 0x0BBB True) pids)
      (\<lambda>rs. length rs = length pids \<and> (\<forall>r \<in> set rs. says_one r))"
    by (rule yields_each) (simp add: yields_takes pass_off [OF assms(1)])
  have J: "off_page off s" using assms(2) by (simp add: off_page_def)
  from yields_at [OF y J] obtain rs s1 where 1: "each (\<lambda>p. pass G (?name p) (pid_of p) 0x0BBB True) pids s = (Inr rs, s1)"
      "length rs = length pids" "\<forall>r \<in> set rs. says_one r" "off_page off s1"
    by (elim exE conjE)
  show ?thesis
  proof (cases "find parsed_payload rs")
    case None
    have "titles_passes G pids s = (Inr \<lparr>tq_byPid = rs, tq_responder = None, tq_controlSignature = None,
        tq_controlExtension = None, tq_tables = tablesWanted G (dy_page s1)\<rparr>, s1)"
      unfolding titles_passes_def seq_def [of "each _ pids"] 1(1) Let_def by (simp only: sum.case prod.case None option.case) simp
    then show ?thesis using 1(2-4) None find_None_ex [of parsed_payload rs]
      by (simp add: passes_ok_def off_page_def list_all_iff)
  next
    case (Some r)
    let ?p = "pid_of (pa_pid r)"
    note step = pass_off [OF assms(1), unfolded takes_def, rule_format]
    obtain c1 s2 where 2: "pass G ''control: same PID and extension, payload NOT signed'' ?p 0x0BBB False s1 = (Inr c1, s2)"
        "says_one c1" "off_page off s2"
      using step [OF 1(4), where name = "''control: same PID and extension, payload NOT signed''" and pid = ?p and ext = "0x0BBB" and sig = False] by (elim exE conjE)
    obtain c2 s3 where 3: "pass G ''control: same PID, signed, extension 0xBAD outside the mask'' ?p 0x0BAD True s2 = (Inr c2, s3)"
        "says_one c2" "off_page off s3"
      using step [OF 2(3), where name = "''control: same PID, signed, extension 0xBAD outside the mask''" and pid = ?p and ext = "0x0BAD" and sig = True] by (elim exE conjE)
    have "list_ex parsed_payload rs" using Some find_None_ex [of parsed_payload rs] by simp
    moreover have "titles_passes G pids s = (Inr \<lparr>tq_byPid = rs, tq_responder = Some r, tq_controlSignature = Some c1,
        tq_controlExtension = Some c2, tq_tables = tablesWanted G (dy_page s3)\<rparr>, s3)"
      unfolding titles_passes_def seq_def [of "each _ pids"] 1(1) Let_def
      by (simp only: sum.case prod.case Some option.case) (simp add: seq_def 2(1) 3(1))
    ultimately show ?thesis using 1(2,3) 2(2) 3(2,3) Some
      by (simp add: passes_ok_def off_page_def list_all_iff)
  qed
qed

section \<open>The summaries\<close>

definition about :: "int \<Rightarrow> int \<Rightarrow> summary_pass \<Rightarrow> bool" where
  "about pid ext r \<longleftrightarrow> sm_pid r = hx pid \<and> sm_extension r = hx ext"

lemma summary_watched_off:
  assumes "unwatched_by G off" "about pid ext r"
  shows "takes J (summary_watched G pid tableId ext r mid) (about pid ext) (off_page off)"
proof -
  have "takes (off_page off) (case got of (p1, None) \<Rightarrow> give (r\<lparr>sm_error := Some e\<rparr>)
      | (p1, Some lg) \<Rightarrow> seq (reading (f lg)) (\<lambda>again.
         give (case again of [] \<Rightarrow> r\<lparr>sm_reads := Some (rl_reads lg), sm_error := Some e'\<rparr>
           | a # _ \<Rightarrow> summary_read (r\<lparr>sm_reads := Some (rl_reads lg)\<rparr>) (addr_of a - 6) (rl_all lg))))
      (about pid ext) (off_page off)" for got :: "pushed_at \<times> read_log option" and e e' and f :: "read_log \<Rightarrow> 'a titles \<Rightarrow> string list"
    using assms(2) by (simp add: takes_def about_def summary_read_def Let_def split: option.split list.split prod.split)
  then show ?thesis
    unfolding summary_watched_def by (rule takes_seq [OF under_watch_off [OF assms(1) push_summary_runs]])
qed

lemma summaryPass_off:
  assumes "unwatched_by G off"
  shows "takes (off_page off) (summaryPass G name pid tableId ext) (about pid ext) (off_page off)"
  unfolding summaryPass_def Let_def
proof (rule takes_seq [OF keeps [OF push_summary_keep [OF assms]]])
  fix p0
  let ?r = "start_summary name pid tableId ext"
  have n: "about pid ext ?r" "about pid ext (?r\<lparr>sm_copiesFound := c, sm_watching := w\<rparr>)" for c w
    by (simp_all add: about_def start_summary_def)
  show "takes (off_page off) (if \<not> pr_ok p0 then give (?r\<lparr>sm_error := Some (''push refused: '' @ pr_why p0)\<rparr>)
      else seq (pausing G 8000) (\<lambda>_.
      seq (reading (\<lambda>s. outside_ring 2048 (pu_at p0) (t_find G (dy_page s) SMARK 0x80000000 0x82000000 24))) (\<lambda>found.
      if found = []
      then give (?r\<lparr>sm_copiesFound := Some found, sm_answer := Some ''delivered and never copied out of the ring''\<rparr>)
      else summary_watched G pid tableId ext
             (?r\<lparr>sm_copiesFound := Some found, sm_watching := Some (choose_copy found)\<rparr>)
             (addr_of (choose_copy found))))) (about pid ext) (off_page off)"
    by (rule takes_if, rule takes_give, assumption, simp add: about_def start_summary_def,
        rule takes_seq [OF keeps [OF wait_keep [OF assms]]], rule takes_seq [OF keeps [OF reading_keep]],
        rule takes_if, rule takes_give, assumption, simp add: about_def start_summary_def,
        rule summary_watched_off [OF assms n(2)])
qed

text \<open>The passes of \<open>k\<close> extensions: each on PID 0x33, then on PID 0x52.\<close>

definition both_pids :: "int list \<Rightarrow> (string \<times> string) list" where
  "both_pids es = concat (map (\<lambda>e. [(hx 0x33, hx e), (hx 0x52, hx e)]) es)"

lemma summary_loop_runs:
  assumes "unwatched_by G off" "off_page off s" "\<not> list_ex sm_parsed sofar"
  shows "\<exists>k new s'. summary_loop G es sofar s = (Inr (sofar @ new), s') \<and> off_page off s' \<and> k \<le> length es \<and>
    map (\<lambda>r. (sm_pid r, sm_extension r)) new = both_pids (take k es) \<and>
    \<not> list_ex sm_parsed (take (2 * (k - 1)) new) \<and> (k = length es \<or> list_ex sm_parsed new)"
  using assms(2,3)
proof (induction es arbitrary: sofar s)
  case Nil
  then show ?case by (simp add: both_pids_def)
next
  case (Cons e es)
  obtain a s1 where a: "summaryPass G (''0xA8 on PID 0x33, ext '' @ hx e) 0x33 0xA8 e s = (Inr a, s1)" "about 0x33 e a" "off_page off s1"
    using summaryPass_off [OF assms(1)] Cons.prems(1) unfolding takes_def by blast
  obtain b s2 where b: "summaryPass G (''0xA8 on PID 0x52, ext '' @ hx e) 0x52 0xA8 e s1 = (Inr b, s2)" "about 0x52 e b" "off_page off s2"
    using summaryPass_off [OF assms(1)] a(3) unfolding takes_def by blast
  have run: "summary_loop G (e # es) sofar s =
      (if list_ex sm_parsed [a, b] then give (sofar @ [a, b]) s2 else summary_loop G es (sofar @ [a, b]) s2)"
    using a(1) b(1) Cons.prems(2) by (simp add: seq_def Let_def)
  have ab: "map (\<lambda>r. (sm_pid r, sm_extension r)) [a, b] = both_pids [e]"
    using a(2) b(2) by (simp add: both_pids_def about_def)
  show ?case
  proof (cases "list_ex sm_parsed [a, b]")
    case True
    with run ab b(3) show ?thesis
      by (intro exI [of _ 1] exI [of _ "[a, b]"] exI [of _ s2]) simp
  next
    case False
    with Cons.prems(2) have "\<not> list_ex sm_parsed (sofar @ [a, b])" by simp
    from Cons.IH [OF b(3) this] obtain k new s' where
      k: "summary_loop G es (sofar @ [a, b]) s2 = (Inr ((sofar @ [a, b]) @ new), s')" "off_page off s'" "k \<le> length es"
        "map (\<lambda>r. (sm_pid r, sm_extension r)) new = both_pids (take k es)"
        "\<not> list_ex sm_parsed (take (2 * (k - 1)) new)" "k = length es \<or> list_ex sm_parsed new" by blast
    have "both_pids (take (Suc k) (e # es)) = both_pids [e] @ both_pids (take k es)" by (simp add: both_pids_def)
    moreover have "\<not> list_ex sm_parsed (take (2 * (Suc k - 1)) ([a, b] @ new))"
      using False k(5) by (cases k) (simp_all add: numeral_2_eq_2)
    ultimately show ?thesis using run False k ab
      by (intro exI [of _ "Suc k"] exI [of _ "[a, b] @ new"] exI [of _ s']) auto
  qed
qed

text \<open>
  The loop over the summaries ends.  It never raises and leaves the watch off; it makes the passes of the
  first \<open>k\<close> extensions, each on both PIDs, in order; only those of the last one may have been read, and when
  extensions are left over one of them was.
\<close>

theorem summary_loop_stops:
  assumes "unwatched_by G off" "off (dy_page s)"
  shows "\<exists>k ps s'. summary_loop G es [] s = (Inr ps, s') \<and> off (dy_page s') \<and> k \<le> length es \<and>
    map (\<lambda>r. (sm_pid r, sm_extension r)) ps = both_pids (take k es) \<and>
    \<not> list_ex sm_parsed (take (2 * (k - 1)) ps) \<and> (k = length es \<or> list_ex sm_parsed ps)"
  using summary_loop_runs [OF assms(1), of s "[]" es] assms(2) by (simp add: off_page_def)

section \<open>Headers taken for text\<close>

text \<open>A walker that reads the four bytes of every record's header and nothing else.\<close>

fun header_reads :: "int \<Rightarrow> int list \<Rightarrow> read_entry list" where
  "header_reads a (b0 # b1 # h # l # rest) =
     (let n = nat ((h AND 0x0F) * 256 + l) in
      \<lparr>rd_pc = ''0x800AD5B4'', rd_at = a, rd_size = 4\<rparr> # header_reads (a + 4 + int n) (drop n rest))"
| "header_reads a _ = []"

definition moved_by :: "int \<Rightarrow> read_entry \<Rightarrow> read_entry" where
  "moved_by d r = r\<lparr>rd_at := d + rd_at r\<rparr>"

lemma header_reads_moved: "header_reads (d + a) xs = map (moved_by d) (header_reads a xs)"
  by (induction a xs rule: header_reads.induct) (simp_all add: Let_def moved_by_def add.assoc)

lemma offsets_read_moved: "offsets_read start len (map (moved_by start) lg) = offsets_read 0 len lg"
proof -
  have "touched start len (moved_by start r) = touched 0 len r" for r
    by (simp add: touched_def moved_by_def)
  then show ?thesis by (simp add: offsets_read_def comp_def)
qed

text \<open>
  A walk over the headers is reported as reading the text.  A reader that reads the header of each of the
  twelve summary records and no byte of any descriptor makes the probe say that the text was reached: the
  range from 6 up to 40 it takes for the first text ends four bytes into the second record.
\<close>

theorem header_walk_is_taken_for_text:
  "offsets_read start 462 (header_reads start SUMMARIES)
     = concat (map (\<lambda>i. [i..i + 3]) [0, 36, 71, 106, 147, 183, 221, 261, 298, 346, 389, 426]) \<and>
   sm_reachedTheText (summary_read r start (header_reads start SUMMARIES))"
proof -
  have "offsets_read 0 462 (header_reads 0 SUMMARIES)
     = concat (map (\<lambda>i. [i..i + 3]) [0, 36, 71, 106, 147, 183, 221, 261, 298, 346, 389, 426])"
    by code_simp
  then have o: "offsets_read start 462 (header_reads start SUMMARIES)
     = concat (map (\<lambda>i. [i..i + 3]) [0, 36, 71, 106, 147, 183, 221, 261, 298, 346, 389, 426])"
    using header_reads_moved [of start 0 SUMMARIES] by (simp add: offsets_read_moved)
  then have "sm_reachedTheText (summary_read r start (header_reads start SUMMARIES))"
    by (simp add: summary_read_def Let_def SUMMARIES_bytes list_ex_iff)
  with o show ?thesis by blast
qed

section \<open>A box under watch\<close>

text \<open>
  A page whose state is whether the watch is on.  It asks for table 0xA1, takes every section, and shows
  one reader, of two bytes.
\<close>

definition watch_page :: "bool titles_api" where
  "watch_page = \<lparr>g_hist = (\<lambda>w a. 0), g_profile = (\<lambda>w. w), g_wait = (\<lambda>ms w. w), g_peek = (\<lambda>w a n. replicate n 0),
     g_poke = (\<lambda>a bs w. w), g_key = (\<lambda>raw src w. (''sent'', w)), g_blitLog = (\<lambda>w. []), g_tasks = (\<lambda>w. 42),
     g_shot = (\<lambda>n w. w), g_icount = (\<lambda>w. ''0''), d_boxstate = (\<lambda>w. ''Ready''), d_filters = (\<lambda>w. []),
     d_matches = (\<lambda>w. [\<lparr>mt_tableId = Some 0xA1, mt_extension = Some 0x0BBB, mt_extensionMask = Some 0xFFFC, mt_tableIdMask = 0xFE, mt_bytes = None\<rparr>]),
     d_ids = (\<lambda>w. \<lparr>id_bouquetId = None, id_bouquetIdMask = None, id_tsid = 0, id_networkId = 0\<rparr>),
     d_push = (\<lambda>pid sec w. (\<lparr>pr_ok = True, pr_why = []\<rparr>, w)),
     d_NIT = (\<lambda>v w. (\<lparr>pr_ok = True, pr_why = []\<rparr>, w)), d_SDT = (\<lambda>v w. (\<lparr>pr_ok = True, pr_why = []\<rparr>, w)),
     d_TDT = (\<lambda>y mo d hh w. ([], w)), d_TOT = (\<lambda>y mo d hh w. w), d_carouselRunning = (\<lambda>w. False),
     d_eepromWrites = (\<lambda>w. 0), d_traceCalls = (\<lambda>ts w. w), d_traceClear = (\<lambda>w. w), d_traceLog = (\<lambda>w. []),
     d_readWatch = (\<lambda>lo hi pcs mx w. (mx, w)), d_readWatchLog = (\<lambda>w. \<lparr>wl_byPc = None, wl_all = [], wl_capped = False\<rparr>),
     d_readUnwatch = (\<lambda>w. False), d_call = (\<lambda>a i args w. (''{}'', w)),
     t_push = (\<lambda>pid sec w. (\<lparr>pr_ok = True, pr_why = [], pu_at = ''0x80100000''\<rparr>, w)),
     t_find = (\<lambda>w b lo hi mx. [''0x80300008'']), t_watch = (\<lambda>lo hi w. True),
     t_log = (\<lambda>w. \<lparr>rl_reads = 1, rl_capped = False,
        rl_all = [\<lparr>rd_pc = ''0x800C95D0'', rd_at = 0x80300002, rd_size = 2\<rparr>]\<rparr>)\<rparr>"

definition fresh_titles :: "'w \<Rightarrow> 'w titles" where
  "fresh_titles w = \<lparr>dy_page = w, dy_bat = 0, dy_a1 = 0, dy_last = None, dy_table = 0xA1, dy_filter = (0x9E, 0x8B),
     dy_pushed = 0, dy_refused = 0, ti_sum = 0\<rparr>"

lemma watch_page_off: "unwatched_by watch_page Not" "Not (dy_page (fresh_titles False))"
  by (simp_all add: unwatched_by_def watch_page_def fresh_titles_def)

theorem passes_end_unwatched_witness:
  "\<exists>q s'. titles_passes watch_page [''0x33'', ''0x52''] (fresh_titles False) = (Inr q, s') \<and> \<not> dy_page s' \<and>
    passes_ok [''0x33'', ''0x52''] q"
  by (rule passes_end_unwatched [OF watch_page_off])

theorem summary_loop_stops_witness:
  "\<exists>k ps s'. summary_loop watch_page [0x0BB8..0x0BBB] [] (fresh_titles False) = (Inr ps, s') \<and> \<not> dy_page s' \<and>
    k \<le> length [0x0BB8..0x0BBB :: int] \<and>
    map (\<lambda>r. (sm_pid r, sm_extension r)) ps = both_pids (take k [0x0BB8..0x0BBB]) \<and>
    \<not> list_ex sm_parsed (take (2 * (k - 1)) ps) \<and> (k = length [0x0BB8..0x0BBB :: int] \<or> list_ex sm_parsed ps)"
  by (rule summary_loop_stops [OF watch_page_off])

end
