(* ===== verification/Probe_Loop_Facts.thy ===== *)
theory Probe_Loop_Facts
  imports Probe_Loop Probe_Titles_Facts
begin

text \<open>
  What the descriptor probes guarantee, and what their verdicts do not: the loops they send, the table of
  tags they build from a read log, the watch they take off, and the headlines of a run in which nothing
  was sent.
\<close>

section \<open>The loop that is sent\<close>

lemma loop_descriptor_length [simp]: "length (loop_descriptor t) = 6"
  by (simp add: loop_descriptor_def)

definition layout_of :: "int list \<Rightarrow> descriptor list" where
  "layout_of tags = map (\<lambda>i. \<lparr>de_off = 6 * int i, de_len = 6, de_tag = tags ! i\<rparr>) [0..<length tags]"

lemma layout_of_snoc: "layout_of (tags @ [t]) = layout_of tags @ [\<lparr>de_off = 6 * int (length tags), de_len = 6, de_tag = t\<rparr>]"
proof -
  have "map (\<lambda>i. \<lparr>de_off = 6 * int i, de_len = 6, de_tag = (tags @ [t]) ! i\<rparr>) [0..<length tags] = layout_of tags"
    unfolding layout_of_def by (rule map_cong) (simp_all add: nth_append)
  then show ?thesis by (simp add: layout_of_def nth_append)
qed

lemma length_concat_loop [simp]: "length (concat (map loop_descriptor tags)) = 6 * length tags"
  by (induction tags) simp_all

lemma buildLoop_eq: "buildLoop tags = (concat (map loop_descriptor tags), layout_of tags)"
proof (induction tags rule: rev_induct)
  case Nil
  show ?case by (simp add: buildLoop_def layout_of_def)
next
  case (snoc t tags)
  have "buildLoop (tags @ [t]) = (\<lambda>(descs, layout). (descs @ loop_descriptor t,
      layout @ [\<lparr>de_off = int (length descs), de_len = BODY_LEN + 2, de_tag = t\<rparr>])) (buildLoop tags)"
    by (simp add: buildLoop_def split_beta)
  then show ?case using snoc by (simp add: layout_of_snoc BODY_LEN_def)
qed

text \<open>A walk over a loop: a tag, a length, that many bytes.\<close>

fun walk_loop :: "int list \<Rightarrow> (int \<times> int list) list option" where
  "walk_loop [] = Some []"
| "walk_loop (t # n # rest) =
     (if nat n \<le> length rest then map_option (Cons (t, take (nat n) rest)) (walk_loop (drop (nat n) rest)) else None)"
| "walk_loop _ = None"

text \<open>
  The loop the sweep sends is the loop it means.  A walk by tag and length over the bytes gives back the
  tags in order, each with its four bytes; and the layout says where each of them is.
\<close>

theorem loop_walks_back:
  "walk_loop (fst (buildLoop tags)) = Some (map (\<lambda>t. (t, [t, 0xA5, t, 0x5A])) tags) \<and>
   list_all (\<lambda>d. take 6 (drop (nat (de_off d)) (fst (buildLoop tags))) = loop_descriptor (de_tag d)) (snd (buildLoop tags)) \<and>
   map de_tag (snd (buildLoop tags)) = tags"
proof (intro conjI)
  show "walk_loop (fst (buildLoop tags)) = Some (map (\<lambda>t. (t, [t, 0xA5, t, 0x5A])) tags)"
    unfolding buildLoop_eq fst_conv by (induction tags) (simp_all add: loop_descriptor_def BODY_LEN_def)
  have "take 6 (drop (6 * i) (concat (map loop_descriptor tags))) = loop_descriptor (tags ! i)" if "i < length tags" for i
    using that
  proof (induction tags arbitrary: i)
    case (Cons t tags)
    then show ?case by (cases i) simp_all
  qed simp
  then show "list_all (\<lambda>d. take 6 (drop (nat (de_off d)) (fst (buildLoop tags))) = loop_descriptor (de_tag d)) (snd (buildLoop tags))"
    by (auto simp: buildLoop_eq layout_of_def list_all_iff nat_mult_distrib)
  show "map de_tag (snd (buildLoop tags)) = tags"
    by (simp add: buildLoop_eq layout_of_def comp_def map_nth)
qed

lemma LOOP_HEAD_bytes: "byte_list (loop_payload sig descs) = byte_list descs" "length (loop_payload sig descs) = 6 + length descs"
  by (simp_all add: loop_payload_def LOOP_HEAD_def)

lemma loop_section_parses:
  assumes "byte_list descs" "length descs \<le> 3994" "0 \<le> version" "version < 32" "0 \<le> ext" "ext < 65536"
  shows "parse_section (loop_section sig version ext descs) = Some (0xA1, ext, version, loop_payload sig descs)"
  using parse_with_crc [of "0xA1" ext version "loop_payload sig descs"] assms LOOP_HEAD_bytes [of sig descs]
  by (simp add: loop_section_def Let_def)

section \<open>The table of tags\<close>

lemma foldl_concat_map: "foldl (\<lambda>tb r. foldl f tb (g r)) tb lg = foldl f tb (concat (map g lg))"
  by (induction lg arbitrary: tb) simp_all

lemma map_entry_distinct:
  "distinct (map fst al) \<Longrightarrow> AList.map_entry k f al = map (\<lambda>(a, b). (a, if a = k then f b else b)) al"
proof (induction al)
  case (Cons p al)
  show ?case
  proof (cases "fst p = k")
    case True
    have "a \<noteq> k" if "(a, b) \<in> set al" for a b
      using that Cons.prems True by (auto simp: image_iff)
    then have "map (\<lambda>(a, b). (a, if a = k then f b else b)) al = al"
      by (intro map_idI) auto
    with True show ?thesis by (cases p) simp
  next
    case False
    with Cons show ?thesis by (cases p) simp
  qed
qed simp

text \<open>A table with one entry for each tag, in order.\<close>

definition table_of :: "int list \<Rightarrow> (nat \<Rightarrow> touches) \<Rightarrow> (int \<times> touches) list" where
  "table_of tags c = map (\<lambda>i. (tags ! i, c i)) [0..<length tags]"

lemma table_of_keys [simp]: "map fst (table_of tags c) = tags"
  by (simp add: table_of_def comp_def map_nth)

lemma map_entry_table:
  assumes "distinct tags" "k < length tags"
  shows "AList.map_entry (tags ! k) f (table_of tags c) = table_of tags (c(k := f (c k)))"
proof -
  have "AList.map_entry (tags ! k) f (table_of tags c)
      = map (\<lambda>(a, b). (a, if a = tags ! k then f b else b)) (table_of tags c)"
    by (rule map_entry_distinct) (simp add: assms(1))
  also have "\<dots> = table_of tags (c(k := f (c k)))"
    using assms by (auto simp: table_of_def nth_eq_iff_index_eq)
  finally show ?thesis .
qed

lemma update_new: "k \<notin> fst ` set al \<Longrightarrow> AList.update k v al = al @ [(k, v)]"
  by (induction al) auto

lemma touch_table_start: "distinct tags \<Longrightarrow> touch_table (layout_of tags) = table_of tags (\<lambda>_. no_touch)"
proof (induction tags rule: rev_induct)
  case Nil
  show ?case by (simp add: touch_table_def layout_of_def table_of_def)
next
  case (snoc t tags)
  have "touch_table (layout_of (tags @ [t])) = AList.update t no_touch (touch_table (layout_of tags))"
    by (simp add: touch_table_def layout_of_snoc)
  also have "\<dots> = table_of tags (\<lambda>_. no_touch) @ [(t, no_touch)]"
  proof -
    have "fst ` set (table_of tags (\<lambda>_. no_touch)) = set tags" by (simp flip: set_map)
    then show ?thesis using snoc by (simp add: update_new)
  qed
  also have "\<dots> = table_of (tags @ [t]) (\<lambda>_. no_touch)"
    by (simp add: table_of_def nth_append)
  finally show ?case .
qed

definition place_of :: "int list \<Rightarrow> nat \<Rightarrow> descriptor" where
  "place_of tags i = \<lparr>de_off = 6 * int i, de_len = 6, de_tag = tags ! i\<rparr>"

definition touch_at :: "int list \<Rightarrow> nat \<Rightarrow> touches \<Rightarrow> int \<Rightarrow> touches" where
  "touch_at tags i c x = (if x div 6 = int i then touch (place_of tags i) x c else c)"

lemma attribute_table:
  assumes "distinct tags" "0 \<le> x" "x < 6 * int (length tags)"
  shows "attribute (sixth (layout_of tags)) (table_of tags c) x = table_of tags (\<lambda>i. touch_at tags i (c i) x)"
proof -
  define k where "k = nat (x div 6)"
  have k: "k < length tags" "x div 6 = int k" using assms(2,3) by (simp_all add: k_def)
  have "sixth (layout_of tags) x = Some (place_of tags k)"
    using k by (simp add: sixth_def BODY_LEN_def layout_of_def place_of_def Let_def)
  then have "attribute (sixth (layout_of tags)) (table_of tags c) x
      = AList.map_entry (tags ! k) (touch (place_of tags k) x) (table_of tags c)"
    by (simp add: attribute_def place_of_def)
  also have "\<dots> = table_of tags (c(k := touch (place_of tags k) x (c k)))"
    by (rule map_entry_table [OF assms(1) k(1)])
  also have "\<dots> = table_of tags (\<lambda>i. touch_at tags i (c i) x)"
    by (auto simp: table_of_def touch_at_def k(2))
  finally show ?thesis .
qed

lemma attribute_all:
  assumes "distinct tags" "list_all (\<lambda>x. 0 \<le> x \<and> x < 6 * int (length tags)) xs"
  shows "foldl (attribute (sixth (layout_of tags))) (table_of tags c) xs = table_of tags (\<lambda>i. foldl (touch_at tags i) (c i) xs)"
  using assms(2)
proof (induction xs arbitrary: c)
  case (Cons x xs)
  have x: "0 \<le> x" "x < 6 * int (length tags)" using Cons.prems by simp_all
  show ?case using Cons attribute_table [OF assms(1) x, of c] by simp
qed simp

lemma touch_at_counts:
  "tc_tag (foldl (touch_at tags i) c xs) = tc_tag c + int (length (filter (\<lambda>x. x = 6 * int i) xs))"
  "tc_body (foldl (touch_at tags i) c xs) = tc_body c + int (length (filter (\<lambda>x. 6 * int i + 2 \<le> x \<and> x < 6 * int i + 6) xs))"
proof (induction xs arbitrary: c)
  case (Cons x xs)
  have d: "x div 6 = int i \<longleftrightarrow> 6 * int i \<le> x \<and> x < 6 * int i + 6" by linarith
  { case 1 show ?case using Cons(1) [of "touch_at tags i c x"] d by (auto simp: touch_at_def touch_def place_of_def) }
  { case 2 show ?case using Cons(2) [of "touch_at tags i c x"] d by (auto simp: touch_at_def touch_def place_of_def) }
qed simp_all

text \<open>\<open>x\<close> is an offset of the loop that somebody read.\<close>

definition was_read :: "int \<Rightarrow> int \<Rightarrow> read_entry list \<Rightarrow> int \<Rightarrow> bool" where
  "was_read start len lg x \<longleftrightarrow> list_ex (\<lambda>r. x \<in> set (touched start len r)) lg"

lemma map_fst_sort_key: "map fst (sort_key fst al) = sort (map fst (al :: (int \<times> 'b) list))"
  by (rule properties_for_sort [symmetric]) (simp_all add: mset_map [symmetric] del: mset_map, simp)



section \<open>The watch is taken off\<close>

lemma push_loop_runs: "length descs \<le> 4078 \<Longrightarrow> \<exists>a s'. push_loop G descs ext sig s = (Inr a, s')"
  by (simp add: push_loop_def Let_def push_section_runs LOOP_HEAD_bytes)

lemma push_loop_keep:
  "unwatched_by G off \<Longrightarrow> length descs \<le> 4078 \<Longrightarrow> yields (off_page off) (push_loop G descs ext sig) (\<lambda>_. True)"
  by (simp add: yields_def push_loop_def Let_def push_section_runs LOOP_HEAD_bytes off_page_def unwatched_byD)

definition fresh_pass :: "loop_pass \<Rightarrow> bool" where
  "fresh_pass r \<longleftrightarrow> lo_error r = None \<and> lo_answer r = None"

definition loop_said :: "loop_pass \<Rightarrow> bool" where
  "loop_said r \<longleftrightarrow> (lo_error r = None \<longleftrightarrow> lo_answer r \<noteq> None)"

text \<open>Without a copy the pass has its error or nothing yet; with one it has nothing yet.\<close>

definition copy_found :: "loop_pass \<times> int option \<Rightarrow> bool" where
  "copy_found x \<longleftrightarrow> lo_answer (fst x) = None \<and> (snd x \<noteq> None \<longrightarrow> lo_error (fst x) = None)"

lemma find_copy_off:
  assumes "unwatched_by G off" "length descs \<le> 4078" "fresh_pass r"
  shows "takes (off_page off) (find_copy G descs ext sig pattern r) copy_found (off_page off)"
  unfolding find_copy_def
  by (rule takes_seq [OF keeps [OF reading_keep]], rule takes_if, rule takes_give, assumption,
      use assms(3) in \<open>simp add: copy_found_def fresh_pass_def\<close>,
      rule takes_seq [OF keeps [OF push_loop_keep [OF assms(1,2)]]], rule takes_if, rule takes_give, assumption,
      use assms(3) in \<open>simp add: copy_found_def fresh_pass_def\<close>,
      rule takes_seq [OF keeps [OF wait_keep [OF assms(1)]]], rule takes_seq [OF keeps [OF reading_keep]],
      rule takes_if, rule takes_give, assumption, use assms(3) in \<open>simp add: copy_found_def fresh_pass_def\<close>,
      rule takes_give, assumption, use assms(3) in \<open>simp add: copy_found_def fresh_pass_def\<close>)

lemma sweep_watched_off:
  assumes "unwatched_by G off" "length (fst (buildLoop tags)) \<le> 4078" "fresh_pass r"
  shows "takes J (sweep_watched G tags ext sig r mid) loop_said (off_page off)"
proof -
  have h: "takes J (on_page (section_hits G)) (\<lambda>_. True) (\<lambda>_. True)"
    by (simp add: takes_def on_page_def section_hits_runs)
  note p = under_watch_off [OF assms(1) push_loop_runs [OF assms(2)]]
  show ?thesis
    unfolding sweep_watched_def Let_def split_beta
    by (rule takes_seq [OF h], rule takes_seq [OF p], unfold takes_def,
        use assms(3) in \<open>auto simp: seq_def on_page_def section_hits_runs off_page_def loop_said_def fresh_pass_def
          Let_def split: option.split list.split\<close>)
qed

lemma sweep_pass_off:
  assumes "unwatched_by G off" "length tags \<le> 679"
  shows "takes (off_page off) (sweep_pass G name tags ext sig) loop_said (off_page off)"
proof -
  have l: "length (fst (buildLoop tags)) \<le> 4078" using assms(2) by (simp add: buildLoop_eq)
  have f: "fresh_pass (start_loop name (fst (buildLoop tags)) ext sig)" by (simp add: fresh_pass_def start_loop_def)
  show ?thesis
    unfolding sweep_pass_def Let_def
  proof (rule takes_seq [OF find_copy_off [OF assms(1) l f]])
    fix x :: "loop_pass \<times> int option"
    assume x: "copy_found x"
    obtain r chosen where [simp]: "x = (r, chosen)" by (cases x)
    show "takes (off_page off) (case x of (r, None) \<Rightarrow> give (if lo_error r = None
          then r\<lparr>lo_answer := Some ''DELIVERED AND NEVER COPIED OUT OF THE RING -- nothing took it'',
                 lo_coverage := Some ''unknown: there was no copy to watch''\<rparr> else r)
        | (r, Some mid) \<Rightarrow> sweep_watched G tags ext sig r mid) loop_said (off_page off)"
    proof (cases chosen)
      case None
      then show ?thesis using x by (simp add: takes_def copy_found_def loop_said_def)
    next
      case (Some mid)
      with x have "fresh_pass r" by (simp add: copy_found_def fresh_pass_def)
      with sweep_watched_off [OF assms(1) l] Some show ?thesis by simp
    qed
  qed
qed

lemma SWEEP_short: "list_all (\<lambda>x. length (snd x) \<le> 679) SWEEP"
  by code_simp

lemma SWEEP_length [simp]: "length SWEEP = 5"
  by (simp add: SWEEP_def)

text \<open>The controls are made when a walk reached its last descriptor.\<close>

definition controls_said :: "loop_pass list \<Rightarrow> (loop_pass \<times> loop_pass) option \<Rightarrow> bool" where
  "controls_said ps cs \<longleftrightarrow> (cs \<noteq> None \<longleftrightarrow> list_ex reached_last ps) \<and> pred_option (\<lambda>(a, b). loop_said a \<and> loop_said b) cs"

lemma sweep_controls_off:
  assumes "unwatched_by G off"
  shows "takes (off_page off) (sweep_controls G ps) (controls_said ps) (off_page off)"
proof -
  have l: "length [0x41..0x80 :: int] \<le> 679" by simp
  note pass = sweep_pass_off [OF assms l]
  show ?thesis
    unfolding sweep_controls_def
    by (rule takes_if, rule takes_seq [OF pass], rule takes_seq [OF pass], rule takes_give, assumption,
        simp add: controls_said_def, rule takes_give, assumption, simp add: controls_said_def)
qed

lemma sweep_passes_off:
  assumes "unwatched_by G off" "list_all (\<lambda>x. length (snd x) \<le> 679) SW"
  shows "takes (off_page off) (each (\<lambda>(name, tags). sweep_pass G name tags 0x0BBB True) SW)
    (\<lambda>ps. length ps = length SW \<and> list_all loop_said ps) (off_page off)"
proof -
  have "yields (off_page off) (each (\<lambda>(name, tags). sweep_pass G name tags 0x0BBB True) SW)
      (\<lambda>ps. length ps = length SW \<and> (\<forall>p \<in> set ps. loop_said p))"
    by (rule yields_each) (use assms(2) in \<open>simp add: yields_takes split_beta sweep_pass_off [OF assms(1)] list_all_iff\<close>)
  then show ?thesis by (simp add: yields_takes list_all_iff)
qed

text \<open>What the report of a sweep says of its passes and its controls.\<close>

definition sweep_said :: "nat \<Rightarrow> sweep_report \<Rightarrow> bool" where
  "sweep_said n R \<longleftrightarrow> length (sw_passes R) = n \<and> list_all loop_said (sw_passes R) \<and>
     (sw_controlUnsigned R \<noteq> None \<longleftrightarrow> list_ex reached_last (sw_passes R)) \<and>
     (sw_controlExtension R \<noteq> None \<longleftrightarrow> list_ex reached_last (sw_passes R)) \<and>
     pred_option loop_said (sw_controlUnsigned R) \<and> pred_option loop_said (sw_controlExtension R)"

lemma sweep_over_off:
  assumes "unwatched_by G off" "list_all (\<lambda>x. length (snd x) \<le> 679) SW"
  shows "takes (off_page off) (sweep_over G SW) (sweep_said (length SW)) (off_page off)"
  unfolding sweep_over_def
  by (rule takes_seq [OF sweep_passes_off [OF assms]], rule takes_seq [OF sweep_controls_off [OF assms(1)]])
     (auto simp: takes_def controls_said_def sweep_said_def pred_option_def split: prod.splits)

text \<open>
  The sweep ends with the watch off.  It never raises, whatever the page answers; it makes five passes and
  each of them says either why it stopped or what it found, not both; the two controls are made if and only
  if some walk reached its last descriptor, and they say one of the two as well.
\<close>

theorem sweep_ends_unwatched:
  assumes "unwatched_by G off" "off (dy_page s)"
  shows "\<exists>R s'. sweep_loops G s = (Inr R, s') \<and> off (dy_page s') \<and> sweep_said 5 R"
  using sweep_over_off [OF assms(1) SWEEP_short] assms(2)
  by (auto simp: takes_def off_page_def sweep_loops_def)

theorem sweep_ends_unwatched_witness:
  "\<exists>R s'. sweep_loops watch_page (fresh_titles False) = (Inr R, s') \<and> \<not> dy_page s' \<and> sweep_said 5 R"
  by (rule sweep_ends_unwatched [OF watch_page_off])

section \<open>Verdicts of a run in which nothing was sent\<close>

definition lapsed :: "loop_pass \<Rightarrow> bool" where
  "lapsed p \<longleftrightarrow> lo_error p = Some ''the 0xA1 subscription lapsed -- a zero here would be about timing'' \<and>
     lo_walk p = None \<and> lo_coverage p = None"

lemma lapsed_sweep_pass: "\<not> wants G 0xA1 (dy_page s) \<Longrightarrow> \<exists>r. sweep_pass G name tags ext sig s = (Inr r, s) \<and> lapsed r"
  by (simp add: sweep_pass_def find_copy_def Let_def seq_def give_def lapsed_def start_loop_def)

lemma lapsed_bcPass: "\<not> wants G 0xA1 (dy_page s) \<Longrightarrow> \<exists>r. bcPass G name descs layout ext sig s = (Inr r, s) \<and> lapsed r"
  by (simp add: bcPass_def find_copy_def Let_def seq_def give_def lapsed_def start_loop_def)

lemma lapsed_nothing: "lapsed p \<Longrightarrow> \<not> consumed p \<and> \<not> coverage_failed p \<and> \<not> reached_last p \<and> silent p"
  by (simp add: lapsed_def consumed_def coverage_failed_def reached_last_def silent_def walked_some_def)

lemma each_lapsed:
  assumes "\<And>x. \<exists>r. f x s = (Inr r, s) \<and> lapsed r"
  shows "\<exists>rs. each f xs s = (Inr rs, s) \<and> length rs = length xs \<and> list_all lapsed rs"
proof (induction xs)
  case (Cons x xs)
  then show ?case using assms [of x] by (elim exE conjE) (simp add: seq_def give_def)
qed (simp add: give_def)

text \<open>
  A clean sweep needs no sweep.  When the box does not ask for the table, no section is pushed, every pass ends
  with its error, and the headline is that no tag made anybody read a body and that every pass reached its
  last descriptor; the list of coverage failures is empty.
\<close>

theorem clean_sweep_without_a_section:
  assumes "\<not> wants G 0xA1 (dy_page s)"
  shows "\<exists>R. sweep_loops G s = (Inr R, s) \<and> length (sw_passes R) = 5 \<and> list_all lapsed (sw_passes R) \<and>
    sw_coverageFailures R = [] \<and> sw_headline R = SWEEP_CLEAN"
proof -
  obtain ps where ps: "each (\<lambda>(name, tags). sweep_pass G name tags 0x0BBB True) SWEEP s = (Inr ps, s)"
      "length ps = length SWEEP" "list_all lapsed ps"
    using each_lapsed [of "\<lambda>(name, tags). sweep_pass G name tags 0x0BBB True" s SWEEP] lapsed_sweep_pass [OF assms]
    by (auto simp: split_beta)
  then have none: "filter consumed ps = []" "filter coverage_failed ps = []" "\<not> list_ex reached_last ps"
    using lapsed_nothing by (auto simp: list_all_iff list_ex_iff filter_empty_conv)
  show ?thesis
    by (simp add: sweep_loops_def sweep_over_def seq_def ps sweep_controls_def none sweep_headline_def give_def)
qed

theorem bc_verdicts_without_a_section:
  assumes "\<not> wants G 0xA1 (dy_page s)"
  shows "\<exists>R. bc_loops G s = (Inr R, s) \<and> list_all lapsed (bc_passes R) \<and> bc_controlsHeld R \<and> \<not> bc_bcIsConsumed R \<and>
    prefix ''0xBC was walked and NOT consumed on this path'' (bc_headlineText R)"
proof -
  obtain ps where ps: "each (\<lambda>(name, descs, layout). bcPass G name descs layout 0x0BBB True) BC_PASSES s = (Inr ps, s)"
      "length ps = length BC_PASSES" "list_all lapsed ps"
    using each_lapsed [of "\<lambda>(name, descs, layout). bcPass G name descs layout 0x0BBB True" s BC_PASSES] lapsed_bcPass [OF assms]
    by (auto simp: split_beta)
  have "length ps = 3" using ps(2) by (simp add: BC_PASSES_def)
  then have p: "lapsed (ps ! 0)" using ps(3) by (simp add: list_all_iff)
  obtain c1 c2 where c:
      "bcPass G ''control: NOT signed (must go silent)'' (fst BC_LOOP) (snd BC_LOOP) 0x0BBB False s = (Inr c1, s)" "lapsed c1"
      "bcPass G ''control: extension 0xBAD outside the mask (must go silent)'' (fst BC_LOOP) (snd BC_LOOP) 0x0BAD True s = (Inr c2, s)" "lapsed c2"
    using lapsed_bcPass [OF assms] by blast
  have "bc_headline (ps ! 0) = ''0xBC was walked and NOT consumed on this path'' @ drop 45 (bc_headline (ps ! 0))"
    using lapsed_nothing [OF p] p by (simp add: bc_headline_def lapsed_def)
  then have "prefix ''0xBC was walked and NOT consumed on this path'' (bc_headline (ps ! 0))" by (rule prefixI)
  then show ?thesis
    using lapsed_nothing [OF p] lapsed_nothing [OF c(2)] lapsed_nothing [OF c(4)] ps(3)
    by (simp add: bc_loops_def seq_def ps(1) c(1,3) reading_def give_def)
qed

text \<open>A page that asks for nothing.\<close>

definition deaf_page :: "bool titles_api" where
  "deaf_page = watch_page\<lparr>d_matches := (\<lambda>w. [])\<rparr>"

lemma deaf_page_wants: "\<not> wants deaf_page 0xA1 (dy_page (fresh_titles False))"
  by (simp add: deaf_page_def wants_def)

theorem clean_sweep_without_a_section_witness:
  "\<exists>R. sweep_loops deaf_page (fresh_titles False) = (Inr R, fresh_titles False) \<and> length (sw_passes R) = 5 \<and>
    list_all lapsed (sw_passes R) \<and> sw_coverageFailures R = [] \<and> sw_headline R = SWEEP_CLEAN"
  by (rule clean_sweep_without_a_section [OF deaf_page_wants])

theorem bc_verdicts_without_a_section_witness:
  "\<exists>R. bc_loops deaf_page (fresh_titles False) = (Inr R, fresh_titles False) \<and> list_all lapsed (bc_passes R) \<and>
    bc_controlsHeld R \<and> \<not> bc_bcIsConsumed R \<and>
    prefix ''0xBC was walked and NOT consumed on this path'' (bc_headlineText R)"
  by (rule bc_verdicts_without_a_section [OF deaf_page_wants])

end
