(* ===== verification/Probe_Tables_Facts.thy ===== *)
theory Probe_Tables_Facts
  imports Probe_Tables Probe_Loop_Facts
begin

text \<open>
  What the probes of \<open>Probe_Tables\<close> guarantee: the sections a receiver accepts, the tags the two sweeps cover
  together, the readers that are named, the watch that is taken off, and the negatives reported by runs in
  which nothing was sent.
\<close>

section \<open>The two sweeps together\<close>

text \<open>
  Every tag is swept: the first run sends 1 to 255 in order and then 0, the second 0x81 to 0xC0 again, with
  0xB5 alone and nothing behind it; no pass repeats a tag, which is what \<open>sweep_tags_exact\<close> asks for.
\<close>

theorem sweeps_cover_all_tags:
  "concat (map snd SWEEP) = [1..255] @ [0x00, 0x11, 0x22] \<and> sort (concat (map snd CLOSING)) = [0x81..0xC0] \<and>
   list_all (\<lambda>x. distinct (snd x) \<and> snd x \<noteq> [] \<and> (0xB5 \<in> set (snd x) \<longrightarrow> last (snd x) = 0xB5)) CLOSING \<and>
   list_all (\<lambda>x. distinct (snd x) \<and> snd x \<noteq> []) SWEEP"
  by (intro conjI) code_simp+

lemma CLOSING_short: "list_all (\<lambda>x. length (snd x) \<le> 679) CLOSING"
  by code_simp

lemma CLOSING_length [simp]: "length CLOSING = 3"
  by (simp add: CLOSING_def)

theorem closing_ends_unwatched:
  assumes "unwatched_by G off" "off (dy_page s)"
  shows "\<exists>R s'. closing_loops G s = (Inr R, s') \<and> off (dy_page s') \<and> sweep_said 3 R"
  using sweep_over_off [OF assms(1) CLOSING_short] assms(2)
  by (auto simp: takes_def off_page_def closing_loops_def)

section \<open>The sections\<close>

theorem b5_section_parses:
  assumes "0 \<le> version" "version < 32"
  shows "parse_section (loop_section True version 0x0BBB (b5_descriptor f1 f2))
    = Some (0xA1, 0x0BBB, version, LOOP_HEAD @ [0xB5, 4] @ u16 f1 @ u16 f2)"
  using loop_section_parses [of "b5_descriptor f1 f2" version "0x0BBB" True] assms u16_bytes u16_length
  by (simp add: b5_descriptor_def loop_payload_def)

lemma selfNaming_bytes: "byte_list (selfNaming sig)" "length (selfNaming sig) = 96"
proof -
  have "byte_list (selfNaming True) \<and> byte_list (selfNaming False) \<and> length (selfNaming True) = 96 \<and> length (selfNaming False) = 96"
    by code_simp
  then show "byte_list (selfNaming sig)" "length (selfNaming sig) = 96" by (cases sig, simp_all)+
qed

theorem table_section_parses:
  assumes "0 \<le> tableId" "tableId < 256" "0 \<le> version" "version < 32" "0 \<le> ext" "ext < 65536"
  shows "parse_section (table_section tableId version ext sig) = Some (tableId, ext, version, selfNaming sig)"
  using parse_with_crc [OF assms(1,2,5,6,3,4), of "selfNaming sig"] selfNaming_bytes [of sig]
  by (simp add: table_section_def Let_def)

theorem table_marker_once: "places TABLE_MARK 0 (selfNaming sig) = [8]"
proof -
  have "places TABLE_MARK 0 (selfNaming True) = [8]" "places TABLE_MARK 0 (selfNaming False) = [8]" by code_simp+
  then show ?thesis by (cases sig) simp_all
qed

section \<open>Who is named\<close>

lemma table_bulk: "800 \<le> cg_tenths (table_coverage x) \<longleftrightarrow> 77 \<le> snd x"
  by (simp add: table_coverage_def PLEN_def) linarith

lemma PLEN_val [simp]: "PLEN = 96"
  by (simp add: PLEN_def)

lemma table_filter:
  assumes "length rs \<le> 14" "\<And>pc n. (pc, n) \<in> set rs \<longleftrightarrow> 0 < n \<and> n = int (card (B pc))"
  shows "pc \<in> cg_pc ` set (filter (\<lambda>c. P (cg_pc c) (800 \<le> cg_tenths c)) (take 14 (map table_coverage rs))) \<longleftrightarrow>
    0 < card (B pc) \<and> P pc (77 \<le> card (B pc))"
proof -
  have c: "cg_pc (table_coverage x) = fst x" for x by (simp add: table_coverage_def)
  have t: "take 14 (map table_coverage rs) = map table_coverage rs" using assms(1) by simp
  have i: "pc \<in> fst ` {x \<in> set rs. Q x} \<longleftrightarrow> (\<exists>n. (pc, n) \<in> set rs \<and> Q (pc, n))" for Q
    by (simp add: image_iff Bex_def)
  have "pc \<in> cg_pc ` set (filter (\<lambda>c. P (cg_pc c) (800 \<le> cg_tenths c)) (take 14 (map table_coverage rs))) \<longleftrightarrow>
      (\<exists>n. (pc, n) \<in> set rs \<and> P pc (77 \<le> n))"
    by (simp only: t filter_map comp_def set_map set_filter image_image c table_bulk i fst_conv snd_conv)
  also have "\<dots> \<longleftrightarrow> 0 < card (B pc) \<and> P pc (77 \<le> card (B pc))" unfolding assms(2) by auto
  finally show ?thesis .
qed

text \<open>
  As long as at most fourteen program counters read the payload, the readers are named exactly: a parser read
  between 1 and 76 of its 96 bytes, a bulk copier 77 or more, and what is reported as something else is a
  parser that is not the iterator.
\<close>

theorem table_readers_exact:
  assumes "length (readers_of (cover start 96 lg)) \<le> 14"
  shows "(pc \<in> cg_pc ` set (tr_parsers (table_read_of start lg)) \<longleftrightarrow>
      bytes_of start 96 lg pc \<noteq> {} \<and> card (bytes_of start 96 lg pc) < 77) \<and>
    (pc \<in> cg_pc ` set (tr_bulkCopiers (table_read_of start lg)) \<longleftrightarrow> 77 \<le> card (bytes_of start 96 lg pc)) \<and>
    (pc \<in> cg_pc ` set (tr_somethingElse (table_read_of start lg)) \<longleftrightarrow>
      pc \<notin> set LOOP_WALKER \<and> bytes_of start 96 lg pc \<noteq> {} \<and> card (bytes_of start 96 lg pc) < 77)"
proof (intro conjI)
  let ?rs = "readers_of (cover start 96 lg)" and ?B = "bytes_of start 96 lg"
  have m: "(q, n) \<in> set ?rs \<longleftrightarrow> 0 < n \<and> n = int (card (?B q))" for q n
    using readers_exact by blast
  note f = table_filter [OF assms m]
  show "pc \<in> cg_pc ` set (tr_parsers (table_read_of start lg)) \<longleftrightarrow> ?B pc \<noteq> {} \<and> card (?B pc) < 77"
    using f [of pc "\<lambda>p b. \<not> b"] by (simp add: table_read_of_def Let_def not_le some_bytes)
  show "pc \<in> cg_pc ` set (tr_bulkCopiers (table_read_of start lg)) \<longleftrightarrow> 77 \<le> card (?B pc)"
    using f [of pc "\<lambda>p b. b"] by (simp add: table_read_of_def Let_def) linarith
  show "pc \<in> cg_pc ` set (tr_somethingElse (table_read_of start lg)) \<longleftrightarrow>
      pc \<notin> set LOOP_WALKER \<and> ?B pc \<noteq> {} \<and> card (?B pc) < 77"
    using f [of pc "\<lambda>p b. p \<notin> set LOOP_WALKER \<and> \<not> b"]
    by (simp add: table_read_of_def Let_def not_le some_bytes conj_commute) blast
qed

section \<open>The watch is taken off\<close>

lemma push_table_runs: "\<exists>a s'. push_table G tableId ext sig s = (Inr a, s')"
  by (simp add: push_table_def push_section_runs)

lemma push_table_keep: "unwatched_by G off \<Longrightarrow> yields (off_page off) (push_table G tableId ext sig) (\<lambda>_. True)"
  by (simp add: yields_def push_table_def push_section_runs off_page_def unwatched_byD)

definition table_said :: "table_pass \<Rightarrow> bool" where
  "table_said r \<longleftrightarrow> (tb_error r = None \<longleftrightarrow> tb_answer r \<noteq> None)"

lemma table_watched_off:
  assumes "unwatched_by G off" "tb_error r = None" "tb_answer r = None"
  shows "takes J (table_watched G tableId ext sig r mid) table_said (off_page off)"
  unfolding table_watched_def Let_def split_beta
  by (rule takes_seq [OF under_watch_off [OF assms(1) push_table_runs]], unfold takes_def,
      use assms(2,3) in \<open>auto simp: table_said_def split: option.split list.split\<close>)

lemma tablePass_off:
  assumes "unwatched_by G off"
  shows "takes (off_page off) (tablePass G name tableId ext sig) table_said (off_page off)"
  unfolding tablePass_def Let_def
  by (rule takes_seq [OF keeps [OF reading_keep]], rule takes_if, rule takes_give, assumption,
      simp add: table_said_def start_table_def,
      rule takes_seq [OF keeps [OF push_table_keep [OF assms]]], rule takes_if, rule takes_give, assumption,
      simp add: table_said_def start_table_def,
      rule takes_seq [OF keeps [OF wait_keep [OF assms]]], rule takes_seq [OF keeps [OF reading_keep]],
      rule takes_if, rule takes_give, assumption, simp add: table_said_def start_table_def,
      rule table_watched_off [OF assms], simp_all add: start_table_def)

definition a0_said :: "a0_report \<Rightarrow> bool" where
  "a0_said R \<longleftrightarrow> length (a0_passes R) = 2 \<and> list_all table_said (a0_passes R) \<and>
     table_said (a0_controlUnsigned R) \<and> table_said (a0_controlExtension R)"

theorem table_passes_end_unwatched:
  assumes "unwatched_by G off" "off (dy_page s)"
  shows "\<exists>R s'. a0_passes_run G s = (Inr R, s') \<and> off (dy_page s') \<and> a0_said R"
proof -
  have "takes (off_page off) (a0_passes_run G) a0_said (off_page off)"
    unfolding a0_passes_run_def
    by (rule takes_seq [OF tablePass_off [OF assms(1)]], rule takes_seq [OF tablePass_off [OF assms(1)]],
        rule takes_seq [OF tablePass_off [OF assms(1)]], rule takes_seq [OF tablePass_off [OF assms(1)]])
       (simp add: takes_def a0_said_def)
  then show ?thesis using assms(2) by (auto simp: takes_def off_page_def)
qed

section \<open>Negatives without a section\<close>

lemma lapsed_table_pass:
  "\<not> wants G 0xA1 (dy_page s) \<Longrightarrow> \<exists>r. tablePass G name tableId ext sig s = (Inr r, s) \<and> tb_error r \<noteq> None \<and> table_silent r \<and> tb_read r = None"
  by (simp add: tablePass_def Let_def seq_def give_def reading_def table_silent_def start_table_def)

text \<open>With a lapsed subscription nothing is sent, the controls hold, and the headline says that 0xA0 was delivered.\<close>

theorem a0_verdict_without_a_section:
  assumes "\<not> wants G 0xA1 (dy_page s)"
  shows "\<exists>R. a0_passes_run G s = (Inr R, s) \<and> a0_controlsHeld R \<and> list_all (\<lambda>p. tb_error p \<noteq> None) (a0_passes R) \<and>
    a0_headlineText R = ''0xA0 is delivered and nothing parses it -- the mask accepts it but this box does not use it''"
proof -
  note l = lapsed_table_pass [OF assms]
  obtain a where a: "tablePass G ''A: table 0xA0, signed, ext 0xBBB -- never fed before'' 0xA0 0x0BBB True s = (Inr a, s)"
    "tb_error a \<noteq> None" "tb_read a = None" using l by blast
  obtain b where b: "tablePass G ''B: table 0xA1, signed, ext 0xBBB -- the known-parsed control'' 0xA1 0x0BBB True s = (Inr b, s)"
    "tb_error b \<noteq> None" using l by blast
  obtain c where c: "tablePass G ''control: 0xA0 NOT signed (must go silent)'' 0xA0 0x0BBB False s = (Inr c, s)"
    "table_silent c" using l by blast
  obtain d where d: "tablePass G ''control: 0xA0 signed, ext 0xBAD outside the mask (must go silent)'' 0xA0 0x0BAD True s = (Inr d, s)"
    "table_silent d" using l by blast
  show ?thesis
    using a(2,3) b(2) c(2) d(2)
    by (simp add: a0_passes_run_def seq_def a(1) b(1) c(1) d(1) reading_def give_def a0_headline_def)
qed

definition refuses :: "('w, 'z) titles_api_scheme \<Rightarrow> bool" where
  "refuses G \<longleftrightarrow> (\<forall>pid sec w. \<not> pr_ok (fst (t_push G pid sec w)))"

lemma b5_pass_refused:
  assumes "refuses G"
  shows "\<exists>r s'. b5_pass_of G t s = (Inr r, s') \<and> bp_error r \<noteq> None \<and> \<not> bp_changed r"
  using assms
  by (simp add: b5_pass_of_def Let_def numeral_3_eq_3 push_b5_def push_section_runs refuses_def
      seq_def give_def reading_def doing_def)

lemma each_ends:
  assumes "\<And>x s. \<exists>a s'. f x s = (Inr a, s') \<and> P a"
  shows "\<exists>as s'. each f xs s = (Inr as, s') \<and> length as = length xs \<and> list_all P as"
proof -
  have "yields (\<lambda>_. True) (each f xs) (\<lambda>as. length as = length xs \<and> (\<forall>a \<in> set as. P a))"
    by (rule yields_each) (use assms in \<open>simp add: yields_def\<close>)
  then show ?thesis by (simp add: yields_def list_all_iff)
qed

text \<open>
  A negative is recorded by a run in which no section was taken: every trial has its error, and the headline
  says that a well-formed 0xB5 changes no subscription.
\<close>

theorem b5_negative_without_a_section:
  assumes "refuses G"
  shows "\<exists>R s'. b5_trials G s = (Inr R, s') \<and> length (br_passes R) = 4 \<and>
    list_all (\<lambda>p. bp_error p \<noteq> None) (br_passes R) \<and> br_headline R = B5_NOTHING"
proof -
  obtain ps s' where ps: "each (b5_pass_of G) B5_TRIALS s = (Inr ps, s')" "length ps = length B5_TRIALS"
      "list_all (\<lambda>p. bp_error p \<noteq> None \<and> \<not> bp_changed p) ps"
    using each_ends [of "b5_pass_of G" "\<lambda>p. bp_error p \<noteq> None \<and> \<not> bp_changed p" B5_TRIALS s] b5_pass_refused [OF assms]
    by blast
  have "\<not> list_ex bp_changed ps" using ps(3) by (auto simp: list_all_iff list_ex_iff)
  moreover have "length ps = 4" using ps(2) by (simp add: B5_TRIALS_def)
  ultimately show ?thesis
    using ps(3) by (simp add: b5_trials_def seq_def ps(1) reading_def give_def b5_headline_def list_all_iff)
qed

end
