(* ===== verification/Probe_Date.thy ===== *)
theory Probe_Date
  imports Probe_Loop
begin

text \<open>
  \<open>tools/probes/is-the-signature-really-the-date.js\<close>: the clock is set to two dates, and after each the two
  bytes of the listings unit are compared with the day number the probe computes with \<open>Date.UTC\<close>.  The
  state it starts from is that of the sweep of \<open>Probe_Loop\<close>.  Last, its day number is proved to be the one
  of the page.
\<close>

section \<open>Day numbers with \<open>Date.UTC\<close>\<close>

text \<open>The algorithm of the language's specification, for whole days.\<close>

definition day_from_year :: "int \<Rightarrow> int" where
  "day_from_year y = 365 * (y - 1970) + (y - 1969) div 4 - (y - 1901) div 100 + (y - 1601) div 400"

definition leap_year :: "int \<Rightarrow> bool" where
  "leap_year y \<longleftrightarrow> y mod 4 = 0 \<and> (y mod 100 \<noteq> 0 \<or> y mod 400 = 0)"

definition month_starts :: "int list" where
  "month_starts = [0, 31, 59, 90, 120, 151, 181, 212, 243, 273, 304, 334]"

text \<open>Years from 0 to 99 stand for 1900 to 1999; a month outside of 0 to 11 moves the year.\<close>

definition utc_day :: "int \<Rightarrow> int \<Rightarrow> int \<Rightarrow> int" where
  "utc_day y m d =
     (let yr = (if 0 \<le> y \<and> y \<le> 99 then 1900 + y else y); ym = yr + m div 12; mn = m mod 12
      in day_from_year ym + month_starts ! nat mn + (if leap_year ym \<and> mn \<ge> 2 then 1 else 0) + d - 1)"

definition mjdOf :: "int \<Rightarrow> int \<Rightarrow> int \<Rightarrow> int" where
  "mjdOf y m d = utc_day y (m - 1) d - utc_day 1858 10 17"

definition expectBytes :: "int \<Rightarrow> string list" where
  "expectBytes m = [hex_string (drop_bit 8 m AND 0xFF) @ ''/ff'', hex_string (m AND 0xFF) @ ''/ff'']"

section \<open>The unit\<close>

record unit_view =
  uv_tableId :: string
  uv_tableIdMask :: string
  uv_extension :: string
  uv_extensionMask :: string
  uv_bytes :: "string list option"
  uv_dateBytes :: "(string \<times> string) option"

definition date_bytes :: "string list option \<Rightarrow> (string \<times> string) option" where
  "date_bytes bs = (case bs of None \<Rightarrow> None | Some l \<Rightarrow> if length l > 7 then Some (l ! 6, l ! 7) else None)"

definition a1Unit :: "('w, 'z) day_api_scheme \<Rightarrow> 'w \<Rightarrow> unit_view option" where
  "a1Unit G w =
     map_option (\<lambda>u. \<lparr>uv_tableId = hx (or0 (mt_tableId u)), uv_tableIdMask = hx (mt_tableIdMask u),
         uv_extension = hx (or0 (mt_extension u)), uv_extensionMask = hx (or0 (mt_extensionMask u)),
         uv_bytes = mt_bytes u, uv_dateBytes = date_bytes (mt_bytes u)\<rparr>)
       (find (\<lambda>x. mt_tableId x = Some 0xA1 \<or> mt_tableId x = Some 0xA0) (d_matches G w))"

section \<open>The two dates\<close>

text \<open>\<open>s_TDT\<close> is \<open>__siTDT\<close> with minutes and with the answer of the push.\<close>

record 'w dated_api = "'w titles_api" +
  s_TDT :: "int \<Rightarrow> int \<Rightarrow> int \<Rightarrow> int \<Rightarrow> int \<Rightarrow> 'w \<Rightarrow> push_result \<times> 'w"

record date_trial =
  dt_y :: int
  dt_m :: int
  dt_d :: int
  dt_why :: string

definition DATE_TRIALS :: "date_trial list" where
  "DATE_TRIALS = [
    \<lparr>dt_y = 1998, dt_m = 1, dt_d = 1, dt_why = ''the in-world era opening day''\<rparr>,
    \<lparr>dt_y = 1998, dt_m = 1, dt_d = 15, dt_why = ''a second date, so a single match cannot be a coincidence''\<rparr>]"

text \<open>The clock is set with the minutes \<open>ks\<close>, until it is refused.\<close>

fun push_times ::
  "('w, 'z) dated_api_scheme \<Rightarrow> date_trial \<Rightarrow> int list \<Rightarrow> (('w, 'y) day_scheme, string option) act" where
  "push_times G t [] = give None"
| "push_times G t (k # ks) =
     seq (on_page (\<lambda>w. let (r, w') = s_TDT G (dt_y t) (dt_m t) (dt_d t) 12 k w in (Inr r, w'))) (\<lambda>res.
     if \<not> pr_ok res then give (Some (''TDT refused: '' @ pr_why res))
     else seq (pausing G 4000) (\<lambda>_. push_times G t ks))"

record date_pass =
  dp_setClockTo :: string
  dp_why :: string
  dp_mjd :: int
  dp_mjdHex :: string
  dp_expected :: "string list"
  dp_error :: "string option"
  dp_unit :: "unit_view option"
  dp_dateBytes :: "(string \<times> string) option"
  dp_matchedPrediction :: bool
  dp_unitOtherwiseUnchanged :: bool

definition otherwise_unchanged :: "unit_view \<Rightarrow> unit_view option \<Rightarrow> bool" where
  "otherwise_unchanged before u =
     (case u of None \<Rightarrow> False
      | Some v \<Rightarrow> uv_tableId v = uv_tableId before \<and> uv_tableIdMask v = uv_tableIdMask before \<and>
          uv_extensionMask v = uv_extensionMask before)"

definition date_pass_of ::
  "('w, 'z) dated_api_scheme \<Rightarrow> unit_view \<Rightarrow> date_trial \<Rightarrow> (('w, 'y) day_scheme, date_pass) act" where
  "date_pass_of G before t =
     (let n = mjdOf (dt_y t) (dt_m t) (dt_d t) in
      seq (push_times G t [0, 1, 2, 3]) (\<lambda>err.
      seq (pausing G 10000) (\<lambda>_.
      seq (reading (\<lambda>s. a1Unit G (dy_page s))) (\<lambda>u.
      let b = (case u of None \<Rightarrow> None | Some v \<Rightarrow> uv_dateBytes v) in
      give \<lparr>dp_setClockTo = dec_string (dt_y t) @ ''-'' @ dec_string (dt_m t) @ ''-'' @ dec_string (dt_d t), dp_why = dt_why t,
        dp_mjd = n, dp_mjdHex = hx n, dp_expected = expectBytes n, dp_error = err, dp_unit = u, dp_dateBytes = b,
        dp_matchedPrediction = (case b of None \<Rightarrow> False | Some (x, y) \<Rightarrow> [x, y] = expectBytes n),
        dp_unitOtherwiseUnchanged = otherwise_unchanged before u\<rparr>))))"

record date_report =
  dq_before :: unit_view
  dq_passes :: "date_pass list"
  dq_movedAtAll :: bool
  dq_bothPredicted :: bool
  dq_controlsHeld :: bool
  dq_tablesAtEnd :: string
  dq_tasksAtEnd :: int
  dq_headline :: string

definition bytes_moved :: "unit_view \<Rightarrow> date_pass \<Rightarrow> bool" where
  "bytes_moved before p =
     (case (dp_dateBytes p, uv_dateBytes before) of (Some a, Some b) \<Rightarrow> fst a \<noteq> fst b \<or> snd a \<noteq> snd b | _ \<Rightarrow> False)"

definition date_headline :: "unit_view \<Rightarrow> date_pass list \<Rightarrow> string" where
  "date_headline before ps =
     (if list_all dp_matchedPrediction ps
      then ''CONFIRMED: the two bytes are the MJD DATE, and the box asks for the day its clock says. ''
        @ [CHR 0x22] @ ''The signature 9E 8B'' @ [CHR 0x22] @ '' is withdrawn -- it was MJD 40587, 1 Jan 1970, the epoch of a box with ''
        @ ''no clock. Feeding a day means setting the TDT and stamping the same MJD in Data[8..9].''
      else if list_ex (bytes_moved before) ps
      then ''the bytes MOVED with the clock but not to the predicted MJD -- read the table; the mapping ''
        @ ''is real but is not plain MJD''
      else ''the bytes did NOT move with the clock, so they are not the date and '' @ [CHR 0x22] @ ''signature'' @ [CHR 0x22] @ '' stands'')"

definition date_trials :: "('w, 'z) dated_api_scheme \<Rightarrow> (('w, 'y) day_scheme, date_report) act" where
  "date_trials G =
     seq (reading (\<lambda>s. a1Unit G (dy_page s))) (\<lambda>u.
     case u of
       None \<Rightarrow> throw ''no 0xA0/0xA1 match unit after the line-up -- nothing to test''
     | Some before \<Rightarrow>
         seq (each (date_pass_of G before) DATE_TRIALS) (\<lambda>ps.
         seq (reading (\<lambda>s. (tablesWanted G (dy_page s), g_tasks G (dy_page s)))) (\<lambda>(ts, n).
         give \<lparr>dq_before = before, dq_passes = ps, dq_movedAtAll = list_ex (bytes_moved before) ps,
           dq_bothPredicted = list_all dp_matchedPrediction ps,
           dq_controlsHeld = list_all dp_unitOtherwiseUnchanged ps, dq_tablesAtEnd = ts, dq_tasksAtEnd = n,
           dq_headline = date_headline before ps\<rparr>)))"

definition date_run :: "('w, 'z) dated_api_scheme \<Rightarrow> (('w, 'y) day_scheme, loop_lineup \<times> date_report) act" where
  "date_run G =
     seq (loop_setup G) (\<lambda>li.
     seq (date_trials G) (\<lambda>r. give (li, r)))"

section \<open>One calendar\<close>

lemma date_trials_bytes:
  "map (\<lambda>t. (mjdOf (dt_y t) (dt_m t) (dt_d t), expectBytes (mjdOf (dt_y t) (dt_m t) (dt_d t)))) DATE_TRIALS
    = [(50814, [''c6/ff'', ''7e/ff'']), (50828, [''c6/ff'', ''8c/ff''])]"
  by code_simp

lemma epoch_day: "utc_day 1858 10 17 = - 40587"
  by code_simp

lemma century_years:
  assumes "1900 \<le> y" "y \<le> 2100"
  shows "day_from_year y = 365 * (y - 1970) + (y - 1969) div 4 + (if y = 1900 then 1 else 0)"
    "leap_year y \<longleftrightarrow> y mod 4 = 0 \<and> y \<noteq> 1900 \<and> y \<noteq> 2100"
proof -
  consider "y = 1900" | "1901 \<le> y" "y \<le> 2000" | "2001 \<le> y" "y \<le> 2100" using assms by linarith
  then show "day_from_year y = 365 * (y - 1970) + (y - 1969) div 4 + (if y = 1900 then 1 else 0)"
  proof cases
    case 2
    then have "(y - 1901) div 100 = 0" "(y - 1601) div 400 = 0" by linarith+
    with 2 show ?thesis by (simp add: day_from_year_def)
  next
    case 3
    then have "(y - 1901) div 100 = 1" "(y - 1601) div 400 = 1" by linarith+
    with 3 show ?thesis by (simp add: day_from_year_def)
  qed (simp add: day_from_year_def)
  consider "y = 1900" | "y = 2000" | "y = 2100" | "1900 < y" "y < 2000" | "2000 < y" "y < 2100"
    using assms by linarith
  then show "leap_year y \<longleftrightarrow> y mod 4 = 0 \<and> y \<noteq> 1900 \<and> y \<noteq> 2100"
  proof cases
    case 4
    then have "y div 100 = 19" by linarith
    then have "y mod 100 = y - 1900" by (simp add: minus_div_mult_eq_mod [symmetric])
    with 4 show ?thesis by (simp add: leap_year_def)
  next
    case 5
    then have "y div 100 = 20" by linarith
    then have "y mod 100 = y - 2000" by (simp add: minus_div_mult_eq_mod [symmetric])
    with 5 show ?thesis by (simp add: leap_year_def)
  qed (simp_all add: leap_year_def)
qed

lemma julian_days: "36525 * z div 100 = 365 * z + z div 4" for z :: int
  by linarith

lemma quarter: "(y - 1900) div 4 = (y - 1901) div 4 + (if y mod 4 = 0 then 1 else 0)" for y :: int
  by presburger

lemma quarter': "(y - 1969) div 4 = (y - 1901) div 4 - 17" for y :: int
  by presburger

text \<open>
  C33.  The probe's day number is the page's.  From 1 March 1900 to the end of February 2100 the number computed
  with \<open>Date.UTC\<close> is the one \<open>__siTDT\<close> sends, so a prediction that fails is not an error of the calendar.
\<close>

theorem mjdOf_is_mjd:
  assumes "1 \<le> m" "m \<le> 12" "1900 < y \<or> y = 1900 \<and> 3 \<le> m" "y < 2100 \<or> y = 2100 \<and> m \<le> 2"
  shows "mjdOf y m d = mjd y m d"
proof -
  have y: "1900 \<le> y" "y \<le> 2100" using assms(3,4) by linarith+
  have m: "m \<in> {1, 2, 3, 4, 5, 6, 7, 8, 9, 10, 11, 12}"
    using assms(1,2) by (simp only: insert_iff empty_iff) presburger
  have edge: "3 \<le> m \<Longrightarrow> y \<noteq> 2100" "m \<le> 2 \<Longrightarrow> y \<noteq> 1900" using assms(3,4) by linarith+
  have first: "mjdOf y m d = day_from_year y + month_starts ! nat (m - 1)
      + (if leap_year y \<and> 2 < m then 1 else 0) + d + 40586"
    using y assms(1,2) unfolding mjdOf_def epoch_day by (simp add: utc_day_def Let_def)
  show ?thesis
    using m edge unfolding first mjd_def julian_days century_years [OF y] quarter'
    by (elim insertE emptyE) (simp_all add: month_starts_def Let_def quarter)
qed

theorem mjdOf_is_mjd_witness: "mjdOf 1998 1 15 = mjd 1998 1 15 \<and> mjdOf 2000 2 29 = mjd 2000 2 29"
  by (intro conjI mjdOf_is_mjd) simp_all

end
