(* ===== verification/Probe_Story.thy ===== *)
theory Probe_Story
  imports Probe_Titles Probe_Asks
begin

text \<open>
  The family of probes that feed the guide in a window of fixed length and look at it before and after:
  \<open>tools/probes/how-far-do-the-titles-get.js\<close>, \<open>tools/probes/twelve-records-and-the-guide.js\<close>,
  \<open>tools/probes/clock-first-then-the-day-key.js\<close>, \<open>tools/probes/move-now-into-the-fed-day.js\<close>, and the four that
  repeat the last one with one more instrument: \<open>the-linkage-the-guide-hunts-for.js\<close> (the arms of the
  guide's question), \<open>what-did-the-guide-subscribe-for.js\<close> (the subscription slots),
  \<open>what-else-the-guide-asks.js\<close> (every function of module 12) and \<open>what-is-it-reaching-for.js\<close> (the front
  end).  The instruments they share are those of \<open>Probe_Day\<close> to \<open>Probe_Day_Run\<close>; quotients printed with two
  decimals (\<open>measuredPerSection\<close>) are left out of the reports.
\<close>

section \<open>The page\<close>

text \<open>\<open>s_now\<close> is \<open>Date.now\<close>; \<open>s_demod\<close> the three counts of \<open>__demod\<close>, \<open>s_dispPids\<close> the PIDs of \<open>__dispState\<close> as JSON.\<close>

record demod =
  de_reads :: int
  de_writes :: int
  de_log :: int

record 'w story_api = "'w day_api" +
  s_now :: "'w \<Rightarrow> int"
  s_demod :: "'w \<Rightarrow> demod"
  s_dispPids :: "'w \<Rightarrow> string"

section \<open>A press with an instrument\<close>

text \<open>The instrument is read after the surface, before the key and again at the end.\<close>

definition press_page_with ::
  "('w, 'z) day_api_scheme \<Rightarrow> ('w, 'i) act \<Rightarrow> int \<Rightarrow> string \<Rightarrow> string \<Rightarrow> string \<Rightarrow> ('w, press_report \<times> 'i \<times> 'i) act" where
  "press_page_with G inst raw label tag src =
     seq (doing (d_traceCalls G WIDGET_TRACE)) (\<lambda>_.
     seq (doing (d_traceClear G)) (\<lambda>_.
     seq (surface G) (\<lambda>s0.
     seq inst (\<lambda>i0.
     seq (press_key G raw 0) (\<lambda>_.
     seq (sleep G 11000) (\<lambda>_.
     seq (reading (d_traceLog G)) (\<lambda>lg.
     seq (doing (d_traceCalls G [])) (\<lambda>_.
     seq (surface G) (\<lambda>s1.
     seq inst (\<lambda>i1.
     give (\<lparr>pp_tag = tag, pp_key = label, pp_pressedFrom = src, pp_widgets = times_of ''newWidget'' lg,
       pp_applies = times_of ''apply'' lg, pp_damage = times_of ''DAMAGE'' lg,
       pp_moved = (su_hash s1 \<noteq> su_hash s0), pp_surface = s1, pp_drew = (times_of ''newWidget'' lg > 0),
       pp_arms = Map.empty\<rparr>, i0, i1)))))))))))"

definition press_with ::
  "('w, 'z) day_api_scheme \<Rightarrow> ('w, 'i) act \<Rightarrow> int \<Rightarrow> string \<Rightarrow> string \<Rightarrow> string \<Rightarrow> ('w day, press_report \<times> 'i \<times> 'i) act" where
  "press_with G inst raw label tag src =
     seq (reading dy_last) (\<lambda>was.
     seq (require (was \<noteq> Some raw)
       (''HARNESS: '' @ tag @ '' presses '' @ hx raw @ '' twice running; a box already on ''
        @ ''that screen rebuilds nothing and the zero would read as the fault'')) (\<lambda>_.
     seq (doing (\<lambda>s. s\<lparr>dy_last := Some raw\<rparr>)) (\<lambda>_.
     on_page (press_page_with G inst raw label tag src))))"

text \<open>The press of the older probes, without an instrument.\<close>

definition plain_press ::
  "('w, 'z) day_api_scheme \<Rightarrow> int \<Rightarrow> string \<Rightarrow> string \<Rightarrow> string \<Rightarrow> ('w day, press_report \<times> unit) act" where
  "plain_press G raw label tag src = seq (press_with G (give ()) raw label tag src) (\<lambda>(p, _, _). give (p, ()))"

definition arms_press ::
  "('w, 'z) day_api_scheme \<Rightarrow> (string \<times> int) list \<Rightarrow> int \<Rightarrow> string \<Rightarrow> string \<Rightarrow> string \<Rightarrow> ('w day, press_report \<times> unit) act" where
  "arms_press G rows raw label tag src =
     seq (press_with G (read_counts arms_row G rows) raw label tag src) (\<lambda>(p, a0, a1).
     give (p\<lparr>pp_arms := changes a0 a1\<rparr>, ()))"

section \<open>The front end\<close>

record front =
  fn_demodReads :: int
  fn_demodWrites :: int
  fn_demodLog :: int
  fn_pids :: string
  fn_dispPids :: string
  fn_tables :: string

definition front_text :: "si_match \<Rightarrow> string" where
  "front_text x =
     (case mt_tableId x of None \<Rightarrow> ''??'' | Some t \<Rightarrow> hx t)
     @ (case mt_extension x of None \<Rightarrow> [] | Some e \<Rightarrow> ''/'' @ hx e)"

definition frontEnd :: "('w, 'z) story_api_scheme \<Rightarrow> ('w, front) act" where
  "frontEnd G =
     reading (\<lambda>w. \<lparr>fn_demodReads = de_reads (s_demod G w), fn_demodWrites = de_writes (s_demod G w),
       fn_demodLog = de_log (s_demod G w), fn_pids = join_with '' '' (sort (map sf_pid (d_filters G w))),
       fn_dispPids = s_dispPids G w, fn_tables = join_with '' '' (sort (map front_text (d_matches G w)))\<rparr>)"

record front_diff =
  fd_demodReads :: int
  fd_demodWrites :: int
  fd_pidsChanged :: bool
  fd_tablesChanged :: bool
  fd_dispPidsChanged :: bool

definition frontEndDiff :: "front \<Rightarrow> front \<Rightarrow> front_diff" where
  "frontEndDiff a b =
     \<lparr>fd_demodReads = fn_demodReads b - fn_demodReads a, fd_demodWrites = fn_demodWrites b - fn_demodWrites a,
      fd_pidsChanged = (fn_pids a \<noteq> fn_pids b), fd_tablesChanged = (fn_tables a \<noteq> fn_tables b),
      fd_dispPidsChanged = (fn_dispPids a \<noteq> fn_dispPids b)\<rparr>"

definition front_press ::
  "('w, 'z) story_api_scheme \<Rightarrow> int \<Rightarrow> string \<Rightarrow> string \<Rightarrow> string \<Rightarrow> ('w day, press_report \<times> front_diff) act" where
  "front_press G raw label tag src =
     seq (press_with G (seq (arms G) (\<lambda>a. seq (frontEnd G) (\<lambda>f. give (a, f)))) raw label tag src) (\<lambda>(p, (a0, f0), (a1, f1)).
     give (p\<lparr>pp_arms := changes a0 a1\<rparr>, frontEndDiff f0 f1))"

definition front_touched :: "front_diff \<Rightarrow> bool" where
  "front_touched d \<longleftrightarrow> fd_demodReads d \<noteq> 0 \<or> fd_demodWrites d \<noteq> 0"

definition front_asked :: "front_diff \<Rightarrow> bool" where
  "front_asked d \<longleftrightarrow> fd_pidsChanged d \<or> fd_tablesChanged d"

definition frontEndVerdict :: "front_diff list \<Rightarrow> string" where
  "frontEndVerdict g =
     (let touched = list_ex front_touched g; asked = list_ex front_asked g
      in if \<not> touched \<and> \<not> asked
         then ''THE BOX NEVER REACHED FOR THE FRONT END. No demodulator traffic and no new PID or table ''
           @ ''across any guide press, so '' @ [CHR 0x22] @ ''no satellite signal'' @ [CHR 0x22]
           @ '' is a conclusion it drew without asking ''
           @ ''the hardware -- the work is back in the BAT, not under the section rings.''
         else ''THE BOX DID REACH FOR THE FRONT END''
           @ (if touched then '' (demodulator traffic)'' else [])
           @ (if asked then '' (new PID or table asked for)'' else [])
           @ '' -- the layers under the section rings are what is missing.'')"

section \<open>The functions of module 12\<close>

text \<open>\<open>x & ~1\<close>, a signed number.\<close>

definition even_i32 :: "int \<Rightarrow> int" where
  "even_i32 x = to_i32 (x AND NOT 1)"

text \<open>The thunk loads its target from a literal pool: the first of eight halfwords with opcode 0x16.\<close>

definition resolveThunk :: "('w, 'z) page_api_scheme \<Rightarrow> 'w \<Rightarrow> int \<Rightarrow> int" where
  "resolveThunk G w impl =
     (let base = even_i32 impl
      in case find (\<lambda>k. drop_bit 11 (u16at G w (base + int k * 2)) = 0x16) [0..<8] of
           None \<Rightarrow> base
         | Some k \<Rightarrow>
             let va = base + int k * 2; hw = u16at G w va
             in even_i32 (b32 G w (to_i32 (va AND NOT 3) + (hw AND 0xFF) * 4)))"

record module12 =
  mo_array :: int
  mo_count :: int
  mo_arms :: "(string \<times> int) list"

definition arm12 :: "('w, 'z) page_api_scheme \<Rightarrow> 'w \<Rightarrow> int \<Rightarrow> nat \<Rightarrow> string \<times> int" where
  "arm12 G w arr mf =
     (let a = to_u32 (even_i32 (resolveThunk G w (b32 G w (b32 G w (arr + 4 * int mf)))))
      in (''(12,0x'' @ hex_string (int mf) @ '') @'' @ h8 a, a))"

definition gen23 :: "(string \<times> int) list \<Rightarrow> (string \<times> int) option" where
  "gen23 rows = find (\<lambda>x. prefix ''(12,0x23)'' (fst x)) rows"

definition read_module12 :: "('w, 'z) page_api_scheme \<Rightarrow> ('w, module12) act" where
  "read_module12 G =
     seq (reading (\<lambda>w. b32 G w 0x8006E71C)) (\<lambda>tab.
     seq (reading (\<lambda>w. b32 G w (tab + 1 * 8))) (\<lambda>m1.
     seq (require (m1 = 0x9FC29F04)
       (''module 1 no longer resolves to the flash array this project verified -- the ''
        @ ''module table walk has moved and every module-12 row would come from the wrong place'')) (\<lambda>_.
     seq (reading (\<lambda>w. (b32 G w (tab + 12 * 8), b32 G w (tab + 12 * 8 + 4)))) (\<lambda>(arr, n).
     seq (require (0 < n \<and> n < 4096) (''module 12 declares '' @ dec_string n @ '' functions, which is not a usable count'')) (\<lambda>_.
     seq (reading (\<lambda>w. ARMS @ map (arm12 G w arr) [0..<nat n])) (\<lambda>rows.
     seq (require (map_option snd (gen23 rows) = Some 0x800CB770)
       (''the generated entry for (12,0x23) resolved to ''
        @ (case gen23 rows of None \<Rightarrow> ''nothing'' | Some x \<Rightarrow> h8 (snd x))
        @ '', but that function is known to be 0x800CB770 -- the module-12 table walk is ''
        @ ''landing somewhere else and every count it produced would be about the wrong ''
        @ ''addresses. Module 12 array '' @ h8 arr @ '', count '' @ dec_string n @ ''.'')) (\<lambda>_.
     seq (each (\<lambda>x. require (snd x AND 1 = 0)
       (fst x @ '' is the odd address '' @ h8 (snd x) @ ''; __pcHits normalises upward only'')) rows) (\<lambda>_.
     give \<lparr>mo_array = arr, mo_count = n, mo_arms = rows\<rparr>))))))))"

definition databaseCalls :: "(string \<rightharpoonup> int) \<Rightarrow> string \<rightharpoonup> int" where
  "databaseCalls c = (\<lambda>k. if prefix ''(12,'' k then c k else None)"

section \<open>The line-up\<close>

definition push_built_bat :: "('w, 'z) day_api_scheme \<Rightarrow> (si_ids \<Rightarrow> int \<Rightarrow> int list) \<Rightarrow> ('w day, push_result) act" where
  "push_built_bat G build =
     seq (doing (\<lambda>s. s\<lparr>dy_bat := next_version (dy_bat s)\<rparr>)) (\<lambda>_.
     seq (reading (\<lambda>s. build (d_ids G (dy_page s)) (dy_bat s))) (\<lambda>sec.
     on_page (\<lambda>w. let (r, w') = d_push G 0x0011 sec w in (Inr r, w'))))"

definition bat_round :: "('w, 'z) day_api_scheme \<Rightarrow> (si_ids \<Rightarrow> int \<Rightarrow> int list) \<Rightarrow> nat \<Rightarrow> ('w day, unit) act" where
  "bat_round G build k =
     seq (on_page (doing (\<lambda>w. snd (d_NIT G (Some (int k + 1)) w)))) (\<lambda>_.
     seq (on_page (doing (\<lambda>w. snd (d_SDT G (Some (int k + 1)) w)))) (\<lambda>_.
     seq (push_built_bat G build) (\<lambda>br.
     seq (require (pr_ok br) (''the BAT was refused: '' @ pr_why br)) (\<lambda>_.
     pausing G 7000))))"

definition story_lineup :: "('w, 'z) day_api_scheme \<Rightarrow> (si_ids \<Rightarrow> int \<Rightarrow> int list) \<Rightarrow> ('w day, subscriptions) act" where
  "story_lineup G build =
     seq (open_lineup G) (\<lambda>_.
     seq (each (bat_round G build) [0, 1, 2]) (\<lambda>_. subscribed G))"

record story_head =
  sh_settledAfterSeconds :: int
  sh_before :: subscriptions
  sh_clockPushes :: "string list"
  sh_afterLineup :: subscriptions
  sh_match :: si_match
  sh_pids :: "int option list"
  sh_addressing :: "addressing option"
  sh_quietAfterSeconds :: int
  sh_atStart :: "string \<rightharpoonup> int"
  sh_afterCensus :: "string \<rightharpoonup> int"

text \<open>With the clock set first, the table, the day and the PIDs are read off the box.\<close>

definition clocked_head :: "('w, 'z) day_api_scheme \<Rightarrow> (si_ids \<Rightarrow> int \<Rightarrow> int list) \<Rightarrow> ('w day, story_head) act" where
  "clocked_head G build =
     seq (day_settle G) (\<lambda>waited.
     seq (subscribed G) (\<lambda>before.
     seq (on_page (census G)) (\<lambda>c0.
     seq (each (push_clock G 1998 1 1 19) [0, 1, 2]) (\<lambda>pushes.
     seq (story_lineup G build) (\<lambda>after.
     seq (read_addressing G before after) (\<lambda>ad.
     seq (await_quiet G 90) (\<lambda>quiet.
     seq (on_page (census G)) (\<lambda>c1.
     give \<lparr>sh_settledAfterSeconds = waited, sh_before = before, sh_clockPushes = pushes, sh_afterLineup = after,
       sh_match = ad_match ad, sh_pids = ad_newPids ad, sh_addressing = Some ad, sh_quietAfterSeconds = quiet,
       sh_atStart = c0, sh_afterCensus = c1\<rparr>))))))))"

text \<open>Without a clock the probes insist on table 0xA1 and PID 0x33.\<close>

definition unclocked_head :: "('w, 'z) day_api_scheme \<Rightarrow> ('w day, story_head) act" where
  "unclocked_head G =
     seq (day_settle G) (\<lambda>waited.
     seq (subscribed G) (\<lambda>before.
     seq (on_page (census G)) (\<lambda>c0.
     seq (story_lineup G titles_bat) (\<lambda>after.
     seq (reading (\<lambda>s. (filter (\<lambda>x. mt_tableId x = Some 0xA1) (d_matches G (dy_page s)), tablesWanted G (dy_page s)))) (\<lambda>(a1s, ts).
     case a1s of [] \<Rightarrow> throw (''no 0xA1 subscription after the line-up: '' @ ts)
     | a1 # _ \<Rightarrow>
       let opened = filter (\<lambda>p. p \<notin> set (sb_filters before)) (sb_filters after) in
       seq (require (Some 0x33 \<in> set (map (parse_int 16) opened))
         (''PID 0x33 is not among the filters the line-up opened: '' @ join_with '' '' opened)) (\<lambda>_.
       seq (await_quiet G 90) (\<lambda>quiet.
       seq (on_page (census G)) (\<lambda>c1.
       give \<lparr>sh_settledAfterSeconds = waited, sh_before = before, sh_clockPushes = [], sh_afterLineup = after,
         sh_match = a1, sh_pids = map (parse_int 16) opened, sh_addressing = None, sh_quietAfterSeconds = quiet,
         sh_atStart = c0, sh_afterCensus = c1\<rparr>))))))))"

section \<open>The feed window\<close>

text \<open>An action that feeds gives the keys it fed and, for every push, whether it was taken.\<close>

definition push_long :: "('w, 'z) day_api_scheme \<Rightarrow> (int \<Rightarrow> int \<Rightarrow> int list) \<Rightarrow> int \<Rightarrow> ('w day, bool) act" where
  "push_long G build ex =
     seq (doing (\<lambda>s. s\<lparr>dy_a1 := next_version (dy_a1 s)\<rparr>)) (\<lambda>_.
     seq (reading (\<lambda>s. build (dy_a1 s) ex)) (\<lambda>sec.
     seq (push_one G sec 0x33) (\<lambda>b.
     seq (pausing G 1200) (\<lambda>_. give b))))"

definition fixed_rounds ::
  "('w, 'z) day_api_scheme \<Rightarrow> (int \<Rightarrow> int \<Rightarrow> int list) \<Rightarrow> int list \<Rightarrow> ('w day, string list \<times> bool list) act" where
  "fixed_rounds G build exts =
     seq (each (\<lambda>k. each (push_long G build) exts) [0..<5]) (\<lambda>rs. give ([], concat rs))"

definition paced_extension :: "('w, 'z) day_api_scheme \<Rightarrow> int list \<Rightarrow> int \<Rightarrow> ('w day, bool list) act" where
  "paced_extension G pids ex =
     seq (feed_extension G pids ex) (\<lambda>bs.
     seq (pausing G 1200) (\<lambda>_. give bs))"

definition steady_rounds :: "('w, 'z) day_api_scheme \<Rightarrow> int list \<Rightarrow> int list \<Rightarrow> ('w day, string list \<times> bool list) act" where
  "steady_rounds G pids exts =
     seq (each (\<lambda>k. each (paced_extension G pids) exts) [0..<5]) (\<lambda>rs. give ([], concat (concat rs)))"

text \<open>
  What the first live unit asks for, read again.  Its table is always taken; its two bytes are taken unless one
  of them does not match the pattern.
\<close>

definition re_read :: "('w, 'z) day_api_scheme \<Rightarrow> ('w day, string) act" where
  "re_read G =
     seq (doing (\<lambda>s. case filter titles_match (d_matches G (dy_page s)) of
         [] \<Rightarrow> s
       | u # _ \<Rightarrow> s\<lparr>dy_table := unit_table u, dy_filter := (case demanded u of None \<Rightarrow> dy_filter s | Some fb \<Rightarrow> fb)\<rparr>)) (\<lambda>_.
     reading (\<lambda>s. hx (dy_table s) @ ''/'' @ hx (fed_key s)))"

definition moving_round :: "('w, 'z) day_api_scheme \<Rightarrow> int list \<Rightarrow> int list \<Rightarrow> nat \<Rightarrow> ('w day, string \<times> bool list) act" where
  "moving_round G pids exts k =
     seq (re_read G) (\<lambda>key.
     seq (each (paced_extension G pids) exts) (\<lambda>rs. give (key, concat rs)))"

definition moving_rounds :: "('w, 'z) day_api_scheme \<Rightarrow> int list \<Rightarrow> int list \<Rightarrow> ('w day, string list \<times> bool list) act" where
  "moving_rounds G pids exts =
     seq (each (moving_round G pids exts) [0..<5]) (\<lambda>rs. give (first_seen (map fst rs), concat (map snd rs)))"

record fed_window =
  fw_pushed :: int
  fw_refused :: int
  fw_keysFed :: "string list"
  fw_window :: ocode
  fw_census :: "string \<rightharpoonup> int"
  fw_ms :: int

definition WINDOW_MS :: int where "WINDOW_MS = 30000"

definition rest_of_window :: "('w, 'z) story_api_scheme \<Rightarrow> int \<Rightarrow> ('w day, unit) act" where
  "rest_of_window G t0 =
     seq (reading (\<lambda>s. WINDOW_MS - (s_now G (dy_page s) - t0))) (\<lambda>left.
     if left > 0 then pausing G left else give ())"

definition timed_window ::
  "('w, 'z) story_api_scheme \<Rightarrow> ('w day, string list \<times> bool list) act \<Rightarrow> ('w day, fed_window) act" where
  "timed_window G feeding =
     seq (on_page (census G)) (\<lambda>c0.
     seq (on_page (armOcode G)) (\<lambda>_.
     seq (reading (\<lambda>s. s_now G (dy_page s))) (\<lambda>t0.
     seq feeding (\<lambda>(keys, bs).
     seq (rest_of_window G t0) (\<lambda>_.
     seq (on_page (readOcode G)) (\<lambda>oc.
     seq (on_page (census G)) (\<lambda>c1.
     seq (reading (\<lambda>s. s_now G (dy_page s))) (\<lambda>t1.
     give \<lparr>fw_pushed = int (length (filter (\<lambda>b. b) bs)), fw_refused = int (length (filter Not bs)), fw_keysFed = keys,
       fw_window = oc, fw_census = changes c0 c1, fw_ms = t1 - t0\<rparr>))))))))"

text \<open>The PIDs as numbers; the page prints them with their \<open>0x\<close>, so none is \<open>NaN\<close>.\<close>

definition numbers :: "int option list \<Rightarrow> int list" where
  "numbers ps = concat (map (\<lambda>p. case p of None \<Rightarrow> [] | Some n \<Rightarrow> [n]) ps)"

section \<open>The presses\<close>

definition story_baseline ::
  "('w, 'z) day_api_scheme \<Rightarrow> (int \<Rightarrow> string \<Rightarrow> string \<Rightarrow> string \<Rightarrow> ('w day, press_report \<times> 'x) act)
    \<Rightarrow> (string \<Rightarrow> ('w day, 'd) act) \<Rightarrow> ('w day, (press_report \<times> 'x) list \<times> 'd list) act" where
  "story_baseline G P D =
     seq (D ''after the line-up, before the guide has ever been opened'') (\<lambda>d0.
     seq (P 0x7D ''sky'' ''baseline-sky'' ''the boot screen'') (\<lambda>p0.
     seq (require (pp_drew (fst p0))
       (''the settling sky press built no widgets, so the box is not drawing at all and ''
        @ ''every later reading would be about that rather than about the listings'')) (\<lambda>_.
     seq (P 0x80 ''tv guide'' ''baseline-guide'' ''the menu'') (\<lambda>p1.
     seq (shoot G ''guide-before-12-records'') (\<lambda>_.
     seq (require (pp_drew (fst p1))
       (''the BASELINE guide press built no widgets -- the box was not drawing before the ''
        @ ''listings were fed, so any later change would be it recovering rather than the ''
        @ ''listings arriving'')) (\<lambda>_.
     seq (D ''immediately after the first guide press'') (\<lambda>d1.
     seq (P 0x7D ''sky'' ''between-sky'' ''the guide'') (\<lambda>p2.
     give ([p0, p1, p2], [d0, d1])))))))))"

definition fed_presses ::
  "('w, 'z) day_api_scheme \<Rightarrow> (int \<Rightarrow> string \<Rightarrow> string \<Rightarrow> string \<Rightarrow> ('w day, press_report \<times> 'x) act)
    \<Rightarrow> (string \<Rightarrow> ('w day, 'd) act) \<Rightarrow> ('w day, (press_report \<times> 'x) list \<times> 'd) act" where
  "fed_presses G P D =
     seq (P 0x80 ''tv guide'' ''fed-guide'' ''the menu'') (\<lambda>p3.
     seq (shoot G ''guide-after-12-records'') (\<lambda>_.
     seq (D ''after the listings were fed'') (\<lambda>d2.
     seq (P 0x7D ''sky'' ''after-sky'' ''the guide'') (\<lambda>p4.
     give ([p3, p4], d2)))))"

definition now_press ::
  "('w, 'z) day_api_scheme \<Rightarrow> (int \<Rightarrow> string \<Rightarrow> string \<Rightarrow> string \<Rightarrow> ('w day, press_report \<times> 'x) act)
    \<Rightarrow> ('w day, clock_move \<times> press_report \<times> 'x) act" where
  "now_press G P =
     seq (move_clock G) (\<lambda>cm.
     seq (P 0x80 ''tv guide'' ''guide-with-now-inside-the-fed-day'' ''the menu'') (\<lambda>p5.
     seq (shoot G ''guide-with-now-inside-the-fed-day'') (\<lambda>_. give (cm, p5))))"

section \<open>The runs\<close>

record feed_part =
  fp_head :: story_head
  fp_idleWindow :: ocode
  fp_censusIdle :: "string \<rightharpoonup> int"
  fp_extensionsFed :: "string list"
  fp_fed :: fed_window
  fp_novel :: "novel_event list"
  fp_repeated :: "repeated_event list"
  fp_stopped :: "string option"

definition feed_part_of :: "story_head \<Rightarrow> ocode \<Rightarrow> (string \<rightharpoonup> int) \<Rightarrow> fed_window \<Rightarrow> feed_part" where
  "feed_part_of sh idle cIdle fw =
     (let (nov, rep) = windows (oc_segments idle) (oc_segments (fw_window fw))
      in \<lparr>fp_head = sh, fp_idleWindow = idle, fp_censusIdle = cIdle, fp_extensionsFed = map hx (extensions_of (sh_match sh)),
          fp_fed = fw, fp_novel = map novel_of nov, fp_repeated = map repeated_of rep, fp_stopped = stopped (fw_census fw)\<rparr>)"

text \<open>The sentence with which every headline of the family ends.\<close>

definition ladder_line :: "feed_part \<Rightarrow> string" where
  "ladder_line fp =
     (let d = fw_census (fp_fed fp)
      in ''fed '' @ dec_string (fw_pushed (fp_fed fp)) @ '' sections. The ladder turns as far as: ''
        @ join_with '' | '' (filter (\<lambda>n. or0 (d n) \<noteq> 0) rungs)
        @ (case fp_stopped fp of Some n \<Rightarrow> ''  -- FIRST RUNG THAT DID NOT TURN: '' @ n | None \<Rightarrow> ''  -- every rung turned'')
        @ ''. Novel o-code events in the feed window: '' @ dec_string (int (length (fp_novel fp)))
        @ '' (idle window had '' @ dec_string (oc_events (fp_idleWindow fp)) @ '' events, feed window ''
        @ dec_string (oc_events (fw_window (fp_fed fp))) @ '' events).'')"

record at_the_end =
  ae_tables :: string
  ae_tasks :: int

definition at_end :: "('w, 'z) day_api_scheme \<Rightarrow> ('w day, at_the_end) act" where
  "at_end G = reading (\<lambda>s. \<lparr>ae_tables = tablesWanted G (dy_page s), ae_tasks = g_tasks G (dy_page s)\<rparr>)"

text \<open>How far do the titles get: no press at all, and the records with the lengths that were wrong.\<close>

definition how_far_run :: "('w, 'z) story_api_scheme \<Rightarrow> ('w day, feed_part \<times> at_the_end \<times> string) act" where
  "how_far_run G =
     seq ladder_check (\<lambda>_.
     seq (unclocked_head G) (\<lambda>sh.
     seq (idle_window G) (\<lambda>(idle, cIdle).
     seq (timed_window G (fixed_rounds G (titles_section True) (extensions_of (sh_match sh)))) (\<lambda>fw.
     seq (at_end G) (\<lambda>ae.
     let fp = feed_part_of sh idle cIdle fw in give (fp, ae, ladder_line fp))))))"

record ('x, 'd) guide_report =
  gr_feed :: feed_part
  gr_presses :: "(press_report \<times> 'x) list"
  gr_dumps :: "'d list"
  gr_guideChanged :: bool
  gr_baselineMatchesPreviousRun :: bool
  gr_recordsVerdict :: string
  gr_end :: at_the_end

definition surface_hash_of :: "(press_report \<times> 'x) list \<Rightarrow> nat \<Rightarrow> string" where
  "surface_hash_of ps i = su_hash (pp_surface (fst (ps ! i)))"

definition guide_report_of ::
  "feed_part \<Rightarrow> (press_report \<times> 'x) list \<Rightarrow> 'd list \<Rightarrow> string \<Rightarrow> at_the_end \<Rightarrow> ('x, 'd) guide_report" where
  "guide_report_of fp ps ds verdict ae =
     \<lparr>gr_feed = fp, gr_presses = ps, gr_dumps = ds, gr_guideChanged = (surface_hash_of ps 1 \<noteq> surface_hash_of ps 3),
      gr_baselineMatchesPreviousRun = matches_previous_run (fst (ps ! 1)), gr_recordsVerdict = verdict, gr_end = ae\<rparr>"

definition screen_text :: "surf \<Rightarrow> string" where
  "screen_text u = su_hash u @ ''/'' @ dec_string (su_colours u) @ ''c''"

text \<open>Whether the guide changed, the verdict on the records and the ladder.\<close>

definition guide_line :: "('x, 'd) guide_report \<Rightarrow> string" where
  "guide_line gr =
     (if gr_guideChanged gr then ''CHANGED'' else ''byte-identical'')
     @ '' ('' @ screen_text (pp_surface (fst (gr_presses gr ! 1))) @ '' -> '' @ screen_text (pp_surface (fst (gr_presses gr ! 3)))
     @ ''). '' @ gr_recordsVerdict gr @ ''. '' @ ladder_line (gr_feed gr)"

definition guide_headline :: "('x, 'd) guide_report \<Rightarrow> string" where
  "guide_headline gr = ''GUIDE '' @ guide_line gr"

definition per_event :: "fed_window \<Rightarrow> int" where
  "per_event fw = or0 (fw_census fw ''12 PER-EVENT REGISTER'')"

definition twelve_verdict :: "fed_window \<Rightarrow> string" where
  "twelve_verdict fw =
     (if per_event fw = fw_pushed fw * 12 then TWELVE
      else ''NOT twelve per section ('' @ dec_string (per_event fw) @ '' registers over '' @ dec_string (fw_pushed fw)
        @ '' sections) -- the walk ''
        @ ''still desynchronises, and the next thing to check is the record header rather than the guide'')"

definition twelve_run :: "('w, 'z) story_api_scheme \<Rightarrow> ('w day, (unit, unit) guide_report \<times> string) act" where
  "twelve_run G =
     seq ladder_check (\<lambda>_.
     seq (unclocked_head G) (\<lambda>sh.
     seq (story_baseline G (plain_press G) (\<lambda>_. give ())) (\<lambda>(ps, ds).
     seq (idle_window G) (\<lambda>(idle, cIdle).
     seq (timed_window G (fixed_rounds G (buildA1 0xA1 (0x9E, 0x8B)) (extensions_of (sh_match sh)))) (\<lambda>fw.
     seq (fed_presses G (plain_press G) (\<lambda>_. give ())) (\<lambda>(qs, d2).
     seq (at_end G) (\<lambda>ae.
     let gr = guide_report_of (feed_part_of sh idle cIdle fw) (ps @ qs) (ds @ [d2]) (twelve_verdict fw) ae
     in give (gr, guide_headline gr))))))))"

definition clock_first_run ::
  "('w, 'z) story_api_scheme \<Rightarrow> ('w day, (unit, unit) guide_report \<times> string \<times> read_back option) act" where
  "clock_first_run G =
     seq ladder_check (\<lambda>_.
     seq (clocked_head G titles_bat) (\<lambda>sh.
     seq (story_baseline G (plain_press G) (\<lambda>_. give ())) (\<lambda>(ps, ds).
     seq (idle_window G) (\<lambda>(idle, cIdle).
     seq (timed_window G (steady_rounds G (numbers (sh_pids sh)) (extensions_of (sh_match sh)))) (\<lambda>fw.
     seq (fed_presses G (plain_press G) (\<lambda>_. give ())) (\<lambda>(qs, d2).
     seq (at_end G) (\<lambda>ae.
     seq (date_read_back G) (\<lambda>rb.
     let gr = guide_report_of (feed_part_of sh idle cIdle fw) (ps @ qs) (ds @ [d2])
       (records_verdict (per_event fw) (fw_pushed fw) (int (length (sh_pids sh)))) ae
     in give (gr, guide_headline gr, rb)))))))))"

record ('x, 'd) story_report =
  sr_guide :: "('x, 'd) guide_report"
  sr_clockMove :: clock_move
  sr_changedFromBaseline :: bool
  sr_changedFromFed :: bool
  sr_theAsk :: "string list"
  sr_whatWeFeed :: "int \<times> int"
  sr_dateReadBack :: "read_back option"

text \<open>
  The headlines: what the guide shows once the clock has moved, the arms of its question, and what the
  instrument of the probe saw.
\<close>

definition after_move_line :: "('x, 'd) story_report \<Rightarrow> string" where
  "after_move_line r =
     (let gr = sr_guide r; nowG = fst (gr_presses gr ! 5)
      in ''AFTER THE CLOCK MOVE the guide is '' @ (if sr_changedFromFed r then ''DIFFERENT'' else ''byte-identical'')
        @ '' ('' @ screen_text (pp_surface nowG) @ '', '' @ dec_string (pp_widgets nowG) @ '' widgets). ''
        @ ''Days fed: '' @ join_with '' '' (fw_keysFed (fp_fed (gr_feed gr))) @ ''. BEFORE the clock move the guide was ''
        @ guide_line gr)"

definition ask_line :: "('x, 'd) story_report \<Rightarrow> string" where
  "ask_line r = ''THE ASK: '' @ join_with '' / '' (sr_theAsk r) @ ''. '' @ after_move_line r"

text \<open>\<open>JSON.stringify\<close> of an object whose values are numbers; the names of the arms hold no character it escapes.\<close>

definition json_counts :: "string list \<Rightarrow> (string \<rightharpoonup> int) \<Rightarrow> string" where
  "json_counts ks c =
     ''{'' @ join_with '','' (concat (map (\<lambda>k. case c k of None \<Rightarrow> [] | Some n \<Rightarrow> [[CHR 0x22] @ k @ [CHR 0x22] @ '':'' @ (if n < 0 then ''-'' @ dec_string (- n) else dec_string n)]) ks)) @ ''}''"

definition json_fed :: "int \<times> int \<Rightarrow> string" where
  "json_fed x =
     (let q = [CHR 0x22]
      in ''{'' @ q @ ''tableId'' @ q @ '':'' @ q @ hx (fst x) @ q @ '','' @ q @ ''tableIdLow'' @ q @ '':'' @ dec_string (fst x AND 3)
        @ '','' @ q @ ''dayKey'' @ q @ '':'' @ q @ hx (snd x) @ q @ ''}'')"

definition slots_line :: "('x, slot_dump) story_report \<Rightarrow> (string \<times> int \<times> slot) list \<Rightarrow> string" where
  "slots_line r ms =
     (let n = (\<lambda>i. dec_string (sd_activeSlots (gr_dumps (sr_guide r) ! i)))
      in ''SLOTS active: '' @ n 0 @ '' before any guide, '' @ n 1 @ '' after the guide press, '' @ n 2
        @ '' after the listings. We feed '' @ json_fed (sr_whatWeFeed r) @ '' and '' @ dec_string (int (length ms))
        @ '' active slot(s) carry that day and table pair. '' @ ask_line r)"

text \<open>Feed the day the box asks for, then move the clock into it.\<close>

definition guide_story ::
  "('w, 'z) story_api_scheme \<Rightarrow> (si_ids \<Rightarrow> int \<Rightarrow> int list)
    \<Rightarrow> (int \<Rightarrow> string \<Rightarrow> string \<Rightarrow> string \<Rightarrow> ('w day, press_report \<times> 'x) act) \<Rightarrow> (string \<Rightarrow> ('w day, 'd) act)
    \<Rightarrow> ('w day, ('x, 'd) story_report) act" where
  "guide_story G build P D =
     seq (clocked_head G build) (\<lambda>sh.
     seq (story_baseline G P D) (\<lambda>(ps, ds).
     seq (idle_window G) (\<lambda>(idle, cIdle).
     seq (timed_window G (moving_rounds G (numbers (sh_pids sh)) (extensions_of (sh_match sh)))) (\<lambda>fw.
     seq (fed_presses G P D) (\<lambda>(qs, d2).
     seq (now_press G P) (\<lambda>(cm, p5).
     seq (at_end G) (\<lambda>ae.
     seq (reading (\<lambda>s. (dy_table s, fed_key s))) (\<lambda>fed.
     seq (date_read_back G) (\<lambda>rb.
     let all = ps @ qs @ [p5] in
     give \<lparr>sr_guide = guide_report_of (feed_part_of sh idle cIdle fw) all (ds @ [d2])
         (records_verdict (per_event fw) (fw_pushed fw) (int (length (sh_pids sh)))) ae,
       sr_clockMove = cm, sr_changedFromBaseline = (surface_hash_of all 5 \<noteq> surface_hash_of all 1),
       sr_changedFromFed = (surface_hash_of all 5 \<noteq> surface_hash_of all 3),
       sr_theAsk = map (\<lambda>i. armOf (fst (all ! i))) [1, 3, 5], sr_whatWeFeed = fed, sr_dateReadBack = rb\<rparr>)))))))))"

definition move_now_run :: "('w, 'z) story_api_scheme \<Rightarrow> ('w day, (unit, unit) story_report \<times> string) act" where
  "move_now_run G =
     seq ladder_check (\<lambda>_.
     seq (guide_story G titles_bat (plain_press G) (\<lambda>_. give ())) (\<lambda>r. give (r, after_move_line r)))"

definition linkage_run :: "('w, 'z) story_api_scheme \<Rightarrow> ('w day, (unit, unit) story_report \<times> string) act" where
  "linkage_run G =
     seq ladder_check (\<lambda>_. seq arms_check (\<lambda>_.
     seq (guide_story G bat_section (arms_press G ARMS) (\<lambda>_. give ())) (\<lambda>r. give (r, ask_line r))))"

definition subscribe_run ::
  "('w, 'z) story_api_scheme \<Rightarrow> ('w day, (unit, slot_dump) story_report \<times> (string \<times> int \<times> slot) list \<times> string) act" where
  "subscribe_run G =
     seq ladder_check (\<lambda>_. seq arms_check (\<lambda>_.
     seq (guide_story G bat_section (arms_press G ARMS) (\<lambda>tag. on_page (slotDump G tag))) (\<lambda>r.
     let ms = slots_matching (hx (snd (sr_whatWeFeed r))) (fst (sr_whatWeFeed r) AND 3)
       (zip [''beforeAnyGuide'', ''afterGuidePress'', ''afterListings''] (gr_dumps (sr_guide r)))
     in give (r, ms, slots_line r ms))))"

definition else_run ::
  "('w, 'z) story_api_scheme \<Rightarrow> ('w day, (unit, unit) story_report \<times> module12 \<times> (string \<rightharpoonup> int) list \<times> string) act" where
  "else_run G =
     seq ladder_check (\<lambda>_.
     seq (on_page (read_module12 G)) (\<lambda>m.
     seq (guide_story G bat_section (arms_press G (mo_arms m)) (\<lambda>_. give ())) (\<lambda>r.
     let cs = map (\<lambda>i. databaseCalls (pp_arms (fst (gr_presses (sr_guide r) ! i)))) [1, 3, 5]
     in give (r, m, cs, ''DATABASE CALLS on the linkage box: '' @ json_counts (map fst (mo_arms m)) (cs ! 2) @ ''. '' @ ask_line r))))"

definition reaching_run :: "('w, 'z) story_api_scheme \<Rightarrow> ('w day, (front_diff, unit) story_report \<times> string \<times> string) act" where
  "reaching_run G =
     seq ladder_check (\<lambda>_. seq arms_check (\<lambda>_.
     seq (guide_story G bat_section (front_press G) (\<lambda>_. give ())) (\<lambda>r.
     let v = frontEndVerdict (map (\<lambda>i. snd (gr_presses (sr_guide r) ! i)) [1, 3, 5])
     in give (r, v, v @ '' '' @ ask_line r))))"

end
