(* ===== verification/Probe_Story_Facts.thy ===== *)
theory Probe_Story_Facts
  imports Probe_Story Probe_Titles_Facts
begin

text \<open>
  What the probes of \<open>Probe_Story\<close> guarantee: one press for all of them, how long the feed window lasts and
  what it counts, and a table of module 12 whose census cannot fail.
\<close>

section \<open>One press\<close>

text \<open>The press of the older theory is the one with the arms as its instrument; the line-up round is the one with its BAT.\<close>

lemma press_page_arms:
  "press_page G raw label tag src w
    = seq (press_page_with G (arms G) raw label tag src) (\<lambda>(p, a0, a1). give (p\<lparr>pp_arms := changes a0 a1\<rparr>)) w"
  by (simp add: press_page_def press_page_with_def seq_def surface_def reading_def doing_def give_def split: prod.splits sum.splits)

lemma bat_round_linkage: "bat_round G bat_section k = lineup_round G k"
  by (simp add: bat_round_def lineup_round_def push_built_bat_def pushBat_def)

section \<open>The feed window\<close>

text \<open>A page on which time passes by waiting only, and whose watch takes the limit it is given.\<close>

definition exact_clock :: "('w, 'z) story_api_scheme \<Rightarrow> bool" where
  "exact_clock G \<longleftrightarrow>
     (\<forall>w ms. 0 \<le> ms \<longrightarrow> s_now G (g_wait G ms w) = s_now G w + ms) \<and>
     (\<forall>w pid sec. s_now G (snd (d_push G pid sec w)) = s_now G w) \<and>
     (\<forall>w lo hi pcs mx. fst (d_readWatch G lo hi pcs mx w) = mx \<and> s_now G (snd (d_readWatch G lo hi pcs mx w)) = s_now G w) \<and>
     (\<forall>w. s_now G (d_readUnwatch G w) = s_now G w)"

definition at_time :: "('w, 'z) story_api_scheme \<Rightarrow> int \<Rightarrow> 'w day \<Rightarrow> bool" where
  "at_time G t s \<longleftrightarrow> s_now G (dy_page s) = t"

lemma exact_clockD:
  assumes "exact_clock G"
  shows "0 \<le> ms \<Longrightarrow> s_now G (g_wait G ms w) = s_now G w + ms" "s_now G (snd (d_push G pid sec w)) = s_now G w"
    "fst (d_readWatch G lo hi pcs mx w) = mx" "s_now G (snd (d_readWatch G lo hi pcs mx w)) = s_now G w"
    "s_now G (d_readUnwatch G w) = s_now G w"
proof -
  note c = assms [unfolded exact_clock_def]
  show "0 \<le> ms \<Longrightarrow> s_now G (g_wait G ms w) = s_now G w + ms" using c [THEN conjunct1] by simp
  show "s_now G (snd (d_push G pid sec w)) = s_now G w" using c [THEN conjunct2, THEN conjunct1] by (simp del: split_paired_All)
  show "fst (d_readWatch G lo hi pcs mx w) = mx" "s_now G (snd (d_readWatch G lo hi pcs mx w)) = s_now G w"
    using c [THEN conjunct2, THEN conjunct2, THEN conjunct1] by (simp_all del: split_paired_All)
  show "s_now G (d_readUnwatch G w) = s_now G w" using c [THEN conjunct2, THEN conjunct2, THEN conjunct2] by simp
qed

lemma waiting_takes:
  "exact_clock G \<Longrightarrow> 0 \<le> ms \<Longrightarrow> takes (at_time G t) (pausing G ms) (\<lambda>_. True) (at_time G (t + ms))"
  by (simp add: takes_def pausing_runs at_time_def exact_clockD)

lemma push_one_takes: "exact_clock G \<Longrightarrow> takes (at_time G t) (push_one G sec pid) (\<lambda>_. True) (at_time G t)"
  by (simp add: takes_def push_one_def on_page_def split_beta at_time_def exact_clockD)

lemma each_takes:
  assumes "\<And>x t. x \<in> set xs \<Longrightarrow> takes (at_time G t) (f x) P (at_time G (t + d))"
  shows "takes (at_time G t) (each f xs) (\<lambda>as. length as = length xs \<and> (\<forall>a \<in> set as. P a)) (at_time G (t + d * int (length xs)))"
  using assms
proof (induction xs arbitrary: t)
  case Nil
  show ?case by (simp add: takes_def)
next
  case (Cons x xs)
  have x: "takes (at_time G t) (f x) P (at_time G (t + d))" by (rule Cons.prems) simp
  have xs: "takes (at_time G (t + d)) (each f xs) (\<lambda>as. length as = length xs \<and> (\<forall>a \<in> set as. P a))
      (at_time G (t + d + d * int (length xs)))"
    by (rule Cons.IH, rule Cons.prems) simp
  have t: "t + d + d * int (length xs) = t + d * int (length (x # xs))" by (simp add: algebra_simps)
  show ?case unfolding each.simps
    by (rule takes_seq [OF x], rule takes_seq [OF xs [unfolded t]], rule takes_give) simp_all
qed

lemma feed_extension_takes:
  assumes "exact_clock G"
  shows "takes (at_time G t) (feed_extension G pids ex) (\<lambda>bs. length bs = length pids) (at_time G t)"
proof -
  have v: "takes (at_time G t) (doing (\<lambda>s. s\<lparr>dy_a1 := next_version (dy_a1 s)\<rparr>)) (\<lambda>_. True) (at_time G t)"
    by (simp add: takes_def at_time_def)
  have r: "takes (at_time G t) (reading f) (\<lambda>_. True) (at_time G t)" for f :: "'a day \<Rightarrow> int list"
    by (simp add: takes_def)
  have p: "takes (at_time G t) (each (push_one G sec) pids) (\<lambda>bs. length bs = length pids \<and> (\<forall>b \<in> set bs. True)) (at_time G t)" for sec
    using each_takes [where d = 0 and f = "push_one G sec" and P = "\<lambda>_. True" and xs = pids and G = G and t = t]
      push_one_takes [OF assms] by simp
  show ?thesis unfolding feed_extension_def
    by (rule takes_seq [OF v], rule takes_seq [OF r]) (use p in \<open>simp add: takes_def\<close>)
qed

lemma paced_takes:
  assumes "exact_clock G"
  shows "takes (at_time G t) (paced_extension G pids ex) (\<lambda>bs. length bs = length pids) (at_time G (t + 1200))"
  unfolding paced_extension_def
  by (rule takes_seq [OF feed_extension_takes [OF assms]], rule takes_seq [OF waiting_takes [OF assms]], simp, rule takes_give) simp_all

lemma all_extensions_take:
  assumes "exact_clock G"
  shows "takes (at_time G t) (each (paced_extension G pids) exts)
    (\<lambda>rs. length rs = length exts \<and> (\<forall>r \<in> set rs. length r = length pids)) (at_time G (t + 1200 * int (length exts)))"
  by (rule each_takes, rule paced_takes [OF assms])

lemma moving_round_takes:
  assumes "exact_clock G"
  shows "takes (at_time G t) (moving_round G pids exts k) (\<lambda>r. length (snd r) = length exts * length pids)
    (at_time G (t + 1200 * int (length exts)))"
proof -
  have r: "takes (at_time G t) (re_read G) (\<lambda>_. True) (at_time G t)"
    by (auto simp: takes_def re_read_def at_time_def split: list.split)
  show ?thesis unfolding moving_round_def
    by (rule takes_seq [OF r], rule takes_seq [OF all_extensions_take [OF assms]], rule takes_give, assumption)
       (auto dest: concat_length)
qed

lemma moving_rounds_take:
  assumes "exact_clock G"
  shows "takes (at_time G t) (moving_rounds G pids exts)
    (\<lambda>(keys, bs). length bs = 5 * length exts * length pids \<and> length keys \<le> 5 \<and> distinct keys)
    (at_time G (t + 6000 * int (length exts)))"
proof -
  have five: "takes (at_time G t) (each (moving_round G pids exts) [0..<5])
      (\<lambda>rs. length rs = length [0..<5] \<and> (\<forall>r \<in> set rs. length (snd r) = length exts * length pids))
      (at_time G (t + 1200 * int (length exts) * int (length [0..<5])))"
    by (rule each_takes, rule moving_round_takes [OF assms])
  have n: "length (concat (map snd rs)) = 5 * length exts * length pids"
    if "length rs = 5" "\<forall>r \<in> set rs. length (snd r) = length exts * length pids" for rs :: "(string \<times> bool list) list"
    using concat_length [of "map snd rs" "length exts * length pids"] that by simp
  have seen: "length (first_seen xs) \<le> length xs \<and> distinct (first_seen xs)" for xs :: "string list"
    by (induction xs rule: rev_induct) (auto simp: first_seen_def)
  have k: "length (first_seen (map fst rs)) \<le> 5 \<and> distinct (first_seen (map fst rs))"
    if "length rs = 5" for rs :: "(string \<times> bool list) list"
    using seen [of "map fst rs"] that by simp
  have t: "t + 1200 * int (length exts) * int (length [0..<5 :: nat]) = t + 6000 * int (length exts)" by simp
  show ?thesis unfolding moving_rounds_def
    by (rule takes_seq [OF five [unfolded t]], rule takes_give, assumption) (use n k in \<open>auto simp: order_trans\<close>)
qed

lemma steady_rounds_take:
  assumes "exact_clock G"
  shows "takes (at_time G t) (steady_rounds G pids exts) (\<lambda>(keys, bs). length bs = 5 * length exts * length pids \<and> keys = [])
    (at_time G (t + 6000 * int (length exts)))"
proof -
  have five: "takes (at_time G t) (each (\<lambda>k. each (paced_extension G pids) exts) [0..<5])
      (\<lambda>rs. length rs = length [0..<5] \<and> (\<forall>r \<in> set rs. length r = length exts \<and> (\<forall>q \<in> set r. length q = length pids)))
      (at_time G (t + 1200 * int (length exts) * int (length [0..<5])))"
    by (rule each_takes, rule all_extensions_take [OF assms])
  have n: "length (concat (concat rs)) = 5 * length exts * length pids"
    if "length rs = 5" "\<forall>r \<in> set rs. length r = length exts \<and> (\<forall>q \<in> set r. length q = length pids)" for rs :: "bool list list list"
  proof -
    have "length (concat rs) = 5 * length exts" using concat_length [of rs "length exts"] that by simp
    moreover have "\<forall>q \<in> set (concat rs). length q = length pids" using that(2) by auto
    ultimately show ?thesis using concat_length [of "concat rs" "length pids"] by simp
  qed
  have t: "t + 1200 * int (length exts) * int (length [0..<5 :: nat]) = t + 6000 * int (length exts)" by simp
  show ?thesis unfolding steady_rounds_def
    by (rule takes_seq [OF five [unfolded t]], rule takes_give, assumption) (use n in simp)
qed

text \<open>Whatever is fed, the window lasts thirty seconds or as long as the feeding, and every push is counted once.\<close>

lemma seq_run: "m w = (Inr a, w1) \<Longrightarrow> seq m k w = k a w1"
  by (simp add: seq_def)

lemma on_page_census: "on_page (census G) s = (Inr (counts_of G LADDER (dy_page s)), s)"
  by (simp add: on_page_def)

lemma armOcode_exact:
  assumes "exact_clock G"
  shows "\<exists>s1. on_page (armOcode G) s = (Inr (), s1) \<and> s_now G (dy_page s1) = s_now G (dy_page s)"
  by (simp add: on_page_def armOcode_def seq_def split_beta exact_clockD(3,4) [OF assms] require_def give_def)

lemma readOcode_exact:
  assumes "exact_clock G"
  shows "\<exists>oc s1. on_page (readOcode G) s = (Inr oc, s1) \<and> s_now G (dy_page s1) = s_now G (dy_page s)"
  by (simp add: on_page_def readOcode_def Let_def give_def exact_clockD(5) [OF assms])

lemma rest_exact:
  assumes "exact_clock G" "s_now G (dy_page s) = t0 + d"
  shows "\<exists>s1. rest_of_window G t0 s = (Inr (), s1) \<and> s_now G (dy_page s1) = t0 + max WINDOW_MS d"
proof (cases "WINDOW_MS - d > 0")
  case True
  then show ?thesis using assms by (simp add: rest_of_window_def pausing_runs exact_clockD(1) [OF assms(1)])
next
  case False
  then show ?thesis using assms by (simp add: rest_of_window_def give_def)
qed

lemma timed_window_runs:
  assumes c: "exact_clock G"
    and f: "takes (at_time G (s_now G (dy_page s))) feeding (\<lambda>(keys, bs). length bs = n \<and> Q keys) (at_time G (s_now G (dy_page s) + d))"
  shows "\<exists>fw s'. timed_window G feeding s = (Inr fw, s') \<and> fw_ms fw = max WINDOW_MS d \<and>
    fw_pushed fw + fw_refused fw = int n \<and> Q (fw_keysFed fw)"
proof -
  obtain s1 where 1: "on_page (armOcode G) s = (Inr (), s1)" "s_now G (dy_page s1) = s_now G (dy_page s)"
    using armOcode_exact [OF c] by blast
  then have "at_time G (s_now G (dy_page s)) s1" by (simp add: at_time_def)
  with f obtain x s2 where x: "feeding s1 = (Inr x, s2)" "(\<lambda>(keys, bs). length bs = n \<and> Q keys) x"
      "at_time G (s_now G (dy_page s) + d) s2"
    unfolding takes_def by blast
  obtain keys bs where kb: "x = (keys, bs)" by (cases x)
  have t2: "s_now G (dy_page s2) = s_now G (dy_page s) + d" using x(3) by (simp add: at_time_def)
  obtain s3 where 3: "rest_of_window G (s_now G (dy_page s)) s2 = (Inr (), s3)"
      "s_now G (dy_page s3) = s_now G (dy_page s) + max WINDOW_MS d"
    using rest_exact [OF c t2] by blast
  obtain oc s4 where 4: "on_page (readOcode G) s3 = (Inr oc, s4)" "s_now G (dy_page s4) = s_now G (dy_page s3)"
    using readOcode_exact [OF c] by blast
  have n: "int (length (filter (\<lambda>b. b) bs)) + int (length (filter Not bs)) = int n"
    using count_both [of bs] x(2) kb by simp
  show ?thesis
    unfolding timed_window_def seq_run [where m = "on_page (census G)", OF on_page_census]
      seq_run [where m = "on_page (armOcode G)", OF 1(1)] seq_simps 1(2) seq_run [where m = feeding, OF x(1)] kb prod.case
      seq_run [where m = "rest_of_window G (s_now G (dy_page s))", OF 3(1)] seq_run [where m = "on_page (readOcode G)", OF 4(1)]
    using n x(2) kb 3(2) 4(2) by (simp add: give_def)
qed


theorem steady_window_exact:
  assumes "exact_clock G"
  shows "\<exists>fw s'. timed_window G (steady_rounds G pids exts) s = (Inr fw, s') \<and>
    fw_ms fw = max 30000 (6000 * int (length exts)) \<and>
    fw_pushed fw + fw_refused fw = int (5 * length exts * length pids) \<and> fw_keysFed fw = []"
  using timed_window_runs [where Q = "\<lambda>keys. keys = []" and n = "5 * length exts * length pids" and d = "6000 * int (length exts)",
      OF assms steady_rounds_take [OF assms]]
  by (simp add: WINDOW_MS_def)

text \<open>A page whose state is its clock; it asks for table 0xA1 and takes every section.\<close>

definition clock_page :: "int story_api" where
  "clock_page = \<lparr>g_hist = (\<lambda>w a. 0), g_profile = (\<lambda>w. w), g_wait = (\<lambda>ms w. w + ms), g_peek = (\<lambda>w a n. replicate n 0),
     g_poke = (\<lambda>a bs w. w), g_key = (\<lambda>raw src w. (''sent'', w)), g_blitLog = (\<lambda>w. []), g_tasks = (\<lambda>w. 42),
     g_shot = (\<lambda>n w. w), g_icount = (\<lambda>w. ''0''), d_boxstate = (\<lambda>w. ''Ready''), d_filters = (\<lambda>w. []),
     d_matches = (\<lambda>w. [\<lparr>mt_tableId = Some 0xA1, mt_extension = Some 0x0BBB, mt_extensionMask = Some 0xFFFC, mt_tableIdMask = 0xFE,
       mt_bytes = None\<rparr>]),
     d_ids = (\<lambda>w. \<lparr>id_bouquetId = None, id_bouquetIdMask = None, id_tsid = 0, id_networkId = 0\<rparr>),
     d_push = (\<lambda>pid sec w. (\<lparr>pr_ok = True, pr_why = []\<rparr>, w)),
     d_NIT = (\<lambda>v w. (\<lparr>pr_ok = True, pr_why = []\<rparr>, w)), d_SDT = (\<lambda>v w. (\<lparr>pr_ok = True, pr_why = []\<rparr>, w)),
     d_TDT = (\<lambda>y mo d hh w. (tdt_utc y mo d hh, w)), d_TOT = (\<lambda>y mo d hh w. w), d_carouselRunning = (\<lambda>w. False),
     d_eepromWrites = (\<lambda>w. 0), d_traceCalls = (\<lambda>ts w. w), d_traceClear = (\<lambda>w. w), d_traceLog = (\<lambda>w. []),
     d_readWatch = (\<lambda>lo hi pcs mx w. (mx, w)), d_readWatchLog = (\<lambda>w. \<lparr>wl_byPc = None, wl_all = [], wl_capped = False\<rparr>),
     d_readUnwatch = (\<lambda>w. w), d_call = (\<lambda>a i args w. (''{}'', w)),
     s_now = (\<lambda>w. w), s_demod = (\<lambda>w. \<lparr>de_reads = 0, de_writes = 0, de_log = 0\<rparr>), s_dispPids = (\<lambda>w. ''[]'')\<rparr>"

lemma clock_page_exact: "exact_clock clock_page"
  by (simp add: exact_clock_def clock_page_def)


section \<open>Module 12\<close>

lemma hex_string_inj: "0 \<le> a \<Longrightarrow> 0 \<le> b \<Longrightarrow> hex_string a = hex_string b \<longleftrightarrow> a = b"
  using hex_value_upper by metis

lemma radix_digit_plain:
  assumes "0 \<le> d" "d < 16"
  shows "radix_digit d \<noteq> CHR '')''"
proof -
  have "list_all (\<lambda>d. radix_digit d \<noteq> CHR '')'') [0..15]" by code_simp
  then show ?thesis using assms by (auto simp: list_all_iff)
qed

lemma hex_string_plain: "0 \<le> n \<Longrightarrow> CHR '')'' \<notin> set (hex_string n)"
  unfolding hex_string_def
proof (induction "16 :: int" n rule: radix_string.induct)
  case (1 n)
  show ?case
  proof (cases "n < 16")
    case True
    then have "radix_string 16 n = [radix_digit n]" by (subst radix_string.simps) simp
    then show ?thesis using radix_digit_plain [of n] 1 True by auto
  next
    case False
    then have "radix_string 16 n = radix_string 16 (n div 16) @ [radix_digit (n mod 16)]"
      by (subst radix_string.simps) simp
    then show ?thesis using radix_digit_plain [of "n mod 16"] 1 False by auto
  qed
qed

lemma upto_bracket:
  assumes "CHR '')'' \<notin> set x" "CHR '')'' \<notin> set y"
  shows "prefix (x @ '')'') (y @ '')'' @ z) \<longleftrightarrow> x = y"
  using assms
proof (induction x arbitrary: y)
  case Nil
  then show ?case by (cases y) auto
next
  case (Cons c x)
  then show ?case by (cases y) auto
qed

definition row12 :: "(nat \<Rightarrow> int) \<Rightarrow> nat \<Rightarrow> string \<times> int" where
  "row12 f i = (''(12,0x'' @ hex_string (int i) @ '') @'' @ h8 (f i), f i)"

lemma row12_of: "prefix (''(12,0x'' @ hex_string (int i) @ '')'') (fst (row12 f j)) \<longleftrightarrow> i = j"
proof -
  have "prefix (''(12,0x'' @ hex_string (int i) @ '')'') (fst (row12 f j))
      \<longleftrightarrow> prefix (hex_string (int i) @ '')'') (hex_string (int j) @ '')'' @ ''@'' @ h8 (f j)) \<or>
         prefix (hex_string (int i) @ '')'') (hex_string (int j) @ '')'' @ '' @'' @ h8 (f j))"
    using upto_bracket [OF hex_string_plain hex_string_plain, of "int i" "int j"] by (simp add: row12_def)
  also have "\<dots> \<longleftrightarrow> i = j"
    using upto_bracket [OF hex_string_plain hex_string_plain, of "int i" "int j"] by (simp add: hex_string_inj)
  finally show ?thesis .
qed

lemma row12_keys: "fst (row12 f i) = fst (row12 f j) \<longleftrightarrow> i = j"
  by (metis row12_of)

lemma row12_parts: "snd (row12 f i) = f i" "prefix ''(12,'' (fst (row12 f i))"
  by (simp_all add: row12_def)

lemma ARMS_not_12: "x \<in> set ARMS \<Longrightarrow> \<not> prefix ''(12,'' (fst x)"
  by (auto simp: ARMS_def)

lemma rows12_countable:
  assumes "\<And>i. 0 \<le> f i \<and> f i < 4294967296"
  shows "countable_rows (ARMS @ map (row12 f) [0..<n])"
proof -
  have "fst x \<noteq> fst (row12 f i)" if "x \<in> set ARMS" for x i
    using ARMS_not_12 [OF that] row12_parts(2) [of f i] by metis
  then have "set (map fst ARMS) \<inter> set (map fst (map (row12 f) [0..<n])) = {}" by force
  moreover have "distinct (map fst (map (row12 f) [0..<n]))"
    by (simp add: distinct_map inj_on_def row12_keys)
  moreover have "\<forall>a \<in> snd ` set (map (row12 f) [0..<n]). 0 \<le> a \<and> a < 4294967296"
    using assms by (simp add: row12_parts)
  ultimately show ?thesis
    using ARMS_countable unfolding countable_rows_def map_append distinct_append set_append image_Un by blast
qed

lemma row12_23:
  assumes "gen23 (ARMS @ map (row12 f) [0..<n]) = Some x"
  shows "0x23 < n \<and> x = row12 f 0x23 \<and> (ARMS @ map (row12 f) [0..<n]) ! 40 = x"
proof -
  obtain i where i: "i < length (ARMS @ map (row12 f) [0..<n])" "prefix ''(12,0x23)'' (fst ((ARMS @ map (row12 f) [0..<n]) ! i))"
      "x = (ARMS @ map (row12 f) [0..<n]) ! i"
    using assms unfolding gen23_def find_Some_iff by blast
  have l: "length ARMS = 5" by (simp add: ARMS_def)
  have "hex_string 0x23 = ''23''" by code_simp
  then have p: "prefix ''(12,0x23)'' (fst (row12 f j)) \<longleftrightarrow> j = 0x23" for j
    using row12_of [of "0x23" f j] by auto
  have "\<not> i < 5"
  proof
    assume "i < 5"
    then have a: "ARMS ! i \<in> set ARMS" "(ARMS @ map (row12 f) [0..<n]) ! i = ARMS ! i" using l by (simp_all add: nth_append)
    have "prefix ''(12,'' (fst (ARMS ! i))" using i(2) a(2) by (auto simp: prefix_def)
    then show False using ARMS_not_12 [OF a(1)] by blast
  qed
  then have r: "(ARMS @ map (row12 f) [0..<n]) ! i = row12 f (i - 5)" "i - 5 < n"
    using i(1) l by (simp_all add: nth_append)
  then have d: "i - 5 = 0x23" using i(2) p by simp
  then have "i = 40" using \<open>\<not> i < 5\<close> by linarith
  then show ?thesis using r d i(3) by simp
qed

lemma arm12_row12: "arm12 G w arr = row12 (\<lambda>i. to_u32 (even_i32 (resolveThunk G w (b32 G w (b32 G w (arr + 4 * int i))))))"
  by (rule ext) (simp add: arm12_def row12_def Let_def)

lemma each_require_Inr: "each (\<lambda>x. require (p x) (e x)) xs w = (Inr z, w') \<Longrightarrow> list_all p xs \<and> w' = w"
  by (induction xs arbitrary: z) (auto simp: seq_Inr require_def give_def throw_def split: if_splits)


text \<open>A page whose module 12 has thirty-six functions, all of them the database question.\<close>

definition bank_page :: "int story_api" where
  "bank_page = clock_page\<lparr>g_peek := (\<lambda>w a n.
     if a = 0x8006E71C then [0, 0, 0, 0x10] else if a = 0x18 then [0x9F, 0xC2, 0x9F, 0x04]
     else if a = 0x70 then [0, 0, 0x10, 0] else if a = 0x74 then [0, 0, 0, 36]
     else if 0x1000 \<le> a \<and> a < 0x1090 then [0, 0, 0x20, 0] else if a = 0x2000 then [0x80, 0x0C, 0xB7, 0x70]
     else replicate n 0)\<rparr>"

lemma bank_page_accepted: "\<not> isl (fst (read_module12 bank_page 0))"
  by code_simp


end
