(* ===== verification/Probe_Payload.thy ===== *)
theory Probe_Payload
  imports Probe_Tables
begin

text \<open>
  Two probes of the pass of \<open>Probe_Titles\<close>: \<open>tools/probes/what-is-on-0xa1.js\<close>, its first form, with a payload whose
  bytes name their own offsets, and \<open>tools/probes/listings-on-the-guide.js\<close>, the titles without the summaries.  The
  pass is given here for any payload: its length, the bytes by which its copy is found and the push that sends it.
\<close>

section \<open>The pass over any payload\<close>

definition coverage_in :: "int \<Rightarrow> string \<times> int \<Rightarrow> coverage" where
  "coverage_in plen x = \<lparr>cg_pc = fst x, cg_bytes = snd x, cg_tenths = (2000 * snd x + plen) div (2 * plen)\<rparr>"

definition analyse_over :: "int \<Rightarrow> int \<Rightarrow> read_entry list \<Rightarrow> analysis" where
  "analyse_over plen payloadAt lg =
     (let pcs = map (coverage_in plen) (readers_of (cover payloadAt plen lg));
          bulk = filter (\<lambda>c. cg_tenths c \<ge> 800) pcs;
          parsers = filter (\<lambda>c. cg_tenths c < 800 \<and> cg_pc c \<notin> set WALKER) pcs
      in \<lparr>an_payloadAt = h8 payloadAt, an_readers = take 14 pcs, an_bulkCopiers = bulk, an_parserCandidates = parsers,
          an_offsetsRead = offsets_read payloadAt plen lg,
          an_readOrder = map (\<lambda>r. rd_pc r @ '' -> +'' @ dec_string (rd_at r - payloadAt))
            (take 60 (filter (\<lambda>r. 0 \<le> rd_at r - payloadAt \<and> rd_at r - payloadAt < plen \<and> rd_pc r \<notin> set WALKER) lg)),
          an_answer =
            (if parsers \<noteq> [] then ''A PARSER READ THE PAYLOAD -- '' @ join_with '', '' (map cg_pc parsers)
             else if bulk \<noteq> [] then ''only bulk copiers touched it -- the parse is further on''
             else ''nothing read the payload'')\<rparr>)"

definition pass_over_watched ::
  "('w, 'z) titles_api_scheme \<Rightarrow> int \<Rightarrow> int list \<Rightarrow> (('w, 'y) day_scheme, pushed_at) act \<Rightarrow> title_pass \<Rightarrow> int
    \<Rightarrow> (('w, 'y) day_scheme, title_pass) act" where
  "pass_over_watched G plen mark push r mid =
     seq (on_page (section_hits G)) (\<lambda>before.
     seq (under_watch G mid push) (\<lambda>(p1, got).
     case got of
       None \<Rightarrow> give (r\<lparr>pa_error := Some (''second push refused: '' @ pr_why p1)\<rparr>)
     | Some lg \<Rightarrow>
         seq (reading dy_a1) (\<lambda>v.
         seq (on_page (section_hits G)) (\<lambda>after.
         let r' = r\<lparr>pa_version := Some v, pa_delivery := Some (fst after - fst before, snd after - snd before),
                    pa_watch := Some (rl_reads lg, rl_capped lg)\<rparr> in
         seq (reading (\<lambda>s. t_find G (dy_page s) mark (to_u32 (mid - 0x2000)) (to_u32 (mid + 0x2000)) 8)) (\<lambda>again.
         give (case again of
             [] \<Rightarrow> r'\<lparr>pa_error := Some ''the marker is not in the watched region afterwards -- unmappable, not zero''\<rparr>
           | a # _ \<Rightarrow> let an = analyse_over plen (addr_of a - 8) (rl_all lg)
                      in r'\<lparr>pa_answer := Some (an_answer an), pa_analysis := Some an\<rparr>))))))"

definition pass_over ::
  "('w, 'z) titles_api_scheme \<Rightarrow> int \<Rightarrow> int list \<Rightarrow> (int \<Rightarrow> int \<Rightarrow> bool \<Rightarrow> (('w, 'y) day_scheme, pushed_at) act)
    \<Rightarrow> string \<Rightarrow> int \<Rightarrow> int \<Rightarrow> bool \<Rightarrow> (('w, 'y) day_scheme, title_pass) act" where
  "pass_over G plen mark push name pid ext sig =
     (let r = start_pass name pid ext sig in
      seq (reading (\<lambda>s. wants G 0xA1 (dy_page s))) (\<lambda>ok.
      if \<not> ok
      then give (r\<lparr>pa_error := Some ''the 0xA1 subscription has lapsed -- a zero here would be about timing''\<rparr>)
      else seq (push pid ext sig) (\<lambda>p0.
      if \<not> pr_ok p0 then give (r\<lparr>pa_error := Some (''push refused: '' @ pr_why p0)\<rparr>)
      else seq (pausing G 8000) (\<lambda>_.
      seq (reading (\<lambda>s. outside_ring 2048 (pu_at p0) (t_find G (dy_page s) mark 0x80000000 0x82000000 24))) (\<lambda>found.
      if found = []
      then give (r\<lparr>pa_copiesFound := Some found,
             pa_answer := Some (''the section was delivered and NEVER COPIED OUT OF THE RING -- nothing took it, ''
                            @ ''which for 0xA1 is itself the finding'')\<rparr>)
      else pass_over_watched G plen mark (push pid ext sig)
             (r\<lparr>pa_copiesFound := Some found, pa_watching := Some (choose_copy found)\<rparr>)
             (addr_of (choose_copy found)))))))"

text \<open>The section goes to every new PID; the controls go to the PID that answered.\<close>

definition passes_over ::
  "('w, 'z) titles_api_scheme \<Rightarrow> int \<Rightarrow> int list \<Rightarrow> (int \<Rightarrow> int \<Rightarrow> bool \<Rightarrow> (('w, 'y) day_scheme, pushed_at) act)
    \<Rightarrow> string list \<Rightarrow> (('w, 'y) day_scheme, titles_passes) act" where
  "passes_over G plen mark push pids =
     seq (each (\<lambda>p. pass_over G plen mark push (''PID '' @ p @ '', ext 0xBBB, payload signed 9E 8B'') (pid_of p) 0x0BBB True) pids) (\<lambda>rs.
     let responder = find parsed_payload rs in
     seq (case responder of
            None \<Rightarrow> give (None, None)
          | Some r \<Rightarrow>
              let rp = pid_of (pa_pid r) in
              seq (pass_over G plen mark push ''control: same PID and extension, payload NOT signed'' rp 0x0BBB False) (\<lambda>c1.
              seq (pass_over G plen mark push ''control: same PID, signed, extension 0xBAD outside the mask'' rp 0x0BAD True) (\<lambda>c2.
              give (Some c1, Some c2)))) (\<lambda>(c1, c2).
     seq (reading (\<lambda>s. tablesWanted G (dy_page s))) (\<lambda>ts.
     give \<lparr>tq_byPid = rs, tq_responder = responder, tq_controlSignature = c1, tq_controlExtension = c2, tq_tables = ts\<rparr>)))"

text \<open>With the payload of the titles it is the pass of the titles.\<close>

lemma analyse_over_titles: "analyse_over PAYLOAD_LEN = analyse"
proof -
  have "coverage_in PAYLOAD_LEN = coverage_of" by (rule ext) (simp add: coverage_in_def coverage_of_def)
  then show ?thesis by (intro ext) (simp only: analyse_over_def analyse_def)
qed

lemma pass_over_titles: "pass_over G PAYLOAD_LEN MARK (push_titles G) = pass G"
  by (intro ext) (simp only: pass_over_def pass_def pass_over_watched_def pass_watched_def analyse_over_titles)

lemma passes_over_titles: "passes_over G PAYLOAD_LEN MARK (push_titles G) = titles_passes G"
  by (intro ext) (simp only: passes_over_def titles_passes_def pass_over_titles)

section \<open>What is on 0xA1\<close>

text \<open>The payload is that of \<open>what-is-table-0xa0.js\<close>: ninety-six bytes, the first two those the unit matches.\<close>

definition push_named ::
  "('w, 'z) titles_api_scheme \<Rightarrow> int \<Rightarrow> int \<Rightarrow> bool \<Rightarrow> (('w, 'y) day_scheme, pushed_at) act" where
  "push_named G pid ext sig =
     seq (doing (\<lambda>s. s\<lparr>dy_a1 := next_version (dy_a1 s)\<rparr>)) (\<lambda>_.
     seq (reading (\<lambda>s. table_section 0xA1 (dy_a1 s) ext sig)) (\<lambda>sec.
     push_section G pid sec))"

definition payload_note :: "titles_passes \<Rightarrow> string" where
  "payload_note q =
     (case tq_responder q of
        Some _ \<Rightarrow> ''the unsigned control must go silent and the out-of-mask extension must go silent; if either ''
          @ ''reads the payload the same way, that field is not what selects the section''
      | None \<Rightarrow> ''no parser touched a 0xA1 payload on any new PID even with the signature the match unit ''
          @ ''demands -- the next thing to vary is the rest of the header the unit does not constrain'')"

text \<open>The line-up is that of the titles, whose check of its own payload always passes.\<close>

lemma titles_payload_passes: "titles_payload True ! 3 AND 0x70 = 0"
  by code_simp

definition on_0xa1_run :: "('w, 'z) titles_api_scheme \<Rightarrow> ('w titles, titles_lineup \<times> titles_passes \<times> string) act" where
  "on_0xa1_run G =
     seq (titles_setup G) (\<lambda>li.
     seq (passes_over G PLEN TABLE_MARK (push_named G) (tl_newFilters li)) (\<lambda>q.
     give (li, q, payload_note q)))"

section \<open>The listings on the guide\<close>

record listings_report =
  li_lineup :: titles_lineup
  li_passes :: titles_passes
  li_rebuildSeconds :: int
  li_beforeSky :: title_press
  li_beforeGuide :: title_press
  li_extensionsFed :: "string list"
  li_sectionsPushed :: int
  li_sectionsRefused :: int
  li_afterSky :: title_press
  li_afterGuide :: title_press
  li_guideChanged :: bool
  li_verdict :: string
  li_note :: string

definition guide_verdict :: "bool \<Rightarrow> string" where
  "guide_verdict changed =
     (if changed then ''THE GUIDE SCREEN CHANGED after the listings were fed -- look at the screenshots''
      else ''the guide is byte-identical before and after, so the parse does not reach the screen yet'')"

definition listings_run :: "('w, 'z) titles_api_scheme \<Rightarrow> ('w titles, listings_report) act" where
  "listings_run G =
     seq (titles_setup G) (\<lambda>li.
     seq (titles_passes G (tl_newFilters li)) (\<lambda>q.
     seq (await_quiet G 90) (\<lambda>secs.
     seq (titles_press G 0x7D ''sky, before the listings'') (\<lambda>k0.
     seq (titles_press G 0x80 ''tv guide, before the listings'') (\<lambda>k1.
     seq (on_page (doing (g_shot G ''guide-before-listings''))) (\<lambda>_.
     seq (require (tk_widgets k1 \<noteq> 0)
       (''the BASELINE guide press built no widgets, so the box was not drawing before the ''
        @ ''listings were fed and any later change would be the box recovering rather than ''
        @ ''the listings arriving -- which is exactly what the previous run measured'')) (\<lambda>_.
     let exts = extensions_of (hd (tl_a1Match li)) in
     seq (feed_titles G exts) (\<lambda>bs.
     seq (pausing G 12000) (\<lambda>_.
     seq (titles_press G 0x7D ''sky, after the listings'') (\<lambda>k2.
     seq (titles_press G 0x80 ''tv guide, after the listings'') (\<lambda>k3.
     seq (on_page (doing (g_shot G ''guide-after-listings''))) (\<lambda>_.
     let changed = (su_hash (tk_surface k3) \<noteq> su_hash (tk_surface k1)) in
     give \<lparr>li_lineup = li, li_passes = q, li_rebuildSeconds = secs, li_beforeSky = k0, li_beforeGuide = k1,
       li_extensionsFed = map hx exts, li_sectionsPushed = int (length (filter (\<lambda>b. b) bs)),
       li_sectionsRefused = int (length (filter Not bs)), li_afterSky = k2, li_afterGuide = k3,
       li_guideChanged = changed, li_verdict = guide_verdict changed, li_note = payload_note q\<rparr>))))))))))))"

end
