(* ===== verification/Probe_Payload_Facts.thy ===== *)
theory Probe_Payload_Facts
  imports Probe_Payload Probe_Titles_Facts
begin

text \<open>The passes over any payload end with the watch off, and so do those of \<open>what-is-on-0xa1.js\<close>.\<close>

text \<open>A push that never raises and leaves the watch as it is.\<close>

definition plain_push :: "('w \<Rightarrow> bool) \<Rightarrow> (int \<Rightarrow> int \<Rightarrow> bool \<Rightarrow> (('w, 'y) day_scheme, pushed_at) act) \<Rightarrow> bool" where
  "plain_push off push \<longleftrightarrow> (\<forall>pid ext sig s. \<exists>a s'. push pid ext sig s = (Inr a, s') \<and> (off_page off s \<longrightarrow> off_page off s'))"

lemma plain_pushD:
  assumes "plain_push off push"
  shows "\<exists>a s'. push pid ext sig s = (Inr a, s')" "takes (off_page off) (push pid ext sig) (\<lambda>_. True) (off_page off)"
  using assms unfolding plain_push_def takes_def by blast+

lemma push_named_plain: "unwatched_by G off \<Longrightarrow> plain_push off (push_named G)"
  by (simp add: plain_push_def push_named_def push_section_runs off_page_def unwatched_byD)

lemma push_titles_plain: "unwatched_by G off \<Longrightarrow> plain_push off (push_titles G)"
  by (simp add: plain_push_def push_titles_def push_section_runs off_page_def unwatched_byD)

lemma pass_over_watched_off:
  assumes "unwatched_by G off" "\<And>s. \<exists>a s'. push s = (Inr a, s')" "nothing_said r"
  shows "takes J (pass_over_watched G plen mark push r mid) says_one (off_page off)"
proof -
  let ?rest = "\<lambda>before got. case got of
       (p1, None) \<Rightarrow> give (r\<lparr>pa_error := Some (''second push refused: '' @ pr_why p1)\<rparr>)
     | (p1, Some lg) \<Rightarrow>
         seq (reading dy_a1) (\<lambda>v.
         seq (on_page (section_hits G)) (\<lambda>after.
         let r' = r\<lparr>pa_version := Some v, pa_delivery := Some (fst after - fst before, snd after - snd before),
                    pa_watch := Some (rl_reads lg, rl_capped lg)\<rparr> in
         seq (reading (\<lambda>s. t_find G (dy_page s) mark (to_u32 (mid - 0x2000)) (to_u32 (mid + 0x2000)) 8)) (\<lambda>again.
         give (case again of
             [] \<Rightarrow> r'\<lparr>pa_error := Some ''the marker is not in the watched region afterwards -- unmappable, not zero''\<rparr>
           | a # _ \<Rightarrow> let an = analyse_over plen (addr_of a - 8) (rl_all lg)
                      in r'\<lparr>pa_answer := Some (an_answer an), pa_analysis := Some an\<rparr>))))"
  have r: "pa_error r = None" "pa_answer r = None" using assms(3) by (simp_all add: nothing_said_def)
  have rest: "takes (off_page off) (?rest before got) says_one (off_page off)" for before :: "int \<times> int" and got
    by (cases got; cases "snd got")
       (simp_all add: takes_def seq_def on_page_def section_hits_runs off_page_def says_one_def r Let_def split: list.split)
  have h: "takes J (on_page (section_hits G)) (\<lambda>_. True) (\<lambda>_. True)"
    by (simp add: takes_def on_page_def section_hits_runs)
  show ?thesis
    unfolding pass_over_watched_def
    by (rule takes_seq [OF h], rule takes_seq [OF under_watch_off [OF assms(1,2)]]) (use rest in \<open>simp add: split_beta\<close>)
qed

lemma pass_over_off:
  assumes "unwatched_by G off" "plain_push off push"
  shows "takes (off_page off) (pass_over G plen mark push name pid ext sig) says_one (off_page off)"
proof -
  let ?r = "start_pass name pid ext sig"
  have n: "nothing_said (?r\<lparr>pa_copiesFound := c, pa_watching := w\<rparr>)" "pa_error ?r = None" "pa_answer ?r = None" for c w
    by (simp_all add: nothing_said_def start_pass_def)
  show ?thesis
    unfolding pass_over_def Let_def
    by (rule takes_seq [OF keeps [OF reading_keep]], rule takes_if, rule takes_give, assumption, simp add: says_one_def n,
        rule takes_seq [OF plain_pushD(2) [OF assms(2)]], rule takes_if, rule takes_give, assumption,
        simp add: says_one_def n, rule takes_seq [OF keeps [OF wait_keep [OF assms(1)]]],
        rule takes_seq [OF keeps [OF reading_keep]], rule takes_if, rule takes_give, assumption,
        simp add: says_one_def n, rule pass_over_watched_off [OF assms(1) plain_pushD(1) [OF assms(2)] n(1)])
qed

text \<open>
  No pass over any payload leaves the watch on.  The passes and their controls do not raise, each says either why
  it stopped or what it found, and the controls are made if and only if some pass found a parser.
\<close>

theorem payload_passes_end_unwatched:
  assumes "unwatched_by G off" "plain_push off push"
  shows "takes (off_page off) (passes_over G plen mark push pids) (passes_ok pids) (off_page off)"
proof -
  note one = pass_over_off [OF assms]
  have rs: "takes (off_page off) (each (\<lambda>p. pass_over G plen mark push (name p) (pid_of p) 0x0BBB True) pids)
      (\<lambda>rs. length rs = length pids \<and> (\<forall>r \<in> set rs. says_one r)) (off_page off)" for name :: "string \<Rightarrow> string"
    unfolding yields_takes [symmetric] by (rule yields_each) (simp add: yields_takes one)
  have controls: "takes (off_page off) (case find parsed_payload rs of None \<Rightarrow> give (None, None)
        | Some r \<Rightarrow> let rp = pid_of (pa_pid r) in
            seq (pass_over G plen mark push u rp 0x0BBB False) (\<lambda>c1.
            seq (pass_over G plen mark push v rp 0x0BAD True) (\<lambda>c2. give (Some c1, Some c2))))
      (\<lambda>(c1, c2). (c1 = None \<longleftrightarrow> find parsed_payload rs = None) \<and> (c2 = None \<longleftrightarrow> c1 = None) \<and> pred_option says_one c1 \<and> pred_option says_one c2)
      (off_page off)" for rs u v
  proof (cases "find parsed_payload rs")
    case None
    then show ?thesis by (simp add: takes_def)
  next
    case (Some r)
    then show ?thesis
      by (simp add: Let_def) (rule takes_seq [OF one], rule takes_seq [OF one], rule takes_give, assumption, simp)
  qed
  show ?thesis
    unfolding passes_over_def
    by (rule takes_seq, rule rs, unfold Let_def, rule takes_seq, rule controls [unfolded Let_def])
       (auto simp: takes_def passes_ok_def list_all_iff find_None_ex split: prod.splits option.splits)
qed

lemma on_0xa1_ends_unwatched:
  "unwatched_by G off \<Longrightarrow> takes (off_page off) (passes_over G PLEN TABLE_MARK (push_named G) pids) (passes_ok pids) (off_page off)"
  by (rule payload_passes_end_unwatched [OF _ push_named_plain])

end
