(* ===== verification/Probe_Linkage.thy ===== *)
theory Probe_Linkage
  imports Probe_Story
begin

text \<open>
  \<open>tools/probes/where-the-linkage-takes-it.js\<close>: the guide pressed before and after a BAT that carries the linkage,
  its bytecode logged at both presses, and what of it only the second press ran.  The state, the clock and the
  line-up are those of \<open>Probe_Story\<close>.  \<open>press\<close> takes the trace with a watch without a filter, so the log holds
  operand reads as well as fetches.
\<close>

section \<open>The page\<close>

text \<open>An entry of the log of the unfiltered watch, as the CSV prints it.\<close>

record access =
  ac_pc :: string
  ac_at :: string
  ac_size :: int
  ac_icount :: int

record access_log =
  al_byPc :: "string list option"
  al_all :: "access list"
  al_capped :: bool
  al_reads :: int
  al_max :: int

record 'w linkage_api = "'w story_api" +
  l_readWatch :: "int \<Rightarrow> int \<Rightarrow> int \<Rightarrow> 'w \<Rightarrow> int \<times> 'w"
  l_readWatchLog :: "'w \<Rightarrow> access_log"
  l_eeTxClear :: "'w \<Rightarrow> 'w"

section \<open>A press with a trace\<close>

definition LINK_TRACE_MAX :: int where "LINK_TRACE_MAX = 300000"

definition arm_trace :: "('w, 'z) linkage_api_scheme \<Rightarrow> ('w, unit) act" where
  "arm_trace G =
     seq (\<lambda>w. let (mx, w') = l_readWatch G OCODE_LO (OCODE_LO + OCODE_LEN) LINK_TRACE_MAX w in (Inr mx, w')) (\<lambda>mx.
     require (mx = LINK_TRACE_MAX) ''__readWatch does not take {max} on this page'')"

record traced_ocode = ocode +
  oc_csv :: string

definition access_csv :: "access \<Rightarrow> string" where
  "access_csv e = ac_pc e @ '','' @ ac_at e @ '','' @ dec_string (ac_size e) @ '','' @ dec_string (ac_icount e)"

definition traced_of :: "access_log \<Rightarrow> traced_ocode" where
  "traced_of lg =
     (let st = map ac_at (filter (\<lambda>e. ac_pc e = MAIN_FETCH_S) (al_all lg)); segs = segments st
      in \<lparr>oc_instructions = fetch_total (case al_byPc lg of None \<Rightarrow> [] | Some l \<Rightarrow> l), oc_logged = int (length st),
          oc_capped = al_capped lg, oc_events = int (length segs), oc_sizes = map (\<lambda>s. int (length s)) segs,
          oc_segments = map (join_with '' '') segs, oc_csv = join_with '';'' (map access_csv (al_all lg))\<rparr>)"

definition read_trace :: "('w, 'z) linkage_api_scheme \<Rightarrow> ('w, traced_ocode) act" where
  "read_trace G =
     seq (reading (l_readWatchLog G)) (\<lambda>lg.
     seq (doing (d_readUnwatch G)) (\<lambda>_. give (traced_of lg)))"

definition traced_page ::
  "('w, 'z) linkage_api_scheme \<Rightarrow> int \<Rightarrow> string \<Rightarrow> string \<Rightarrow> string \<Rightarrow> bool \<Rightarrow> ('w, press_report \<times> traced_ocode option) act" where
  "traced_page G raw label tag src trace =
     seq (doing (d_traceCalls G WIDGET_TRACE)) (\<lambda>_.
     seq (doing (d_traceClear G)) (\<lambda>_.
     seq (surface G) (\<lambda>s0.
     seq (arms G) (\<lambda>a0.
     seq (if trace then arm_trace G else give ()) (\<lambda>_.
     seq (press_key G raw 0) (\<lambda>_.
     seq (sleep G 11000) (\<lambda>_.
     seq (if trace then seq (read_trace G) (\<lambda>t. give (Some t)) else give None) (\<lambda>oc.
     seq (reading (d_traceLog G)) (\<lambda>lg.
     seq (doing (d_traceCalls G [])) (\<lambda>_.
     seq (surface G) (\<lambda>s1.
     seq (arms G) (\<lambda>a1.
     give (\<lparr>pp_tag = tag, pp_key = label, pp_pressedFrom = src, pp_widgets = times_of ''newWidget'' lg,
       pp_applies = times_of ''apply'' lg, pp_damage = times_of ''DAMAGE'' lg,
       pp_moved = (su_hash s1 \<noteq> su_hash s0), pp_surface = s1, pp_drew = (times_of ''newWidget'' lg > 0),
       pp_arms = changes a0 a1\<rparr>, oc)))))))))))))"

definition traced_press ::
  "('w, 'z) linkage_api_scheme \<Rightarrow> int \<Rightarrow> string \<Rightarrow> string \<Rightarrow> string \<Rightarrow> bool
    \<Rightarrow> ('w day, press_report \<times> traced_ocode option) act" where
  "traced_press G raw label tag src trace =
     seq (reading dy_last) (\<lambda>was.
     seq (require (was \<noteq> Some raw)
       (''HARNESS: '' @ tag @ '' presses '' @ hx raw @ '' twice running; a box already on ''
        @ ''that screen rebuilds nothing and the zero would read as the fault'')) (\<lambda>_.
     seq (doing (\<lambda>s. s\<lparr>dy_last := Some raw\<rparr>)) (\<lambda>_.
     on_page (traced_page G raw label tag src trace))))"

section \<open>Where two builds part\<close>

fun common_prefix :: "'a list \<Rightarrow> 'a list \<Rightarrow> nat" where
  "common_prefix (x # xs) (y # ys) = (if x = y then Suc (common_prefix xs ys) else 0)"
| "common_prefix _ _ = 0"

record build_diff =
  bd_aLength :: int
  bd_bLength :: int
  bd_commonPrefix :: int
  bd_parting :: "(string \<times> string \<times> string) option"
  bd_note :: "string option"

text \<open>\<open>slice(max(0, k - 14), k)\<close> and the next twenty-four of each.\<close>

definition build_diff_of :: "string list \<Rightarrow> string list \<Rightarrow> build_diff" where
  "build_diff_of a0 b0 =
     (let k = common_prefix a0 b0
      in \<lparr>bd_aLength = int (length a0), bd_bLength = int (length b0), bd_commonPrefix = int k,
          bd_parting =
            (if k < length a0 \<and> k < length b0
             then Some (join_with '' '' (drop (k - 14) (take k a0)), join_with '' '' (take 24 (drop k a0)), join_with '' '' (take 24 (drop k b0)))
             else None),
          bd_note =
            (if k < length a0 \<and> k < length b0 then None
             else Some (if length a0 = length b0 then ''event 0 is identical in both''
                        else ''one build simply ENDS at '' @ dec_string (int k)))\<rparr>)"

definition first_event :: "string list \<Rightarrow> string list" where
  "first_event ss = (case ss of [] \<Rightarrow> [] | s # _ \<Rightarrow> split_sp s)"

section \<open>The code only the second press ran\<close>

text \<open>\<open>parseInt(x, 16)\<close> of an address the page printed.\<close>

definition trace_addr :: "string \<Rightarrow> int" where
  "trace_addr s = (case parse_int 16 s of None \<Rightarrow> 0 | Some v \<Rightarrow> v)"

definition all_addrs :: "string list \<Rightarrow> string list" where
  "all_addrs ss = concat (map split_sp ss)"

definition new_addrs :: "string list \<Rightarrow> string list \<Rightarrow> string list" where
  "new_addrs SA SB = sort_key trace_addr (first_seen (filter (\<lambda>x. x \<notin> set (all_addrs SA)) (all_addrs SB)))"

definition run_step :: "(int \<times> int) list \<Rightarrow> int \<Rightarrow> (int \<times> int) list" where
  "run_step runs v =
     (if runs = [] \<or> v > snd (last runs) + 8 then runs @ [(v, v)]
      else butlast runs @ [(fst (last runs), v)])"

definition code_runs :: "int list \<Rightarrow> (int \<times> int) list" where
  "code_runs vs = foldl run_step [] vs"

definition run_text :: "int \<times> int \<Rightarrow> string" where
  "run_text r = h8 (fst r) @ ''-'' @ h8 (snd r) @ '' ('' @ dec_string (snd r - fst r + 1) @ '' bytes)''"

record linkage_diff =
  ld_eventsOnlyInB :: "repeated_event list"
  ld_eventsInBoth :: "repeated_event list"
  ld_build :: build_diff
  ld_newCodeRuns :: "string list"
  ld_newAddressCount :: int

definition linkage_diff_of :: "string list \<Rightarrow> string list \<Rightarrow> linkage_diff" where
  "linkage_diff_of SA SB =
     (let (nov, shared) = windows SA SB; keys = new_addrs SA SB
      in \<lparr>ld_eventsOnlyInB = map repeated_of nov, ld_eventsInBoth = map repeated_of shared,
          ld_build = build_diff_of (first_event SA) (first_event SB),
          ld_newCodeRuns = map run_text (code_runs (map trace_addr keys)), ld_newAddressCount = int (length keys)\<rparr>)"

section \<open>The run\<close>

text \<open>A counter that was not in the log prints as \<open>null\<close>, one without digits as \<open>NaN\<close>.\<close>

definition total_text :: "int option option \<Rightarrow> string" where
  "total_text t = (case t of None \<Rightarrow> ''null'' | Some None \<Rightarrow> ''NaN'' | Some (Some n) \<Rightarrow> if n < 0 then ''-'' @ dec_string (- n) else dec_string n)"

definition segs :: "press_report \<times> traced_ocode option \<Rightarrow> string list" where
  "segs p = (case snd p of None \<Rightarrow> [] | Some t \<Rightarrow> oc_segments t)"

definition press_line :: "press_report \<times> traced_ocode option \<Rightarrow> string" where
  "press_line p =
     (case snd p of None \<Rightarrow> [] | Some t \<Rightarrow> total_text (oc_instructions t)) @ '' o-code, arms ''
     @ json_counts (map fst ARMS) (pp_arms (fst p)) @ '', '' @ screen_text (pp_surface (fst p))"

definition linkage_headline ::
  "press_report \<times> traced_ocode option \<Rightarrow> press_report \<times> traced_ocode option \<Rightarrow> linkage_diff \<Rightarrow> string" where
  "linkage_headline A B d =
     ''A (no linkage): '' @ press_line A @ ''. B (linkage): '' @ press_line B
     @ ''. Build parts after '' @ dec_string (bd_commonPrefix (ld_build d)) @ '' of '' @ dec_string (bd_aLength (ld_build d))
     @ ''. New code only B executed: '' @ join_with '' '' (ld_newCodeRuns d)"

record linkage_report =
  lk_head :: story_head
  lk_presses :: "(press_report \<times> traced_ocode option) list"
  lk_rebuildAfterLinkageSeconds :: int
  lk_diff :: linkage_diff
  lk_headline :: string

text \<open>Press A: the menu, then the guide with the trace, then the menu again.\<close>

definition press_without ::
  "('w, 'z) linkage_api_scheme \<Rightarrow> ('w day, (press_report \<times> traced_ocode option) list) act" where
  "press_without G =
     seq (traced_press G 0x7D ''sky'' ''sky-before-A'' ''the boot screen'' False) (\<lambda>p0.
     seq (require (pp_drew (fst p0)) ''the settling sky press built no widgets, so the box is not drawing at all'') (\<lambda>_.
     seq (traced_press G 0x80 ''tv guide'' ''guide-A-no-linkage'' ''the menu'' True) (\<lambda>A.
     seq (shoot G ''guide-A-no-linkage'') (\<lambda>_.
     seq (require (pp_drew (fst A)) ''press A built no widgets, so it is not the press this compares'') (\<lambda>_.
     seq (require (or0 (pp_arms (fst A) ''ARM: not answered'') \<noteq> 0)
       (''press A did not take the NOT-ANSWERED arm ('' @ json_counts (map fst ARMS) (pp_arms (fst A)) @ ''), so the ''
        @ ''box is not in the state this diff means to compare from'')) (\<lambda>_.
     seq (traced_press G 0x7D ''sky'' ''sky-between'' ''the guide'' False) (\<lambda>p2.
     give [p0, A, p2])))))))"

text \<open>The second BAT, with the linkage, and the wait for the rebuild it starts.\<close>

definition push_linkage :: "('w, 'z) linkage_api_scheme \<Rightarrow> ('w day, int) act" where
  "push_linkage G =
     seq (on_page (doing (l_eeTxClear G))) (\<lambda>_.
     seq (push_built_bat G bat_section) (\<lambda>bl.
     seq (require (pr_ok bl) (''the linkage BAT was refused: '' @ pr_why bl)) (\<lambda>_.
     await_quiet G 90)))"

definition press_linked :: "('w, 'z) linkage_api_scheme \<Rightarrow> ('w day, press_report \<times> traced_ocode option) act" where
  "press_linked G =
     seq (traced_press G 0x80 ''tv guide'' ''guide-B-with-linkage'' ''the menu'' True) (\<lambda>B.
     seq (shoot G ''guide-B-with-linkage'') (\<lambda>_.
     seq (require (pp_drew (fst B)) ''press B built no widgets'') (\<lambda>_.
     seq (require (or0 (pp_arms (fst B) ''ARM: ANSWERED'') \<noteq> 0)
       (''press B did not take the ANSWERED arm ('' @ json_counts (map fst ARMS) (pp_arms (fst B)) @ ''), so the ''
        @ ''linkage did not land and the diff would be between two copies of the same state'')) (\<lambda>_.
     give B))))"

definition linkage_takes_run :: "('w, 'z) linkage_api_scheme \<Rightarrow> ('w day, linkage_report) act" where
  "linkage_takes_run G =
     seq ladder_check (\<lambda>_. seq arms_check (\<lambda>_.
     seq (clocked_head G titles_bat) (\<lambda>sh.
     seq (press_without G) (\<lambda>ps.
     seq (push_linkage G) (\<lambda>secs.
     seq (press_linked G) (\<lambda>B.
     let A = ps ! 1; d = linkage_diff_of (segs A) (segs B)
     in give \<lparr>lk_head = sh, lk_presses = ps @ [B], lk_rebuildAfterLinkageSeconds = secs, lk_diff = d,
       lk_headline = linkage_headline A B d\<rparr>))))))"

end
