(* ===== verification/Probe_Guide_Reads.thy ===== *)
theory Probe_Guide_Reads
  imports Probe_Linkage
begin

text \<open>
  \<open>tools/probes/what-the-guide-reads.js\<close>: the guide pressed on a box with a line-up and no listings and again after
  listings were fed, with the whole bytecode of both presses logged, and a census of the call sites that use the
  callback of the records.  Its watch is the unfiltered one of \<open>Probe_Linkage\<close>.
\<close>

section \<open>The call sites\<close>

definition SITES :: "(string \<times> int) list" where
  "SITES = [
    (''cb0xB5-entry'', 0x800C6B38),
    (''walker-FUN_800c64cc'', 0x800C64CC),
    (''site-800c1610'', 0x800C1610),
    (''site-800c194e'', 0x800C194E),
    (''site-800c2fd6'', 0x800C2FD6),
    (''site-800c309a'', 0x800C309A),
    (''site-800c35b6'', 0x800C35B6),
    (''site-800c6f46'', 0x800C6F46),
    (''site-800c72d2 (the time compare)'', 0x800C72D2),
    (''site-800c7380'', 0x800C7380),
    (''site-800c7496'', 0x800C7496),
    (''site-800c7592'', 0x800C7592),
    (''site-800c75fc'', 0x800C75FC),
    (''site-800c7722'', 0x800C7722),
    (''huffman-0x800BECF0'', 0x800BECF0),
    (''carousel-parser-0x800C95D0'', 0x800C95D0),
    (''carousel-parser-0x800C9CA0'', 0x800C9CA0),
    (''walker-callsite-in-carousel-0x800C9BC4'', 0x800C9BC4),
    (''walker-callsite-in-carousel-0x800C9BF4'', 0x800C9BF4)]"

definition site_row :: "(string \<times> int) list \<Rightarrow> string \<times> int \<Rightarrow> ('w, int) act" where
  "site_row hits x =
     (case map_of hits (h8 (snd x)) of
        Some n \<Rightarrow> give n
      | None \<Rightarrow> throw (''__pcHits did not return the key for '' @ fst x @ '' -- a census that cannot find ''
                  @ ''its own subject is a harness failure, never a count of zero''))"

definition site_census :: "('w, 'z) page_api_scheme \<Rightarrow> ('w, string \<rightharpoonup> int) act" where
  "site_census G = read_counts site_row G SITES"

section \<open>The press\<close>

record guide_trace =
  gt_instructions :: "int option option"
  gt_reads :: int
  gt_capped :: bool
  gt_cap :: int
  gt_csv :: string
  gt_stream :: string

record guide_press =
  gp_press :: press_report
  gp_blits :: int
  gp_trace :: "guide_trace option"

definition arm_guide_trace :: "('w, 'z) linkage_api_scheme \<Rightarrow> ('w, unit) act" where
  "arm_guide_trace G =
     seq (\<lambda>w. let (mx, w') = l_readWatch G OCODE_LO (OCODE_LO + OCODE_LEN) LINK_TRACE_MAX w in (Inr mx, w')) (\<lambda>mx.
     require (mx = LINK_TRACE_MAX)
       (''this page'' @ [CHR 0x27] @ ''s __readWatch does not take {max}; the trace would cap at ''
        @ dec_string mx @ '' and a capped stream reads exactly like a short one''))"

definition guide_trace_of :: "access_log \<Rightarrow> guide_trace" where
  "guide_trace_of lg =
     \<lparr>gt_instructions = fetch_total (case al_byPc lg of None \<Rightarrow> [] | Some l \<Rightarrow> l), gt_reads = al_reads lg,
      gt_capped = al_capped lg, gt_cap = al_max lg, gt_csv = join_with '';'' (map access_csv (al_all lg)),
      gt_stream = join_with '' '' (map ac_at (filter (\<lambda>e. ac_pc e = MAIN_FETCH_S) (al_all lg)))\<rparr>"

text \<open>A press that drew must show the fetch site in the counts by PC; a count without digits is not missing.\<close>

definition guide_page ::
  "('w, 'z) linkage_api_scheme \<Rightarrow> int \<Rightarrow> string \<Rightarrow> string \<Rightarrow> string \<Rightarrow> bool \<Rightarrow> ('w, guide_press) act" where
  "guide_page G raw label tag src trace =
     seq (doing (d_traceCalls G WIDGET_TRACE)) (\<lambda>_.
     seq (doing (d_traceClear G)) (\<lambda>_.
     seq (surface G) (\<lambda>s0.
     seq (reading (\<lambda>w. int (length (g_blitLog G w)))) (\<lambda>b0.
     seq (if trace then arm_guide_trace G else give ()) (\<lambda>_.
     seq (press_key G raw 0) (\<lambda>_.
     seq (sleep G 11000) (\<lambda>_.
     seq (if trace
          then seq (reading (l_readWatchLog G)) (\<lambda>l. seq (doing (d_readUnwatch G)) (\<lambda>_. give (Some l)))
          else give None) (\<lambda>lg.
     seq (reading (d_traceLog G)) (\<lambda>log.
     seq (doing (d_traceCalls G [])) (\<lambda>_.
     seq (surface G) (\<lambda>s1.
     seq (reading (\<lambda>w. int (length (g_blitLog G w)))) (\<lambda>b1.
     let drew = (times_of ''newWidget'' log > 0); t = map_option guide_trace_of lg in
     seq (require (\<not> (t \<noteq> None \<and> gt_instructions (the t) = None \<and> drew))
       (''the interpreter fetch site '' @ MAIN_FETCH_S @ '' is not in byPc on a press that ''
        @ ''DREW -- the watch is not seeing the interpreter, so every number here is a ''
        @ ''harness failure rather than a measurement'')) (\<lambda>_.
     give \<lparr>gp_press = \<lparr>pp_tag = tag, pp_key = label, pp_pressedFrom = src, pp_widgets = times_of ''newWidget'' log,
         pp_applies = times_of ''apply'' log, pp_damage = times_of ''DAMAGE'' log,
         pp_moved = (su_hash s1 \<noteq> su_hash s0), pp_surface = s1, pp_drew = drew, pp_arms = Map.empty\<rparr>,
       gp_blits = b1 - b0, gp_trace = t\<rparr>)))))))))))))"

definition guide_press_key ::
  "('w, 'z) linkage_api_scheme \<Rightarrow> int \<Rightarrow> string \<Rightarrow> string \<Rightarrow> string \<Rightarrow> bool \<Rightarrow> ('w day, guide_press) act" where
  "guide_press_key G raw label tag src trace =
     seq (reading dy_last) (\<lambda>was.
     seq (require (was \<noteq> Some raw)
       (''HARNESS: '' @ tag @ '' presses raw '' @ hx raw @ '' twice running; a box already on ''
        @ ''that screen has nothing to rebuild and would read as the fault. Alternate.'')) (\<lambda>_.
     seq (doing (\<lambda>s. s\<lparr>dy_last := Some raw\<rparr>)) (\<lambda>_.
     on_page (guide_page G raw label tag src trace))))"

section \<open>The state\<close>

definition settle_saying :: "('w, 'z) day_api_scheme \<Rightarrow> string \<Rightarrow> ('w day, int) act" where
  "settle_saying G running_text =
     seq (await_ready G 300 0) (\<lambda>waited.
     seq (reading (\<lambda>s. settled G (dy_page s))) (\<lambda>ok.
     seq (require ok (''the box never settled in '' @ dec_string waited @ ''s'')) (\<lambda>_.
     seq (reading (\<lambda>s. g_tasks G (dy_page s))) (\<lambda>n.
     seq (require (n \<ge> 42) (''not booted: '' @ dec_string n @ '' tasks'')) (\<lambda>_.
     seq (reading (\<lambda>s. d_carouselRunning G (dy_page s))) (\<lambda>running.
     seq (require (\<not> running) running_text) (\<lambda>_.
     seq (on_page (doing (g_profile G))) (\<lambda>_.
     give waited))))))))"

definition reads_settle :: "('w, 'z) day_api_scheme \<Rightarrow> ('w day, int) act" where
  "reads_settle G = settle_saying G
     (''the carousel is RUNNING -- this probe feeds by hand and would be measuring the '' @ ''thing it isolates'')"

record reads_state =
  rs_settledAfterSeconds :: int
  rs_before :: subscriptions
  rs_atStart :: "string \<rightharpoonup> int"
  rs_afterLineup :: subscriptions
  rs_a1Match :: "si_match list"
  rs_newFilters :: "string list"
  rs_quietAfterSeconds :: int
  rs_afterCensus :: "string \<rightharpoonup> int"

definition reads_ladder :: "('w, 'z) day_api_scheme \<Rightarrow> ('w day, unit) act" where
  "reads_ladder G =
     seq (reading (\<lambda>s. wants G 0x4A (dy_page s))) (\<lambda>ok.
     seq (if ok then give ()
          else seq (on_page (\<lambda>w. let (r, w') = d_NIT G None w in (Inr r, w'))) (\<lambda>n0.
               seq (require (pr_ok n0) (''the ladder-opening NIT was refused: '' @ pr_why n0)) (\<lambda>_.
               await_wants G 10 0x4A))) (\<lambda>_.
     seq (reading (\<lambda>s. (wants G 0x4A (dy_page s), tablesWanted G (dy_page s)))) (\<lambda>(ok, ts).
     require ok (''no 0x4A subscription after the NIT -- a BAT now would be dropped unread and every ''
       @ ''later zero would be about delivery. Tables: '' @ ts))))"

definition reads_setup :: "('w, 'z) day_api_scheme \<Rightarrow> ('w day, reads_state) act" where
  "reads_setup G =
     seq (reads_settle G) (\<lambda>waited.
     seq (subscribed G) (\<lambda>before.
     seq (on_page (site_census G)) (\<lambda>c0.
     seq (reads_ladder G) (\<lambda>_.
     seq (each (bat_round G titles_bat) [0, 1, 2]) (\<lambda>_.
     seq (subscribed G) (\<lambda>after.
     seq (reading (\<lambda>s. (wants G 0xA1 (dy_page s), tablesWanted G (dy_page s)))) (\<lambda>(ok, ts).
     seq (require ok
       (''the box did not subscribe to 0xA1 after the line-up, so this run is of a ''
        @ ''different state and nothing below is attributable. Tables: '' @ ts)) (\<lambda>_.
     seq (reading (\<lambda>s. filter (\<lambda>x. mt_tableId x = Some 0xA1) (d_matches G (dy_page s)))) (\<lambda>a1.
     let pids = filter (\<lambda>p. p \<notin> set (sb_filters before)) (sb_filters after) in
     seq (require (Some 0x33 \<in> set (map (parse_int 16) pids))
       (''PID 0x33 is not among the filters the line-up opened ('' @ join_with '' '' pids @ '') -- ''
        @ ''listings-on-the-guide.js measured that it is, so pushing there now would be a ''
        @ ''reading about some other filter'')) (\<lambda>_.
     seq (await_quiet G 90) (\<lambda>quiet.
     seq (on_page (site_census G)) (\<lambda>c1.
     give \<lparr>rs_settledAfterSeconds = waited, rs_before = before, rs_atStart = c0, rs_afterLineup = after,
       rs_a1Match = a1, rs_newFilters = pids, rs_quietAfterSeconds = quiet, rs_afterCensus = c1\<rparr>))))))))))))"

section \<open>The comparison\<close>

text \<open>Where the streams part: at a place, with the last common and the next instructions, or in words.\<close>

datatype divergence = PartsAfter int string string string | NoParting string

definition streams_diverge :: "bool \<Rightarrow> string list \<Rightarrow> string list \<Rightarrow> divergence" where
  "streams_diverge capped A B =
     (let i = common_prefix A B
      in if i < length A \<and> i < length B
         then PartsAfter (int i) (join_with '' '' (drop (i - 12) (take i A))) (join_with '' '' (take 12 (drop i A)))
                (join_with '' '' (take 12 (drop i B)))
         else if length A = length B
         then NoParting (''the logged opcode streams are IDENTICAL''
                @ (if capped then '' UP TO THE CAP, which is not the same thing'' else []))
         else NoParting (''one stream simply ENDS at '' @ dec_string (int i) @ '' -- shorter, not different''))"

definition stream_of :: "guide_press \<Rightarrow> string list" where
  "stream_of p = (case gp_trace p of None \<Rightarrow> [] | Some t \<Rightarrow> if gt_stream t = [] then [] else split_sp (gt_stream t))"

definition capped_press :: "guide_press \<Rightarrow> bool" where
  "capped_press p = (case gp_trace p of None \<Rightarrow> False | Some t \<Rightarrow> gt_capped t)"

record guide_compare =
  gc_baselineLogged :: int
  gc_fedLogged :: int
  gc_surfaceIdentical :: bool
  gc_commonPrefix :: int
  gc_divergence :: divergence

definition guide_compare_of :: "guide_press \<Rightarrow> guide_press \<Rightarrow> guide_compare" where
  "guide_compare_of base fed =
     \<lparr>gc_baselineLogged = int (length (stream_of base)), gc_fedLogged = int (length (stream_of fed)),
      gc_surfaceIdentical = (su_hash (pp_surface (gp_press base)) = su_hash (pp_surface (gp_press fed))),
      gc_commonPrefix = int (common_prefix (stream_of base) (stream_of fed)),
      gc_divergence = streams_diverge (capped_press base \<or> capped_press fed) (stream_of base) (stream_of fed)\<rparr>"

section \<open>The run\<close>

record reads_report =
  rr_state :: reads_state
  rr_presses :: "guide_press list"
  rr_extensionsFed :: "string list"
  rr_sectionsPushed :: int
  rr_sectionsRefused :: int
  rr_duringFeed :: "string \<rightharpoonup> int"
  rr_parsed :: bool
  rr_duringFedGuidePress :: "string \<rightharpoonup> int"
  rr_end :: at_the_end
  rr_caveat :: "string option"
  rr_compare :: guide_compare
  rr_headline :: string

definition instructions_text :: "guide_press \<Rightarrow> string" where
  "instructions_text p = (case gp_trace p of None \<Rightarrow> [] | Some t \<Rightarrow> total_text (gt_instructions t))"

definition reads_headline :: "int \<Rightarrow> guide_press \<Rightarrow> guide_press \<Rightarrow> divergence \<Rightarrow> string" where
  "reads_headline hits base fed d =
     (if hits > 0 then ''records PARSED ('' @ dec_string hits @ '' callback hits). '' else ''records NOT parsed -- the diff is void. '')
     @ ''baseline guide '' @ instructions_text base @ '' o-code instructions / '' @ dec_string (pp_widgets (gp_press base))
     @ '' widgets; fed guide '' @ instructions_text fed @ '' / '' @ dec_string (pp_widgets (gp_press fed))
     @ ''; streams '' @ (case d of PartsAfter i _ _ _ \<Rightarrow> ''part after '' @ dec_string i | NoParting t \<Rightarrow> t)"

text \<open>Both menus and the guide without listings.\<close>

definition reads_baseline :: "('w, 'z) linkage_api_scheme \<Rightarrow> ('w day, guide_press list) act" where
  "reads_baseline G =
     seq (guide_press_key G 0x7D ''sky'' ''settle-sky'' ''the boot screen'' False) (\<lambda>p0.
     seq (require (pp_drew (gp_press p0))
       (''the settling sky press built no widgets, so the box is not drawing at all and ''
        @ ''every later quiet reading would be about that rather than about the listings'')) (\<lambda>_.
     seq (guide_press_key G 0x80 ''tv guide'' ''baseline-guide'' ''the menu'' True) (\<lambda>base.
     seq (shoot G ''baseline-guide'') (\<lambda>_.
     seq (require (pp_drew (gp_press base))
       (''the BASELINE guide press built no widgets -- the box was not drawing before the ''
        @ ''listings were fed, so any later change would be it recovering rather than the ''
        @ ''listings arriving. That is exactly what an earlier run measured and reported as '' @ ''a finding.'')) (\<lambda>_.
     seq (guide_press_key G 0x7D ''sky'' ''between-sky'' ''the guide'' False) (\<lambda>p2.
     give [p0, base, p2]))))))"

text \<open>The feed between two censuses; the twelve seconds after it belong to it.\<close>

definition reads_feed :: "('w, 'z) linkage_api_scheme \<Rightarrow> int list \<Rightarrow> ('w day, bool list \<times> (string \<rightharpoonup> int)) act" where
  "reads_feed G exts =
     seq (on_page (site_census G)) (\<lambda>c0.
     seq (fixed_rounds G (titles_section True) exts) (\<lambda>(_, bs).
     seq (pausing G 12000) (\<lambda>_.
     seq (on_page (site_census G)) (\<lambda>c1. give (bs, changes c0 c1)))))"

definition reads_run :: "('w, 'z) linkage_api_scheme \<Rightarrow> ('w day, reads_report) act" where
  "reads_run G =
     seq (reads_setup G) (\<lambda>rs.
     seq (reads_baseline G) (\<lambda>ps.
     let exts = extensions_of (hd (rs_a1Match rs)); base = ps ! 1 in
     seq (reads_feed G exts) (\<lambda>(bs, fed_c).
     seq (on_page (site_census G)) (\<lambda>c0.
     seq (guide_press_key G 0x80 ''tv guide'' ''fed-guide'' ''the menu'' True) (\<lambda>fed.
     seq (shoot G ''fed-guide'') (\<lambda>_.
     seq (on_page (site_census G)) (\<lambda>c1.
     seq (guide_press_key G 0x7D ''sky'' ''after-sky''
       (if pp_drew (gp_press fed) then ''the guide'' else ''the menu'') False) (\<lambda>p4.
     seq (at_end G) (\<lambda>ae.
     let hits = or0 (fed_c ''cb0xB5-entry''); cmp = guide_compare_of base fed in
     give \<lparr>rr_state = rs, rr_presses = ps @ [fed, p4], rr_extensionsFed = map hx exts,
       rr_sectionsPushed = int (length (filter (\<lambda>b. b) bs)), rr_sectionsRefused = int (length (filter Not bs)),
       rr_duringFeed = fed_c, rr_parsed = (hits > 0), rr_duringFedGuidePress = changes c0 c1, rr_end = ae,
       rr_caveat = (if ae_tasks ae < 42
                    then Some (''the box lost tasks during the walk ('' @ dec_string (ae_tasks ae) @ '') -- the readings are suspect'')
                    else None),
       rr_compare = cmp, rr_headline = reads_headline hits base fed (gc_divergence cmp)\<rparr>)))))))))"

end
