(* ===== verification/Probe_Linkage_Facts.thy ===== *)
theory Probe_Linkage_Facts
  imports Probe_Linkage "HOL-Library.Sublist"
begin

text \<open>
  What the comparison of the two presses guarantees: where two builds part is their longest common prefix, and
  the reported code holds every new address and nothing farther than eight bytes from one.
\<close>

section \<open>Where two builds part\<close>

lemma common_prefix_longest: "common_prefix xs ys = length (longest_common_prefix xs ys)"
  by (induction xs ys rule: common_prefix.induct) simp_all

lemma common_prefix_bounds: "common_prefix xs ys \<le> length xs" "common_prefix xs ys \<le> length ys"
  by (induction xs ys rule: common_prefix.induct) simp_all

lemma common_prefix_takes: "take (common_prefix xs ys) xs = take (common_prefix xs ys) ys"
  by (induction xs ys rule: common_prefix.induct) simp_all

lemma common_prefix_parts:
  "common_prefix xs ys < length xs \<Longrightarrow> common_prefix xs ys < length ys
    \<Longrightarrow> xs ! common_prefix xs ys \<noteq> ys ! common_prefix xs ys"
  by (induction xs ys rule: common_prefix.induct) (auto split: if_splits)

lemma common_prefix_whole: "common_prefix xs ys = length xs \<longleftrightarrow> prefix xs ys" "common_prefix xs ys = length ys \<longleftrightarrow> prefix ys xs"
  by (induction xs ys rule: common_prefix.induct) auto

text \<open>
  The builds part where the report says.  The common prefix is the longest one; the report shows how the two go
  on if and only if neither is the beginning of the other, and it calls them identical if and only if they are.
\<close>

theorem builds_part:
  "bd_commonPrefix (build_diff_of a b) = int (length (longest_common_prefix a b)) \<and>
   (bd_parting (build_diff_of a b) = None \<longleftrightarrow> prefix a b \<or> prefix b a) \<and>
   (bd_note (build_diff_of a b) = Some ''event 0 is identical in both'' \<longleftrightarrow> a = b)"
proof -
  have w: "common_prefix a b < length a \<longleftrightarrow> \<not> prefix a b" "common_prefix a b < length b \<longleftrightarrow> \<not> prefix b a"
    using common_prefix_bounds [of a b] common_prefix_whole [of a b] by auto
  have "''one build simply ENDS at '' @ t \<noteq> ''event 0 is identical in both''" for t by simp
  moreover have "(prefix a b \<or> prefix b a) \<and> length a = length b \<longleftrightarrow> a = b"
    by (auto simp: prefix_def)
  ultimately show ?thesis
    by (auto simp: build_diff_of_def Let_def common_prefix_longest [symmetric] w)
qed

section \<open>The runs of new code\<close>

text \<open>Runs of a set of addresses: they are more than eight apart, end in addresses, cover all and bridge at most eight.\<close>

definition runs_of :: "(int \<times> int) list \<Rightarrow> int set \<Rightarrow> bool" where
  "runs_of runs V \<longleftrightarrow>
     sorted_wrt (\<lambda>r s. snd r + 8 < fst s) runs \<and>
     (\<forall>v \<in> V. \<exists>r \<in> set runs. fst r \<le> v \<and> v \<le> snd r) \<and>
     (\<forall>r \<in> set runs. fst r \<in> V \<and> snd r \<in> V \<and> fst r \<le> snd r \<and>
        (\<forall>x. fst r \<le> x \<and> x < snd r \<longrightarrow> (\<exists>v \<in> V. x < v \<and> v \<le> x + 8)))"

lemma runs_of_new:
  assumes "runs_of runs V" "\<And>r. r \<in> set runs \<Longrightarrow> snd r + 8 < v"
  shows "runs_of (runs @ [(v, v)]) (insert v V)"
  using assms unfolding runs_of_def sorted_wrt_append by fastforce

lemma runs_of_longer:
  assumes "runs_of (runs @ [(a, b)]) V" "b \<le> v" "v \<le> b + 8"
  shows "runs_of (runs @ [(a, v)]) (insert v V)"
proof -
  have s: "sorted_wrt (\<lambda>r s. snd r + 8 < fst s) (runs @ [(a, v)])"
    using assms(1) by (simp add: runs_of_def sorted_wrt_append)
  have c: "\<exists>r \<in> set (runs @ [(a, v)]). fst r \<le> u \<and> u \<le> snd r" if "u \<in> insert v V" for u
  proof (cases "u = v")
    case True
    have "a \<le> b" using assms(1) by (simp add: runs_of_def)
    then show ?thesis using True assms(2) by simp
  next
    case False
    then obtain r where "r \<in> set (runs @ [(a, b)])" "fst r \<le> u" "u \<le> snd r"
      using assms(1) \<open>u \<in> insert v V\<close> unfolding runs_of_def by blast
    then show ?thesis using assms(2) by auto
  qed
  have g: "\<exists>u \<in> insert v V. x < u \<and> u \<le> x + 8" if x: "a \<le> x" "x < v" for x
  proof (cases "x < b")
    case True
    then show ?thesis using assms(1) x(1) by (fastforce simp: runs_of_def)
  next
    case False
    then show ?thesis using assms(3) x(2) by auto
  qed
  have o: "fst r \<in> insert v V \<and> snd r \<in> insert v V \<and> fst r \<le> snd r \<and>
      (\<forall>x. fst r \<le> x \<and> x < snd r \<longrightarrow> (\<exists>u \<in> insert v V. x < u \<and> u \<le> x + 8))" if r: "r \<in> set (runs @ [(a, v)])" for r
  proof (cases "r \<in> set runs")
    case True
    then show ?thesis using assms(1) by (fastforce simp: runs_of_def)
  next
    case False
    then have "r = (a, v)" using r by simp
    moreover have "a \<in> V" "a \<le> b" using assms(1) by (simp_all add: runs_of_def)
    ultimately show ?thesis using g assms(2) by auto
  qed
  show ?thesis using s c o unfolding runs_of_def by blast
qed

lemma sorted_last: "x \<in> set xs \<Longrightarrow> sorted xs \<Longrightarrow> x \<le> last xs" for x :: int
  by (cases xs rule: rev_cases) (auto simp: sorted_append)

lemma code_runs_of:
  assumes "sorted vs"
  shows "runs_of (code_runs vs) (set vs) \<and> (vs \<noteq> [] \<longrightarrow> code_runs vs \<noteq> [] \<and> snd (last (code_runs vs)) = last vs)
    \<and> (\<forall>r \<in> set (code_runs vs). snd r \<in> set vs)"
  using assms
proof (induction vs rule: rev_induct)
  case Nil
  show ?case by (simp add: code_runs_def runs_of_def)
next
  case (snoc v vs)
  have up: "\<And>u. u \<in> set vs \<Longrightarrow> u \<le> v" and "sorted vs" using snoc.prems by (simp_all add: sorted_append)
  with snoc.IH have ih: "runs_of (code_runs vs) (set vs)"
      "vs \<noteq> [] \<Longrightarrow> code_runs vs \<noteq> [] \<and> snd (last (code_runs vs)) = last vs"
      "\<And>r. r \<in> set (code_runs vs) \<Longrightarrow> snd r \<in> set vs"
    by blast+
  have step: "code_runs (vs @ [v]) = run_step (code_runs vs) v" by (simp add: code_runs_def)
  show ?case
  proof (cases "code_runs vs = [] \<or> v > snd (last (code_runs vs)) + 8")
    case True
    have far: "snd r + 8 < v" if r: "r \<in> set (code_runs vs)" for r
    proof -
      have ne: "code_runs vs \<noteq> []" using r by auto
      then have vs: "vs \<noteq> []" by (auto simp: code_runs_def)
      then have l: "v > last vs + 8" using True ne ih(2) by simp
      have "snd r \<le> last vs" using ih(3) [OF r] \<open>sorted vs\<close> by (rule sorted_last)
      then show ?thesis using l by linarith
    qed
    then show ?thesis using True runs_of_new [OF ih(1)] ih(3) by (auto simp: step run_step_def)
  next
    case False
    then obtain rs a b where rs: "code_runs vs = rs @ [(a, b)]" by (metis append_butlast_last_id surj_pair)
    then have "vs \<noteq> []" by (auto simp: code_runs_def)
    then have b: "b = last vs" using ih(2) rs by simp
    then have "b \<le> v" using up \<open>vs \<noteq> []\<close> by simp
    moreover have "v \<le> b + 8" using False rs by simp
    ultimately have "runs_of (rs @ [(a, v)]) (insert v (set vs))" using runs_of_longer ih(1) rs by simp
    then show ?thesis using False rs ih(3) by (auto simp: step run_step_def)
  qed
qed

lemma first_seen_set: "set (first_seen xs) = set xs" "distinct (first_seen xs)"
  by (induction xs rule: rev_induct) (auto simp: first_seen_def)

text \<open>
  C19.  The new code is what only the second press ran.  The count is that of the addresses in the second log and not
  in the first; the runs cover every one of them, begin and end in one, never go more than eight bytes without
  one and are more than eight bytes apart.
\<close>

theorem new_code_exact:
  "ld_newAddressCount (linkage_diff_of SA SB) = int (card (set (all_addrs SB) - set (all_addrs SA))) \<and>
   (\<exists>runs. ld_newCodeRuns (linkage_diff_of SA SB) = map run_text runs \<and>
      runs_of runs (trace_addr ` (set (all_addrs SB) - set (all_addrs SA))))"
proof -
  have s: "set (new_addrs SA SB) = set (all_addrs SB) - set (all_addrs SA)"
    by (auto simp: new_addrs_def first_seen_set)
  have "distinct (new_addrs SA SB)" by (simp add: new_addrs_def first_seen_set)
  then have n: "length (new_addrs SA SB) = card (set (all_addrs SB) - set (all_addrs SA))"
    using distinct_card s by metis
  have "sorted (map trace_addr (new_addrs SA SB))" by (simp add: new_addrs_def)
  then have "runs_of (code_runs (map trace_addr (new_addrs SA SB))) (set (map trace_addr (new_addrs SA SB)))"
    using code_runs_of by blast
  then show ?thesis
    using n s unfolding linkage_diff_of_def by (auto simp: Let_def split: prod.splits)
qed

text \<open>A run may hold an address the first press ran as well, when it stands between new ones.\<close>

lemma new_run_holds_old_code:
  "ld_newCodeRuns (linkage_diff_of [''0x9FC4A538 0x9FC4A53A''] [''0x9FC4A538 0x9FC4A539 0x9FC4A53A 0x9FC4A53C''])
     = [''0x9FC4A539-0x9FC4A53C (4 bytes)'']"
  by code_simp

end
