(* ===== verification/Probe_Guide_Facts.thy ===== *)
theory Probe_Guide_Facts
  imports Probe_Guide_Reads Probe_Linkage_Facts
begin

text \<open>The census of the call sites never fails, and the comparison of two streams says what it should.\<close>

lemma SITES_countable: "countable_rows SITES"
  by (simp add: countable_rows_def SITES_def)

lemma site_census_exact: "site_census G w = (Inr (counts_of G SITES w), w)"
  unfolding site_census_def by (rule read_counts_exact [OF SITES_countable]) (simp add: site_row_def)

lemma common_prefix_both:
  "common_prefix A B < length A \<and> common_prefix A B < length B \<longleftrightarrow> \<not> prefix A B \<and> \<not> prefix B A"
  using common_prefix_bounds [of A B] common_prefix_whole [of A B] by auto

lemma same_length_prefix: "(prefix A B \<or> prefix B A) \<and> length A = length B \<longleftrightarrow> A = B"
  by (auto simp: prefix_def)

text \<open>
  The verdict on two streams.  They are said to part if and only if neither begins the other, and then at the end
  of their longest common prefix; they are called identical if and only if they are, with the reservation of the
  cap when a log was capped; otherwise one is said to end.
\<close>

theorem streams_verdict:
  "(\<exists>l a b. streams_diverge capped A B = PartsAfter (int (length (longest_common_prefix A B))) l a b) \<longleftrightarrow> \<not> prefix A B \<and> \<not> prefix B A"
  "streams_diverge capped A B = NoParting (''the logged opcode streams are IDENTICAL''
     @ (if capped then '' UP TO THE CAP, which is not the same thing'' else [])) \<longleftrightarrow> A = B"
proof -
  show "(\<exists>l a b. streams_diverge capped A B = PartsAfter (int (length (longest_common_prefix A B))) l a b) \<longleftrightarrow> \<not> prefix A B \<and> \<not> prefix B A"
    using common_prefix_both [of A B] by (auto simp: streams_diverge_def Let_def common_prefix_longest [symmetric])
  have "''one stream simply ENDS at '' @ t \<noteq> ''the logged opcode streams are IDENTICAL'' @ u" for t u by simp
  then show "streams_diverge capped A B = NoParting (''the logged opcode streams are IDENTICAL''
     @ (if capped then '' UP TO THE CAP, which is not the same thing'' else [])) \<longleftrightarrow> A = B"
    using common_prefix_both [of A B] same_length_prefix [of A B] by (auto simp: streams_diverge_def Let_def)
qed

end
