(* ===== verification/Probe_Message.thy ===== *)
theory Probe_Message
  imports Probe_Guide_Reads
begin

text \<open>
  \<open>tools/probes/where-the-guide-says-no.js\<close>: the guide pressed on a box that holds listings, with its bytecode and
  the resources above it watched in one range, so that the read of the message it shows can be placed in the
  trace; the data segment located in memory and dumped where the guide reads it.
\<close>

section \<open>The page\<close>

record 'w message_api = "'w linkage_api" +
  n_find :: "'w \<Rightarrow> int list \<Rightarrow> int \<Rightarrow> int \<Rightarrow> nat \<Rightarrow> string list"

definition CODE_LO :: int where "CODE_LO = 0x9FC4A400"
definition CODE_HI :: int where "CODE_HI = 0x9FC4A400 + 353188"
definition WATCH_HI :: int where "WATCH_HI = 0x9FCB0000"
definition MSG :: int where "MSG = 0x9FCAB279"
definition MSG_LEN :: int where "MSG_LEN = 44"
definition MESSAGE_TRACE_MAX :: int where "MESSAGE_TRACE_MAX = 400000"

section \<open>A watched press\<close>

record message_watch =
  mw_reads :: int
  mw_capped :: bool
  mw_cap :: int
  mw_codeRows :: int
  mw_resourceRows :: int
  mw_byPc :: "string list option"

record watched_part =
  wp_watch :: message_watch
  wp_csv :: string
  wp_resources :: string
  wp_messageReads :: int
  wp_messageFirst :: "(string \<times> string \<times> int) option"
  wp_messageNote :: string

definition arm_message_watch :: "('w, 'z) linkage_api_scheme \<Rightarrow> ('w, unit) act" where
  "arm_message_watch G =
     seq (\<lambda>w. let (mx, w') = l_readWatch G CODE_LO WATCH_HI MESSAGE_TRACE_MAX w in (Inr mx, w')) (\<lambda>mx.
     require (mx = MESSAGE_TRACE_MAX) (''__readWatch does not take {max} on this page; the trace would cap at '' @ dec_string mx))"

text \<open>Rows below the end of the code are the trace, the others reads of resources.\<close>

definition code_row :: "access \<Rightarrow> bool" where
  "code_row e \<longleftrightarrow> addr_of (ac_at e) < CODE_HI"

definition message_row :: "access \<Rightarrow> bool" where
  "message_row e \<longleftrightarrow> MSG \<le> addr_of (ac_at e) \<and> addr_of (ac_at e) < MSG + MSG_LEN"

definition csv_rows :: "access list \<Rightarrow> string" where
  "csv_rows es = join_with '';'' (map access_csv es)"

definition message_note :: "int \<Rightarrow> int \<Rightarrow> string" where
  "message_note inside rows =
     (if inside \<noteq> 0 then ''the message text WAS read out of the flash during this press''
      else if rows \<noteq> 0
      then ''the resource region was read '' @ dec_string rows @ '' times during this press but NEVER inside ''
        @ ''the message string, so the text did not come from flash here -- a different answer from ''
        @ [CHR 0x22] @ ''the watch saw nothing'' @ [CHR 0x22]
      else ''NOTHING in the resource region was read at all during this press'')"

definition watched_part_of :: "access_log \<Rightarrow> watched_part" where
  "watched_part_of lg =
     (let cs = filter code_row (al_all lg); rs = filter (\<lambda>e. \<not> code_row e) (al_all lg); msgs = filter message_row rs
      in \<lparr>wp_watch = \<lparr>mw_reads = al_reads lg, mw_capped = al_capped lg, mw_cap = al_max lg,
            mw_codeRows = int (length cs), mw_resourceRows = int (length rs), mw_byPc = al_byPc lg\<rparr>,
          wp_csv = csv_rows cs, wp_resources = csv_rows rs, wp_messageReads = int (length msgs),
          wp_messageFirst = (case msgs of [] \<Rightarrow> None | e # _ \<Rightarrow> Some (ac_pc e, ac_at e, ac_icount e)),
          wp_messageNote = message_note (int (length msgs)) (int (length rs))\<rparr>)"

text \<open>Where the press came from is not part of the report of this probe, nor are the arms.\<close>

definition message_page ::
  "('w, 'z) linkage_api_scheme \<Rightarrow> int \<Rightarrow> string \<Rightarrow> string \<Rightarrow> bool \<Rightarrow> ('w, press_report \<times> watched_part option) act" where
  "message_page G raw label tag watch =
     seq (doing (d_traceCalls G WIDGET_TRACE)) (\<lambda>_.
     seq (doing (d_traceClear G)) (\<lambda>_.
     seq (surface G) (\<lambda>s0.
     seq (if watch then arm_message_watch G else give ()) (\<lambda>_.
     seq (press_key G raw 0) (\<lambda>_.
     seq (sleep G 11000) (\<lambda>_.
     seq (if watch
          then seq (reading (l_readWatchLog G)) (\<lambda>l. seq (doing (d_readUnwatch G)) (\<lambda>_. give (Some l)))
          else give None) (\<lambda>lg.
     seq (reading (d_traceLog G)) (\<lambda>log.
     seq (doing (d_traceCalls G [])) (\<lambda>_.
     seq (surface G) (\<lambda>s1.
     let drew = (times_of ''newWidget'' log > 0) in
     seq (require
         (\<not> (lg \<noteq> None \<and> fetch_total (case al_byPc (the lg) of None \<Rightarrow> [] | Some l \<Rightarrow> l) = None \<and> drew))
       (''the interpreter fetch site is not in byPc on a press that DREW -- the watch is ''
        @ ''not seeing the interpreter and every number here is a harness failure'')) (\<lambda>_.
     give (\<lparr>pp_tag = tag, pp_key = label, pp_pressedFrom = [], pp_widgets = times_of ''newWidget'' log,
         pp_applies = times_of ''apply'' log, pp_damage = times_of ''DAMAGE'' log,
         pp_moved = (su_hash s1 \<noteq> su_hash s0), pp_surface = s1, pp_drew = drew, pp_arms = Map.empty\<rparr>,
       map_option watched_part_of lg))))))))))))"

definition message_press ::
  "('w, 'z) linkage_api_scheme \<Rightarrow> int \<Rightarrow> string \<Rightarrow> string \<Rightarrow> bool \<Rightarrow> ('w day, press_report \<times> watched_part option) act" where
  "message_press G raw label tag watch =
     seq (reading dy_last) (\<lambda>was.
     seq (require (was \<noteq> Some raw)
       (''HARNESS: '' @ tag @ '' presses '' @ hx raw @ '' twice running; a box already on that ''
        @ ''screen rebuilds nothing and would read as the fault'')) (\<lambda>_.
     seq (doing (\<lambda>s. s\<lparr>dy_last := Some raw\<rparr>)) (\<lambda>_.
     on_page (message_page G raw label tag watch))))"

section \<open>The data segment\<close>

text \<open>\<open>RSRC\<close> in ASCII, the end of the application image, and the word that points at itself once it is filled in.\<close>

definition RSRC :: "int list" where "RSRC = [0x52, 0x53, 0x52, 0x43]"
definition APP_IMAGE_END :: int where "APP_IMAGE_END = 0x800FC66C"
definition DS_ANCHOR_OFF :: int where "DS_ANCHOR_OFF = 0x0001ACB0"

record ds_candidate =
  dc_base :: string
  dc_aboveAppImage :: bool
  dc_word :: string
  dc_selfPointerHolds :: bool

definition ds_candidate_of :: "('w, 'z) page_api_scheme \<Rightarrow> 'w \<Rightarrow> string \<Rightarrow> ds_candidate" where
  "ds_candidate_of G w a =
     (let base = addr_of a; v = b32 G w (base + DS_ANCHOR_OFF)
      in \<lparr>dc_base = h8 base, dc_aboveAppImage = (base \<ge> APP_IMAGE_END), dc_word = h8 v,
          dc_selfPointerHolds = (v = to_u32 (base + DS_ANCHOR_OFF))\<rparr>)"

definition bool_text :: "bool \<Rightarrow> string" where
  "bool_text b = (if b then ''true'' else ''false'')"

definition json_candidate :: "ds_candidate \<Rightarrow> string" where
  "json_candidate c =
     (let q = [CHR 0x22]
      in ''{'' @ q @ ''base'' @ q @ '':'' @ q @ dc_base c @ q @ '','' @ q @ ''aboveAppImage'' @ q @ '':'' @ bool_text (dc_aboveAppImage c)
        @ '','' @ q @ ''wordAt0x1ACB0'' @ q @ '':'' @ q @ dc_word c @ q @ '','' @ q @ ''selfPointerHolds'' @ q @ '':''
        @ bool_text (dc_selfPointerHolds c) @ ''}'')"

definition ds_good :: "ds_candidate list \<Rightarrow> ds_candidate list" where
  "ds_good cs = filter (\<lambda>c. addr_of (dc_base c) \<ge> APP_IMAGE_END) cs"

definition locate_ds :: "('w, 'z) message_api_scheme \<Rightarrow> ('w, ds_candidate list \<times> int) act" where
  "locate_ds G =
     seq (reading (\<lambda>w. map (ds_candidate_of G w) (n_find G w RSRC 0x80000000 0x82000000 64))) (\<lambda>cs.
     let good = ds_good cs in
     seq (require (length good = 1)
       ([CHR 0x22] @ ''RSRC'' @ [CHR 0x22] @ '' appears at '' @ dec_string (int (length cs)) @ '' addresses and ''
        @ dec_string (int (length good)) @ '' of them ''
        @ ''lie above the application image, so the data segment is not located and every ''
        @ ''offset below would name a word in something else. Candidates: ''
        @ ''['' @ join_with '','' (map json_candidate cs) @ '']'')) (\<lambda>_.
     give (cs, addr_of (dc_base (hd good)))))"

definition DS_FIELDS :: "int list" where
  "DS_FIELDS = [
     0x019A20, 0x01A0A4, 0x01A1BC, 0x013958, 0x013A28, 0x013A2C, 0x013A30, 0x013A34,
     0x013A38, 0x035BBC, 0x035BC0, 0x02DC14, 0x029D28, 0x0252F8, 0x0252FC, 0x025300,
     0x025304, 0x025308, 0x02530C, 0x025310, 0x025314, 0x02531C, 0x025A80, 0x02E114,
     0x02E118, 0x02E11C, 0x012DBC, 0x013C20, 0x0146F0, 0x0146EC, 0x018868, 0x0193F4,
     0x0329B0, 0x01364C, 0x013650, 0x013840, 0x01378C, 0x014044, 0x034B6C, 0x034B70]"

definition ds_key :: "int \<Rightarrow> string" where
  "ds_key ofs = ''DS+0x'' @ pad_left 6 CHR ''0'' (js_upper (hex_string ofs))"

definition ds_dump :: "('w, 'z) page_api_scheme \<Rightarrow> int \<Rightarrow> 'w \<Rightarrow> (string \<times> string) list" where
  "ds_dump G DS w = map (\<lambda>ofs. (ds_key ofs, h8 (b32 G w (DS + ofs)))) DS_FIELDS"

record array_row =
  ar_i :: int
  ar_nonZero :: bool
  ar_f :: "string list"

definition array_row_of :: "('w, 'z) page_api_scheme \<Rightarrow> int \<Rightarrow> 'w \<Rightarrow> nat \<Rightarrow> array_row" where
  "array_row_of G DS w i =
     (let vs = map (\<lambda>k. b32 G w (DS + 0x0252FC + int i * 40 + 4 * int k)) [0..<10]
      in \<lparr>ar_i = int i, ar_nonZero = list_ex (\<lambda>v. v \<noteq> 0) vs, ar_f = map h8 vs\<rparr>)"

definition record_array :: "('w, 'z) page_api_scheme \<Rightarrow> int \<Rightarrow> 'w \<Rightarrow> array_row list" where
  "record_array G DS w = map (array_row_of G DS w) [0..<24]"

section \<open>The state and the feed\<close>

definition B5_CALLBACK :: int where "B5_CALLBACK = 0x800C6B38"

record message_state =
  ms_settledAfterSeconds :: int
  ms_before :: subscriptions
  ms_dsCandidates :: "ds_candidate list"
  ms_dsBase :: int
  ms_afterLineup :: subscriptions
  ms_a1Match :: "si_match list"
  ms_quietAfterSeconds :: int

definition message_setup :: "('w, 'z) message_api_scheme \<Rightarrow> ('w day, message_state) act" where
  "message_setup G =
     seq (settle_saying G ''the carousel is RUNNING'') (\<lambda>waited.
     seq (subscribed G) (\<lambda>before.
     seq (on_page (locate_ds G)) (\<lambda>(cs, DS).
     seq (story_lineup G titles_bat) (\<lambda>after.
     seq (reading (\<lambda>s. (wants G 0xA1 (dy_page s), tablesWanted G (dy_page s)))) (\<lambda>(ok, ts).
     seq (require ok (''no 0xA1 subscription after the line-up: '' @ ts)) (\<lambda>_.
     seq (reading (\<lambda>s. filter (\<lambda>x. mt_tableId x = Some 0xA1) (d_matches G (dy_page s)))) (\<lambda>a1.
     let pids = filter (\<lambda>p. p \<notin> set (sb_filters before)) (sb_filters after) in
     seq (require (Some 0x33 \<in> set (map (parse_int 16) pids))
       (''PID 0x33 is not among the filters the line-up opened: '' @ join_with '' '' pids)) (\<lambda>_.
     seq (await_quiet G 90) (\<lambda>quiet.
     give \<lparr>ms_settledAfterSeconds = waited, ms_before = before, ms_dsCandidates = cs, ms_dsBase = DS,
       ms_afterLineup = after, ms_a1Match = a1, ms_quietAfterSeconds = quiet\<rparr>)))))))))"

text \<open>The hits of the callback over the feed; \<open>NaN\<close>, when the page no longer counts it, is \<open>None\<close>.\<close>

definition callback_hits :: "('w, 'z) page_api_scheme \<Rightarrow> ('w, int option) act" where
  "callback_hits G = reading (\<lambda>w. map_of (pcHits G w [B5_CALLBACK]) (h8 B5_CALLBACK))"

definition message_feed :: "('w, 'z) day_api_scheme \<Rightarrow> int list \<Rightarrow> ('w day, int \<times> int option) act" where
  "message_feed G exts =
     seq (on_page (callback_hits G)) (\<lambda>c0.
     seq (require (c0 \<noteq> None) ''__pcHits could not find the 0xB5 callback key -- harness failure'') (\<lambda>_.
     seq (fixed_rounds G (titles_section True) exts) (\<lambda>(_, bs).
     seq (pausing G 12000) (\<lambda>_.
     seq (on_page (callback_hits G)) (\<lambda>c1.
     give (int (length (filter (\<lambda>b. b) bs)), map_option (\<lambda>n. n - the c0) c1))))))"

section \<open>The run\<close>

record message_report =
  mr_state :: message_state
  mr_sectionsPushed :: int
  mr_b5CallbackHits :: "int option"
  mr_parseCaveat :: "string option"
  mr_presses :: "(press_report \<times> watched_part option) list"
  mr_ds :: "(string \<times> string) list"
  mr_recordArray :: "array_row list"
  mr_end :: at_the_end
  mr_headline :: string

definition parse_caveat :: "int option \<Rightarrow> string option" where
  "parse_caveat hits =
     (if hits = None \<or> hits = Some 0
      then Some (''the 0xB5 callback did not run during the feed, so the records were not walked ''
             @ ''and this press is of a box that received nothing'')
      else None)"

definition message_headline :: "press_report \<Rightarrow> watched_part \<Rightarrow> string" where
  "message_headline p wp =
     ''guide press: '' @ dec_string (pp_widgets p) @ '' widgets, '' @ dec_string (mw_codeRows (wp_watch wp)) @ '' code reads / ''
     @ dec_string (mw_resourceRows (wp_watch wp)) @ '' resource reads, capped='' @ bool_text (mw_capped (wp_watch wp))
     @ ''. Message string read '' @ dec_string (wp_messageReads wp) @ '' times. '' @ wp_messageNote wp"

definition message_presses :: "('w, 'z) linkage_api_scheme \<Rightarrow> ('w day, (press_report \<times> watched_part option) list) act" where
  "message_presses G =
     seq (message_press G 0x7D ''sky'' ''settle-sky'' False) (\<lambda>p0.
     seq (require (pp_drew (fst p0)) ''the settling sky press built no widgets'') (\<lambda>_.
     seq (message_press G 0x80 ''tv guide'' ''guide'' True) (\<lambda>g.
     seq (shoot G ''guide-watched'') (\<lambda>_.
     seq (require (pp_drew (fst g))
       (''the watched guide press built no widgets, so it is not the press this '' @ ''probe means to measure'')) (\<lambda>_.
     give [p0, g])))))"

definition message_run :: "('w, 'z) message_api_scheme \<Rightarrow> ('w day, message_report) act" where
  "message_run G =
     seq (message_setup G) (\<lambda>ms.
     seq (message_feed G (extensions_of (hd (ms_a1Match ms)))) (\<lambda>(pushed, hits).
     seq (message_presses G) (\<lambda>ps.
     seq (on_page (reading (\<lambda>w. (ds_dump G (ms_dsBase ms) w, record_array G (ms_dsBase ms) w)))) (\<lambda>(ds, rows).
     seq (at_end G) (\<lambda>ae.
     give \<lparr>mr_state = ms, mr_sectionsPushed = pushed, mr_b5CallbackHits = hits, mr_parseCaveat = parse_caveat hits,
       mr_presses = ps, mr_ds = ds, mr_recordArray = rows, mr_end = ae,
       mr_headline = (case snd (ps ! 1) of None \<Rightarrow> [] | Some wp \<Rightarrow> message_headline (fst (ps ! 1)) wp)\<rparr>)))))"

end
