(* ===== verification/Probe_Message_Facts.thy ===== *)
theory Probe_Message_Facts
  imports Probe_Message
begin

text \<open>What the watched press counts, and when the data segment is located.\<close>

lemma message_rows_are_resources: "message_row e \<Longrightarrow> \<not> code_row e"
  by (simp add: message_row_def code_row_def MSG_def CODE_HI_def)

lemma filter_messages: "filter message_row (filter (\<lambda>e. \<not> code_row e) es) = filter message_row es"
  by (induction es) (auto simp: message_rows_are_resources)

lemma row_counts: "length (filter code_row es) + length (filter (\<lambda>e. \<not> code_row e) es) = length es"
  by (rule sum_length_filter_compl)

text \<open>
  Every row of the log is a row of the trace or a read of a resource, and the reads of the message are all the rows
  whose address lies in its text; the message is said to have been read if and only if there is one, and its first
  read is the first such row of the whole log.
\<close>

theorem watched_rows_exact:
  fixes lg :: access_log
  defines "wp \<equiv> watched_part_of lg"
  shows "mw_codeRows (wp_watch wp) + mw_resourceRows (wp_watch wp) = int (length (al_all lg))"
    and "wp_messageReads wp = int (length (filter message_row (al_all lg)))"
    and "wp_messageFirst wp = map_option (\<lambda>e. (ac_pc e, ac_at e, ac_icount e)) (find message_row (al_all lg))"
    and "wp_messageNote wp = ''the message text WAS read out of the flash during this press''
      \<longleftrightarrow> (\<exists>e \<in> set (al_all lg). message_row e)"
proof -
  show "mw_codeRows (wp_watch wp) + mw_resourceRows (wp_watch wp) = int (length (al_all lg))"
    using row_counts [of "al_all lg"] by (simp add: wp_def watched_part_of_def Let_def)
  show "wp_messageReads wp = int (length (filter message_row (al_all lg)))"
    by (simp add: wp_def watched_part_of_def Let_def filter_messages del: filter_filter)
  have f: "(case filter message_row es of [] \<Rightarrow> None | e # _ \<Rightarrow> Some (g e)) = map_option g (find message_row es)"
    for es and g :: "access \<Rightarrow> string \<times> string \<times> int"
    by (induction es) simp_all
  show "wp_messageFirst wp = map_option (\<lambda>e. (ac_pc e, ac_at e, ac_icount e)) (find message_row (al_all lg))"
    unfolding f [symmetric] by (simp add: wp_def watched_part_of_def Let_def filter_messages del: filter_filter)
  have n: "message_note i r = ''the message text WAS read out of the flash during this press'' \<longleftrightarrow> i \<noteq> 0" for i r
    by (simp add: message_note_def)
  show "wp_messageNote wp = ''the message text WAS read out of the flash during this press''
      \<longleftrightarrow> (\<exists>e \<in> set (al_all lg). message_row e)"
    by (simp add: wp_def watched_part_of_def Let_def filter_messages n filter_empty_conv del: filter_filter)
qed

text \<open>A read of a word counts by its first byte: one that fetches the first letters of the message is not a read of it.\<close>

lemma word_over_the_start_not_counted:
  "wp_messageReads (watched_part_of
     \<lparr>al_byPc = None, al_all = [\<lparr>ac_pc = ''0x80069298'', ac_at = ''0x9FCAB278'', ac_size = 4, ac_icount = 1\<rparr>],
      al_capped = False, al_reads = 1, al_max = 1\<rparr>) = 0"
  by code_simp

lemma addr_of_printed: "addr_of (h8 (addr_of a)) = addr_of a"
  by (simp add: addr_of_h8) (simp add: addr_of_def split: option.split)

lemma good_candidates:
  "ds_good (map (ds_candidate_of G w) xs) = map (ds_candidate_of G w) (filter (\<lambda>a. addr_of a \<ge> APP_IMAGE_END) xs)"
  "addr_of (dc_base (ds_candidate_of G w a)) = addr_of a"
  by (simp_all add: ds_good_def filter_map o_def ds_candidate_of_def Let_def addr_of_printed)

text \<open>
  The data segment is located if and only if exactly one of the places reported lies above the application image,
  and it is then that place; otherwise the probe fails without a change to the box.
\<close>

theorem locate_ds_exact:
  fixes G :: "('w, 'z) message_api_scheme"
  defines "places w \<equiv> map addr_of (n_find G w RSRC 0x80000000 0x82000000 64)"
  shows "(\<exists>cs. fst (locate_ds G w) = Inr (cs, d)) \<longleftrightarrow> filter (\<lambda>x. x \<ge> APP_IMAGE_END) (places w) = [d]"
    and "snd (locate_ds G w) = w"
proof -
  let ?xs = "n_find G w RSRC 0x80000000 0x82000000 64"
  let ?good = "filter (\<lambda>a. addr_of a \<ge> APP_IMAGE_END) ?xs"
  have p: "filter (\<lambda>x. x \<ge> APP_IMAGE_END) (places w) = map addr_of ?good"
    by (simp add: places_def filter_map o_def)
  show "snd (locate_ds G w) = w"
    by (simp add: locate_ds_def seq_def reading_def require_def give_def throw_def Let_def)
  show "(\<exists>cs. fst (locate_ds G w) = Inr (cs, d)) \<longleftrightarrow> filter (\<lambda>x. x \<ge> APP_IMAGE_END) (places w) = [d]"
    unfolding p
    by (cases ?good rule: list.exhaust)
       (auto simp: locate_ds_def seq_def reading_def require_def give_def throw_def Let_def good_candidates)
qed

end
