(* ===== verification/Probe_Descriptors.thy ===== *)
theory Probe_Descriptors
  imports Probe_Loop Probe_Payload
begin

text \<open>
  \<open>tools/probes/which-descriptors.js\<close>: a NIT, and a BAT if the box asks for one, whose transport loop carries one
  descriptor of every private tag between two that the box must read, and who reads their bodies in the ring.
\<close>

section \<open>The page\<close>

record ring_filter = si_filter +
  rf_ring :: string

record 'w descs_api = "'w titles_api" +
  x_filters :: "'w \<Rightarrow> ring_filter list"

definition armedFilterForPid :: "('w, 'z) descs_api_scheme \<Rightarrow> int \<Rightarrow> 'w \<Rightarrow> ring_filter option" where
  "armedFilterForPid G pid w = find (\<lambda>f. parse_int 16 (sf_pid f) = Some pid \<and> sf_armed f) (x_filters G w)"

text \<open>The tables with the mask of their extension, when it does not say all.\<close>

definition wanted_text :: "si_match \<Rightarrow> string" where
  "wanted_text x =
     (case mt_tableId x of None \<Rightarrow> ''0x??'' | Some t \<Rightarrow> ''0x'' @ hex_string t)
     @ (case mt_extension x of None \<Rightarrow> [] | Some e \<Rightarrow> ''/ext=0x'' @ hex_string e)
     @ (case mt_extensionMask x of None \<Rightarrow> [] | Some k \<Rightarrow> if k \<noteq> 0xFFFF then ''&0x'' @ hex_string k else [])"

definition tables_masked :: "('w, 'z) day_api_scheme \<Rightarrow> 'w \<Rightarrow> string list" where
  "tables_masked G w = map wanted_text (d_matches G w)"

section \<open>The section\<close>

definition serviceList :: "int \<Rightarrow> int list" where
  "serviceList sid = [0x41, 3] @ u16 sid @ [0x01]"

definition DESC_VERSION :: int where "DESC_VERSION = 9"

definition add_desc ::
  "int list \<times> (descriptor \<times> string) list \<Rightarrow> int list \<times> string \<Rightarrow> int list \<times> (descriptor \<times> string) list" where
  "add_desc acc x =
     (fst acc @ fst x,
      snd acc @ [(\<lparr>de_off = int (length (fst acc)), de_len = int (length (fst x)), de_tag = hd (fst x)\<rparr>, snd x)])"

definition private_tags :: "int list" where
  "private_tags = [0x80..0xFF]"

definition probeLoop :: "int list \<times> (descriptor \<times> string) list" where
  "probeLoop = foldl add_desc ([], [])
     ([(satellite, ''control-first'')] @ map (\<lambda>i. (loop_descriptor i, ''probe'')) private_tags
      @ [(serviceList 0x0064, ''control-last'')])"

definition desc_section :: "si_ids \<Rightarrow> int \<Rightarrow> int \<Rightarrow> int \<Rightarrow> int list \<Rightarrow> int list" where
  "desc_section ids tableId ext version descs =
     (let ts = u16 (id_tsid ids) @ u16 (id_networkId ids) @ len_field (int (length descs)) @ descs;
          outer = (if tableId = 0x40 then [0x40, 3, 0x53, 0x6B, 0x79] else [0x47, 3, 0x53, 0x6B, 0x79]);
          len = 5 + 2 + int (length outer) + 2 + int (length ts) + 4
      in with_crc (long_header tableId len ext version
           @ len_field (int (length outer)) @ outer @ len_field (int (length ts)) @ ts))"

section \<open>One table\<close>

definition hits_saying :: "('w, 'z) page_api_scheme \<Rightarrow> string \<Rightarrow> ('w, int \<times> int) act" where
  "hits_saying G missing = (\<lambda>w.
     let r = pcHits G w [LISR, SECTASK] in
     case (map_of r (h8 LISR), map_of r (h8 SECTASK)) of
       (Some a, Some b) \<Rightarrow> give (a, b) w
     | _ \<Rightarrow> throw missing w)"

definition descriptor_hits :: "('w, 'z) page_api_scheme \<Rightarrow> ('w, int \<times> int) act" where
  "descriptor_hits G = hits_saying G
     (''__pcHits did not return the keys it was asked for -- the census cannot find ''
      @ ''its own subject, which is a harness failure and not a count of zero'')"

record started =
  st_name :: string
  st_section :: "int list"
  st_DESC_AT :: int
  st_at :: string
  st_before :: "int \<times> int"
  st_ext :: int
  st_tableId :: int

text \<open>An error is given back, not thrown.\<close>

definition run_table ::
  "('w, 'z) descs_api_scheme \<Rightarrow> string \<Rightarrow> int \<Rightarrow> int \<Rightarrow> int \<Rightarrow> ('w, string + started) act" where
  "run_table G name tableId pid ext =
     seq (reading (\<lambda>w. desc_section (d_ids G w) tableId ext DESC_VERSION (fst probeLoop))) (\<lambda>sec.
     if length sec > 1024
     then give (Inl (''section is '' @ dec_string (int (length sec)) @ '' bytes -- over the 1021 DVB ''
            @ ''long-section limit, so a refusal would be about the length rather than the descriptors''))
     else seq (reading (armedFilterForPid G pid)) (\<lambda>f.
     case f of None \<Rightarrow> give (Inl (''no armed filter on PID 0x'' @ hex_string pid))
     | Some rf \<Rightarrow>
         seq (descriptor_hits G) (\<lambda>before.
         let base = addr_of (rf_ring rf) in
         seq (doing (t_watch G base (base + 0x3000))) (\<lambda>_.
         seq (\<lambda>w. let (r, w') = t_push G pid sec w in (Inr r, w')) (\<lambda>push.
         if \<not> pr_ok push
         then seq (doing (d_readUnwatch G)) (\<lambda>_. give (Inl (''push refused: '' @ pr_why push)))
         else give (Inr \<lparr>st_name = name, st_section = sec,
                st_DESC_AT = int (length sec) - 4 - int (length (fst probeLoop)), st_at = pu_at push,
                st_before = before, st_ext = ext, st_tableId = tableId\<rparr>))))))"

section \<open>Who read what\<close>

record control_read =
  cr_what :: string
  cr_tag :: string
  cr_at :: string
  cr_bodyBytesRead :: int

definition control_of :: "int \<Rightarrow> int list \<Rightarrow> descriptor \<times> string \<Rightarrow> control_read" where
  "control_of lo seen x =
     (let d = fst x
      in \<lparr>cr_what = snd x, cr_tag = ''0x'' @ hex_string (de_tag d), cr_at = h8 (lo + de_off d),
          cr_bodyBytesRead = int (length (filter (\<lambda>k. k \<in> set seen) [de_off d + 2..de_off d + de_len d - 1]))\<rparr>)"

definition desc_controls :: "int \<Rightarrow> int list \<Rightarrow> control_read list" where
  "desc_controls lo seen = map (control_of lo seen) (filter (\<lambda>x. prefix ''control'' (snd x)) (snd probeLoop))"

definition walked_whole :: "control_read list \<Rightarrow> bool" where
  "walked_whole cs \<longleftrightarrow> length cs = 2 \<and> cr_bodyBytesRead (cs ! 0) > 0 \<and> cr_bodyBytesRead (cs ! 1) > 0"

definition desc_touches :: "int \<Rightarrow> read_entry list \<Rightarrow> (int \<times> touches) list" where
  "desc_touches lo lg =
     attribute_reads (inside_of (map fst (snd probeLoop))) lo (int (length (fst probeLoop))) lg
       (touch_table (map fst (snd probeLoop)))"

definition probe_tags :: "int list" where
  "probe_tags = map (\<lambda>x. de_tag (fst x)) (filter (\<lambda>x. snd x = ''probe'') (snd probeLoop))"

definition touches_of :: "(int \<times> touches) list \<Rightarrow> int \<Rightarrow> touches" where
  "touches_of tb t = (case map_of tb t of None \<Rightarrow> no_touch | Some c \<Rightarrow> c)"

definition body_read :: "(int \<times> touches) list \<Rightarrow> int list" where
  "body_read tb = filter (\<lambda>t. tc_body (touches_of tb t) > 0) probe_tags"

definition tag_only :: "(int \<times> touches) list \<Rightarrow> int list" where
  "tag_only tb = filter (\<lambda>t. tc_tag (touches_of tb t) > 0 \<and> tc_body (touches_of tb t) = 0) probe_tags"

definition per_tag_text :: "(int \<times> touches) list \<Rightarrow> int \<Rightarrow> string" where
  "per_tag_text tb t =
     (let c = touches_of tb t
      in ''0x'' @ hex_string t @ '' tag='' @ dec_string (tc_tag c) @ '' len='' @ dec_string (tc_len c)
         @ '' body='' @ dec_string (tc_body c))"

record collected =
  co_table :: string
  co_tableId :: string
  co_extension :: string
  co_version :: int
  co_sectionBytes :: int
  co_landedAt :: string
  co_descriptorLoopAt :: string
  co_descriptorBytes :: int
  co_delivery :: "int \<times> int"
  co_reads :: int
  co_capped :: "string option"
  co_readers :: "coverage list"
  co_bulkCopiers :: "coverage list"
  co_controls :: "control_read list"
  co_walkedWholeLoop :: bool
  co_tagsWithBodyRead :: "string list"
  co_tagsSeenButSkipped :: int
  co_caveat :: string
  co_perTagNonZero :: "string list"

definition collected_of :: "started \<Rightarrow> read_log \<Rightarrow> int \<times> int \<Rightarrow> collected" where
  "collected_of st lg after =
     (let lo = addr_of (st_at st) + st_DESC_AT st; n = int (length (fst probeLoop));
          tb = desc_touches lo (rl_all lg); seen = offsets_read lo n (rl_all lg);
          pcs = map (coverage_in n) (readers_of (cover lo n (rl_all lg)));
          cs = desc_controls lo seen; walked = walked_whole cs
      in \<lparr>co_table = st_name st, co_tableId = ''0x'' @ hex_string (st_tableId st), co_extension = ''0x'' @ hex_string (st_ext st),
          co_version = DESC_VERSION, co_sectionBytes = int (length (st_section st)), co_landedAt = st_at st,
          co_descriptorLoopAt = h8 lo, co_descriptorBytes = n,
          co_delivery = (fst after - fst (st_before st), snd after - snd (st_before st)), co_reads = rl_reads lg,
          co_capped = (if rl_capped lg then Some ''CAPPED -- a sample of the busiest window, not a record of it'' else None),
          co_readers = take 10 pcs, co_bulkCopiers = filter (\<lambda>c. cg_tenths c \<ge> 800) pcs, co_controls = cs,
          co_walkedWholeLoop = walked, co_tagsWithBodyRead = map (\<lambda>t. ''0x'' @ hex_string t) (body_read tb),
          co_tagsSeenButSkipped = int (length (tag_only tb)),
          co_caveat =
            (if walked
             then ''both controls were read, so the loop was walked end to end and a skipped tag was genuinely skipped''
             else ''THE LOOP WAS NOT WALKED END TO END -- this is a prefix, not an answer''),
          co_perTagNonZero = map (per_tag_text tb)
            (filter (\<lambda>t. tc_tag (touches_of tb t) \<noteq> 0 \<or> tc_body (touches_of tb t) \<noteq> 0) probe_tags)\<rparr>)"

definition collect_table :: "('w, 'z) descs_api_scheme \<Rightarrow> started \<Rightarrow> ('w, collected) act" where
  "collect_table G st =
     seq (reading (t_log G)) (\<lambda>lg.
     seq (doing (d_readUnwatch G)) (\<lambda>_.
     seq (descriptor_hits G) (\<lambda>after.
     give (collected_of st lg after))))"

datatype rung = Skipped string | Failed string | Collected collected

definition table_rung :: "('w, 'z) descs_api_scheme \<Rightarrow> string \<Rightarrow> int \<Rightarrow> int \<Rightarrow> int \<Rightarrow> ('w, rung) act" where
  "table_rung G name tableId pid ext =
     seq (run_table G name tableId pid ext) (\<lambda>r.
     case r of Inl e \<Rightarrow> give (Failed e)
     | Inr st \<Rightarrow> seq (sleep G 8000) (\<lambda>_. seq (collect_table G st) (\<lambda>c. give (Collected c))))"

section \<open>The run\<close>

fun await_box :: "('w, 'z) day_api_scheme \<Rightarrow> nat \<Rightarrow> int \<Rightarrow> ('w, int) act" where
  "await_box G 0 waited = give waited"
| "await_box G (Suc n) waited =
     seq (reading (settled G)) (\<lambda>ok.
     if ok then give waited else seq (sleep G 1000) (\<lambda>_. await_box G n (waited + 1)))"

definition descs_settle :: "('w, 'z) descs_api_scheme \<Rightarrow> ('w, int) act" where
  "descs_settle G =
     seq (await_box G 180 0) (\<lambda>waited.
     seq (reading (settled G)) (\<lambda>ok.
     seq (require ok
       (''the box never settled in '' @ dec_string waited @ ''s -- every reading below would be of a saturated machine'')) (\<lambda>_.
     seq (reading (g_tasks G)) (\<lambda>n.
     seq (require (n \<ge> 42) (''not booted: '' @ dec_string n @ '' tasks'')) (\<lambda>_.
     seq (doing (g_profile G)) (\<lambda>_.
     seq (reading (armedFilterForPid G 0x0010)) (\<lambda>f.
     seq (require (f \<noteq> None)
       (''no armed filter on PID 0x0010 -- the demux should carry 0x10, 0x11 and 0x14 by ''
        @ ''the end of every boot, so this is the instrument failing and not the box'')) (\<lambda>_.
     give waited))))))))"

text \<open>An identity that is not known prints as 0.\<close>

definition ids_text :: "si_ids \<Rightarrow> string" where
  "ids_text ids =
     ''net=0x'' @ hex_string (to_u32 (id_networkId ids))
     @ '' bq=0x'' @ hex_string (case id_bouquetId ids of None \<Rightarrow> 0 | Some b \<Rightarrow> to_u32 b)
     @ '' ts=0x'' @ hex_string (to_u32 (id_tsid ids))"

definition ladder_step :: "('w, 'z) day_api_scheme \<Rightarrow> nat \<Rightarrow> ('w, string \<times> string) act" where
  "ladder_step G k =
     seq (sleep G 6000) (\<lambda>_.
     reading (\<lambda>w. (join_with '' '' (tables_masked G w), ids_text (d_ids G w))))"

record descs_report =
  dr_settledAfterSeconds :: int
  dr_tablesWantedBefore :: "string list"
  dr_nit :: rung
  dr_ladder :: "(string \<times> string) list"
  dr_tablesWantedAfter :: "string list"
  dr_nitWidenedTheSubscription :: bool
  dr_bat :: rung

definition bat_rung :: "('w, 'z) descs_api_scheme \<Rightarrow> ('w, rung) act" where
  "bat_rung G =
     seq (reading (wants G 0x4A)) (\<lambda>ok.
     if ok
     then seq (reading (\<lambda>w. bouquet (d_ids G w))) (\<lambda>bq. table_rung G ''BAT'' 0x4A 0x0011 bq)
     else give (Skipped (''the box still does not subscribe to table 0x4A, so a pushed BAT would be a ''
            @ ''reading about subscription rather than about descriptors. Delivery is by PID and ''
            @ ''would have worked; the parse is what would not be attributable.'')))"

definition descs_run :: "('w, 'z) descs_api_scheme \<Rightarrow> ('w, descs_report) act" where
  "descs_run G =
     seq (descs_settle G) (\<lambda>waited.
     seq (reading (tables_masked G)) (\<lambda>before.
     seq (reading (\<lambda>w. id_networkId (d_ids G w))) (\<lambda>net.
     seq (table_rung G ''NIT'' 0x40 0x0010 net) (\<lambda>nit.
     seq (each (ladder_step G) [0..<5]) (\<lambda>ladder.
     seq (reading (tables_masked G)) (\<lambda>after.
     seq (bat_rung G) (\<lambda>bat.
     give \<lparr>dr_settledAfterSeconds = waited, dr_tablesWantedBefore = before, dr_nit = nit, dr_ladder = ladder,
       dr_tablesWantedAfter = after, dr_nitWidenedTheSubscription = (length after > length before), dr_bat = bat\<rparr>)))))))"

end
