(* ===== verification/Probe_Bat_Walk.thy ===== *)
theory Probe_Bat_Walk
  imports Probe_Descriptors
begin

text \<open>
  Two probes that push a loop of descriptors in a BAT and watch the copy the box parses:
  \<open>tools/probes/which-tag-the-bat-walk-wants.js\<close>, the sweep over the tags, and \<open>tools/probes/b1-entry-layout.js\<close>,
  the order in which the bytes of a 0xB1 are read.  Their counter of versions is \<open>dy_bat\<close>.
\<close>

section \<open>A loop in a BAT\<close>

definition push_bat_loop :: "('w, 'z) titles_api_scheme \<Rightarrow> int list \<Rightarrow> (('w, 'y) day_scheme, pushed_at) act" where
  "push_bat_loop G descs =
     seq (doing (\<lambda>s. s\<lparr>dy_bat := next_version (dy_bat s)\<rparr>)) (\<lambda>_.
     seq (reading (\<lambda>s. let ids = d_ids G (dy_page s) in desc_section ids 0x4A (bouquet ids) (dy_bat s) descs)) (\<lambda>sec.
     push_section G 0x0011 sec))"

text \<open>The watched push of \<open>Probe_Titles\<close>, with any reading of the log.\<close>

definition under_watch_with ::
  "('w, 'z) titles_api_scheme \<Rightarrow> ('w \<Rightarrow> 'l) \<Rightarrow> int \<Rightarrow> (('w, 'y) day_scheme, pushed_at) act
    \<Rightarrow> (('w, 'y) day_scheme, pushed_at \<times> 'l option) act" where
  "under_watch_with G getlog mid push =
     seq (on_page (doing (t_watch G (to_u32 (mid - 0x2000)) (to_u32 (mid + 0x2000))))) (\<lambda>_.
     seq push (\<lambda>p1.
     if \<not> pr_ok p1
     then seq (on_page (doing (d_readUnwatch G))) (\<lambda>_. give (p1, None))
     else seq (pausing G 8000) (\<lambda>_.
          seq (reading (\<lambda>s. getlog (dy_page s))) (\<lambda>lg.
          seq (on_page (doing (d_readUnwatch G))) (\<lambda>_.
          give (p1, Some lg))))))"

record copy_pass =
  cy_error :: "string option"
  cy_copiesFound :: "string list option"
  cy_watching :: "string option"
  cy_version :: "int option"
  cy_delivery :: "(int \<times> int) option"
  cy_watch :: "(int \<times> bool) option"

definition no_copy :: copy_pass where
  "no_copy = \<lparr>cy_error = None, cy_copiesFound = None, cy_watching = None, cy_version = None, cy_delivery = None, cy_watch = None\<rparr>"

text \<open>
  Push, find a copy outside the ring, push again under the watch, find the copy again.  With it the first push's
  place, the address of the marker and the entries of the log are given.
\<close>

definition copied_pass ::
  "('w, 'z) titles_api_scheme \<Rightarrow> ('w \<Rightarrow> int \<times> bool \<times> 'e list) \<Rightarrow> int list \<Rightarrow> int list
    \<Rightarrow> (('w, 'y) day_scheme, copy_pass \<times> (string \<times> int \<times> 'e list) option) act" where
  "copied_pass G getlog descs pattern =
     seq (push_bat_loop G descs) (\<lambda>p0.
     if \<not> pr_ok p0 then give (no_copy\<lparr>cy_error := Some (''push refused: '' @ pr_why p0)\<rparr>, None)
     else seq (pausing G 8000) (\<lambda>_.
     seq (reading (\<lambda>s. outside_ring 1024 (pu_at p0) (t_find G (dy_page s) pattern 0x80000000 0x82000000 24))) (\<lambda>found.
     if found = []
     then give (no_copy\<lparr>cy_copiesFound := Some found,
            cy_error := Some ''the marker was not found outside the ring -- no copy to watch''\<rparr>, None)
     else
       let r = no_copy\<lparr>cy_copiesFound := Some found, cy_watching := Some (choose_copy found)\<rparr>; mid = addr_of (choose_copy found) in
       seq (on_page (section_hits G)) (\<lambda>before.
       seq (under_watch_with G getlog mid (push_bat_loop G descs)) (\<lambda>(p1, got).
       case got of
         None \<Rightarrow> give (r\<lparr>cy_error := Some (''second push refused: '' @ pr_why p1)\<rparr>, None)
       | Some (n, capped, es) \<Rightarrow>
           seq (reading dy_bat) (\<lambda>v.
           seq (on_page (section_hits G)) (\<lambda>after.
           let r' = r\<lparr>cy_version := Some v, cy_delivery := Some (fst after - fst before, snd after - snd before),
                      cy_watch := Some (n, capped)\<rparr> in
           seq (reading (\<lambda>s. mark_again G pattern mid (dy_page s))) (\<lambda>again.
           give (case again of
               [] \<Rightarrow> (r'\<lparr>cy_error := Some ''the marker is not in the watched region afterwards -- unmappable, not zero''\<rparr>, None)
             | a # _ \<Rightarrow> (r', Some (pu_at p0, addr_of a, es)))))))))))"

text \<open>A box that asks for the BAT; the two probes differ in one text.\<close>

definition tables_unsorted :: "('w, 'z) day_api_scheme \<Rightarrow> 'w \<Rightarrow> string" where
  "tables_unsorted G w = join_with '' '' (map match_text (d_matches G w))"

definition bat_wanted :: "('w, 'z) titles_api_scheme \<Rightarrow> string \<Rightarrow> (('w, 'y) day_scheme, string) act" where
  "bat_wanted G refusal =
     seq (titles_ladder G) (\<lambda>_.
     seq (reading (\<lambda>s. tables_unsorted G (dy_page s))) (\<lambda>ts.
     seq (reading (\<lambda>s. wants G 0x4A (dy_page s))) (\<lambda>ok.
     seq (require ok refusal) (\<lambda>_.
     seq (reading (\<lambda>s. list_ex (\<lambda>f. parse_int 16 (sf_pid f) = Some 0x0011) (armed G (dy_page s)))) (\<lambda>open11.
     seq (require open11 ''no armed filter on PID 0x0011'') (\<lambda>_. give ts))))))"

section \<open>Which tag the walk wants\<close>

definition bat_loop :: "int \<Rightarrow> int \<Rightarrow> int list \<times> (descriptor \<times> string) list" where
  "bat_loop lo hi = foldl add_desc ([], [])
     ([(satellite, ''control-first'')]
      @ map (\<lambda>i. (loop_descriptor i, ''probe'')) (filter (\<lambda>i. \<not> (i = 0x43 \<or> i = 0x41)) [lo..hi])
      @ [(serviceList 0x0064, ''control-last'')])"

definition markerFor :: "(descriptor \<times> string) list \<Rightarrow> descriptor" where
  "markerFor layout = fst (last (filter (\<lambda>x. snd x = ''probe'') layout))"

record bat_walk =
  bw_descriptorLoopAt :: string
  bw_readers :: "coverage list"
  bw_nonWalkerReaders :: "coverage list"
  bw_tagsWithBodyRead :: "string list"
  bw_descriptorsWalked :: int
  bw_answer :: string

definition WALK_SKIPPED :: string where
  "WALK_SKIPPED = ''only the iterator touched the loop: every tag in this range was walked and skipped''"

definition bat_walk_of :: "int list \<Rightarrow> descriptor list \<Rightarrow> int \<Rightarrow> read_entry list \<Rightarrow> bat_walk" where
  "bat_walk_of descs layout loopAt lg =
     (let n = int (length descs);
          tb = sort_key fst (attribute_reads (inside_of layout) loopAt n lg (touch_table layout));
          readers = take 14 (map (coverage_in n) (readers_of (cover loopAt n lg)));
          others = filter (\<lambda>c. cg_pc c \<notin> set WALKER) readers
      in \<lparr>bw_descriptorLoopAt = h8 loopAt, bw_readers = readers, bw_nonWalkerReaders = others,
          bw_tagsWithBodyRead = map (\<lambda>t. ''0x'' @ hex_string t) (counted_tags tc_body tb),
          bw_descriptorsWalked = sum_list (map (\<lambda>e. tc_tag (snd e)) tb),
          bw_answer =
            (if others \<noteq> []
             then ''A CALLBACK FIRED -- '' @ join_with '', '' (map cg_pc others)
               @ '' read inside the loop without being the iterator, so a descriptor here IS consumed''
             else WALK_SKIPPED)\<rparr>)"

record walk_pass =
  wk_pass :: string
  wk_tags :: string
  wk_descriptors :: int
  wk_marker :: string
  wk_copy :: copy_pass
  wk_walk :: "bat_walk option"

definition last_two :: "string \<Rightarrow> string" where
  "last_two s = drop (length s - 2) s"

definition walk_pass_of :: "('w, 'z) titles_api_scheme \<Rightarrow> string \<Rightarrow> int \<Rightarrow> int \<Rightarrow> (('w, 'y) day_scheme, walk_pass) act" where
  "walk_pass_of G name lo hi =
     (let (descs, layout) = bat_loop lo hi; mark = markerFor layout in
      seq (copied_pass G (\<lambda>w. let lg = t_log G w in (rl_reads lg, rl_capped lg, rl_all lg)) descs (loop_descriptor (de_tag mark))) (\<lambda>(cy, got).
      give \<lparr>wk_pass = name, wk_tags = last_two (h8 lo) @ ''..'' @ last_two (h8 hi), wk_descriptors = int (length layout),
        wk_marker = ''0x'' @ hex_string (de_tag mark), wk_copy = cy,
        wk_walk = (case got of None \<Rightarrow> None
          | Some (put, found_at, es) \<Rightarrow> Some (bat_walk_of descs (map fst layout) (found_at - de_off mark) es))\<rparr>))"

record walk_report =
  wr_settledAfterSeconds :: int
  wr_tablesBefore :: string
  wr_tablesAfterNit :: string
  wr_passA :: walk_pass
  wr_passB :: walk_pass
  wr_controlHeld :: bool
  wr_note :: string

text \<open>\<open>passB.answer.indexOf('only the iterator') === 0\<close>.\<close>

definition control_held :: "walk_pass \<Rightarrow> bool" where
  "control_held p = (case wk_walk p of None \<Rightarrow> False | Some w \<Rightarrow> prefix ''only the iterator'' (bw_answer w))"

definition walk_note :: "bool \<Rightarrow> string" where
  "walk_note held =
     (if held then ''pass B reproduced the negative in this same run, so pass A'' @ [CHR 0x27] @ ''s result is about the box''
      else ''PASS B DID NOT REPRODUCE THE KNOWN NEGATIVE -- the instrument changed, and pass A is not trustworthy'')"

definition walk_run :: "('w, 'z) titles_api_scheme \<Rightarrow> ('w titles, walk_report) act" where
  "walk_run G =
     seq (titles_settle G) (\<lambda>waited.
     seq (reading (\<lambda>s. tables_unsorted G (dy_page s))) (\<lambda>before.
     seq (bat_wanted G ''the box does not subscribe to table 0x4A -- stage one measured that it does'') (\<lambda>afterNit.
     seq (walk_pass_of G ''A: the low half'' 0x01 0x7F) (\<lambda>a.
     seq (walk_pass_of G (''B: the known negative, re-run as this run'' @ [CHR 0x27] @ ''s own control'') 0x80 0xFF) (\<lambda>b.
     give \<lparr>wr_settledAfterSeconds = waited, wr_tablesBefore = before, wr_tablesAfterNit = afterNit, wr_passA = a, wr_passB = b,
       wr_controlHeld = control_held b, wr_note = walk_note (control_held b)\<rparr>)))))"

end
