(* ===== verification/Probe_After_Copy.thy ===== *)
theory Probe_After_Copy
  imports Probe_Bat_Walk Probe_Asks
begin

text \<open>
  \<open>tools/probes/descriptors-after-the-copy.js\<close>: the loop of \<open>Probe_Descriptors\<close> in a BAT, the regions its copies lie
  in, and who reads the bodies there.  The counter of versions starts at 8.
\<close>

section \<open>A push and where it was copied to\<close>

definition MARK_TAG :: int where "MARK_TAG = 0xC3"

definition markOff :: int where
  "markOff = de_off (fst (hd (filter (\<lambda>x. de_tag (fst x) = MARK_TAG) (snd probeLoop))))"

definition phys :: "int \<Rightarrow> int" where
  "phys a = to_u32 a AND 0x1FFFFFF"

definition copy_hits :: "('w, 'z) page_api_scheme \<Rightarrow> ('w, int \<times> int) act" where
  "copy_hits G = hits_saying G
     (''__pcHits did not return the keys it was asked for -- a census that cannot find ''
      @ ''its own subject is a harness failure, not a count of zero'')"

record copy_push =
  kp_version :: int
  kp_bouquetId :: string
  kp_sectionBytes :: int
  kp_landedAt :: string
  kp_delivery :: "int \<times> int"
  kp_found :: "string list"

text \<open>The section is built before the census is read.\<close>

definition push_copy :: "('w, 'z) titles_api_scheme \<Rightarrow> (('w, 'y) day_scheme, string + copy_push) act" where
  "push_copy G =
     seq (doing (\<lambda>s. s\<lparr>dy_bat := next_version (dy_bat s)\<rparr>)) (\<lambda>_.
     seq (reading (\<lambda>s. (d_ids G (dy_page s), dy_bat s))) (\<lambda>(ids, v).
     let sec = desc_section ids 0x4A (bouquet ids) v (fst probeLoop) in
     seq (on_page (copy_hits G)) (\<lambda>before.
     seq (push_section G 0x0011 sec) (\<lambda>p.
     if \<not> pr_ok p then give (Inl (''push refused: '' @ pr_why p))
     else seq (pausing G 8000) (\<lambda>_.
          seq (on_page (copy_hits G)) (\<lambda>after.
          seq (reading (\<lambda>s. t_find G (dy_page s) (loop_descriptor MARK_TAG) 0x80000000 0x82000000 24)) (\<lambda>found.
          give (Inr \<lparr>kp_version = v, kp_bouquetId = ''0x'' @ hex_string (bouquet ids), kp_sectionBytes = int (length sec),
            kp_landedAt = pu_at p, kp_delivery = (fst after - fst before, snd after - snd before), kp_found = found\<rparr>))))))))"

definition isRing :: "int list \<Rightarrow> string \<Rightarrow> bool" where
  "isRing rings a \<longleftrightarrow> list_ex (\<lambda>r. phys (addr_of a) \<ge> r \<and> phys (addr_of a) < r + 1024) rings"

section \<open>The regions\<close>

text \<open>A region is the place of its first copy with the copies near it.\<close>

fun join_region :: "string \<Rightarrow> (int \<times> string list) list \<Rightarrow> (int \<times> string list) list" where
  "join_region a [] = [(phys (addr_of a), [a])]"
| "join_region a ((m, seen) # rs) =
     (if \<bar>phys (addr_of a) - m\<bar> < 0x4000 then (m, seen @ [a]) # rs else (m, seen) # join_region a rs)"

definition regions_of :: "string list \<Rightarrow> (int \<times> string list) list" where
  "regions_of as = foldl (\<lambda>rs a. join_region a rs) [] as"

definition region_lo :: "int \<Rightarrow> int" where "region_lo mid = to_u32 (0x80000000 + mid - 0x2000)"
definition region_hi :: "int \<Rightarrow> int" where "region_hi mid = to_u32 (0x80000000 + mid + 0x2000)"

definition landed_of :: "int list \<Rightarrow> int \<Rightarrow> string list \<Rightarrow> string list" where
  "landed_of rings mid found =
     filter (\<lambda>a. let q = phys (addr_of a) in
       q \<ge> phys (region_lo mid) \<and> q < phys (region_hi mid) \<and> \<not> isRing rings a) found"

section \<open>Who reads there\<close>

record parser_control =
  pc_what :: string
  pc_tag :: string
  pc_bodyBytesReadByAnyone :: int
  pc_bodyBytesReadByParser :: int

definition parser_control_of :: "int list \<Rightarrow> int list \<Rightarrow> descriptor \<times> string \<Rightarrow> parser_control" where
  "parser_control_of seen parsed x =
     (let d = fst x; body = [de_off d + 2..de_off d + de_len d - 1]
      in \<lparr>pc_what = snd x, pc_tag = ''0x'' @ hex_string (de_tag d),
          pc_bodyBytesReadByAnyone = int (length (filter (\<lambda>k. k \<in> set seen) body)),
          pc_bodyBytesReadByParser = int (length (filter (\<lambda>k. k \<in> set parsed) body))\<rparr>)"

record region_walk =
  rw_descriptorLoopAt :: string
  rw_readers :: "coverage list"
  rw_bulkCopiers :: "coverage list"
  rw_parserCandidates :: "coverage list"
  rw_controls :: "parser_control list"
  rw_tagsWhoseBodyAParserRead :: "string list"
  rw_answer :: string

text \<open>The offsets read by somebody who read less than four fifths of the section.\<close>

definition parser_offsets :: "int \<Rightarrow> (string \<times> int list) list \<Rightarrow> int list" where
  "parser_offsets n cv =
     concat (map snd (filter (\<lambda>x. cg_tenths (coverage_in n (fst x, int (length (snd x)))) < 800) cv))"

definition parsed_tags :: "int list \<Rightarrow> int list" where
  "parsed_tags parsed =
     map (\<lambda>x. de_tag (fst x)) (filter (\<lambda>x. snd x = ''probe'' \<and>
       list_ex (\<lambda>k. k \<in> set parsed) [de_off (fst x) + 2..de_off (fst x) + de_len (fst x) - 1]) (snd probeLoop))"

definition region_walk_of :: "int \<Rightarrow> read_entry list \<Rightarrow> region_walk" where
  "region_walk_of loopAt lg =
     (let n = int (length (fst probeLoop)); cv = cover loopAt n lg;
          pcs = map (coverage_in n) (readers_of cv); parsers = filter (\<lambda>c. cg_tenths c < 800) pcs;
          parsed = parser_offsets n cv;
          ctl = map (parser_control_of (offsets_read loopAt n lg) parsed) (filter (\<lambda>x. prefix ''control'' (snd x)) (snd probeLoop))
      in \<lparr>rw_descriptorLoopAt = h8 loopAt, rw_readers = take 12 pcs, rw_bulkCopiers = filter (\<lambda>c. cg_tenths c \<ge> 800) pcs,
          rw_parserCandidates = take 12 parsers, rw_controls = ctl,
          rw_tagsWhoseBodyAParserRead = map (\<lambda>t. ''0x'' @ hex_string t) (parsed_tags parsed),
          rw_answer =
            (if pcs = [] then ''the region was read but not inside this section''
             else if parsers = []
             then ''EVERY PC that read this section covered ~all of it -- all copiers, so this is a staging ''
               @ ''buffer and the parse is further on''
             else if list_all (\<lambda>c. pc_bodyBytesReadByParser c > 0) ctl
             then ''both controls were read by a non-copier, so the loop was genuinely walked and the '' @ ''tag list is an answer''
             else ''a control was NOT read by a non-copier -- treat the tag list as a prefix'')\<rparr>)"

definition log_readers :: "read_entry list \<Rightarrow> (string \<times> int) list" where
  "log_readers lg =
     take 10 (sort_key (\<lambda>x. - snd x)
       (map (\<lambda>p. (p, int (length (filter (\<lambda>r. rd_pc r = p) lg)))) (first_seen (map rd_pc lg))))"

record region_pass =
  rg_region :: string
  rg_error :: "string option"
  rg_version :: "int option"
  rg_delivery :: "(int \<times> int) option"
  rg_patternInRegionAfterwards :: "string list"
  rg_watch :: "(int \<times> bool) option"
  rg_answer :: "string option"
  rg_readers :: "(string \<times> int) list"
  rg_walk :: "region_walk option"

definition UNTOUCHED :: string where
  "UNTOUCHED = ''NOTHING read this region during the push. Not '' @ [CHR 0x22] @ ''no tag is consumed'' @ [CHR 0x22] @ '' -- this ''
     @ ''region was not touched at all, so it is a staging or a stale buffer.''"

definition UNMAPPABLE :: string where
  "UNMAPPABLE = ''the region WAS read, but this push'' @ [CHR 0x27] @ ''s section is not in it afterwards, so the ''
     @ ''reads cannot be attributed to these descriptors. Unmappable, not zero.''"

definition region_pass_of :: "string \<Rightarrow> int list \<Rightarrow> int \<Rightarrow> copy_push \<Rightarrow> read_log \<Rightarrow> region_pass" where
  "region_pass_of region rings mid p lg =
     (let landed = landed_of rings mid (kp_found p);
          r = \<lparr>rg_region = region, rg_error = None, rg_version = Some (kp_version p), rg_delivery = Some (kp_delivery p),
               rg_patternInRegionAfterwards = landed, rg_watch = Some (rl_reads lg, rl_capped lg), rg_answer = None,
               rg_readers = [], rg_walk = None\<rparr>
      in if rl_reads lg = 0 then r\<lparr>rg_answer := Some UNTOUCHED\<rparr>
         else case landed of
           [] \<Rightarrow> r\<lparr>rg_answer := Some UNMAPPABLE, rg_readers := log_readers (rl_all lg)\<rparr>
         | a # _ \<Rightarrow> let w = region_walk_of (addr_of a - markOff) (rl_all lg) in r\<lparr>rg_answer := Some (rw_answer w), rg_walk := Some w\<rparr>)"

definition watch_region :: "('w, 'z) titles_api_scheme \<Rightarrow> int list \<Rightarrow> int \<Rightarrow> (('w, 'y) day_scheme, region_pass) act" where
  "watch_region G rings mid =
     (let region = h8 (region_lo mid) @ ''-'' @ h8 (region_hi mid) in
      seq (on_page (copy_hits G)) (\<lambda>_.
      seq (on_page (doing (t_watch G (region_lo mid) (region_hi mid)))) (\<lambda>_.
      seq (push_copy G) (\<lambda>p.
      seq (reading (\<lambda>s. t_log G (dy_page s))) (\<lambda>lg.
      seq (on_page (doing (d_readUnwatch G))) (\<lambda>_.
      give (case p of
          Inl e \<Rightarrow> \<lparr>rg_region = region, rg_error = Some e, rg_version = None, rg_delivery = None,
             rg_patternInRegionAfterwards = [], rg_watch = None, rg_answer = None, rg_readers = [], rg_walk = None\<rparr>
        | Inr cp \<Rightarrow> region_pass_of region rings mid cp lg)))))))"

section \<open>The run\<close>

record copies_report =
  cr_afterA :: "string list"
  cr_afterB :: "string list"
  cr_freshInB :: "string list"

definition copies_of :: "int list \<Rightarrow> copy_push \<Rightarrow> copy_push \<Rightarrow> copies_report" where
  "copies_of rings a b =
     \<lparr>cr_afterA = filter (\<lambda>x. \<not> isRing rings x) (kp_found a), cr_afterB = filter (\<lambda>x. \<not> isRing rings x) (kp_found b),
      cr_freshInB = filter (\<lambda>x. \<not> isRing rings x \<and> \<not> list_ex (\<lambda>y. phys (addr_of x) = phys (addr_of y)) (kp_found a)) (kp_found b)\<rparr>"

record after_copy_report =
  ac_settledAfterSeconds :: int
  ac_tablesBefore :: string
  ac_tablesAfterNit :: string
  ac_pushA :: "string + copy_push"
  ac_pushB :: "string + copy_push"
  ac_stop :: "string option"
  ac_copies :: "copies_report option"
  ac_regions :: "(string \<times> string list) list"
  ac_passes :: "region_pass list"

definition copy_settle :: "('w, 'z) day_api_scheme \<Rightarrow> (('w, 'y) day_scheme, int) act" where
  "copy_settle G =
     seq (await_ready G 180 0) (\<lambda>waited.
     seq (reading (\<lambda>s. settled G (dy_page s))) (\<lambda>ok.
     seq (require ok
       (''the box never settled in '' @ dec_string waited @ ''s -- every reading below would be of a saturated machine'')) (\<lambda>_.
     seq (reading (\<lambda>s. g_tasks G (dy_page s))) (\<lambda>n.
     seq (require (n \<ge> 42) (''not booted: '' @ dec_string n @ '' tasks'')) (\<lambda>_.
     seq (on_page (doing (g_profile G))) (\<lambda>_.
     give waited))))))"

text \<open>What follows the two pushes: a reason to stop, or the copies, their regions and a pass over at most three.\<close>

definition copies_found ::
  "('w, 'z) titles_api_scheme \<Rightarrow> copy_push \<Rightarrow> copy_push
    \<Rightarrow> (('w, 'y) day_scheme, string option \<times> copies_report option \<times> (string \<times> string list) list \<times> region_pass list) act" where
  "copies_found G a b =
     (if snd (kp_delivery a) = 0 \<or> snd (kp_delivery b) = 0
      then give (Some ''the section task did not advance -- every zero below would be about delivery'', None, [], [])
      else
        let rings = [phys (addr_of (kp_landedAt a)), phys (addr_of (kp_landedAt b))]; cs = copies_of rings a b in
        if cr_afterB cs = []
        then give (Some (''the pattern was not found anywhere outside the ring -- either the parse reads from ''
               @ ''the ring through a path this watch did not see, or the section was discarded.''), Some cs, [], [])
        else
          let regions = regions_of (cr_afterB cs @ cr_afterA cs) in
          seq (each (\<lambda>r. watch_region G rings (fst r)) (take 3 regions)) (\<lambda>ps.
          give (None, Some cs, map (\<lambda>(m, seen). (h8 (0x80000000 + m), seen)) regions, ps)))"

definition after_copy_run :: "('w, 'z) titles_api_scheme \<Rightarrow> (('w, 'y) day_scheme, after_copy_report) act" where
  "after_copy_run G =
     seq (copy_settle G) (\<lambda>waited.
     seq (reading (\<lambda>s. tables_unsorted G (dy_page s))) (\<lambda>before.
     seq (bat_wanted G
       (''the box still does not subscribe to table 0x4A after a NIT -- stage one measured ''
        @ ''that it does, so this run is of a different machine state'')) (\<lambda>afterNit.
     seq (push_copy G) (\<lambda>pa.
     seq (push_copy G) (\<lambda>pb.
     seq (case (pa, pb) of
            (Inr a, Inr b) \<Rightarrow> copies_found G a b
          | _ \<Rightarrow> give (Some ''a push was refused'', None, [], [])) (\<lambda>(stop, cs, regions, ps).
     give \<lparr>ac_settledAfterSeconds = waited, ac_tablesBefore = before, ac_tablesAfterNit = afterNit, ac_pushA = pa, ac_pushB = pb,
       ac_stop = stop, ac_copies = cs, ac_regions = regions, ac_passes = ps\<rparr>))))))"

end
