(* ===== verification/Probe_B1.thy ===== *)
theory Probe_B1
  imports Probe_Bat_Walk
begin

text \<open>\<open>tools/probes/b1-entry-layout.js\<close>: a 0xB1 whose bytes name their places, and the order in which they are read.\<close>

section \<open>The page and the loop\<close>

record counted_entry = read_entry +
  ce_icount :: int

record 'w entry_api = "'w titles_api" +
  y_log :: "'w \<Rightarrow> int \<times> bool \<times> counted_entry list"

definition INERT_MARK :: "int list" where
  "INERT_MARK = [0xFE, 4, 0xFE, 0xA5, 0xFE, 0x5A]"

definition entryByte :: "int \<Rightarrow> int \<Rightarrow> int" where
  "entryByte i j = (0xC0 + i * 16 + j) AND 0xFF"

definition entry_bytes :: "int \<Rightarrow> int list" where
  "entry_bytes n = concat (map (\<lambda>i. map (entryByte i) [0..8]) [0..n - 1])"

definition entry_body :: "int \<Rightarrow> int \<Rightarrow> int list" where
  "entry_body header n = u16 header @ entry_bytes n"

definition entry_loop :: "int \<Rightarrow> int \<Rightarrow> int \<Rightarrow> int list \<times> (descriptor \<times> string) list" where
  "entry_loop spec header n =
     (let body = entry_body header n
      in foldl add_desc ([], [])
           [([0x5F, 4] @ u32b spec, ''specifier''), ([0xB1, int (length body)] @ body, ''b1''),
            (INERT_MARK, ''marker''), ([0x41, 3] @ u16 0x0064 @ [0x01], ''control-last'')])"

text \<open>\<open>L.layout.filter(...)[0]\<close>, which finds one.\<close>

definition part_of_loop :: "string \<Rightarrow> (descriptor \<times> string) list \<Rightarrow> descriptor" where
  "part_of_loop what layout = fst (hd (filter (\<lambda>x. snd x = what) layout))"

section \<open>The order of the reads\<close>

text \<open>\<open>/^0x800CAE[89ABCD]/\<close>.\<close>

definition spec_cb :: "string \<Rightarrow> bool" where
  "spec_cb pc \<longleftrightarrow> prefix ''0x800CAE'' pc \<and> length pc > 8 \<and> pc ! 8 \<in> set ''89ABCD''"

record consumer_read =
  cs_icount :: int
  cs_pc :: string
  cs_off :: int
  cs_byte :: string

definition consumer_reads :: "int list \<Rightarrow> descriptor \<Rightarrow> int \<Rightarrow> counted_entry list \<Rightarrow> consumer_read list" where
  "consumer_reads descs b1 b1At lg =
     concat (map (\<lambda>r. if rd_pc r \<in> set WALKER \<or> spec_cb (rd_pc r) then []
       else map (\<lambda>x. \<lparr>cs_icount = ce_icount r, cs_pc = rd_pc r, cs_off = x, cs_byte = hx (descs ! nat (de_off b1 + x))\<rparr>)
              (touched b1At (de_len b1) (read_entry.truncate r))) lg)"

definition place_text :: "int \<Rightarrow> string" where
  "place_text x =
     (if x = 0 then ''tag'' else if x = 1 then ''length''
      else if x < 4 then ''header['' @ dec_string (x - 2) @ '']''
      else ''entry'' @ dec_string ((x - 4) div 9) @ ''.byte'' @ dec_string ((x - 4) mod 9))"

definition read_text :: "consumer_read \<Rightarrow> string" where
  "read_text c = cs_pc c @ '' -> +'' @ dec_string (cs_off c) @ '' '' @ place_text (cs_off c) @ '' = '' @ cs_byte c"

definition pc_counts :: "consumer_read list \<Rightarrow> string list" where
  "pc_counts cs =
     sort (map (\<lambda>p. p @ '' x'' @ dec_string (int (length (filter (\<lambda>c. cs_pc c = p) cs)))) (remdups (map cs_pc cs)))"

record entry_read =
  en_descriptorLoopAt :: string
  en_consumerReadOrder :: "string list"
  en_offsetsReadByConsumer :: "int list"
  en_consumerPcs :: "string list"
  en_outputRecordCandidates :: "string list option"
  en_outputRecordBytes :: "string list option"
  en_answer :: string

text \<open>
  An offset is read by the consumer when one of the texts kept for it is not marked as the walk's; a PC is
  printed as a number, so those are the texts of the consumer's reads.
\<close>

definition entry_read_of :: "int list \<Rightarrow> (descriptor \<times> string) list \<Rightarrow> int \<Rightarrow> counted_entry list \<Rightarrow> entry_read" where
  "entry_read_of descs layout loopAt lg =
     (let b1 = part_of_loop ''b1'' layout; cs = consumer_reads descs b1 (loopAt + de_off b1) lg;
          offs = sort (remdups (map cs_off cs))
      in \<lparr>en_descriptorLoopAt = h8 loopAt, en_consumerReadOrder = map read_text (sort_key cs_icount cs),
          en_offsetsReadByConsumer = offs, en_consumerPcs = pc_counts cs,
          en_outputRecordCandidates = None, en_outputRecordBytes = None,
          en_answer =
            (if offs \<noteq> [] then ''the consumer read '' @ dec_string (int (length offs)) @ '' byte(s) of this descriptor''
             else ''NO non-walker PC read inside this descriptor'')\<rparr>)"

section \<open>The record that was built\<close>

definition hex_two :: "int \<Rightarrow> string" where
  "hex_two b = last_two (''0'' @ hex_string b)"

definition bytes_line :: "('w, 'z) page_api_scheme \<Rightarrow> 'w \<Rightarrow> string \<Rightarrow> string" where
  "bytes_line G w a =
     (let base = addr_of a - 8 in h8 base @ '': '' @ join_with '' '' (map hex_two (g_peek G w base 32)))"

definition outside_loop :: "int \<Rightarrow> int \<Rightarrow> string \<Rightarrow> string list \<Rightarrow> string list" where
  "outside_loop loopAt n put found =
     (let lp = loopAt AND 0x1FFFFFF
      in filter (\<lambda>a. let q = addr_of a AND 0x1FFFFFF in \<not> (q \<ge> lp \<and> q < lp + n)) (outside_ring 1024 put found))"

definition output_record ::
  "('w, 'z) titles_api_scheme \<Rightarrow> int \<Rightarrow> int \<Rightarrow> string \<Rightarrow> entry_read \<Rightarrow> (('w, 'y) day_scheme, entry_read) act" where
  "output_record G loopAt n put en =
     seq (reading (\<lambda>s. outside_loop loopAt n put
       (t_find G (dy_page s) [entryByte 0 0, entryByte 0 1, entryByte 0 2, entryByte 0 3] 0x80000000 0x82000000 12))) (\<lambda>found.
     seq (reading (\<lambda>s. map (bytes_line G (dy_page s)) (take 3 found))) (\<lambda>bs.
     give (en\<lparr>en_outputRecordCandidates := Some found, en_outputRecordBytes := Some bs\<rparr>)))"

section \<open>The passes\<close>

record entry_pass =
  ep_pass :: string
  ep_specifier :: int
  ep_header :: string
  ep_entries :: int
  ep_b1Length :: int
  ep_expectedEntryCount :: int
  ep_copy :: copy_pass
  ep_read :: "entry_read option"

definition entry_pass_of ::
  "('w, 'z) entry_api_scheme \<Rightarrow> string \<Rightarrow> int \<Rightarrow> int \<Rightarrow> int \<Rightarrow> (('w, 'y) day_scheme, entry_pass) act" where
  "entry_pass_of G name spec header n =
     (let (descs, layout) = entry_loop spec header n; b1 = part_of_loop ''b1'' layout;
          r = (\<lambda>cy en. \<lparr>ep_pass = name, ep_specifier = spec, ep_header = hx header, ep_entries = n, ep_b1Length = de_len b1 - 2,
                 ep_expectedEntryCount = (de_len b1 - 2 - 2) div 9, ep_copy = cy, ep_read = en\<rparr>) in
      seq (copied_pass G (y_log G) descs INERT_MARK) (\<lambda>(cy, got).
      case got of None \<Rightarrow> give (r cy None)
      | Some (put, found_at, es) \<Rightarrow>
          let loopAt = found_at - de_off (part_of_loop ''marker'' layout); en = entry_read_of descs layout loopAt es in
          seq (if n > 0 then output_record G loopAt (int (length descs)) put en else give en) (\<lambda>en'.
          give (r cy (Some en')))))"

definition zero_quiet :: "entry_pass \<Rightarrow> bool" where
  "zero_quiet p = (case ep_read p of None \<Rightarrow> False | Some en \<Rightarrow> filter (\<lambda>x. x \<ge> 4) (en_offsetsReadByConsumer en) = [])"

definition nil_quiet :: "entry_pass \<Rightarrow> bool" where
  "nil_quiet p = (case ep_read p of None \<Rightarrow> False | Some en \<Rightarrow> en_offsetsReadByConsumer en = [])"

record entry_report =
  er_settledAfterSeconds :: int
  er_headerFFFF :: entry_pass
  er_headerOther :: entry_pass
  er_zeroEntries :: entry_pass
  er_specifierNil :: entry_pass
  er_controls :: "bool \<times> bool"
  er_note :: string

definition entry_note :: "bool \<Rightarrow> bool \<Rightarrow> string" where
  "entry_note z n =
     (if z \<and> n then ''both controls held in this run, so the read orders above are about the box''
      else ''A CONTROL DID NOT HOLD -- the instrument has drifted and the layout above is not trustworthy'')"

definition entry_run :: "('w, 'z) entry_api_scheme \<Rightarrow> ('w titles, entry_report) act" where
  "entry_run G =
     seq (titles_settle G) (\<lambda>waited.
     seq (bat_wanted G ''the box does not subscribe to table 0x4A'') (\<lambda>_.
     seq (entry_pass_of G ''entries, header 0xFFFF'' 2 0xFFFF 3) (\<lambda>a.
     seq (entry_pass_of G ''entries, header 0x1234 -- the other branch'' 2 0x1234 3) (\<lambda>b.
     seq (entry_pass_of G ''control: N = 0, the entry loop must not run'' 2 0xFFFF 0) (\<lambda>z.
     seq (entry_pass_of G ''control: specifier 0, 0xB1 must not be consumed'' 0 0xFFFF 3) (\<lambda>n.
     give \<lparr>er_settledAfterSeconds = waited, er_headerFFFF = a, er_headerOther = b, er_zeroEntries = z, er_specifierNil = n,
       er_controls = (zero_quiet z, nil_quiet n), er_note = entry_note (zero_quiet z) (nil_quiet n)\<rparr>))))))"

end
