(* ===== verification/Probe_Descriptors_Facts.thy ===== *)
theory Probe_Descriptors_Facts
  imports Probe_Descriptors Probe_Loop_Facts
begin

text \<open>The loop of \<open>Probe_Descriptors\<close> in closed form, and what the table of touches says of it.\<close>

section \<open>The loop\<close>

definition tag_descriptor :: "int \<Rightarrow> descriptor" where
  "tag_descriptor t = \<lparr>de_off = 13 + 6 * (t - 0x80), de_len = 6, de_tag = t\<rparr>"

lemma private_tags_all: "set private_tags = {0x80..0xFF}" "length private_tags = 128" "k < 128 \<Longrightarrow> private_tags ! k = 0x80 + int k"
  by (simp_all add: private_tags_def nth_upto del: upto_rec_numeral)

lemma loop_descriptor_shape: "length (loop_descriptor t) = 6" "hd (loop_descriptor t) = t"
    "length (concat (map loop_descriptor ts)) = 6 * length ts"
proof -
  show n: "length (loop_descriptor t) = 6" "hd (loop_descriptor t) = t" for t by (simp_all add: loop_descriptor_def)
  show "length (concat (map loop_descriptor ts)) = 6 * length ts" by (induction ts) (simp_all add: n)
qed

lemma add_desc_pair: "add_desc (bs, ly) (b, w) =
    (bs @ b, ly @ [(\<lparr>de_off = int (length bs), de_len = int (length b), de_tag = hd b\<rparr>, w)])"
  by (simp add: add_desc_def)

lemma add_tags:
  "foldl add_desc (bs, ly) (map (\<lambda>i. (loop_descriptor i, ''probe'')) ts) =
     (bs @ concat (map loop_descriptor ts),
      ly @ map (\<lambda>k. (\<lparr>de_off = int (length bs) + 6 * int k, de_len = 6, de_tag = ts ! k\<rparr>, ''probe'')) [0..<length ts])"
proof (induction ts rule: rev_induct)
  case (snoc t ts)
  then show ?case
    by (simp add: add_desc_pair loop_descriptor_shape nth_append cong: map_cong)
qed simp

lemma satellite_length: "length satellite = 13" "hd satellite = 0x43"
  by code_simp+

lemma serviceList_length: "length (serviceList 0x64) = 5" "hd (serviceList 0x64) = 0x41"
  by code_simp+

lemma probeLoop_layout:
  "snd probeLoop =
     (\<lparr>de_off = 0, de_len = 13, de_tag = 0x43\<rparr>, ''control-first'') # map (\<lambda>t. (tag_descriptor t, ''probe'')) private_tags
       @ [(\<lparr>de_off = 781, de_len = 5, de_tag = 0x41\<rparr>, ''control-last'')]"
  "length (fst probeLoop) = 786"
proof -
  have first: "foldl add_desc ([], []) [(satellite, ''control-first'')]
      = (satellite, [(\<lparr>de_off = 0, de_len = 13, de_tag = 0x43\<rparr>, ''control-first'')])"
    by (simp add: add_desc_pair satellite_length)
  have m: "map (\<lambda>k. (\<lparr>de_off = int (length satellite) + 6 * int k, de_len = 6, de_tag = private_tags ! k\<rparr>, ''probe''))
      [0..<length private_tags] = map (\<lambda>t. (tag_descriptor t, ''probe'')) private_tags"
    by (rule nth_equalityI) (simp_all add: satellite_length tag_descriptor_def private_tags_all)
  have p: "probeLoop = foldl add_desc (foldl add_desc (foldl add_desc ([], []) [(satellite, ''control-first'')])
      (map (\<lambda>i. (loop_descriptor i, ''probe'')) private_tags)) [(serviceList 0x0064, ''control-last'')]"
    unfolding probeLoop_def foldl_append ..
  show "snd probeLoop =
     (\<lparr>de_off = 0, de_len = 13, de_tag = 0x43\<rparr>, ''control-first'') # map (\<lambda>t. (tag_descriptor t, ''probe'')) private_tags
       @ [(\<lparr>de_off = 781, de_len = 5, de_tag = 0x41\<rparr>, ''control-last'')]"
    "length (fst probeLoop) = 786"
    unfolding p first add_tags m
    by (simp_all add: add_desc_pair satellite_length serviceList_length loop_descriptor_shape private_tags_all)
qed

text \<open>The section is never too long: \<open>run_table\<close> cannot fail for its length.\<close>

lemma desc_section_length: "length (desc_section ids tableId ext version (fst probeLoop)) = 813"
  by (simp add: desc_section_def Let_def with_crc_def long_header_def len_field_def u16_def u32b_def probeLoop_layout)

section \<open>The table of touches\<close>

lemma attribute_at:
  "map_of (attribute place tb x) t =
     map_option (\<lambda>c. case place x of Some d \<Rightarrow> if de_tag d = t then touch d x c else c | None \<Rightarrow> c) (map_of tb t)"
  by (cases "place x") (auto simp: attribute_def map_of_map_entry option.map_ident split: option.split)

lemma body_counted:
  "map_of tb t = Some c \<Longrightarrow> tc_body c \<ge> 0 \<Longrightarrow> \<exists>c'. map_of (foldl (attribute place) tb xs) t = Some c' \<and> tc_body c' \<ge> 0 \<and>
     (tc_body c' > 0 \<longleftrightarrow> tc_body c > 0 \<or>
       (\<exists>x \<in> set xs. \<exists>d. place x = Some d \<and> de_tag d = t \<and> x \<noteq> de_off d \<and> x \<noteq> de_off d + 1))"
proof (induction xs arbitrary: tb c)
  case (Cons x xs)
  let ?c = "case place x of Some d \<Rightarrow> if de_tag d = t then touch d x c else c | None \<Rightarrow> c"
  have "map_of (attribute place tb x) t = Some ?c" using Cons.prems(1) by (simp add: attribute_at)
  moreover have c: "tc_body ?c \<ge> 0" "tc_body ?c > 0 \<longleftrightarrow> tc_body c > 0 \<or>
      (\<exists>d. place x = Some d \<and> de_tag d = t \<and> x \<noteq> de_off d \<and> x \<noteq> de_off d + 1)"
    using Cons.prems(2) by (auto simp: touch_def split: option.split)
  ultimately show ?case using Cons.IH [of "attribute place tb x" ?c] by auto
qed simp

lemma touch_table_at: "t \<in> de_tag ` set layout \<Longrightarrow> map_of (touch_table layout) t = Some no_touch"
proof (induction layout rule: rev_induct)
  case (snoc d layout)
  then show ?case by (auto simp: touch_table_def update_conv')
qed simp

lemma find_unique: "d \<in> set xs \<Longrightarrow> P d \<Longrightarrow> (\<And>e. e \<in> set xs \<Longrightarrow> P e \<Longrightarrow> e = d) \<Longrightarrow> find P xs = Some d"
proof (induction xs)
  case (Cons a xs)
  show ?case
  proof (cases "P a")
    case True
    have "a = d" by (rule Cons.prems(3) [OF _ True]) simp
    then show ?thesis using True by simp
  next
    case False
    then have "d \<in> set xs" using Cons.prems(1,2) by (metis set_ConsD)
    then have "find P xs = Some d"
      by (rule Cons.IH [OF _ Cons.prems(2)]) (rule Cons.prems(3), simp_all)
    then show ?thesis using False by simp
  qed
qed simp

lemma inside_of_unique:
  assumes "d \<in> set layout" "de_off d \<le> x" "x < de_off d + de_len d"
    and "\<And>d'. d' \<in> set layout \<Longrightarrow> de_off d' \<le> x \<Longrightarrow> x < de_off d' + de_len d' \<Longrightarrow> d' = d"
  shows "inside_of layout x = Some d"
  unfolding inside_of_def using assms(1)
proof (rule find_unique)
  show "\<not> (x < de_off d \<or> x \<ge> de_off d + de_len d)" using assms(2,3) by simp
  show "e = d" if "e \<in> set layout" "\<not> (x < de_off e \<or> x \<ge> de_off e + de_len e)" for e
    using assms(4) [OF that(1)] that(2) by simp
qed

text \<open>Descriptors that are appended one after the other do not overlap, so a place is in at most one of them.\<close>

definition apart :: "int list \<times> (descriptor \<times> string) list \<Rightarrow> bool" where
  "apart acc \<longleftrightarrow> (\<forall>x \<in> set (snd acc). 0 \<le> de_off (fst x) \<and> de_off (fst x) + de_len (fst x) \<le> int (length (fst acc))) \<and>
     (\<forall>d \<in> fst ` set (snd acc). \<forall>e \<in> fst ` set (snd acc). \<forall>x. de_off d \<le> x \<and> x < de_off d + de_len d \<and>
        de_off e \<le> x \<and> x < de_off e + de_len e \<longrightarrow> e = d)"

lemma apart_add: "apart acc \<Longrightarrow> apart (add_desc acc p)"
  unfolding apart_def add_desc_def by (force simp: ball_Un)

lemma apart_parts: "apart (foldl add_desc ([], []) parts)"
proof (induction parts rule: rev_induct)
  case (snoc p parts)
  then show ?case by (simp add: apart_add)
qed (simp add: apart_def)

lemma inside_part:
  assumes "apart acc" "d \<in> set (map fst (snd acc))" "de_off d \<le> x" "x < de_off d + de_len d"
  shows "inside_of (map fst (snd acc)) x = Some d"
  by (rule inside_of_unique [OF assms(2-4)]) (use assms in \<open>unfold apart_def, force\<close>)

lemma apart_probeLoop: "apart probeLoop"
  unfolding probeLoop_def by (rule apart_parts)

lemma inside_ofD: "inside_of layout x = Some d \<Longrightarrow> d \<in> set layout \<and> de_off d \<le> x \<and> x < de_off d + de_len d"
  unfolding inside_of_def by (auto simp: find_Some_iff)

lemma offsets_read_concat: "set (offsets_read lo n lg) = set (concat (map (touched lo n) lg))"
  by (simp add: offsets_read_def)

lemma body_touched:
  assumes "0x80 \<le> t" "t \<le> 0xFF"
  shows "tc_body (touches_of (desc_touches lo lg) t) > 0 \<longleftrightarrow>
    (\<exists>x \<in> set (offsets_read lo 786 lg). de_off (tag_descriptor t) + 2 \<le> x \<and> x < de_off (tag_descriptor t) + 6)"
proof -
  let ?ly = "map fst (snd probeLoop)"
  let ?xs = "concat (map (touched lo 786) lg)"
  have t: "tag_descriptor t \<in> set ?ly" using assms by (auto simp: probeLoop_layout private_tags_all)
  then have "t \<in> de_tag ` set ?ly" by (force simp: tag_descriptor_def)
  then have "map_of (touch_table ?ly) t = Some no_touch" by (rule touch_table_at)
  moreover have "desc_touches lo lg = foldl (attribute (inside_of ?ly)) (touch_table ?ly) ?xs"
    by (simp add: desc_touches_def attribute_reads_def foldl_concat_map probeLoop_layout(2))
  ultimately have b: "tc_body (touches_of (desc_touches lo lg) t) > 0 \<longleftrightarrow>
      (\<exists>x \<in> set ?xs. \<exists>d. inside_of ?ly x = Some d \<and> de_tag d = t \<and> x \<noteq> de_off d \<and> x \<noteq> de_off d + 1)"
    using body_counted [of "touch_table ?ly" t no_touch "inside_of ?ly" ?xs] by (auto simp: touches_of_def no_touch_def)
  have "(\<exists>d. inside_of ?ly x = Some d \<and> de_tag d = t \<and> x \<noteq> de_off d \<and> x \<noteq> de_off d + 1)
      \<longleftrightarrow> de_off (tag_descriptor t) + 2 \<le> x \<and> x < de_off (tag_descriptor t) + 6" (is "?L \<longleftrightarrow> ?R") for x
  proof
    assume ?L
    then obtain d where d: "inside_of ?ly x = Some d" "de_tag d = t" "x \<noteq> de_off d" "x \<noteq> de_off d + 1" by blast
    from inside_ofD [OF d(1)] d(2) assms have "d = tag_descriptor t"
      by (auto simp: probeLoop_layout private_tags_all) (auto simp: tag_descriptor_def)
    then show ?R using inside_ofD [OF d(1)] d(3,4) by (auto simp: tag_descriptor_def)
  next
    assume ?R
    then show ?L using inside_part [OF apart_probeLoop t, of x] by (auto simp: tag_descriptor_def)
  qed
  then show ?thesis using b by (simp only: offsets_read_concat)
qed

lemma probe_tags_all: "probe_tags = private_tags"
  by (simp add: probe_tags_def probeLoop_layout filter_map o_def tag_descriptor_def)

lemma some_between: "0 < length (filter (\<lambda>k. k \<in> S) [a..b]) \<longleftrightarrow> (\<exists>x \<in> S. a \<le> x \<and> x \<le> b)" for a b :: int
  by (auto simp: filter_empty_conv)

text \<open>
  What the report says of the tags.  A private tag is listed if and only if a byte of its body was read, and the
  loop is said to have been walked if and only if a byte of the body of each control was.  Who read it does not
  matter: offsets count from the start of the descriptors, the first control has the first thirteen bytes, each
  tag six and the last control five.
\<close>

theorem descriptors_exact:
  fixes st :: started and lg :: read_log and after :: "int \<times> int"
  defines "co \<equiv> collected_of st lg after"
    and "R \<equiv> set (offsets_read (addr_of (st_at st) + st_DESC_AT st) 786 (rl_all lg))"
  shows "co_tagsWithBodyRead co = map (\<lambda>t. ''0x'' @ hex_string t)
      (filter (\<lambda>t. \<exists>x \<in> R. 13 + 6 * (t - 0x80) + 2 \<le> x \<and> x < 13 + 6 * (t - 0x80) + 6) private_tags)"
    and "co_walkedWholeLoop co \<longleftrightarrow> (\<exists>x \<in> R. 2 \<le> x \<and> x \<le> 12) \<and> (\<exists>x \<in> R. 783 \<le> x \<and> x \<le> 785)"
proof -
  have "filter (\<lambda>t. tc_body (touches_of (desc_touches lo (rl_all lg)) t) > 0) private_tags
      = filter (\<lambda>t. \<exists>x \<in> set (offsets_read lo 786 (rl_all lg)). 13 + 6 * (t - 0x80) + 2 \<le> x \<and> x < 13 + 6 * (t - 0x80) + 6) private_tags"
    for lo by (rule filter_cong) (simp_all add: body_touched tag_descriptor_def private_tags_all)
  then show "co_tagsWithBodyRead co = map (\<lambda>t. ''0x'' @ hex_string t)
      (filter (\<lambda>t. \<exists>x \<in> R. 13 + 6 * (t - 0x80) + 2 \<le> x \<and> x < 13 + 6 * (t - 0x80) + 6) private_tags)"
    by (simp add: co_def R_def collected_of_def Let_def body_read_def probe_tags_all)
  have cs: "desc_controls lo seen = [control_of lo seen (\<lparr>de_off = 0, de_len = 13, de_tag = 0x43\<rparr>, ''control-first''),
      control_of lo seen (\<lparr>de_off = 781, de_len = 5, de_tag = 0x41\<rparr>, ''control-last'')]" for lo seen
    by (simp add: desc_controls_def probeLoop_layout filter_map o_def)
  show "co_walkedWholeLoop co \<longleftrightarrow> (\<exists>x \<in> R. 2 \<le> x \<and> x \<le> 12) \<and> (\<exists>x \<in> R. 783 \<le> x \<and> x \<le> 785)"
    by (simp add: co_def R_def collected_of_def Let_def cs walked_whole_def control_of_def some_between probeLoop_layout(2)
        del: length_greater_0_conv upto_rec_numeral)
qed

text \<open>
  A copier that reads every byte of the loop makes the report say that the loop was walked and every tag's body
  read, although the copier is listed among the bulk copiers and nobody else looked.
\<close>

lemma copier_reads_every_body:
  assumes "set (offsets_read (addr_of (st_at st) + st_DESC_AT st) 786 (rl_all lg)) = {0..785}"
  shows "co_walkedWholeLoop (collected_of st lg after)"
    and "co_tagsWithBodyRead (collected_of st lg after) = map (\<lambda>t. ''0x'' @ hex_string t) private_tags"
proof -
  show "co_walkedWholeLoop (collected_of st lg after)"
    unfolding descriptors_exact(2) assms by (intro conjI bexI [of _ 2] bexI [of _ 783]) simp_all
  have "\<exists>x \<in> {0..785}. 13 + 6 * (t - 0x80) + 2 \<le> x \<and> x < 13 + 6 * (t - 0x80) + 6" if "t \<in> set private_tags" for t :: int
    using that by (intro bexI [of _ "13 + 6 * (t - 0x80) + 2"]) (simp_all add: private_tags_all)
  then have f: "filter (\<lambda>t. \<exists>x \<in> {0..785}. 13 + 6 * (t - 0x80) + 2 \<le> x \<and> x < 13 + 6 * (t - 0x80) + 6) private_tags = private_tags"
    by (simp only: filter_id_conv) blast
  show "co_tagsWithBodyRead (collected_of st lg after) = map (\<lambda>t. ''0x'' @ hex_string t) private_tags"
    unfolding descriptors_exact(1) assms f ..
qed

end
