(* ===== verification/Probe_Bat_Walk_Facts.thy ===== *)
theory Probe_Bat_Walk_Facts
  imports Probe_B1 Probe_Descriptors_Facts
begin

text \<open>What the sweep over the tags of a BAT reports, what its control shows, and what a 0xB1 byte is called.\<close>

section \<open>The sweep\<close>

lemma touch_table_keys: "set (map fst (touch_table layout)) = de_tag ` set layout" "distinct (map fst (touch_table layout))"
proof (induction layout rule: rev_induct)
  case (snoc d layout)
  have s: "touch_table (layout @ [d]) = AList.update (de_tag d) no_touch (touch_table layout)" by (simp add: touch_table_def)
  {
    case 1
    show ?case using snoc.IH(1) by (simp add: s dom_update)
  next
    case 2
    show ?case using snoc.IH(2) by (simp add: s distinct_update)
  }
qed (simp_all add: touch_table_def)

lemma attribute_keys: "map fst (foldl (attribute place) tb xs) = map fst tb"
proof -
  have e: "map fst (AList.map_entry k f al) = map fst al" for k f and al :: "(int \<times> touches) list"
    by (induction al) auto
  have "map fst (attribute place tb x) = map fst tb" for tb x by (simp add: attribute_def e split: option.split)
  then show ?thesis by (induction xs arbitrary: tb) simp_all
qed

lemma apart_bat_loop: "apart (bat_loop lo hi)"
  unfolding bat_loop_def by (rule apart_parts)

text \<open>
  The tags listed are, in ascending order and each once, exactly those of the descriptors of which a byte of the body
  was read, whoever read it.
\<close>

theorem walk_tags_exact:
  fixes lo hi :: int
  defines "acc \<equiv> bat_loop lo hi" and "layout \<equiv> map fst (snd (bat_loop lo hi))"
  shows "\<exists>ts. bw_tagsWithBodyRead (bat_walk_of (fst acc) layout loopAt lg) = map (\<lambda>t. ''0x'' @ hex_string t) ts \<and>
    sorted ts \<and> distinct ts \<and>
    set ts = {de_tag d | d x. d \<in> set layout \<and> x \<in> set (offsets_read loopAt (int (length (fst acc))) lg) \<and>
                              de_off d + 2 \<le> x \<and> x < de_off d + de_len d}"
proof -
  let ?n = "int (length (fst acc))"
  let ?xs = "concat (map (touched loopAt ?n) lg)"
  let ?raw = "attribute_reads (inside_of layout) loopAt ?n lg (touch_table layout)"
  let ?tb = "sort_key fst ?raw"
  let ?ts = "counted_tags tc_body ?tb"
  have tb0: "?raw = foldl (attribute (inside_of layout)) (touch_table layout) ?xs"
    by (simp add: attribute_reads_def foldl_concat_map)
  have keys: "map fst ?raw = map fst (touch_table layout)" by (simp only: tb0 attribute_keys)
  have dist: "distinct (map fst ?raw)" unfolding keys by (rule touch_table_keys)
  have "mset (map fst ?tb) = mset (map fst ?raw)" by simp
  with dist have d: "distinct (map fst ?tb)" using mset_eq_imp_distinct_iff by blast
  have "sorted (map fst ?tb)" by (rule sorted_sort_key)
  then have ts: "sorted ?ts" "distinct ?ts"
    using d unfolding counted_tags_def by - (erule sorted_filter, erule distinct_map_filter)
  have "set ?ts = {t. \<exists>c. map_of ?raw t = Some c \<and> tc_body c > 0}"
    using dist by (force simp: counted_tags_def)
  also have "\<dots> = {t. t \<in> de_tag ` set layout \<and>
      (\<exists>x \<in> set ?xs. \<exists>d. inside_of layout x = Some d \<and> de_tag d = t \<and> x \<noteq> de_off d \<and> x \<noteq> de_off d + 1)}"
  proof (rule Collect_cong)
    fix t
    show "(\<exists>c. map_of ?raw t = Some c \<and> tc_body c > 0) \<longleftrightarrow> t \<in> de_tag ` set layout \<and>
      (\<exists>x \<in> set ?xs. \<exists>d. inside_of layout x = Some d \<and> de_tag d = t \<and> x \<noteq> de_off d \<and> x \<noteq> de_off d + 1)"
    proof (cases "t \<in> de_tag ` set layout")
      case True
      have z: "tc_body no_touch = 0" by (simp add: no_touch_def)
      obtain c where "map_of ?raw t = Some c" "tc_body c > 0 \<longleftrightarrow>
          (\<exists>x \<in> set ?xs. \<exists>d. inside_of layout x = Some d \<and> de_tag d = t \<and> x \<noteq> de_off d \<and> x \<noteq> de_off d + 1)"
        using body_counted [OF touch_table_at [OF True], of "inside_of layout" ?xs] unfolding tb0 z by auto
      then show ?thesis using True by simp
    next
      case False
      then have "t \<notin> fst ` set ?raw" using keys touch_table_keys(1) [of layout] by (metis list.set_map)
      then have "map_of ?raw t = None" by (simp only: map_of_eq_None_iff not_False_eq_True)
      then show ?thesis using False by simp
    qed
  qed
  also have "\<dots> = {de_tag d | d x. d \<in> set layout \<and> x \<in> set ?xs \<and> de_off d + 2 \<le> x \<and> x < de_off d + de_len d}" (is "?L = ?R")
  proof
    show "?L \<subseteq> ?R"
    proof
      fix t assume "t \<in> ?L"
      then obtain d x where x: "x \<in> set ?xs" "inside_of layout x = Some d" "de_tag d = t" "x \<noteq> de_off d" "x \<noteq> de_off d + 1" by blast
      with inside_ofD [OF x(2)] have "d \<in> set layout" "de_off d + 2 \<le> x" "x < de_off d + de_len d" by linarith+
      then show "t \<in> ?R" using x(1,3) by blast
    qed
    show "?R \<subseteq> ?L"
    proof
      fix t assume "t \<in> ?R"
      then obtain d x where x: "t = de_tag d" "d \<in> set layout" "x \<in> set ?xs" "de_off d + 2 \<le> x" "x < de_off d + de_len d" by blast
      then have "inside_of layout x = Some d" using inside_part [OF apart_bat_loop, of d lo hi x] by (simp add: layout_def)
      then show "t \<in> ?L" using x by force
    qed
  qed
  finally show ?thesis using ts
    by (intro exI [of _ ?ts]) (simp add: bat_walk_of_def Let_def offsets_read_concat)
qed

text \<open>Nobody read anything: the answer is that every tag was walked and skipped, and the control holds.\<close>

lemma unread_loop_counts_as_walked:
  "bw_answer (bat_walk_of descs layout loopAt []) = WALK_SKIPPED"
  "bw_readers (bat_walk_of descs layout loopAt []) = []"
  "wk_walk p = Some (bat_walk_of descs layout loopAt []) \<Longrightarrow> control_held p"
  by (simp_all add: bat_walk_of_def Let_def cover_def readers_of_def control_held_def WALK_SKIPPED_def)

section \<open>The bytes of a 0xB1\<close>

text \<open>The entry bytes are distinct, and no other byte of the loop is one of them.\<close>

lemma entry_bytes_identify:
  "distinct (entry_bytes 3)"
  "list_all (\<lambda>x. x \<notin> set (entry_bytes 3))
     ([0x5F, 4] @ u32b 2 @ [0xB1, 29] @ u16 0xFFFF @ u16 0x1234 @ INERT_MARK @ [0x41, 3] @ u16 0x0064 @ [0x01])"
  by code_simp+

lemma entry_loop_shape:
  "entry_loop spec header n = (let b = entry_body header n in
     ([0x5F, 4] @ u32b spec @ [0xB1, int (length b)] @ b @ INERT_MARK @ [0x41, 3] @ u16 0x0064 @ [0x01],
      [(\<lparr>de_off = 0, de_len = 6, de_tag = 0x5F\<rparr>, ''specifier''), (\<lparr>de_off = 6, de_len = int (length b) + 2, de_tag = 0xB1\<rparr>, ''b1''),
       (\<lparr>de_off = int (length b) + 8, de_len = 6, de_tag = 0xFE\<rparr>, ''marker''),
       (\<lparr>de_off = int (length b) + 14, de_len = 5, de_tag = 0x41\<rparr>, ''control-last'')]))"
  by (simp add: entry_loop_def Let_def add_desc_pair u32b_def u16_def INERT_MARK_def)

text \<open>
  The order of reads names the right bytes.  Each of the bytes at offset 4 on of the 0xB1 with three entries is printed
  with the number of its entry, its number in it, and the byte that entry has there.
\<close>

theorem entry_places_right:
  assumes "4 \<le> x" "x < 31"
  shows "fst (entry_loop spec header 3) ! nat (de_off (part_of_loop ''b1'' (snd (entry_loop spec header 3))) + x)
      = entryByte ((x - 4) div 9) ((x - 4) mod 9)"
    and "place_text x = ''entry'' @ dec_string ((x - 4) div 9) @ ''.byte'' @ dec_string ((x - 4) mod 9)"
proof -
  have b: "length (u16 header) = 2" "length (u32b spec) = 4" by (simp_all add: u16_def u32b_def)
  have ls: "list_all (\<lambda>k. entry_bytes 3 ! k = entryByte (int k div 9) (int k mod 9)) [0..<27]" by code_simp
  define k where "k = nat (x - 4)"
  have k: "k < 27" "x = int k + 4" using assms by (simp_all add: k_def)
  have e: "entry_bytes 3 ! k = entryByte (int k div 9) (int k mod 9)" using ls k(1) by (auto simp: list_all_iff simp del: upt_rec_numeral)
  have n: "nat (6 + x) = 10 + k" and y: "x - 4 = int k" using k by simp_all
  have len: "length (entry_bytes 3) = 27" by code_simp
  have "([0x5F, 4] @ u32b spec @ [0xB1, m] @ u16 header @ entry_bytes 3 @ r) ! (10 + k) = entry_bytes 3 ! k" for m r
    using k(1) by (simp add: nth_append b len)
  then show "fst (entry_loop spec header 3) ! nat (de_off (part_of_loop ''b1'' (snd (entry_loop spec header 3))) + x)
      = entryByte ((x - 4) div 9) ((x - 4) mod 9)"
    using e unfolding y by (simp add: entry_loop_shape part_of_loop_def entry_body_def Let_def n del: append_Cons)
  show "place_text x = ''entry'' @ dec_string ((x - 4) div 9) @ ''.byte'' @ dec_string ((x - 4) mod 9)"
    using assms by (simp add: place_text_def)
qed

end
