(* ===== verification/Probe_After_Copy_Facts.thy ===== *)
theory Probe_After_Copy_Facts
  imports Probe_After_Copy Probe_Bat_Walk_Facts
begin

text \<open>Which tags a parser is said to have read, and two ways in which the copy that is mapped is the wrong one.\<close>

lemma parser_offsets_set:
  "x \<in> set (parser_offsets n (cover loopAt len lg)) \<longleftrightarrow>
     (\<exists>pc. x \<in> bytes_of loopAt len lg pc \<and> cg_tenths (coverage_in n (pc, int (card (bytes_of loopAt len lg pc)))) < 800)"
proof -
  let ?cv = "cover loopAt len lg"
  note ok = cover_ok [of loopAt len lg]
  have d: "distinct (map fst ?cv)" using ok by (simp add: table_ok_def)
  have m: "(pc, s) \<in> set ?cv \<longleftrightarrow> map_of ?cv pc = Some s" for pc s using d by (simp add: map_of_eq_Some_iff)
  have row: "set s = bytes_of loopAt len lg pc \<and> length s = card (bytes_of loopAt len lg pc)" if "map_of ?cv pc = Some s" for pc s
    using table_okD(2) [OF ok that] distinct_card [of s] by auto
  have rev: "\<exists>s. map_of ?cv pc = Some s" if "x \<in> bytes_of loopAt len lg pc" for pc
    using table_okD(1) [OF ok, of pc] that by (cases "map_of ?cv pc") auto
  have "x \<in> set (parser_offsets n ?cv) \<longleftrightarrow> (\<exists>pc s. map_of ?cv pc = Some s \<and> x \<in> set s \<and> cg_tenths (coverage_in n (pc, int (length s))) < 800)"
    unfolding parser_offsets_def m [symmetric] by force
  also have "\<dots> \<longleftrightarrow> (\<exists>pc. x \<in> bytes_of loopAt len lg pc \<and> cg_tenths (coverage_in n (pc, int (card (bytes_of loopAt len lg pc)))) < 800)"
  proof
    assume "\<exists>pc s. map_of ?cv pc = Some s \<and> x \<in> set s \<and> cg_tenths (coverage_in n (pc, int (length s))) < 800"
    then obtain pc s where s: "map_of ?cv pc = Some s" "x \<in> set s" "cg_tenths (coverage_in n (pc, int (length s))) < 800" by blast
    then show "\<exists>pc. x \<in> bytes_of loopAt len lg pc \<and> cg_tenths (coverage_in n (pc, int (card (bytes_of loopAt len lg pc)))) < 800"
      using row [OF s(1)] by (intro exI [of _ pc]) simp
  next
    assume "\<exists>pc. x \<in> bytes_of loopAt len lg pc \<and> cg_tenths (coverage_in n (pc, int (card (bytes_of loopAt len lg pc)))) < 800"
    then obtain pc where pc: "x \<in> bytes_of loopAt len lg pc"
        "cg_tenths (coverage_in n (pc, int (card (bytes_of loopAt len lg pc)))) < 800" by blast
    from rev [OF pc(1)] obtain s where s: "map_of ?cv pc = Some s" by blast
    then show "\<exists>pc s. map_of ?cv pc = Some s \<and> x \<in> set s \<and> cg_tenths (coverage_in n (pc, int (length s))) < 800"
      using row [OF s] pc by (intro exI [of _ pc] exI [of _ s]) simp
  qed
  finally show ?thesis .
qed

text \<open>
  A tag is listed if and only if a byte of its body was read by somebody whose share of the whole section stays below
  four fifths: the copier of the whole section does not count, unlike in \<open>Probe_Descriptors\<close>.
\<close>

theorem parsed_tags_exact:
  "rw_tagsWhoseBodyAParserRead (region_walk_of loopAt lg) = map (\<lambda>t. ''0x'' @ hex_string t)
     (filter (\<lambda>t. \<exists>pc. \<exists>x \<in> bytes_of loopAt 786 lg pc. 13 + 6 * (t - 0x80) + 2 \<le> x \<and> x < 13 + 6 * (t - 0x80) + 6 \<and>
        (2000 * int (card (bytes_of loopAt 786 lg pc)) + 786) div 1572 < 800) private_tags)"
proof -
  let ?p = "parser_offsets 786 (cover loopAt 786 lg)"
  have e: "list_ex (\<lambda>k. k \<in> S) [a..b] \<longleftrightarrow> (\<exists>x \<in> S. a \<le> x \<and> x \<le> b)" for S and a b :: int
    by (auto simp: list_ex_iff)
  have "parsed_tags ?p = filter (\<lambda>t. \<exists>x \<in> set ?p. 13 + 6 * (t - 0x80) + 2 \<le> x \<and> x < 13 + 6 * (t - 0x80) + 6) private_tags"
    by (simp add: parsed_tags_def probeLoop_layout filter_map o_def tag_descriptor_def e)
  also have "\<dots> = filter (\<lambda>t. \<exists>pc. \<exists>x \<in> bytes_of loopAt 786 lg pc. 13 + 6 * (t - 0x80) + 2 \<le> x \<and> x < 13 + 6 * (t - 0x80) + 6 \<and>
        (2000 * int (card (bytes_of loopAt 786 lg pc)) + 786) div 1572 < 800) private_tags"
    by (rule filter_cong) (auto simp: Bex_def parser_offsets_set coverage_in_def)
  finally show ?thesis by (simp add: region_walk_of_def Let_def probeLoop_layout(2))
qed

section \<open>The wrong copy\<close>

text \<open>
  The copy that is mapped is the first one found in the region, not the one this push added: with the addresses of the
  probe's own note, the stale copy of an earlier push.
\<close>

lemma stale_copy_is_mapped:
  "hd (landed_of [] (phys 0x8019A49A) [''0x8019A49A'', ''0x8019A7C7'']) = ''0x8019A49A''"
  by code_simp

text \<open>Copies up to sixteen kilobytes apart share a region, but only eight on either side of the first are watched.\<close>

lemma region_not_watched:
  "length (regions_of [''0x802A7000'', ''0x802AA000'']) = 1"
  "landed_of [] (fst (hd (regions_of [''0x802A7000'', ''0x802AA000'']))) [''0x802AA000''] = []"
  by code_simp+

text \<open>Every copy is in the region that is reported with it.\<close>

lemma join_region_all:
  "concat (map snd (join_region a rs)) \<noteq> [] \<and> set (concat (map snd (join_region a rs))) = insert a (set (concat (map snd rs)))"
  by (induction a rs rule: join_region.induct) auto

lemma regions_hold_all: "set (concat (map snd (regions_of as))) = set as"
proof (induction as rule: rev_induct)
  case (snoc a as)
  have "regions_of (as @ [a]) = join_region a (regions_of as)" by (simp add: regions_of_def)
  then show ?case using join_region_all [of a "regions_of as"] snoc.IH by simp
qed (simp add: regions_of_def)

end
