(* ===== verification/Probe_Real_Titles.thy ===== *)
theory Probe_Real_Titles
  imports Probe_Payload
begin

text \<open>
  Three probes that ask whether the box takes a section of title records where it takes one of self-naming bytes:
  \<open>tools/probes/real-title-section-minimal-diff.js\<close>, \<open>tools/probes/real-title-section-vs-junk.js\<close> and
  \<open>tools/probes/feed-a-real-title-section.js\<close>.  All three carry the same six records; the settling, the line-up and
  the presses are those of \<open>Probe_Titles\<close>.
\<close>

section \<open>The records\<close>

definition RECORDS_SIX :: "int list" where
  "RECORDS_SIX = [1,1,240,36,181,30,126,144,3,132,0,0,0,58,9,42,35,87,24,101,122,10,158,245,113,130,148,117,113,134,86,174,48,254,0,128,
     1,2,240,25,181,19,130,20,3,132,0,0,0,42,227,0,90,184,195,43,87,24,127,0,64,
     1,3,240,31,181,25,133,152,7,8,0,0,0,42,227,1,90,184,195,43,87,24,2,85,198,25,90,184,192,52,64,
     1,4,240,23,181,17,140,160,7,8,0,0,0,16,207,87,24,101,106,227,0,177,0,
     1,5,240,25,181,19,147,168,14,16,0,0,0,42,159,45,105,125,92,97,149,170,45,43,16,
     1,6,240,24,181,18,161,184,3,132,0,0,0,32,230,171,140,50,181,113,135,240,4,0]"

section \<open>With one difference\<close>

definition real_payload :: "bool \<Rightarrow> int list" where
  "real_payload sig = (if sig then SIGNATURE else [0x40, 0x41]) @ RECORDS_SIX"

definition real_section :: "int \<Rightarrow> int \<Rightarrow> bool \<Rightarrow> int list" where
  "real_section version ext sig =
     (let p = real_payload sig; len = 5 + int (length p) + 4
      in with_crc (long_header 0xA1 len ext version @ p))"

definition push_real :: "('w, 'z) titles_api_scheme \<Rightarrow> int \<Rightarrow> int \<Rightarrow> bool \<Rightarrow> (('w, 'y) day_scheme, pushed_at) act" where
  "push_real G pid ext sig =
     seq (doing (\<lambda>s. s\<lparr>dy_a1 := next_version (dy_a1 s)\<rparr>)) (\<lambda>_.
     seq (reading (\<lambda>s. real_section (dy_a1 s) ext sig)) (\<lambda>sec.
     push_section G pid sec))"

definition minimal_run :: "('w, 'z) titles_api_scheme \<Rightarrow> ('w titles, titles_lineup \<times> titles_passes \<times> string) act" where
  "minimal_run G =
     seq (titles_setup G) (\<lambda>li.
     seq (require (real_payload True ! 3 AND 0x70 = 0)
       (''payload[3] & 0x70 is not zero, so the match unit will refuse every section and ''
        @ ''every silence below would be about the filter rather than the format'')) (\<lambda>_.
     seq (passes_over G (int (length (real_payload True))) (take 8 (drop 8 (real_payload False))) (push_real G) (tl_newFilters li)) (\<lambda>q.
     give (li, q, payload_note q))))"

section \<open>Against self-naming bytes\<close>

text \<open>\<open>parseInt\<close> of the two bytes the unit matches; what is missing or not a number is 0.\<close>

definition filter_byte :: "string list option \<Rightarrow> nat \<Rightarrow> int" where
  "filter_byte bs k =
     (case bs of None \<Rightarrow> 0
      | Some l \<Rightarrow> if k < length l then (case parse_int 16 (l ! k) of None \<Rightarrow> 0 | Some v \<Rightarrow> v AND 0xFF) else 0)"

definition sectionWith :: "int \<times> int \<Rightarrow> int \<Rightarrow> int \<Rightarrow> int list \<Rightarrow> int list" where
  "sectionWith f version ext payloadTail =
     (let p = [fst f, snd f] @ payloadTail; len = 5 + int (length p) + 4
      in with_crc (long_header 0xA1 len ext version @ p))"

definition push_tail ::
  "('w, 'z) titles_api_scheme \<Rightarrow> int \<times> int \<Rightarrow> int \<Rightarrow> int list \<Rightarrow> (('w, 'y) day_scheme, pushed_at) act" where
  "push_tail G f ext payloadTail =
     seq (doing (\<lambda>s. s\<lparr>dy_a1 := next_version (dy_a1 s)\<rparr>)) (\<lambda>_.
     seq (reading (\<lambda>s. sectionWith f (dy_a1 s) ext payloadTail)) (\<lambda>sec.
     push_section G 0x33 sec))"

definition JUNK :: "int list" where
  "JUNK = (map (\<lambda>k. (0x40 + k) AND 0xFF) [2..95])[1 := 0x0B]"

record junk_pass =
  jp_pass :: string
  jp_extension :: string
  jp_tailBytes :: int
  jp_error :: "string option"
  jp_copiesFound :: "string list option"
  jp_parseBufferCopy :: "string option"
  jp_watching :: "string option"
  jp_readers :: "(string \<times> int) list"
  jp_offsetsRead :: "int list option"
  jp_parsed :: bool
  jp_answer :: "string option"

definition start_junk :: "string \<Rightarrow> int \<Rightarrow> int list \<Rightarrow> junk_pass" where
  "start_junk name ext payloadTail = \<lparr>jp_pass = name, jp_extension = hx ext, jp_tailBytes = int (length payloadTail),
     jp_error = None, jp_copiesFound = None, jp_parseBufferCopy = None, jp_watching = None, jp_readers = [],
     jp_offsetsRead = None, jp_parsed = False, jp_answer = None\<rparr>"

definition junk_read :: "junk_pass \<Rightarrow> int \<Rightarrow> int \<Rightarrow> read_entry list \<Rightarrow> junk_pass" where
  "junk_read r start len lg =
     (let readers = take 10 (readers_of (cover start len lg))
      in r\<lparr>jp_readers := readers, jp_offsetsRead := Some (offsets_read start len lg), jp_parsed := (readers \<noteq> []),
           jp_answer := Some (if readers \<noteq> [] then ''parsed by '' @ join_with '', '' (map fst readers) else ''copied and NOT parsed'')\<rparr>)"

definition junk_watched ::
  "('w, 'z) titles_api_scheme \<Rightarrow> int \<times> int \<Rightarrow> int \<Rightarrow> int list \<Rightarrow> int list \<Rightarrow> junk_pass \<Rightarrow> int
    \<Rightarrow> (('w, 'y) day_scheme, junk_pass) act" where
  "junk_watched G f ext payloadTail mark r mid =
     seq (under_watch G mid (push_tail G f ext payloadTail)) (\<lambda>(p1, got).
     case got of
       None \<Rightarrow> give (r\<lparr>jp_error := Some ''second push refused''\<rparr>)
     | Some lg \<Rightarrow>
         seq (reading (\<lambda>s. t_find G (dy_page s) mark (to_u32 (mid - 0x2000)) (to_u32 (mid + 0x2000)) 8)) (\<lambda>again.
         give (case again of
             [] \<Rightarrow> r\<lparr>jp_error := Some ''marker gone from the watched region''\<rparr>
           | a # _ \<Rightarrow> junk_read r (addr_of a) (int (length payloadTail)) (rl_all lg))))"

definition deep_copies :: "string list \<Rightarrow> string list" where
  "deep_copies found = filter (\<lambda>a. addr_of a \<ge> 0x80200000) found"

definition junk_pass_of ::
  "('w, 'z) titles_api_scheme \<Rightarrow> int \<times> int \<Rightarrow> string \<Rightarrow> int \<Rightarrow> int list \<Rightarrow> (('w, 'y) day_scheme, junk_pass) act" where
  "junk_pass_of G f name ext payloadTail =
     (let r = start_junk name ext payloadTail; mark = take 8 payloadTail in
      seq (push_tail G f ext payloadTail) (\<lambda>p0.
      if \<not> pr_ok p0 then give (r\<lparr>jp_error := Some (''push refused: '' @ pr_why p0)\<rparr>)
      else seq (pausing G 8000) (\<lambda>_.
      seq (reading (\<lambda>s. outside_ring 4096 (pu_at p0) (t_find G (dy_page s) mark 0x80000000 0x82000000 24))) (\<lambda>found.
      let r' = r\<lparr>jp_copiesFound := Some found, jp_parseBufferCopy := find (\<lambda>_. True) (deep_copies found)\<rparr> in
      if found = [] then give (r'\<lparr>jp_answer := Some ''delivered and never copied''\<rparr>)
      else let mid = addr_of (choose_copy found) in
           junk_watched G f ext payloadTail mark (r'\<lparr>jp_watching := Some (h8 mid)\<rparr>) mid))))"

text \<open>The wait for the rebuild, with the writes of every three seconds and the count of quiet readings.\<close>

fun quiet_counted ::
  "('w, 'z) day_api_scheme \<Rightarrow> nat \<Rightarrow> int \<Rightarrow> int \<Rightarrow> int list \<Rightarrow> (('w, 'y) day_scheme, int \<times> int list) act" where
  "quiet_counted G 0 lastW still eeq = give (still, eeq)"
| "quiet_counted G (Suc n) lastW still eeq =
     (if still \<ge> 3 then give (still, eeq)
      else seq (pausing G 3000) (\<lambda>_.
           seq (reading (\<lambda>s. d_eepromWrites G (dy_page s))) (\<lambda>nowW.
           quiet_counted G n nowW (if nowW = lastW then still + 1 else 0) (eeq @ [nowW - lastW]))))"

record rebuild =
  rb_seconds :: int
  rb_writes :: "int list"
  rb_settled :: bool

definition await_rebuild :: "('w, 'z) day_api_scheme \<Rightarrow> (('w, 'y) day_scheme, rebuild) act" where
  "await_rebuild G =
     seq (reading (\<lambda>s. d_eepromWrites G (dy_page s))) (\<lambda>w0.
     seq (quiet_counted G 90 w0 0 []) (\<lambda>(still, eeq).
     let secs = 3 * int (length eeq) in
     seq (require (still \<ge> 3)
       (''the NVRAM rebuild never went quiet in '' @ dec_string secs @ ''s -- pushing now would be ''
        @ ''pushing at a box that is still busy, and a silence would not be attributable'')) (\<lambda>_.
     give \<lparr>rb_seconds = secs, rb_writes = drop (length eeq - 12) eeq, rb_settled = (still \<ge> 3)\<rparr>)))"

record junk_report =
  jr_settledAfterSeconds :: int
  jr_before :: subscriptions
  jr_rebuild :: rebuild
  jr_afterLineup :: string
  jr_unit :: "string \<times> string \<times> string list option"
  jr_A :: junk_pass
  jr_B :: junk_pass
  jr_C :: junk_pass
  jr_controlHeld :: bool
  jr_realParsed :: bool
  jr_tasksAtEnd :: int
  jr_headline :: string

definition json_offsets :: "int list option \<Rightarrow> string" where
  "json_offsets l = (case l of None \<Rightarrow> ''undefined'' | Some xs \<Rightarrow> ''['' @ join_with '','' (map dec_string xs) @ '']'')"

definition junk_headline :: "junk_pass \<Rightarrow> junk_pass \<Rightarrow> junk_pass \<Rightarrow> string" where
  "junk_headline a b c =
     (if \<not> jp_parsed a
      then ''THE CONTROL DID NOT PARSE -- this run is not in the state the harness was built on, so B and C ''
        @ ''say nothing. Nothing below is attributable.''
      else if jp_parsed b \<or> jp_parsed c
      then ''A REAL TITLE SECTION PARSES. Offsets read: B '' @ json_offsets (jp_offsetsRead b)
        @ ''  C '' @ json_offsets (jp_offsetsRead c)
      else ''the control parsed and the real title section did NOT -- so the box rejects it on its ''
        @ ''CONTENT, and the difference between the two payloads is the next subject'')"

definition junk_run :: "('w, 'z) titles_api_scheme \<Rightarrow> ('w titles, junk_report) act" where
  "junk_run G =
     seq (titles_settle G) (\<lambda>waited.
     seq (subscribed G) (\<lambda>before.
     seq (titles_ladder G) (\<lambda>_.
     seq (each (titles_round G) [0, 1, 2]) (\<lambda>_.
     seq (await_rebuild G) (\<lambda>rb.
     seq (reading (\<lambda>s. tablesWanted G (dy_page s))) (\<lambda>ts.
     seq (reading (\<lambda>s. filter (\<lambda>x. mt_tableId x = Some 0xA1) (d_matches G (dy_page s)))) (\<lambda>units.
     case units of [] \<Rightarrow> throw ''the box did not subscribe to 0xA1 -- this run is of a different state''
     | u # _ \<Rightarrow>
       let f = (filter_byte (mt_bytes u) 6, filter_byte (mt_bytes u) 7);
           exact = to_u32 (or0 (mt_extension u)); masked = to_u32 (or0 (mt_extension u) AND or0 (mt_extensionMask u)) in
       seq (junk_pass_of G f ''A: the junk payload that is KNOWN to parse (the control)'' exact JUNK) (\<lambda>a.
       seq (junk_pass_of G f ''B: a real title section, extension masked down'' masked RECORDS_SIX) (\<lambda>b.
       seq (junk_pass_of G f ''C: the same records at the EXACT subscribed extension'' exact RECORDS_SIX) (\<lambda>c.
       seq (reading (\<lambda>s. g_tasks G (dy_page s))) (\<lambda>n.
       give \<lparr>jr_settledAfterSeconds = waited, jr_before = before, jr_rebuild = rb, jr_afterLineup = ts,
         jr_unit = (hx (or0 (mt_extension u)), hx (or0 (mt_extensionMask u)), mt_bytes u), jr_A = a, jr_B = b, jr_C = c,
         jr_controlHeld = jp_parsed a, jr_realParsed = (jp_parsed b \<or> jp_parsed c), jr_tasksAtEnd = n,
         jr_headline = junk_headline a b c\<rparr>)))))))))))"

section \<open>On a running carousel\<close>

fun await_unit :: "('w, 'z) day_api_scheme \<Rightarrow> nat \<Rightarrow> (('w, 'y) day_scheme, si_match option) act" where
  "await_unit G 0 = give None"
| "await_unit G (Suc n) =
     seq (reading (\<lambda>s. find (\<lambda>x. mt_tableId x = Some 0xA1 \<or> mt_tableId x = Some 0xA0) (d_matches G (dy_page s)))) (\<lambda>u.
     case u of Some x \<Rightarrow> give (Some x) | None \<Rightarrow> seq (pausing G 4000) (\<lambda>_. await_unit G n))"

record feed_watch =
  fw_copiesFound :: "string list"
  fw_error :: "string option"
  fw_readers :: "(string \<times> int) list"
  fw_offsetsRead :: "int list"
  fw_reachedTheText :: bool

text \<open>Here the answer to the second push is not looked at.\<close>

definition feed_watched :: "('w, 'z) titles_api_scheme \<Rightarrow> int \<times> int \<Rightarrow> int \<Rightarrow> string list \<Rightarrow> (('w, 'y) day_scheme, feed_watch) act" where
  "feed_watched G f channel found =
     (let r = \<lparr>fw_copiesFound = found, fw_error = None, fw_readers = [], fw_offsetsRead = [], fw_reachedTheText = False\<rparr> in
      if found = [] then give (r\<lparr>fw_error := Some ''the section was delivered and never copied out of the ring''\<rparr>)
      else let mid = addr_of (choose_copy found); len = int (length RECORDS_SIX) in
        seq (on_page (doing (t_watch G (to_u32 (mid - 0x2000)) (to_u32 (mid + 0x2000))))) (\<lambda>_.
        seq (push_tail G f channel RECORDS_SIX) (\<lambda>_.
        seq (pausing G 8000) (\<lambda>_.
        seq (reading (\<lambda>s. t_log G (dy_page s))) (\<lambda>lg.
        seq (on_page (doing (d_readUnwatch G))) (\<lambda>_.
        seq (reading (\<lambda>s. t_find G (dy_page s) (take 8 RECORDS_SIX) (to_u32 (mid - 0x2000)) (to_u32 (mid + 0x2000)) 8)) (\<lambda>again.
        give (case again of
            [] \<Rightarrow> r\<lparr>fw_error := Some ''the marker vanished from the watched region''\<rparr>
          | a # _ \<Rightarrow> let offs = offsets_read (addr_of a) len (rl_all lg)
                     in r\<lparr>fw_readers := take 12 (readers_of (cover (addr_of a) len (rl_all lg))), fw_offsetsRead := offs,
                          fw_reachedTheText := list_ex (\<lambda>x. x \<ge> 13 \<and> x < 36) offs\<rparr>))))))))"

definition feed_found :: "('w, 'z) titles_api_scheme \<Rightarrow> int \<times> int \<Rightarrow> int \<Rightarrow> (('w, 'y) day_scheme, string list) act" where
  "feed_found G f channel =
     seq (push_tail G f channel RECORDS_SIX) (\<lambda>first.
     seq (require (pr_ok first) (''the title section was REFUSED: '' @ pr_why first)) (\<lambda>_.
     seq (pausing G 8000) (\<lambda>_.
     reading (\<lambda>s. outside_ring 4096 (pu_at first) (t_find G (dy_page s) (take 8 RECORDS_SIX) 0x80000000 0x82000000 24)))))"

definition feed_again :: "('w, 'z) titles_api_scheme \<Rightarrow> int \<times> int \<Rightarrow> int \<Rightarrow> nat \<Rightarrow> (('w, 'y) day_scheme, unit) act" where
  "feed_again G f channel k = seq (push_tail G f channel RECORDS_SIX) (\<lambda>_. pausing G 4000)"

record real_report =
  re_settledAfterSeconds :: int
  re_unit :: "string \<times> string \<times> string list option"
  re_feeding :: "string \<times> string list"
  re_before :: title_press
  re_beforeGuide :: title_press
  re_watch :: feed_watch
  re_afterSky :: title_press
  re_afterGuide :: title_press
  re_tasksAtEnd :: int
  re_guideChanged :: bool
  re_headline :: string

definition drawn_text :: "title_press \<Rightarrow> string \<Rightarrow> string \<Rightarrow> string" where
  "drawn_text k w a = dec_string (tk_widgets k) @ w @ dec_string (tk_applies k) @ a @ dec_string (su_colours (tk_surface k))"

definition real_headline :: "bool \<Rightarrow> title_press \<Rightarrow> title_press \<Rightarrow> string" where
  "real_headline reached b a =
     (if reached then ''THE BOX READ INTO THE TITLE TEXT. '' else ''the box did not read past the record header. '')
     @ ''guide before: '' @ drawn_text b '' widgets / '' '' applies / '' @ '' colours; after: '' @ drawn_text a '' / '' '' / ''"

definition guide_changed :: "title_press \<Rightarrow> title_press \<Rightarrow> bool" where
  "guide_changed b a \<longleftrightarrow> su_colours (tk_surface a) \<noteq> su_colours (tk_surface b) \<or> tk_applies a \<noteq> tk_applies b"

definition real_unit :: "('w, 'z) titles_api_scheme \<Rightarrow> ('w titles, int \<times> si_match) act" where
  "real_unit G =
     seq (await_ready G 300 0) (\<lambda>waited.
     seq (reading (\<lambda>s. g_tasks G (dy_page s))) (\<lambda>n.
     seq (require (n \<ge> 42) (''not booted: '' @ dec_string n @ '' tasks'')) (\<lambda>_.
     seq (on_page (doing (g_profile G))) (\<lambda>_.
     seq (reading (\<lambda>s. d_carouselRunning G (dy_page s))) (\<lambda>running.
     seq (require running ''carousel not running -- use --carousel'') (\<lambda>_.
     seq (await_unit G 40) (\<lambda>u.
     case u of None \<Rightarrow> throw ''the box never subscribed to 0xA0/0xA1 -- nothing to feed''
     | Some x \<Rightarrow> give (waited, x))))))))"

definition real_run :: "('w, 'z) titles_api_scheme \<Rightarrow> ('w titles, real_report) act" where
  "real_run G =
     seq (real_unit G) (\<lambda>(waited, u).
     let f = (filter_byte (mt_bytes u) 6, filter_byte (mt_bytes u) 7);
         channel = to_u32 (or0 (mt_extension u) AND or0 (mt_extensionMask u)) in
     seq (titles_press G 0x7D ''sky, before the listings'') (\<lambda>k0.
     seq (titles_press G 0x80 ''tv guide, before the listings'') (\<lambda>k1.
     seq (feed_found G f channel) (\<lambda>found.
     seq (feed_watched G f channel found) (\<lambda>fw.
     seq (each (feed_again G f channel) [0..<4]) (\<lambda>_.
     seq (pausing G 8000) (\<lambda>_.
     seq (titles_press G 0x7D ''sky, after the listings'') (\<lambda>k2.
     seq (titles_press G 0x80 ''tv guide, after the listings'') (\<lambda>k3.
     seq (on_page (doing (g_shot G ''guide-with-listings''))) (\<lambda>_.
     seq (reading (\<lambda>s. g_tasks G (dy_page s))) (\<lambda>n.
     give \<lparr>re_settledAfterSeconds = waited, re_unit = (hx (or0 (mt_tableId u)), hx (or0 (mt_extension u)), mt_bytes u),
       re_feeding = (hx channel, [hx (fst f), hx (snd f)]), re_before = k0, re_beforeGuide = k1, re_watch = fw,
       re_afterSky = k2, re_afterGuide = k3, re_tasksAtEnd = n, re_guideChanged = guide_changed k1 k3,
       re_headline = real_headline (fw_reachedTheText fw) k1 k3\<rparr>)))))))))))"

end
