(* ===== verification/Probe_Real_Facts.thy ===== *)
theory Probe_Real_Facts
  imports Probe_Real_Titles
begin

text \<open>What the probes of \<open>Probe_Real_Titles\<close> can tell, and the records they send.\<close>

text \<open>
  The six records do not walk: every length counts the four bytes of its own header, so the walk leaves the records
  after the first one.  With four less in each they are six records of one title descriptor each.
\<close>

definition shorten :: "int list \<Rightarrow> int list" where
  "shorten ls = foldl (\<lambda>l k. l[k := l ! k - 4]) ls [3, 39, 64, 95, 118, 143]"

theorem RECORDS_SIX_desynchronise:
  "walk_records RECORDS_SIX = None"
  "map_option (\<lambda>rs. (map fst rs, list_all (\<lambda>(i, d). d ! 0 = 0xB5 \<and> d ! 1 = int (length d) - 2) rs))
     (walk_records (shorten RECORDS_SIX)) = Some ([0x101..0x106], True)"
  by code_simp+

text \<open>The byte the unit masks is the low byte of the first event id in both payloads, and passes.\<close>

lemma payloads_pass: "real_payload True ! 3 AND 0x70 = 0" "([0x9E, 0x8B] @ JUNK) ! 3 AND 0x70 = 0"
  by code_simp+

lemma cover_empty: "cover start len lg = [] \<longleftrightarrow> offsets_read start len lg = []"
proof
  assume c: "cover start len lg = []"
  have "bytes_of start len lg pc = {}" for pc
    using table_okD(1) [OF cover_ok, of start len lg pc] c by simp
  note none = this
  have "set (touched start len r) = {}" if "r \<in> set lg" for r
  proof -
    have "set (touched start len r) \<subseteq> bytes_of start len lg (rd_pc r)" using that by (auto simp: bytes_of_def)
    then show ?thesis by (simp add: none)
  qed
  then have "concat (map (touched start len) lg) = []" by simp
  then show "offsets_read start len lg = []" by (simp only: offsets_read_def remdups.simps(1) sort_key_simps(1))
next
  assume "offsets_read start len lg = []"
  then have "set (concat (map (touched start len) lg)) = {}" by (metis offsets_read_def set_remdups set_sort list.set(1))
  then have t: "touched start len r = []" if "r \<in> set lg" for r using that by auto
  have "foldl (\<lambda>cv r. foldl (cover_byte (rd_pc r)) cv (touched start len r)) cv rs = cv" if "set rs \<subseteq> set lg" for rs cv
    using that by (induction rs arbitrary: cv) (simp_all add: t)
  then show "cover start len lg = []" by (simp add: cover_def)
qed

text \<open>
  A pass is said to have parsed its payload if and only if any byte of it was read by anybody: a reader that copies the
  whole of it is a parser here, and so is the iterator.
\<close>

theorem parsed_is_read: "jp_parsed (junk_read r start len lg) \<longleftrightarrow> offsets_read start len lg \<noteq> []"
proof -
  have "readers_of (cover start len lg) = [] \<longleftrightarrow> cover start len lg = []"
    using readers_of_set [of "cover start len lg"] by (metis image_is_empty set_empty)
  then show ?thesis by (simp add: junk_read_def Let_def cover_empty)
qed

text \<open>The guide is said not to have changed when another picture has as many colours and was drawn with as many calls.\<close>

lemma other_picture_unchanged:
  "\<not> guide_changed
     \<lparr>tk_key = k, tk_widgets = 30, tk_applies = 40, tk_moved = True, tk_surface = \<lparr>su_hash = ''0x811C9DC5'', su_colours = 20\<rparr>\<rparr>
     \<lparr>tk_key = k, tk_widgets = 31, tk_applies = 40, tk_moved = True, tk_surface = \<lparr>su_hash = ''0x050C5D1F'', su_colours = 20\<rparr>\<rparr>"
  by (simp add: guide_changed_def)

end
