(* ===== verification/Probe_Scroll.thy ===== *)
theory Probe_Scroll
  imports Probe_Day_Feed "HOL-Library.AList"
begin

text \<open>
  \<open>tools/probes/scroll-the-whole-guide.js\<close>: the wait for a settled box on the air, the wait for its title
  PIDs and for the channel-list rebuild, the two presses that open the guide and the walk down the
  line-up, with the screens that were seen before.  A throw names its reason; the JSON dumps the probe
  appends to its texts are left out.
\<close>

section \<open>Waiting for the box\<close>

record 'w scroll_api = "'w day_api" +
  s_startedAt :: "'w \<Rightarrow> int option"

record state_entry =
  se_atSeconds :: int
  se_state :: string

definition boxState :: "('w, 'z) day_api_scheme \<Rightarrow> 'w \<Rightarrow> string" where
  "boxState G w = take 48 (d_boxstate G w)"

text \<open>\<open>n\<close> seconds of the 900 are left.\<close>

fun scroll_settle ::
  "('w, 'z) day_api_scheme \<Rightarrow> nat \<Rightarrow> int \<Rightarrow> string \<Rightarrow> state_entry list \<Rightarrow> ('w, int \<times> state_entry list) act" where
  "scroll_settle G 0 waited before entries = give (waited, entries)"
| "scroll_settle G (Suc n) waited before entries =
     seq (reading (boxState G)) (\<lambda>st.
     let entries' = (if st \<noteq> before then entries @ [\<lparr>se_atSeconds = waited, se_state = st\<rparr>] else entries) in
     if prefix ''Ready'' st \<and> waited \<ge> 30 then give (waited, entries')
     else seq (sleep G 1000) (\<lambda>_. scroll_settle G n (waited + 1) st entries'))"

definition title_pid :: "string \<Rightarrow> bool" where
  "title_pid p = (case parse_int 16 p of None \<Rightarrow> False | Some v \<Rightarrow> 0x30 \<le> v \<and> v \<le> 0x37)"

fun await_title :: "('w, 'z) day_api_scheme \<Rightarrow> nat \<Rightarrow> ('w, unit) act" where
  "await_title G 0 = give ()"
| "await_title G (Suc n) =
     seq (sleep G 5000) (\<lambda>_.
     seq (reading (\<lambda>w. list_ex title_pid (map sf_pid (armed G w)))) (\<lambda>ok.
     if ok then give () else await_title G n))"

fun rebuild ::
  "('w, 'z) day_api_scheme \<Rightarrow> nat \<Rightarrow> int \<Rightarrow> int \<Rightarrow> int \<Rightarrow> int \<Rightarrow> state_entry list \<Rightarrow> ('w, int \<times> state_entry list) act" where
  "rebuild G 0 waited secs lastW still entries = give (secs, entries)"
| "rebuild G (Suc n) waited secs lastW still entries =
     seq (sleep G 3000) (\<lambda>_.
     seq (reading (\<lambda>w. (d_eepromWrites G w, settled G w, boxState G w))) (\<lambda>(nw, ready, st).
     let secs' = secs + 3; still' = (if nw = lastW then still + 1 else 0) in
     if ready \<and> still' \<ge> 3 \<and> secs' \<ge> 30 then give (secs', entries)
     else rebuild G n waited secs' nw still'
            (if secs' mod 60 = 0 then entries @ [\<lparr>se_atSeconds = waited + secs', se_state = ''rebuild: '' @ st\<rparr>] else entries)))"

section \<open>The presses\<close>

definition SCROLL_TRACE :: "trace_point list" where
  "SCROLL_TRACE = [\<lparr>tp_pc = 0x80082A6C, tp_name = ''newWidget'', tp_args = 1\<rparr>]"

record pressed =
  sp_key :: string
  sp_widgets :: int
  sp_surface :: surf

definition scroll_press :: "('w, 'z) day_api_scheme \<Rightarrow> int \<Rightarrow> string \<Rightarrow> int option \<Rightarrow> ('w, pressed) act" where
  "scroll_press G raw label settleMs =
     seq (doing (d_traceCalls G SCROLL_TRACE)) (\<lambda>_.
     seq (doing (d_traceClear G)) (\<lambda>_.
     seq (press_key G raw 0) (\<lambda>_.
     seq (sleep G (case settleMs of None \<Rightarrow> 9000 | Some ms \<Rightarrow> ms)) (\<lambda>_.
     seq (reading (d_traceLog G)) (\<lambda>lg.
     seq (doing (d_traceCalls G [])) (\<lambda>_.
     seq (surface G) (\<lambda>s.
     give \<lparr>sp_key = label, sp_widgets = times_of ''newWidget'' lg, sp_surface = s\<rparr>)))))))"

section \<open>The walk\<close>

record channel =
  ch_step :: nat
  ch_key :: string
  ch_widgets :: "int option"
  ch_surface :: surf

record repetition =
  rp_step :: nat
  rp_sameAs :: nat
  rp_hash :: string

text \<open>The object \<open>seen\<close>: the last step that showed a hash.\<close>

record walking =
  wk_seen :: "(string \<times> nat) list"
  wk_channels :: "channel list"
  wk_repeats :: "repetition list"

definition walk_step :: "('w, 'z) day_api_scheme \<Rightarrow> nat \<Rightarrow> walking \<Rightarrow> ('w, walking) act" where
  "walk_step G c k =
     seq (scroll_press G 0x59 (''down #'' @ dec_string (int c)) (Some 7000)) (\<lambda>p.
     seq (doing (g_shot G (''guide-channel-'' @ (if c < 10 then ''0'' else []) @ dec_string (int c)))) (\<lambda>_.
     let hash = su_hash (sp_surface p) in
     give \<lparr>wk_seen = AList.update hash c (wk_seen k),
           wk_channels = wk_channels k @ [\<lparr>ch_step = c, ch_key = sp_key p, ch_widgets = Some (sp_widgets p), ch_surface = sp_surface p\<rparr>],
           wk_repeats = wk_repeats k @
             (case map_of (wk_seen k) hash of None \<Rightarrow> [] | Some b \<Rightarrow> [\<lparr>rp_step = c, rp_sameAs = b, rp_hash = hash\<rparr>])\<rparr>))"

fun walk :: "('w, 'z) day_api_scheme \<Rightarrow> nat list \<Rightarrow> walking \<Rightarrow> ('w, walking) act" where
  "walk G [] k = give k"
| "walk G (c # cs) k = seq (walk_step G c k) (walk G cs)"

definition first_channel :: "surf \<Rightarrow> walking" where
  "first_channel s = \<lparr>wk_seen = [(su_hash s, 0)],
     wk_channels = [\<lparr>ch_step = 0, ch_key = ''first channel'', ch_widgets = None, ch_surface = s\<rparr>], wk_repeats = []\<rparr>"

record scroll_report =
  sr_settledAfterSeconds :: int
  sr_stateLog :: "state_entry list"
  sr_channels :: "channel list"
  sr_filters :: "string list"
  sr_tables :: string
  sr_rebuildSeconds :: int
  sr_boxStateAfterRebuild :: string
  sr_sky :: pressed
  sr_guideFirstOpen :: pressed
  sr_guideFilled :: surf
  sr_repeats :: "repetition list"
  sr_distinctScreens :: nat
  sr_differ :: bool

definition scroll_ready :: "('w, 'z) scroll_api_scheme \<Rightarrow> ('w, int \<times> state_entry list) act" where
  "scroll_ready G =
     seq (scroll_settle G 900 0 [] []) (\<lambda>(waited, entries).
     seq (reading (\<lambda>w. prefix ''Ready'' (boxState G w))) (\<lambda>ok.
     seq (require ok (''the box never settled in '' @ dec_string waited @ ''s. Timeline: '')) (\<lambda>_.
     seq (reading (g_tasks G)) (\<lambda>n.
     seq (require (n \<ge> 42) (''not booted: '' @ dec_string n @ '' tasks'')) (\<lambda>_.
     seq (reading (\<lambda>w. d_carouselRunning G w \<and> s_startedAt G w \<noteq> None)) (\<lambda>onAir.
     seq (require onAir ''the carousel is not running'') (\<lambda>_.
     seq (doing (g_profile G)) (\<lambda>_.
     give (waited, entries)))))))))"

definition scroll_rebuilt :: "('w, 'z) day_api_scheme \<Rightarrow> int \<Rightarrow> state_entry list \<Rightarrow> ('w, int \<times> string \<times> state_entry list) act" where
  "scroll_rebuilt G waited entries =
     seq (reading (d_eepromWrites G)) (\<lambda>w0.
     seq (rebuild G 300 waited 0 w0 0 entries) (\<lambda>(secs, entries').
     seq (reading (\<lambda>w. take 60 (d_boxstate G w))) (\<lambda>st.
     seq (require (prefix ''Ready'' st)
       (''the box never came back to Ready in '' @ dec_string secs @ ''s -- it says '' @ [CHR 0x22] @ st @ [CHR 0x22]
        @ ''. Every press below would be into a rebuild.'')) (\<lambda>_.
     give (secs, st, entries')))))"

text \<open>The walk has still to be made: it fills in the channels, the repetitions and the count.\<close>

definition scroll_open :: "('w, 'z) scroll_api_scheme \<Rightarrow> ('w, scroll_report) act" where
  "scroll_open G =
     seq (scroll_ready G) (\<lambda>(waited, entries).
     seq (await_title G 30) (\<lambda>_.
     seq (reading (\<lambda>w. (map sf_pid (armed G w), tablesWanted G w))) (\<lambda>(pids, ts).
     seq (require (list_ex title_pid pids)
       (''the box never opened a title PID, so the carousel had nowhere to send listings: '' @ join_with '' '' pids)) (\<lambda>_.
     seq (scroll_rebuilt G waited entries) (\<lambda>(secs, st, entries').
     seq (scroll_press G 0x7D ''sky'' None) (\<lambda>sky.
     seq (require (sp_widgets sky \<noteq> 0) ''the sky press built no widgets; the box is not drawing'') (\<lambda>_.
     seq (scroll_press G 0x80 ''tv guide'' None) (\<lambda>open1.
     seq (require (sp_widgets open1 \<noteq> 0) ''the guide press built no widgets'') (\<lambda>_.
     seq (sleep G 45000) (\<lambda>_.
     seq (surface G) (\<lambda>filled.
     seq (doing (g_shot G ''guide-channel-00'')) (\<lambda>_.
     give \<lparr>sr_settledAfterSeconds = waited, sr_stateLog = entries', sr_channels = [], sr_filters = pids,
       sr_tables = ts, sr_rebuildSeconds = secs, sr_boxStateAfterRebuild = st, sr_sky = sky,
       sr_guideFirstOpen = open1, sr_guideFilled = filled, sr_repeats = [], sr_distinctScreens = 0,
       sr_differ = True\<rparr>))))))))))))"

definition scroll_probe :: "('w, 'z) scroll_api_scheme \<Rightarrow> ('w, scroll_report) act" where
  "scroll_probe G =
     seq (scroll_open G) (\<lambda>r.
     seq (walk G [1..<13] (first_channel (sr_guideFilled r))) (\<lambda>k.
     give (r\<lparr>sr_channels := wk_channels k, sr_repeats := wk_repeats k, sr_distinctScreens := length (wk_seen k),
             sr_differ := (wk_repeats k = [])\<rparr>)))"

section \<open>What the walk reports\<close>

definition hashes :: "channel list \<Rightarrow> string list" where
  "hashes cs = map (su_hash \<circ> ch_surface) cs"

text \<open>The steps that show a hash shown before, each with the last step that showed it.\<close>

definition last_with :: "string \<Rightarrow> string list \<Rightarrow> nat option" where
  "last_with x xs = (let steps = filter (\<lambda>i. xs ! i = x) [0..<length xs] in if steps = [] then None else Some (last steps))"

definition repeat_at :: "string list \<Rightarrow> nat \<Rightarrow> repetition list" where
  "repeat_at hs c = (case last_with (hs ! c) (take c hs) of None \<Rightarrow> []
     | Some b \<Rightarrow> [\<lparr>rp_step = c, rp_sameAs = b, rp_hash = hs ! c\<rparr>])"

definition repeats_of :: "string list \<Rightarrow> repetition list" where
  "repeats_of hs = concat (map (repeat_at hs) [0..<length hs])"

definition walk_ok :: "walking \<Rightarrow> bool" where
  "walk_ok k \<longleftrightarrow> (let hs = hashes (wk_channels k) in
     map ch_step (wk_channels k) = [0..<length hs] \<and> distinct (map fst (wk_seen k)) \<and>
     (\<forall>x. map_of (wk_seen k) x = last_with x hs) \<and> wk_repeats k = repeats_of hs)"

lemma last_with_snoc: "last_with x (xs @ [y]) = (if x = y then Some (length xs) else last_with x xs)"
proof -
  have "filter (\<lambda>i. (xs @ [y]) ! i = x) [0..<length xs] = filter (\<lambda>i. xs ! i = x) [0..<length xs]"
    by (rule filter_cong) (simp_all add: nth_append)
  then show ?thesis by (auto simp: last_with_def Let_def)
qed

lemma last_with_None: "last_with x xs = None \<longleftrightarrow> x \<notin> set xs"
  by (induction xs rule: rev_induct) (auto simp: last_with_snoc, simp add: last_with_def Let_def)

lemma repeat_at_append: "c < length hs \<Longrightarrow> repeat_at (hs @ [x]) c = repeat_at hs c"
  by (simp add: repeat_at_def nth_append split: option.split)

lemma repeats_of_snoc:
  "repeats_of (hs @ [x]) = repeats_of hs @ (case last_with x hs of None \<Rightarrow> []
     | Some b \<Rightarrow> [\<lparr>rp_step = length hs, rp_sameAs = b, rp_hash = x\<rparr>])"
proof -
  have "map (repeat_at (hs @ [x])) [0..<length hs] = map (repeat_at hs) [0..<length hs]"
    by (rule map_cong) (simp_all add: repeat_at_append)
  moreover have "repeat_at (hs @ [x]) (length hs) = (case last_with x hs of None \<Rightarrow> []
     | Some b \<Rightarrow> [\<lparr>rp_step = length hs, rp_sameAs = b, rp_hash = x\<rparr>])"
    by (simp add: repeat_at_def nth_append split: option.split)
  ultimately show ?thesis by (simp add: repeats_of_def del: map_eq_conv)
qed

lemma repeats_of_length: "length (repeats_of hs) + card (set hs) = length hs"
proof (induction hs rule: rev_induct)
  case (snoc x hs)
  show ?case
  proof (cases "last_with x hs")
    case None
    then show ?thesis using snoc last_with_None [of x hs] by (simp add: repeats_of_snoc)
  next
    case (Some b)
    then have "insert x (set hs) = set hs" using last_with_None [of x hs] by auto
    then show ?thesis using snoc Some by (simp add: repeats_of_snoc)
  qed
qed (simp add: repeats_of_def)

lemma length_hashes [simp]: "length (hashes cs) = length cs"
  by (simp add: hashes_def)

lemma scroll_press_runs: "\<exists>p w1. scroll_press G raw lab ms w = (Inr p, w1)"
  by (simp add: scroll_press_def seq_def press_key_def sleep_def surface_def Let_def split_beta)

lemma walk_step_ok:
  assumes "walk_ok k" "length (wk_channels k) = c"
  shows "\<exists>k' w'. walk_step G c k w = (Inr k', w') \<and> walk_ok k' \<and> length (wk_channels k') = Suc c"
proof -
  obtain p w1 where p: "scroll_press G 0x59 (''down #'' @ dec_string (int c)) (Some 7000) w = (Inr p, w1)"
    using scroll_press_runs by (metis (no_types))
  let ?k = "\<lparr>wk_seen = AList.update (su_hash (sp_surface p)) c (wk_seen k),
    wk_channels = wk_channels k @ [\<lparr>ch_step = c, ch_key = sp_key p, ch_widgets = Some (sp_widgets p), ch_surface = sp_surface p\<rparr>],
    wk_repeats = wk_repeats k @ (case map_of (wk_seen k) (su_hash (sp_surface p)) of None \<Rightarrow> []
      | Some b \<Rightarrow> [\<lparr>rp_step = c, rp_sameAs = b, rp_hash = su_hash (sp_surface p)\<rparr>])\<rparr>"
  have "\<exists>w'. walk_step G c k w = (Inr ?k, w')"
    unfolding walk_step_def seq_def [of "scroll_press G 0x59 (''down #'' @ dec_string (int c)) (Some 7000)"] p Let_def by simp
  moreover have "hashes (wk_channels k @ [ch]) = hashes (wk_channels k) @ [su_hash (ch_surface ch)]" for ch
    by (simp add: hashes_def)
  then have "walk_ok ?k"
    using assms by (simp add: walk_ok_def Let_def last_with_snoc repeats_of_snoc update_conv' distinct_update
        cong: option.case_cong)
  moreover have "length (wk_channels ?k) = Suc c" using assms(2) by simp
  ultimately show ?thesis by blast
qed

lemma walk_runs:
  assumes "walk_ok k" "length (wk_channels k) = c"
  shows "\<exists>k' w'. walk G [c..<c + n] k w = (Inr k', w') \<and> walk_ok k' \<and> length (wk_channels k') = c + n"
  using assms
proof (induction n arbitrary: c k w)
  case (Suc n)
  obtain k1 w1 where 1: "walk_step G c k w = (Inr k1, w1)" "walk_ok k1" "length (wk_channels k1) = Suc c"
    using walk_step_ok [OF Suc.prems, of G w] by (elim exE conjE)
  obtain k' w' where "walk G [Suc c..<Suc c + n] k1 w1 = (Inr k', w')" "walk_ok k'" "length (wk_channels k') = Suc c + n"
    using Suc.IH [OF 1(2,3), of w1] by (elim exE conjE)
  with 1(1) show ?case by (simp add: upt_conv_Cons seq_def del: upt_Suc)
qed simp

lemma first_channel_ok: "walk_ok (first_channel s)"
  by (simp add: walk_ok_def first_channel_def hashes_def last_with_def repeats_of_def repeat_at_def)

text \<open>
  C23.  The walk reports its repetitions exactly.  A report covers thirteen positions; a repetition is listed for
  exactly the positions whose hash was seen before, with the last one that showed it; the number of distinct
  screens is the number of distinct hashes, it and the repetitions make thirteen, and the verdict that every
  position drew something different is given exactly when all hashes differ.
\<close>

theorem scroll_repeats_exact:
  assumes "scroll_probe G w = (Inr R, w')"
  shows "map ch_step (sr_channels R) = [0..<13] \<and> sr_repeats R = repeats_of (hashes (sr_channels R)) \<and>
    sr_distinctScreens R = card (set (hashes (sr_channels R))) \<and> sr_distinctScreens R + length (sr_repeats R) = 13 \<and>
    (sr_differ R \<longleftrightarrow> distinct (hashes (sr_channels R)))"
proof -
  obtain filled w1 k where k: "walk G [1..<13] (first_channel filled) w1 = (Inr k, w')"
    and R: "sr_channels R = wk_channels k" "sr_repeats R = wk_repeats k" "sr_distinctScreens R = length (wk_seen k)"
      "sr_differ R = (wk_repeats k = [])"
    using assms by (auto simp: scroll_probe_def seq_Inr)
  let ?hs = "hashes (wk_channels k)"
  have "walk_ok k" "length (wk_channels k) = 13"
    using walk_runs [OF first_channel_ok, of filled 1 G 12 w1] k by (auto simp: first_channel_def)
  then have ok: "map ch_step (wk_channels k) = [0..<13]" "distinct (map fst (wk_seen k))"
      "\<forall>x. map_of (wk_seen k) x = last_with x ?hs" "wk_repeats k = repeats_of ?hs" "length ?hs = 13"
    by (simp_all add: walk_ok_def Let_def hashes_def)
  have "fst ` set (wk_seen k) = set ?hs"
    using ok(3) last_with_None [of _ ?hs] by (metis (no_types, lifting) map_of_eq_None_iff set_eqI)
  then have "length (wk_seen k) = card (set ?hs)" using distinct_card [OF ok(2)] by simp
  moreover have "repeats_of ?hs = [] \<longleftrightarrow> distinct ?hs"
    using repeats_of_length [of ?hs] card_distinct [of ?hs] distinct_card [of ?hs] by auto
  ultimately show ?thesis using ok R repeats_of_length [of ?hs] by simp
qed

section \<open>The waits end\<close>

lemma settle_runs: "\<exists>r w'. scroll_settle G n waited before entries w = (Inr r, w')"
proof (induction n arbitrary: waited before entries w)
  case (Suc n)
  then show ?case by (auto simp: seq_def sleep_def Let_def)
qed simp

lemma await_title_runs: "\<exists>w'. await_title G n w = (Inr (), w')"
proof (induction n arbitrary: w)
  case (Suc n)
  then show ?case by (auto simp: seq_def sleep_def)
qed simp

lemma rebuild_runs: "\<exists>r w'. rebuild G n waited secs lastW still entries w = (Inr r, w')"
proof (induction n arbitrary: secs lastW still entries w)
  case (Suc n)
  then show ?case by (auto simp: seq_def sleep_def Let_def)
qed simp

lemma prefix_take: "length p \<le> n \<Longrightarrow> prefix p (take n s) \<longleftrightarrow> prefix p s"
  using take_is_prefix [of n s] by (auto elim: prefix_order.trans simp: prefix_def)

lemma rebuilt_when_ready:
  assumes "\<forall>w. settled G w"
  shows "\<exists>r w'. scroll_rebuilt G waited entries w = (Inr r, w')"
proof -
  obtain r w1 where r: "rebuild G 300 waited 0 (d_eepromWrites G w) 0 entries w = (Inr r, w1)"
    using rebuild_runs [of G 300] by (metis (no_types))
  have "prefix ''Ready'' (take 60 (d_boxstate G w1))" using assms by (simp add: settled_def prefix_take)
  then show ?thesis by (cases r) (simp add: scroll_rebuilt_def seq_def [of "rebuild G 300 waited 0 (d_eepromWrites G w) 0 entries"] r)
qed

text \<open>
  The rebuild wait does not insist on a quiet EEPROM.  On a page that keeps saying \<open>Ready\<close> the wait is passed
  and the presses follow, whatever the EEPROM's write counter does.
\<close>

theorem rebuild_check_ignores_eeprom:
  assumes "\<forall>w. settled G w"
  shows "\<exists>r w'. scroll_rebuilt (G\<lparr>d_eepromWrites := busy\<rparr>) waited entries w = (Inr r, w')"
  by (rule rebuilt_when_ready) (use assms in \<open>simp add: settled_def\<close>)

text \<open>A page on the air that is always ready and draws one widget a press.\<close>

definition ready_page :: "int scroll_api" where
  "ready_page = \<lparr>g_hist = (\<lambda>w a. 0), g_profile = (\<lambda>w. w), g_wait = (\<lambda>ms w. w + ms), g_peek = (\<lambda>w a n. replicate n 0),
     g_poke = (\<lambda>a bs w. w), g_key = (\<lambda>raw src w. (''sent'', w)), g_blitLog = (\<lambda>w. []), g_tasks = (\<lambda>w. 42),
     g_shot = (\<lambda>n w. w), g_icount = (\<lambda>w. ''0''), d_boxstate = (\<lambda>w. ''Ready''),
     d_filters = (\<lambda>w. [\<lparr>sf_pid = ''0x33'', sf_armed = True\<rparr>]),
     d_matches = (\<lambda>w. []), d_ids = (\<lambda>w. \<lparr>id_bouquetId = None, id_bouquetIdMask = None, id_tsid = 0, id_networkId = 0\<rparr>),
     d_push = (\<lambda>pid sec w. (\<lparr>pr_ok = True, pr_why = []\<rparr>, w)),
     d_NIT = (\<lambda>v w. (\<lparr>pr_ok = True, pr_why = []\<rparr>, w)), d_SDT = (\<lambda>v w. (\<lparr>pr_ok = True, pr_why = []\<rparr>, w)),
     d_TDT = (\<lambda>y mo d hh w. (tdt_utc y mo d hh, w)), d_TOT = (\<lambda>y mo d hh w. w), d_carouselRunning = (\<lambda>w. True),
     d_eepromWrites = (\<lambda>w. w), d_traceCalls = (\<lambda>ts w. w), d_traceClear = (\<lambda>w. w), d_traceLog = (\<lambda>w. [''newWidget'']),
     d_readWatch = (\<lambda>lo hi pcs mx w. (mx, w)), d_readWatchLog = (\<lambda>w. \<lparr>wl_byPc = None, wl_all = [], wl_capped = False\<rparr>),
     d_readUnwatch = (\<lambda>w. w), d_call = (\<lambda>a i args w. (''{}'', w)), s_startedAt = (\<lambda>w. Some 0)\<rparr>"

lemma ready_page_settled: "\<forall>w. settled ready_page w"
  by (simp add: settled_def ready_page_def)

theorem rebuild_check_ignores_eeprom_witness:
  "\<exists>r w'. scroll_rebuilt (ready_page\<lparr>d_eepromWrites := (\<lambda>w. w)\<rparr>) 30 [] 0 = (Inr r, w')"
  by (rule rebuild_check_ignores_eeprom [OF ready_page_settled])

lemma ready_page_opens: "\<exists>r w'. scroll_open ready_page w = (Inr r, w')"
proof -
  obtain a b w1 where 1: "scroll_settle ready_page 900 0 [] [] w = (Inr (a, b), w1)"
    using settle_runs [of ready_page 900 0 "[]" "[]" w] by auto
  have page: "g_tasks ready_page = (\<lambda>w. 42)" "d_carouselRunning ready_page = (\<lambda>w. True)" "s_startedAt ready_page = (\<lambda>w. Some 0)"
      "\<And>w. boxState ready_page w = ''Ready''"
    by (simp_all add: ready_page_def boxState_def)
  have r: "scroll_ready ready_page w = (Inr (a, b), g_profile ready_page w1)"
    by (simp add: scroll_ready_def seq_def [of "scroll_settle ready_page 900 0 [] []"] 1 page)
  obtain w2 where 2: "await_title ready_page 30 (g_profile ready_page w1) = (Inr (), w2)"
    using await_title_runs by (metis (no_types))
  obtain c w3 where 3: "scroll_rebuilt ready_page a b w2 = (Inr c, w3)"
    using rebuilt_when_ready [OF ready_page_settled, of a b w2] by (elim exE)
  have pid: "list_ex title_pid (map sf_pid (armed ready_page w))" for w
    by (simp add: armed_def ready_page_def title_pid_def parse_int_def digit_of_def is_space_def)
  have press: "\<exists>p w'. scroll_press ready_page raw lab ms w = (Inr p, w') \<and> sp_widgets p = 1" for raw lab ms w
    by (simp add: scroll_press_def seq_def press_key_def sleep_def surface_def Let_def split_beta times_of_def ready_page_def)
  obtain p1 w4 where 4: "scroll_press ready_page 0x7D ''sky'' None w3 = (Inr p1, w4)" "sp_widgets p1 = 1"
    using press by (metis (no_types))
  obtain p2 w5 where 5: "scroll_press ready_page 0x80 ''tv guide'' None w4 = (Inr p2, w5)" "sp_widgets p2 = 1"
    using press by (metis (no_types))
  show ?thesis
    by (cases c) (simp add: scroll_open_def seq_def [of "scroll_ready ready_page"] r seq_def [of "await_title ready_page 30"] 2
        pid seq_def [of "scroll_rebuilt ready_page a b"] 3 seq_def [of "scroll_press ready_page 0x7D ''sky'' None"] 4
        seq_def [of "scroll_press ready_page 0x80 ''tv guide'' None"] 5 sleep_def surface_def)
qed

theorem scroll_repeats_exact_witness:
  "\<exists>R w'. scroll_probe ready_page 0 = (Inr R, w') \<and>
    map ch_step (sr_channels R) = [0..<13] \<and> sr_repeats R = repeats_of (hashes (sr_channels R)) \<and>
    sr_distinctScreens R = card (set (hashes (sr_channels R))) \<and> sr_distinctScreens R + length (sr_repeats R) = 13 \<and>
    (sr_differ R \<longleftrightarrow> distinct (hashes (sr_channels R)))"
proof -
  obtain r w1 where o: "scroll_open ready_page 0 = (Inr r, w1)" using ready_page_opens [of 0] by (elim exE)
  obtain k w2 where "walk ready_page [1..<1 + 12] (first_channel (sr_guideFilled r)) w1 = (Inr k, w2)"
    using walk_runs [OF first_channel_ok, of "sr_guideFilled r" 1 ready_page 12 w1] by (auto simp: first_channel_def)
  then have "\<exists>R w'. scroll_probe ready_page 0 = (Inr R, w')"
    by (simp add: scroll_probe_def seq_def o)
  then obtain R w' where R: "scroll_probe ready_page 0 = (Inr R, w')" by (elim exE)
  show ?thesis using scroll_repeats_exact [OF R] R by (intro exI conjI) (assumption | elim conjE)+
qed

end
