(* ===== verification/Oracle_Args.thy ===== *)
theory Oracle_Args
  imports Complex_Main Probe_Base "HOL-Library.Log_Nat"
begin

text \<open>
  The command lines of the oracle's capture scripts, \<open>tools/oracle-section-acquisition.mjs\<close>,
  \<open>tools/oracle-cold-boot-capture.mjs\<close> and \<open>tools/oracle-warm-surface.mjs\<close>, and of the probe runner
  \<open>tools/digibox-probe.mjs\<close>: the options, \<open>Number\<close> of their texts, the checks, and the schedule of sections
  the first script makes of them.  Arguments are ASCII texts; a script that throws gives \<open>Inl\<close>.
\<close>

section \<open>Numbers from texts\<close>

definition decimal_digits :: "string \<Rightarrow> bool" where
  "decimal_digits s = list_all (\<lambda>c. digit_of c < 10) s"

definition digits_value :: "int \<Rightarrow> string \<Rightarrow> int" where
  "digits_value radix ds = foldl (\<lambda>a c. radix * a + digit_of c) 0 ds"

text \<open>The mantissa of a decimal literal, \<open>12\<close>, \<open>12.\<close>, \<open>.5\<close> or \<open>12.5\<close>, and its exponent.\<close>

definition mantissa :: "string \<Rightarrow> rat option" where
  "mantissa s =
     (let i = takeWhile (\<lambda>c. c \<noteq> CHR ''.'') s; f = drop (length i + 1) s
      in if decimal_digits i \<and> decimal_digits f \<and> i @ f \<noteq> []
         then Some (of_int (digits_value 10 (i @ f)) / 10 ^ length f) else None)"

definition power10 :: "int \<Rightarrow> rat" where
  "power10 e = (if 0 \<le> e then 10 ^ nat e else 1 / 10 ^ nat (- e))"

definition exponent :: "string \<Rightarrow> int option" where
  "exponent s =
     (let ds = (if prefix ''+'' s \<or> prefix ''-'' s then tl s else s)
      in if ds \<noteq> [] \<and> decimal_digits ds
         then Some (if prefix ''-'' s then - digits_value 10 ds else digits_value 10 ds) else None)"

definition unsigned_decimal :: "string \<Rightarrow> rat option" where
  "unsigned_decimal s =
     (let m = takeWhile (\<lambda>c. c \<noteq> CHR ''e'' \<and> c \<noteq> CHR ''E'') s; r = drop (length m) s
      in case (mantissa m, if r = [] then Some 0 else exponent (tl r)) of
           (Some q, Some e) \<Rightarrow> Some (q * power10 e)
         | _ \<Rightarrow> None)"

definition radix_literal :: "int \<Rightarrow> string \<Rightarrow> rat option" where
  "radix_literal radix ds =
     (if ds \<noteq> [] \<and> list_all (\<lambda>c. digit_of c < radix) ds then Some (of_int (digits_value radix ds)) else None)"

text \<open>
  The exact value of the text \<open>Number\<close> is given, before it is rounded to a double; \<open>None\<close> for \<open>NaN\<close> and
  for the infinities, which no check of the scripts lets through.
\<close>

definition trim :: "string \<Rightarrow> string" where
  "trim s = rev (dropWhile is_space (rev (dropWhile is_space s)))"

definition exact_number :: "string \<Rightarrow> rat option" where
  "exact_number s0 =
     (let s = trim s0; p = take 2 s; r = drop 2 s
      in if s = [] then Some 0
         else if p = ''0x'' \<or> p = ''0X'' then radix_literal 16 r
         else if p = ''0o'' \<or> p = ''0O'' then radix_literal 8 r
         else if p = ''0b'' \<or> p = ''0B'' then radix_literal 2 r
         else if prefix ''-'' s then map_option uminus (unsigned_decimal (tl s))
         else if prefix ''+'' s then unsigned_decimal (tl s)
         else unsigned_decimal s)"

text \<open>
  The integer a non-negative value becomes when it is rounded to the nearest double, ties to even, when
  that double is an integer below \<open>2 ^ 53\<close>.  Below 1 only 0 and 1 can be reached; from 1 on a double has 53
  significant bits.
\<close>

definition half_even :: "rat \<Rightarrow> int" where
  "half_even q = (let n = \<lfloor>q\<rfloor>; d = q - of_int n
     in if d < 1 / 2 \<or> d = 1 / 2 \<and> even n then n else n + 1)"

definition double_integer :: "rat \<Rightarrow> int option" where
  "double_integer q =
     (if q < 1 then (if q \<le> 1 / 2 ^ 1075 then Some 0 else if q \<ge> 1 - 1 / 2 ^ 54 then Some 1 else None)
      else let k = bitlen \<lfloor>q\<rfloor>
           in if k > 53 then None
              else let s = nat (53 - k); m = half_even (q * 2 ^ s)
                   in if m mod 2 ^ s = 0 \<and> m div 2 ^ s < 2 ^ 53 then Some (m div 2 ^ s) else None)"

text \<open>\<open>Number(s)\<close> when \<open>Number.isSafeInteger\<close> accepts it.\<close>

definition safe_integer :: "string \<Rightarrow> int option" where
  "safe_integer s =
     (case exact_number s of None \<Rightarrow> None
      | Some q \<Rightarrow> if q < 0 then map_option uminus (double_integer (- q)) else double_integer q)"

section \<open>Options\<close>

fun indexOf :: "string \<Rightarrow> string list \<Rightarrow> nat option" where
  "indexOf x [] = None"
| "indexOf x (y # ys) = (if y = x then Some 0 else map_option Suc (indexOf x ys))"

definition arg :: "string list \<Rightarrow> string \<Rightarrow> string \<Rightarrow> string + string" where
  "arg args name fallback =
     (case indexOf name args of
        None \<Rightarrow> Inr fallback
      | Some i \<Rightarrow> if i + 1 \<ge> length args then Inl (name @ '' needs a value'') else Inr (args ! (i + 1)))"

section \<open>The sections to send\<close>

record osection =
  os_at :: int
  os_pid :: int
  os_bytes :: "int list"

record section_plan =
  sa_sectionAt :: int
  sa_stopAt :: int
  sa_sections :: "osection list"
  sa_out :: string
  sa_requireAcquired :: bool

text \<open>Pairs of hexadecimal digits; a last single digit is dropped, as \<open>Buffer.from\<close> does.\<close>

fun hex_bytes :: "string \<Rightarrow> int list" where
  "hex_bytes (a # b # r) = (16 * digit_of a + digit_of b) # hex_bytes r"
| "hex_bytes r = []"

definition hex_digits :: "string \<Rightarrow> bool" where
  "hex_digits s \<longleftrightarrow> s \<noteq> [] \<and> list_all (\<lambda>c. digit_of c < 16) s"

definition section_length :: "int list \<Rightarrow> bool" where
  "section_length b \<longleftrightarrow> 3 \<le> length b \<and> (push_bit 8 (b ! 1 AND 15) OR b ! 2) + 3 = int (length b)"

fun split_on :: "char \<Rightarrow> string \<Rightarrow> string list" where
  "split_on d [] = [[]]"
| "split_on d (c # r) = (if c = d then [] # split_on d r
     else (case split_on d r of [] \<Rightarrow> [[c]] | w # ws \<Rightarrow> (c # w) # ws))"

text \<open>\<open>/^(?:(\d+):)?(\d+):([\da-fA-F]+)$/\<close>: the instruction, if given, the PID and the digits.\<close>

definition extra_parts :: "string \<Rightarrow> (string option \<times> string \<times> string) option" where
  "extra_parts spec =
     (case split_on CHR '':'' spec of
        [p, x] \<Rightarrow> if p \<noteq> [] \<and> decimal_digits p \<and> hex_digits x then Some (None, p, x) else None
      | [a, p, x] \<Rightarrow> if a \<noteq> [] \<and> decimal_digits a \<and> p \<noteq> [] \<and> decimal_digits p \<and> hex_digits x
                    then Some (Some a, p, x) else None
      | _ \<Rightarrow> None)"

definition extra_section :: "int \<Rightarrow> int \<Rightarrow> string \<Rightarrow> string + osection" where
  "extra_section sectionAt stopAt spec =
     (case extra_parts spec of
        None \<Rightarrow> Inl ''--extra-section needs [instruction:]decimal-pid:hex''
      | Some (a, p, x) \<Rightarrow>
          (let pid = digits_value 10 p; bs = hex_bytes x
           in case (case a of None \<Rightarrow> Some sectionAt | Some t \<Rightarrow> safe_integer t) of
                None \<Rightarrow> Inl (''invalid extra section '' @ spec)
              | Some n \<Rightarrow>
                  if n < sectionAt \<or> n \<ge> stopAt \<or> pid > 0x1fff \<or> odd (length x) \<or> \<not> section_length bs
                  then Inl (''invalid extra section '' @ spec)
                  else Inr \<lparr>os_at = n, os_pid = pid, os_bytes = bs\<rparr>))"

fun extra_specs :: "string list \<Rightarrow> string list" where
  "extra_specs [] = []"
| "extra_specs (a # r) =
     (if a \<noteq> ''--extra-section'' then extra_specs r
      else (case r of [] \<Rightarrow> [[]] | spec # r' \<Rightarrow> spec # extra_specs r'))"

definition section_schedule :: "string list \<Rightarrow> int \<Rightarrow> int \<Rightarrow> int \<Rightarrow> string \<Rightarrow> string \<Rightarrow> string + section_plan" where
  "section_schedule args n fin p hex out =
     (if n < 100001 \<or> fin \<le> n \<or> p < 0 \<or> p > 0x1fff \<or> odd (length hex) \<or> \<not> hex_digits hex
      then Inl ''invalid section argument''
      else if \<not> section_length (hex_bytes hex) then Inl ''section length field differs from actual bytes''
      else and_then (collect (extra_section n fin) (extra_specs args)) (\<lambda>extras.
           Inr \<lparr>sa_sectionAt = n, sa_stopAt = fin,
                sa_sections = sort_key os_at (\<lparr>os_at = n, os_pid = p, os_bytes = hex_bytes hex\<rparr> # extras),
                sa_out = out, sa_requireAcquired = (''--require-acquired'' \<in> set args)\<rparr>))"

definition section_args :: "string list \<Rightarrow> string + section_plan" where
  "section_args args =
     and_then (arg args ''--section-at'' ''70000000'') (\<lambda>sectionAt.
     and_then (arg args ''--stop-at'' ''80000000'') (\<lambda>stopAt.
     and_then (arg args ''--pid'' ''20'') (\<lambda>pid.
     and_then (arg args ''--section-hex'' ''707005c67e120000'') (\<lambda>hex.
     and_then (arg args ''--out'' []) (\<lambda>out.
     case (safe_integer sectionAt, safe_integer stopAt, safe_integer pid) of
       (Some n, Some fin, Some p) \<Rightarrow> section_schedule args n fin p hex out
     | _ \<Rightarrow> Inl ''invalid section argument'')))))"

section \<open>The other two captures\<close>

record cold_plan =
  ca_stopAt :: int
  ca_interval :: int
  ca_injectAt :: int
  ca_traceFrom :: int
  ca_traceTo :: int
  ca_out :: string
  ca_traceOut :: string

definition cold_args :: "string list \<Rightarrow> string + cold_plan" where
  "cold_args args =
     and_then (arg args ''--stop-at'' ''470000000'') (\<lambda>stopAt.
     and_then (arg args ''--interval'' ''1000'') (\<lambda>interval.
     and_then (arg args ''--inject-at'' ''-1'') (\<lambda>injectAt.
     and_then (arg args ''--trace-from'' ''-1'') (\<lambda>traceFrom.
     and_then (arg args ''--trace-to'' ''-1'') (\<lambda>traceTo.
     and_then (arg args ''--out'' ''.artifacts/oracle-cold-boot.stream'') (\<lambda>out.
     and_then (arg args ''--trace-out'' []) (\<lambda>traceOut.
     case map safe_integer [stopAt, interval, injectAt, traceFrom, traceTo] of
       [Some fin, Some ival, Some ia, Some tf, Some tt] \<Rightarrow>
         if fin \<le> 0 \<or> ival \<le> 0 \<or> ia \<ge> fin \<or> (tf < 0) \<noteq> (tt < 0) \<or> tf \<ge> 0 \<and> (tt \<le> tf \<or> tt > fin)
         then Inl ''invalid instruction count, interval, injection, or trace window''
         else if tf \<ge> 0 \<and> traceOut = [] then Inl ''--trace-out is required with a trace window''
         else Inr \<lparr>ca_stopAt = fin, ca_interval = ival, ca_injectAt = ia, ca_traceFrom = tf, ca_traceTo = tt,
                   ca_out = out, ca_traceOut = traceOut\<rparr>
     | _ \<Rightarrow> Inl ''invalid instruction count, interval, injection, or trace window'')))))))"

record warm_plan =
  wa_nvram :: string
  wa_keyAt :: int
  wa_stopAt :: int
  wa_out :: string
  wa_shot :: string

text \<open>\<open>inRoot\<close> resolves a path inside the repository; \<open>nvramLength\<close> is the size of the file at a path.\<close>

definition warm_args :: "(string \<Rightarrow> string) \<Rightarrow> (string \<Rightarrow> int) \<Rightarrow> string list \<Rightarrow> string + warm_plan" where
  "warm_args inRoot nvramLength args =
     and_then (arg args ''--nvram'' (inRoot ''.artifacts/menu-cold-nvram.img'')) (\<lambda>nvram.
     and_then (arg args ''--key-at'' ''200000000'') (\<lambda>keyAt.
     and_then (arg args ''--stop-at'' ''230000000'') (\<lambda>stopAt.
     and_then (arg args ''--out'' []) (\<lambda>out.
     and_then (arg args ''--shot'' []) (\<lambda>shot.
     case (safe_integer keyAt, safe_integer stopAt) of
       (Some k, Some fin) \<Rightarrow>
         if k < 1 \<or> fin \<le> k then Inl ''instruction counts must be safe integers with 0 < key-at < stop-at''
         else if nvramLength nvram \<noteq> 16384 then Inl (''NVRAM must be 16384 bytes, got '' @ dec_string (nvramLength nvram))
         else Inr \<lparr>wa_nvram = nvram, wa_keyAt = k, wa_stopAt = fin, wa_out = out, wa_shot = shot\<rparr>
     | _ \<Rightarrow> Inl ''instruction counts must be safe integers with 0 < key-at < stop-at'')))))"

section \<open>The texts that are integers\<close>

lemma bitlen_le_53: "0 < n \<Longrightarrow> n < 2 ^ 53 \<Longrightarrow> bitlen n \<le> 53"
  using bitlen_le_iff_power [of n 53] by simp

lemma half_even_of_int: "half_even (of_int n) = n"
  by (simp add: half_even_def Let_def)

lemma double_integer_of_int:
  assumes "0 \<le> n" "n < 2 ^ 53"
  shows "double_integer (of_int n) = Some n"
proof (cases "n = 0")
  case True
  then show ?thesis by (simp add: double_integer_def)
next
  case False
  let ?s = "nat (53 - bitlen n)"
  have "half_even (of_int n * 2 ^ ?s) = n * 2 ^ ?s"
    using half_even_of_int [of "n * 2 ^ ?s"] by simp
  with False assms bitlen_le_53 [of n] show ?thesis by (simp add: double_integer_def Let_def)
qed

lemma digit_bounds: "0 \<le> digit_of c"
  by (simp add: digit_of_def Let_def)

lemma digits_value_nonneg: "0 \<le> radix \<Longrightarrow> 0 \<le> digits_value radix ds"
proof -
  assume r: "0 \<le> radix"
  have "0 \<le> a \<Longrightarrow> 0 \<le> foldl (\<lambda>a c. radix * a + digit_of c) a ds" for a
    using r digit_bounds by (induction ds arbitrary: a) simp_all
  then show ?thesis by (simp add: digits_value_def)
qed

text \<open>A decimal digit is none of the characters the grammar treats specially.\<close>

lemma digit_plain:
  "digit_of c < 10 \<Longrightarrow> \<not> is_space c \<and> c \<notin> set ''.eE-+xXoObB''"
  by (auto simp: digit_of_def is_space_def Let_def split: if_splits)

lemma safe_digits:
  assumes "s \<noteq> []" "decimal_digits s" "digits_value 10 s < 2 ^ 53"
  shows "safe_integer s = Some (digits_value 10 s)"
proof -
  have d: "\<forall>c \<in> set s. digit_of c < 10" using assms(2) by (simp add: decimal_digits_def list_all_iff)
  then have p: "\<forall>c \<in> set s. \<not> is_space c \<and> c \<noteq> CHR ''.'' \<and> c \<noteq> CHR ''e'' \<and> c \<noteq> CHR ''E''"
    using digit_plain by fastforce
  have "dropWhile is_space u = u" if "set u \<subseteq> set s" for u using p that by (cases u) auto
  then have t: "trim s = s" by (simp add: trim_def)
  obtain c cs where s: "s = c # cs" using assms(1) by (cases s) auto
  have hd: "c \<noteq> CHR ''-''" "c \<noteq> CHR ''+''" using d digit_plain [of c] by (auto simp: s)
  have two: "take 2 s \<notin> {''0x'', ''0X'', ''0o'', ''0O'', ''0b'', ''0B''}"
    using d digit_plain by (cases cs) (fastforce simp: s numeral_2_eq_2)+
  have m: "mantissa s = Some (of_int (digits_value 10 s))"
    using p assms(1,2) by (simp add: mantissa_def takeWhile_eq_all_conv [THEN iffD2] decimal_digits_def)
  have "takeWhile (\<lambda>c. c \<noteq> CHR ''e'' \<and> c \<noteq> CHR ''E'') s = s" using p by (simp add: takeWhile_eq_all_conv)
  then have "unsigned_decimal s = Some (of_int (digits_value 10 s))"
    unfolding unsigned_decimal_def Let_def by (simp only: m drop_all order_refl) (simp add: power10_def)
  then have "exact_number s = Some (of_int (digits_value 10 s))"
    using t two hd by (simp add: exact_number_def Let_def assms(1)) (simp add: s)
  then show ?thesis
    using digits_value_nonneg [of 10 s] assms(3) by (simp add: safe_integer_def double_integer_of_int)
qed


section \<open>What the section script accepts\<close>

definition schedule_ok :: "section_plan \<Rightarrow> bool" where
  "schedule_ok A \<longleftrightarrow> 100001 \<le> sa_sectionAt A \<and> sa_sectionAt A < sa_stopAt A \<and> sa_sections A \<noteq> [] \<and>
     sorted (map os_at (sa_sections A)) \<and>
     list_all (\<lambda>s. sa_sectionAt A \<le> os_at s \<and> os_at s < sa_stopAt A \<and> 0 \<le> os_pid s \<and> os_pid s \<le> 0x1FFF \<and>
       byte_list (os_bytes s) \<and> section_length (os_bytes s)) (sa_sections A)"

lemma hex_bytes_ok: "list_all (\<lambda>c. digit_of c < 16) s \<Longrightarrow> byte_list (hex_bytes s)"
proof (induction s rule: hex_bytes.induct)
  case (1 a b r)
  then show ?case using digit_bounds [of a] digit_bounds [of b] by simp
qed simp_all

lemma extra_parts_hex: "extra_parts spec = Some (a, p, x) \<Longrightarrow> hex_digits x"
  by (auto simp: extra_parts_def split: list.splits if_splits)

lemma extra_section_ok:
  assumes "extra_section n fin spec = Inr s"
  shows "n \<le> os_at s \<and> os_at s < fin \<and> 0 \<le> os_pid s \<and> os_pid s \<le> 0x1FFF \<and> byte_list (os_bytes s) \<and> section_length (os_bytes s)"
proof (cases "extra_parts spec")
  case (Some parts)
  then obtain a p x where e: "extra_parts spec = Some (a, p, x)" by (cases parts) auto
  have "byte_list (hex_bytes x)" using extra_parts_hex [OF e] by (simp add: hex_digits_def hex_bytes_ok)
  moreover have "0 \<le> digits_value 10 p" by (rule digits_value_nonneg) simp
  ultimately show ?thesis
    using assms e by (auto simp: extra_section_def Let_def split: option.splits if_splits)
qed (use assms in \<open>simp add: extra_section_def\<close>)

lemma collect_Inr_all: "collect f xs = Inr ys \<Longrightarrow> (\<And>x y. f x = Inr y \<Longrightarrow> P y) \<Longrightarrow> list_all P ys"
  by (induction xs arbitrary: ys) auto

lemma accepted_schedule:
  assumes "section_args args = Inr A"
  shows "schedule_ok A"
proof -
  obtain n fin p hex out where sch: "section_schedule args n fin p hex out = Inr A"
    using assms unfolding section_args_def and_then_Inr by (elim exE conjE) (simp split: option.splits)
  then obtain extras where
    A: "A = \<lparr>sa_sectionAt = n, sa_stopAt = fin,
          sa_sections = sort_key os_at (\<lparr>os_at = n, os_pid = p, os_bytes = hex_bytes hex\<rparr> # extras),
          sa_out = out, sa_requireAcquired = (''--require-acquired'' \<in> set args)\<rparr>"
    and c: "collect (extra_section n fin) (extra_specs args) = Inr extras"
    unfolding section_schedule_def by (simp split: if_splits del: sort_key_simps) blast
  have r: "100001 \<le> n" "n < fin" "0 \<le> p" "p \<le> 0x1FFF" "hex_digits hex" "section_length (hex_bytes hex)"
    using sch by (auto simp: section_schedule_def split: if_splits)
  let ?P = "\<lambda>s. n \<le> os_at s \<and> os_at s < fin \<and> 0 \<le> os_pid s \<and> os_pid s \<le> 0x1FFF \<and> byte_list (os_bytes s) \<and> section_length (os_bytes s)"
  have "list_all ?P extras" using c by (rule collect_Inr_all) (rule extra_section_ok)
  moreover have "byte_list (hex_bytes hex)" using r(5) by (simp add: hex_digits_def hex_bytes_ok)
  ultimately have "list_all ?P (\<lparr>os_at = n, os_pid = p, os_bytes = hex_bytes hex\<rparr> # extras)"
    using r by simp
  then have "list_all ?P (sort_key os_at (\<lparr>os_at = n, os_pid = p, os_bytes = hex_bytes hex\<rparr> # extras))"
    by (simp only: list_all_iff set_sort)
  moreover have "sort_key os_at (\<lparr>os_at = n, os_pid = p, os_bytes = hex_bytes hex\<rparr> # extras) \<noteq> []"
    by (metis length_sort list.distinct(1) length_0_conv)
  ultimately show ?thesis using r(1,2) by (simp only: schedule_ok_def A section_plan.simps sorted_sort_key) simp
qed

text \<open>
  C25.  The section script starts only with a schedule it can keep.  When it accepts its arguments, the
  sections are in the order of their instruction counts, at or after the main one and before the stop,
  on a PID of thirteen bits, and their length fields count their bytes.
\<close>

theorem accepted_schedule_ok:
  assumes "section_args args = Inr A"
  shows "schedule_ok A"
  using assms by (rule accepted_schedule)

lemma default_numbers:
  "safe_integer ''70000000'' = Some 70000000" "safe_integer ''80000000'' = Some 80000000"
  "safe_integer ''20'' = Some 20" "safe_integer ''75000000'' = Some 75000000"
  "safe_integer ''200000000'' = Some 200000000" "safe_integer ''230000000'' = Some 230000000"
  by (subst safe_digits; code_simp)+

lemma default_schedule: "\<exists>A. section_args [] = Inr A \<and> sa_sectionAt A = 70000000"
  by (simp add: section_args_def section_schedule_def arg_def default_numbers hex_digits_def digit_of_def section_length_def)

theorem accepted_schedule_ok_witness:
  "\<exists>A. section_args [''--extra-section'', ''75000000:20:730001ff''] = Inr A \<and> schedule_ok A"
proof -
  have "extra_section 70000000 80000000 ''75000000:20:730001ff'' = Inr \<lparr>os_at = 75000000, os_pid = 20, os_bytes = [0x73, 0, 1, 255]\<rparr>"
    by (simp add: extra_section_def extra_parts_def default_numbers decimal_digits_def hex_digits_def digits_value_def digit_of_def section_length_def)
  then have "\<exists>A. section_args [''--extra-section'', ''75000000:20:730001ff''] = Inr A"
    by (simp add: section_args_def section_schedule_def arg_def default_numbers hex_digits_def digit_of_def section_length_def)
  then obtain A where "section_args [''--extra-section'', ''75000000:20:730001ff''] = Inr A" by blast
  with accepted_schedule_ok [OF this] show ?thesis by blast
qed

end
