(* ===== verification/Probe_Runner.thy ===== *)
theory Probe_Runner
  imports Oracle_Args Probe_Day
begin

text \<open>
  The runner of the probes, \<open>tools/digibox-probe.mjs\<close>: which of its arguments are probe files, the address
  it opens, the boot it waits for and the probes it then runs, one after the other.  A probe file is an
  action on the page, the argument \<open>probe\<close>; launching the browser, the screenshots and the console output
  are not modelled.  The command line is \<open>process.argv\<close>, with the interpreter and the script in front.
\<close>

section \<open>The command line\<close>

definition url_index :: "string list \<Rightarrow> nat option" where
  "url_index argv = indexOf ''--url'' argv"

text \<open>The value of \<open>--url\<close> is no probe file; positions are those of \<open>argv.slice(2)\<close>.\<close>

definition files :: "string list \<Rightarrow> string list" where
  "files argv =
     map snd (filter (\<lambda>(i, a). \<not> prefix ''--'' a \<and> (case url_index argv of None \<Rightarrow> True | Some u \<Rightarrow> int i \<noteq> int u - 1))
       (zip [0..<length argv - 2] (drop 2 argv)))"

definition silentUnlessAsked :: "string \<Rightarrow> string" where
  "silentUnlessAsked u =
     (if occurs ''?si='' u \<or> occurs ''&si='' u then u
      else u @ (if CHR ''?'' \<in> set u then ''&'' else ''?'') @ ''si=0'')"

text \<open>\<open>--url\<close> as the last argument leaves no text, and the probe runner throws.\<close>

definition page_url :: "string list \<Rightarrow> string option" where
  "page_url argv =
     (case url_index argv of
        None \<Rightarrow> Some (silentUnlessAsked ''http://localhost:5173/digibox-boot.html'')
      | Some u \<Rightarrow> if u + 1 < length argv then Some (silentUnlessAsked (argv ! (u + 1))) else None)"

record boot_flags =
  bo_traceBoot :: bool
  bo_dbg :: bool
  bo_profileBoot :: bool
  bo_carousel :: bool
  bo_ackAll :: bool
  bo_traceWaits :: bool
  bo_traceSig :: bool
  bo_traceStart :: bool
  bo_traceReg :: bool
  bo_traceApp :: bool

definition boot_opts :: "string list \<Rightarrow> boot_flags" where
  "boot_opts argv = (let has = (\<lambda>f. f \<in> set argv) in
     \<lparr>bo_traceBoot = has ''--trace-boot'', bo_dbg = has ''--dbg'', bo_profileBoot = has ''--profile-boot'',
      bo_carousel = has ''--carousel'', bo_ackAll = has ''--ack-all'', bo_traceWaits = has ''--trace-waits'',
      bo_traceSig = has ''--trace-sig'', bo_traceStart = has ''--trace-start'', bo_traceReg = has ''--trace-reg'',
      bo_traceApp = has ''--trace-app''\<rparr>)"

section \<open>The boot\<close>

text \<open>A point to trace: a number of arguments, or the firmware's own format string.\<close>

datatype traced = Args nat | Fmt

type_synonym point = "int \<times> string \<times> traced"

definition TRACE_WAITS :: "point list" where
  "TRACE_WAITS = [(0x800CDAB8, ''wait'', Args 2)]"

definition TRACE_APP :: "point list" where
  "TRACE_APP = [(0x8007D06C, ''dbg'', Fmt), (0x80036D0C, ''appStart'', Args 2), (0x8008E7C8, ''getCodeModule'', Args 1),
     (0x8008C8A8, ''appById'', Args 1), (0x8007BCC0, ''registryInsert'', Args 2), (0x800511D0, ''carouselAcquire'', Args 2)]"

definition TRACE_REG :: "point list" where
  "TRACE_REG = [(0x8007BB3C, ''lookup'', Args 1), (0x8007BCC0, ''insert'', Args 3), (0x8007BD3C, ''reg_8007BD3C'', Args 2),
     (0x8007BD64, ''reg_8007BD64'', Args 2), (0x8008C8A8, ''appById'', Args 1), (0x8008E7C8, ''getCodeModule'', Args 1)]"

definition TRACE_START :: "point list" where
  "TRACE_START = [(0x8007D06C, ''dbg'', Fmt), (0x80036B54, ''appDescriptor'', Args 3), (0x8006E7F4, ''f_8006E7F4'', Args 3),
     (0x8006E808, ''f_8006E808'', Args 3), (0x8006EBAC, ''f_8006EBAC'', Args 3), (0x80051300, ''intprt_80051300'', Args 3)]"

definition TRACE_SIG :: "point list" where
  "TRACE_SIG = [(0x8007D06C, ''dbg'', Fmt), (0x8003A124, ''sigVerify'', Args 4), (0x800DCD58, ''sigParse'', Args 4),
     (0x800E40EC, ''ndsVerify'', Args 4), (0x8008E7C8, ''getCodeModule'', Args 2)]"

record 'w runner_api = "'w page_api" +
  r_debugPrintf :: "bool \<Rightarrow> 'w \<Rightarrow> 'w"
  r_trace :: "point list \<Rightarrow> 'w \<Rightarrow> 'w"
  r_ackAll :: "'w \<Rightarrow> 'w"
  r_eeprom :: "'w \<Rightarrow> int list"
  r_clickMax :: "'w \<Rightarrow> 'w"
  r_carousel :: "'w \<Rightarrow> 'w"

definition on_flag :: "bool \<Rightarrow> ('w \<Rightarrow> 'w) \<Rightarrow> ('w, unit) act" where
  "on_flag b f = doing (if b then f else (\<lambda>w. w))"

definition arm_traces :: "('w, 'z) runner_api_scheme \<Rightarrow> boot_flags \<Rightarrow> ('w, unit) act" where
  "arm_traces G b =
     seq (on_flag (bo_traceBoot b) (r_debugPrintf G True)) (\<lambda>_.
     seq (on_flag (bo_traceWaits b) (r_trace G TRACE_WAITS)) (\<lambda>_.
     seq (on_flag (bo_traceApp b) (r_trace G TRACE_APP)) (\<lambda>_.
     seq (on_flag (bo_traceReg b) (r_trace G TRACE_REG)) (\<lambda>_.
     seq (on_flag (bo_traceStart b) (r_trace G TRACE_START)) (\<lambda>_.
     seq (on_flag (bo_traceSig b) (r_trace G TRACE_SIG)) (\<lambda>_.
     seq (on_flag (bo_ackAll b) (r_ackAll G)) (\<lambda>_.
     on_flag (bo_profileBoot b) (g_profile G))))))))"

definition poll :: "('w, 'z) runner_api_scheme \<Rightarrow> boot_flags \<Rightarrow> ('w, int) act" where
  "poll G b =
     seq (sleep G 250) (\<lambda>_.
     seq (on_flag (bo_dbg b) (g_poke G 0x80105D14 [0xFF, 0xFF, 0xFF, 0xFF])) (\<lambda>_.
     seq (on_flag (bo_carousel b) (r_carousel G)) (\<lambda>_.
     reading (g_tasks G))))"

text \<open>\<open>n\<close> polls are left; the result is the last number of tasks read, if any was.\<close>

fun await_boot :: "('w, 'z) runner_api_scheme \<Rightarrow> boot_flags \<Rightarrow> nat \<Rightarrow> int option \<Rightarrow> ('w, int option) act" where
  "await_boot G b 0 t = give t"
| "await_boot G b (Suc n) t = seq (poll G b) (\<lambda>k. if k \<ge> 42 then give (Some k) else await_boot G b n (Some k))"

record boot_report =
  bt_tasks :: "int option"
  bt_cold :: bool
  bt_icount :: "int option"

definition boot :: "('w, 'z) runner_api_scheme \<Rightarrow> boot_flags \<Rightarrow> ('w, boot_report) act" where
  "boot G b =
     seq (arm_traces G b) (\<lambda>_.
     seq (reading (\<lambda>w. length (filter (\<lambda>v. v \<noteq> 0xFF) (r_eeprom G w)) < 64)) (\<lambda>cold.
     seq (doing (r_clickMax G)) (\<lambda>_.
     seq (await_boot G b 1600 None) (\<lambda>t.
     reading (\<lambda>w. \<lparr>bt_tasks = t, bt_cold = cold, bt_icount = parse_int 10 (filter (\<lambda>c. c \<noteq> CHR '','') (g_icount G w))\<rparr>)))))"

definition run_probes ::
  "('w, 'z) runner_api_scheme \<Rightarrow> (string \<Rightarrow> ('w, string) act) \<Rightarrow> string list \<Rightarrow> ('w, string list) act" where
  "run_probes G probe argv =
     seq (boot G (boot_opts argv)) (\<lambda>b.
     seq (require ((case bt_tasks b of None \<Rightarrow> False | Some t \<Rightarrow> t \<ge> 42) \<or> ''--allow-partial'' \<in> set argv)
       ''boot did not complete -- every reading below would be of the wrong machine'') (\<lambda>_.
     each probe (files argv)))"

section \<open>What is a probe file\<close>

lemma indexOf_append: "x \<notin> set xs \<Longrightarrow> indexOf x (xs @ x # ys) = Some (length xs)"
  by (induction xs) auto

text \<open>The arguments numbered from \<open>k\<close> on.\<close>

fun numbered :: "nat \<Rightarrow> 'a list \<Rightarrow> (nat \<times> 'a) list" where
  "numbered k [] = []"
| "numbered k (x # xs) = (k, x) # numbered (Suc k) xs"

lemma zip_numbered: "zip [k..<k + length xs] xs = numbered k xs"
proof (induction xs arbitrary: k)
  case (Cons x xs)
  then show ?case using Cons [of "Suc k"] by (simp add: upt_conv_Cons del: upt_Suc)
qed simp

lemma numbered_append: "numbered k (xs @ ys) = numbered k xs @ numbered (k + length xs) ys"
  by (induction xs arbitrary: k) simp_all

lemma kept_numbered:
  assumes "j < int k \<or> int (k + length xs) \<le> j"
  shows "map snd (filter (\<lambda>(i, a). P a \<and> int i \<noteq> j) (numbered k xs)) = filter P xs"
  using assms by (induction xs arbitrary: k) auto

text \<open>
  The address is not a probe.  With \<open>--url\<close> and its value somewhere after the script, the probe files are
  the other arguments that are not flags, in order.
\<close>

theorem url_is_no_probe:
  assumes "''--url'' \<notin> set pre" "2 \<le> length pre"
  shows "files (pre @ [''--url'', u] @ post) = filter (\<lambda>a. \<not> prefix ''--'' a) (drop 2 pre @ post)"
proof -
  let ?argv = "pre @ [''--url'', u] @ post" and ?n = "length pre - 2"
  have u: "url_index ?argv = Some (length pre)" using indexOf_append [OF assms(1)] by (simp add: url_index_def)
  have d: "drop 2 ?argv = drop 2 pre @ ''--url'' # u # post" using assms(2) by simp
  have z: "zip [0..<length ?argv - 2] (drop 2 ?argv) = numbered 0 (drop 2 pre @ ''--url'' # u # post)"
    using zip_numbered [of 0 "drop 2 ?argv"] unfolding length_drop add_0 unfolding d .
  have n: "int (length pre) - 1 = int (Suc ?n)" using assms(2) by simp
  show ?thesis
    unfolding files_def u z numbered_append option.case numbered.simps filter_append map_append n
    by (simp add: kept_numbered prefix_def)
qed

theorem url_is_no_probe_witness:
  "files ([''node'', ''digibox-probe.mjs'', ''--cold''] @ [''--url'', ''http://localhost/''] @ [''keymap.js''])
    = filter (\<lambda>a. \<not> prefix ''--'' a) (drop 2 [''node'', ''digibox-probe.mjs'', ''--cold''] @ [''keymap.js''])"
  by (rule url_is_no_probe) simp_all

section \<open>The silent page\<close>

lemma occurs_inside: "occurs p (u @ p @ v)"
  unfolding occurs_def list_ex_iff by (rule bexI [of _ "p @ v"]) (simp_all add: suffix_def)

lemma silent_asked: "occurs ''?si='' (silentUnlessAsked u) \<or> occurs ''&si='' (silentUnlessAsked u)"
  using occurs_inside [of "''?si=''" u "''0''"] occurs_inside [of "''&si=''" u "''0''"]
  by (auto simp: silentUnlessAsked_def)

section \<open>The boot is waited for\<close>

lemma poll_runs: "\<exists>w'. poll G b w = (Inr (g_tasks G w'), w')"
  by (simp add: poll_def sleep_def on_flag_def)

lemma await_boot_runs:
  "\<exists>t' w'. await_boot G b n t w = (Inr t', w') \<and> (n = 0 \<longrightarrow> t' = t) \<and> (0 < n \<longrightarrow> t' = Some (g_tasks G w'))"
proof (induction n arbitrary: t w)
  case (Suc n)
  obtain w1 where p: "poll G b w = (Inr (g_tasks G w1), w1)" using poll_runs [of G b w] by blast
  show ?case
  proof (cases "g_tasks G w1 \<ge> 42")
    case True
    then show ?thesis by (simp add: seq_def p)
  next
    case False
    obtain t' w' where "await_boot G b n (Some (g_tasks G w1)) w1 = (Inr t', w')"
      "n = 0 \<longrightarrow> t' = Some (g_tasks G w1)" "0 < n \<longrightarrow> t' = Some (g_tasks G w')"
      using Suc.IH by blast
    then show ?thesis using False by (cases n) (auto simp: seq_def p)
  qed
qed simp

lemma boot_runs: "\<exists>B w'. boot G b w = (Inr B, w') \<and> bt_tasks B = Some (g_tasks G w')"
proof -
  obtain w1 where a: "arm_traces G b w = (Inr (), w1)" by (simp add: arm_traces_def on_flag_def)
  let ?w = "r_clickMax G w1"
  obtain t' w' where "await_boot G b 1600 None ?w = (Inr t', w')" "t' = Some (g_tasks G w')"
    using await_boot_runs [of G b 1600 None ?w] by auto
  then show ?thesis by (simp add: boot_def seq_def a)
qed


end
