(* ===== verification/Oracle_Capture.thy ===== *)
theory Oracle_Capture
  imports Oracle_Args Probe_Day
begin

text \<open>
  The instrumentation the oracle's capture scripts put in front of the emulator's \<open>burst\<close> loop
  (\<open>tools/oracle-section-acquisition.mjs\<close>, \<open>tools/oracle-cold-boot-capture.mjs\<close>,
  \<open>tools/oracle-warm-surface.mjs\<close>).  Each hook runs before every iteration of the loop: it stops the
  run at an instruction count, and sends sections, injects a fault or presses a key when its count is
  reached.  The rest of an iteration, the emulator itself, is the hook \<open>o_advance\<close>; it answers \<open>False\<close>
  when the loop is left.
\<close>

section \<open>The page the scripts instrument\<close>

record cp_state =
  cp_truncated :: bool
  cp_interval :: int
  cp_last :: int
  cp_count :: int

record ('w, 'd) oracle_api = "'w day_api" +
  o_icount :: "'w \<Rightarrow> int"
  o_stalled :: "'w \<Rightarrow> bool"
  o_advance :: "'w \<Rightarrow> bool \<times> 'w"
  o_halt :: "'w \<Rightarrow> 'w"
  o_disp :: "'w \<Rightarrow> 'd"
  o_pids :: "'d \<Rightarrow> string list"
  o_demodReads :: "'w \<Rightarrow> string \<rightharpoonup> int"
  o_siLog :: "'w \<Rightarrow> string list"
  o_remoteKey :: "int \<Rightarrow> int \<Rightarrow> 'w \<Rightarrow> 'w"
  o_gates :: "'w \<Rightarrow> bool \<times> bool"
  o_keyLog :: "'w \<Rightarrow> (int \<times> int) list"
  o_pc :: "'w \<Rightarrow> int"
  o_isa :: "'w \<Rightarrow> int"
  o_hi :: "'w \<Rightarrow> int"
  o_lo :: "'w \<Rightarrow> int"
  o_reg :: "'w \<Rightarrow> int list"
  o_cp0 :: "'w \<Rightarrow> int list"
  o_setCp0 :: "nat \<Rightarrow> int \<Rightarrow> 'w \<Rightarrow> 'w"
  o_cpHash :: "'w \<Rightarrow> int"
  o_cpState :: "'w \<Rightarrow> cp_state"

text \<open>
  The loop \<open>for(i = 0; i < n && !stalled; i++)\<close> with a hook at its head; the hook answers \<open>True\<close> when it
  returns from the loop.
\<close>

fun burst :: "('w, 'd, 'z) oracle_api_scheme \<Rightarrow> ('c \<times> 'w \<Rightarrow> bool \<times> 'c \<times> 'w) \<Rightarrow> nat \<Rightarrow> 'c \<times> 'w \<Rightarrow> 'c \<times> 'w" where
  "burst G hook 0 cw = cw"
| "burst G hook (Suc n) cw =
     (if o_stalled G (snd cw) then cw
      else case hook cw of
        (True, cw') \<Rightarrow> cw'
      | (False, c, w) \<Rightarrow> (case o_advance G w of (True, w') \<Rightarrow> burst G hook n (c, w') | (False, w') \<Rightarrow> (c, w')))"

definition bursts :: "('w, 'd, 'z) oracle_api_scheme \<Rightarrow> ('c \<times> 'w \<Rightarrow> bool \<times> 'c \<times> 'w) \<Rightarrow> nat list \<Rightarrow> 'c \<times> 'w \<Rightarrow> 'c \<times> 'w" where
  "bursts G hook ns cw = foldl (\<lambda>cw n. burst G hook n cw) cw ns"

section \<open>Section acquisition\<close>

definition SECTION_HITS :: "int list" where
  "SECTION_HITS = [0x800041B4, 0x80004520, 0x800044BC, 0x8000494A, 0x800A857A, 0x800A8594, 0x800A85D4,
     0x800A8630, 0x800AF866, 0x800A92D8, 0x800A9306, 0x800A937E, 0x800A6414, 0x800AD928]"

definition sectionHits :: "('w, 'z) page_api_scheme \<Rightarrow> 'w \<Rightarrow> (string \<times> int) list" where
  "sectionHits G w = pcHits G w SECTION_HITS"

record ring =
  ri_start :: int
  ri_end :: int
  ri_current :: int
  ri_last :: int
  ri_context :: int

definition ring_of :: "int list \<Rightarrow> ring" where
  "ring_of b = \<lparr>ri_start = be32 b, ri_end = be32 (drop 4 b), ri_current = be32 (drop 8 b),
                ri_last = be32 (drop 12 b), ri_context = be32 (drop 16 b)\<rparr>"

definition sectionRecords :: "('w, 'z) page_api_scheme \<Rightarrow> 'w \<Rightarrow> (int \<times> ring) list" where
  "sectionRecords G w = map (\<lambda>f. (f, ring_of (g_peek G w (0x80142D34 + f * 20) 20))) [21..24]"

record 'd sample =
  sm_at :: int
  sm_actualAt :: int
  sm_hits :: "(string \<times> int) list"
  sm_demux :: 'd
  sm_records :: "(int \<times> ring) list"
  sm_demodReads :: "string \<rightharpoonup> int"
  sm_tasks :: int
  sm_ids :: si_ids
  sm_matches :: "si_match list"

record push_entry =
  pe_scheduledAt :: int
  pe_at :: int
  pe_pid :: int
  pe_result :: push_result

record 'd after_capture =
  af_hits :: "(string \<times> int) list"
  af_demux :: 'd
  af_records :: "(int \<times> ring) list"
  af_demodReads :: "string \<rightharpoonup> int"
  af_siLog :: "string list"
  af_tasks :: int
  af_ids :: si_ids
  af_matches :: "si_match list"

record 'd section_capture =
  sc_profiled :: bool
  sc_next :: nat
  sc_pushes :: "push_entry list"
  sc_samples :: "'d sample list"
  sc_done :: bool
  sc_stoppedAt :: "int option"
  sc_after :: "'d after_capture option"

definition fresh_capture :: "'d section_capture" where
  "fresh_capture = \<lparr>sc_profiled = False, sc_next = 0, sc_pushes = [], sc_samples = [], sc_done = False,
     sc_stoppedAt = None, sc_after = None\<rparr>"

definition sample_of :: "('w, 'd, 'z) oracle_api_scheme \<Rightarrow> int \<Rightarrow> 'w \<Rightarrow> 'd sample" where
  "sample_of G t w = \<lparr>sm_at = t, sm_actualAt = o_icount G w, sm_hits = sectionHits G w, sm_demux = o_disp G w,
     sm_records = sectionRecords G w, sm_demodReads = o_demodReads G w, sm_tasks = g_tasks G w,
     sm_ids = d_ids G w, sm_matches = d_matches G w\<rparr>"

definition after_of :: "('w, 'd, 'z) oracle_api_scheme \<Rightarrow> 'w \<Rightarrow> 'd after_capture" where
  "after_of G w = \<lparr>af_hits = sectionHits G w, af_demux = o_disp G w, af_records = sectionRecords G w,
     af_demodReads = o_demodReads G w, af_siLog = o_siLog G w, af_tasks = g_tasks G w, af_ids = d_ids G w,
     af_matches = d_matches G w\<rparr>"

text \<open>A section is due when there is one left and its count is reached.\<close>

definition due :: "('w, 'd, 'z) oracle_api_scheme \<Rightarrow> osection list \<Rightarrow> 'd section_capture \<times> 'w \<Rightarrow> bool" where
  "due G secs cw \<longleftrightarrow> sc_next (fst cw) < length secs \<and> os_at (secs ! sc_next (fst cw)) \<le> o_icount G (snd cw)"

function push_due ::
  "('w, 'd, 'z) oracle_api_scheme \<Rightarrow> osection list \<Rightarrow> 'd section_capture \<times> 'w \<Rightarrow> 'd section_capture \<times> 'w" where
  "push_due G secs (c, w) =
     (if due G secs (c, w)
      then let s = secs ! sc_next c; t = o_icount G w; (r, w') = d_push G (os_pid s) (os_bytes s) w
           in push_due G secs (c\<lparr>sc_next := sc_next c + 1, sc_pushes := sc_pushes c @
                [\<lparr>pe_scheduledAt = os_at s, pe_at = t, pe_pid = os_pid s, pe_result = r\<rparr>]\<rparr>, w')
      else (c, w))"
  by pat_completeness auto
termination
  by (relation "measure (\<lambda>(G, secs, c, w). length secs - sc_next c)") (auto simp: due_def)

declare push_due.simps [simp del]

definition section_hook ::
  "('w, 'd, 'z) oracle_api_scheme \<Rightarrow> section_plan \<Rightarrow> 'd section_capture \<times> 'w \<Rightarrow> bool \<times> 'd section_capture \<times> 'w" where
  "section_hook G A cw =
     (let (c, w) = cw; secs = sa_sections A in
      if o_icount G w \<ge> sa_stopAt A
      then let w' = o_halt G w
           in (True, c\<lparr>sc_done := True, sc_stoppedAt := Some (o_icount G w'), sc_after := Some (after_of G w')\<rparr>, w')
      else
        let (c1, w1) = (if \<not> sc_profiled c \<and> o_icount G w \<ge> sa_sectionAt A - 100000
                        then (c\<lparr>sc_profiled := True\<rparr>, g_profile G w) else (c, w))
        in if due G secs (c1, w1)
           then (False, push_due G secs
                   (c1\<lparr>sc_samples := sc_samples c1 @ [sample_of G (os_at (secs ! sc_next c1)) w1]\<rparr>, w1))
           else (False, c1, w1))"

definition section_run ::
  "('w, 'd, 'z) oracle_api_scheme \<Rightarrow> section_plan \<Rightarrow> nat list \<Rightarrow> 'w \<Rightarrow> 'd section_capture \<times> 'w" where
  "section_run G A ns w = bursts G (section_hook G A) ns (fresh_capture, w)"

text \<open>The two checks the script makes of a capture before it reports it.\<close>

definition section_controls :: "section_plan \<Rightarrow> 'd section_capture \<Rightarrow> bool" where
  "section_controls A c \<longleftrightarrow> sc_done c \<and> length (sc_pushes c) = length (sa_sections A) \<and>
     list_all (\<lambda>(s, p). pr_ok (pe_result p) \<and> pe_scheduledAt p = os_at s \<and> pe_at p \<ge> pe_scheduledAt p \<and>
       pe_at p \<le> pe_scheduledAt p + 1) (zip (sa_sections A) (sc_pushes c)) \<and>
     sc_stoppedAt c = Some (sa_stopAt A) \<and>
     (case sc_after c of None \<Rightarrow> False | Some a \<Rightarrow> length (af_siLog a) = length (sa_sections A))"

definition acquired :: "('d \<Rightarrow> string list) \<Rightarrow> 'd after_capture \<Rightarrow> bool" where
  "acquired pids a \<longleftrightarrow> ''0x52'' \<in> set (pids (af_demux a)) \<and>
     list_all (\<lambda>t. list_ex (\<lambda>m. mt_tableId m = Some t) (af_matches a)) [0x40, 0x42, 0x4A, 0x73] \<and>
     (case map_of (af_hits a) ''0x800A6414'' of None \<Rightarrow> False | Some n \<Rightarrow> n > 0) \<and>
     (case af_demodReads a ''11'' of None \<Rightarrow> False | Some n \<Rightarrow> n > 0)"

section \<open>A machine that counts its instructions\<close>

text \<open>
  An iteration of the loop retires no instruction when it takes an interrupt, one as a rule, and a branch
  with its delay slot as two; the tools around it do not count.
\<close>

definition paced :: "('w, 'd, 'z) oracle_api_scheme \<Rightarrow> int \<Rightarrow> bool" where
  "paced G k \<longleftrightarrow>
     (\<forall>w. o_icount G w \<le> o_icount G (snd (o_advance G w)) \<and> o_icount G (snd (o_advance G w)) \<le> o_icount G w + k) \<and>
     (\<forall>w. o_icount G (g_profile G w) = o_icount G w) \<and> (\<forall>w. o_icount G (o_halt G w) = o_icount G w) \<and>
     (\<forall>pid bs w. o_icount G (snd (d_push G pid bs w)) = o_icount G w) \<and>
     (\<forall>raw src w. o_icount G (o_remoteKey G raw src w) = o_icount G w) \<and>
     (\<forall>i v w. o_icount G (o_setCp0 G i v w) = o_icount G w)"

lemma pacedD:
  assumes "paced G k"
  shows "o_icount G w \<le> o_icount G (snd (o_advance G w))" "o_icount G (snd (o_advance G w)) \<le> o_icount G w + k"
    "o_icount G (g_profile G w) = o_icount G w" "o_icount G (o_halt G w) = o_icount G w"
    "o_icount G (snd (d_push G pid bs w)) = o_icount G w" "o_icount G (o_remoteKey G raw src w) = o_icount G w"
    "o_icount G (o_setCp0 G i v w) = o_icount G w"
  using assms by (simp_all add: paced_def)

text \<open>
  An invariant of the loop's head: \<open>I\<close> holds there, the hook takes \<open>I\<close> to \<open>J\<close> unless it stops in a state
  with \<open>I\<close>, and an iteration takes \<open>J\<close> back to \<open>I\<close>.
\<close>

lemma burst_invariant:
  assumes "\<And>cw. I cw \<Longrightarrow> (case hook cw of (True, cw') \<Rightarrow> I cw' | (False, cw') \<Rightarrow> J cw')"
    and "\<And>c w. J (c, w) \<Longrightarrow> I (c, snd (o_advance G w))"
  shows "I cw \<Longrightarrow> I (burst G hook n cw)"
proof (induction n arbitrary: cw)
  case (Suc n)
  obtain b c w where h: "hook cw = (b, c, w)" by (cases "hook cw") auto
  obtain g w' where a: "o_advance G w = (g, w')" by force
  show ?case
  proof (cases "o_stalled G (snd cw) \<or> b")
    case True
    then show ?thesis using Suc.prems assms(1) [of cw] h by auto
  next
    case False
    then have "J (c, w)" using assms(1) [OF Suc.prems] h by simp
    then have "I (c, w')" using assms(2) a by fastforce
    then show ?thesis using False h a Suc.IH by (cases g) simp_all
  qed
qed simp

lemma bursts_invariant:
  assumes "\<And>cw. I cw \<Longrightarrow> (case hook cw of (True, cw') \<Rightarrow> I cw' | (False, cw') \<Rightarrow> J cw')"
    and "\<And>c w. J (c, w) \<Longrightarrow> I (c, snd (o_advance G w))"
  shows "I cw \<Longrightarrow> I (bursts G hook ns cw)"
  unfolding bursts_def by (induction ns arbitrary: cw) (simp_all add: burst_invariant [where I = I, OF assms])

section \<open>Sections are sent on time\<close>

definition sent :: "int \<Rightarrow> osection \<Rightarrow> push_entry \<Rightarrow> bool" where
  "sent k s p \<longleftrightarrow> pe_scheduledAt p = os_at s \<and> pe_pid p = os_pid s \<and> os_at s \<le> pe_at p \<and> pe_at p < os_at s + k"

text \<open>What holds of the capture wherever the loop is: the pushes made are those of the first sections.\<close>

definition pushed_so_far :: "int \<Rightarrow> section_plan \<Rightarrow> 'd section_capture \<Rightarrow> bool" where
  "pushed_so_far k A c \<longleftrightarrow> sc_next c \<le> length (sa_sections A) \<and>
     list_all2 (sent k) (take (sc_next c) (sa_sections A)) (sc_pushes c) \<and> (sc_pushes c \<noteq> [] \<longrightarrow> sc_profiled c)"

definition next_within :: "('w, 'd, 'z) oracle_api_scheme \<Rightarrow> int \<Rightarrow> section_plan \<Rightarrow> 'd section_capture \<times> 'w \<Rightarrow> bool" where
  "next_within G k A cw \<longleftrightarrow> (sc_next (fst cw) < length (sa_sections A) \<longrightarrow>
     o_icount G (snd cw) < os_at (sa_sections A ! sc_next (fst cw)) + k)"

definition at_head :: "('w, 'd, 'z) oracle_api_scheme \<Rightarrow> int \<Rightarrow> section_plan \<Rightarrow> 'd section_capture \<times> 'w \<Rightarrow> bool" where
  "at_head G k A cw \<longleftrightarrow> pushed_so_far k A (fst cw) \<and> next_within G k A cw \<and>
     o_icount G (snd cw) < sa_stopAt A + k \<and>
     (sc_done (fst cw) \<longrightarrow> sc_stoppedAt (fst cw) = Some (o_icount G (snd cw)) \<and> sa_stopAt A \<le> o_icount G (snd cw))"

definition past_hook :: "('w, 'd, 'z) oracle_api_scheme \<Rightarrow> int \<Rightarrow> section_plan \<Rightarrow> 'd section_capture \<times> 'w \<Rightarrow> bool" where
  "past_hook G k A cw \<longleftrightarrow> pushed_so_far k A (fst cw) \<and> next_within G 0 A cw \<and>
     o_icount G (snd cw) < sa_stopAt A \<and> \<not> sc_done (fst cw)"

lemma sections_sorted:
  assumes "schedule_ok A" "i \<le> j" "j < length (sa_sections A)"
  shows "os_at (sa_sections A ! i) \<le> os_at (sa_sections A ! j)"
  using assms sorted_nth_mono [of "map os_at (sa_sections A)" i j] by (simp add: schedule_ok_def)

lemma push_due_sent:
  assumes "paced G k" "schedule_ok A" "pushed_so_far k A c" "next_within G k A (c, w)" "sc_profiled c"
  shows "pushed_so_far k A (fst (push_due G (sa_sections A) (c, w))) \<and>
    next_within G 0 A (push_due G (sa_sections A) (c, w)) \<and>
    o_icount G (snd (push_due G (sa_sections A) (c, w))) = o_icount G w \<and>
    sc_done (fst (push_due G (sa_sections A) (c, w))) = sc_done c"
  using assms(3-5)
proof (induction "length (sa_sections A) - sc_next c" arbitrary: c w)
  case 0
  then show ?case by (simp add: push_due.simps due_def next_within_def)
next
  case (Suc m)
  let ?secs = "sa_sections A" and ?n = "sc_next c"
  show ?case
  proof (cases "due G ?secs (c, w)")
    case False
    then show ?thesis using Suc.prems by (auto simp: push_due.simps due_def next_within_def)
  next
    case True
    let ?s = "?secs ! ?n"
    obtain r w' where p: "d_push G (os_pid ?s) (os_bytes ?s) w = (r, w')" by force
    then have t: "o_icount G w' = o_icount G w" using pacedD(5) [OF assms(1)] by (metis snd_conv)
    let ?c = "c\<lparr>sc_next := ?n + 1, sc_pushes := sc_pushes c @
      [\<lparr>pe_scheduledAt = os_at ?s, pe_at = o_icount G w, pe_pid = os_pid ?s, pe_result = r\<rparr>]\<rparr>"
    have n: "?n < length ?secs" "os_at ?s \<le> o_icount G w" using True by (simp_all add: due_def)
    have "pushed_so_far k A ?c"
      using Suc.prems n by (simp add: pushed_so_far_def next_within_def take_Suc_conv_app_nth list_all2_appendI sent_def)
    moreover have "next_within G k A (?c, w')"
      using Suc.prems(2) n t sections_sorted [OF assms(2), of ?n "?n + 1"] by (force simp: next_within_def)
    moreover have "m = length ?secs - sc_next ?c" "sc_profiled ?c" using Suc.hyps(2) Suc.prems(3) by simp_all
    ultimately show ?thesis
      using Suc.hyps(1) [of ?c w'] True p t by (simp add: push_due.simps [of G ?secs c w] Let_def)
  qed
qed

lemma section_hook_head:
  assumes "paced G k" "schedule_ok A" "at_head G k A cw"
  shows "case section_hook G A cw of (True, cw') \<Rightarrow> at_head G k A cw' | (False, cw') \<Rightarrow> past_hook G k A cw'"
proof -
  obtain c w where cw: "cw = (c, w)" by force
  note I = assms(3) [unfolded at_head_def cw fst_conv snd_conv]
  show ?thesis
  proof (cases "o_icount G w \<ge> sa_stopAt A")
    case True
    then show ?thesis using I pacedD(4) [OF assms(1)]
      by (simp add: cw section_hook_def Let_def at_head_def pushed_so_far_def next_within_def)
  next
    case False
    let ?c = "if \<not> sc_profiled c \<and> o_icount G w \<ge> sa_sectionAt A - 100000 then c\<lparr>sc_profiled := True\<rparr> else c"
    let ?w = "if \<not> sc_profiled c \<and> o_icount G w \<ge> sa_sectionAt A - 100000 then g_profile G w else w"
    let ?secs = "sa_sections A"
    let ?c2 = "?c\<lparr>sc_samples := sc_samples ?c @ [sample_of G (os_at (?secs ! sc_next ?c)) ?w]\<rparr>"
    have t: "o_icount G ?w = o_icount G w" using pacedD(3) [OF assms(1)] by simp
    have p: "pushed_so_far k A ?c" "pushed_so_far k A ?c2" "next_within G k A (?c, ?w)" "next_within G k A (?c2, ?w)"
      using I t by (auto simp: pushed_so_far_def next_within_def)
    have nd: "\<not> sc_done ?c" using I False by auto
    have "section_hook G A cw = (False, if due G ?secs (?c, ?w) then push_due G ?secs (?c2, ?w) else (?c, ?w))"
      using False by (simp add: cw section_hook_def Let_def)
    moreover have "past_hook G k A (push_due G ?secs (?c2, ?w))" if d: "due G ?secs (?c, ?w)"
    proof -
      have "sa_sectionAt A \<le> os_at (?secs ! sc_next ?c)"
        using assms(2) d by (simp add: schedule_ok_def list_all_length due_def)
      then have "sc_profiled ?c2" using d t by (auto simp: due_def)
      then show ?thesis using push_due_sent [OF assms(1,2) p(2,4)] nd False t by (simp add: past_hook_def)
    qed
    moreover have "past_hook G k A (?c, ?w)" if "\<not> due G ?secs (?c, ?w)"
      using p(1) nd False t that by (auto simp: past_hook_def next_within_def due_def)
    ultimately show ?thesis by simp
  qed
qed

lemma past_hook_advance:
  assumes "paced G k" "past_hook G k A (c, w)"
  shows "at_head G k A (c, snd (o_advance G w))"
  using assms(2) pacedD(2) [OF assms(1), of w] by (auto simp: past_hook_def at_head_def next_within_def)

lemma section_run_head:
  assumes "paced G k" "1 \<le> k" "schedule_ok A" "o_icount G w \<le> sa_sectionAt A"
  shows "at_head G k A (section_run G A ns w)"
  unfolding section_run_def
proof (rule bursts_invariant [where I = "at_head G k A" and J = "past_hook G k A"])
  have "sa_sectionAt A \<le> os_at (sa_sections A ! 0)" "sa_sections A \<noteq> []"
    using assms(3) by (auto simp: schedule_ok_def list_all_length)
  then show "at_head G k A (fresh_capture, w)"
    using assms by (auto simp: at_head_def fresh_capture_def pushed_so_far_def next_within_def schedule_ok_def)
qed (rule section_hook_head [OF assms(1,3)] past_hook_advance [OF assms(1)], assumption)+

text \<open>
  C17.  Sections go out on time and in order.  Whatever arguments the script accepts, on a page whose iterations
  retire at most \<open>k\<close> instructions: the pushes made are those of the first sections of the schedule, each on
  its PID and less than \<open>k\<close> instructions late; the profiler runs by then; and a run that is done stopped
  less than \<open>k\<close> instructions late and has left out only sections due less than \<open>k\<close> instructions before
  the stop.
\<close>

theorem sections_sent_on_time:
  assumes "section_args args = Inr A" "paced G k" "1 \<le> k" "o_icount G w \<le> sa_sectionAt A"
  shows "case section_run G A ns w of (c, w') \<Rightarrow>
    list_all2 (sent k) (take (sc_next c) (sa_sections A)) (sc_pushes c) \<and> (sc_pushes c \<noteq> [] \<longrightarrow> sc_profiled c) \<and>
    (sc_done c \<longrightarrow> (\<exists>t. sc_stoppedAt c = Some t \<and> sa_stopAt A \<le> t \<and> t < sa_stopAt A + k) \<and>
      list_all (\<lambda>s. sa_stopAt A < os_at s + k) (drop (sc_next c) (sa_sections A)))"
proof -
  have ok: "schedule_ok A" using assms(1) by (rule accepted_schedule)
  obtain c w' where r: "section_run G A ns w = (c, w')" by force
  have I: "at_head G k A (c, w')" using section_run_head [OF assms(2,3) ok assms(4), of ns] by (simp add: r)
  have "sa_stopAt A < os_at s + k" if dn: "sc_done c" and el: "s \<in> set (drop (sc_next c) (sa_sections A))" for s
  proof -
    obtain i where "i < length (drop (sc_next c) (sa_sections A))" "drop (sc_next c) (sa_sections A) ! i = s"
      using el unfolding in_set_conv_nth by blast
    then have i: "sc_next c + i < length (sa_sections A)" "s = sa_sections A ! (sc_next c + i)" by auto
    then show ?thesis using I dn sections_sorted [OF ok, of "sc_next c" "sc_next c + i"] by (auto simp: at_head_def next_within_def)
  qed
  then show ?thesis using I by (auto simp: r at_head_def pushed_so_far_def list_all_iff)
qed

text \<open>A page whose every iteration retires one instruction, which takes every section and counts what is done to it.\<close>

definition counting_page :: "(int \<times> nat, unit) oracle_api" where
  "counting_page = \<lparr>g_hist = (\<lambda>w a. 0), g_profile = (\<lambda>w. w), g_wait = (\<lambda>ms w. w), g_peek = (\<lambda>w a n. replicate n 0),
     g_poke = (\<lambda>a bs w. w), g_key = (\<lambda>raw src w. (''sent'', w)), g_blitLog = (\<lambda>w. []), g_tasks = (\<lambda>w. 42),
     g_shot = (\<lambda>n w. w), g_icount = (\<lambda>w. dec_string (fst w)), d_boxstate = (\<lambda>w. ''Ready''), d_filters = (\<lambda>w. []),
     d_matches = (\<lambda>w. []), d_ids = (\<lambda>w. \<lparr>id_bouquetId = None, id_bouquetIdMask = None, id_tsid = 0, id_networkId = 0\<rparr>),
     d_push = (\<lambda>pid sec w. (\<lparr>pr_ok = True, pr_why = []\<rparr>, w)),
     d_NIT = (\<lambda>v w. (\<lparr>pr_ok = True, pr_why = []\<rparr>, w)), d_SDT = (\<lambda>v w. (\<lparr>pr_ok = True, pr_why = []\<rparr>, w)),
     d_TDT = (\<lambda>y mo d hh w. (tdt_utc y mo d hh, w)), d_TOT = (\<lambda>y mo d hh w. w), d_carouselRunning = (\<lambda>w. False),
     d_eepromWrites = (\<lambda>w. 0), d_traceCalls = (\<lambda>ts w. w), d_traceClear = (\<lambda>w. w), d_traceLog = (\<lambda>w. []),
     d_readWatch = (\<lambda>lo hi pcs mx w. (mx, w)), d_readWatchLog = (\<lambda>w. \<lparr>wl_byPc = None, wl_all = [], wl_capped = False\<rparr>),
     d_readUnwatch = (\<lambda>w. w), d_call = (\<lambda>a i args w. (''{}'', w)),
     o_icount = fst, o_stalled = (\<lambda>w. False), o_advance = (\<lambda>w. (True, apfst (\<lambda>n. n + 1) w)), o_halt = (\<lambda>w. w),
     o_disp = (\<lambda>w. ()), o_pids = (\<lambda>d. []), o_demodReads = (\<lambda>w. Map.empty), o_siLog = (\<lambda>w. []),
     o_remoteKey = (\<lambda>raw src w. apsnd Suc w), o_gates = (\<lambda>w. (True, True)), o_keyLog = (\<lambda>w. []),
     o_pc = (\<lambda>w. 0), o_isa = (\<lambda>w. 1), o_hi = (\<lambda>w. 0), o_lo = (\<lambda>w. 0), o_reg = (\<lambda>w. []), o_cp0 = (\<lambda>w. replicate 32 0),
     o_setCp0 = (\<lambda>i v w. apsnd Suc w), o_cpHash = (\<lambda>w. 0),
     o_cpState = (\<lambda>w. \<lparr>cp_truncated = False, cp_interval = 1000, cp_last = 0, cp_count = 0\<rparr>)\<rparr>"

lemma counting_page_paced: "paced counting_page 1"
  by (simp add: paced_def counting_page_def)

theorem sections_sent_on_time_witness:
  "\<exists>A. section_args [] = Inr A \<and> (case section_run counting_page A [20000, 5] (69990000, 0) of (c, w') \<Rightarrow>
    list_all2 (sent 1) (take (sc_next c) (sa_sections A)) (sc_pushes c) \<and> (sc_pushes c \<noteq> [] \<longrightarrow> sc_profiled c) \<and>
    (sc_done c \<longrightarrow> (\<exists>t. sc_stoppedAt c = Some t \<and> sa_stopAt A \<le> t \<and> t < sa_stopAt A + 1) \<and>
      list_all (\<lambda>s. sa_stopAt A < os_at s + 1) (drop (sc_next c) (sa_sections A))))"
proof -
  obtain A where A: "section_args [] = Inr A" "sa_sectionAt A = 70000000" using default_schedule by blast
  have "o_icount counting_page (69990000, 0) \<le> sa_sectionAt A" by (simp add: A(2) counting_page_def)
  note run = sections_sent_on_time [OF A(1) counting_page_paced order_refl this]
  show ?thesis by (intro exI conjI) (rule A(1), rule run)
qed

end
