(* ===== verification/Oracle_Boot.thy ===== *)
theory Oracle_Boot
  imports Oracle_Capture
begin

text \<open>
  The two capture scripts that act once: \<open>tools/oracle-warm-surface.mjs\<close> presses the Sky key when the
  instruction count is reached and reports the surface and the blits it caused, and
  \<open>tools/oracle-cold-boot-capture.mjs\<close> flips a status bit, if asked to, and records a window of the run.
\<close>

section \<open>The warm surface\<close>

record warm_surface =
  ws_hash :: string
  ws_distinctColours :: int
  ws_top :: "string list"

definition warm_top :: "int list \<Rightarrow> string list" where
  "warm_top bs = map (\<lambda>k. ''0x'' @ hex_string k @ '':'' @ dec_string (colour_count bs k))
     (take 6 (sort_key (\<lambda>k. - colour_count bs k) (colour_keys bs)))"

definition warmSurface :: "('w, 'z) page_api_scheme \<Rightarrow> 'w \<Rightarrow> warm_surface" where
  "warmSurface G w = (let bs = g_peek G w 0x80584048 (720 * 576) in
     \<lparr>ws_hash = h8 (uint (surface_hash bs)), ws_distinctColours = int (length (colour_keys bs)), ws_top = warm_top bs\<rparr>)"

record warm_capture =
  wc_keyIcount :: "int option"
  wc_done :: bool
  wc_before :: "warm_surface option"
  wc_beforeBlits :: "int option"
  wc_stopIcount :: "int option"
  wc_after :: "warm_surface option"
  wc_tasks :: int
  wc_gates :: "bool \<times> bool"
  wc_blits :: int
  wc_keyBlits :: "int option"
  wc_keyLog :: "(int \<times> int) list"

definition fresh_warm :: warm_capture where
  "fresh_warm = \<lparr>wc_keyIcount = None, wc_done = False, wc_before = None, wc_beforeBlits = None, wc_stopIcount = None,
     wc_after = None, wc_tasks = 0, wc_gates = (False, False), wc_blits = 0, wc_keyBlits = None, wc_keyLog = []\<rparr>"

definition warm_stop :: "('w, 'd, 'z) oracle_api_scheme \<Rightarrow> warm_capture \<Rightarrow> 'w \<Rightarrow> warm_capture" where
  "warm_stop G c w =
     (let blits = int (length (g_blitLog G w)); log = o_keyLog G w
      in c\<lparr>wc_done := True, wc_stopIcount := Some (o_icount G w), wc_after := Some (warmSurface G w),
           wc_tasks := g_tasks G w, wc_gates := o_gates G w, wc_blits := blits,
           wc_keyBlits := map_option (\<lambda>b. blits - b) (wc_beforeBlits c), wc_keyLog := drop (length log - 2) log\<rparr>)"

definition warm_hook ::
  "('w, 'd, 'z) oracle_api_scheme \<Rightarrow> warm_plan \<Rightarrow> warm_capture \<times> 'w \<Rightarrow> bool \<times> warm_capture \<times> 'w" where
  "warm_hook G A cw =
     (let (c, w) = cw in
      if o_icount G w \<ge> wa_stopAt A then let w' = o_halt G w in (True, warm_stop G c w', w')
      else if wc_keyIcount c = None \<and> o_icount G w \<ge> wa_keyAt A
      then (False, c\<lparr>wc_before := Some (warmSurface G w), wc_beforeBlits := Some (int (length (g_blitLog G w))),
                    wc_keyIcount := Some (o_icount G w)\<rparr>, o_remoteKey G 0x7D 0 w)
      else (False, c, w))"

definition warm_run :: "('w, 'd, 'z) oracle_api_scheme \<Rightarrow> warm_plan \<Rightarrow> nat list \<Rightarrow> 'w \<Rightarrow> warm_capture \<times> 'w" where
  "warm_run G A ns w = bursts G (warm_hook G A) ns (fresh_warm, w)"

definition warm_controls :: "warm_plan \<Rightarrow> warm_capture \<Rightarrow> bool" where
  "warm_controls A c \<longleftrightarrow> wc_done c \<and> wc_tasks c = 42 \<and> wc_keyIcount c = Some (wa_keyAt A) \<and>
     wc_stopIcount c = Some (wa_stopAt A) \<and> wc_gates c = (True, True) \<and>
     list_ex (\<lambda>(t, raw). t = wa_keyAt A \<and> raw = 0x7D) (wc_keyLog c) \<and> wc_keyBlits c = Some 11 \<and>
     (case wc_after c of None \<Rightarrow> False | Some s \<Rightarrow> ws_distinctColours s = 37)"

section \<open>The cold boot\<close>

record trace_row =
  tr_at :: int
  tr_pc :: int
  tr_isa :: int
  tr_hi :: int
  tr_lo :: int
  tr_reg :: "int list"
  tr_cp0 :: "int list"
  tr_hash :: int

definition coldTrace :: "('w, 'd, 'z) oracle_api_scheme \<Rightarrow> 'w \<Rightarrow> trace_row" where
  "coldTrace G w = \<lparr>tr_at = o_icount G w, tr_pc = to_u32 (o_pc G w), tr_isa = o_isa G w, tr_hi = to_u32 (o_hi G w),
     tr_lo = to_u32 (o_lo G w), tr_reg = map to_u32 (o_reg G w), tr_cp0 = map to_u32 (o_cp0 G w),
     tr_hash = to_u32 (o_cpHash G w)\<rparr>"

record cold_capture =
  cc_injected :: bool
  cc_injectedAt :: "int option"
  cc_done :: bool
  cc_trace :: "trace_row list"
  cc_stopIcount :: "int option"
  cc_tasks :: int
  cc_cp :: "cp_state option"

definition fresh_cold :: cold_capture where
  "fresh_cold = \<lparr>cc_injected = False, cc_injectedAt = None, cc_done = False, cc_trace = [], cc_stopIcount = None,
     cc_tasks = 0, cc_cp = None\<rparr>"

definition cold_inject :: "('w, 'd, 'z) oracle_api_scheme \<Rightarrow> cold_plan \<Rightarrow> cold_capture \<times> 'w \<Rightarrow> cold_capture \<times> 'w" where
  "cold_inject G A cw =
     (let (c, w) = cw in
      if \<not> cc_injected c \<and> ca_injectAt A \<ge> 0 \<and> o_icount G w \<ge> ca_injectAt A
      then let w' = o_setCp0 G 12 (o_cp0 G w ! 12 XOR 0x10000000) w
           in (c\<lparr>cc_injected := True, cc_injectedAt := Some (o_icount G w')\<rparr>, w')
      else (c, w))"

definition cold_record :: "('w, 'd, 'z) oracle_api_scheme \<Rightarrow> cold_plan \<Rightarrow> cold_capture \<times> 'w \<Rightarrow> cold_capture \<times> 'w" where
  "cold_record G A cw =
     (let (c, w) = cw in
      if o_icount G w \<ge> ca_traceFrom A \<and> o_icount G w < ca_traceTo A
      then (c\<lparr>cc_trace := cc_trace c @ [coldTrace G w]\<rparr>, w) else (c, w))"

definition cold_hook ::
  "('w, 'd, 'z) oracle_api_scheme \<Rightarrow> cold_plan \<Rightarrow> cold_capture \<times> 'w \<Rightarrow> bool \<times> cold_capture \<times> 'w" where
  "cold_hook G A cw =
     (let (c, w) = cw in
      if o_icount G w \<ge> ca_stopAt A
      then let w' = o_halt G w
           in (True, c\<lparr>cc_done := True, cc_stopIcount := Some (o_icount G w'), cc_tasks := g_tasks G w',
                      cc_cp := Some (o_cpState G w')\<rparr>, w')
      else (False, cold_record G A (cold_inject G A cw)))"

definition cold_run :: "('w, 'd, 'z) oracle_api_scheme \<Rightarrow> cold_plan \<Rightarrow> nat list \<Rightarrow> 'w \<Rightarrow> cold_capture \<times> 'w" where
  "cold_run G A ns w = bursts G (cold_hook G A) ns (fresh_cold, w)"

definition cold_controls :: "cold_plan \<Rightarrow> cold_capture \<Rightarrow> bool" where
  "cold_controls A c \<longleftrightarrow> cc_done c \<and> cc_stopIcount c = Some (ca_stopAt A) \<and>
     (case cc_cp c of None \<Rightarrow> False | Some s \<Rightarrow>
        \<not> cp_truncated s \<and> cp_interval s = ca_interval A \<and> cp_last s \<ge> ca_stopAt A - ca_interval A) \<and>
     (ca_stopAt A \<ge> 470000000 \<longrightarrow> cc_tasks c = 42) \<and> cc_injected c = (ca_injectAt A \<ge> 0)"

section \<open>The key is pressed once\<close>

text \<open>A tally of what is done to the box: an action of the given kind adds one, nothing else changes it.\<close>

definition only_keys_counted :: "('w, 'd, 'z) oracle_api_scheme \<Rightarrow> ('w \<Rightarrow> nat) \<Rightarrow> bool" where
  "only_keys_counted G keys \<longleftrightarrow> (\<forall>w. keys (o_remoteKey G 0x7D 0 w) = Suc (keys w)) \<and>
     (\<forall>w. keys (snd (o_advance G w)) = keys w) \<and> (\<forall>w. keys (o_halt G w) = keys w)"

definition key_timed :: "('w, 'd, 'z) oracle_api_scheme \<Rightarrow> ('w \<Rightarrow> nat) \<Rightarrow> nat \<Rightarrow> int \<Rightarrow> warm_plan \<Rightarrow> warm_capture \<times> 'w \<Rightarrow> bool" where
  "key_timed G keys n k A cw \<longleftrightarrow>
     (case wc_keyIcount (fst cw) of
        None \<Rightarrow> keys (snd cw) = n \<and> o_icount G (snd cw) < wa_keyAt A + k
      | Some t \<Rightarrow> keys (snd cw) = Suc n \<and> wa_keyAt A \<le> t \<and> t < wa_keyAt A + k)"

definition warm_head :: "('w, 'd, 'z) oracle_api_scheme \<Rightarrow> ('w \<Rightarrow> nat) \<Rightarrow> nat \<Rightarrow> int \<Rightarrow> warm_plan \<Rightarrow> warm_capture \<times> 'w \<Rightarrow> bool" where
  "warm_head G keys n k A cw \<longleftrightarrow> key_timed G keys n k A cw \<and> o_icount G (snd cw) < wa_stopAt A + k \<and>
     (wc_done (fst cw) \<longrightarrow> wc_stopIcount (fst cw) = Some (o_icount G (snd cw)) \<and> wa_stopAt A \<le> o_icount G (snd cw))"

definition warm_past :: "('w, 'd, 'z) oracle_api_scheme \<Rightarrow> ('w \<Rightarrow> nat) \<Rightarrow> nat \<Rightarrow> int \<Rightarrow> warm_plan \<Rightarrow> warm_capture \<times> 'w \<Rightarrow> bool" where
  "warm_past G keys n k A cw \<longleftrightarrow> o_icount G (snd cw) < wa_stopAt A \<and> \<not> wc_done (fst cw) \<and>
     (case wc_keyIcount (fst cw) of
        None \<Rightarrow> keys (snd cw) = n \<and> o_icount G (snd cw) < wa_keyAt A
      | Some t \<Rightarrow> keys (snd cw) = Suc n \<and> wa_keyAt A \<le> t \<and> t < wa_keyAt A + k)"

lemma warm_hook_head:
  assumes "paced G k" "only_keys_counted G keys" "warm_head G keys n k A cw"
  shows "case warm_hook G A cw of (True, cw') \<Rightarrow> warm_head G keys n k A cw' | (False, cw') \<Rightarrow> warm_past G keys n k A cw'"
proof -
  note h = assms(3) [unfolded warm_head_def key_timed_def] and q = assms(2) [unfolded only_keys_counted_def]
  show ?thesis
  proof (cases "o_icount G (snd cw) \<ge> wa_stopAt A")
    case True
    then show ?thesis using h q pacedD(4) [OF assms(1)]
      by (simp add: warm_hook_def Let_def split_beta warm_head_def key_timed_def warm_stop_def split: option.splits)
  next
    case False
    then show ?thesis using h q pacedD(6) [OF assms(1)]
      by (auto simp: warm_hook_def Let_def split_beta warm_past_def split: option.splits)
  qed
qed

lemma warm_past_advance:
  assumes "paced G k" "1 \<le> k" "only_keys_counted G keys" "warm_past G keys n k A (c, w)"
  shows "warm_head G keys n k A (c, snd (o_advance G w))"
  using assms(2,4) assms(3) [unfolded only_keys_counted_def] pacedD(2) [OF assms(1), of w]
  by (auto simp: warm_past_def warm_head_def key_timed_def split: option.splits)

lemma warm_args_ok: "warm_args inRoot len args = Inr A \<Longrightarrow> 1 \<le> wa_keyAt A \<and> wa_keyAt A < wa_stopAt A"
  unfolding warm_args_def and_then_Inr by (elim exE conjE) (simp split: option.splits if_splits, auto)

text \<open>
  C24.  The Sky key is pressed once, on time.  On a page whose iterations retire at most \<open>k\<close> instructions, the run
  presses the key at most once, less than \<open>k\<close> instructions after its count; when it is done it stopped less
  than \<open>k\<close> late, and the key was pressed unless its count is less than \<open>k\<close> before the stop.
\<close>

theorem warm_key_pressed_once:
  assumes "warm_args inRoot len args = Inr A" "paced G k" "1 \<le> k" "only_keys_counted G keys" "o_icount G w \<le> wa_keyAt A"
  shows "case warm_run G A ns w of (c, w') \<Rightarrow>
    keys w' = keys w + (if wc_keyIcount c = None then 0 else 1) \<and>
    (\<forall>t. wc_keyIcount c = Some t \<longrightarrow> wa_keyAt A \<le> t \<and> t < wa_keyAt A + k) \<and>
    (wc_done c \<longrightarrow> (\<exists>t. wc_stopIcount c = Some t \<and> wa_stopAt A \<le> t \<and> t < wa_stopAt A + k) \<and>
      (wc_keyIcount c = None \<longrightarrow> wa_stopAt A < wa_keyAt A + k))"
proof -
  note a = warm_args_ok [OF assms(1)]
  have "warm_head G keys (keys w) k A (fresh_warm, w)"
    using assms(3,5) a by (simp add: warm_head_def key_timed_def fresh_warm_def)
  then have "warm_head G keys (keys w) k A (warm_run G A ns w)"
    unfolding warm_run_def
    by (rule bursts_invariant [where J = "warm_past G keys (keys w) k A", rotated 2])
      (rule warm_hook_head [OF assms(2,4)] warm_past_advance [OF assms(2,3,4)], assumption)+
  then show ?thesis by (auto simp: warm_head_def key_timed_def split: option.splits)
qed

theorem warm_key_pressed_once_witness:
  "\<exists>A. warm_args (\<lambda>p. p) (\<lambda>p. 16384) [] = Inr A \<and> (case warm_run counting_page A [5, 7] (199999998, 0) of (c, w') \<Rightarrow>
    snd w' = snd (199999998 :: int, 0 :: nat) + (if wc_keyIcount c = None then 0 else 1) \<and>
    (\<forall>t. wc_keyIcount c = Some t \<longrightarrow> wa_keyAt A \<le> t \<and> t < wa_keyAt A + 1) \<and>
    (wc_done c \<longrightarrow> (\<exists>t. wc_stopIcount c = Some t \<and> wa_stopAt A \<le> t \<and> t < wa_stopAt A + 1) \<and>
      (wc_keyIcount c = None \<longrightarrow> wa_stopAt A < wa_keyAt A + 1)))"
proof -
  obtain A where A: "warm_args (\<lambda>p. p) (\<lambda>p. 16384) [] = Inr A" "wa_keyAt A = 200000000"
    by (simp add: warm_args_def arg_def default_numbers)
  have t: "o_icount counting_page (199999998, 0) \<le> wa_keyAt A" by (simp add: A(2) counting_page_def)
  have "only_keys_counted counting_page snd" by (simp add: only_keys_counted_def counting_page_def)
  note run = warm_key_pressed_once [OF A(1) counting_page_paced order_refl this t]
  show ?thesis by (intro exI conjI) (rule A(1), rule run)
qed

section \<open>The fault is injected once\<close>

definition only_flips_counted :: "('w, 'd, 'z) oracle_api_scheme \<Rightarrow> ('w \<Rightarrow> nat) \<Rightarrow> bool" where
  "only_flips_counted G flips \<longleftrightarrow> (\<forall>i v w. flips (o_setCp0 G i v w) = Suc (flips w)) \<and>
     (\<forall>w. flips (snd (o_advance G w)) = flips w) \<and> (\<forall>w. flips (o_halt G w) = flips w)"

definition fault_ok :: "nat \<Rightarrow> int \<Rightarrow> cold_plan \<Rightarrow> cold_capture \<Rightarrow> nat \<Rightarrow> bool" where
  "fault_ok n k A c m \<longleftrightarrow> m = n + (if cc_injected c then 1 else 0) \<and>
     (cc_injected c \<longrightarrow> 0 \<le> ca_injectAt A \<and>
       (\<exists>t. cc_injectedAt c = Some t \<and> ca_injectAt A \<le> t \<and> t < ca_injectAt A + k))"

definition trace_ok :: "int \<Rightarrow> cold_plan \<Rightarrow> cold_capture \<Rightarrow> bool" where
  "trace_ok now A c \<longleftrightarrow> sorted (map tr_at (cc_trace c)) \<and>
     list_all (\<lambda>r. ca_traceFrom A \<le> tr_at r \<and> tr_at r < ca_traceTo A \<and> tr_at r \<le> now) (cc_trace c)"

definition cold_head :: "('w, 'd, 'z) oracle_api_scheme \<Rightarrow> ('w \<Rightarrow> nat) \<Rightarrow> nat \<Rightarrow> int \<Rightarrow> cold_plan \<Rightarrow> cold_capture \<times> 'w \<Rightarrow> bool" where
  "cold_head G flips n k A cw \<longleftrightarrow> fault_ok n k A (fst cw) (flips (snd cw)) \<and> trace_ok (o_icount G (snd cw)) A (fst cw) \<and>
     (\<not> cc_injected (fst cw) \<longrightarrow> 0 \<le> ca_injectAt A \<longrightarrow> o_icount G (snd cw) < ca_injectAt A + k) \<and>
     o_icount G (snd cw) < ca_stopAt A + k \<and>
     (cc_done (fst cw) \<longrightarrow> cc_stopIcount (fst cw) = Some (o_icount G (snd cw)) \<and> ca_stopAt A \<le> o_icount G (snd cw))"

definition cold_past :: "('w, 'd, 'z) oracle_api_scheme \<Rightarrow> ('w \<Rightarrow> nat) \<Rightarrow> nat \<Rightarrow> int \<Rightarrow> cold_plan \<Rightarrow> cold_capture \<times> 'w \<Rightarrow> bool" where
  "cold_past G flips n k A cw \<longleftrightarrow> fault_ok n k A (fst cw) (flips (snd cw)) \<and> trace_ok (o_icount G (snd cw)) A (fst cw) \<and>
     (\<not> cc_injected (fst cw) \<longrightarrow> 0 \<le> ca_injectAt A \<longrightarrow> o_icount G (snd cw) < ca_injectAt A) \<and>
     o_icount G (snd cw) < ca_stopAt A \<and> \<not> cc_done (fst cw)"

lemma cold_record_past: "cold_past G flips n k A cw \<Longrightarrow> cold_past G flips n k A (cold_record G A cw)"
  by (cases cw) (auto simp: cold_record_def cold_past_def trace_ok_def fault_ok_def coldTrace_def sorted_append list_all_iff)

lemma cold_inject_past:
  assumes "paced G k" "only_flips_counted G flips" "cold_head G flips n k A cw" "o_icount G (snd cw) < ca_stopAt A"
  shows "cold_past G flips n k A (cold_inject G A cw)"
  using assms(3,4) assms(2) [unfolded only_flips_counted_def] pacedD(7) [OF assms(1)]
  by (auto simp: cold_inject_def cold_head_def cold_past_def fault_ok_def trace_ok_def Let_def split_beta)

lemma cold_hook_head:
  assumes "paced G k" "only_flips_counted G flips" "cold_head G flips n k A cw"
  shows "case cold_hook G A cw of (True, cw') \<Rightarrow> cold_head G flips n k A cw' | (False, cw') \<Rightarrow> cold_past G flips n k A cw'"
proof (cases "o_icount G (snd cw) \<ge> ca_stopAt A")
  case True
  then show ?thesis
    using assms(3) assms(2) [unfolded only_flips_counted_def] pacedD(4) [OF assms(1)]
    by (simp add: cold_hook_def Let_def split_beta cold_head_def fault_ok_def trace_ok_def)
next
  case False
  then show ?thesis using cold_record_past [OF cold_inject_past [OF assms]]
    by (simp add: cold_hook_def Let_def split_beta)
qed

lemma cold_past_advance:
  assumes "paced G k" "1 \<le> k" "only_flips_counted G flips" "cold_past G flips n k A (c, w)"
  shows "cold_head G flips n k A (c, snd (o_advance G w))"
  using assms(2,4) assms(3) [unfolded only_flips_counted_def] pacedD(1,2) [OF assms(1), of w]
  by (auto simp: cold_past_def cold_head_def trace_ok_def list_all_iff intro: order_trans)

lemma cold_args_ok: "cold_args args = Inr A \<Longrightarrow> 0 < ca_stopAt A"
  unfolding cold_args_def and_then_Inr by (elim exE conjE) (simp split: option.splits if_splits, auto)

text \<open>
  The fault is injected once, and the trace is the window.  On a page whose iterations retire at most \<open>k\<close>
  instructions, a cold boot flips the status bit at most once, only when asked to and less than \<open>k\<close>
  instructions after its count; the rows recorded are in order and inside the window; and a run that is done
  stopped less than \<open>k\<close> late, with the fault injected unless its count is less than \<open>k\<close> before the stop.
\<close>

theorem cold_fault_injected_once:
  assumes "cold_args args = Inr A" "paced G k" "1 \<le> k" "only_flips_counted G flips" "o_icount G w = 0"
  shows "case cold_run G A ns w of (c, w') \<Rightarrow>
    flips w' = flips w + (if cc_injected c then 1 else 0) \<and>
    (cc_injected c \<longrightarrow> 0 \<le> ca_injectAt A \<and>
      (\<exists>t. cc_injectedAt c = Some t \<and> ca_injectAt A \<le> t \<and> t < ca_injectAt A + k)) \<and>
    sorted (map tr_at (cc_trace c)) \<and>
    list_all (\<lambda>r. ca_traceFrom A \<le> tr_at r \<and> tr_at r < ca_traceTo A) (cc_trace c) \<and>
    (cc_done c \<longrightarrow> (\<exists>t. cc_stopIcount c = Some t \<and> ca_stopAt A \<le> t \<and> t < ca_stopAt A + k) \<and>
      (0 \<le> ca_injectAt A \<longrightarrow> \<not> cc_injected c \<longrightarrow> ca_stopAt A < ca_injectAt A + k))"
proof -
  have "cold_head G flips (flips w) k A (fresh_cold, w)"
    using assms(3,5) cold_args_ok [OF assms(1)] by (simp add: cold_head_def fault_ok_def trace_ok_def fresh_cold_def)
  then have "cold_head G flips (flips w) k A (cold_run G A ns w)"
    unfolding cold_run_def
    by (rule bursts_invariant [where J = "cold_past G flips (flips w) k A", rotated 2])
      (rule cold_hook_head [OF assms(2,4)] cold_past_advance [OF assms(2,3,4)], assumption)+
  then show ?thesis by (auto simp: cold_head_def fault_ok_def trace_ok_def list_all_iff split: prod.split)
qed

theorem cold_fault_injected_once_witness:
  "\<exists>A. cold_args [''--stop-at'', ''80000000'', ''--interval'', ''20'', ''--inject-at'', ''70000000'',
      ''--trace-from'', ''70000000'', ''--trace-to'', ''75000000'', ''--trace-out'', ''t''] = Inr A \<and>
    (case cold_run counting_page A [5, 7] (0, 0) of (c, w') \<Rightarrow>
    snd w' = snd (0 :: int, 0 :: nat) + (if cc_injected c then 1 else 0) \<and>
    (cc_injected c \<longrightarrow> 0 \<le> ca_injectAt A \<and>
      (\<exists>t. cc_injectedAt c = Some t \<and> ca_injectAt A \<le> t \<and> t < ca_injectAt A + 1)) \<and>
    sorted (map tr_at (cc_trace c)) \<and>
    list_all (\<lambda>r. ca_traceFrom A \<le> tr_at r \<and> tr_at r < ca_traceTo A) (cc_trace c) \<and>
    (cc_done c \<longrightarrow> (\<exists>t. cc_stopIcount c = Some t \<and> ca_stopAt A \<le> t \<and> t < ca_stopAt A + 1) \<and>
      (0 \<le> ca_injectAt A \<longrightarrow> \<not> cc_injected c \<longrightarrow> ca_stopAt A < ca_injectAt A + 1)))"
proof -
  obtain A where A: "cold_args [''--stop-at'', ''80000000'', ''--interval'', ''20'', ''--inject-at'', ''70000000'',
      ''--trace-from'', ''70000000'', ''--trace-to'', ''75000000'', ''--trace-out'', ''t''] = Inr A"
    by (simp add: cold_args_def arg_def default_numbers)
  have t: "o_icount counting_page (0, 0) = 0" by (simp add: counting_page_def)
  have "only_flips_counted counting_page snd" by (simp add: only_flips_counted_def counting_page_def)
  note run = cold_fault_injected_once [OF A counting_page_paced order_refl this t]
  show ?thesis by (intro exI conjI) (rule A, rule run)
qed

end
