(* ===== verification/Web_Wire.thy ===== *)
theory Web_Wire
  imports GRT_Prelude
begin

text \<open>
  The browser client's wire protocol, \<open>web/wire.ts\<close>: the strict decoder of the server's JSON messages
  and the two messages the client sends.  A JavaScript string is the list of its UTF-16 code units.
  \<open>JSON.parse\<close> is the argument \<open>parse\<close>: it gives the value, or the message of the error it raises.
  Every \<open>throw\<close> of the source is an \<open>Inl\<close> with the error's message.
\<close>

section \<open>Strings, JSON values and errors\<close>

type_synonym jstr = "int list"
type_synonym 'a result = "jstr + 'a"

definition js :: "string \<Rightarrow> jstr" where
  "js s = map of_char s"

definition guard :: "bool \<Rightarrow> jstr \<Rightarrow> unit result" where
  "guard b e = (if b then Inr () else Inl e)"

text \<open>
  A number that is an integer is \<open>JNum\<close>; any other number is \<open>JFloat\<close>, whose value nothing in the
  client looks at.  The bindings of an object are listed with distinct keys.
\<close>

datatype json =
    JNull
  | JBool bool
  | JNum int
  | JFloat
  | JStr jstr
  | JArr "json list"
  | JObj "(jstr \<times> json) list"

text \<open>Reading a property that is not there gives \<open>undefined\<close>, the \<open>None\<close> of the model.\<close>

type_synonym fields = "(jstr \<times> json) list"

definition get :: "fields \<Rightarrow> string \<Rightarrow> json option" where
  "get v k = map_of v (js k)"

section \<open>The generated vocabulary\<close>

definition WIRE_VERSION :: int where "WIRE_VERSION = 4"
definition FRAME_WIDTH :: int where "FRAME_WIDTH = 720"
definition FRAME_HEIGHT :: int where "FRAME_HEIGHT = 576"

lemma wire_constants [simp]: "WIRE_VERSION = 4" "FRAME_WIDTH = 720" "FRAME_HEIGHT = 576"
  by (simp_all add: WIRE_VERSION_def FRAME_WIDTH_def FRAME_HEIGHT_def)

record palette_message =
  pm_epoch :: int
  pm_rgb :: "int list"
  pm_alpha :: "int list"

record frame_message =
  fm_seq :: int
  fm_x :: int
  fm_y :: int
  fm_w :: int
  fm_h :: int
  fm_epoch :: int
  fm_pixels :: "int list"

record state_message =
  sm_phase :: jstr
  sm_reason :: jstr

definition STATE_PHASES :: "jstr list" where
  "STATE_PHASES = map js [''booting'', ''flash-check'', ''channel-list'', ''ready'', ''halted'']"

record media_message =
  mm_requested :: int
  mm_active :: int
  mm_service :: jstr
  mm_programme :: jstr
  mm_source :: jstr

datatype server_message =
    Palette palette_message
  | Frame frame_message
  | State state_message
  | Media media_message

section \<open>The field checks\<close>

definition object :: "json \<Rightarrow> fields result" where
  "object v = (case v of JObj fs \<Rightarrow> Inr fs | _ \<Rightarrow> Inl (js ''wire message must be an object''))"

definition MAX_SAFE_INTEGER :: int where "MAX_SAFE_INTEGER = 9007199254740991"

definition integer :: "json option \<Rightarrow> string \<Rightarrow> int \<Rightarrow> int result" where
  "integer v name mx =
     (case v of
        Some (JNum n) \<Rightarrow>
          if \<bar>n\<bar> > MAX_SAFE_INTEGER \<or> n < 0 \<or> n > mx then Inl (js (''invalid '' @ name)) else Inr n
      | _ \<Rightarrow> Inl (js (''invalid '' @ name)))"

definition text_field :: "json option \<Rightarrow> string \<Rightarrow> jstr result" where
  "text_field v name = (case v of Some (JStr s) \<Rightarrow> Inr s | _ \<Rightarrow> Inl (js (''invalid '' @ name)))"

subsection \<open>Base64\<close>

text \<open>The character class \<open>[A-Za-z0-9+/]\<close>, with the six bits a character stands for.\<close>

definition b64_value :: "int \<Rightarrow> int option" where
  "b64_value c =
     (if 65 \<le> c \<and> c \<le> 90 then Some (c - 65)
      else if 97 \<le> c \<and> c \<le> 122 then Some (c - 71)
      else if 48 \<le> c \<and> c \<le> 57 then Some (c + 4)
      else if c = 43 then Some 62
      else if c = 47 then Some 63
      else None)"

definition b64_char :: "int \<Rightarrow> bool" where
  "b64_char c = (b64_value c \<noteq> None)"

text \<open>The regular expression of the source; \<open>=\<close> is 61.\<close>

fun b64_shape :: "jstr \<Rightarrow> bool" where
  "b64_shape [] = True"
| "b64_shape (a # b # c # d # rest) =
     (b64_char a \<and> b64_char b
      \<and> (b64_char c \<and> b64_char d \<and> b64_shape rest
         \<or> rest = [] \<and> (b64_char c \<or> c = 61) \<and> d = 61))"
| "b64_shape _ = False"

text \<open>\<open>atob\<close>, on the strings of that shape.\<close>

definition sextet :: "int \<Rightarrow> int" where
  "sextet c = (case b64_value c of Some v \<Rightarrow> v | None \<Rightarrow> 0)"

fun atob :: "jstr \<Rightarrow> int list" where
  "atob (a # b # c # d # rest) =
     (let n = sextet a * 262144 + sextet b * 4096 + sextet c * 64 + sextet d in
      if c = 61 then [n div 65536]
      else if d = 61 then [n div 65536, n div 256 mod 256]
      else [n div 65536, n div 256 mod 256, n mod 256] @ atob rest)"
| "atob _ = []"

definition bytes :: "json option \<Rightarrow> string \<Rightarrow> int \<Rightarrow> int list result" where
  "bytes v name expected =
     (case v of
        Some (JStr s) \<Rightarrow>
          if \<not> b64_shape s then Inl (js (''invalid '' @ name @ '' base64''))
          else if int (length (atob s)) \<noteq> expected then Inl (js (''invalid '' @ name @ '' length''))
          else Inr (atob s)
      | _ \<Rightarrow> Inl (js (''invalid '' @ name @ '' base64'')))"

section \<open>The decoder\<close>

definition decode_media :: "fields \<Rightarrow> server_message result" where
  "decode_media v =
     and_then (integer (get v ''requested'') ''media requested'' 1) (\<lambda>requested.
     and_then (integer (get v ''active'') ''media active'' 1) (\<lambda>active.
     and_then (text_field (get v ''service'') ''media service'') (\<lambda>service.
     and_then (text_field (get v ''programme'') ''media programme'') (\<lambda>programme.
     and_then (text_field (get v ''source'') ''media source'') (\<lambda>src.
     Inr (Media \<lparr>mm_requested = requested, mm_active = active, mm_service = service,
       mm_programme = programme, mm_source = src\<rparr>))))))"

definition decode_palette :: "fields \<Rightarrow> server_message result" where
  "decode_palette v =
     and_then (integer (get v ''epoch'') ''palette epoch'' MAX_SAFE_INTEGER) (\<lambda>epoch.
     and_then (bytes (get v ''rgb'') ''palette rgb'' (256 * 3)) (\<lambda>rgb.
     and_then (bytes (get v ''alpha'') ''palette alpha'' 256) (\<lambda>alpha.
     Inr (Palette \<lparr>pm_epoch = epoch, pm_rgb = rgb, pm_alpha = alpha\<rparr>))))"

definition decode_frame :: "fields \<Rightarrow> server_message result" where
  "decode_frame v =
     and_then (integer (get v ''seq'') ''frame sequence'' MAX_SAFE_INTEGER) (\<lambda>sq.
     and_then (integer (get v ''epoch'') ''frame epoch'' MAX_SAFE_INTEGER) (\<lambda>epoch.
     and_then (integer (get v ''x'') ''frame x'' (FRAME_WIDTH - 1)) (\<lambda>x.
     and_then (integer (get v ''y'') ''frame y'' (FRAME_HEIGHT - 1)) (\<lambda>y.
     and_then (integer (get v ''w'') ''frame width'' FRAME_WIDTH) (\<lambda>w.
     and_then (integer (get v ''h'') ''frame height'' FRAME_HEIGHT) (\<lambda>h.
     and_then (guard (\<not> (w = 0 \<or> h = 0 \<or> x + w > FRAME_WIDTH \<or> y + h > FRAME_HEIGHT))
                 (js ''frame rectangle outside raster'')) (\<lambda>_.
     and_then (bytes (get v ''pixels'') ''frame pixels'' (w * h)) (\<lambda>pixels.
     Inr (Frame \<lparr>fm_seq = sq, fm_x = x, fm_y = y, fm_w = w, fm_h = h, fm_epoch = epoch,
       fm_pixels = pixels\<rparr>)))))))))"

definition decode_state :: "fields \<Rightarrow> server_message result" where
  "decode_state v =
     (case get v ''phase'' of
        Some (JStr phase) \<Rightarrow>
          if phase \<in> set STATE_PHASES
          then and_then (text_field (get v ''reason'') ''state reason'') (\<lambda>reason.
                 Inr (State \<lparr>sm_phase = phase, sm_reason = reason\<rparr>))
          else Inl (js ''invalid machine phase'')
      | _ \<Rightarrow> Inl (js ''invalid machine phase''))"

definition decodeServerMessage :: "(jstr \<Rightarrow> json result) \<Rightarrow> jstr \<Rightarrow> server_message result" where
  "decodeServerMessage parse text =
     and_then (parse text) (\<lambda>parsed.
     and_then (object parsed) (\<lambda>v.
     and_then (guard (get v ''version'' = Some (JNum WIRE_VERSION)) (js ''unsupported wire version'')) (\<lambda>_.
     let type = get v ''type'' in
     if type = Some (JStr (js ''media'')) then decode_media v
     else if type = Some (JStr (js ''palette'')) then decode_palette v
     else if type = Some (JStr (js ''frame'')) then decode_frame v
     else if type = Some (JStr (js ''state'')) then decode_state v
     else Inl (js ''unknown server message type''))))"

section \<open>The messages the client sends\<close>

definition key_json :: "int \<Rightarrow> int \<Rightarrow> string" where
  "key_json raw src = ''{\"type\":\"key\",\"version\":'' @ dec_string WIRE_VERSION
     @ '',\"raw\":'' @ dec_string raw @ '',\"source\":'' @ dec_string src @ ''}''"

definition encodeKeyMessage :: "json \<Rightarrow> json \<Rightarrow> jstr result" where
  "encodeKeyMessage raw src =
     and_then (integer (Some raw) ''key raw code'' 255) (\<lambda>r.
     and_then (integer (Some src) ''key source'' 255) (\<lambda>s.
     Inr (js (key_json r s))))"

definition encodeResetMessage :: jstr where
  "encodeResetMessage = js (''{\"type\":\"reset\",\"version\":'' @ dec_string WIRE_VERSION @ ''}'')"

section \<open>Facts about the checks\<close>

lemma guard_Inr [simp]: "guard b e = Inr u \<longleftrightarrow> b"
  by (simp add: guard_def)

lemma object_Inr [simp]: "object v = Inr fs \<longleftrightarrow> v = JObj fs"
  by (auto simp: object_def split: json.splits)

lemma integer_Inr [simp]:
  "integer v name mx = Inr n \<longleftrightarrow> v = Some (JNum n) \<and> 0 \<le> n \<and> n \<le> mx \<and> n \<le> MAX_SAFE_INTEGER"
  by (auto simp: integer_def split: option.splits json.splits if_splits)

lemma text_field_Inr [simp]: "text_field v name = Inr s \<longleftrightarrow> v = Some (JStr s)"
  by (auto simp: text_field_def split: option.splits json.splits)

lemma bytes_Inr:
  "bytes v name k = Inr bs \<longleftrightarrow> (\<exists>s. v = Some (JStr s) \<and> b64_shape s \<and> bs = atob s \<and> int (length bs) = k)"
  by (auto simp: bytes_def split: option.splits json.splits if_splits)

lemma sextet_range: "0 \<le> sextet c \<and> sextet c < 64"
  by (simp add: sextet_def b64_value_def)

lemma three_bytes:
  assumes "0 \<le> (n :: int)" "n < 16777216"
  shows "0 \<le> n div 65536 \<and> n div 65536 < 256"
  using assms by auto

lemma atob_bytes: "byte_list (atob s)"
proof (induction s rule: atob.induct)
  case (1 a b c d rest)
  let ?n = "sextet a * 262144 + sextet b * 4096 + sextet c * 64 + sextet d"
  have "0 \<le> ?n" "?n < 16777216"
    using sextet_range [of a] sextet_range [of b] sextet_range [of c] sextet_range [of d] by linarith+
  moreover obtain n where n: "?n = n" by simp
  ultimately have "0 \<le> n div 65536 \<and> n div 65536 < 256" using three_bytes [of n] by simp
  then show ?case using 1 unfolding atob.simps Let_def n by auto
qed simp_all

text \<open>The standard encoding, which the Go server's marshaller writes.\<close>

definition b64_digit :: "int \<Rightarrow> int" where
  "b64_digit n =
     (if n < 26 then n + 65 else if n < 52 then n + 71 else if n < 62 then n - 4
      else if n = 62 then 43 else 47)"

fun b64_encode :: "int list \<Rightarrow> jstr" where
  "b64_encode [] = []"
| "b64_encode [a] = [b64_digit (a div 4), b64_digit (a mod 4 * 16), 61, 61]"
| "b64_encode [a, b] =
     [b64_digit (a div 4), b64_digit (a mod 4 * 16 + b div 16), b64_digit (b mod 16 * 4), 61]"
| "b64_encode (a # b # c # rest) =
     [b64_digit (a div 4), b64_digit (a mod 4 * 16 + b div 16), b64_digit (b mod 16 * 4 + c div 64),
      b64_digit (c mod 64)] @ b64_encode rest"

lemma b64_digit_value:
  "0 \<le> n \<Longrightarrow> n < 64 \<Longrightarrow> b64_value (b64_digit n) = Some n \<and> b64_digit n \<noteq> 61"
  by (simp add: b64_digit_def b64_value_def)

lemma b64_digit_simps:
  assumes "0 \<le> n" "n < 64"
  shows "sextet (b64_digit n) = n" "b64_char (b64_digit n)" "b64_digit n \<noteq> 61"
  using b64_digit_value [OF assms] by (simp_all add: sextet_def b64_char_def)

lemma sextets:
  assumes "0 \<le> (a :: int)" "a < 256" "0 \<le> (b :: int)" "b < 256"
  shows "0 \<le> a div 4 \<and> a div 4 < 64" "0 \<le> a mod 4 * 16 \<and> a mod 4 * 16 < 64"
    "0 \<le> a mod 4 * 16 + b div 16 \<and> a mod 4 * 16 + b div 16 < 64"
    "0 \<le> b mod 16 * 4 \<and> b mod 16 * 4 < 64" "0 \<le> b mod 16 * 4 + a div 64 \<and> b mod 16 * 4 + a div 64 < 64"
    "0 \<le> a mod 64 \<and> a mod 64 < 64"
proof -
  have q: "0 \<le> a div 4" "a div 4 < 64" "0 \<le> b div 16" "b div 16 < 16" "0 \<le> a div 64" "a div 64 < 4"
    using assms by auto
  have m: "0 \<le> a mod 4" "a mod 4 < 4" "0 \<le> b mod 16" "b mod 16 < 16" "0 \<le> a mod 64" "a mod 64 < 64"
    by simp_all
  show "0 \<le> a div 4 \<and> a div 4 < 64" "0 \<le> a mod 64 \<and> a mod 64 < 64" using q m by simp_all
  show "0 \<le> a mod 4 * 16 \<and> a mod 4 * 16 < 64" "0 \<le> b mod 16 * 4 \<and> b mod 16 * 4 < 64" using m by simp_all
  show "0 \<le> a mod 4 * 16 + b div 16 \<and> a mod 4 * 16 + b div 16 < 64"
    using add_strict_mono [of "a mod 4 * 16" 64 "b div 16" 16] q m by simp
  show "0 \<le> b mod 16 * 4 + a div 64 \<and> b mod 16 * 4 + a div 64 < 64" using q m by simp
qed

lemma pack_sextets:
  fixes a b c :: int
  shows "a div 4 * 262144 + (a mod 4 * 16 + b div 16) * 4096 + (b mod 16 * 4 + c div 64) * 64 + c mod 64
    = a * 65536 + b * 256 + c"
proof -
  have "p * 262144 + (q * 16 + r) * 4096 + (t * 4 + u) * 64 + v
      = (p * 4 + q) * 65536 + (r * 16 + t) * 256 + (u * 64 + v)" for p q r t u v :: int
    by (simp add: algebra_simps)
  from this [of "a div 4" "a mod 4" "b div 16" "b mod 16" "c div 64" "c mod 64"] show ?thesis
    by (simp only: div_mult_mod_eq)
qed

lemma unpack_bytes:
  fixes a b c :: int
  assumes "0 \<le> b" "b < 256" "0 \<le> c" "c < 256"
  shows "(a * 65536 + b * 256 + c) div 65536 = a" "(a * 65536 + b * 256 + c) div 256 mod 256 = b"
    "(a * 65536 + b * 256 + c) mod 256 = c"
proof -
  have 1: "(a * 65536 + b * 256 + c) div 256 = a * 256 + b"
    using assms by (intro int_div_pos_eq [where r = c]) auto
  show "(a * 65536 + b * 256 + c) div 65536 = a"
    using assms by (intro int_div_pos_eq [where r = "b * 256 + c"]) auto
  show "(a * 65536 + b * 256 + c) div 256 mod 256 = b" unfolding 1 using assms by simp
  show "(a * 65536 + b * 256 + c) mod 256 = c" by (simp add: minus_div_mult_eq_mod [symmetric] 1)
qed

text \<open>One full group of four digits, on the values of the digits.\<close>

lemma four_digits:
  assumes "0 \<le> p \<and> p < 64" "0 \<le> q \<and> q < 64" "0 \<le> u \<and> u < 64" "0 \<le> v \<and> v < 64"
    and "p * 262144 + q * 4096 + u * 64 + v = a * 65536 + b * 256 + c" "byte_list [a, b, c]"
  shows "atob ([b64_digit p, b64_digit q, b64_digit u, b64_digit v] @ rest) = [a, b, c] @ atob rest"
    and "b64_shape ([b64_digit p, b64_digit q, b64_digit u, b64_digit v] @ rest) \<longleftrightarrow> b64_shape rest"
    and "v = 0 \<Longrightarrow> atob [b64_digit p, b64_digit q, b64_digit u, 61] = [a, b]"
    and "v = 0 \<Longrightarrow> b64_shape [b64_digit p, b64_digit q, b64_digit u, 61]"
    and "v = 0 \<Longrightarrow> u = 0 \<Longrightarrow> atob [b64_digit p, b64_digit q, 61, 61] = [a]"
    and "b64_shape [b64_digit p, b64_digit q, 61, 61]"
proof -
  have z: "sextet 61 = 0" by (simp add: sextet_def b64_value_def)
  note d = b64_digit_simps [of p] b64_digit_simps [of q] b64_digit_simps [of u] b64_digit_simps [of v]
  have s: "sextet (b64_digit p) = p" "sextet (b64_digit q) = q" "sextet (b64_digit u) = u" "sextet (b64_digit v) = v"
    "b64_digit u \<noteq> 61" "b64_digit v \<noteq> 61" "b64_char (b64_digit p)" "b64_char (b64_digit q)"
    "b64_char (b64_digit u)" "b64_char (b64_digit v)"
    using d assms(1-4) by simp_all
  have "0 \<le> b" "b < 256" "0 \<le> c" "c < 256" using assms(6) by simp_all
  note n = unpack_bytes [OF this, of a]
  show "atob ([b64_digit p, b64_digit q, b64_digit u, b64_digit v] @ rest) = [a, b, c] @ atob rest"
    by (simp only: append_Cons append_Nil atob.simps Let_def s assms(5) n if_False)
  show "b64_shape ([b64_digit p, b64_digit q, b64_digit u, b64_digit v] @ rest) \<longleftrightarrow> b64_shape rest"
    by (simp add: s)
  show "b64_shape [b64_digit p, b64_digit q, b64_digit u, 61]" by (simp add: s)
  show "b64_shape [b64_digit p, b64_digit q, 61, 61]" by (simp add: s)
  show "atob [b64_digit p, b64_digit q, b64_digit u, 61] = [a, b]" if "v = 0"
    by (simp only: atob.simps Let_def s z assms(5) [unfolded that] n if_False if_True refl)
  show "atob [b64_digit p, b64_digit q, 61, 61] = [a]" if "v = 0" "u = 0"
    by (simp only: atob.simps Let_def s z assms(5) [unfolded that] n if_True refl)
qed

lemma atob_encode: "byte_list bs \<Longrightarrow> b64_shape (b64_encode bs) \<and> atob (b64_encode bs) = bs"
proof (induction bs rule: b64_encode.induct)
  case (2 a)
  then have r: "0 \<le> a" "a < 256" "byte_list [a, 0, 0]" by simp_all
  have e: "a div 4 * 262144 + (a mod 4 * 16) * 4096 + 0 * 64 + 0 = a * 65536 + 0 * 256 + 0"
    using pack_sextets [of a 0 0] by (simp only: div_0 mod_0 add_0_right mult_zero_left)
  note f = four_digits(5,6) [OF sextets(1) [OF r(1,2)] sextets(2) [OF r(1,2)] _ _ e r(3), of 0 0]
  show ?case unfolding b64_encode.simps using f by simp
next
  case (3 a b)
  then have r: "0 \<le> a" "a < 256" "0 \<le> b" "b < 256" "byte_list [a, b, 0]" by simp_all
  have e: "a div 4 * 262144 + (a mod 4 * 16 + b div 16) * 4096 + (b mod 16 * 4) * 64 + 0 = a * 65536 + b * 256 + 0"
    using pack_sextets [of a b 0] by (simp only: div_0 mod_0 add_0_right mult_zero_left)
  note f = four_digits(3,4) [OF sextets(1) [OF r(1-4)] sextets(3) [OF r(1-4)] sextets(4) [OF r(1-4)] _ e r(5)]
  show ?case unfolding b64_encode.simps using f by simp
next
  case (4 a b c rest)
  then have r: "0 \<le> a" "a < 256" "0 \<le> b" "b < 256" "0 \<le> c" "c < 256" "byte_list [a, b, c]" by simp_all
  note f = four_digits(1,2) [OF sextets(1) [OF r(1-4)] sextets(3) [OF r(1-4)] sextets(5) [OF r(5,6,3,4)]
    sextets(6) [OF r(5,6,3,4)] pack_sextets r(7)]
  from 4 r show ?case unfolding b64_encode.simps f by simp
qed simp

section \<open>What a decoded message promises\<close>

definition count :: "int \<Rightarrow> bool" where
  "count n \<longleftrightarrow> 0 \<le> n \<and> n \<le> MAX_SAFE_INTEGER"

fun message_ok :: "server_message \<Rightarrow> bool" where
  "message_ok (Palette p) \<longleftrightarrow> count (pm_epoch p)
     \<and> byte_list (pm_rgb p) \<and> length (pm_rgb p) = 768 \<and> byte_list (pm_alpha p) \<and> length (pm_alpha p) = 256"
| "message_ok (Frame f) \<longleftrightarrow> count (fm_seq f) \<and> count (fm_epoch f)
     \<and> 0 \<le> fm_x f \<and> 0 \<le> fm_y f \<and> 0 < fm_w f \<and> 0 < fm_h f
     \<and> fm_x f + fm_w f \<le> FRAME_WIDTH \<and> fm_y f + fm_h f \<le> FRAME_HEIGHT
     \<and> byte_list (fm_pixels f) \<and> int (length (fm_pixels f)) = fm_w f * fm_h f"
| "message_ok (State s) \<longleftrightarrow> sm_phase s \<in> set STATE_PHASES"
| "message_ok (Media m) \<longleftrightarrow> mm_requested m \<in> {0, 1} \<and> mm_active m \<in> {0, 1}"

lemma bytes_ok: "bytes v name k = Inr bs \<Longrightarrow> byte_list bs \<and> int (length bs) = k"
  by (auto simp: bytes_Inr atob_bytes)

lemma decode_state_Inr:
  "decode_state v = Inr m \<longleftrightarrow> (\<exists>p r. get v ''phase'' = Some (JStr p) \<and> p \<in> set STATE_PHASES
     \<and> get v ''reason'' = Some (JStr r) \<and> m = State \<lparr>sm_phase = p, sm_reason = r\<rparr>)"
  by (auto simp: decode_state_def split: option.splits json.splits if_splits)

lemma decode_parts_ok:
  "decode_media v = Inr m \<Longrightarrow> message_ok m" "decode_palette v = Inr m \<Longrightarrow> message_ok m"
  "decode_frame v = Inr m \<Longrightarrow> message_ok m" "decode_state v = Inr m \<Longrightarrow> message_ok m"
proof -
  assume "decode_media v = Inr m"
  then show "message_ok m" by (auto simp: decode_media_def)
next
  assume "decode_palette v = Inr m"
  then show "message_ok m" by (auto simp: decode_palette_def count_def dest!: bytes_ok)
next
  assume "decode_frame v = Inr m"
  then show "message_ok m" by (auto simp: decode_frame_def count_def dest!: bytes_ok)
next
  assume "decode_state v = Inr m"
  then show "message_ok m" by (auto simp: decode_state_Inr)
qed

text \<open>
  C11.  What the wire decoder accepts is well formed.  Whatever text arrives, a message the decoder
  returns has counters within the safe integers, a rectangle that is not empty and lies on the
  raster, exactly one byte per pixel, a full palette, a known phase and binary media flags; anything
  else raises.
\<close>

theorem decoded_message_ok:
  assumes "decodeServerMessage parse text = Inr m"
  shows "message_ok m"
  using assms decode_parts_ok by (auto simp: decodeServerMessage_def Let_def split: if_splits)

definition tiny_frame :: json where
  "tiny_frame = JObj [(js ''type'', JStr (js ''frame'')), (js ''version'', JNum 4), (js ''seq'', JNum 1),
     (js ''x'', JNum 718), (js ''y'', JNum 575), (js ''w'', JNum 2), (js ''h'', JNum 1), (js ''epoch'', JNum 7),
     (js ''pixels'', JStr (js ''/wA=''))]"

theorem decoded_message_ok_witness:
  "\<exists>f. decodeServerMessage (\<lambda>_. Inr tiny_frame) [] = Inr (Frame f) \<and> fm_pixels f = [255, 0] \<and> message_ok (Frame f)"
proof -
  let ?f = "\<lparr>fm_seq = 1, fm_x = 718, fm_y = 575, fm_w = 2, fm_h = 1, fm_epoch = 7, fm_pixels = [255, 0]\<rparr>"
  have d: "decodeServerMessage (\<lambda>_. Inr tiny_frame) [] = Inr (Frame ?f)" by code_simp
  from decoded_message_ok [OF d] d show ?thesis by (intro exI [of _ ?f]) simp
qed

section \<open>The server's encoding decodes\<close>

text \<open>The JSON object the schema \<open>schema/wire.json\<close> prescribes for a message.\<close>

fun message_json :: "server_message \<Rightarrow> json" where
  "message_json (Palette p) = JObj [(js ''type'', JStr (js ''palette'')), (js ''version'', JNum WIRE_VERSION),
     (js ''epoch'', JNum (pm_epoch p)), (js ''rgb'', JStr (b64_encode (pm_rgb p))),
     (js ''alpha'', JStr (b64_encode (pm_alpha p)))]"
| "message_json (Frame f) = JObj [(js ''type'', JStr (js ''frame'')), (js ''version'', JNum WIRE_VERSION),
     (js ''seq'', JNum (fm_seq f)), (js ''x'', JNum (fm_x f)), (js ''y'', JNum (fm_y f)), (js ''w'', JNum (fm_w f)),
     (js ''h'', JNum (fm_h f)), (js ''epoch'', JNum (fm_epoch f)), (js ''pixels'', JStr (b64_encode (fm_pixels f)))]"
| "message_json (State s) = JObj [(js ''type'', JStr (js ''state'')), (js ''version'', JNum WIRE_VERSION),
     (js ''phase'', JStr (sm_phase s)), (js ''reason'', JStr (sm_reason s))]"
| "message_json (Media m) = JObj [(js ''type'', JStr (js ''media'')), (js ''version'', JNum WIRE_VERSION),
     (js ''requested'', JNum (mm_requested m)), (js ''active'', JNum (mm_active m)),
     (js ''service'', JStr (mm_service m)), (js ''programme'', JStr (mm_programme m)),
     (js ''source'', JStr (mm_source m))]"

lemma js_eq [simp]: "js s = js t \<longleftrightarrow> s = t"
proof
  assume "js s = js t"
  then have "map char_of (js s) = (map char_of (js t) :: string)" by simp
  then show "s = t" by (simp add: js_def comp_def)
qed simp

lemma bytes_encode: "byte_list bs \<Longrightarrow> bytes (Some (JStr (b64_encode bs))) name (int (length bs)) = Inr bs"
  using atob_encode [of bs] by (auto simp: bytes_Inr)

lemma frame_area: "(a :: int) \<le> 720 \<Longrightarrow> b \<le> 576 \<Longrightarrow> a \<le> MAX_SAFE_INTEGER \<and> b \<le> MAX_SAFE_INTEGER"
  by (simp add: MAX_SAFE_INTEGER_def)

text \<open>
  C10.  The decoder inverts the schema's encoding: every well-formed server message, written as the
  JSON object the schema prescribes with its byte fields in standard base64, decodes to itself.
\<close>

theorem decode_message_json:
  assumes "message_ok m" "parse text = Inr (message_json m)"
  shows "decodeServerMessage parse text = Inr m"
proof (cases m)
  case (Palette p)
  with assms bytes_encode [of "pm_rgb p"] bytes_encode [of "pm_alpha p"] show ?thesis
    by (simp add: decodeServerMessage_def decode_palette_def get_def count_def)
next
  case (Frame f)
  with assms bytes_encode [of "fm_pixels f"] frame_area show ?thesis
    by (simp add: decodeServerMessage_def decode_frame_def get_def count_def MAX_SAFE_INTEGER_def)
next
  case (State s)
  with assms show ?thesis by (simp add: decodeServerMessage_def decode_state_Inr get_def)
next
  case (Media m)
  with assms show ?thesis
    by (auto simp: decodeServerMessage_def decode_media_def get_def MAX_SAFE_INTEGER_def)
qed

theorem decode_message_json_witness:
  "decodeServerMessage (\<lambda>_. Inr (message_json (State \<lparr>sm_phase = js ''ready'', sm_reason = []\<rparr>))) []
     = Inr (State \<lparr>sm_phase = js ''ready'', sm_reason = []\<rparr>)"
  by (rule decode_message_json) (simp_all add: STATE_PHASES_def)

section \<open>The key message\<close>

lemma dec_string_marks:
  assumes "0 \<le> n"
  shows "CHR '','' \<notin> set (dec_string n)" "CHR ''}'' \<notin> set (dec_string n)"
  using dec_string_digits [OF assms] by fastforce+

lemma append_mark:
  assumes "xs @ c # ys = xs' @ c # ys'" "c \<notin> set xs" "c \<notin> set xs'"
  shows "xs = xs' \<and> ys = ys'"
proof -
  have "takeWhile (\<lambda>x. x \<noteq> c) (zs @ c # vs) = zs" if "c \<notin> set zs" for zs vs
    using that by (induction zs) auto
  from this [OF assms(2), of ys] this [OF assms(3), of ys'] assms(1) show ?thesis by simp
qed

lemma key_json_inj:
  assumes "0 \<le> r" "r \<le> 255" "0 \<le> r'" "r' \<le> 255" "0 \<le> s" "s \<le> 255" "0 \<le> s'" "s' \<le> 255"
    and "key_json r s = key_json r' s'"
  shows "r = r' \<and> s = s'"
proof -
  have "dec_string r @ CHR '','' # (''\"source\":'' @ dec_string s @ ''}'')
      = dec_string r' @ CHR '','' # (''\"source\":'' @ dec_string s' @ ''}'')"
    using assms(9) by (simp add: key_json_def)
  from append_mark [OF this] dec_string_marks assms
  have "dec_string r = dec_string r'" "dec_string s = dec_string s'" by simp_all
  with assms show ?thesis using dec_string_inj by blast
qed

lemma encodeKey_Inr:
  "encodeKeyMessage a b = Inr t \<longleftrightarrow>
     (\<exists>r s. a = JNum r \<and> b = JNum s \<and> 0 \<le> r \<and> r \<le> 255 \<and> 0 \<le> s \<and> s \<le> 255 \<and> t = js (key_json r s))"
  by (auto simp: encodeKeyMessage_def MAX_SAFE_INTEGER_def)

text \<open>
  A key message names one key.  The client encodes a key only when both codes are bytes, and two
  key presses never give the same text.
\<close>

theorem key_message_unique:
  assumes "encodeKeyMessage a b = Inr t" "encodeKeyMessage a' b' = Inr t"
  shows "a = a' \<and> b = b' \<and> (\<exists>r s. a = JNum r \<and> b = JNum s \<and> {r, s} \<subseteq> {0..255})"
proof -
  from assms(1) obtain r s where 1: "a = JNum r" "b = JNum s" "0 \<le> r" "r \<le> 255" "0 \<le> s" "s \<le> 255"
    and t: "t = js (key_json r s)" unfolding encodeKey_Inr by blast
  from assms(2) obtain r' s' where 2: "a' = JNum r'" "b' = JNum s'" "0 \<le> r'" "r' \<le> 255" "0 \<le> s'" "s' \<le> 255"
    and t': "t = js (key_json r' s')" unfolding encodeKey_Inr by blast
  from t t' have "key_json r s = key_json r' s'" by simp
  from key_json_inj [OF 1(3,4) 2(3,4) 1(5,6) 2(5,6) this] 1 2 show ?thesis by simp
qed

theorem key_message_unique_witness:
  "encodeKeyMessage (JNum 0xCC) (JNum 0) = Inr (js ''{\"type\":\"key\",\"version\":4,\"raw\":204,\"source\":0}'')
   \<and> (\<exists>r s. JNum 0xCC = JNum r \<and> JNum 0 = JNum s \<and> {r, s} \<subseteq> {0..255})"
proof -
  have "key_json 0xCC 0 = ''{\"type\":\"key\",\"version\":4,\"raw\":204,\"source\":0}''" by code_simp
  then have e: "encodeKeyMessage (JNum 0xCC) (JNum 0)
      = Inr (js ''{\"type\":\"key\",\"version\":4,\"raw\":204,\"source\":0}'')"
    by (simp add: encodeKeyMessage_def integer_def MAX_SAFE_INTEGER_def)
  from key_message_unique [OF e e] e show ?thesis by simp
qed

end
