(* ===== verification/Web_Screen.thy ===== *)
theory Web_Screen
  imports Web_Wire
begin

text \<open>
  The screen describer of the browser client, \<open>web/screen.ts\<close>: it names a firmware screen only when
  SHA-256 digests of its pixels agree with measured ones.  \<open>crypto.subtle.digest\<close> is the argument
  \<open>sha\<close>, from the bytes to the digest's bytes.  A raster is the list of its bytes, row by row.
\<close>

section \<open>The measured screen\<close>

definition menuPalette :: string where
  "menuPalette = ''eea2702c0ae09542b1348318f896e22700d2d6d7ad73fa7c854b789462740ce2''"

definition menuOutside :: string where
  "menuOutside = ''aea24907c13449b4f64890c9415f4147a4dcebbca43463970bea3c9f3a45ac28''"

record menu_row =
  mr_name :: jstr
  mr_selected :: string
  mr_plain :: string

text \<open>The dash of \<open>Movies A-Z\<close> is U+2013.\<close>

definition menuRows :: "menu_row list" where
  "menuRows =
    [\<lparr>mr_name = js ''Movies by Start Time'',
      mr_selected = ''2ee0b9b44b50d51ec57206443101d0071564424ba1eb6e6dd3a5a11ee70e9127'',
      mr_plain = ''729cfb1de6479a7096b2684861d87e3eec785f51966496c3ed6950f167426abc''\<rparr>,
     \<lparr>mr_name = js ''Movies A'' @ [0x2013] @ js ''Z'',
      mr_selected = ''f446704f30315119a5b5815be90a36d292a882a80a721fdc4ec95fc20c94bc99'',
      mr_plain = ''912ed218b08f9eb8ef21f5ee2019a3b4e1145c049f471e00cfe3c8d26118f841''\<rparr>,
     \<lparr>mr_name = js ''New Movies'',
      mr_selected = ''d48ec90218ff644c2b2632b49cb813c35ac7d699b1cbb65d93b63bc312792285'',
      mr_plain = ''52093977d48f2691b09f8e8b751ba545cf460dbd7d43c8af096833892eb3d768''\<rparr>,
     \<lparr>mr_name = js ''Sports & Events'',
      mr_selected = ''0dc8b134c43b4d94fb91ef18d4bb8df7c4a72a1346438e03c2c6582eec26b1c0'',
      mr_plain = ''f73e750dad0108099d17af66985f8c4a1142afbb0f00b06c89c948e33de015f8''\<rparr>,
     \<lparr>mr_name = js ''Specialist'',
      mr_selected = ''7eefd0a4fc323df953d612205829e59c7ae25a4e8da790f3a9455c358d436451'',
      mr_plain = ''3612aa555f96e1ecb5ebfbba4e63a6768c54e68eb4e8adfecb173ba16c43f4df''\<rparr>,
     \<lparr>mr_name = js ''Free Previews'',
      mr_selected = ''2b96d6356bcf3cf7475944866684c8310156ef45028b2ab9908755e61b210a44'',
      mr_plain = ''0de1e1682f226aa5b6be92da5262ddc3e23693a913c5e1e5f0ea8bed811466f4''\<rparr>]"

definition sections :: "jstr list" where
  "sections = map js [''TV Guide'', ''Box Office'', ''Services'', ''Interactive'']"

definition selectedSection :: jstr where
  "selectedSection = js ''Box Office''"

definition unknownScreen :: jstr where
  "unknownScreen = js ''Digibox screen changed. A text description of this firmware screen is unavailable.''"

definition blueScreen :: jstr where
  "blueScreen = js ''Plain dark blue Digibox screen. No menu is visible.''"

section \<open>Digests of the raster\<close>

definition digest :: "(int list \<Rightarrow> int list) \<Rightarrow> int list \<Rightarrow> string" where
  "digest sha bs = concat (map (\<lambda>b. pad_left 2 CHR ''0'' (hex_string b)) (sha bs))"

text \<open>\<open>frame.subarray(start, start + n)\<close> and \<open>outside.fill(0, start, start + n)\<close>.\<close>

definition subarray :: "int list \<Rightarrow> nat \<Rightarrow> nat \<Rightarrow> int list" where
  "subarray bs start n = take n (drop start bs)"

definition fill_zero :: "nat \<Rightarrow> nat \<Rightarrow> int list \<Rightarrow> int list" where
  "fill_zero start n bs = take start bs @ replicate (length (subarray bs start n)) 0 @ drop (start + n) bs"

definition line_start :: "nat \<Rightarrow> nat \<Rightarrow> nat" where
  "line_start row y = (148 + row * 32 + y) * 720 + 120"

definition row_bytes :: "int list \<Rightarrow> nat \<Rightarrow> int list" where
  "row_bytes frame row = concat (map (\<lambda>y. subarray frame (line_start row y) 480) [0..<32])"

definition blank_row :: "nat \<Rightarrow> int list \<Rightarrow> int list" where
  "blank_row row outside = fold (\<lambda>y. fill_zero (line_start row y) 480) [0..<32] outside"

definition outside_bytes :: "int list \<Rightarrow> int list" where
  "outside_bytes frame = fold blank_row [0..<length menuRows] frame"

section \<open>The description\<close>

text \<open>
  The selection loop: \<open>None\<close> is the return of \<open>unknownScreen\<close>; \<open>sel\<close> is the row found so far, \<open>-1\<close>
  for none.
\<close>

fun scan_rows :: "(menu_row \<times> string) list \<Rightarrow> int \<Rightarrow> int \<Rightarrow> int option" where
  "scan_rows [] row sel = Some sel"
| "scan_rows ((r, d) # rest) row sel =
     (if d = mr_selected r then
        if sel \<noteq> -1 then None else scan_rows rest (row + 1) row
      else if d \<noteq> mr_plain r then None
      else scan_rows rest (row + 1) sel)"

definition joined :: "jstr \<Rightarrow> jstr list \<Rightarrow> jstr" where
  "joined sep ss = (case ss of [] \<Rightarrow> [] | s # rest \<Rightarrow> s @ concat (map (\<lambda>t. sep @ t) rest))"

definition menu_text :: "nat \<Rightarrow> jstr" where
  "menu_text selected =
     (let options = joined (js ''; '')
            (map (\<lambda>(i, row). js (dec_string (int i + 1)) @ js '', '' @ mr_name row) (enumerate 0 menuRows))
      in js ''Sky menu. Four sections: '' @ joined (js '', '') sections @ js ''; '' @ selectedSection @ js '' shown. ''
         @ js ''Six options: '' @ options @ js ''. Selected: '' @ mr_name (menuRows ! selected) @ js ''.'')"

definition is_blue :: "int list \<Rightarrow> int list \<Rightarrow> bool" where
  "is_blue frame colours =
     (let blue = frame ! 0 in
      colours ! nat (blue * 3) = 0 \<and> colours ! nat (blue * 3 + 1) = 5 \<and> colours ! nat (blue * 3 + 2) = 69
      \<and> list_all (\<lambda>p. p = blue) frame)"

definition describeScreen :: "(int list \<Rightarrow> int list) \<Rightarrow> int list \<Rightarrow> int list \<Rightarrow> jstr" where
  "describeScreen sha pixels palette =
     (if length pixels \<noteq> 720 * 576 \<or> length palette \<noteq> 256 * 3 then unknownScreen
      else if is_blue pixels palette then blueScreen
      else if digest sha palette \<noteq> menuPalette then unknownScreen
      else if digest sha (outside_bytes pixels) \<noteq> menuOutside then unknownScreen
      else case scan_rows (zip menuRows (map (\<lambda>row. digest sha (row_bytes pixels row)) [0..<length menuRows])) 0 (-1) of
             None \<Rightarrow> unknownScreen
           | Some sel \<Rightarrow> if sel = -1 then unknownScreen else menu_text (nat sel))"

section \<open>The digests see every pixel\<close>

lemma fill_zero_nth:
  assumes "start + n \<le> length bs"
  shows "length (fill_zero start n bs) = length bs"
    and "i < length bs \<Longrightarrow> fill_zero start n bs ! i = (if start \<le> i \<and> i < start + n then 0 else bs ! i)"
  using assms by (auto simp: fill_zero_def subarray_def nth_append min_def)

lemma fill_all_nth:
  assumes "\<forall>s \<in> set ss. s + n \<le> length bs"
  shows "length (fold (\<lambda>s. fill_zero s n) ss bs) = length bs
    \<and> (i < length bs \<longrightarrow> fold (\<lambda>s. fill_zero s n) ss bs ! i
        = (if \<exists>s \<in> set ss. s \<le> i \<and> i < s + n then 0 else bs ! i))"
  using assms by (induction ss arbitrary: bs) (auto simp: fill_zero_nth)

definition row_starts :: "nat list" where
  "row_starts = concat (map (\<lambda>row. map (line_start row) [0..<32]) [0..<6])"

lemma six_rows [simp]: "length menuRows = 6" by (simp add: menuRows_def)

lemma blank_row_fold: "blank_row row bs = fold (\<lambda>s. fill_zero s 480) (map (line_start row) [0..<32]) bs"
  by (simp only: blank_row_def fold_map comp_def)

lemma fold_concat_map: "fold (\<lambda>x. fold f (g x)) xs b = fold f (concat (map g xs)) b"
  by (induction xs arbitrary: b) simp_all

lemma outside_bytes_fold: "outside_bytes frame = fold (\<lambda>s. fill_zero s 480) row_starts frame"
  unfolding outside_bytes_def six_rows row_starts_def fold_concat_map [symmetric] blank_row_fold [abs_def] ..

lemma line_start_bound: "row < 6 \<Longrightarrow> y < 32 \<Longrightarrow> line_start row y + 480 \<le> 720 * 576"
  by (simp add: line_start_def)

lemma row_starts_Bex: "(\<exists>s \<in> set row_starts. P s) \<longleftrightarrow> (\<exists>row < 6. \<exists>y < 32. P (line_start row y))"
proof -
  have "set row_starts = (\<Union>row \<in> {..<6}. line_start row ` {..<32})"
    by (simp add: row_starts_def atLeast0LessThan)
  then show ?thesis by fastforce
qed

lemma outside_bytes_nth:
  assumes "length frame = 720 * 576"
  shows "length (outside_bytes frame) = 720 * 576"
    and "i < 720 * 576 \<Longrightarrow> outside_bytes frame ! i
      = (if \<exists>row < 6. \<exists>y < 32. line_start row y \<le> i \<and> i < line_start row y + 480 then 0 else frame ! i)"
proof -
  have "\<forall>s \<in> set row_starts. s + 480 \<le> length frame"
    using line_start_bound assms by (auto simp: row_starts_def)
  note f = fill_all_nth [OF this, of i]
  from f assms show "length (outside_bytes frame) = 720 * 576" by (simp add: outside_bytes_fold)
  with f assms show "i < 720 * 576 \<Longrightarrow> outside_bytes frame ! i
      = (if \<exists>row < 6. \<exists>y < 32. line_start row y \<le> i \<and> i < line_start row y + 480 then 0 else frame ! i)"
    by (simp add: outside_bytes_fold row_starts_Bex)
qed

lemma row_bytes_eq:
  assumes "length p = 720 * 576" "length q = 720 * 576" "row < 6" "row_bytes p row = row_bytes q row"
    and "y < 32" "k < 480"
  shows "p ! (line_start row y + k) = q ! (line_start row y + k)"
proof -
  have len: "length (subarray f (line_start row y') 480) = 480" if "y' < 32" "length f = 720 * 576" for f y'
    using line_start_bound [OF assms(3) that(1)] that(2) by (simp add: subarray_def)
  have "map (\<lambda>y. subarray p (line_start row y) 480) [0..<32] = map (\<lambda>y. subarray q (line_start row y) 480) [0..<32]"
    using assms(4) unfolding row_bytes_def
    by (subst (asm) concat_eq_concat_iff) (auto simp: len assms(1,2) set_zip)
  then have s: "subarray p (line_start row y) 480 = subarray q (line_start row y) 480"
    using assms(5) by simp
  have n: "subarray f (line_start row y) 480 ! k = f ! (line_start row y + k)" if "length f = 720 * 576" for f
    using line_start_bound [OF assms(3,5)] that assms(6) by (simp add: subarray_def)
  from s n assms(1,2) show ?thesis by metis
qed

lemma parts_determine:
  assumes "length p = 720 * 576" "length q = 720 * 576" "outside_bytes p = outside_bytes q"
    and "\<forall>row < 6. row_bytes p row = row_bytes q row"
  shows "p = q"
proof (rule nth_equalityI)
  fix i
  assume i: "i < length p"
  show "p ! i = q ! i"
  proof (cases "\<exists>row < 6. \<exists>y < 32. line_start row y \<le> i \<and> i < line_start row y + 480")
    case True
    then obtain row y where r: "row < 6" "y < 32" "line_start row y \<le> i" "i < line_start row y + 480" by blast
    then have "i = line_start row y + (i - line_start row y)" "i - line_start row y < 480" by auto
    with row_bytes_eq [OF assms(1,2) r(1) _ r(2)] assms(4) r(1) show ?thesis by metis
  next
    case False
    with outside_bytes_nth(2) [OF assms(1)] outside_bytes_nth(2) [OF assms(2)] i assms show ?thesis by metis
  qed
qed (simp add: assms)

section \<open>The selection loop\<close>

definition plain_row :: "menu_row \<times> string \<Rightarrow> bool" where
  "plain_row rd \<longleftrightarrow> snd rd \<noteq> mr_selected (fst rd) \<and> snd rd = mr_plain (fst rd)"

lemma scan_rows_after:
  "sel \<noteq> -1 \<Longrightarrow> scan_rows rs row sel = Some k \<longleftrightarrow> k = sel \<and> list_all plain_row rs"
  by (induction rs row sel rule: scan_rows.induct) (auto simp: plain_row_def)

lemma scan_rows_found:
  assumes "0 \<le> row" "scan_rows rs row (-1) = Some k" "k \<noteq> -1"
  shows "\<exists>j < length rs. k = row + int j \<and> snd (rs ! j) = mr_selected (fst (rs ! j))
    \<and> (\<forall>i < length rs. i \<noteq> j \<longrightarrow> plain_row (rs ! i))"
  using assms
proof (induction rs arbitrary: row)
  case (Cons rd rest)
  obtain r d where rd: "rd = (r, d)" by (cases rd)
  show ?case
  proof (cases "d = mr_selected r")
    case True
    with Cons.prems rd have "scan_rows rest (row + 1) row = Some k" by simp
    with Cons.prems(1) have "k = row" "list_all plain_row rest" by (simp_all add: scan_rows_after)
    with True rd show ?thesis
      by (intro exI [of _ 0]) (auto simp: list_all_length nth_Cons split: nat.splits)
  next
    case False
    with Cons.prems rd have p: "d = mr_plain r" "scan_rows rest (row + 1) (-1) = Some k" by (auto split: if_splits)
    from Cons.IH [OF _ p(2) Cons.prems(3)] Cons.prems(1) obtain j where
      "j < length rest" "k = row + 1 + int j" "snd (rest ! j) = mr_selected (fst (rest ! j))"
      "\<forall>i < length rest. i \<noteq> j \<longrightarrow> plain_row (rest ! i)" by auto
    with False p rd show ?thesis
      by (intro exI [of _ "Suc j"]) (auto simp: nth_Cons plain_row_def split: nat.splits)
  qed
qed simp

section \<open>What a description promises\<close>

definition digests_match :: "(int list \<Rightarrow> int list) \<Rightarrow> int list \<Rightarrow> int list \<Rightarrow> nat \<Rightarrow> bool" where
  "digests_match sha pixels palette k \<longleftrightarrow> length pixels = 720 * 576 \<and> length palette = 256 * 3
     \<and> digest sha palette = menuPalette \<and> digest sha (outside_bytes pixels) = menuOutside
     \<and> (\<forall>i < 6. digest sha (row_bytes pixels i) = (if i = k then mr_selected else mr_plain) (menuRows ! i))"

lemma described_menu:
  assumes "describeScreen sha p pal \<notin> {unknownScreen, blueScreen}"
  shows "\<exists>k < 6. describeScreen sha p pal = menu_text k \<and> digests_match sha p pal k"
proof -
  let ?rs = "zip menuRows (map (\<lambda>row. digest sha (row_bytes p row)) [0..<length menuRows])"
  from assms have c: "length p = 720 * 576" "length pal = 256 * 3" "digest sha pal = menuPalette"
      "digest sha (outside_bytes p) = menuOutside" "\<not> is_blue p pal"
    by (auto simp: describeScreen_def split: if_splits)
  with assms obtain k where k: "scan_rows ?rs 0 (-1) = Some k" "k \<noteq> -1" "describeScreen sha p pal = menu_text (nat k)"
    by (auto simp: describeScreen_def split: option.splits if_splits)
  from scan_rows_found [OF _ k(1,2)] obtain j where j: "j < 6" "k = int j"
      "snd (?rs ! j) = mr_selected (fst (?rs ! j))" "\<forall>i < 6. i \<noteq> j \<longrightarrow> plain_row (?rs ! i)"
    by auto
  have "?rs ! i = (menuRows ! i, digest sha (row_bytes p i))" if "i < 6" for i using that by simp
  with j c have "digests_match sha p pal j" by (simp add: digests_match_def plain_row_def)
  with j k show ?thesis by auto
qed

lemma menu_text_inj:
  assumes "menu_text i = menu_text j" "i < 6" "j < 6"
  shows "i = j"
proof -
  from assms(1) have "mr_name (menuRows ! i) = mr_name (menuRows ! j)" by (simp add: menu_text_def Let_def)
  then have "map mr_name menuRows ! i = map mr_name menuRows ! j" using assms by simp
  moreover have "distinct (map mr_name menuRows)" by code_simp
  ultimately show ?thesis using assms nth_eq_iff_index_eq [of "map mr_name menuRows" i j]
    by (metis length_map six_rows)
qed

lemma menu_text_other: "menu_text k \<noteq> unknownScreen" "menu_text k \<noteq> blueScreen"
  by (simp_all add: menu_text_def unknownScreen_def blueScreen_def js_def)

text \<open>
  C13.  A menu description names one raster.  The describer names the menu only when the palette, the
  raster outside the six rows and each complete row have the measured digests, with exactly one row
  selected; and the seven digests of the raster see every pixel, so two rasters given the same
  description are equal unless SHA-256 collides on one of those seven parts.
\<close>

theorem described_menu_is_one_raster:
  assumes "describeScreen sha p pal = d" "describeScreen sha q pal' = d" "d \<notin> {unknownScreen, blueScreen}"
    and "digest sha (outside_bytes p) = digest sha (outside_bytes q) \<longrightarrow> outside_bytes p = outside_bytes q"
    and "\<forall>i < 6. digest sha (row_bytes p i) = digest sha (row_bytes q i) \<longrightarrow> row_bytes p i = row_bytes q i"
  shows "p = q \<and> (\<exists>k < 6. d = menu_text k \<and> digests_match sha p pal k \<and> digests_match sha q pal' k)"
proof -
  from assms(1,3) described_menu [of sha p pal] obtain k where k: "k < 6" "d = menu_text k" "digests_match sha p pal k"
    by auto
  from assms(2,3) described_menu [of sha q pal'] obtain l where l: "l < 6" "d = menu_text l" "digests_match sha q pal' l"
    by auto
  from k l have kl: "k = l" using menu_text_inj by blast
  from k l kl assms(4,5) have "outside_bytes p = outside_bytes q" "\<forall>i < 6. row_bytes p i = row_bytes q i"
    by (simp_all add: digests_match_def)
  with k l kl show ?thesis using parts_determine [of p q] by (auto simp: digests_match_def)
qed

text \<open>A raster and a digest function for which the first option is selected.\<close>

fun unhex :: "string \<Rightarrow> int list" where
  "unhex (a # b # s) =
     (let v = (\<lambda>c. let n = of_char c :: int in if n < 58 then n - 48 else n - 87)
      in (16 * v a + v b) # unhex s)"
| "unhex _ = []"

definition demo_digest :: "int list \<Rightarrow> string" where
  "demo_digest bs =
     (if length bs = 768 then menuPalette
      else if length bs = 414720 then menuOutside
      else if bs ! 0 = 1 then mr_selected (menuRows ! 0)
      else if bs ! 0 = 2 then mr_plain (menuRows ! 1)
      else if bs ! 0 = 3 then mr_plain (menuRows ! 2)
      else if bs ! 0 = 4 then mr_plain (menuRows ! 3)
      else if bs ! 0 = 5 then mr_plain (menuRows ! 4)
      else mr_plain (menuRows ! 5))"

definition demo_sha :: "int list \<Rightarrow> int list" where
  "demo_sha bs = unhex (demo_digest bs)"

definition demo_raster :: nat where "demo_raster = 414720"
definition demo_colours :: nat where "demo_colours = 768"

definition demo_frame :: "int list" where
  "demo_frame = map (\<lambda>i. int ((i div 720 - 148) div 32) + 1) [0..<demo_raster]"

definition demo_palette :: "int list" where
  "demo_palette = replicate demo_colours 0"

lemma demo_frame_nth: "i < 414720 \<Longrightarrow> demo_frame ! i = int ((i div 720 - 148) div 32) + 1"
  by (simp add: demo_frame_def demo_raster_def)

lemma demo_frame_length: "length demo_frame = 414720"
  by (simp add: demo_frame_def) (simp add: demo_raster_def)

lemma demo_palette_facts: "length demo_palette = 768" "demo_palette ! 4 = 0"
  by (simp_all add: demo_palette_def) (simp_all add: demo_colours_def)

lemma digest_demo: "digest demo_sha bs = demo_digest bs"
proof -
  have "concat (map (\<lambda>b. pad_left 2 CHR ''0'' (hex_string b)) (unhex s)) = s"
    if "s \<in> set [menuPalette, menuOutside, mr_selected (menuRows ! 0), mr_plain (menuRows ! 1),
        mr_plain (menuRows ! 2), mr_plain (menuRows ! 3), mr_plain (menuRows ! 4), mr_plain (menuRows ! 5)]" for s
  proof -
    have "list_all (\<lambda>s. concat (map (\<lambda>b. pad_left 2 CHR ''0'' (hex_string b)) (unhex s)) = s)
      [menuPalette, menuOutside, mr_selected (menuRows ! 0), mr_plain (menuRows ! 1),
        mr_plain (menuRows ! 2), mr_plain (menuRows ! 3), mr_plain (menuRows ! 4), mr_plain (menuRows ! 5)]"
      by code_simp
    with that show ?thesis by (simp only: list_all_iff)
  qed
  then show ?thesis by (simp add: digest_def demo_sha_def demo_digest_def)
qed

lemma row_bytes_head:
  assumes "length f = 414720" "row < 6"
  shows "length (row_bytes f row) = 15360" "row_bytes f row ! 0 = f ! line_start row 0"
proof -
  have len: "length (subarray f (line_start row y) 480) = 480" if "y < 32" for y
    using line_start_bound [OF assms(2) that] assms(1) by (simp add: subarray_def)
  have "map length (map (\<lambda>y. subarray f (line_start row y) 480) [0..<32]) = replicate 32 480"
    by (rule nth_equalityI) (simp_all add: len del: upt_rec_numeral)
  then show "length (row_bytes f row) = 15360"
    by (simp only: row_bytes_def length_concat sum_list_replicate) simp
  have "[0..<32] = 0 # [1..<32]" by (simp add: upt_conv_Cons)
  then have "row_bytes f row ! 0 = (subarray f (line_start row 0) 480 @ concat (map (\<lambda>y. subarray f (line_start row y) 480) [1..<32])) ! 0"
    by (simp only: row_bytes_def list.map concat.simps)
  also have "\<dots> = subarray f (line_start row 0) 480 ! 0" using len [of 0] by (simp add: nth_append)
  also have "\<dots> = f ! line_start row 0"
    using line_start_bound [OF assms(2), of 0] assms(1) by (simp add: subarray_def)
  finally show "row_bytes f row ! 0 = f ! line_start row 0" .
qed

lemma demo_rows: "row < 6 \<Longrightarrow> digest demo_sha (row_bytes demo_frame row)
    = (if row = 0 then mr_selected else mr_plain) (menuRows ! row)"
proof -
  assume r: "row < 6"
  have "line_start row 0 < 414720" "line_start row 0 div 720 = 148 + row * 32"
    using r by (auto simp: line_start_def)
  then have "row_bytes demo_frame row ! 0 = int row + 1"
    by (simp add: row_bytes_head [OF demo_frame_length r] demo_frame_nth)
  moreover from r have "row = 0 \<or> row = 1 \<or> row = 2 \<or> row = 3 \<or> row = 4 \<or> row = 5" by linarith
  ultimately show ?thesis
    using row_bytes_head(1) [OF demo_frame_length r] unfolding digest_demo demo_digest_def by (elim disjE) simp_all
qed

lemma demo_described: "describeScreen demo_sha demo_frame demo_palette = menu_text 0"
proof -
  have nb: "\<not> is_blue demo_frame demo_palette"
    by (simp add: is_blue_def Let_def demo_frame_nth demo_palette_facts)
  have ds: "map (\<lambda>row. digest demo_sha (row_bytes demo_frame row)) [0..<6]
      = [mr_selected (menuRows ! 0), mr_plain (menuRows ! 1), mr_plain (menuRows ! 2), mr_plain (menuRows ! 3),
         mr_plain (menuRows ! 4), mr_plain (menuRows ! 5)]"
    by (simp add: demo_rows upt_rec numeral_eq_Suc)
  have sc: "scan_rows (zip menuRows [mr_selected (menuRows ! 0), mr_plain (menuRows ! 1), mr_plain (menuRows ! 2),
      mr_plain (menuRows ! 3), mr_plain (menuRows ! 4), mr_plain (menuRows ! 5)]) 0 (-1) = Some 0"
    by code_simp
  have "digest demo_sha demo_palette = menuPalette"
    by (simp add: digest_demo demo_digest_def demo_palette_facts)
  moreover have "length (outside_bytes demo_frame) = 414720"
    using outside_bytes_nth(1) [of demo_frame] by (simp add: demo_frame_length)
  then have "digest demo_sha (outside_bytes demo_frame) = menuOutside"
    by (simp add: digest_demo demo_digest_def)
  ultimately show ?thesis
    by (simp add: describeScreen_def nb six_rows ds sc demo_frame_length demo_palette_facts del: One_nat_def)
qed

theorem described_menu_is_one_raster_witness:
  "describeScreen demo_sha demo_frame demo_palette = menu_text 0
   \<and> (\<exists>k < 6. menu_text 0 = menu_text k \<and> digests_match demo_sha demo_frame demo_palette k)"
proof -
  have "menu_text 0 \<notin> {unknownScreen, blueScreen}" using menu_text_other by simp
  from described_menu_is_one_raster [OF demo_described demo_described this] demo_described show ?thesis by blast
qed

end
