(* ===== verification/Web_Client.thy ===== *)
theory Web_Client
  imports Web_Screen Complex_Main
begin

text \<open>
  The browser client, \<open>web/app.ts\<close>: the module's variables, the parts of the document it writes, and
  one definition per event handler.  The client is the record \<open>client\<close>; the fields \<open>v_\<close> are the
  module's variables, \<open>d_\<close> the document, and \<open>e_\<close> what the browser holds for it: the sockets it opened,
  what was sent on them, timers, unsettled promises and the audio buffers handed to the sound card.
  The browser's own functions are the record \<open>platform\<close>.  Times in the audio clock are exact
  rationals; the rounding of the browser's doubles is not modelled.
\<close>

section \<open>State\<close>

record platform =
  p_parse :: "jstr \<Rightarrow> json result"
  p_sha :: "int list \<Rightarrow> int list"
  p_noAudioBuffer :: jstr

text \<open>A handset button: \<open>Number(data-raw)\<close>, its label and its trimmed text.\<close>

record key =
  k_raw :: json
  k_aria :: jstr
  k_text :: jstr
  k_disabled :: bool
  k_pressed :: bool

type_synonym rgba = "int \<times> int \<times> int \<times> int"

record audio_source =
  as_id :: nat
  as_start :: rat
  as_duration :: rat

record client =
  v_framebuffer :: "int list"
  v_palette :: "int list"
  v_paletteAlpha :: "int list"
  v_paletteEpoch :: int
  v_socket :: "nat option"
  v_connected :: bool
  v_ready :: bool
  v_machineReady :: bool
  v_awaitingFullFrame :: bool
  v_reconnectTimer :: "int option"
  v_reconnectAttempts :: nat
  v_haltReason :: jstr
  v_screenRevision :: nat
  v_resetPending :: bool
  v_resetTimer :: "int option"
  v_mediaActive :: bool
  v_mediaService :: jstr
  v_mediaProgramme :: jstr
  v_audioContext :: "string option"
  v_nextAudioTime :: rat
  v_lastAudioInstruction :: int
  v_muted :: bool
  v_scheduledAudio :: "audio_source list"
  d_keys :: "key list"
  d_state :: jstr
  d_status :: jstr
  d_keyFeedback :: jstr
  d_resetDisabled :: bool
  d_resetPressed :: bool
  d_resetFeedback :: jstr
  d_media :: jstr
  d_audio :: jstr
  d_soundToggle :: jstr
  d_soundPressed :: bool
  d_soundStatus :: jstr
  d_label :: jstr
  d_canvas :: "int \<Rightarrow> int \<Rightarrow> rgba"
  d_programme :: "int list"
  e_sockets :: nat
  e_openedAt :: "nat \<Rightarrow> int"
  e_sent :: "(nat \<times> jstr) list"
  e_closing :: "nat set"
  e_describing :: "(nat \<times> jstr) list"
  e_unlocks :: nat
  e_nextSource :: nat

text \<open>The raster of the canvas element, and the client's constants.\<close>

definition width :: int where "width = 720"
definition height :: int where "height = 576"
definition resetCooldown :: int where "resetCooldown = 3000"

lemma raster_size [simp]: "width = 720" "height = 576" "resetCooldown = 3000"
  by (simp_all add: width_def height_def resetCooldown_def)

definition ellipsis :: jstr where "ellipsis = [0x2026]"
definition dash :: jstr where "dash = js '' '' @ [0x2014] @ js '' ''"

section \<open>Sound\<close>

definition showAudioState :: "string \<Rightarrow> string \<Rightarrow> client \<Rightarrow> client" where
  "showAudioState state message c =
     c\<lparr>d_audio := js state,
       d_soundToggle := js (if state = ''muted'' then ''Unmute sound''
                            else if state = ''unlocked'' then ''Mute sound'' else ''Enable sound''),
       d_soundPressed := (state = ''unlocked''),
       d_soundStatus := js message\<rparr>"

definition stopAudio :: "client \<Rightarrow> client" where
  "stopAudio c = c\<lparr>v_scheduledAudio := [], v_nextAudioTime := 0, v_lastAudioInstruction := -1\<rparr>"

definition blocked :: string where
  "blocked = ''Your browser blocked sound. Press Enable sound to try again.''"

text \<open>
  \<open>unlockAudio\<close> up to its \<open>await\<close>; a new context starts suspended.  \<open>resumed\<close> is what follows, once
  \<open>resume()\<close> has settled: \<open>ok\<close> says whether it resolved.
\<close>

definition unlockAudio :: "client \<Rightarrow> client" where
  "unlockAudio c =
     c\<lparr>v_audioContext := (case v_audioContext c of None \<Rightarrow> Some ''suspended'' | Some s \<Rightarrow> Some s),
       e_unlocks := e_unlocks c + 1\<rparr>"

definition resumed :: "bool \<Rightarrow> client \<Rightarrow> client" where
  "resumed ok c0 =
     (let c = c0\<lparr>e_unlocks := e_unlocks c0 - 1\<rparr> in
      if \<not> ok then showAudioState ''locked'' blocked c
      else if v_audioContext c \<noteq> Some ''running'' then showAudioState ''locked'' blocked c
      else showAudioState ''unlocked'' ''Sound is on.'' (c\<lparr>v_muted := False\<rparr>))"

definition audio_statechange :: "string \<Rightarrow> client \<Rightarrow> client" where
  "audio_statechange state c0 =
     (let c = c0\<lparr>v_audioContext := Some state\<rparr> in
      if v_audioContext c \<noteq> Some ''running'' \<and> \<not> v_muted c then showAudioState ''locked'' blocked c else c)"

definition sound_click :: "client \<Rightarrow> client" where
  "sound_click c =
     (if \<not> v_muted c
      then showAudioState ''muted'' ''Sound is muted.'' (stopAudio (c\<lparr>v_muted := True\<rparr>))
      else unlockAudio c)"

definition source_ended :: "nat \<Rightarrow> client \<Rightarrow> client" where
  "source_ended n c = c\<lparr>v_scheduledAudio := filter (\<lambda>a. as_id a \<noteq> n) (v_scheduledAudio c)\<rparr>"

section \<open>The programme stream\<close>

definition big_endian :: "int list \<Rightarrow> int" where
  "big_endian bs = foldl (\<lambda>a b. a * 256 + b) 0 bs"

definition magic :: "int list" where "magic = js ''GRTV''"

text \<open>
  One binary message, at audio time \<open>now\<close>: the new state, and the error it raises, if any.  An audio
  buffer of no samples is refused by the browser.
\<close>

definition play :: "platform \<Rightarrow> rat \<Rightarrow> int \<Rightarrow> nat \<Rightarrow> client \<Rightarrow> client \<times> jstr option" where
  "play P now instruction samples c0 =
     (let c = c0\<lparr>v_lastAudioInstruction := instruction\<rparr> in
      if samples = 0 then (c, Some (p_noAudioBuffer P))
      else
        let start = max (v_nextAudioTime c) (now + 4 / 100);
            src = \<lparr>as_id = e_nextSource c, as_start = start, as_duration = of_nat samples / 48000\<rparr>
        in (c\<lparr>v_scheduledAudio := v_scheduledAudio c @ [src],
              v_nextAudioTime := start + as_duration src,
              e_nextSource := e_nextSource c + 1\<rparr>, None))"

definition handleBinary :: "platform \<Rightarrow> rat \<Rightarrow> int list \<Rightarrow> client \<Rightarrow> client \<times> jstr option" where
  "handleBinary P now data c =
     (if length data < 16 \<or> take 4 data \<noteq> magic \<or> data ! 4 \<noteq> 2
      then (c, Some (js ''The box sent an unsupported programme stream''))
      else
        let payload = drop 16 data in
        if data ! 5 = 1 then
          if length payload \<noteq> 352 * 288 * 4
          then (c, Some (js ''The programme video frame has the wrong size''))
          else (c\<lparr>d_programme := payload\<rparr>, None)
        else if data ! 5 \<noteq> 2 \<or> length payload mod 4 \<noteq> 0 \<or> v_muted c \<or> v_audioContext c \<noteq> Some ''running''
        then (c, None)
        else
          let instruction = big_endian (take 8 (drop 8 data)) in
          if instruction > MAX_SAFE_INTEGER \<or> instruction \<le> v_lastAudioInstruction c then (c, None)
          else play P now instruction (length payload div 4) c)"

section \<open>The handset and the screen\<close>

definition setKeysEnabled :: "bool \<Rightarrow> client \<Rightarrow> client" where
  "setKeysEnabled enabled c = c\<lparr>d_keys := map (\<lambda>k. k\<lparr>k_disabled := \<not> enabled\<rparr>) (d_keys c)\<rparr>"

definition showStatus :: "jstr \<Rightarrow> jstr \<Rightarrow> client \<Rightarrow> client" where
  "showStatus state message c = c\<lparr>d_state := state, d_status := message\<rparr>"

text \<open>
  The description is started on copies of the raster and the palette; it settles later, as the event
  \<open>described\<close>, with \<open>None\<close> when the promise rejected.
\<close>

definition describeCurrentFrame :: "platform \<Rightarrow> client \<Rightarrow> client" where
  "describeCurrentFrame P c =
     (let revision = v_screenRevision c + 1 in
      c\<lparr>v_screenRevision := revision, d_label := unknownScreen,
        e_describing := (revision, describeScreen (p_sha P) (v_framebuffer c) (v_palette c)) # e_describing c\<rparr>)"

definition described :: "nat \<Rightarrow> jstr option \<Rightarrow> client \<Rightarrow> client" where
  "described revision result c =
     (if revision = v_screenRevision c
      then c\<lparr>d_label := (case result of Some d \<Rightarrow> d | None \<Rightarrow> unknownScreen)\<rparr>
      else c)"

definition updateKeys :: "client \<Rightarrow> client" where
  "updateKeys c =
     (let ready = (v_connected c \<and> v_machineReady c \<and> \<not> v_awaitingFullFrame c)
      in setKeysEnabled ready (c\<lparr>v_ready := ready\<rparr>))"

definition updateReset :: "client \<Rightarrow> client" where
  "updateReset c = c\<lparr>d_resetDisabled := (\<not> v_connected c \<or> v_resetPending c)\<rparr>"

definition reconnectDelay :: "nat \<Rightarrow> int" where
  "reconnectDelay attempts = min 5000 (250 * 2 ^ min attempts 5)"

definition pixel :: "client \<Rightarrow> int \<Rightarrow> int \<Rightarrow> rgba" where
  "pixel c px py =
     (let index = v_framebuffer c ! nat (py * width + px); source = index * 3
      in (v_palette c ! nat source, v_palette c ! nat (source + 1), v_palette c ! nat (source + 2),
          v_paletteAlpha c ! nat index))"

definition paint :: "int \<Rightarrow> int \<Rightarrow> int \<Rightarrow> int \<Rightarrow> client \<Rightarrow> client" where
  "paint x y w h c =
     c\<lparr>d_canvas := (\<lambda>px py. if x \<le> px \<and> px < x + w \<and> y \<le> py \<and> py < y + h then pixel c px py
                             else d_canvas c px py)\<rparr>"

section \<open>Messages\<close>

definition on_media :: "media_message \<Rightarrow> client \<Rightarrow> client" where
  "on_media m c0 =
     (let c = c0\<lparr>v_mediaActive := (mm_active m = 1), v_mediaService := mm_service m,
                v_mediaProgramme := mm_programme m,
                d_media := js (if mm_active m = 1 then ''active'' else ''inactive'')\<rparr>
      in if v_mediaActive c
         then showStatus (js ''ready'') (mm_service m @ dash @ mm_programme m @ js '' is playing.'')
                (paint 0 0 width height c)
         else if mm_requested m = 1 \<and> v_machineReady c
         then showStatus (js ''ready'') (js ''The selected channel has no configured programme source.'') c
         else c)"

definition on_palette :: "palette_message \<Rightarrow> client \<Rightarrow> client" where
  "on_palette m c0 =
     (let c = (if pm_epoch m \<noteq> v_paletteEpoch c0
               then let c1 = updateKeys (c0\<lparr>v_awaitingFullFrame := True\<rparr>)
                    in if v_machineReady c1
                       then c1\<lparr>d_keyFeedback := js ''Waiting for the box to send its screen.''\<rparr> else c1
               else c0)
      in c\<lparr>v_palette := pm_rgb m, v_paletteAlpha := pm_alpha m, v_paletteEpoch := pm_epoch m\<rparr>)"

text \<open>\<open>framebuffer.set\<close> for the rows of a frame.\<close>

definition set_at :: "int list \<Rightarrow> nat \<Rightarrow> int list \<Rightarrow> int list" where
  "set_at bs pos vs = take pos bs @ vs @ drop (pos + length vs) bs"

definition blit_row :: "frame_message \<Rightarrow> nat \<Rightarrow> int list \<Rightarrow> int list" where
  "blit_row m row fb =
     set_at fb (nat ((fm_y m + int row) * width + fm_x m))
       (subarray (fm_pixels m) (row * nat (fm_w m)) (nat (fm_w m)))"

definition blit :: "frame_message \<Rightarrow> int list \<Rightarrow> int list" where
  "blit m fb = fold (blit_row m) [0..<nat (fm_h m)] fb"

definition on_frame :: "platform \<Rightarrow> frame_message \<Rightarrow> client \<Rightarrow> client \<times> jstr option" where
  "on_frame P m c0 =
     (if fm_epoch m \<noteq> v_paletteEpoch c0 \<or> fm_x m < 0 \<or> fm_y m < 0
         \<or> fm_x m + fm_w m > width \<or> fm_y m + fm_h m > height
         \<or> int (length (fm_pixels m)) \<noteq> fm_w m * fm_h m
      then (c0, Some (js ''The box sent a frame that does not match its screen or palette''))
      else if v_awaitingFullFrame c0
         \<and> (fm_x m \<noteq> 0 \<or> fm_y m \<noteq> 0 \<or> fm_w m \<noteq> width \<or> fm_h m \<noteq> height)
      then (c0, Some (js ''The box did not send a complete screen after connecting''))
      else
        let c = describeCurrentFrame P (paint (fm_x m) (fm_y m) (fm_w m) (fm_h m)
                  (c0\<lparr>v_framebuffer := blit m (v_framebuffer c0)\<rparr>))
        in (if v_awaitingFullFrame c
            then let c1 = updateKeys (c\<lparr>v_awaitingFullFrame := False\<rparr>)
                 in if v_ready c1 then c1\<lparr>d_keyFeedback := js ''The handset is ready.''\<rparr> else c1
            else c, None))"

definition acknowledgeReset :: "client \<Rightarrow> client" where
  "acknowledgeReset c =
     (if \<not> v_resetPending c then c else c\<lparr>d_resetFeedback := js ''The box was reset.''\<rparr>)"

definition js_or :: "jstr \<Rightarrow> jstr \<Rightarrow> jstr" where
  "js_or a b = (if a = [] then b else a)"

definition phaseText :: "jstr \<Rightarrow> jstr" where
  "phaseText phase =
     (if phase = js ''booting'' then js ''The box is starting its firmware'' @ ellipsis
      else if phase = js ''flash-check'' then js ''The box is checking its flash memory'' @ ellipsis
      else if phase = js ''channel-list'' then js ''The box is rebuilding its channel list'' @ ellipsis
      else if phase = js ''ready'' then js ''The box is ready. Press tv guide on the handset.''
      else [])"

definition on_state :: "state_message \<Rightarrow> client \<Rightarrow> client" where
  "on_state m c0 =
     (let c = acknowledgeReset c0 in
      if sm_phase m = js ''halted'' then
        let c1 = updateKeys (c\<lparr>v_machineReady := False\<rparr>);
            c2 = c1\<lparr>v_haltReason := js_or (sm_reason m) (js ''the firmware halted'')\<rparr>;
            c3 = showStatus (js ''halted'') (js ''The box stopped: '' @ v_haltReason c2 @ js ''.'') c2
        in c3\<lparr>d_keyFeedback := js ''The handset is unavailable while the box is stopped.''\<rparr>
      else
        let c1 = updateKeys (c\<lparr>v_haltReason := [], v_machineReady := (sm_phase m = js ''ready'')\<rparr>);
            c2 = showStatus (sm_phase m)
                   (js_or (js_or (sm_reason m) (phaseText (sm_phase m))) (js ''The box is working'' @ ellipsis)) c1;
            c3 = (if v_mediaActive c2
                  then showStatus (js ''ready'')
                         (v_mediaService c2 @ dash @ v_mediaProgramme c2 @ js '' is playing.'') c2
                  else c2)
        in c3\<lparr>d_keyFeedback := js (if v_ready c3 then ''The handset is ready.''
                 else if v_machineReady c3 then ''Waiting for the box to send its screen.''
                 else ''The handset will wake when the box is ready.'')\<rparr>)"

definition handleMessage :: "platform \<Rightarrow> jstr \<Rightarrow> client \<Rightarrow> client \<times> jstr option" where
  "handleMessage P payload c =
     (case decodeServerMessage (p_parse P) payload of
        Inl e \<Rightarrow> (c, Some e)
      | Inr (Media m) \<Rightarrow> (on_media m c, None)
      | Inr (Palette m) \<Rightarrow> (on_palette m c, None)
      | Inr (Frame m) \<Rightarrow> on_frame P m c
      | Inr (State m) \<Rightarrow> (on_state m c, None))"

section \<open>The connection\<close>

definition connect :: "client \<Rightarrow> client" where
  "connect c0 =
     (let next_socket = e_sockets c0;
          c1 = stopAudio (c0\<lparr>v_reconnectTimer := None, e_sockets := next_socket + 1,
                 v_socket := Some next_socket, v_connected := False\<rparr>);
          c2 = updateReset (updateKeys (c1\<lparr>v_machineReady := False, v_awaitingFullFrame := True,
                 v_paletteEpoch := -1\<rparr>));
          c3 = showStatus (js ''connecting'')
                 (js (if v_reconnectAttempts c2 \<noteq> 0 then ''Reconnecting to the Digibox''
                      else ''Connecting to the Digibox'') @ ellipsis) c2
      in c3\<lparr>d_keyFeedback := js ''The handset is unavailable while disconnected.''\<rparr>)"

definition on_open :: "int \<Rightarrow> nat \<Rightarrow> client \<Rightarrow> client" where
  "on_open now s c =
     (if v_socket c \<noteq> Some s then c
      else
        let c1 = updateReset (c\<lparr>v_connected := True, e_openedAt := (e_openedAt c)(s := now)\<rparr>);
            c2 = (if \<not> v_resetPending c1 then c1\<lparr>d_resetFeedback := []\<rparr> else c1)
        in showStatus (js ''booting'') (js ''Connected. Waiting for the box to report its state'' @ ellipsis) c2)"

datatype message_data = Text jstr | Binary "int list"

definition on_error :: "nat \<Rightarrow> jstr \<Rightarrow> client \<Rightarrow> client" where
  "on_error s e c1 =
     (let c2 = updateReset (updateKeys (c1\<lparr>v_machineReady := False\<rparr>));
          c3 = c2\<lparr>v_haltReason := e\<rparr>;
          c4 = showStatus (js ''halted'') (js ''The box stopped: '' @ v_haltReason c3 @ js ''.'') c3
      in c4\<lparr>e_closing := insert s (e_closing c4)\<rparr>)"

definition dispatch :: "platform \<Rightarrow> rat \<Rightarrow> message_data \<Rightarrow> client \<Rightarrow> client \<times> jstr option" where
  "dispatch P audio_now data c =
     (case data of Text t \<Rightarrow> handleMessage P t c | Binary b \<Rightarrow> handleBinary P audio_now b c)"

definition on_message :: "platform \<Rightarrow> rat \<Rightarrow> nat \<Rightarrow> message_data \<Rightarrow> client \<Rightarrow> client" where
  "on_message P audio_now s data c =
     (if v_socket c \<noteq> Some s then c
      else case dispatch P audio_now data c of
        (c1, None) \<Rightarrow> c1
      | (c1, Some e) \<Rightarrow> on_error s e c1)"

definition seconds :: "int \<Rightarrow> jstr" where
  "seconds delay = js (dec_string ((delay + 999) div 1000)) @ js '' second'' @ (if delay > 1000 then js ''s'' else [])"

text \<open>The reconnect timer is kept with the time at which it is due.\<close>

definition on_close :: "int \<Rightarrow> nat \<Rightarrow> client \<Rightarrow> client" where
  "on_close now s c =
     (if v_socket c \<noteq> Some s then c
      else
        let c1 = stopAudio (c\<lparr>v_socket := None, v_connected := False\<rparr>);
            c2 = updateReset (updateKeys (c1\<lparr>v_machineReady := False\<rparr>));
            c3 = (if e_openedAt c2 s \<noteq> 0 \<and> now - e_openedAt c2 s \<ge> 10000 then c2\<lparr>v_reconnectAttempts := 0\<rparr> else c2);
            delay = reconnectDelay (v_reconnectAttempts c3);
            c4 = c3\<lparr>v_reconnectAttempts := v_reconnectAttempts c3 + 1\<rparr>;
            c5 = (if v_haltReason c4 \<noteq> []
                  then showStatus (js ''halted'')
                         (js ''The box stopped: '' @ v_haltReason c4 @ js ''. Reconnecting'' @ ellipsis) c4
                  else showStatus (js ''disconnected'')
                         (js ''The connection to the box was lost. Reconnecting in '' @ seconds delay @ ellipsis) c4)
        in c5\<lparr>d_keyFeedback := js ''The handset is unavailable while disconnected.'',
              v_reconnectTimer := Some (now + delay)\<rparr>)"

section \<open>The handset's buttons\<close>

definition setPressed :: "bool \<Rightarrow> key \<Rightarrow> key" where
  "setPressed pressed k =
     (if pressed \<and> k_disabled k then k
      else if pressed then k\<lparr>k_pressed := True\<rparr> else k\<lparr>k_pressed := False\<rparr>)"

text \<open>The events a button listens to besides the click; a key event carries the name of its key.\<close>

datatype button_event =
    PointerDown | PointerUp | PointerCancel | PointerLeave | KeyDown string | KeyUp string | Blur

definition key_button :: "button_event \<Rightarrow> key \<Rightarrow> key" where
  "key_button ev k =
     (case ev of
        PointerDown \<Rightarrow> setPressed True k
      | PointerUp \<Rightarrow> setPressed False k
      | PointerCancel \<Rightarrow> setPressed False k
      | PointerLeave \<Rightarrow> setPressed False k
      | KeyDown n \<Rightarrow> if n = ''Enter'' \<or> n = '' '' then setPressed True k else k
      | KeyUp n \<Rightarrow> if n = ''Enter'' \<or> n = '' '' then setPressed False k else k
      | Blur \<Rightarrow> setPressed False k)"

definition on_key_button :: "nat \<Rightarrow> button_event \<Rightarrow> client \<Rightarrow> client" where
  "on_key_button i ev c = c\<lparr>d_keys := (d_keys c)[i := key_button ev (d_keys c ! i)]\<rparr>"

text \<open>\<open>send\<close> on the current socket.  \<open>is_open\<close> says whether its \<open>readyState\<close> is \<open>OPEN\<close>.\<close>

definition send :: "jstr \<Rightarrow> client \<Rightarrow> client" where
  "send text c = (case v_socket c of None \<Rightarrow> c | Some s \<Rightarrow> c\<lparr>e_sent := e_sent c @ [(s, text)]\<rparr>)"

definition key_click :: "bool \<Rightarrow> nat \<Rightarrow> client \<Rightarrow> client" where
  "key_click is_open i c =
     (let k = d_keys c ! i in
      if k_disabled k \<or> \<not> v_connected c \<or> \<not> v_ready c \<or> v_socket c = None \<or> \<not> is_open
      then c\<lparr>d_keyFeedback := js ''The box is not ready for handset input.''\<rparr>
      else case encodeKeyMessage (k_raw k) (JNum 0) of
        Inl e \<Rightarrow> c
      | Inr text \<Rightarrow>
          let c1 = send text c;
              c2 = (if v_muted c1 then unlockAudio c1 else c1)
          in c2\<lparr>d_keyFeedback := js_or (js_or (k_aria k) (k_text k)) (js ''Key'') @ js '' sent to the box.''\<rparr>)"

section \<open>The reset button\<close>

definition on_reset_button :: "button_event \<Rightarrow> client \<Rightarrow> client" where
  "on_reset_button ev c =
     (case ev of
        PointerDown \<Rightarrow> if \<not> d_resetDisabled c then c\<lparr>d_resetPressed := True\<rparr> else c
      | PointerUp \<Rightarrow> c\<lparr>d_resetPressed := False\<rparr>
      | PointerCancel \<Rightarrow> c\<lparr>d_resetPressed := False\<rparr>
      | PointerLeave \<Rightarrow> c\<lparr>d_resetPressed := False\<rparr>
      | Blur \<Rightarrow> c\<lparr>d_resetPressed := False\<rparr>
      | _ \<Rightarrow> c)"

definition reset_click :: "int \<Rightarrow> bool \<Rightarrow> client \<Rightarrow> client" where
  "reset_click now is_open c =
     (if d_resetDisabled c \<or> v_socket c = None \<or> \<not> is_open
      then c\<lparr>d_resetFeedback := js ''The box cannot be reset while the page is disconnected.''\<rparr>
      else
        let c1 = updateReset ((send encodeResetMessage c)\<lparr>v_resetPending := True\<rparr>)
        in c1\<lparr>d_resetFeedback := js ''Resetting the box'' @ ellipsis, v_resetTimer := Some (now + resetCooldown)\<rparr>)"

definition reset_timer :: "client \<Rightarrow> client" where
  "reset_timer c = updateReset (c\<lparr>v_resetTimer := None, v_resetPending := False\<rparr>)"

section \<open>The page as it loads\<close>

definition loaded :: "key list \<Rightarrow> client" where
  "loaded keys =
     \<lparr>v_framebuffer = replicate (720 * 576) 0, v_palette = replicate 768 0, v_paletteAlpha = replicate 256 255,
      v_paletteEpoch = 0, v_socket = None, v_connected = False, v_ready = False, v_machineReady = False,
      v_awaitingFullFrame = True, v_reconnectTimer = None, v_reconnectAttempts = 0, v_haltReason = [],
      v_screenRevision = 0, v_resetPending = False, v_resetTimer = None, v_mediaActive = False,
      v_mediaService = [], v_mediaProgramme = [], v_audioContext = None, v_nextAudioTime = 0,
      v_lastAudioInstruction = -1, v_muted = True, v_scheduledAudio = [],
      d_keys = keys, d_state = [], d_status = js ''Connecting to the Digibox'' @ ellipsis,
      d_keyFeedback = js ''The handset will wake when the box connects.'', d_resetDisabled = True,
      d_resetPressed = False,
      d_resetFeedback = js ''The reset will be available once the box connects.'', d_media = [], d_audio = [], d_soundToggle = js ''Enable sound'',
      d_soundPressed = False,
      d_soundStatus = js ''Sound is locked until you enable it or press a handset key.'', d_label = js ''Sky Digibox screen'',
      d_canvas = (\<lambda>_ _. (0, 0, 0, 0)), d_programme = [],
      e_sockets = 0, e_openedAt = (\<lambda>_. 0), e_sent = [], e_closing = {}, e_describing = [], e_unlocks = 0,
      e_nextSource = 0\<rparr>"

definition start :: "key list \<Rightarrow> client" where
  "start keys =
     connect (showAudioState ''locked'' ''Sound is locked until you enable it or press a handset key.'' (loaded keys))"

end
