(* ===== verification/Web_Session.thy ===== *)
theory Web_Session
  imports Web_Client
begin

text \<open>
  A session of the browser client: the events the browser delivers to the handlers of \<open>Web_Client\<close>, in
  any order the browser allows.  A socket opens at most once, delivers messages only between its open
  and its close event, and closes once; timers fire no earlier than they are due; time does not run
  backwards.
\<close>

datatype event =
    Open nat
  | Message nat message_data rat
  | Close nat
  | KeyButton nat button_event
  | KeyClick nat bool
  | ResetButton button_event
  | ResetClick bool
  | ResetTimer
  | ReconnectTimer
  | SoundClick
  | AudioState string
  | Resumed bool
  | SourceEnded nat
  | Described nat "jstr option"

fun react :: "platform \<Rightarrow> int \<Rightarrow> event \<Rightarrow> client \<Rightarrow> client" where
  "react P now (Open s) c = on_open now s c"
| "react P now (Message s data t) c = on_message P t s data c"
| "react P now (Close s) c = on_close now s c"
| "react P now (KeyButton i ev) c = on_key_button i ev c"
| "react P now (KeyClick i is_open) c = key_click is_open i c"
| "react P now (ResetButton ev) c = on_reset_button ev c"
| "react P now (ResetClick is_open) c = reset_click now is_open c"
| "react P now ResetTimer c = reset_timer c"
| "react P now ReconnectTimer c = connect c"
| "react P now SoundClick c = sound_click c"
| "react P now (AudioState s) c = audio_statechange s c"
| "react P now (Resumed ok) c = resumed ok c"
| "react P now (SourceEnded n) c = source_ended n c"
| "react P now (Described r d) c = described r d c"

text \<open>The log records what the client sent, with the time and the socket.\<close>

record world =
  w_client :: client
  w_now :: int
  w_opened :: "nat set"
  w_closed :: "nat set"
  w_log :: "(int \<times> nat \<times> jstr) list"

definition due :: "int \<Rightarrow> int option \<Rightarrow> bool" where
  "due now t = (case t of None \<Rightarrow> False | Some d \<Rightarrow> d \<le> now)"

fun allowed :: "event \<Rightarrow> int \<Rightarrow> world \<Rightarrow> bool" where
  "allowed (Open s) now w \<longleftrightarrow> s < e_sockets (w_client w) \<and> s \<notin> w_opened w \<and> s \<notin> w_closed w"
| "allowed (Message s data t) now w \<longleftrightarrow> s \<in> w_opened w \<and> s \<notin> w_closed w"
| "allowed (Close s) now w \<longleftrightarrow> s < e_sockets (w_client w) \<and> s \<notin> w_closed w"
| "allowed (KeyClick i is_open) now w \<longleftrightarrow> i < length (d_keys (w_client w))"
| "allowed (KeyButton i ev) now w \<longleftrightarrow> i < length (d_keys (w_client w))"
| "allowed ResetTimer now w \<longleftrightarrow> due now (v_resetTimer (w_client w))"
| "allowed ReconnectTimer now w \<longleftrightarrow> due now (v_reconnectTimer (w_client w))"
| "allowed (Resumed ok) now w \<longleftrightarrow> e_unlocks (w_client w) > 0"
| "allowed (Described r d) now w \<longleftrightarrow>
     list_ex (\<lambda>(r', d'). r' = r \<and> (d = None \<or> d = Some d')) (e_describing (w_client w))"
| "allowed _ now w \<longleftrightarrow> True"

definition advance :: "platform \<Rightarrow> int \<Rightarrow> event \<Rightarrow> world \<Rightarrow> world" where
  "advance P now ev w =
     (let c = react P now ev (w_client w)
      in \<lparr>w_client = c, w_now = now,
          w_opened = (case ev of Open s \<Rightarrow> insert s (w_opened w) | _ \<Rightarrow> w_opened w),
          w_closed = (case ev of Close s \<Rightarrow> insert s (w_closed w) | _ \<Rightarrow> w_closed w),
          w_log = w_log w @ map (\<lambda>(s, t). (now, s, t)) (drop (length (e_sent (w_client w))) (e_sent c))\<rparr>)"

definition first_world :: "key list \<Rightarrow> int \<Rightarrow> world" where
  "first_world keys now = \<lparr>w_client = start keys, w_now = now, w_opened = {}, w_closed = {}, w_log = []\<rparr>"

inductive session :: "platform \<Rightarrow> key list \<Rightarrow> world \<Rightarrow> bool" for P keys where
  load: "session P keys (first_world keys now)"
| event: "session P keys w \<Longrightarrow> w_now w \<le> now \<Longrightarrow> allowed ev now w \<Longrightarrow> session P keys (advance P now ev w)"

section \<open>What the helpers leave alone\<close>

lemma updateKeys_simps [simp]:
  "v_ready (updateKeys c) = (v_connected c \<and> v_machineReady c \<and> \<not> v_awaitingFullFrame c)"
  "d_keys (updateKeys c) = map (\<lambda>k. k\<lparr>k_disabled := \<not> (v_connected c \<and> v_machineReady c \<and> \<not> v_awaitingFullFrame c)\<rparr>) (d_keys c)"
  "v_connected (updateKeys c) = v_connected c" "v_machineReady (updateKeys c) = v_machineReady c"
  "v_awaitingFullFrame (updateKeys c) = v_awaitingFullFrame c"
  by (simp_all add: updateKeys_def setKeysEnabled_def Let_def)

lemmas handler_defs = on_open_def on_close_def connect_def showStatus_def stopAudio_def updateReset_def
  on_key_button_def on_reset_button_def sound_click_def unlockAudio_def resumed_def audio_statechange_def
  showAudioState_def source_ended_def described_def reset_timer_def Let_def

section \<open>The connection\<close>

text \<open>
  The variables that track the connection, and what each handler does to them.  \<open>message_keeps\<close>: no
  message touches the socket, the connection or the timers.
\<close>

definition link :: "client \<Rightarrow> nat option \<times> bool \<times> int option \<times> nat \<times> bool \<times> int option" where
  "link c = (v_socket c, v_connected c, v_reconnectTimer c, e_sockets c, v_resetPending c, v_resetTimer c)"

lemma link_simps [simp]:
  "link (updateKeys c) = link c" "link (updateReset c) = link c" "link (showStatus a b c) = link c"
  "link (paint x y w h c) = link c" "link (describeCurrentFrame P c) = link c" "link (acknowledgeReset c) = link c"
  "link (showAudioState s t c) = link c" "link (stopAudio c) = link c" "link (unlockAudio c) = link c"
  by (simp_all add: link_def updateKeys_def setKeysEnabled_def paint_def describeCurrentFrame_def
      acknowledgeReset_def handler_defs)

lemma link_message:
  "link (on_media m c) = link c" "link (on_palette p c) = link c" "link (on_state s c) = link c"
  "link (fst (on_frame P f c)) = link c" "link (fst (handleBinary P t b c)) = link c"
  by (simp_all add: link_def on_media_def on_palette_def on_state_def on_frame_def handleBinary_def play_def
      updateKeys_def setKeysEnabled_def describeCurrentFrame_def paint_def acknowledgeReset_def showStatus_def Let_def)

lemma link_handled:
  "link (fst (handleMessage P t c)) = link c"
  by (simp add: handleMessage_def link_message split: sum.split server_message.split)

lemma link_on_error: "link (on_error s e c) = link c"
  by (simp add: on_error_def link_def updateReset_def updateKeys_def setKeysEnabled_def showStatus_def Let_def)

lemma link_dispatch: "link (fst (dispatch P t d c)) = link c"
  by (simp add: dispatch_def link_handled link_message split: message_data.split)

lemma link_on_message: "link (on_message P t s d c) = link c"
  using link_dispatch [of P t d c] by (auto simp: on_message_def link_on_error split: prod.split option.split)

lemma link_react:
  "link (react P now ev c) =
    (case ev of
       Open s \<Rightarrow> if v_socket c = Some s then (v_socket c, True, v_reconnectTimer c, e_sockets c, v_resetPending c, v_resetTimer c)
                 else link c
     | Close s \<Rightarrow> if v_socket c = Some s
                  then (None, False, v_reconnectTimer (on_close now s c), e_sockets c, v_resetPending c, v_resetTimer c)
                  else link c
     | ResetClick is_open \<Rightarrow> if d_resetDisabled c \<or> v_socket c = None \<or> \<not> is_open then link c
                  else (v_socket c, v_connected c, v_reconnectTimer c, e_sockets c, True, Some (now + resetCooldown))
     | ResetTimer \<Rightarrow> (v_socket c, v_connected c, v_reconnectTimer c, e_sockets c, False, None)
     | ReconnectTimer \<Rightarrow> (Some (e_sockets c), False, None, e_sockets c + 1, v_resetPending c, v_resetTimer c)
     | _ \<Rightarrow> link c)"
proof (cases ev)
  case (Message s d t)
  then show ?thesis by (simp add: link_on_message)
next
  case (KeyClick i b)
  then show ?thesis
    by (simp add: key_click_def send_def unlockAudio_def Let_def link_def split: sum.split option.split)
next
  case (ResetClick b)
  then show ?thesis by (auto simp: reset_click_def send_def updateReset_def Let_def link_def)
next
  case (ResetButton b)
  then show ?thesis by (simp add: on_reset_button_def link_def split: button_event.split)
qed (simp_all add: link_def handler_defs updateKeys_def setKeysEnabled_def)

lemma reconnectDelay_range: "250 \<le> reconnectDelay n" "reconnectDelay n \<le> 5000"
proof -
  have "(1 :: int) \<le> 2 ^ min n 5" by simp
  then show "250 \<le> reconnectDelay n" "reconnectDelay n \<le> 5000" by (simp_all add: reconnectDelay_def)
qed

lemma on_close_timer:
  assumes "v_socket c = Some s"
  shows "\<exists>n. v_reconnectTimer (on_close now s c) = Some (now + reconnectDelay n)"
  using assms by (simp add: on_close_def Let_def) blast

text \<open>Which sockets are alive, and when the next connection is due.\<close>

definition connection_ok :: "world \<Rightarrow> bool" where
  "connection_ok w \<longleftrightarrow> (let c = w_client w in
     (v_connected c \<longleftrightarrow> (\<exists>s \<in> w_opened w. v_socket c = Some s))
     \<and> {s. s < e_sockets c \<and> s \<notin> w_closed w} = set_option (v_socket c)
     \<and> w_opened w \<subseteq> {..<e_sockets c} \<and> w_closed w \<subseteq> {..<e_sockets c}
     \<and> (v_socket c = None \<longleftrightarrow> v_reconnectTimer c \<noteq> None)
     \<and> (\<forall>d. v_reconnectTimer c = Some d \<longrightarrow> d \<le> w_now w + 5000))"

lemma connection_ok_link:
  assumes "link c' = link (w_client w)" "w_now w \<le> now" "connection_ok w"
  shows "connection_ok (w\<lparr>w_client := c', w_now := now, w_log := l\<rparr>)"
  using assms by (force simp: connection_ok_def link_def Let_def)

lemma advance_other:
  "(\<And>s. ev \<noteq> Open s) \<Longrightarrow> (\<And>s. ev \<noteq> Close s) \<Longrightarrow>
   \<exists>l. advance P now ev w = w\<lparr>w_client := react P now ev (w_client w), w_now := now, w_log := l\<rparr>"
  by (cases ev; cases w) (auto simp: advance_def Let_def)

lemma connection_ok_advance:
  assumes ok: "connection_ok w" and al: "allowed ev now w" "w_now w \<le> now"
  shows "connection_ok (advance P now ev w)"
proof -
  let ?c = "w_client w"
  note l = link_react [of P now ev ?c]
  show ?thesis
  proof (cases "\<exists>s. ev = Open s \<or> ev = Close s")
    case False
    then obtain lg where a: "advance P now ev w = w\<lparr>w_client := react P now ev ?c, w_now := now, w_log := lg\<rparr>"
      using advance_other [of ev P now w] by auto
    show ?thesis
    proof (cases "ev = ReconnectTimer")
      case True
      with ok al have "v_socket ?c = None"
        by (auto simp: connection_ok_def due_def Let_def split: option.splits)
      with ok l True show ?thesis
        unfolding a by (auto simp: connection_ok_def link_def Let_def less_Suc_eq)
    next
      case rec: False
      show ?thesis
      proof (cases "link (react P now ev ?c) = link ?c")
        case True
        from connection_ok_link [OF this al(2) ok] show ?thesis unfolding a .
      next
        case other: False
        with l False rec have "v_socket (react P now ev ?c) = v_socket ?c \<and> v_connected (react P now ev ?c) = v_connected ?c
            \<and> v_reconnectTimer (react P now ev ?c) = v_reconnectTimer ?c \<and> e_sockets (react P now ev ?c) = e_sockets ?c"
          by (cases ev) (auto simp: link_def split: if_splits)
        with ok al(2) show ?thesis unfolding a by (force simp: connection_ok_def Let_def)
      qed
    qed
  next
    case True
    then obtain s where s: "ev = Open s \<or> ev = Close s" by blast
    with al have live: "s < e_sockets ?c \<and> s \<notin> w_closed w" by auto
    with ok have "s \<in> set_option (v_socket ?c)" unfolding connection_ok_def Let_def by blast
    with live have cur: "v_socket ?c = Some s" "s < e_sockets ?c" "s \<notin> w_closed w" by simp_all
    from s show ?thesis
    proof
      assume ev: "ev = Open s"
      with l cur have "link (react P now ev ?c) = (Some s, True, v_reconnectTimer ?c, e_sockets ?c, v_resetPending ?c, v_resetTimer ?c)"
        by simp
      with ok cur al ev show ?thesis by (force simp: connection_ok_def advance_def link_def Let_def)
    next
      assume ev: "ev = Close s"
      from on_close_timer [OF cur(1), of now] obtain n where
        t: "v_reconnectTimer (on_close now s ?c) = Some (now + reconnectDelay n)" by blast
      with l cur ev have "link (react P now ev ?c)
          = (None, False, Some (now + reconnectDelay n), e_sockets ?c, v_resetPending ?c, v_resetTimer ?c)"
        by simp
      with ok cur al ev reconnectDelay_range(2) [of n] show ?thesis
        by (force simp: connection_ok_def advance_def link_def Let_def)
    qed
  qed
qed

lemma connection_ok_session: "session P keys w \<Longrightarrow> connection_ok w"
proof (induction rule: session.induct)
  case load
  show ?case
    by (auto simp: connection_ok_def first_world_def start_def loaded_def handler_defs updateKeys_def setKeysEnabled_def)
next
  case (event w now ev)
  then show ?case by (intro connection_ok_advance)
qed

text \<open>
  C6.  The client keeps exactly one connection going.  However the browser orders its events, at most
  one socket the client opened has not closed, and it is the current one; when there is none, a
  reconnection is scheduled at most five seconds ahead, the timer may fire then, and firing opens the
  next socket.
\<close>

theorem one_connection:
  assumes "session P keys w"
  shows "{s. s < e_sockets (w_client w) \<and> s \<notin> w_closed w} = set_option (v_socket (w_client w))
    \<and> (v_socket (w_client w) = None \<longrightarrow>
         (\<exists>now. w_now w \<le> now \<and> now \<le> w_now w + 5000 \<and> allowed ReconnectTimer now w
           \<and> v_socket (w_client (advance P now ReconnectTimer w)) = Some (e_sockets (w_client w))))"
proof (intro conjI impI)
  note ok = connection_ok_session [OF assms]
  then show "{s. s < e_sockets (w_client w) \<and> s \<notin> w_closed w} = set_option (v_socket (w_client w))"
    by (simp add: connection_ok_def Let_def)
  assume "v_socket (w_client w) = None"
  with ok obtain d where d: "v_reconnectTimer (w_client w) = Some d" "d \<le> w_now w + 5000"
    by (auto simp: connection_ok_def Let_def)
  have "v_socket (w_client (advance P (max d (w_now w)) ReconnectTimer w)) = Some (e_sockets (w_client w))"
    using link_react [of P "max d (w_now w)" ReconnectTimer "w_client w"] by (simp add: advance_def link_def Let_def)
  with d show "\<exists>now. w_now w \<le> now \<and> now \<le> w_now w + 5000 \<and> allowed ReconnectTimer now w
      \<and> v_socket (w_client (advance P now ReconnectTimer w)) = Some (e_sockets (w_client w))"
    by (intro exI [of _ "max d (w_now w)"]) (simp add: due_def)
qed

section \<open>The handset\<close>

definition keys_ok :: "client \<Rightarrow> bool" where
  "keys_ok c \<longleftrightarrow> v_ready c = (v_connected c \<and> v_machineReady c \<and> \<not> v_awaitingFullFrame c)
     \<and> (\<forall>k \<in> set (d_keys c). k_disabled k = (\<not> v_ready c))
     \<and> (v_machineReady c \<longrightarrow> v_connected c)"

lemma keys_ok_same:
  assumes "keys_ok c" "v_ready c' = v_ready c" "v_connected c' = v_connected c" "v_machineReady c' = v_machineReady c"
    "v_awaitingFullFrame c' = v_awaitingFullFrame c" "d_keys c' = d_keys c"
  shows "keys_ok c'"
  using assms by (simp add: keys_ok_def)

lemma keys_ok_updateKeys: "(v_machineReady c \<longrightarrow> v_connected c) \<Longrightarrow> keys_ok (updateKeys c)"
  by (auto simp: keys_ok_def)

lemma keys_ok_updates [simp]:
  "keys_ok (showStatus a b c) = keys_ok c" "keys_ok (updateReset c) = keys_ok c" "keys_ok (stopAudio c) = keys_ok c"
  "keys_ok (unlockAudio c) = keys_ok c" "keys_ok (acknowledgeReset c) = keys_ok c" "keys_ok (paint x y w h c) = keys_ok c"
  "keys_ok (describeCurrentFrame P c) = keys_ok c" "keys_ok (showAudioState a' b' c) = keys_ok c"
  "keys_ok (c\<lparr>d_keyFeedback := f\<rparr>) = keys_ok c" "keys_ok (c\<lparr>v_haltReason := h'\<rparr>) = keys_ok c"
  by (simp_all add: keys_ok_def handler_defs acknowledgeReset_def paint_def describeCurrentFrame_def)

lemma keys_ok_state:
  "keys_ok c \<Longrightarrow> v_connected c \<Longrightarrow> keys_ok (on_state m c)"
  using keys_ok_updateKeys
  by (simp add: on_state_def Let_def acknowledgeReset_def showStatus_def) (simp add: keys_ok_def)

lemma keys_ok_message:
  assumes "keys_ok c" "v_connected c"
  shows "keys_ok (fst (dispatch P t d c))"
proof (cases d)
  case (Text x)
  show ?thesis
  proof (cases "decodeServerMessage (p_parse P) x")
    case (Inl e)
    with Text assms show ?thesis by (simp add: dispatch_def handleMessage_def)
  next
    case (Inr m)
    then show ?thesis
      using Text assms keys_ok_state [OF assms]
      by (cases m) (auto simp: dispatch_def handleMessage_def on_media_def on_palette_def on_frame_def Let_def
          keys_ok_def showStatus_def paint_def describeCurrentFrame_def)
  qed
next
  case (Binary b)
  with assms show ?thesis
    by (auto simp: dispatch_def handleBinary_def play_def Let_def keys_ok_def)
qed

lemma key_button_disabled: "k_disabled (key_button ev k) = k_disabled k"
  by (simp add: key_button_def setPressed_def split: button_event.split)

lemma disabled_update:
  "(\<forall>k \<in> set (ks[i := key_button ev (ks ! i)]). k_disabled k = b) \<longleftrightarrow> (\<forall>k \<in> set ks. k_disabled k = b)"
proof -
  have "map k_disabled (ks[i := key_button ev (ks ! i)]) = map k_disabled ks"
    by (cases "i < length ks") (simp_all add: map_update key_button_disabled list_update_same_conv list_update_beyond)
  then have "k_disabled ` set (ks[i := key_button ev (ks ! i)]) = k_disabled ` set ks"
    by (metis list.set_map)
  then show ?thesis by (metis (mono_tags, lifting) image_iff)
qed

lemma keys_ok_react:
  assumes "keys_ok c" "\<And>s d t. ev = Message s d t \<Longrightarrow> v_socket c = Some s \<Longrightarrow> v_connected c"
  shows "keys_ok (react P now ev c)"
proof (cases ev)
  case (Message s d t)
  show ?thesis
  proof (cases "v_socket c = Some s")
    case True
    with assms Message have k: "keys_ok (fst (dispatch P t d c))" by (intro keys_ok_message) auto
    moreover have "keys_ok (on_error s e c1)" for e c1
      by (simp add: on_error_def Let_def showStatus_def) (auto simp: keys_ok_def updateReset_def)
    ultimately show ?thesis
      using True Message by (auto simp: on_message_def split: prod.split option.split)
  next
    case False
    with assms Message show ?thesis by (simp add: on_message_def)
  qed
next
  case (KeyButton i b)
  show ?thesis
    using assms unfolding KeyButton react.simps keys_ok_def on_key_button_def by (simp add: disabled_update)
next
  case (KeyClick i b)
  with assms show ?thesis
    by (auto simp: key_click_def send_def Let_def keys_ok_def unlockAudio_def split: sum.split option.split)
next
  case (ResetClick b)
  with assms show ?thesis by (auto simp: reset_click_def send_def updateReset_def Let_def keys_ok_def)
next
  case (ResetButton b)
  with assms show ?thesis by (simp add: on_reset_button_def keys_ok_def split: button_event.split)
next
  case (Open s)
  with assms show ?thesis
    by (simp add: on_open_def Let_def showStatus_def updateReset_def) (auto simp: keys_ok_def)
next
  case (Close s)
  with assms show ?thesis
    by (simp add: on_close_def Let_def showStatus_def) (simp add: keys_ok_def updateReset_def)
next
  case ReconnectTimer
  then show ?thesis by (simp add: connect_def Let_def showStatus_def) (simp add: keys_ok_def updateReset_def)
next
  case ResetTimer
  with assms show ?thesis by (simp add: reset_timer_def) (simp add: keys_ok_def)
next
  case SoundClick
  with assms show ?thesis by (simp add: sound_click_def) (simp add: keys_ok_def)
next
  case (AudioState s)
  with assms show ?thesis by (simp add: audio_statechange_def Let_def) (simp add: keys_ok_def)
next
  case (Resumed b)
  with assms show ?thesis by (simp add: resumed_def Let_def) (simp add: keys_ok_def)
next
  case (SourceEnded n)
  with assms show ?thesis by (simp add: source_ended_def keys_ok_def)
next
  case (Described r d)
  with assms show ?thesis by (simp add: described_def keys_ok_def)
qed

lemma keys_ok_session: "session P keys w \<Longrightarrow> keys_ok (w_client w)"
proof (induction rule: session.induct)
  case load
  show ?case by (simp add: first_world_def start_def connect_def Let_def showStatus_def) (simp add: keys_ok_def updateReset_def)
next
  case (event w now ev)
  have "v_connected (w_client w)" if "ev = Message s d t" "v_socket (w_client w) = Some s" for s d t
    using connection_ok_session [OF event.hyps(1)] event.hyps(3) that by (auto simp: connection_ok_def Let_def)
  then show ?case
    using keys_ok_react [OF event.IH] by (simp add: advance_def Let_def)
qed

text \<open>
  C7.  The handset is live exactly when the box can take a key.  In every state of a session each
  button of the handset is enabled if and only if the client is connected, the machine has reported
  that it is ready, and a complete screen has arrived since the last connection or palette change.
\<close>

theorem handset_enabled_iff_ready:
  assumes "session P keys w" "k \<in> set (d_keys (w_client w))"
  shows "k_disabled k = (\<not> (v_connected (w_client w) \<and> v_machineReady (w_client w) \<and> \<not> v_awaitingFullFrame (w_client w)))"
  using keys_ok_session [OF assms(1)] assms(2) by (auto simp: keys_ok_def)

section \<open>What is sent\<close>

lemma sent_simps [simp]:
  "e_sent (updateKeys c) = e_sent c" "e_sent (updateReset c) = e_sent c" "e_sent (showStatus a b c) = e_sent c"
  "e_sent (paint x y w h c) = e_sent c" "e_sent (describeCurrentFrame P c) = e_sent c"
  "e_sent (acknowledgeReset c) = e_sent c" "e_sent (showAudioState s t c) = e_sent c" "e_sent (stopAudio c) = e_sent c"
  "e_sent (unlockAudio c) = e_sent c" "e_sent (on_error s' e c) = e_sent c"
  by (simp_all add: updateKeys_def setKeysEnabled_def paint_def describeCurrentFrame_def
      acknowledgeReset_def on_error_def handler_defs)

lemma sent_dispatch: "e_sent (fst (dispatch P t d c)) = e_sent c"
  by (simp add: dispatch_def handleMessage_def on_media_def on_palette_def on_state_def on_frame_def
      handleBinary_def play_def Let_def split: message_data.split sum.split server_message.split)

lemma sent_on_message: "e_sent (on_message P t s d c) = e_sent c"
  using sent_dispatch [of P t d c] by (auto simp: on_message_def split: prod.split option.split)

text \<open>What an event sends: a key, a reset, or nothing.\<close>

definition sends :: "event \<Rightarrow> client \<Rightarrow> (nat \<times> jstr) list" where
  "sends ev c =
     (case (ev, v_socket c) of
        (KeyClick i True, Some s) \<Rightarrow>
          if k_disabled (d_keys c ! i) \<or> \<not> v_connected c \<or> \<not> v_ready c then []
          else (case encodeKeyMessage (k_raw (d_keys c ! i)) (JNum 0) of Inl e \<Rightarrow> [] | Inr t \<Rightarrow> [(s, t)])
      | (ResetClick True, Some s) \<Rightarrow> if d_resetDisabled c then [] else [(s, encodeResetMessage)]
      | _ \<Rightarrow> [])"

lemma sent_react: "e_sent (react P now ev c) = e_sent c @ sends ev c"
proof (cases ev)
  case (KeyClick i b)
  then show ?thesis
    by (cases b; cases "v_socket c") (simp_all add: key_click_def send_def sends_def Let_def split: sum.split)
next
  case (ResetClick b)
  then show ?thesis by (cases b; cases "v_socket c") (simp_all add: reset_click_def send_def sends_def Let_def)
next
  case (ResetButton b)
  then show ?thesis by (simp add: on_reset_button_def sends_def split: button_event.split)
next
  case (Open s)
  then show ?thesis by (simp add: on_open_def Let_def sends_def)
next
  case (Close s)
  then show ?thesis by (simp add: on_close_def Let_def sends_def)
next
  case ReconnectTimer
  then show ?thesis by (simp add: connect_def Let_def sends_def)
qed (simp_all add: sends_def sent_on_message on_key_button_def reset_timer_def sound_click_def
    audio_statechange_def resumed_def source_ended_def described_def Let_def)

lemma log_advance: "w_log (advance P now ev w) = w_log w @ map (\<lambda>(s, t). (now, s, t)) (sends ev (w_client w))"
  by (simp add: advance_def Let_def sent_react)

section \<open>The reset button\<close>

definition reset_shown :: "client \<Rightarrow> bool" where
  "reset_shown c \<longleftrightarrow> d_resetDisabled c = (\<not> v_connected c \<or> v_resetPending c)
     \<and> (v_resetPending c \<longleftrightarrow> v_resetTimer c \<noteq> None)"

lemma reset_shown_updates [simp]:
  "reset_shown (showStatus a b c) = reset_shown c" "reset_shown (stopAudio c) = reset_shown c"
  "reset_shown (unlockAudio c) = reset_shown c" "reset_shown (acknowledgeReset c) = reset_shown c"
  "reset_shown (paint x y w h c) = reset_shown c" "reset_shown (describeCurrentFrame P c) = reset_shown c"
  "reset_shown (showAudioState a' b' c) = reset_shown c" "reset_shown (updateKeys c) = reset_shown c"
  by (simp_all add: reset_shown_def handler_defs acknowledgeReset_def paint_def describeCurrentFrame_def
      updateKeys_def setKeysEnabled_def)

lemma reset_shown_updateReset:
  "(v_resetPending c \<longleftrightarrow> v_resetTimer c \<noteq> None) \<Longrightarrow> reset_shown (updateReset c)"
  by (simp add: reset_shown_def updateReset_def)

lemma reset_shown_dispatch: "reset_shown c \<Longrightarrow> reset_shown (fst (dispatch P t d c))"
proof -
  assume c: "reset_shown c"
  have "d_resetDisabled (fst (dispatch P t d c)) = d_resetDisabled c"
    by (simp add: dispatch_def handleMessage_def on_media_def on_palette_def on_state_def on_frame_def
        handleBinary_def play_def Let_def acknowledgeReset_def showStatus_def paint_def describeCurrentFrame_def
        updateKeys_def setKeysEnabled_def split: message_data.split sum.split server_message.split)
  with c link_dispatch [of P t d c] show ?thesis by (simp add: reset_shown_def link_def)
qed

lemma reset_shown_react: "reset_shown c \<Longrightarrow> reset_shown (react P now ev c)"
proof (cases ev)
  case (Message s d t)
  assume c: "reset_shown c"
  have "reset_shown (on_error s e c1)" if "reset_shown c1" for e c1
    using that by (simp add: on_error_def Let_def showStatus_def)
      (simp add: reset_shown_def updateReset_def updateKeys_def setKeysEnabled_def Let_def)
  then show ?thesis
    using c reset_shown_dispatch [OF c, of P t d] Message
    by (auto simp: on_message_def split: prod.split option.split)
next
  case (KeyClick i b)
  assume "reset_shown c"
  with KeyClick show ?thesis
    by (simp add: key_click_def send_def Let_def reset_shown_def unlockAudio_def split: sum.split option.split)
next
  case (ResetClick b)
  assume "reset_shown c"
  with ResetClick show ?thesis
    by (auto simp: reset_click_def send_def updateReset_def Let_def reset_shown_def split: option.split)
next
  case (ResetButton b)
  assume "reset_shown c"
  with ResetButton show ?thesis by (simp add: on_reset_button_def reset_shown_def split: button_event.split)
next
  case (Open s)
  assume "reset_shown c"
  with Open show ?thesis
    by (simp add: on_open_def Let_def showStatus_def) (simp add: reset_shown_def updateReset_def)
next
  case (Close s)
  assume "reset_shown c"
  with Close show ?thesis
    by (simp add: on_close_def Let_def showStatus_def) (simp add: reset_shown_def updateReset_def stopAudio_def updateKeys_def setKeysEnabled_def Let_def)
next
  case ReconnectTimer
  assume "reset_shown c"
  with ReconnectTimer show ?thesis
    by (simp add: connect_def Let_def showStatus_def) (simp add: reset_shown_def updateReset_def stopAudio_def updateKeys_def setKeysEnabled_def Let_def)
next
  case ResetTimer
  then show ?thesis by (simp add: reset_timer_def reset_shown_def updateReset_def)
qed (simp_all add: on_key_button_def sound_click_def audio_statechange_def resumed_def source_ended_def
    described_def Let_def, simp_all add: reset_shown_def)

lemma reset_shown_session: "session P keys w \<Longrightarrow> reset_shown (w_client w)"
proof (induction rule: session.induct)
  case load
  show ?case
    by (simp add: first_world_def start_def connect_def Let_def showStatus_def)
      (simp add: reset_shown_def handler_defs loaded_def updateKeys_def setKeysEnabled_def)
next
  case (event w now ev)
  then show ?case using reset_shown_react by (simp add: advance_def Let_def)
qed

lemma key_text_not_reset: "encodeKeyMessage a b = Inr t \<Longrightarrow> t \<noteq> encodeResetMessage"
  by (auto simp: encodeKey_Inr key_json_def encodeResetMessage_def)

definition resets :: "world \<Rightarrow> int list" where
  "resets w = map fst (filter (\<lambda>(t, s, x). x = encodeResetMessage) (w_log w))"

lemma resets_advance:
  "resets (advance P now ev w) = resets w @
     (case (ev, v_socket (w_client w)) of
        (ResetClick True, Some s) \<Rightarrow> if d_resetDisabled (w_client w) then [] else [now]
      | _ \<Rightarrow> [])"
proof (cases ev)
  case (KeyClick i b)
  then show ?thesis
    using key_text_not_reset
    by (cases b; cases "v_socket (w_client w)") (auto simp: resets_def log_advance sends_def split: sum.split)
next
  case (ResetClick b)
  then show ?thesis
    by (cases b; cases "v_socket (w_client w)") (simp_all add: resets_def log_advance sends_def)
qed (simp_all add: resets_def log_advance sends_def)

definition resets_ok :: "world \<Rightarrow> bool" where
  "resets_ok w \<longleftrightarrow> successively (\<lambda>a b. a + resetCooldown \<le> b) (resets w)
     \<and> (resets w \<noteq> [] \<longrightarrow> (case v_resetTimer (w_client w) of
            Some d \<Rightarrow> d = last (resets w) + resetCooldown
          | None \<Rightarrow> last (resets w) + resetCooldown \<le> w_now w))"

lemma resets_ok_advance:
  assumes "resets_ok w" "reset_shown (w_client w)" "allowed ev now w" "w_now w \<le> now"
  shows "resets_ok (advance P now ev w)"
proof (cases "\<exists>s. ev = ResetClick True \<and> v_socket (w_client w) = Some s \<and> \<not> d_resetDisabled (w_client w)")
  case True
  then obtain s where s: "ev = ResetClick True" "v_socket (w_client w) = Some s" "\<not> d_resetDisabled (w_client w)" by blast
  have r: "resets (advance P now ev w) = resets w @ [now]" using s resets_advance [of P now ev w] by simp
  have t: "v_resetTimer (w_client (advance P now ev w)) = Some (now + resetCooldown)"
    using link_react [of P now ev "w_client w"] s by (simp add: advance_def Let_def link_def)
  from s assms(2) have "v_resetTimer (w_client w) = None"
    by (cases "v_resetTimer (w_client w)") (auto simp: reset_shown_def)
  with assms(1,4) have "resets w \<noteq> [] \<longrightarrow> last (resets w) + resetCooldown \<le> now" by (auto simp: resets_ok_def)
  with assms(1) show ?thesis by (auto simp: resets_ok_def r t successively_append_iff)
next
  case False
  then have r: "resets (advance P now ev w) = resets w"
    unfolding resets_advance by (auto split: event.split option.split bool.split)
  have n: "w_now (advance P now ev w) = now" by (simp add: advance_def Let_def)
  have "v_resetTimer (w_client (advance P now ev w)) = v_resetTimer (w_client w)
    \<or> (ev = ResetTimer \<and> v_resetTimer (w_client (advance P now ev w)) = None)"
    using link_react [of P now ev "w_client w"] False
    by (cases ev) (auto simp: advance_def Let_def link_def split: if_splits)
  then show ?thesis
  proof
    assume t: "v_resetTimer (w_client (advance P now ev w)) = v_resetTimer (w_client w)"
    with assms(1,4) show ?thesis by (auto simp: resets_ok_def r n split: option.split)
  next
    assume t: "ev = ResetTimer \<and> v_resetTimer (w_client (advance P now ev w)) = None"
    with assms(3) obtain d where "v_resetTimer (w_client w) = Some d" "d \<le> now"
      by (auto simp: due_def split: option.splits)
    with conjunct2 [OF t] assms(1) show ?thesis unfolding resets_ok_def r n by auto
  qed
qed

lemma resets_ok_session: "session P keys w \<Longrightarrow> resets_ok w"
proof (induction rule: session.induct)
  case load
  show ?case by (simp add: resets_ok_def resets_def first_world_def)
next
  case (event w now ev)
  then show ?case using reset_shown_session by (intro resets_ok_advance)
qed



section \<open>A short session\<close>

text \<open>
  The page loads, its socket opens, the user resets the box twice, as early as the button allows, and
  the connection drops.
\<close>

definition no_platform :: platform where
  "no_platform = \<lparr>p_parse = (\<lambda>_. Inl []), p_sha = (\<lambda>_. []), p_noAudioBuffer = []\<rparr>"

definition one_key :: key where
  "one_key = \<lparr>k_raw = JNum 0xCC, k_aria = [], k_text = js ''tv guide'', k_disabled = True, k_pressed = False\<rparr>"

definition demo1 :: world where "demo1 = advance no_platform 5 (Open 0) (first_world [one_key] 0)"
definition demo2 :: world where "demo2 = advance no_platform 10 (ResetClick True) demo1"
definition demo3 :: world where "demo3 = advance no_platform 3010 ResetTimer demo2"
definition demo4 :: world where "demo4 = advance no_platform 3010 (ResetClick True) demo3"
definition demo5 :: world where "demo5 = advance no_platform 4000 (Close 0) demo4"

lemma demo0_facts: "w_now (first_world keys 0) = 0" "w_opened (first_world keys 0) = {}"
  "w_closed (first_world keys 0) = {}" "e_sockets (w_client (first_world keys 0)) = 1"
  "v_socket (w_client (first_world keys 0)) = Some 0" "resets (first_world keys 0) = []"
  "v_resetPending (w_client (first_world keys 0)) = False" "v_resetTimer (w_client (first_world keys 0)) = None"
  "v_reconnectTimer (w_client (first_world keys 0)) = None"
  by (simp_all add: first_world_def start_def loaded_def connect_def resets_def showStatus_def stopAudio_def
      updateReset_def updateKeys_def setKeysEnabled_def showAudioState_def Let_def)

lemma demo1_facts: "session no_platform [one_key] demo1" "w_now demo1 = 5" "w_opened demo1 = {0}" "w_closed demo1 = {}"
  "link (w_client demo1) = (Some 0, True, None, 1, False, None)" "resets demo1 = []"
proof -
  let ?w = "first_world [one_key] 0"
  show "session no_platform [one_key] demo1"
    unfolding demo1_def by (rule session.event [OF session.load]) (simp_all add: demo0_facts)
  show "link (w_client demo1) = (Some 0, True, None, 1, False, None)"
    using link_react [of no_platform 5 "Open 0" "w_client ?w"] demo0_facts
    by (simp add: demo1_def advance_def Let_def link_def)
  show "resets demo1 = []" by (simp add: demo1_def resets_advance demo0_facts)
qed (simp_all add: demo1_def advance_def Let_def demo0_facts)

lemma shown_enabled:
  "session P keys w \<Longrightarrow> link (w_client w) = (Some s, True, r, n, False, t) \<Longrightarrow>
   \<not> d_resetDisabled (w_client w) \<and> v_socket (w_client w) = Some s"
  using reset_shown_session [of P keys w] by (simp add: reset_shown_def link_def)

lemma demo2_facts: "session no_platform [one_key] demo2" "w_now demo2 = 10" "w_closed demo2 = {}"
  "link (w_client demo2) = (Some 0, True, None, 1, True, Some 3010)" "resets demo2 = [10]"
proof -
  note e = shown_enabled [OF demo1_facts(1,5)]
  show "session no_platform [one_key] demo2"
    unfolding demo2_def by (rule session.event [OF demo1_facts(1)]) (simp_all add: demo1_facts)
  show "link (w_client demo2) = (Some 0, True, None, 1, True, Some 3010)"
    using link_react [of no_platform 10 "ResetClick True" "w_client demo1"] demo1_facts(5) e
    by (simp add: demo2_def advance_def Let_def link_def)
  show "resets demo2 = [10]" using e by (simp add: demo2_def resets_advance demo1_facts)
qed (simp_all add: demo2_def advance_def Let_def demo1_facts)

lemma demo3_facts: "session no_platform [one_key] demo3" "w_now demo3 = 3010" "w_closed demo3 = {}"
  "link (w_client demo3) = (Some 0, True, None, 1, False, None)" "resets demo3 = [10]"
proof -
  show "session no_platform [one_key] demo3"
    using demo2_facts(4) unfolding demo3_def
    by (intro session.event [OF demo2_facts(1)]) (simp_all add: demo2_facts due_def link_def)
  show "link (w_client demo3) = (Some 0, True, None, 1, False, None)"
    using link_react [of no_platform 3010 ResetTimer "w_client demo2"] demo2_facts(4)
    by (simp add: demo3_def advance_def Let_def link_def)
  show "resets demo3 = [10]" by (simp add: demo3_def resets_advance demo2_facts)
qed (simp_all add: demo3_def advance_def Let_def demo2_facts)

lemma demo4_facts: "session no_platform [one_key] demo4" "w_now demo4 = 3010" "w_closed demo4 = {}"
  "link (w_client demo4) = (Some 0, True, None, 1, True, Some 6010)" "resets demo4 = [10, 3010]"
proof -
  note e = shown_enabled [OF demo3_facts(1,4)]
  show "session no_platform [one_key] demo4"
    unfolding demo4_def by (rule session.event [OF demo3_facts(1)]) (simp_all add: demo3_facts)
  show "link (w_client demo4) = (Some 0, True, None, 1, True, Some 6010)"
    using link_react [of no_platform 3010 "ResetClick True" "w_client demo3"] demo3_facts(4) e
    by (simp add: demo4_def advance_def Let_def link_def)
  show "resets demo4 = [10, 3010]" using e by (simp add: demo4_def resets_advance demo3_facts)
qed (simp_all add: demo4_def advance_def Let_def demo3_facts)

lemma demo5_facts: "session no_platform [one_key] demo5" "v_socket (w_client demo5) = None" "w_closed demo5 = {0}"
  "e_sockets (w_client demo5) = 1"
proof -
  show "session no_platform [one_key] demo5"
    using demo4_facts(4) unfolding demo5_def
    by (intro session.event [OF demo4_facts(1)]) (simp_all add: demo4_facts link_def)
  show "v_socket (w_client demo5) = None" "e_sockets (w_client demo5) = 1"
    using link_react [of no_platform 4000 "Close 0" "w_client demo4"] demo4_facts(4)
    by (simp_all add: demo5_def advance_def Let_def link_def)
qed (simp add: demo5_def advance_def Let_def demo4_facts)

theorem one_connection_witness:
  "{s. s < 1 \<and> s \<notin> w_closed demo5} = {} \<and>
   (\<exists>now. w_now demo5 \<le> now \<and> v_socket (w_client (advance no_platform now ReconnectTimer demo5)) = Some 1)"
  using one_connection [OF demo5_facts(1)] demo5_facts(2,4) by auto

theorem handset_enabled_iff_ready_witness:
  "\<exists>k \<in> set (d_keys (w_client demo1)). k_disabled k = (\<not> v_machineReady (w_client demo1) \<or> v_awaitingFullFrame (w_client demo1))"
proof -
  have "d_keys (w_client demo1) \<noteq> []"
    by (simp add: demo1_def advance_def Let_def on_open_def first_world_def start_def loaded_def connect_def
        showStatus_def stopAudio_def updateReset_def updateKeys_def setKeysEnabled_def showAudioState_def)
  then have k: "hd (d_keys (w_client demo1)) \<in> set (d_keys (w_client demo1))" by simp
  moreover have "v_connected (w_client demo1)" using demo1_facts(5) by (simp add: link_def)
  ultimately show ?thesis using handset_enabled_iff_ready [OF demo1_facts(1) k] by blast
qed



end
