(* ===== verification/Web_Picture.thy ===== *)
theory Web_Picture
  imports Web_Session
begin

text \<open>
  What the browser client shows and plays: the raster a frame message leaves, the sizes of its buffers,
  the description of the screen, the schedule of the audio buffers, and what a bad message does.
\<close>

section \<open>Drawing a frame\<close>

lemma set_at_nth:
  assumes "pos + length vs \<le> length bs"
  shows "length (set_at bs pos vs) = length bs"
    and "i < length bs \<Longrightarrow> set_at bs pos vs ! i = (if pos \<le> i \<and> i < pos + length vs then vs ! (i - pos) else bs ! i)"
  using assms by (auto simp: set_at_def nth_append min_def)

lemma grid_index:
  assumes "X + W \<le> (720 :: nat)" "px < 720"
  shows "r * 720 + X \<le> py * 720 + px \<and> py * 720 + px < r * 720 + X + W \<longleftrightarrow> py = r \<and> X \<le> px \<and> px < X + W"
proof
  assume a: "r * 720 + X \<le> py * 720 + px \<and> py * 720 + px < r * 720 + X + W"
  then have "py * 720 + px < r * 720 + 720" "r * 720 \<le> py * 720 + px" using assms by auto
  then have "(py * 720 + px) div 720 = r" by (intro div_nat_eqI) auto
  moreover have "(py * 720 + px) div 720 = py" using assms by (intro div_nat_eqI) auto
  ultimately show "py = r \<and> X \<le> px \<and> px < X + W" using a by auto
qed auto

text \<open>The rows of a rectangle written into a raster 720 pixels wide.\<close>

lemma rows_written:
  assumes "length fb = 414720" "X + W \<le> 720" "Y + H \<le> 576" "px < 720" "n \<le> H"
    and "\<And>r. r < H \<Longrightarrow> length (vs r) = W" and "py < 576"
  shows "length (fold (\<lambda>r b. set_at b ((Y + r) * 720 + X) (vs r)) [0..<n] fb) = 414720
    \<and> fold (\<lambda>r b. set_at b ((Y + r) * 720 + X) (vs r)) [0..<n] fb ! (py * 720 + px)
      = (if Y \<le> py \<and> py < Y + n \<and> X \<le> px \<and> px < X + W then vs (py - Y) ! (px - X) else fb ! (py * 720 + px))"
  using assms(5)
proof (induction n)
  case (Suc n)
  let ?b = "fold (\<lambda>r b. set_at b ((Y + r) * 720 + X) (vs r)) [0..<n] fb"
  from Suc have len: "length ?b = 414720" and v: "length (vs n) = W" using assms(6) by auto
  have fit: "(Y + n) * 720 + X + length (vs n) \<le> length ?b"
  proof -
    have "Y + n \<le> 575" using Suc.prems assms(3) by simp
    then have "(Y + n) * 720 \<le> 575 * 720" by (rule mult_le_mono1)
    with assms(2) show ?thesis unfolding len v by simp
  qed
  have g: "((Y + n) * 720 + X \<le> py * 720 + px \<and> py * 720 + px < (Y + n) * 720 + X + length (vs n))
      \<longleftrightarrow> py = Y + n \<and> X \<le> px \<and> px < X + W"
    unfolding v by (rule grid_index [OF assms(2,4)])
  have "py * 720 + px - ((Y + n) * 720 + X) = px - X" if "py = Y + n" using that by simp
  moreover have "py * 720 + px < length ?b"
    using assms(4,7) mult_le_mono1 [of py 575 720] unfolding len by linarith
  ultimately show ?case using set_at_nth [OF fit] g Suc len by (auto simp: less_Suc_eq)
qed (simp add: assms(1))

definition inside :: "frame_message \<Rightarrow> int \<Rightarrow> int \<Rightarrow> bool" where
  "inside m px py \<longleftrightarrow> fm_x m \<le> px \<and> px < fm_x m + fm_w m \<and> fm_y m \<le> py \<and> py < fm_y m + fm_h m"

lemma blit_nth:
  assumes "message_ok (Frame m)" "length fb = 414720" "0 \<le> px" "px < 720" "0 \<le> py" "py < 576"
  shows "length (blit m fb) = 414720 \<and> blit m fb ! nat (py * 720 + px)
    = (if inside m px py then fm_pixels m ! nat ((py - fm_y m) * fm_w m + (px - fm_x m))
       else fb ! nat (py * 720 + px))"
proof -
  let ?X = "nat (fm_x m)" and ?Y = "nat (fm_y m)" and ?W = "nat (fm_w m)" and ?H = "nat (fm_h m)"
  let ?vs = "\<lambda>r. subarray (fm_pixels m) (r * ?W) ?W"
  from assms(1) have r: "0 \<le> fm_x m" "0 \<le> fm_y m" "0 < fm_w m" "0 < fm_h m" "fm_x m + fm_w m \<le> 720"
    "fm_y m + fm_h m \<le> 576" "length (fm_pixels m) = ?H * ?W"
    by (auto simp: nat_mult_distrib [symmetric] mult.commute)
  have row: "r * ?W + ?W \<le> ?H * ?W" if "r < ?H" for r
    using mult_le_mono1 [of "Suc r" ?H ?W] that by simp
  have vl: "length (?vs r) = ?W" if "r < ?H" for r
  proof -
    have "?W \<le> length (fm_pixels m) - r * ?W" using row [OF that] unfolding r(7) by linarith
    then show ?thesis by (simp add: subarray_def)
  qed
  have br: "blit_row m r b = set_at b ((?Y + r) * 720 + ?X) (?vs r)" for r b
    using r by (simp add: blit_row_def nat_add_distrib nat_mult_distrib)
  have ix: "nat (py * 720 + px) = nat py * 720 + nat px"
    using assms(3-6) by (simp add: nat_add_distrib nat_mult_distrib)
  have ins: "inside m px py \<longleftrightarrow> ?Y \<le> nat py \<and> nat py < ?Y + ?H \<and> ?X \<le> nat px \<and> nat px < ?X + ?W"
    using r assms(3-6)
    by (auto simp: inside_def nat_le_eq_zle nat_less_eq_zless nat_add_distrib [symmetric])
  have "?vs (nat py - ?Y) ! (nat px - ?X) = fm_pixels m ! nat ((py - fm_y m) * fm_w m + (px - fm_x m))"
    if "inside m px py"
  proof -
    from that have d: "nat py - ?Y = nat (py - fm_y m)" "nat px - ?X = nat (px - fm_x m)"
      "nat py - ?Y < ?H" "nat px - ?X < ?W" using r assms(3-6) by (auto simp: inside_def nat_diff_distrib)
    have "nat ((py - fm_y m) * fm_w m + (px - fm_x m)) = nat (py - fm_y m) * ?W + nat (px - fm_x m)"
      using that r by (simp add: inside_def nat_add_distrib nat_mult_distrib)
    moreover have "(nat py - ?Y) * ?W \<le> length (fm_pixels m)" using row [OF d(3)] unfolding r(7) by linarith
    ultimately show ?thesis using d by (simp add: subarray_def add.commute)
  qed
  with rows_written [OF assms(2), of ?X ?W ?Y ?H "nat px" ?H ?vs "nat py"] vl r assms(3-6)
  show ?thesis unfolding blit_def br [abs_def] ix ins by auto
qed

text \<open>
  C9.  A frame lands where it says.  When the client takes a frame, every pixel of the raster inside the
  frame's rectangle becomes the frame's pixel and every other pixel stays; the canvas is repainted in
  the rectangle, and only there, with the colours the current palette gives the new raster.
\<close>

theorem frame_drawn:
  assumes "decodeServerMessage (p_parse P) text = Inr (Frame m)" "handleMessage P text c = (c', None)"
    and "length (v_framebuffer c) = 414720" "0 \<le> px" "px < 720" "0 \<le> py" "py < 576"
  shows "length (v_framebuffer c') = 414720
    \<and> v_framebuffer c' ! nat (py * 720 + px)
       = (if inside m px py then fm_pixels m ! nat ((py - fm_y m) * fm_w m + (px - fm_x m))
          else v_framebuffer c ! nat (py * 720 + px))
    \<and> d_canvas c' px py = (if inside m px py then pixel c' px py else d_canvas c px py)
    \<and> v_palette c' = v_palette c \<and> fm_epoch m = v_paletteEpoch c'"
proof -
  from assms(1,2) have f: "on_frame P m c = (c', None)" by (simp add: handleMessage_def)
  then have ep: "fm_epoch m = v_paletteEpoch c" by (auto simp: on_frame_def Let_def split: if_splits)
  from f have *: "v_framebuffer c' = blit m (v_framebuffer c)" "v_palette c' = v_palette c"
    "v_paletteAlpha c' = v_paletteAlpha c" "v_paletteEpoch c' = v_paletteEpoch c"
    "d_canvas c' = d_canvas (paint (fm_x m) (fm_y m) (fm_w m) (fm_h m) (c\<lparr>v_framebuffer := blit m (v_framebuffer c)\<rparr>))"
    by (auto simp: on_frame_def Let_def describeCurrentFrame_def paint_def updateKeys_def setKeysEnabled_def
        split: if_splits)
  show ?thesis
    using * ep blit_nth [OF decoded_message_ok [OF assms(1)] assms(3-7)]
    by (simp add: paint_def inside_def pixel_def Let_def)
qed

definition blank_page :: client where
  "blank_page = loaded []"

definition tiny :: frame_message where
  "tiny = \<lparr>fm_seq = 1, fm_x = 718, fm_y = 575, fm_w = 2, fm_h = 1, fm_epoch = 0, fm_pixels = [255, 0]\<rparr>"

definition tiny_platform :: platform where
  "tiny_platform = \<lparr>p_parse = (\<lambda>_. Inr (message_json (Frame tiny))), p_sha = (\<lambda>_. []), p_noAudioBuffer = []\<rparr>"

theorem frame_drawn_witness:
  "\<exists>c'. handleMessage tiny_platform [] (blank_page\<lparr>v_awaitingFullFrame := False\<rparr>) = (c', None)
     \<and> v_framebuffer c' ! nat (575 * 720 + 718) = 255"
proof -
  let ?c = "blank_page\<lparr>v_awaitingFullFrame := False\<rparr>"
  have d: "decodeServerMessage (p_parse tiny_platform) [] = Inr (Frame tiny)"
    by (rule decode_message_json) (simp_all add: tiny_platform_def tiny_def count_def MAX_SAFE_INTEGER_def)
  then obtain c' where h: "handleMessage tiny_platform [] ?c = (c', None)"
    by (simp add: handleMessage_def on_frame_def tiny_def blank_page_def loaded_def Let_def describeCurrentFrame_def paint_def)
  have len: "length (v_framebuffer ?c) = 414720" by (simp add: blank_page_def loaded_def)
  from frame_drawn [OF d h len, of 718 575]
  have "v_framebuffer c' ! nat (575 * 720 + 718) = 255" by (simp add: inside_def tiny_def)
  with h show ?thesis by blast
qed

section \<open>Buffers, label and picture in a session\<close>

definition picture :: "client \<Rightarrow> int list \<times> int list \<times> int list \<times> nat \<times> (nat \<times> jstr) list \<times> jstr" where
  "picture c = (v_framebuffer c, v_palette c, v_paletteAlpha c, v_screenRevision c, e_describing c, d_label c)"

lemma picture_simps [simp]:
  "picture (updateKeys c) = picture c" "picture (updateReset c) = picture c" "picture (showStatus a b c) = picture c"
  "picture (paint x y w h c) = picture c" "picture (acknowledgeReset c) = picture c"
  "picture (showAudioState s t c) = picture c" "picture (stopAudio c) = picture c" "picture (unlockAudio c) = picture c"
  by (simp_all add: picture_def updateKeys_def setKeysEnabled_def paint_def acknowledgeReset_def handler_defs)

lemma picture_on_error: "picture (on_error s e c) = picture c"
  by (simp add: on_error_def picture_def updateReset_def updateKeys_def setKeysEnabled_def showStatus_def Let_def)

lemma picture_quiet:
  "(\<And>s d t. ev \<noteq> Message s d t) \<Longrightarrow> (\<And>r d. ev \<noteq> Described r d) \<Longrightarrow> picture (react P now ev c) = picture c"
proof (cases ev)
  case (Message s d t)
  assume "\<And>s d t. ev \<noteq> Message s d t"
  with Message show ?thesis by blast
next
  case (Described r d)
  assume "\<And>r d. ev \<noteq> Described r d"
  with Described show ?thesis by blast
next
  case (KeyClick i b)
  then show ?thesis
    by (simp add: key_click_def send_def unlockAudio_def Let_def picture_def split: sum.split option.split)
next
  case (ResetClick b)
  then show ?thesis by (simp add: reset_click_def send_def updateReset_def Let_def picture_def split: option.split)
next
  case (ResetButton b)
  then show ?thesis by (simp add: on_reset_button_def picture_def split: button_event.split)
qed (simp_all add: picture_def handler_defs updateKeys_def setKeysEnabled_def)

definition label_ok :: "platform \<Rightarrow> client \<Rightarrow> bool" where
  "label_ok P c \<longleftrightarrow> d_label c \<in> {js ''Sky Digibox screen'', unknownScreen} \<union> range (describeScreen (p_sha P) (v_framebuffer c))
     \<and> (\<forall>(r, d) \<in> set (e_describing c). r \<le> v_screenRevision c
          \<and> (r = v_screenRevision c \<longrightarrow> d \<in> range (describeScreen (p_sha P) (v_framebuffer c))))"

definition buffers_ok :: "client \<Rightarrow> bool" where
  "buffers_ok c \<longleftrightarrow> length (v_framebuffer c) = 414720 \<and> byte_list (v_framebuffer c)
     \<and> length (v_palette c) = 768 \<and> byte_list (v_palette c)
     \<and> length (v_paletteAlpha c) = 256 \<and> byte_list (v_paletteAlpha c)"

lemma same_picture:
  "picture c' = picture c \<Longrightarrow> label_ok P c \<Longrightarrow> label_ok P c'" "picture c' = picture c \<Longrightarrow> buffers_ok c \<Longrightarrow> buffers_ok c'"
  by (simp_all add: picture_def label_ok_def buffers_ok_def)

lemma byte_list_blit: "byte_list (fm_pixels m) \<Longrightarrow> byte_list fb \<Longrightarrow> byte_list (blit m fb)"
proof -
  assume m: "byte_list (fm_pixels m)"
  have "byte_list (blit_row m r b)" if "byte_list b" for r b
    using m that by (simp add: blit_row_def set_at_def subarray_def byte_list_take_drop)
  then have "byte_list b \<Longrightarrow> byte_list (fold (blit_row m) rs b)" for rs b
    by (induction rs arbitrary: b) simp_all
  then show "byte_list fb \<Longrightarrow> ?thesis" by (simp add: blit_def)
qed

lemma picture_dispatch:
  obtains (same) "picture (fst (dispatch P t d c)) = picture c"
    | (palette) p where "message_ok (Palette p)"
        "picture (fst (dispatch P t d c)) = picture (c\<lparr>v_palette := pm_rgb p, v_paletteAlpha := pm_alpha p\<rparr>)"
    | (frame) m where "message_ok (Frame m)"
        "picture (fst (dispatch P t d c)) = picture (describeCurrentFrame P (c\<lparr>v_framebuffer := blit m (v_framebuffer c)\<rparr>))"
proof (cases d)
  case (Binary b)
  then have "picture (fst (dispatch P t d c)) = picture c"
    by (simp add: dispatch_def handleBinary_def play_def Let_def picture_def)
  then show ?thesis by (rule same)
next
  case (Text x)
  show ?thesis
  proof (cases "decodeServerMessage (p_parse P) x")
    case (Inl e)
    with Text show ?thesis by (intro same) (simp add: dispatch_def handleMessage_def)
  next
    case (Inr m)
    note ok = decoded_message_ok [OF Inr]
    show ?thesis
    proof (cases m)
      case (Palette p)
      have "picture (on_palette p c) = picture (c\<lparr>v_palette := pm_rgb p, v_paletteAlpha := pm_alpha p\<rparr>)"
        by (simp add: on_palette_def Let_def) (simp add: picture_def updateKeys_def setKeysEnabled_def Let_def)
      with Text Inr Palette ok show ?thesis by (intro palette [of p]) (simp_all add: dispatch_def handleMessage_def)
    next
      case (Frame f)
      have "picture (fst (on_frame P f c)) = picture c
          \<or> picture (fst (on_frame P f c)) = picture (describeCurrentFrame P (c\<lparr>v_framebuffer := blit f (v_framebuffer c)\<rparr>))"
        by (simp add: on_frame_def Let_def)
          (simp add: picture_def updateKeys_def setKeysEnabled_def describeCurrentFrame_def paint_def Let_def)
      then show ?thesis
      proof
        assume "picture (fst (on_frame P f c)) = picture c"
        with Text Inr Frame show ?thesis by (intro same) (simp add: dispatch_def handleMessage_def)
      next
        assume "picture (fst (on_frame P f c)) = picture (describeCurrentFrame P (c\<lparr>v_framebuffer := blit f (v_framebuffer c)\<rparr>))"
        with Text Inr Frame ok show ?thesis by (intro frame [of f]) (simp_all add: dispatch_def handleMessage_def)
      qed
    next
      case (State sm)
      with Text Inr show ?thesis
        by (intro same) (simp add: dispatch_def handleMessage_def on_state_def Let_def showStatus_def acknowledgeReset_def
            picture_def updateKeys_def setKeysEnabled_def)
    next
      case (Media mm)
      with Text Inr show ?thesis
        by (intro same) (simp add: dispatch_def handleMessage_def on_media_def Let_def showStatus_def paint_def picture_def)
    qed
  qed
qed

lemma blit_length:
  "message_ok (Frame m) \<Longrightarrow> length fb = 414720 \<Longrightarrow> length (blit m fb) = 414720"
  using blit_nth [of m fb 0 0] by simp

lemma buffers_ok_dispatch: "buffers_ok c \<Longrightarrow> buffers_ok (fst (dispatch P t d c))"
proof (cases rule: picture_dispatch [of P t d c])
  case (frame m)
  assume b: "buffers_ok c"
  have "buffers_ok (describeCurrentFrame P (c\<lparr>v_framebuffer := blit m (v_framebuffer c)\<rparr>))"
    using b frame(1) byte_list_blit [of m "v_framebuffer c"] blit_length [OF frame(1), of "v_framebuffer c"]
    by (simp add: buffers_ok_def describeCurrentFrame_def Let_def)
  with same_picture(2) [OF frame(2)] show ?thesis by blast
next
  case (palette p)
  assume "buffers_ok c"
  with same_picture(2) [OF palette(2)] palette(1) show ?thesis by (simp add: buffers_ok_def)
qed (use same_picture(2) in blast)

lemma label_ok_dispatch: "label_ok P c \<Longrightarrow> label_ok P (fst (dispatch P t d c))"
proof (cases rule: picture_dispatch [of P t d c])
  case (frame m)
  assume l: "label_ok P c"
  have "label_ok P (describeCurrentFrame P (c\<lparr>v_framebuffer := blit m (v_framebuffer c)\<rparr>))"
    using l by (fastforce simp: label_ok_def describeCurrentFrame_def Let_def)
  with same_picture(1) [OF frame(2)] show ?thesis by blast
next
  case (palette p)
  assume "label_ok P c"
  with same_picture(1) [OF palette(2)] show ?thesis by (simp add: label_ok_def)
qed (use same_picture(1) in blast)

lemma picture_on_message:
  "picture (on_message P t s d c) = (if v_socket c = Some s then picture (fst (dispatch P t d c)) else picture c)"
  by (simp add: on_message_def picture_on_error split: prod.split option.split)

lemma picture_start: "picture (start keys) = picture (loaded keys)"
  by (simp add: start_def picture_def handler_defs updateKeys_def setKeysEnabled_def)

lemma picture_react:
  obtains (message) s d t where "ev = Message s d t" "v_socket c = Some s"
      "picture (react P now ev c) = picture (fst (dispatch P t d c))"
    | (described) r d where "ev = Described r d"
    | (quiet) "picture (react P now ev c) = picture c"
proof (cases "\<exists>s d t. ev = Message s d t")
  case True
  then obtain s d t where "ev = Message s d t" by blast
  with message [of s d t] quiet picture_on_message [of P t s d c] show ?thesis by (simp split: if_splits)
next
  case False
  show ?thesis
  proof (cases "\<exists>r d. ev = Described r d")
    case True
    with described show ?thesis by blast
  next
    case F: False
    with False picture_quiet [of ev P now c] quiet show ?thesis by blast
  qed
qed

lemma buffers_ok_react: "buffers_ok c \<Longrightarrow> buffers_ok (react P now ev c)"
proof (cases rule: picture_react [of ev c P now])
  case (message s d t)
  assume "buffers_ok c"
  with same_picture(2) [OF message(3)] buffers_ok_dispatch [of c P t d] show ?thesis by blast
next
  case (described r d)
  assume "buffers_ok c"
  with described show ?thesis by (simp add: described_def buffers_ok_def)
qed (use same_picture(2) in blast)

lemma label_ok_react:
  assumes "label_ok P c" "allowed ev now w" "c = w_client w"
  shows "label_ok P (react P now ev c)"
proof (cases rule: picture_react [of ev c P now])
  case (message s d t)
  with same_picture(1) [OF message(3)] label_ok_dispatch [OF assms(1), of t d] show ?thesis by blast
next
  case (described r d)
  with assms show ?thesis
    by (fastforce simp: described_def label_ok_def list_ex_iff split: option.split)
next
  case quiet
  from same_picture(1) [OF this assms(1)] show ?thesis .
qed

lemma buffers_ok_session: "session P keys w \<Longrightarrow> buffers_ok (w_client w)"
proof (induction rule: session.induct)
  case load
  have "buffers_ok (loaded keys)" by (simp add: buffers_ok_def loaded_def)
  with same_picture(2) [OF picture_start] show ?case by (simp add: first_world_def)
next
  case (event w now ev)
  then show ?case using buffers_ok_react by (simp add: advance_def Let_def)
qed

lemma label_ok_session: "session P keys w \<Longrightarrow> label_ok P (w_client w)"
proof (induction rule: session.induct)
  case load
  have "label_ok P (loaded keys)" by (simp add: label_ok_def loaded_def)
  with same_picture(1) [OF picture_start] show ?case by (simp add: first_world_def)
next
  case (event w now ev)
  then show ?case using label_ok_react [OF event.IH event.hyps(3)] by (simp add: advance_def Let_def)
qed

text \<open>
  The spoken label is never about another picture.  In every state of a session the label of the
  screen is the initial one, the one for an unknown screen, or a description of exactly the raster the
  client holds: descriptions that settle late, or for an earlier raster, are dropped.
\<close>

theorem label_describes_current_raster:
  assumes "session P keys w"
  shows "d_label (w_client w) \<in> {js ''Sky Digibox screen'', unknownScreen}
    \<or> (\<exists>palette. d_label (w_client w) = describeScreen (p_sha P) (v_framebuffer (w_client w)) palette)"
  using label_ok_session [OF assms] by (auto simp: label_ok_def)

theorem label_describes_current_raster_witness:
  "d_label (w_client demo4) \<in> {js ''Sky Digibox screen'', unknownScreen}
    \<or> (\<exists>palette. d_label (w_client demo4) = describeScreen (\<lambda>_. []) (v_framebuffer (w_client demo4)) palette)"
  using label_describes_current_raster [OF demo4_facts(1)] by (simp add: no_platform_def)

text \<open>
  The client's buffers keep their size.  In every state of a session the raster holds a byte for
  each of the 720 by 576 pixels and the palette three bytes and an opacity for each of the 256 values
  a pixel can have, so every pixel has a colour.
\<close>

theorem buffers_keep_size:
  assumes "session P keys w" "0 \<le> px" "px < 720" "0 \<le> py" "py < 576"
  shows "length (v_framebuffer (w_client w)) = 720 * 576
    \<and> length (v_palette (w_client w)) = 3 * 256 \<and> length (v_paletteAlpha (w_client w)) = 256
    \<and> (\<exists>r g b a. pixel (w_client w) px py = (r, g, b, a) \<and> {r, g, b, a} \<subseteq> {0..255})"
proof -
  let ?c = "w_client w"
  note b = buffers_ok_session [OF assms(1)]
  have i: "nat (py * 720 + px) < 414720" using assms(2-5) by simp
  define ix where "ix = v_framebuffer ?c ! nat (py * 720 + px)"
  have f: "0 \<le> ix" "ix < 256"
    using b i byte_list_nth [of "v_framebuffer ?c" "nat (py * 720 + px)"] by (simp_all add: buffers_ok_def ix_def)
  have p: "v_palette ?c ! k \<in> {0..255}" if "k < 768" for k
    using b that byte_list_nth [of "v_palette ?c" k] by (simp add: buffers_ok_def)
  have a: "v_paletteAlpha ?c ! k \<in> {0..255}" if "k < 256" for k
    using b that byte_list_nth [of "v_paletteAlpha ?c" k] by (simp add: buffers_ok_def)
  have "nat (ix * 3) < 768" "nat (ix * 3 + 1) < 768" "nat (ix * 3 + 2) < 768" "nat ix < 256"
    using f by auto
  note col = p [OF this(1)] p [OF this(2)] p [OF this(3)] a [OF this(4)]
  have px: "pixel ?c px py = (v_palette ?c ! nat (ix * 3), v_palette ?c ! nat (ix * 3 + 1),
      v_palette ?c ! nat (ix * 3 + 2), v_paletteAlpha ?c ! nat ix)"
    by (simp add: pixel_def Let_def ix_def)
  from b col show ?thesis unfolding px buffers_ok_def by simp
qed

theorem buffers_keep_size_witness:
  "length (v_framebuffer (w_client demo4)) = 414720 \<and> length (v_palette (w_client demo4)) = 768"
  using buffers_keep_size [OF demo4_facts(1), of 0 0] by simp

end
