(* ===== verification/Web_Media.thy ===== *)
theory Web_Media
  imports Web_Picture
begin

text \<open>
  The sound schedule of the browser client, what a message it cannot use does to it, and the status line
  while a programme plays.
\<close>

section \<open>The schedule\<close>

definition as_end :: "audio_source \<Rightarrow> rat" where
  "as_end a = as_start a + as_duration a"

definition sound_ok :: "client \<Rightarrow> bool" where
  "sound_ok c \<longleftrightarrow> sorted_wrt (\<lambda>a b. as_end a \<le> as_start b) (v_scheduledAudio c)
     \<and> (\<forall>a \<in> set (v_scheduledAudio c). as_end a \<le> v_nextAudioTime c \<and> 0 < as_duration a)"

definition sound :: "client \<Rightarrow> audio_source list \<times> rat" where
  "sound c = (v_scheduledAudio c, v_nextAudioTime c)"

lemma same_sound: "sound c' = sound c \<Longrightarrow> sound_ok c \<Longrightarrow> sound_ok c'"
  by (simp add: sound_def sound_ok_def)

lemma sound_simps [simp]:
  "sound (updateKeys c) = sound c" "sound (updateReset c) = sound c" "sound (showStatus a b c) = sound c"
  "sound (paint x y w h c) = sound c" "sound (acknowledgeReset c) = sound c"
  "sound (showAudioState s t c) = sound c" "sound (unlockAudio c) = sound c" "sound (describeCurrentFrame P c) = sound c"
  by (simp_all add: sound_def updateKeys_def setKeysEnabled_def paint_def acknowledgeReset_def
      describeCurrentFrame_def handler_defs)

lemma sound_on_error: "sound (on_error s e c) = sound c"
  by (simp add: on_error_def sound_def updateReset_def updateKeys_def setKeysEnabled_def showStatus_def Let_def)

lemma sound_ok_play: "sound_ok c \<Longrightarrow> sound_ok (fst (play P now n k c))"
proof -
  assume c: "sound_ok c"
  let ?st = "max (v_nextAudioTime c) (now + 4 / 100)"
  have "as_end a \<le> ?st \<and> as_end a \<le> ?st + of_nat k / 48000" if "a \<in> set (v_scheduledAudio c)" for a
  proof -
    have "as_end a \<le> v_nextAudioTime c" using c that by (simp add: sound_ok_def)
    then have "as_end a \<le> ?st" by simp
    moreover have "(0 :: rat) \<le> of_nat k / 48000" by simp
    ultimately show ?thesis by linarith
  qed
  with c show ?thesis
    by (auto simp: play_def Let_def sound_ok_def sorted_wrt_append as_end_def)
qed

lemma sound_handled: "sound (fst (handleMessage P x c)) = sound c"
proof (cases "decodeServerMessage (p_parse P) x")
  case (Inr m)
  then show ?thesis
    by (cases m) (simp_all add: handleMessage_def on_media_def on_palette_def on_state_def on_frame_def Let_def,
        simp_all add: sound_def showStatus_def acknowledgeReset_def paint_def describeCurrentFrame_def
          updateKeys_def setKeysEnabled_def Let_def)
qed (simp add: handleMessage_def)

lemma sound_ok_dispatch: "sound_ok c \<Longrightarrow> sound_ok (fst (dispatch P t d c))"
proof (cases d)
  case (Text x)
  then show "sound_ok c \<Longrightarrow> ?thesis" using same_sound [OF sound_handled] by (simp add: dispatch_def)
next
  case (Binary b)
  have "sound_ok (c\<lparr>d_programme := p\<rparr>) = sound_ok c" for p by (simp add: sound_ok_def)
  with Binary show "sound_ok c \<Longrightarrow> ?thesis" by (simp add: dispatch_def handleBinary_def Let_def sound_ok_play)
qed

lemma sound_ok_stop: "sound_ok (c\<lparr>v_scheduledAudio := [], v_nextAudioTime := t\<rparr>)"
  by (simp add: sound_ok_def)

lemma sound_ok_react: "sound_ok c \<Longrightarrow> sound_ok (react P now ev c)"
proof (cases ev)
  case (Message s d t)
  assume "sound_ok c"
  then show ?thesis
    using Message sound_ok_dispatch [of c P t d] same_sound [OF sound_on_error]
    by (simp add: on_message_def split: prod.split option.split) (metis fst_conv)
next
  case (KeyClick i b)
  assume "sound_ok c"
  with KeyClick show ?thesis
    by (simp add: key_click_def send_def unlockAudio_def Let_def sound_ok_def split: sum.split option.split)
next
  case (ResetClick b)
  assume "sound_ok c"
  with ResetClick show ?thesis by (simp add: reset_click_def send_def updateReset_def Let_def sound_ok_def split: option.split)
next
  case (ResetButton b)
  assume "sound_ok c"
  with ResetButton show ?thesis by (simp add: on_reset_button_def sound_ok_def split: button_event.split)
next
  case (SourceEnded n)
  assume "sound_ok c"
  with SourceEnded show ?thesis by (simp add: source_ended_def sound_ok_def sorted_wrt_filter)
qed (simp_all add: handler_defs updateKeys_def setKeysEnabled_def, simp_all add: sound_ok_def)

lemma sound_ok_session: "session P keys w \<Longrightarrow> sound_ok (w_client w)"
proof (induction rule: session.induct)
  case load
  show ?case
    by (simp add: first_world_def start_def handler_defs updateKeys_def setKeysEnabled_def) (simp add: sound_ok_def)
next
  case (event w now ev)
  then show ?case using sound_ok_react by (simp add: advance_def Let_def)
qed

text \<open>
  C14.  Programme sound never overlaps itself.  In every state of a session the audio buffers the client
  has scheduled and not stopped play one after another: each ends no later than the next one starts, in
  the order they arrived, and a buffer scheduled next would start after all of them.
\<close>

theorem sound_never_overlaps:
  assumes "session P keys w" "i < j" "j < length (v_scheduledAudio (w_client w))"
  shows "as_end (v_scheduledAudio (w_client w) ! i) \<le> as_start (v_scheduledAudio (w_client w) ! j)
    \<and> as_end (v_scheduledAudio (w_client w) ! j) \<le> v_nextAudioTime (w_client w)"
  using sound_ok_session [OF assms(1)] assms(2,3)
  by (auto simp: sound_ok_def sorted_wrt_iff_nth_less)

text \<open>The sound switched on, and two buffers of one sample each.\<close>

definition deck where
  "deck c = (v_muted c, v_audioContext c, v_scheduledAudio c, v_nextAudioTime c, v_lastAudioInstruction c,
     e_nextSource c, e_unlocks c, v_socket c)"

definition packet :: "int \<Rightarrow> int list" where
  "packet n = [71, 82, 84, 86, 2, 2, 0, 0, 0, 0, 0, 0, 0, 0, 0, n, 1, 0, 1, 0]"

definition deck1 :: world where "deck1 = advance no_platform 1 (Open 0) (first_world [] 0)"
definition deck2 :: world where "deck2 = advance no_platform 2 SoundClick deck1"
definition deck3 :: world where "deck3 = advance no_platform 3 (AudioState ''running'') deck2"
definition deck4 :: world where "deck4 = advance no_platform 4 (Resumed True) deck3"
definition deck5 :: world where "deck5 = advance no_platform 5 (Message 0 (Binary (packet 1)) 1) deck4"
definition deck6 :: world where "deck6 = advance no_platform 6 (Message 0 (Binary (packet 2)) 1) deck5"

lemma deck_steps:
  "deck (w_client (first_world [] 0)) = (True, None, [], 0, -1, 0, 0, Some 0)"
  "deck (w_client deck1) = (True, None, [], 0, -1, 0, 0, Some 0)"
  "deck (w_client deck2) = (True, Some ''suspended'', [], 0, -1, 0, 1, Some 0)"
  "deck (w_client deck3) = (True, Some ''running'', [], 0, -1, 0, 1, Some 0)"
  "deck (w_client deck4) = (False, Some ''running'', [], 0, -1, 0, 0, Some 0)"
proof -
  show 0: "deck (w_client (first_world [] 0)) = (True, None, [], 0, -1, 0, 0, Some 0)"
    by (simp add: first_world_def start_def loaded_def handler_defs updateKeys_def setKeysEnabled_def deck_def)
  show 1: "deck (w_client deck1) = (True, None, [], 0, -1, 0, 0, Some 0)"
    using 0 by (simp add: deck1_def advance_def deck_def on_open_def showStatus_def updateReset_def Let_def)
  show 2: "deck (w_client deck2) = (True, Some ''suspended'', [], 0, -1, 0, 1, Some 0)"
    using 1 by (simp add: deck2_def advance_def deck_def sound_click_def unlockAudio_def Let_def)
  show 3: "deck (w_client deck3) = (True, Some ''running'', [], 0, -1, 0, 1, Some 0)"
    using 2 by (simp add: deck3_def advance_def deck_def audio_statechange_def Let_def)
  show "deck (w_client deck4) = (False, Some ''running'', [], 0, -1, 0, 0, Some 0)"
    using 3 by (simp add: deck4_def advance_def deck_def resumed_def showAudioState_def Let_def)
qed

lemma packet_facts: "length (packet n) = 20" "take 4 (packet n) = magic" "packet n ! 4 = 2" "packet n ! 5 = 2"
  "big_endian (take 8 (drop 8 (packet n))) = n"
  by (simp_all add: packet_def magic_def js_def big_endian_def)

lemma deck_play:
  assumes "deck c = (False, Some ''running'', as, t, i, k, u, Some s)" "i < n" "n < 256"
  shows "deck (on_message P now s (Binary (packet n)) c)
    = (False, Some ''running'', as @ [\<lparr>as_id = k, as_start = max t (now + 4 / 100), as_duration = 1 / 48000\<rparr>],
       max t (now + 4 / 100) + 1 / 48000, n, k + 1, u, Some s)"
  using assms
  by (simp add: on_message_def dispatch_def handleBinary_def packet_facts play_def deck_def Let_def MAX_SAFE_INTEGER_def)

lemma deck6_sound:
  "v_scheduledAudio (w_client deck6) = [\<lparr>as_id = 0, as_start = 26 / 25, as_duration = 1 / 48000\<rparr>,
     \<lparr>as_id = 1, as_start = 26 / 25 + 1 / 48000, as_duration = 1 / 48000\<rparr>]"
proof -
  have "deck (w_client deck5) = (False, Some ''running'', [\<lparr>as_id = 0, as_start = 26 / 25, as_duration = 1 / 48000\<rparr>],
      26 / 25 + 1 / 48000, 1, 1, 0, Some 0)"
    using deck_play [OF deck_steps(5), of 1 no_platform 1] by (simp add: deck5_def advance_def Let_def)
  from deck_play [OF this, of 2 no_platform 1] show ?thesis
    by (simp add: deck6_def advance_def Let_def deck_def)
qed

lemma deck6_session: "session no_platform [] deck6"
proof -
  have 1: "session no_platform [] deck1"
    unfolding deck1_def by (rule session.event [OF session.load]) (simp_all add: demo0_facts)
  have 2: "session no_platform [] deck2"
    unfolding deck2_def by (rule session.event [OF 1]) (simp_all add: deck1_def advance_def Let_def)
  have 3: "session no_platform [] deck3"
    unfolding deck3_def by (rule session.event [OF 2]) (simp_all add: deck2_def advance_def Let_def)
  have "e_unlocks (w_client deck3) = 1" using deck_steps(4) by (simp add: deck_def)
  then have 4: "session no_platform [] deck4"
    unfolding deck4_def by (intro session.event [OF 3]) (simp_all add: deck3_def advance_def Let_def)
  have o: "w_opened deck4 = {0}" "w_closed deck4 = {}"
    by (simp_all add: deck4_def deck3_def deck2_def deck1_def advance_def Let_def first_world_def)
  then have 5: "session no_platform [] deck5"
    unfolding deck5_def by (intro session.event [OF 4]) (simp_all add: deck4_def advance_def Let_def)
  show ?thesis
    unfolding deck6_def using o by (intro session.event [OF 5]) (simp_all add: deck5_def advance_def Let_def)
qed

theorem sound_never_overlaps_witness:
  "as_end \<lparr>as_id = 0, as_start = 26 / 25, as_duration = 1 / 48000\<rparr>
     \<le> as_start \<lparr>as_id = 1, as_start = 26 / 25 + 1 / 48000, as_duration = 1 / 48000\<rparr>"
  using sound_never_overlaps [OF deck6_session, of 0 1] by (simp add: deck6_sound)

section \<open>A message that cannot be used\<close>

lemma error_keeps_picture:
  "snd (dispatch P t d c) = Some e \<Longrightarrow> picture (fst (dispatch P t d c)) = picture c"
  by (auto simp: dispatch_def handleMessage_def on_frame_def handleBinary_def play_def Let_def picture_def
      split: message_data.splits sum.splits server_message.splits if_splits)


lemma demo1_closed: "dispatch no_platform 0 (Text []) c = (c, Some [])"
  by (simp add: dispatch_def handleMessage_def decodeServerMessage_def no_platform_def)


section \<open>The status line while a programme plays\<close>

text \<open>
  A playing programme hides the phase of the machine.  \<open>mediaActive\<close> is cleared by a media message
  only: when the connection is lost while a programme plays, then after the reconnection the status
  line says that the box is ready and the programme is playing whatever phase the machine reports,
  although the machine is not ready and every key is disabled.
\<close>

theorem media_hides_phase:
  assumes "v_mediaActive c" "v_socket c = Some s"
    and "sm_phase m \<noteq> js ''ready''" "sm_phase m \<noteq> js ''halted''"
    and c': "c' = on_state m (on_open t2 (e_sockets c) (connect (on_close t1 s c)))"
  shows "d_state c' = js ''ready''
    \<and> d_status c' = v_mediaService c @ dash @ v_mediaProgramme c @ js '' is playing.''
    \<and> \<not> v_machineReady c' \<and> (\<forall>k \<in> set (d_keys c'). k_disabled k)"
proof -
  let ?c1 = "on_open t2 (e_sockets c) (connect (on_close t1 s c))"
  have "v_mediaActive ?c1 \<and> v_mediaService ?c1 = v_mediaService c \<and> v_mediaProgramme ?c1 = v_mediaProgramme c"
    using assms(1,2) by (simp add: handler_defs updateKeys_def setKeysEnabled_def)
  then show ?thesis
    using assms(3,4) unfolding c'
    by (auto simp: on_state_def Let_def showStatus_def acknowledgeReset_def updateKeys_def setKeysEnabled_def)
qed

theorem media_hides_phase_witness:
  "d_state (on_state \<lparr>sm_phase = js ''booting'', sm_reason = []\<rparr> (on_open 9000 1 (connect (on_close 10 0
     (blank_page\<lparr>v_mediaActive := True, v_socket := Some 0, e_sockets := 1\<rparr>))))) = js ''ready''"
proof -
  let ?c = "blank_page\<lparr>v_mediaActive := True, v_socket := Some 0, e_sockets := 1\<rparr>"
  from media_hides_phase [of ?c 0 "\<lparr>sm_phase = js ''booting'', sm_reason = []\<rparr>", OF _ _ _ _ refl, of 9000 10]
  show ?thesis by simp
qed

end
