(* ===== verification/Wire_Gen.thy ===== *)
theory Wire_Gen
  imports Web_Wire
begin

text \<open>
  The generator of the wire vocabulary, \<open>tools/gen-wire.mjs\<close>: from the schema \<open>schema/wire.json\<close> it writes
  the Go and the TypeScript declarations both ends are compiled from.  The schema is a record, in the
  order of the JSON file; \<open>gofmt\<close>, which formats the Go text, is an argument.
\<close>

section \<open>The schema\<close>

text \<open>A field's kind is a name, or the array of the strings it may hold.\<close>

datatype kind = Named string | Choices "string list"

record wire_message =
  wm_name :: string
  wm_direction :: string
  wm_fields :: "(string \<times> kind) list"

record wire_schema =
  ws_version :: int
  ws_width :: int
  ws_height :: int
  ws_messages :: "wire_message list"

section \<open>The pieces of text\<close>

definition goType :: "(string \<times> string) list" where
  "goType = [(''uint8'', ''uint8''), (''uint32'', ''uint32''), (''uint64'', ''uint64''), (''string'', ''string''), (''base64'', ''[]byte'')]"

definition tsType :: "(string \<times> string) list" where
  "tsType = [(''uint8'', ''number''), (''uint32'', ''number''), (''uint64'', ''number''), (''string'', ''string''), (''base64'', ''string'')]"

text \<open>An empty name makes \<open>value[0].toUpperCase()\<close> raise.\<close>

definition title :: "string \<Rightarrow> string + string" where
  "title value = (case value of [] \<Rightarrow> Inl ''Cannot read properties of undefined (reading toUpperCase)''
     | c # r \<Rightarrow> Inr (js_upper [c] @ r))"

definition quoted :: "string \<Rightarrow> string" where
  "quoted s = [CHR 0x27] @ s @ [CHR 0x27]"

text \<open>\<open>JSON.stringify\<close> of a string of printable characters and of an array of them.\<close>

definition json_string :: "string \<Rightarrow> string" where
  "json_string s = [CHR 0x22] @ concat (map (\<lambda>c. if c = CHR 0x22 \<or> c = CHR 0x5C then [CHR 0x5C, c] else [c]) s) @ [CHR 0x22]"

definition json_strings :: "string list \<Rightarrow> string" where
  "json_strings xs = ''['' @ join_with '','' (map json_string xs) @ '']''"

fun ts_kind :: "kind \<Rightarrow> string option" where
  "ts_kind (Choices vs) = (if vs = [] then None else Some (join_with '' | '' (map quoted vs)))"
| "ts_kind (Named k) = map_of tsType k"

fun go_kind :: "kind \<Rightarrow> string option" where
  "go_kind (Choices vs) = Some ''string''"
| "go_kind (Named k) = map_of goType k"

fun kind_text :: "kind \<Rightarrow> string" where
  "kind_text (Choices vs) = join_with '','' vs"
| "kind_text (Named k) = k"

definition unknown_kind :: "string \<Rightarrow> string \<Rightarrow> kind \<Rightarrow> string" where
  "unknown_kind name field k = ''unknown kind '' @ kind_text k @ '' for '' @ name @ ''.'' @ field"

section \<open>The two listings\<close>

text \<open>One field: its line of Go and its line of TypeScript.  The title of the field is taken before the kinds are checked.\<close>

definition field_lines :: "string \<Rightarrow> string \<times> kind \<Rightarrow> string + (string \<times> string)" where
  "field_lines name fk =
     (let field = fst fk; kd = snd fk in
      and_then (if field = ''rgb'' then Inr ''RGB'' else title field) (\<lambda>goField.
      case (go_kind kd, ts_kind kd) of
        (Some g, Some t) \<Rightarrow>
          Inr (''  '' @ goField @ '' '' @ g @ '' `json:'' @ [CHR 0x22] @ field @ [CHR 0x22] @ ''`'',
               ''  '' @ field @ '': '' @ t @ '';'')
      | _ \<Rightarrow> Inl (unknown_kind name field kd)))"

text \<open>The arrays of the message's choices follow its interface.\<close>

definition choice_lines :: "string \<Rightarrow> (string \<times> kind) list \<Rightarrow> string list" where
  "choice_lines name fds = concat (map (\<lambda>(field, kd). case kd of
       Choices vs \<Rightarrow> [''export const '' @ js_upper name @ ''_'' @ js_upper field @ ''S = '' @ json_strings vs @ '' as const;'', []]
     | Named _ \<Rightarrow> []) fds)"

definition message_lines :: "wire_message \<Rightarrow> string + (string list \<times> string list)" where
  "message_lines m =
     and_then (title (wm_name m)) (\<lambda>t.
     and_then (collect (field_lines (wm_name m)) (wm_fields m)) (\<lambda>ls.
     let typeName = t @ ''Message'' in
     Inr ([''type '' @ typeName @ '' struct {'', ''  Type string `json:'' @ [CHR 0x22] @ ''type'' @ [CHR 0x22] @ ''`'',
           ''  Version int `json:'' @ [CHR 0x22] @ ''version'' @ [CHR 0x22] @ ''`''] @ map fst ls @ [''}'', []],
          [''export interface '' @ typeName @ '' {'', ''  type: '' @ quoted (wm_name m) @ '';'',
           ''  version: typeof WIRE_VERSION;''] @ map snd ls @ [''}'', []] @ choice_lines (wm_name m) (wm_fields m))))"

definition members :: "wire_schema \<Rightarrow> string \<Rightarrow> string + string list" where
  "members s direction =
     collect (\<lambda>m. and_then (title (wm_name m)) (\<lambda>t. Inr (t @ ''Message'')))
       (filter (\<lambda>m. wm_direction m = direction) (ws_messages s))"

definition direction_line :: "wire_schema \<Rightarrow> string \<Rightarrow> string + string" where
  "direction_line s direction =
     and_then (members s direction) (\<lambda>ms.
     and_then (title direction) (\<lambda>t.
     Inr (''export type '' @ t @ ''WireMessage = '' @ join_with '' | '' ms @ '';'')))"

definition GENERATED :: string where
  "GENERATED = ''// Code generated by tools/gen-wire.mjs from schema/wire.json; DO NOT EDIT.''"

definition gen_go :: "wire_schema \<Rightarrow> string + string list" where
  "gen_go s =
     and_then (collect message_lines (ws_messages s)) (\<lambda>ls.
     Inr ([GENERATED, ''package wire'', [], ''const Version = '' @ dec_string (ws_version s),
           ''const FrameWidth = '' @ dec_string (ws_width s), ''const FrameHeight = '' @ dec_string (ws_height s), []]
          @ concat (map fst ls)))"

definition gen_ts :: "wire_schema \<Rightarrow> string + string list" where
  "gen_ts s =
     and_then (collect message_lines (ws_messages s)) (\<lambda>ls.
     and_then (direction_line s ''server'') (\<lambda>sv.
     and_then (direction_line s ''client'') (\<lambda>cl.
     Inr ([GENERATED, ''export const WIRE_VERSION = '' @ dec_string (ws_version s) @ '' as const;'',
           ''export const FRAME_WIDTH = '' @ dec_string (ws_width s) @ '' as const;'',
           ''export const FRAME_HEIGHT = '' @ dec_string (ws_height s) @ '' as const;'', []]
          @ concat (map snd ls) @ [sv, cl, []]))))"

text \<open>
  The outputs, and what \<open>--check\<close> says of the files: \<open>None\<close> when they are up to date, the error otherwise.
\<close>

definition outputs :: "(string \<Rightarrow> string) \<Rightarrow> wire_schema \<Rightarrow> string + (string \<times> string) list" where
  "outputs gofmt s =
     and_then (gen_go s) (\<lambda>go.
     and_then (gen_ts s) (\<lambda>ts.
     Inr [(''../internal/wire/wire.go'', gofmt (join_with [CHR 0x0A] go)),
          (''../web/wire_generated.ts'', join_with [CHR 0x0A] ts)]))"

fun check_files :: "(string \<Rightarrow> string) \<Rightarrow> (string \<times> string) list \<Rightarrow> string + unit" where
  "check_files file [] = Inr ()"
| "check_files file ((path, content) # r) =
     (if file path \<noteq> content then Inl (path @ '' differs from schema/wire.json'') else check_files file r)"

definition gen_wire_check :: "(string \<Rightarrow> string) \<Rightarrow> wire_schema \<Rightarrow> (string \<Rightarrow> string) \<Rightarrow> string + unit" where
  "gen_wire_check gofmt s file = and_then (outputs gofmt s) (check_files file)"

section \<open>The repository's schema and file\<close>

definition WIRE_SCHEMA :: wire_schema where
  "WIRE_SCHEMA = \<lparr>ws_version = 4, ws_width = 720, ws_height = 576, ws_messages = [
     \<lparr>wm_name = ''palette'', wm_direction = ''server'', wm_fields =
        [(''epoch'', Named ''uint64''), (''rgb'', Named ''base64''), (''alpha'', Named ''base64'')]\<rparr>,
     \<lparr>wm_name = ''frame'', wm_direction = ''server'', wm_fields =
        [(''seq'', Named ''uint64''), (''x'', Named ''uint32''), (''y'', Named ''uint32''), (''w'', Named ''uint32''),
         (''h'', Named ''uint32''), (''epoch'', Named ''uint64''), (''pixels'', Named ''base64'')]\<rparr>,
     \<lparr>wm_name = ''state'', wm_direction = ''server'', wm_fields =
        [(''phase'', Choices [''booting'', ''flash-check'', ''channel-list'', ''ready'', ''halted'']),
         (''reason'', Named ''string'')]\<rparr>,
     \<lparr>wm_name = ''media'', wm_direction = ''server'', wm_fields =
        [(''requested'', Named ''uint8''), (''active'', Named ''uint8''), (''service'', Named ''string''),
         (''programme'', Named ''string''), (''source'', Named ''string'')]\<rparr>,
     \<lparr>wm_name = ''key'', wm_direction = ''client'', wm_fields = [(''raw'', Named ''uint8''), (''source'', Named ''uint8'')]\<rparr>,
     \<lparr>wm_name = ''reset'', wm_direction = ''client'', wm_fields = []\<rparr>]\<rparr>"

definition WIRE_GENERATED :: "string list" where
  "WIRE_GENERATED = [
    ''// Code generated by tools/gen-wire.mjs from schema/wire.json; DO NOT EDIT.'',
    ''export const WIRE_VERSION = 4 as const;'',
    ''export const FRAME_WIDTH = 720 as const;'',
    ''export const FRAME_HEIGHT = 576 as const;'',
    [],
    ''export interface PaletteMessage {'',
    ''  type: '' @ quoted ''palette'' @ '';'',
    ''  version: typeof WIRE_VERSION;'',
    ''  epoch: number;'',
    ''  rgb: string;'',
    ''  alpha: string;'',
    ''}'',
    [],
    ''export interface FrameMessage {'',
    ''  type: '' @ quoted ''frame'' @ '';'',
    ''  version: typeof WIRE_VERSION;'',
    ''  seq: number;'',
    ''  x: number;'',
    ''  y: number;'',
    ''  w: number;'',
    ''  h: number;'',
    ''  epoch: number;'',
    ''  pixels: string;'',
    ''}'',
    [],
    ''export interface StateMessage {'',
    ''  type: '' @ quoted ''state'' @ '';'',
    ''  version: typeof WIRE_VERSION;'',
    ''  phase: '' @ quoted ''booting'' @ '' | '' @ quoted ''flash-check'' @ '' | '' @ quoted ''channel-list''
      @ '' | '' @ quoted ''ready'' @ '' | '' @ quoted ''halted'' @ '';'',
    ''  reason: string;'',
    ''}'',
    [],
    ''export const STATE_PHASES = [\"booting\",\"flash-check\",\"channel-list\",\"ready\",\"halted\"] as const;'',
    [],
    ''export interface MediaMessage {'',
    ''  type: '' @ quoted ''media'' @ '';'',
    ''  version: typeof WIRE_VERSION;'',
    ''  requested: number;'',
    ''  active: number;'',
    ''  service: string;'',
    ''  programme: string;'',
    ''  source: string;'',
    ''}'',
    [],
    ''export interface KeyMessage {'',
    ''  type: '' @ quoted ''key'' @ '';'',
    ''  version: typeof WIRE_VERSION;'',
    ''  raw: number;'',
    ''  source: number;'',
    ''}'',
    [],
    ''export interface ResetMessage {'',
    ''  type: '' @ quoted ''reset'' @ '';'',
    ''  version: typeof WIRE_VERSION;'',
    ''}'',
    [],
    ''export type ServerWireMessage = PaletteMessage | FrameMessage | StateMessage | MediaMessage;'',
    ''export type ClientWireMessage = KeyMessage | ResetMessage;'',
    []]"

section \<open>The generator and its output\<close>

lemma title_isl: "isl (title v) \<longleftrightarrow> v = []"
  by (cases v) (simp_all add: title_def)

text \<open>A kind the tables do not know, or an array without a value.\<close>

definition bad_kind :: "kind \<Rightarrow> bool" where
  "bad_kind k \<longleftrightarrow> go_kind k = None \<or> ts_kind k = None"

definition bad_message :: "wire_message \<Rightarrow> bool" where
  "bad_message m \<longleftrightarrow> wm_name m = [] \<or> list_ex (\<lambda>(f, k). f = [] \<or> bad_kind k) (wm_fields m)"

lemma field_lines_isl: "isl (field_lines name (f, k)) \<longleftrightarrow> f = [] \<or> bad_kind k"
  by (cases f; cases "f = ''rgb''")
    (auto simp: field_lines_def bad_kind_def Let_def title_def and_then_isl split: option.split)

lemma message_lines_isl: "isl (message_lines m) \<longleftrightarrow> bad_message m"
proof (cases "wm_name m = []")
  case True
  then show ?thesis
    by (simp only: message_lines_def and_then_isl title_isl bad_message_def) simp
next
  case False
  have "isl (message_lines m) \<longleftrightarrow> isl (collect (field_lines (wm_name m)) (wm_fields m))"
  proof -
    obtain t where "title (wm_name m) = Inr t"
      using False title_isl [of "wm_name m"] by (cases "title (wm_name m)") auto
    then show ?thesis by (simp add: message_lines_def and_then_isl Let_def)
  qed
  also have "\<dots> \<longleftrightarrow> bad_message m"
  proof -
    have "isl (field_lines (wm_name m) x) \<longleftrightarrow> (case x of (f, k) \<Rightarrow> f = [] \<or> bad_kind k)" for x
      by (cases x) (simp add: field_lines_isl)
    then show ?thesis using False by (simp add: collect_fails bad_message_def list_ex_iff)
  qed
  finally show ?thesis .
qed


section \<open>The vocabulary both ends share\<close>

text \<open>The field names the schema gives a message, after its type and version.\<close>

definition schema_keys :: "wire_schema \<Rightarrow> string \<Rightarrow> string list" where
  "schema_keys s name = ''type'' # ''version'' #
     concat (map (\<lambda>m. map fst (wm_fields m)) (filter (\<lambda>m. wm_name m = name) (ws_messages s)))"

fun message_name :: "server_message \<Rightarrow> string" where
  "message_name (Palette p) = ''palette''"
| "message_name (Frame f) = ''frame''"
| "message_name (State s) = ''state''"
| "message_name (Media m) = ''media''"

fun json_keys :: "json \<Rightarrow> jstr list" where
  "json_keys (JObj kvs) = map fst kvs"
| "json_keys v = []"

text \<open>
  The generated vocabulary is current.  From the repository's schema the generator writes exactly
  the file \<open>web/wire_generated.ts\<close>; the constants and phases the client checks are the schema's, and the
  messages the client decodes carry the schema's fields, in its order.
\<close>

theorem generated_vocabulary_current:
  "gen_ts WIRE_SCHEMA = Inr WIRE_GENERATED \<and>
   ws_version WIRE_SCHEMA = WIRE_VERSION \<and> ws_width WIRE_SCHEMA = FRAME_WIDTH \<and> ws_height WIRE_SCHEMA = FRAME_HEIGHT \<and>
   map_of (wm_fields (ws_messages WIRE_SCHEMA ! 2)) ''phase''
     = Some (Choices [''booting'', ''flash-check'', ''channel-list'', ''ready'', ''halted'']) \<and>
   STATE_PHASES = map js [''booting'', ''flash-check'', ''channel-list'', ''ready'', ''halted''] \<and>
   json_keys (message_json m) = map js (schema_keys WIRE_SCHEMA (message_name m))"
proof -
  have "gen_ts WIRE_SCHEMA = Inr WIRE_GENERATED" by code_simp
  moreover have "json_keys (message_json m) = map js (schema_keys WIRE_SCHEMA (message_name m))"
    by (cases m) (simp_all add: schema_keys_def WIRE_SCHEMA_def)
  ultimately show ?thesis by (simp add: WIRE_SCHEMA_def STATE_PHASES_def)
qed

end
