(* ===== verification/Spec2Isabelle.thy ===== *)
theory Spec2Isabelle
  imports M16_Run M16_Disasm SkyHuffman Probe_Gates Probe_Asks Probe_Tables_Facts Probe_Date Probe_Story_Facts Probe_Payload_Facts Probe_Guide_Facts Probe_Message_Facts Probe_After_Copy_Facts Probe_Real_Facts Probe_Scroll Probe_Runner Oracle_Boot Web_Media Wire_Gen
begin

text \<open>
  A verification development for the JavaScript of GoRetroTV, an emulator of the Sky Digibox that boots the
  box's own firmware, the browser client that shows it, and the tools that measure it.

  \<^bold>\<open>The program and how its parts interact\<close>

  \<open>reference/mips16.js\<close> decodes, disassembles and executes MIPS16 code.  The emulator page
  \<open>reference/digibox-boot.html\<close> calls its \<open>step\<close> in a loop (\<open>burst\<close>), gives it the memory \<open>MEM\<close> and the
  decode \<open>Map\<close>, and evicts decodes from that \<open>Map\<close> when code is written.  The page offers \<open>window.__\<close>
  hooks; the probes of \<open>tools/probes\<close> are scripts run inside it by \<open>tools/digibox-probe.mjs\<close>, and the oracle
  captures \<open>tools/oracle-*.mjs\<close> patch \<open>burst\<close> itself.  The browser client \<open>web/app.ts\<close> talks to the server over a
  WebSocket in the vocabulary \<open>web/wire_generated.ts\<close>, which \<open>tools/gen-wire.mjs\<close> writes from
  \<open>schema/wire.json\<close>; \<open>web/wire.ts\<close> decodes it and \<open>web/screen.ts\<close> describes the screen.
  \<open>web/data/sky-huffman.js\<close> encodes the titles the listings carry.

  \<^bold>\<open>Theories and what they model\<close>

  \<^item> \<open>GRT_Prelude\<close>: JavaScript's number coercions and printing, byte lists, results that may throw, the
    collections of rewrite rules.
  \<^item> \<open>M16_Base\<close>, \<open>M16_Decode\<close>: register names, operand texts, EXTENDed immediates and \<open>decode\<close>, one definition
    per opcode group, with the check of the ISA level (\<open>gate\<close>) and \<open>decodeStrict\<close>.
  \<^item> \<open>M16_Disasm\<close>: the linear sweep \<open>disassemble\<close> with its delay-slot marks.
  \<^item> \<open>M16_Payload\<close>, \<open>M16_Exec\<close>, \<open>M16_ExecFacts\<close>: opcode ids and the normalised payload; the record \<open>cpu\<close>
    (\<open>newCpu\<close>), the memory object \<open>memops\<close>, every case of the switch of \<open>step\<close>, SAVE and RESTORE, \<open>mul64\<close>, the
    delay slot; the facts that hold of them for any memory.
  \<^item> \<open>M16_Step\<close>, \<open>M16_Cache\<close>: \<open>step\<close> with the decode \<open>Map\<close> and the address-keyed front cache in front of it; the
    locales of the two caches and the invariant between them.
  \<^item> \<open>Page_Memory\<close>, \<open>M16_Frames\<close>, \<open>Page_Cache\<close>, \<open>M16_Run\<close>: the page's DRAM with its two aliases, \<open>load\<close>, \<open>store\<close> and
    eviction; the frame round trip and the cache theorems on it, by interpretation of the locales; what a
    step does to the CPU.
  \<^item> \<open>SkyHuffman\<close>: dictionary, greedy encoder and packing, with the decoder of \<open>tools/skyepg/huffman.py\<close> as the
    other end.
  \<^item> \<open>Web_Wire\<close>, \<open>Wire_Gen\<close>: the strict message decoder and the client's messages; the generator of the
    vocabulary both ends use.
  \<^item> \<open>Web_Screen\<close>, \<open>Web_Client\<close>, \<open>Web_Session\<close>, \<open>Web_Picture\<close>, \<open>Web_Media\<close>: the screen describer; the page's
    variables as the record \<open>client\<close> with one definition per event handler; the inductive sessions of events a
    browser may deliver; the picture, the labels and the sound.
  \<^item> \<open>Probe_Base\<close>, \<open>Probe_Memory\<close>, \<open>Probe_Natives\<close>: the probes as actions (\<open>act\<close>) on a page state they see through
    the records of hooks \<open>page_api\<close> and its extensions; memory words; the tables of natives.
  \<^item> \<open>Probe_Census\<close> (\<open>module1-census.js\<close>, \<open>module1-timeline.js\<close>), \<open>Probe_Gates\<close> (\<open>census-with-gates-open.js\<close>),
    \<open>Probe_Sections\<close>, \<open>Probe_Day\<close>, \<open>Probe_Day_Feed\<close>, \<open>Probe_Day_Run\<close>, \<open>Probe_Day_Facts\<close>
    (\<open>send-the-day-the-guide-wants.js\<close>), \<open>Probe_Asks\<close> (\<open>feed-it-what-it-asks-for.js\<close>), \<open>Probe_Scroll\<close>
    (\<open>scroll-the-whole-guide.js\<close>), \<open>Probe_Titles\<close>, \<open>Probe_Titles_Facts\<close> (\<open>titles-and-summaries.js\<close>), \<open>Probe_Loop\<close>,
    \<open>Probe_Loop_Facts\<close> (\<open>which-tag-the-listings-loop-wants.js\<close>, \<open>does-0xbc-carry-the-programmes.js\<close>),
    \<open>Probe_Tables\<close>, \<open>Probe_Tables_Facts\<close> (\<open>which-tag-the-listings-loop-closes-the-sweep.js\<close>,
    \<open>does-0xb5-open-the-next-rung.js\<close>, \<open>what-is-table-0xa0.js\<close>), \<open>Probe_Date\<close>
    (\<open>is-the-signature-really-the-date.js\<close>): the probes, each up to its whole run and report.
  \<^item> \<open>Probe_Story\<close>, \<open>Probe_Story_Facts\<close>: the eight probes that feed the guide in a window of fixed length and press its
    keys before and after, \<open>how-far-do-the-titles-get.js\<close>, \<open>twelve-records-and-the-guide.js\<close>,
    \<open>clock-first-then-the-day-key.js\<close>, \<open>move-now-into-the-fed-day.js\<close>, \<open>the-linkage-the-guide-hunts-for.js\<close>,
    \<open>what-did-the-guide-subscribe-for.js\<close>, \<open>what-else-the-guide-asks.js\<close> and \<open>what-is-it-reaching-for.js\<close>, as one
    story told with different instruments.
  \<^item> \<open>Probe_Linkage\<close>, \<open>Probe_Linkage_Facts\<close> (\<open>where-the-linkage-takes-it.js\<close>): the guide's bytecode logged at two presses,
    and what of it only the second ran; \<open>Probe_Guide_Reads\<close>, \<open>Probe_Guide_Facts\<close> (\<open>what-the-guide-reads.js\<close>): the
    same log before and after listings, and where the two streams part; \<open>Probe_Payload\<close>, \<open>Probe_Payload_Facts\<close>
    (\<open>what-is-on-0xa1.js\<close>, \<open>listings-on-the-guide.js\<close>): the watched pass of the titles over any payload.
  \<^item> \<open>Probe_Message\<close>, \<open>Probe_Message_Facts\<close> (\<open>where-the-guide-says-no.js\<close>): the press watched together with the
    resources, and the data segment located and dumped; \<open>Probe_Real_Titles\<close>, \<open>Probe_Real_Facts\<close>
    (\<open>real-title-section-minimal-diff.js\<close>, \<open>real-title-section-vs-junk.js\<close>, \<open>feed-a-real-title-section.js\<close>): the same six
    title records sent in three ways.
  \<^item> \<open>Probe_Descriptors\<close>, \<open>Probe_Descriptors_Facts\<close> (\<open>which-descriptors.js\<close>), \<open>Probe_After_Copy\<close>,
    \<open>Probe_After_Copy_Facts\<close> (\<open>descriptors-after-the-copy.js\<close>), \<open>Probe_Bat_Walk\<close>, \<open>Probe_B1\<close>, \<open>Probe_Bat_Walk_Facts\<close>
    (\<open>which-tag-the-bat-walk-wants.js\<close>, \<open>b1-entry-layout.js\<close>): loops of descriptors in NITs and BATs, and who reads
    which of their bytes, in the ring and in the copies.
  \<^item> \<open>Probe_Reads\<close>: the page's \<open>__find\<close>, addresses printed and read back, and the table of who read which byte.
  \<^item> \<open>Probe_Runner\<close> (\<open>digibox-probe.mjs\<close>), \<open>Oracle_Args\<close>, \<open>Oracle_Capture\<close>, \<open>Oracle_Boot\<close>
    (\<open>oracle-section-acquisition.mjs\<close>, \<open>oracle-cold-boot-capture.mjs\<close>, \<open>oracle-warm-surface.mjs\<close>): command lines
    with \<open>Number\<close> of their texts, the schedule, the hooks in front of \<open>burst\<close>, the checks of a capture.

  \<^bold>\<open>How state and operations correspond to the code\<close>

  Definitions carry the names of the source's functions; a \<open>'\<close>, a suffix or a component's prefix sets apart a
  name that is taken.  Module variables of the client and of a probe are the fields of a record, a handler or a
  stage is a function from that record to that record, a \<open>throw\<close> is \<open>Inl\<close> of its text, and a value that may be
  \<open>null\<close> or \<open>undefined\<close> is an option.  Registers, addresses and hashes are \<open>32 word\<close>; a JavaScript number used as
  an integer is an \<open>int\<close>, with \<open>to_u32\<close> where the source writes \<open>>>> 0\<close>; times and sample positions are
  rationals.  Arguments stand for what is not in the repository's JavaScript: \<open>JSON.parse\<close>, SHA-256, the
  browser's sockets, timers and audio, \<open>gofmt\<close>, the page behind its hooks, and the page's devices behind
  \<open>load\<close> and \<open>store\<close>.

  \<^bold>\<open>What the groups of lemmas show\<close>

  \<^item> The executor: a step never raises and refuses without effect; a jump moves the PC only after its slot; the
    limb product is the 64-bit product; RESTORE undoes SAVE; a run with both caches is a run without them as
    long as code runs through the cached alias, and the exception is stated; the sweep tiles its input.
  \<^item> The client: what decodes is well formed and what is well formed decodes; one connection, or a reconnection
    that is due; keys, resets, labels and sound follow the state they should; a frame changes its rectangle and
    nothing else; a message that raises stops the client.
  \<^item> The codecs: title round trip, greedy segmentation, CRC as polynomial division, sections a receiver accepts,
    the two calendars against the page's own, the generated vocabulary against the schema.
  \<^item> The probes and captures: they raise when they should and only then, count every call, blit, section, event
    and screen once, name exactly the readers of a section and the tags of a loop, send only what they say they send, take their
    watches off, act on time and once, and end.  \<open>yields\<close> (\<open>Probe_Day_Facts\<close>), \<open>takes\<close> (\<open>Probe_Titles_Facts\<close>) and \<open>burst_invariant\<close> (\<open>Oracle_Capture\<close>) carry these proofs.

  \<^bold>\<open>Bounds and fuel\<close>

  Loops the source bounds are recursions on the number of turns left, with the source's bound: 300 and 900
  seconds for a settled box, 1600 polls for the boot, 60, 90 and 300 readings for the quiet EEPROM, ten feed
  rounds or five in a window of thirty seconds, thirteen screens.  The number of turns is the source's, so no theorem speaks of running out of fuel;
  the waits are proved to end.  \<open>radix_string\<close>, \<open>push_due\<close> and the sweep recurse on measures and are total.  A burst
  is counted by its own argument, and a capture's run is any list of bursts.  The theorems on captures are for
  a machine whose iterations retire at most \<open>k\<close> instructions; on the page \<open>k\<close> is 2, a branch with its slot.

  \<^bold>\<open>Not modelled\<close>

  The device models, the demodulator and the user interface of the emulator page, which is HTML with an inline
  script (its DRAM, aliases, eviction, \<open>__peek\<close>, \<open>__poke\<close>, \<open>__find\<close>, \<open>__pcHits\<close> and day number are modelled); the other
  probes under \<open>tools/probes\<close>, single-run measurements built from the same instruments; serving the patched page,
  driving the browser and writing files in the captures and the runner; the Playwright configurations; JSON dumps
  appended to error texts, quotients printed with two decimals and the prose headlines of the older probes' reports; the Go server and emulator, the Python and shell
  tools, the firmware.
\<close>

end
